(* ===== verification/Prelude.thy ===== *)
theory Prelude
  imports Main "HOL-Library.Word"
begin

text \<open>
  Shared vocabulary of the development: the machine-integer types of the Rust sources, the
  result type of its fallible operations (\<^verbatim>\<open>Result<(), E>\<close> on a mutated buffer) with the
  sequencing that the question-mark operator stands for, little-endian byte conversion, and
  the interface of a byte-stepped checksum, which the CRC-32 of the storage frame and the
  CRC-8 of the stepper-driver datagrams both provide.
\<close>

unbundle bit_operations_syntax

section \<open>Machine integers\<close>

type_synonym u8 = "8 word"
type_synonym u16 = "16 word"
type_synonym u32 = "32 word"
type_synonym u64 = "64 word"

named_theorems byte_simps \<open>rewrite rules for byte layouts\<close>
named_theorems step_simps \<open>unfolding rules for the operations of a component\<close>
named_theorems inv_intros \<open>preservation of a component's invariant by its operations\<close>

text \<open>Saturating arithmetic at a bound, on naturals and integers.\<close>

definition sat_add :: "nat \<Rightarrow> nat \<Rightarrow> nat \<Rightarrow> nat"
  where "sat_add hi a b = min hi (a + b)"

lemma sat_add_le [simp]: "sat_add hi a b \<le> hi"
  by (simp add: sat_add_def)

lemma sat_add_mono: "a \<le> hi \<Longrightarrow> a \<le> sat_add hi a b"
  by (simp add: sat_add_def)

lemma sat_add_exact: "a + b \<le> hi \<Longrightarrow> sat_add hi a b = a + b"
  by (simp add: sat_add_def)

section \<open>Fallible operations on a mutated value\<close>

text \<open>
  \<^verbatim>\<open>fn f(&mut s) -> Result<a, e>\<close> is a function to the new state and the result; the state is
  returned on the error path as well, since Rust keeps whatever was written before the error.
\<close>

type_synonym ('s, 'e, 'a) outcome = "'s \<times> ('e + 'a)"

fun and_then :: "('s, 'e, 'a) outcome \<Rightarrow> ('a \<Rightarrow> 's \<Rightarrow> ('s, 'e, 'b) outcome) \<Rightarrow> ('s, 'e, 'b) outcome"
  where
    "and_then (s, Inl e) k = (s, Inl e)"
  | "and_then (s, Inr a) k = k a s"

lemma and_then_ok:
  "and_then r k = (s', Inr b) \<longleftrightarrow> (\<exists>s a. r = (s, Inr a) \<and> k a s = (s', Inr b))"
  by (cases "(r, k)" rule: and_then.cases) auto

lemma and_then_err:
  "and_then r k = (s', Inl e) \<longleftrightarrow>
     r = (s', Inl e) \<or> (\<exists>s a. r = (s, Inr a) \<and> k a s = (s', Inl e))"
  by (cases "(r, k)" rule: and_then.cases) auto

section \<open>Little-endian bytes\<close>

definition le_bytes :: "nat \<Rightarrow> 'a::len word \<Rightarrow> u8 list"
  where "le_bytes n w = map (\<lambda>i. ucast (drop_bit (8 * i) w)) [0..<n]"

primrec of_le_bytes :: "u8 list \<Rightarrow> 'a::len word"
  where
    "of_le_bytes [] = 0"
  | "of_le_bytes (b # bs) = ucast b OR push_bit 8 (of_le_bytes bs)"

lemma length_le_bytes [simp, byte_simps]: "length (le_bytes n w) = n"
  by (simp add: le_bytes_def)

lemma le_bytes_2: "le_bytes 2 w = [ucast w, ucast (drop_bit 8 w)]"
  by (simp add: le_bytes_def numeral_2_eq_2)

lemma le_bytes_4:
  "le_bytes 4 w = [ucast w, ucast (drop_bit 8 w), ucast (drop_bit 16 w), ucast (drop_bit 24 w)]"
  by (simp add: le_bytes_def upt_rec)

lemma no_bit_u8 [simp]: "8 \<le> n \<Longrightarrow> \<not> bit (b :: u8) n"
  by (auto dest: bit_imp_le_length)

lemma of_le_bytes_u16 [simp, byte_simps]: "of_le_bytes (le_bytes 2 (w :: u16)) = w"
  by (rule bit_word_eqI) (auto simp: le_bytes_2 bit_simps)

lemma of_le_bytes_u32 [simp, byte_simps]: "of_le_bytes (le_bytes 4 (w :: u32)) = w"
proof (rule bit_word_eqI)
  fix n
  assume "n < LENGTH(32)"
  then show "bit (of_le_bytes (le_bytes 4 w) :: u32) n \<longleftrightarrow> bit w n"
    by (cases "n < 24"; cases "n < 16") (auto simp: le_bytes_4 bit_simps not_less le_diff_conv2)
qed

lemma le_bytes_of_u16:
  "le_bytes 2 (of_le_bytes [a, b] :: u16) = [a, b]"
  by (auto simp: le_bytes_2 bit_simps intro!: bit_word_eqI)

lemma le_bytes_of_u32:
  "le_bytes 4 (of_le_bytes [a, b, c, d] :: u32) = [a, b, c, d]"
  by (auto simp: le_bytes_4 bit_simps intro!: bit_word_eqI)

lemma ucast_u8_inj [simp]: "(ucast b :: u32) = ucast b' \<longleftrightarrow> b = (b' :: u8)"
proof
  assume eq: "(ucast b :: u32) = ucast b'"
  show "b = b'"
  proof (rule bit_word_eqI)
    fix n
    assume "n < LENGTH(8)"
    moreover from eq have "bit (ucast b :: u32) n \<longleftrightarrow> bit (ucast b' :: u32) n" by simp
    ultimately show "bit b n \<longleftrightarrow> bit b' n" by (simp add: bit_simps)
  qed
qed simp

lemma unat_u16_le: "unat (w :: u16) \<le> 0xFFFF"
  using unsigned_less [of w, where 'a = nat] by simp

lemma unat_u8_le: "unat (w :: u8) \<le> 0xFF"
  using unsigned_less [of w, where 'a = nat] by simp

lemma append_split: "xs @ us = ys @ vs \<Longrightarrow> length xs = length ys \<Longrightarrow> xs = ys \<and> us = vs"
  by simp

lemma xor_right_cancel: "a XOR x = b XOR x \<longleftrightarrow> a = (b :: 'a::len word)"
proof
  assume "a XOR x = b XOR x"
  then have "(a XOR x) XOR x = (b XOR x) XOR x" by simp
  then show "a = b" by (simp add: xor.assoc)
qed simp

lemma xor_left_cancel: "x XOR a = x XOR b \<longleftrightarrow> a = (b :: 'a::len word)"
  using xor_right_cancel [of a x b] by (simp add: xor.commute)

lemma list_of_length_2: "length xs = 2 \<longleftrightarrow> (\<exists>a b. xs = [a, b])"
  by (auto simp: numeral_2_eq_2 length_Suc_conv)

lemma list_of_length_4: "length xs = 4 \<longleftrightarrow> (\<exists>a b c d. xs = [a, b, c, d])"
  by (auto simp: numeral_eq_Suc length_Suc_conv)

lemma of_le_bytes_u16_eq_iff:
  assumes "length xs = 2"
  shows "of_le_bytes xs = (w :: u16) \<longleftrightarrow> xs = le_bytes 2 w"
  using assms le_bytes_of_u16 by (auto simp: list_of_length_2)

lemma of_le_bytes_u32_eq_iff:
  assumes "length xs = 4"
  shows "of_le_bytes xs = (w :: u32) \<longleftrightarrow> xs = le_bytes 4 w"
  using assms le_bytes_of_u32 by (auto simp: list_of_length_4)

section \<open>Byte-stepped checksums\<close>

text \<open>
  The interface of a checksum that folds a step over the bytes of a message: the step loses
  neither the running value nor the byte it consumes.  That is all the error-detection
  argument below needs.
\<close>

locale byte_checksum =
  fixes cstep :: "'s \<Rightarrow> u8 \<Rightarrow> 's"
  assumes step_state_inj: "cstep s b = cstep s' b \<Longrightarrow> s = s'"
    and step_byte_inj: "cstep s b = cstep s b' \<Longrightarrow> b = b'"
begin

lemma run_state_inj: "foldl cstep s bs = foldl cstep s' bs \<Longrightarrow> s = s'"
  by (induction bs arbitrary: s s') (auto dest: step_state_inj)

lemma run_detects_substitution:
  assumes "foldl cstep s (pre @ b # post) = foldl cstep s (pre @ b' # post)"
  shows "b = b'"
proof -
  from assms have "cstep (foldl cstep s pre) b = cstep (foldl cstep s pre) b'"
    by (auto dest: run_state_inj)
  then show ?thesis by (rule step_byte_inj)
qed

lemma run_detects_update:
  assumes "i < length bs" and "foldl cstep s (bs[i := b]) = foldl cstep s bs"
  shows "bs[i := b] = bs"
proof -
  from assms have "foldl cstep s (take i bs @ b # drop (Suc i) bs) =
      foldl cstep s (take i bs @ bs ! i # drop (Suc i) bs)"
    by (simp add: upd_conv_take_nth_drop id_take_nth_drop [symmetric])
  then have "b = bs ! i" by (rule run_detects_substitution)
  then show ?thesis by simp
qed

end

section \<open>Machines with outputs\<close>

text \<open>
  A component driven by inputs is a step function to the new state and the outputs it emits;
  \<^verbatim>\<open>run_steps\<close> feeds it a list of inputs and collects the outputs in order.  The locale
  \<^verbatim>\<open>invariant_machine\<close> lifts an invariant of the step to every run.
\<close>

fun run_steps :: "('s \<Rightarrow> 'i \<Rightarrow> 's \<times> 'o list) \<Rightarrow> 's \<Rightarrow> 'i list \<Rightarrow> 's \<times> 'o list"
  where
    "run_steps step s [] = (s, [])"
  | "run_steps step s (b # bs) =
      (let (s1, out1) = step s b; (s2, out2) = run_steps step s1 bs in (s2, out1 @ out2))"

lemma run_steps_Cons [simp]:
  "fst (run_steps step s (b # bs)) = fst (run_steps step (fst (step s b)) bs)"
  "snd (run_steps step s (b # bs)) = snd (step s b) @ snd (run_steps step (fst (step s b)) bs)"
  by (simp_all add: case_prod_beta Let_def)

lemma run_steps_append:
  "run_steps step s (bs @ cs) =
     (fst (run_steps step (fst (run_steps step s bs)) cs),
      snd (run_steps step s bs) @ snd (run_steps step (fst (run_steps step s bs)) cs))"
  by (induction bs arbitrary: s) (simp_all add: case_prod_beta Let_def)

locale invariant_machine =
  fixes step :: "'s \<Rightarrow> 'i \<Rightarrow> 's \<times> 'o list"
    and inv :: "'s \<Rightarrow> bool"
  assumes inv_step: "inv s \<Longrightarrow> inv (fst (step s i))"
begin

lemma inv_run: "inv s \<Longrightarrow> inv (fst (run_steps step s is))"
  by (induction "is" arbitrary: s) (simp_all only: run_steps_Cons run_steps.simps(1) fst_conv inv_step)

lemma outputs_run:
  assumes "\<And>s i. inv s \<Longrightarrow> Q i \<Longrightarrow> list_all P (snd (step s i))"
    and "inv s" and "list_all Q is"
  shows "list_all P (snd (run_steps step s is))"
  using assms(2,3)
proof (induction "is" arbitrary: s)
  case (Cons i "is")
  with assms(1) [of s i] inv_step [of s i] show ?case by (simp del: run_steps.simps)
qed simp

end

end
