(* ===== verification/Storage_Frame.thy ===== *)
theory Storage_Frame
  imports Prelude
begin

text \<open>
  \<^verbatim>\<open>crates/firmware-core/src/storage_frame.rs\<close>: the versioned, CRC-checked frame that wraps
  every persisted record (settings and coordinates).  A \<^verbatim>\<open>heapless::Vec<u8, N>\<close> is its list of
  bytes together with the capacity \<^verbatim>\<open>N\<close>, passed first; \<^verbatim>\<open>usize\<close> lengths are \<^verbatim>\<open>nat\<close>.
\<close>

section \<open>Buffers with a capacity\<close>

datatype CodecError = BufferFull | BadLength | BadMagic | BadVersion | BadCrc | BadPayload

definition push_byte :: "nat \<Rightarrow> u8 \<Rightarrow> u8 list \<Rightarrow> (u8 list, CodecError, unit) outcome"
  where "push_byte cap byte out =
    (if length out < cap then (out @ [byte], Inr ()) else (out, Inl BufferFull))"

definition push_slice :: "nat \<Rightarrow> u8 list \<Rightarrow> u8 list \<Rightarrow> (u8 list, CodecError, unit) outcome"
  where "push_slice cap bytes out =
    (if length out + length bytes \<le> cap then (out @ bytes, Inr ()) else (out, Inl BufferFull))"

lemma push_byte_ok [simp]:
  "push_byte cap b out = (out', Inr u) \<longleftrightarrow> out' = out @ [b] \<and> length out < cap"
  by (auto simp: push_byte_def)

lemma push_slice_ok [simp]:
  "push_slice cap bs out = (out', Inr u) \<longleftrightarrow> out' = out @ bs \<and> length out + length bs \<le> cap"
  by (auto simp: push_slice_def)

lemma push_err [simp]:
  "push_byte cap b out = (out', Inl e) \<longleftrightarrow> out' = out \<and> e = BufferFull \<and> cap \<le> length out"
  "push_slice cap bs out = (out', Inl e) \<longleftrightarrow> out' = out \<and> e = BufferFull \<and> cap < length out + length bs"
  by (auto simp: push_byte_def push_slice_def)

section \<open>CRC-32\<close>

definition crc32_shift :: "u32 \<Rightarrow> u32"
  where "crc32_shift crc = (let mask = - (crc AND 1) in drop_bit 1 crc XOR (0xEDB88320 AND mask))"

definition crc32_byte :: "u32 \<Rightarrow> u8 \<Rightarrow> u32"
  where "crc32_byte crc byte = (crc32_shift ^^ 8) (crc XOR ucast byte)"

definition crc32 :: "u8 list \<Rightarrow> u32"
  where "crc32 data = NOT (foldl crc32_byte 0xFFFFFFFF data)"

text \<open>The shift register step can be undone: the polynomial has its top bit set.\<close>

lemma crc32_shift_if:
  "crc32_shift c = (if bit c 0 then drop_bit 1 c XOR 0xEDB88320 else drop_bit 1 c)"
proof (cases "bit c 0")
  case True
  then have "c AND 1 = 1" by (simp add: and_one_eq mod_2_eq_odd bit_0)
  with True show ?thesis by (simp add: crc32_shift_def)
next
  case False
  then have "c AND 1 = 0" by (simp add: and_one_eq mod_2_eq_odd bit_0)
  with False show ?thesis by (simp add: crc32_shift_def)
qed

lemma drop_bit_1_low_inj:
  assumes "drop_bit 1 c = drop_bit 1 d" and "bit c 0 \<longleftrightarrow> bit d 0"
  shows "c = (d :: 'a::len word)"
proof (rule bit_word_eqI)
  fix n
  show "bit c n \<longleftrightarrow> bit d n"
  proof (cases n)
    case (Suc m)
    from assms(1) have "bit (drop_bit 1 c) m \<longleftrightarrow> bit (drop_bit 1 d) m" by simp
    with Suc show ?thesis by (simp add: bit_simps)
  qed (use assms(2) in simp)
qed

lemma bit_31_crc32_shift: "bit (crc32_shift c) 31 \<longleftrightarrow> bit c 0"
  by (auto simp: crc32_shift_if bit_simps dest: bit_imp_le_length)

lemma crc32_shift_inj: "crc32_shift c = crc32_shift d \<Longrightarrow> c = d"
proof -
  assume eq: "crc32_shift c = crc32_shift d"
  then have low: "bit c 0 \<longleftrightarrow> bit d 0"
    using bit_31_crc32_shift [of c] bit_31_crc32_shift [of d] by simp
  from eq low have "drop_bit 1 c = drop_bit 1 d"
    by (cases "bit c 0") (simp_all add: crc32_shift_if xor_right_cancel)
  then show ?thesis using low by (rule drop_bit_1_low_inj)
qed

lemma crc32_shift_8_inj: "(crc32_shift ^^ 8) c = (crc32_shift ^^ 8) d \<Longrightarrow> c = d"
proof -
  have "inj crc32_shift" by (rule injI) (rule crc32_shift_inj)
  then have "inj (crc32_shift ^^ 8)" by (rule inj_fn)
  then show "(crc32_shift ^^ 8) c = (crc32_shift ^^ 8) d \<Longrightarrow> c = d" by (rule injD)
qed

interpretation crc32_sum: byte_checksum crc32_byte
proof unfold_locales
  fix s s' :: u32 and b b' :: u8
  show "crc32_byte s b = crc32_byte s' b \<Longrightarrow> s = s'"
    by (auto simp: crc32_byte_def xor_right_cancel dest: crc32_shift_8_inj)
  assume "crc32_byte s b = crc32_byte s b'"
  then show "b = b'"
    by (auto simp: crc32_byte_def xor_left_cancel dest!: crc32_shift_8_inj)
qed

section \<open>Writing and reading a frame\<close>

definition FRAME_OVERHEAD :: nat
  where "FRAME_OVERHEAD = 11"

definition HEADER_LEN :: nat
  where "HEADER_LEN = 7"

text \<open>
  \<^verbatim>\<open>frame\<close> takes the writer of the payload as an argument, a closure that appends to the
  buffer or fails; the buffer keeps what was written before a failure.
\<close>

definition frame ::
    "nat \<Rightarrow> u32 \<Rightarrow> u8 \<Rightarrow> nat \<Rightarrow> u8 list \<Rightarrow>
     (u8 list \<Rightarrow> (u8 list, CodecError, unit) outcome) \<Rightarrow> (u8 list, CodecError, unit) outcome"
  where "frame cap magic version payload_len out encode_payload =
    (let out = [] in
     if payload_len > 0xFFFF then (out, Inl BadLength)
     else
       and_then (push_slice cap (le_bytes 4 magic) out) (\<lambda>_ out.
       and_then (push_byte cap version out) (\<lambda>_ out.
       and_then (push_slice cap (le_bytes 2 (of_nat payload_len :: u16)) out) (\<lambda>_ out.
       and_then (encode_payload out) (\<lambda>_ out.
       let crc = crc32 out in
       and_then (push_slice cap (le_bytes 4 crc) out) (\<lambda>_ out. (out, Inr ())))))))"

definition unframe :: "u32 \<Rightarrow> u8 \<Rightarrow> u8 list \<Rightarrow> CodecError + u8 list"
  where "unframe magic version frame_bytes =
    (if length frame_bytes < FRAME_OVERHEAD then Inl BadLength
     else if of_le_bytes (take 4 frame_bytes) \<noteq> magic then Inl BadMagic
     else if frame_bytes ! 4 \<noteq> version then Inl BadVersion
     else
       let payload_len = unat (of_le_bytes [frame_bytes ! 5, frame_bytes ! 6] :: u16);
           payload_end = HEADER_LEN + payload_len
       in if length frame_bytes \<noteq> payload_end + 4 then Inl BadLength
          else
            let expected_crc = of_le_bytes (take 4 (drop payload_end frame_bytes))
            in if crc32 (take payload_end frame_bytes) \<noteq> expected_crc then Inl BadCrc
               else Inr (drop HEADER_LEN (take payload_end frame_bytes)))"

datatype FrameProgress = NeedMore | BadHeader | Total nat

definition frame_progress :: "u32 \<Rightarrow> u8 \<Rightarrow> nat \<Rightarrow> u8 list \<Rightarrow> FrameProgress"
  where "frame_progress magic version frame_max_len buf =
    (if length buf < HEADER_LEN then NeedMore
     else if of_le_bytes (take 4 buf) \<noteq> magic \<or> buf ! 4 \<noteq> version then BadHeader
     else
       let payload_len = unat (of_le_bytes [buf ! 5, buf ! 6] :: u16);
           total = HEADER_LEN + payload_len + 4
       in if total > frame_max_len then BadHeader else Total total)"

section \<open>The layout of a frame\<close>

text \<open>The bytes a frame holds, written once without the buffer.\<close>

definition frame_header :: "u32 \<Rightarrow> u8 \<Rightarrow> nat \<Rightarrow> u8 list"
  where "frame_header magic version n =
    le_bytes 4 magic @ [version] @ le_bytes 2 (of_nat n :: u16)"

definition frame_image :: "u32 \<Rightarrow> u8 \<Rightarrow> u8 list \<Rightarrow> u8 list"
  where "frame_image magic version payload =
    (let body = frame_header magic version (length payload) @ payload
     in body @ le_bytes 4 (crc32 body))"

lemma length_frame_header [simp]: "length (frame_header m v n) = 7"
  by (simp add: frame_header_def)

lemma length_frame_image [simp]: "length (frame_image m v p) = length p + FRAME_OVERHEAD"
  by (simp add: frame_image_def Let_def FRAME_OVERHEAD_def)

lemma frame_header_fields:
  assumes "n \<le> 0xFFFF"
  shows "of_le_bytes (take 4 (frame_header m v n @ rest)) = m"
    and "(frame_header m v n @ rest) ! 4 = v"
    and "unat (of_le_bytes [(frame_header m v n @ rest) ! 5, (frame_header m v n @ rest) ! 6] :: u16) = n"
proof -
  have "le_bytes 2 (of_nat n :: u16) = [le_bytes 2 (of_nat n :: u16) ! 0, le_bytes 2 (of_nat n :: u16) ! 1]"
    by (simp add: le_bytes_2)
  then have "of_le_bytes [le_bytes 2 (of_nat n :: u16) ! 0, le_bytes 2 (of_nat n :: u16) ! 1] = (of_nat n :: u16)"
    by (metis of_le_bytes_u16)
  moreover have "unat (of_nat n :: u16) = n"
    using assms by (simp add: unsigned_of_nat take_bit_nat_eq_self)
  ultimately show "unat (of_le_bytes [(frame_header m v n @ rest) ! 5,
      (frame_header m v n @ rest) ! 6] :: u16) = n"
    by (simp add: frame_header_def nth_append)
qed (simp_all add: frame_header_def nth_append)

text \<open>The frame is written whole or the buffer was too small; nothing else can fail.\<close>

definition declared_image :: "u32 \<Rightarrow> u8 \<Rightarrow> nat \<Rightarrow> u8 list \<Rightarrow> u8 list"
  where "declared_image magic version n payload =
    (let body = frame_header magic version n @ payload in body @ le_bytes 4 (crc32 body))"

lemma declared_image_length: "declared_image m v (length p) p = frame_image m v p"
  by (simp add: declared_image_def frame_image_def)

lemma frame_ok_iff:
  "frame cap m v n out0 (push_slice cap p) = (bs, Inr u) \<longleftrightarrow>
     n \<le> 0xFFFF \<and> length p + FRAME_OVERHEAD \<le> cap \<and> bs = declared_image m v n p"
  by (auto simp: frame_def and_then_ok declared_image_def frame_header_def Let_def FRAME_OVERHEAD_def)

lemma frame_err_iff:
  "snd (frame cap m v n out0 (push_slice cap p)) = Inl e \<longleftrightarrow>
     (if 0xFFFF < n then e = BadLength else cap < length p + FRAME_OVERHEAD \<and> e = BufferFull)"
  by (auto simp: frame_def push_slice_def push_byte_def Let_def FRAME_OVERHEAD_def)

lemma unframe_trailing:
  assumes "length p \<le> 0xFFFF" and "x \<noteq> []"
  shows "unframe m v (frame_image m v p @ x) = Inl BadLength"
proof -
  let ?h = "frame_header m v (length p)"
  have "frame_image m v p @ x = ?h @ p @ le_bytes 4 (crc32 (?h @ p)) @ x"
    by (simp add: frame_image_def Let_def)
  then show ?thesis
    using frame_header_fields [OF assms(1), of m v "p @ le_bytes 4 (crc32 (?h @ p)) @ x"] assms(2)
    by (simp add: unframe_def HEADER_LEN_def FRAME_OVERHEAD_def Let_def)
qed

lemma unframe_frame_image:
  assumes "length p \<le> 0xFFFF"
  shows "unframe m v (frame_image m v p) = Inr p"
proof -
  let ?h = "frame_header m v (length p)"
  have "frame_image m v p = ?h @ p @ le_bytes 4 (crc32 (?h @ p))"
    by (simp add: frame_image_def Let_def)
  then show ?thesis
    using frame_header_fields [OF assms, of m v "p @ le_bytes 4 (crc32 (?h @ p))"]
    by (simp add: unframe_def HEADER_LEN_def FRAME_OVERHEAD_def Let_def)
qed

text \<open>Reading back: whatever \<^verbatim>\<open>unframe\<close> accepts is exactly the frame of its payload.\<close>

lemma take_7_decomp:
  assumes "7 \<le> length xs"
  shows "take 7 xs = take 4 xs @ [xs ! 4] @ [xs ! 5, xs ! 6]"
  using assms by (simp add: take_Suc_conv_app_nth numeral_eq_Suc)

lemma unframe_ok_image:
  assumes "unframe m v bs = Inr p"
  shows "bs = frame_image m v p \<and> length p \<le> 0xFFFF"
proof -
  let ?n = "unat (of_le_bytes [bs ! 5, bs ! 6] :: u16)"
  from assms have len: "length bs = 7 + ?n + 4" and magic: "of_le_bytes (take 4 bs) = m"
    and ver: "bs ! 4 = v" and crc: "crc32 (take (7 + ?n) bs) = of_le_bytes (take 4 (drop (7 + ?n) bs))"
    and p: "p = drop 7 (take (7 + ?n) bs)"
    by (auto simp: unframe_def HEADER_LEN_def Let_def split: if_splits)
  from p len have np: "length p = ?n" by simp
  have bound: "?n \<le> 0xFFFF"
    using unat_u16_le [of "of_le_bytes [bs ! 5, bs ! 6] :: u16"] by simp
  have "of_nat (length p) = (of_le_bytes [bs ! 5, bs ! 6] :: u16)" by (simp add: np)
  then have lenbytes: "le_bytes 2 (of_nat (length p) :: u16) = [bs ! 5, bs ! 6]"
    by (simp only: le_bytes_of_u16)
  have magicbytes: "le_bytes 4 m = take 4 bs"
    using magic of_le_bytes_u32_eq_iff [of "take 4 bs" m] len by simp
  have head: "frame_header m v (length p) = take 7 bs"
    using take_7_decomp [of bs] len magicbytes lenbytes ver by (simp add: frame_header_def)
  have body: "take 7 bs @ p = take (7 + ?n) bs"
    using p by (metis append_take_drop_id le_add1 min.absorb1 take_take)
  have tail: "le_bytes 4 (crc32 (take (7 + ?n) bs)) = drop (7 + ?n) bs"
    using crc of_le_bytes_u32_eq_iff [of "drop (7 + ?n) bs" "crc32 (take (7 + ?n) bs)"] len by simp
  have "frame_image m v p = take (7 + ?n) bs @ drop (7 + ?n) bs"
    by (simp only: frame_image_def Let_def head body tail)
  then show ?thesis using bound np by simp
qed

lemma crc32_update:
  assumes "i < length bs" and "crc32 (bs[i := b]) = crc32 bs"
  shows "bs[i := b] = bs"
proof (rule crc32_sum.run_detects_update [OF assms(1)])
  from assms(2) show "foldl crc32_byte 0xFFFFFFFF (bs[i := b]) = foldl crc32_byte 0xFFFFFFFF bs"
    by (simp add: crc32_def)
qed

text \<open>Replacing one byte of a frame leaves no accepted frame of the same kind.\<close>

lemma unframe_update_err:
  assumes ok: "unframe m v bs = Inr p" and i: "i < length bs" and chg: "b \<noteq> bs ! i"
  shows "\<exists>e. unframe m v (bs[i := b]) = Inl e"
proof (cases "unframe m v (bs[i := b])")
  case (Inr p')
  let ?k = "length p"
  from unframe_ok_image [OF Inr] have img': "bs[i := b] = frame_image m v p'" by simp
  from unframe_ok_image [OF ok] have img: "bs = frame_image m v p" by simp
  from img img' have len: "length p' = length p" by (metis add_right_cancel length_frame_image length_list_update)
  define h where "h = frame_header m v ?k"
  have bs: "bs = (h @ p) @ le_bytes 4 (crc32 (h @ p))"
    by (simp add: img frame_image_def Let_def h_def)
  have bs': "bs[i := b] = (h @ p') @ le_bytes 4 (crc32 (h @ p'))"
    by (simp add: img' frame_image_def Let_def h_def len)
  have lens: "length (h @ p) = 7 + ?k" "length (h @ p') = 7 + ?k" by (simp_all add: h_def len)
  have "bs[i := b] = bs"
  proof (cases "i < 7 + ?k")
    case True
    have "(h @ p)[i := b] @ le_bytes 4 (crc32 (h @ p)) = (h @ p') @ le_bytes 4 (crc32 (h @ p'))"
      using bs bs' True lens by (metis list_update_append1)
    moreover have "length ((h @ p)[i := b]) = length (h @ p')" using lens by simp
    ultimately have up: "(h @ p)[i := b] = h @ p'"
      and "le_bytes 4 (crc32 (h @ p)) = le_bytes 4 (crc32 (h @ p'))"
      by (blast dest: append_split)+
    then have "crc32 (h @ p) = crc32 (h @ p')" by (metis of_le_bytes_u32)
    with up have "(h @ p)[i := b] = h @ p"
      using crc32_update [of i "h @ p" b] True lens by simp
    with up have "p' = p" by simp
    then show ?thesis using bs bs' by simp
  next
    case False
    have "((h @ p) @ le_bytes 4 (crc32 (h @ p)))[i := b] =
        (h @ p) @ (le_bytes 4 (crc32 (h @ p)))[i - (7 + ?k) := b]"
      by (simp only: list_update_append lens False if_False)
    with bs bs' have "(h @ p) @ (le_bytes 4 (crc32 (h @ p)))[i - (7 + ?k) := b] =
        (h @ p') @ le_bytes 4 (crc32 (h @ p'))" by metis
    from append_split [OF this] have "p' = p" using lens by simp
    then show ?thesis using bs bs' by simp
  qed
  with i chg show ?thesis by (metis nth_list_update_eq)
qed simp

lemma unframe_iff_image:
  "unframe m v bs = Inr p \<longleftrightarrow> bs = frame_image m v p \<and> length p \<le> 0xFFFF"
  using unframe_frame_image unframe_ok_image by blast

lemma unframe_declared_length:
  assumes "n \<le> 0xFFFF" and "length p \<noteq> n"
  shows "unframe m v (declared_image m v n p) = Inl BadLength"
proof -
  let ?h = "frame_header m v n"
  have "declared_image m v n p = ?h @ p @ le_bytes 4 (crc32 (?h @ p))"
    by (simp add: declared_image_def Let_def)
  then show ?thesis
    using frame_header_fields [OF assms(1), of m v "p @ le_bytes 4 (crc32 (?h @ p))"] assms(2)
    by (simp add: unframe_def HEADER_LEN_def FRAME_OVERHEAD_def Let_def)
qed

lemma frame_progress_prefix:
  assumes "length p \<le> 0xFFFF"
  shows "frame_progress m v maxlen (take k (frame_image m v p)) =
    (if k < HEADER_LEN then NeedMore
     else if maxlen < length p + FRAME_OVERHEAD then BadHeader
     else Total (length p + FRAME_OVERHEAD))"
proof (cases "k < HEADER_LEN")
  case True
  then show ?thesis by (simp add: frame_progress_def FRAME_OVERHEAD_def HEADER_LEN_def)
next
  case False
  let ?h = "frame_header m v (length p)"
  have "take k (frame_image m v p) = ?h @ take (k - 7) (p @ le_bytes 4 (crc32 (?h @ p)))"
    using False by (simp add: frame_image_def Let_def HEADER_LEN_def)
  then show ?thesis
    using False frame_header_fields [OF assms, of m v "take (k - 7) (p @ le_bytes 4 (crc32 (?h @ p)))"]
    by (simp add: frame_progress_def HEADER_LEN_def FRAME_OVERHEAD_def Let_def)
qed

section \<open>Properties\<close>

text \<open>
  C27: writing a record and reading it back.  \<^verbatim>\<open>frame\<close> succeeds exactly when the payload length
  fits the 16-bit field and the buffer holds the payload and its overhead, whatever the buffer
  held before, and \<^verbatim>\<open>unframe\<close> with the same magic and version then returns the payload; the record with
  anything after it is refused for its length.
\<close>

theorem frame_unframe_roundtrip:
  assumes "frame cap m v (length p) out0 (push_slice cap p) = (bs, r)"
  shows "(r = Inr () \<longleftrightarrow> length p \<le> 0xFFFF \<and> length p + FRAME_OVERHEAD \<le> cap)
    \<and> (r = Inr () \<longrightarrow> unframe m v bs = Inr p \<and> length bs = length p + FRAME_OVERHEAD \<and>
         (\<forall>x. x \<noteq> [] \<longrightarrow> unframe m v (bs @ x) = Inl BadLength))"
proof (cases r)
  case (Inl e)
  with assms frame_err_iff [of cap m v "length p" out0 p e] show ?thesis by (auto split: if_splits)
next
  case (Inr u)
  with assms show ?thesis
    by (auto simp: frame_ok_iff declared_image_length unframe_frame_image unframe_trailing)
qed

theorem frame_unframe_roundtrip_witness:
  "unframe 0x12345678 1 (fst (frame 64 0x12345678 1 (length [0xAA, 0xBB, 0xCC]) [7]
      (push_slice 64 [0xAA, 0xBB, 0xCC]))) = Inr [0xAA, 0xBB, 0xCC]"
  using frame_unframe_roundtrip [of 64 "0x12345678" 1 "[0xAA, 0xBB, 0xCC]" "[7]"
      "fst (frame 64 0x12345678 1 (length [0xAA, 0xBB, 0xCC]) [7] (push_slice 64 [0xAA, 0xBB, 0xCC]))"
      "snd (frame 64 0x12345678 1 (length [0xAA, 0xBB, 0xCC]) [7] (push_slice 64 [0xAA, 0xBB, 0xCC]))"]
  by (simp add: FRAME_OVERHEAD_def)

text \<open>
  corruption of a stored record is noticed.  If a byte string is an accepted record, then
  the string with any one byte replaced by a different value is refused, whichever byte it is
  (magic, version, length, payload or checksum).
\<close>

theorem unframe_detects_corrupt_byte:
  assumes "unframe m v bs = Inr p" and "i < length bs" and "b \<noteq> bs ! i"
  shows "\<exists>e. unframe m v (bs[i := b]) = Inl e"
  using assms by (rule unframe_update_err)

theorem unframe_detects_corrupt_byte_witness:
  "\<exists>e. unframe 0x01020304 2 ((frame_image 0x01020304 2 [5, 6])[8 := 0]) = Inl e"
  by (rule unframe_detects_corrupt_byte [OF unframe_frame_image])
     (simp_all add: FRAME_OVERHEAD_def frame_image_def frame_header_def Let_def nth_append le_bytes_4 le_bytes_2)

text \<open>
  what \<^verbatim>\<open>unframe\<close> accepts is exactly what \<^verbatim>\<open>frame\<close> writes: no other byte string, of any
  length, is taken for a record of that kind with that payload.
\<close>

theorem unframe_accepts_only_frames:
  "unframe m v bs = Inr p \<longleftrightarrow>
     frame (length bs) m v (length p) [] (push_slice (length bs) p) = (bs, Inr ())"
  by (auto simp: unframe_iff_image frame_ok_iff declared_image_length)

text \<open>
  a payload writer that appends a different number of bytes than it declared yields a
  frame that is never read back: \<^verbatim>\<open>unframe\<close> refuses it on its length, before the checksum is
  looked at.
\<close>

theorem frame_wrong_declared_length:
  assumes "frame cap m v n out0 (push_slice cap p) = (bs, Inr ())" and "length p \<noteq> n"
  shows "unframe m v bs = Inl BadLength"
  using assms by (auto simp: frame_ok_iff unframe_declared_length)

theorem frame_wrong_declared_length_witness:
  "unframe 1 1 (declared_image 1 1 3 [1, 2, 3, 4, 5]) = Inl BadLength"
  by (rule frame_wrong_declared_length [of 32 _ _ 3 "[]" "[1, 2, 3, 4, 5]"])
     (simp_all add: frame_ok_iff FRAME_OVERHEAD_def)

text \<open>
  the chunked receiver.  On every prefix of a record that \<^verbatim>\<open>unframe\<close> accepts and that fits
  the record kind's maximum, \<^verbatim>\<open>frame_progress\<close> asks for more until the seven header bytes are
  there and from then on reports the record's exact length.
\<close>

theorem frame_progress_reports_length:
  assumes "unframe m v bs = Inr p" and "length bs \<le> maxlen"
  shows "frame_progress m v maxlen (take k bs) =
    (if k < HEADER_LEN then NeedMore else Total (length bs))"
  using assms by (auto simp: unframe_iff_image frame_progress_prefix)

theorem frame_progress_reports_length_witness:
  "frame_progress 9 1 64 (take 7 (frame_image 9 1 [1, 2])) = Total 13"
  using frame_progress_reports_length [OF unframe_frame_image, of "[1, 2]" 9 1 64 7]
  by (simp add: FRAME_OVERHEAD_def HEADER_LEN_def)

end
