(* ===== verification/Flow_Window.thy ===== *)
theory Flow_Window
  imports Prelude
begin

text \<open>
  \<^verbatim>\<open>crates/skirnir/src/protocol/flow.rs\<close>: the host's character-counting send-ahead window.
  \<^verbatim>\<open>usize\<close> is \<^verbatim>\<open>nat\<close>; a subtraction below zero, which panics in a debug build and wraps in a
  release build, is the result \<^verbatim>\<open>None\<close>.  The locale \<^verbatim>\<open>fifo_credit\<close> is the contract the protocol
  core relies on: bytes are freed in the order they were sent.
\<close>

section \<open>The contract\<close>

datatype credit_op = Send nat | Ack

locale fifo_credit =
  fixes pending :: "'w \<Rightarrow> nat list"
    and used :: "'w \<Rightarrow> nat"
    and send :: "'w \<Rightarrow> nat \<Rightarrow> 'w"
    and ack :: "'w \<Rightarrow> ('w \<times> nat) option"
  assumes pending_send: "pending (send w n) = pending w @ [n]"
    and used_send: "used (send w n) = used w + n"
    and ack_None: "ack w = None \<longleftrightarrow> pending w = []"
    and ack_Some: "ack w = Some (w', n) \<Longrightarrow> pending w = n # pending w' \<and> used w' = used w - n"
begin

definition balanced :: "'w \<Rightarrow> bool"
  where "balanced w \<longleftrightarrow> used w = sum_list (pending w)"

lemma balanced_send: "balanced w \<Longrightarrow> balanced (send w n)"
  by (simp add: balanced_def pending_send used_send)

lemma balanced_ack: "balanced w \<Longrightarrow> ack w = Some (w', n) \<Longrightarrow> balanced w'"
  by (auto simp: balanced_def dest!: ack_Some)

lemma ack_total: "pending w \<noteq> [] \<Longrightarrow> \<exists>w'. ack w = Some (w', hd (pending w)) \<and> pending w' = tl (pending w)"
proof -
  assume "pending w \<noteq> []"
  then obtain w' n where "ack w = Some (w', n)" using ack_None by (cases "ack w") auto
  with ack_Some [OF this] show ?thesis by auto
qed

fun replay :: "'w \<Rightarrow> credit_op list \<Rightarrow> 'w option"
  where
    "replay w [] = Some w"
  | "replay w (Send n # ops) = replay (send w n) ops"
  | "replay w (Ack # ops) = (case ack w of None \<Rightarrow> None | Some (w', _) \<Rightarrow> replay w' ops)"

fun sends :: "credit_op list \<Rightarrow> nat list"
  where
    "sends [] = []"
  | "sends (Send n # ops) = n # sends ops"
  | "sends (Ack # ops) = sends ops"

fun acks :: "credit_op list \<Rightarrow> nat"
  where
    "acks [] = 0"
  | "acks (Send n # ops) = acks ops"
  | "acks (Ack # ops) = Suc (acks ops)"

lemma replay_fifo:
  "replay w ops = Some w' \<Longrightarrow> balanced w \<Longrightarrow>
     balanced w' \<and> acks ops \<le> length (pending w @ sends ops) \<and>
     pending w' = drop (acks ops) (pending w @ sends ops)"
proof (induction ops arbitrary: w)
  case (Cons op ops)
  show ?case
  proof (cases op)
    case (Send n)
    with Cons.prems Cons.IH [of "send w n"] show ?thesis
      by (simp add: balanced_send pending_send)
  next
    case Ack
    with Cons.prems obtain w1 n where a: "ack w = Some (w1, n)" and r: "replay w1 ops = Some w'"
      by (auto split: option.splits)
    from ack_Some [OF a] have "pending w = n # pending w1" by simp
    with Cons.IH [OF r balanced_ack [OF Cons.prems(2) a]] Ack show ?thesis by simp
  qed
qed simp

end

section \<open>The window\<close>

datatype EngineError = UnexpectedAck | LineTooLong nat nat

definition DEFAULT_RX_BUFFER :: nat
  where "DEFAULT_RX_BUFFER = 1024"

record FlowWindow =
  rx_buffer :: nat
  inflight :: "nat list"
  inflight_bytes :: nat

definition FlowWindow_new :: "nat \<Rightarrow> FlowWindow"
  where "FlowWindow_new budget = \<lparr>rx_buffer = max budget 1, inflight = [], inflight_bytes = 0\<rparr>"

definition set_rx_buffer :: "FlowWindow \<Rightarrow> nat \<Rightarrow> FlowWindow"
  where "set_rx_buffer w budget = w\<lparr>rx_buffer := max budget 1\<rparr>"

definition inflight_lines :: "FlowWindow \<Rightarrow> nat"
  where "inflight_lines w = length (inflight w)"

definition remaining :: "FlowWindow \<Rightarrow> nat option"
  where "remaining w = (if inflight_bytes w \<le> rx_buffer w then Some (rx_buffer w - inflight_bytes w) else None)"

definition fits :: "FlowWindow \<Rightarrow> nat \<Rightarrow> EngineError + bool"
  where "fits w line_len =
    (if line_len > rx_buffer w then Inl (LineTooLong line_len (rx_buffer w))
     else Inr (inflight_bytes w + line_len \<le> rx_buffer w))"

definition on_line_sent :: "FlowWindow \<Rightarrow> nat \<Rightarrow> FlowWindow"
  where "on_line_sent w line_len =
    w\<lparr>inflight := inflight w @ [line_len], inflight_bytes := inflight_bytes w + line_len\<rparr>"

definition window_ack :: "FlowWindow \<Rightarrow> FlowWindow \<times> (EngineError + nat)"
  where "window_ack w =
    (case inflight w of
       [] \<Rightarrow> (w, Inl UnexpectedAck)
     | len # rest \<Rightarrow> (w\<lparr>inflight := rest, inflight_bytes := inflight_bytes w - len\<rparr>, Inr len))"

definition has_inflight :: "FlowWindow \<Rightarrow> bool"
  where "has_inflight w \<longleftrightarrow> inflight w \<noteq> []"

lemmas window_defs [step_simps] = FlowWindow_new_def set_rx_buffer_def fits_def on_line_sent_def
  window_ack_def has_inflight_def

definition ack_option :: "FlowWindow \<Rightarrow> (FlowWindow \<times> nat) option"
  where "ack_option w = (case window_ack w of (w', Inr n) \<Rightarrow> Some (w', n) | (_, Inl _) \<Rightarrow> None)"

interpretation window: fifo_credit inflight inflight_bytes on_line_sent ack_option
  by unfold_locales (auto simp: on_line_sent_def ack_option_def window_ack_def split: list.splits)

text \<open>The two faces of the window's invariant: the cached sum is right, and within the budget.\<close>

definition window_ok :: "FlowWindow \<Rightarrow> bool"
  where "window_ok w \<longleftrightarrow> inflight_bytes w = sum_list (inflight w) \<and> 0 < rx_buffer w"

definition within_budget :: "FlowWindow \<Rightarrow> bool"
  where "within_budget w \<longleftrightarrow> inflight_bytes w \<le> rx_buffer w"

lemma window_ok_new [simp]: "window_ok (FlowWindow_new b)"
  by (simp add: window_ok_def FlowWindow_new_def)

lemma window_ok_set [simp]: "window_ok w \<Longrightarrow> window_ok (set_rx_buffer w b)"
  by (simp add: window_ok_def set_rx_buffer_def)

lemma window_ok_sent [simp]: "window_ok w \<Longrightarrow> window_ok (on_line_sent w n)"
  by (simp add: window_ok_def on_line_sent_def)

lemma window_ok_ack [simp]: "window_ok w \<Longrightarrow> window_ok (fst (window_ack w))"
  by (auto simp: window_ok_def window_ack_def split: list.split)

lemma within_budget_new [simp]: "within_budget (FlowWindow_new b)"
  by (simp add: within_budget_def FlowWindow_new_def)

lemma within_budget_sent: "fits w n = Inr True \<Longrightarrow> within_budget (on_line_sent w n)"
  by (auto simp: within_budget_def fits_def on_line_sent_def split: if_splits)

lemma within_budget_ack [simp]: "within_budget w \<Longrightarrow> within_budget (fst (window_ack w))"
  by (auto simp: within_budget_def window_ack_def split: list.split)

lemma fits_empty: "window_ok w \<Longrightarrow> inflight w = [] \<Longrightarrow> n \<le> rx_buffer w \<Longrightarrow> fits w n = Inr True"
  by (simp add: fits_def window_ok_def)

end
