(* ===== verification/Control_State.thy ===== *)
theory Control_State
  imports Prelude
begin

text \<open>
  The machine's latched mode.  \<^verbatim>\<open>crates/grbl-codes/src/lib.rs\<close>: the shared state tokens;
  \<^verbatim>\<open>crates/firmware-core/src/protocol/codes.rs\<close>: the alarm codes;
  \<^verbatim>\<open>crates/firmware-core/src/protocol/state.rs\<close>: \<^verbatim>\<open>MachineState\<close>, \<^verbatim>\<open>ControlState\<close> and every
  transition.  Constructors carry a prefix where the three enums share a name (\<^verbatim>\<open>RS_\<close>, \<^verbatim>\<open>MS_\<close>,
  \<^verbatim>\<open>CS_\<close>).
\<close>

section \<open>State tokens\<close>

datatype RunState =
    RS_Idle | RS_Run | RS_Hold | RS_Jog | RS_Alarm | RS_Door | RS_Check | RS_Home | RS_Sleep | RS_Tool

definition RunState_ALL :: "RunState list"
  where "RunState_ALL =
    [RS_Idle, RS_Run, RS_Hold, RS_Jog, RS_Alarm, RS_Door, RS_Check, RS_Home, RS_Sleep, RS_Tool]"

fun as_token :: "RunState \<Rightarrow> string"
  where
    "as_token RS_Idle = ''Idle''"
  | "as_token RS_Run = ''Run''"
  | "as_token RS_Hold = ''Hold''"
  | "as_token RS_Jog = ''Jog''"
  | "as_token RS_Alarm = ''Alarm''"
  | "as_token RS_Door = ''Door''"
  | "as_token RS_Check = ''Check''"
  | "as_token RS_Home = ''Home''"
  | "as_token RS_Sleep = ''Sleep''"
  | "as_token RS_Tool = ''Tool''"

definition from_token :: "string \<Rightarrow> RunState option"
  where "from_token token =
    (if token = ''Idle'' then Some RS_Idle
     else if token = ''Run'' then Some RS_Run
     else if token = ''Hold'' then Some RS_Hold
     else if token = ''Jog'' then Some RS_Jog
     else if token = ''Alarm'' then Some RS_Alarm
     else if token = ''Door'' then Some RS_Door
     else if token = ''Check'' then Some RS_Check
     else if token = ''Home'' then Some RS_Home
     else if token = ''Sleep'' then Some RS_Sleep
     else if token = ''Tool'' then Some RS_Tool
     else None)"

lemma from_as_token [simp]: "from_token (as_token s) = Some s"
  by (cases s) (simp_all add: from_token_def)

lemma from_token_Some: "from_token t = Some s \<longleftrightarrow> t = as_token s"
proof
  show "from_token t = Some s \<Longrightarrow> t = as_token s"
    by (auto simp: from_token_def split: if_splits)
qed simp

lemma RunState_ALL_complete: "distinct RunState_ALL \<and> set RunState_ALL = UNIV"
proof
  have "s \<in> set RunState_ALL" for s by (cases s) (simp_all add: RunState_ALL_def)
  then show "set RunState_ALL = UNIV" by blast
qed (simp add: RunState_ALL_def)

section \<open>Alarm codes\<close>

datatype AlarmCode =
    HardLimit | SoftLimit | AbortDuringCycle | ProbeFailInitial | ProbeFailContact
  | HomingFail | EStop | HomingRequired | MotorFault

fun alarm_number :: "AlarmCode \<Rightarrow> u8"
  where
    "alarm_number HardLimit = 1"
  | "alarm_number SoftLimit = 2"
  | "alarm_number AbortDuringCycle = 3"
  | "alarm_number ProbeFailInitial = 4"
  | "alarm_number ProbeFailContact = 5"
  | "alarm_number HomingFail = 8"
  | "alarm_number EStop = 10"
  | "alarm_number HomingRequired = 11"
  | "alarm_number MotorFault = 17"

definition AlarmCode_ALL :: "AlarmCode list"
  where "AlarmCode_ALL =
    [HardLimit, SoftLimit, AbortDuringCycle, ProbeFailInitial, ProbeFailContact,
     HomingFail, EStop, HomingRequired, MotorFault]"

definition is_locked :: "AlarmCode \<Rightarrow> bool"
  where "is_locked c = (case c of
      HardLimit \<Rightarrow> True | SoftLimit \<Rightarrow> True | EStop \<Rightarrow> True | MotorFault \<Rightarrow> True | _ \<Rightarrow> False)"

fun unlock_hint :: "AlarmCode \<Rightarrow> string"
  where
    "unlock_hint AbortDuringCycle = ''Reset to continue''"
  | "unlock_hint ProbeFailInitial = ''Reset to continue''"
  | "unlock_hint ProbeFailContact = ''Reset to continue''"
  | "unlock_hint HomingFail = ''Reset to continue''"
  | "unlock_hint _ = [CHR 0x27, CHR ''$'', CHR ''H'', CHR 0x27, CHR ''|'', CHR 0x27, CHR ''$'',
      CHR ''X'', CHR 0x27] @ '' to unlock''"

definition wedge_reset_alarm :: "bool \<Rightarrow> AlarmCode"
  where "wedge_reset_alarm homing_enabled = (if homing_enabled then HomingRequired else AbortDuringCycle)"

lemma alarm_number_inj: "alarm_number a = alarm_number b \<longleftrightarrow> a = b"
  by (cases a; cases b) simp_all

lemma AlarmCode_ALL_complete: "set AlarmCode_ALL = UNIV"
proof -
  have "c \<in> set AlarmCode_ALL" for c by (cases c) (simp_all add: AlarmCode_ALL_def)
  then show ?thesis by blast
qed

section \<open>The reported and the latched state\<close>

datatype MachineState =
    MS_Idle | MS_Run | MS_Hold bool | MS_Jog | MS_Alarm u8 | MS_Door | MS_Check | MS_Home
  | MS_Sleep | MS_Tool

fun run_state :: "MachineState \<Rightarrow> RunState"
  where
    "run_state MS_Idle = RS_Idle"
  | "run_state MS_Run = RS_Run"
  | "run_state (MS_Hold _) = RS_Hold"
  | "run_state MS_Jog = RS_Jog"
  | "run_state (MS_Alarm _) = RS_Alarm"
  | "run_state MS_Door = RS_Door"
  | "run_state MS_Check = RS_Check"
  | "run_state MS_Home = RS_Home"
  | "run_state MS_Sleep = RS_Sleep"
  | "run_state MS_Tool = RS_Tool"

definition state_token :: "MachineState \<Rightarrow> string"
  where "state_token m = as_token (run_state m)"

datatype ControlState =
    CS_Normal | CS_Hold bool | CS_Jog | CS_Alarm AlarmCode | CS_Check | CS_Sleep | CS_Tool

definition boot :: "bool \<Rightarrow> ControlState"
  where "boot homing_enabled = (if homing_enabled then CS_Alarm HomingRequired else CS_Normal)"

fun machine_state :: "ControlState \<Rightarrow> bool \<Rightarrow> MachineState"
  where
    "machine_state CS_Normal running = (if running then MS_Run else MS_Idle)"
  | "machine_state CS_Jog running = (if running then MS_Jog else MS_Idle)"
  | "machine_state (CS_Hold in_progress) _ = MS_Hold in_progress"
  | "machine_state (CS_Alarm code) _ = MS_Alarm (alarm_number code)"
  | "machine_state CS_Check _ = MS_Check"
  | "machine_state CS_Sleep _ = MS_Sleep"
  | "machine_state CS_Tool _ = MS_Tool"

definition tool_change :: ControlState
  where "tool_change = CS_Tool"

definition motion_allowed :: "ControlState \<Rightarrow> bool"
  where "motion_allowed s = (case s of CS_Normal \<Rightarrow> True | CS_Hold _ \<Rightarrow> True | CS_Tool \<Rightarrow> True | _ \<Rightarrow> False)"

definition feed_hold :: "ControlState \<Rightarrow> ControlState"
  where "feed_hold s = (case s of CS_Normal \<Rightarrow> CS_Hold False | CS_Hold _ \<Rightarrow> CS_Hold False | other \<Rightarrow> other)"

definition cycle_start :: "ControlState \<Rightarrow> ControlState"
  where "cycle_start s = (case s of CS_Hold _ \<Rightarrow> CS_Normal | CS_Tool \<Rightarrow> CS_Normal | other \<Rightarrow> other)"

definition resumes_on_cycle_start :: "ControlState \<Rightarrow> bool"
  where "resumes_on_cycle_start s = (case s of CS_Hold _ \<Rightarrow> True | CS_Tool \<Rightarrow> True | _ \<Rightarrow> False)"

definition hard_limit_alarm_applies :: "ControlState \<Rightarrow> bool"
  where "hard_limit_alarm_applies s =
    (case s of CS_Normal \<Rightarrow> True | CS_Hold _ \<Rightarrow> True | CS_Jog \<Rightarrow> True | CS_Check \<Rightarrow> True | _ \<Rightarrow> False)"

definition soft_reset :: "ControlState \<Rightarrow> bool \<Rightarrow> bool \<Rightarrow> ControlState"
  where "soft_reset s was_in_cycle homing_enabled =
    (if was_in_cycle then CS_Alarm AbortDuringCycle else boot homing_enabled)"

datatype UnlockOutcome = Unlocked | NotAlarmed | Locked

definition unlock :: "ControlState \<Rightarrow> ControlState \<times> UnlockOutcome"
  where "unlock s =
    (case s of
       CS_Alarm code \<Rightarrow> if is_locked code then (s, Locked) else (CS_Normal, Unlocked)
     | other \<Rightarrow> (other, NotAlarmed))"

datatype CheckToggle = Enabled | Disabled | Rejected

definition toggle_check :: "ControlState \<Rightarrow> bool \<Rightarrow> ControlState \<times> CheckToggle"
  where "toggle_check s homing_enabled =
    (case s of
       CS_Normal \<Rightarrow> (CS_Check, Enabled)
     | CS_Check \<Rightarrow> (boot homing_enabled, Disabled)
     | other \<Rightarrow> (other, Rejected))"

definition enter_sleep :: "ControlState \<Rightarrow> ControlState \<times> bool"
  where "enter_sleep s = (case s of CS_Normal \<Rightarrow> (CS_Sleep, True) | other \<Rightarrow> (other, False))"

definition jog_allowed :: "ControlState \<Rightarrow> bool"
  where "jog_allowed s = (case s of CS_Normal \<Rightarrow> True | CS_Jog \<Rightarrow> True | _ \<Rightarrow> False)"

definition settings_write_allowed :: "ControlState \<Rightarrow> bool"
  where "settings_write_allowed s = (case s of CS_Normal \<Rightarrow> True | CS_Alarm _ \<Rightarrow> True | _ \<Rightarrow> False)"

definition begin_jog :: "ControlState \<Rightarrow> ControlState"
  where "begin_jog s = (case s of CS_Normal \<Rightarrow> CS_Jog | CS_Jog \<Rightarrow> CS_Jog | other \<Rightarrow> other)"

definition cancel_jog :: "ControlState \<Rightarrow> ControlState"
  where "cancel_jog s = (case s of CS_Jog \<Rightarrow> CS_Normal | other \<Rightarrow> other)"

definition program_stop :: "ControlState \<Rightarrow> ControlState"
  where "program_stop s = (case s of CS_Normal \<Rightarrow> CS_Normal | CS_Hold _ \<Rightarrow> CS_Normal | other \<Rightarrow> other)"

definition program_stop_quiesces :: "ControlState \<Rightarrow> bool"
  where "program_stop_quiesces s = (case s of CS_Normal \<Rightarrow> True | CS_Hold _ \<Rightarrow> True | _ \<Rightarrow> False)"

definition homing_allowed :: "ControlState \<Rightarrow> bool"
  where "homing_allowed s =
    (case s of CS_Normal \<Rightarrow> True | CS_Alarm code \<Rightarrow> code = HomingRequired | _ \<Rightarrow> False)"

definition home_complete :: "ControlState \<Rightarrow> ControlState"
  where "home_complete s = (if homing_allowed s then CS_Normal else s)"

lemmas control_defs [step_simps] = boot_def tool_change_def motion_allowed_def feed_hold_def
  cycle_start_def resumes_on_cycle_start_def hard_limit_alarm_applies_def soft_reset_def
  unlock_def toggle_check_def enter_sleep_def jog_allowed_def settings_write_allowed_def
  begin_jog_def cancel_jog_def program_stop_def program_stop_quiesces_def homing_allowed_def
  home_complete_def

section \<open>The mode as a transition system\<close>

text \<open>
  The events of \<^verbatim>\<open>crates/firmware/src/comms\<close> that write the mode, with the guards the writers
  test: the real-time dispatcher (hold, cycle start), the consumer's select arms (soft reset,
  hard limit, motor fault, program stop, jog cancel), the \<^verbatim>\<open>$\<close> handlers (unlock, check, sleep,
  homing) and the line handlers (jog start, soft-limit, probe and pause outcomes).  A homing
  cycle starts where \<^verbatim>\<open>homing_allowed\<close> and only a feed hold can intervene before it fails.
\<close>

datatype CtlEvent =
    E_FeedHold | E_CycleStart | E_SoftReset bool | E_Unlock | E_ToggleCheck | E_Sleep
  | E_JogStart | E_JogEnd | E_ProgramStop | E_Homed | E_HomingFail | E_HardLimit | E_MotorFault
  | E_SoftLimit | E_ProbeFail AlarmCode | E_Pause bool

definition is_hold :: "ControlState \<Rightarrow> bool"
  where "is_hold s = (case s of CS_Hold _ \<Rightarrow> True | _ \<Rightarrow> False)"

inductive ctl_step :: "bool \<Rightarrow> ControlState \<Rightarrow> CtlEvent \<Rightarrow> ControlState \<Rightarrow> bool" for h :: bool
  where
    step_hold: "ctl_step h s E_FeedHold (feed_hold s)"
  | step_start: "resumes_on_cycle_start s \<Longrightarrow> ctl_step h s E_CycleStart (cycle_start s)"
  | step_reset: "ctl_step h s (E_SoftReset was) (soft_reset s was h)"
  | step_unlock: "ctl_step h s E_Unlock (fst (unlock s))"
  | step_check: "ctl_step h s E_ToggleCheck (fst (toggle_check s h))"
  | step_sleep: "ctl_step h s E_Sleep (fst (enter_sleep s))"
  | step_jog: "jog_allowed s \<Longrightarrow> ctl_step h s E_JogStart (begin_jog s)"
  | step_jog_end: "ctl_step h s E_JogEnd (cancel_jog s)"
  | step_stop: "ctl_step h s E_ProgramStop (program_stop s)"
  | step_homed: "homing_allowed s \<Longrightarrow> ctl_step h s E_Homed (home_complete s)"
  | step_homing_fail: "homing_allowed s \<or> is_hold s \<Longrightarrow> ctl_step h s E_HomingFail (CS_Alarm HomingFail)"
  | step_hard_limit: "hard_limit_alarm_applies s \<Longrightarrow> ctl_step h s E_HardLimit (CS_Alarm HardLimit)"
  | step_motor_fault: "hard_limit_alarm_applies s \<Longrightarrow> ctl_step h s E_MotorFault (CS_Alarm MotorFault)"
  | step_soft_limit: "motion_allowed s \<Longrightarrow> ctl_step h s E_SoftLimit (CS_Alarm SoftLimit)"
  | step_probe_fail: "motion_allowed s \<Longrightarrow> c \<in> {ProbeFailInitial, ProbeFailContact} \<Longrightarrow>
      ctl_step h s (E_ProbeFail c) (CS_Alarm c)"
  | step_pause: "motion_allowed s \<Longrightarrow>
      ctl_step h s (E_Pause tool) (if tool then tool_change else feed_hold s)"

inductive ctl_run :: "bool \<Rightarrow> ControlState \<Rightarrow> CtlEvent list \<Rightarrow> ControlState \<Rightarrow> bool" for h :: bool
  where
    run_nil: "ctl_run h s [] s"
  | run_cons: "ctl_step h s e s' \<Longrightarrow> ctl_run h s' es s'' \<Longrightarrow> ctl_run h s (e # es) s''"

inductive_cases ctl_stepE: "ctl_step h s e s'"
inductive_cases ctl_run_NilE [elim!]: "ctl_run h s [] s'"
inductive_cases ctl_run_ConsE [elim!]: "ctl_run h s (e # es) s'"

inductive_simps ctl_step_reset_iff: "ctl_step h s (E_SoftReset was) s'"
inductive_simps ctl_step_hold_iff: "ctl_step h s E_FeedHold s'"
inductive_simps ctl_step_start_iff: "ctl_step h s E_CycleStart s'"

definition is_reset :: "CtlEvent \<Rightarrow> bool"
  where "is_reset e = (case e of E_SoftReset _ \<Rightarrow> True | _ \<Rightarrow> False)"

lemma locked_step:
  "ctl_step h (CS_Alarm c) e s' \<Longrightarrow> is_locked c \<Longrightarrow> \<not> is_reset e \<Longrightarrow> s' = CS_Alarm c"
  by (erule ctl_stepE) (auto simp: step_simps is_hold_def is_reset_def is_locked_def)

lemma sleep_step: "ctl_step h CS_Sleep e s' \<Longrightarrow> \<not> is_reset e \<Longrightarrow> s' = CS_Sleep"
  by (erule ctl_stepE) (auto simp: step_simps is_hold_def is_reset_def)

lemma fixed_run:
  assumes stay: "\<And>e s'. ctl_step h s e s' \<Longrightarrow> \<not> is_reset e \<Longrightarrow> s' = s"
    and "ctl_run h s es s'" and "\<not> (\<exists>e \<in> set es. is_reset e)"
  shows "s' = s"
  using assms(2,3)
proof (induction es)
  case (Cons e es)
  from Cons.prems obtain t where "ctl_step h s e t" "ctl_run h t es s'" by auto
  with Cons.prems(2) stay have "ctl_run h s es s'" by fastforce
  with Cons show ?case by simp
qed auto

text \<open>With homing enabled the machine stays in an alarm that only homing or unlocking clears.\<close>

lemma alarm_step:
  assumes "ctl_step h s e s'" and "\<exists>c. s = CS_Alarm c"
    and "e \<noteq> E_Unlock" and "e \<noteq> E_Homed" and "is_reset e \<Longrightarrow> h"
  shows "\<exists>c. s' = CS_Alarm c"
  using assms by (auto elim!: ctl_stepE simp: step_simps is_hold_def is_reset_def split: if_splits)

lemma alarm_run:
  assumes "ctl_run h s es s'" and "\<exists>c. s = CS_Alarm c"
    and "E_Unlock \<notin> set es" and "E_Homed \<notin> set es" and "(\<exists>e \<in> set es. is_reset e) \<Longrightarrow> h"
  shows "\<exists>c. s' = CS_Alarm c"
  using assms
proof (induction es arbitrary: s)
  case (Cons e es)
  from Cons.prems(1) obtain t where t: "ctl_step h s e t" "ctl_run h t es s'" by auto
  with Cons.prems have "\<exists>c. t = CS_Alarm c" by (intro alarm_step [OF t(1)]) auto
  with Cons t(2) show ?case by auto
qed auto

section \<open>Properties\<close>

text \<open>The state field of a status report is unambiguous.  Reading back the token the firmware
  writes gives the state it wrote, for every state; and no other text is read as a state.\<close>

lemma token_roundtrip:
  "from_token (state_token m) = Some (run_state m) \<and> (from_token t = Some r \<longleftrightarrow> t = as_token r)"
  by (simp add: state_token_def from_token_Some)

text \<open>
  a locked alarm (hard limit, soft limit, emergency stop, motor fault) is left by a soft
  reset and by nothing else: whatever other events the firmware handles, in any order and
  number, the machine stays in that very alarm and refuses motion.
\<close>

theorem locked_alarm_needs_reset:
  assumes "ctl_run h (CS_Alarm c) es s" and "is_locked c" and "\<not> (\<exists>e \<in> set es. is_reset e)"
  shows "s = CS_Alarm c \<and> \<not> motion_allowed s"
proof -
  from fixed_run [OF _ assms(1,3)] locked_step assms(2) have "s = CS_Alarm c" by blast
  then show ?thesis by (simp add: motion_allowed_def)
qed

theorem locked_alarm_needs_reset_witness:
  "\<exists>s. ctl_run True (CS_Alarm HardLimit) [E_Unlock, E_FeedHold] s \<and>
     s = CS_Alarm HardLimit \<and> \<not> motion_allowed s"
proof -
  have "ctl_step True (CS_Alarm HardLimit) E_Unlock (CS_Alarm HardLimit)"
    using step_unlock [of True "CS_Alarm HardLimit"] by (simp add: unlock_def is_locked_def)
  moreover have "ctl_step True (CS_Alarm HardLimit) E_FeedHold (CS_Alarm HardLimit)"
    using step_hold [of True "CS_Alarm HardLimit"] by (simp add: feed_hold_def)
  ultimately have "ctl_run True (CS_Alarm HardLimit) [E_Unlock, E_FeedHold] (CS_Alarm HardLimit)"
    by (blast intro: ctl_run.intros)
  with locked_alarm_needs_reset [OF this] show ?thesis by (auto simp: is_locked_def is_reset_def)
qed

text \<open>
  the boot lock.  With homing enabled no motion is accepted after power-on before the
  operator has homed or unlocked the machine, whatever else happens, soft resets included.
\<close>

theorem boot_lock_holds:
  assumes "ctl_run True (boot True) es s" and "motion_allowed s"
  shows "E_Unlock \<in> set es \<or> E_Homed \<in> set es"
proof (rule ccontr)
  assume "\<not> ?thesis"
  then have "\<exists>c. s = CS_Alarm c" by (intro alarm_run [OF assms(1)]) (auto simp: boot_def)
  with assms(2) show False by (auto simp: motion_allowed_def)
qed

theorem boot_lock_holds_witness:
  "\<exists>s. ctl_run True (boot True) [E_FeedHold, E_Homed] s \<and> motion_allowed s \<and>
     (E_Unlock \<in> set [E_FeedHold, E_Homed] \<or> E_Homed \<in> set [E_FeedHold, E_Homed])"
proof -
  have "ctl_step True (boot True) E_FeedHold (boot True)"
    using step_hold [of True "boot True"] by (simp add: feed_hold_def boot_def)
  moreover have "ctl_step True (boot True) E_Homed CS_Normal"
    using step_homed [of "boot True" True] by (simp add: home_complete_def homing_allowed_def boot_def)
  ultimately have run: "ctl_run True (boot True) [E_FeedHold, E_Homed] CS_Normal"
    by (blast intro: ctl_run.intros)
  have ok: "motion_allowed CS_Normal" by (simp add: motion_allowed_def)
  show ?thesis
  proof (intro exI conjI)
    show "ctl_run True (boot True) [E_FeedHold, E_Homed] CS_Normal" by (rule run)
    show "motion_allowed CS_Normal" by (rule ok)
    show "E_Unlock \<in> set [E_FeedHold, E_Homed] \<or> E_Homed \<in> set [E_FeedHold, E_Homed]"
      by (rule boot_lock_holds [OF run ok])
  qed
qed

text \<open>Sleep is left by a soft reset and by nothing else: cycle start, unlock, homing, jogging
  and program lines all leave a sleeping machine asleep.\<close>

lemma sleep_needs_reset:
  assumes "ctl_run h CS_Sleep es s" and "\<not> (\<exists>e \<in> set es. is_reset e)"
  shows "s = CS_Sleep"
  using fixed_run [OF sleep_step assms] by simp

lemma sleep_needs_reset_witness:
  "\<exists>s. ctl_run False CS_Sleep [E_Unlock, E_ProgramStop] s \<and> s = CS_Sleep"
proof -
  have "ctl_step False CS_Sleep E_Unlock CS_Sleep" "ctl_step False CS_Sleep E_ProgramStop CS_Sleep"
    using step_unlock [of False CS_Sleep] step_stop [of False CS_Sleep]
    by (simp_all add: unlock_def program_stop_def)
  then have "ctl_run False CS_Sleep [E_Unlock, E_ProgramStop] CS_Sleep"
    by (blast intro: ctl_run.intros)
  with sleep_needs_reset [OF this] show ?thesis by (auto simp: is_reset_def)
qed

end
