(* ===== verification/Grbl_Text.thy ===== *)
theory Grbl_Text
  imports Prelude Control_State
begin

text \<open>
  The text layer of the host: the \<^verbatim>\<open>str\<close> operations of the Rust standard library that the
  parsers use, and the parsers themselves: one firmware line
  (\<^verbatim>\<open>crates/skirnir/src/protocol/response.rs\<close>), probe results (\<^verbatim>\<open>probe.rs\<close>), settings lines
  (\<^verbatim>\<open>settings.rs\<close>) and status reports (\<^verbatim>\<open>status.rs\<close>).  A \<^verbatim>\<open>str\<close> is the list of its UTF-8 bytes,
  a HOL \<^verbatim>\<open>string\<close>; \<^verbatim>\<open>f64\<close> parsing is a parameter, with the float type
  left open and \<^verbatim>\<open>0.0\<close> an argument.
\<close>

section \<open>The str operations\<close>

definition strip_prefix :: "string \<Rightarrow> string \<Rightarrow> string option"
  where "strip_prefix p s = (if take (length p) s = p then Some (drop (length p) s) else None)"

definition strip_suffix :: "string \<Rightarrow> string \<Rightarrow> string option"
  where "strip_suffix p s = map_option rev (strip_prefix (rev p) (rev s))"

fun split_once :: "char \<Rightarrow> string \<Rightarrow> (string \<times> string) option"
  where
    "split_once c [] = None"
  | "split_once c (x # xs) =
      (if x = c then Some ([], xs)
       else map_option (\<lambda>(a, b). (x # a, b)) (split_once c xs))"

definition rsplit_once :: "char \<Rightarrow> string \<Rightarrow> (string \<times> string) option"
  where "rsplit_once c s = map_option (\<lambda>(a, b). (rev b, rev a)) (split_once c (rev s))"

fun split_on :: "char \<Rightarrow> string \<Rightarrow> string list"
  where
    "split_on c [] = [[]]"
  | "split_on c (x # xs) =
      (if x = c then [] # split_on c xs
       else case split_on c xs of f # fs \<Rightarrow> (x # f) # fs | [] \<Rightarrow> [[x]])"

definition trim_end_matches :: "char list \<Rightarrow> string \<Rightarrow> string"
  where "trim_end_matches cs s = rev (dropWhile (\<lambda>c. c \<in> set cs) (rev s))"

text \<open>
  \<^verbatim>\<open>str::trim\<close> drops Unicode white space at both ends; these are its UTF-8 encodings.
\<close>

definition ws_codes :: "nat list list"
  where "ws_codes =
    map (\<lambda>n. [n]) [9, 10, 11, 12, 13, 32] @
    [[0xC2, 0x85], [0xC2, 0xA0], [0xE1, 0x9A, 0x80], [0xE2, 0x80, 0xA8], [0xE2, 0x80, 0xA9],
     [0xE2, 0x80, 0xAF], [0xE2, 0x81, 0x9F], [0xE3, 0x80, 0x80]] @
    map (\<lambda>n. [0xE2, 0x80, n]) [0x80..<0x8B]"

definition ws_encodings :: "string list"
  where "ws_encodings = map (map char_of) ws_codes"

definition strip_any :: "string list \<Rightarrow> string \<Rightarrow> string option"
  where "strip_any ws s =
    (case filter (\<lambda>w. strip_prefix w s \<noteq> None) ws of [] \<Rightarrow> None | w # _ \<Rightarrow> strip_prefix w s)"

fun trim_front :: "nat \<Rightarrow> string list \<Rightarrow> string \<Rightarrow> string"
  where
    "trim_front 0 ws s = s"
  | "trim_front (Suc n) ws s =
      (case strip_any ws s of None \<Rightarrow> s | Some s' \<Rightarrow> trim_front n ws s')"

definition trim :: "string \<Rightarrow> string"
  where "trim s =
    (let s = trim_front (length s) ws_encodings s
     in rev (trim_front (length s) (map rev ws_encodings) (rev s)))"

definition is_digit :: "char \<Rightarrow> bool"
  where "is_digit c \<longleftrightarrow> 48 \<le> (of_char c :: nat) \<and> (of_char c :: nat) \<le> 57"

definition digit_value :: "char \<Rightarrow> nat"
  where "digit_value c = of_char c - 48"

text \<open>\<^verbatim>\<open>str::parse\<close> at an unsigned type with the given maximum: an optional plus sign, then digits.\<close>

definition parse_unsigned :: "nat \<Rightarrow> string \<Rightarrow> nat option"
  where "parse_unsigned max_value s =
    (let ds = (case s of c # cs \<Rightarrow> if c = CHR ''+'' then cs else s | [] \<Rightarrow> []);
         n = foldl (\<lambda>a c. 10 * a + digit_value c) 0 ds
     in if ds = [] \<or> \<not> list_all is_digit ds \<or> max_value < n then None else Some n)"

abbreviation parse_u32 :: "string \<Rightarrow> nat option"
  where "parse_u32 \<equiv> parse_unsigned 0xFFFFFFFF"

abbreviation parse_usize :: "string \<Rightarrow> nat option"
  where "parse_usize \<equiv> parse_unsigned 0xFFFFFFFFFFFFFFFF"

definition to_ascii_lowercase :: "string \<Rightarrow> string"
  where "to_ascii_lowercase s =
    map (\<lambda>c. let n = (of_char c :: nat) in if 65 \<le> n \<and> n \<le> 90 then char_of (n + 32) else c) s"

definition starts_with :: "string \<Rightarrow> string \<Rightarrow> bool"
  where "starts_with p s \<longleftrightarrow> strip_prefix p s \<noteq> None"

lemma strip_prefix_append [simp]: "strip_prefix p (p @ s) = Some s"
  by (simp add: strip_prefix_def)

lemma strip_prefix_SomeD: "strip_prefix p s = Some r \<Longrightarrow> s = p @ r"
  by (metis append_take_drop_id option.distinct(1) option.sel strip_prefix_def)

lemma strip_prefix_Some: "strip_prefix p s = Some r \<longleftrightarrow> s = p @ r"
  using strip_prefix_SomeD strip_prefix_append by blast

lemma strip_suffix_append [simp]: "strip_suffix p (s @ p) = Some s"
  by (simp add: strip_suffix_def)

lemma split_once_Some: "split_once c s = Some (a, b) \<longleftrightarrow> s = a @ c # b \<and> c \<notin> set a"
proof (induction s arbitrary: a)
  case (Cons x xs)
  then show ?case by (cases a) auto
qed simp

lemma split_on_not_Nil [simp]: "split_on c s \<noteq> []"
  by (induction s) (auto split: list.splits)

lemma split_on_append: "c \<notin> set a \<Longrightarrow> split_on c (a @ c # b) = a # split_on c b"
  by (induction a) auto

lemma split_on_single: "c \<notin> set a \<Longrightarrow> split_on c a = [a]"
  by (induction a) auto

section \<open>Responses\<close>

datatype 'f Response =
    Ok_r
  | Error nat
  | Alarm nat
  | Status string
  | ProbeResult "'f list" bool
  | Message string
  | Banner string
  | StartupEcho string
  | Setting nat string
  | Unknown string

text \<open>\<^verbatim>\<open>parse_f64\<close> yields a value and whether it is finite.\<close>

definition parse_prb_body :: "(string \<Rightarrow> ('f \<times> bool) option) \<Rightarrow> string \<Rightarrow> ('f list \<times> bool) option"
  where "parse_prb_body parse_f64 body =
    (case rsplit_once CHR '':'' body of
       None \<Rightarrow> None
     | Some (values_part, flag_part) \<Rightarrow>
         let flag = trim flag_part in
         if flag \<noteq> ''1'' \<and> flag \<noteq> ''0'' then None
         else
           let vals = map (\<lambda>raw. parse_f64 (trim raw)) (split_on CHR '','' values_part) in
           if list_all (\<lambda>v. case v of Some (_, is_fin) \<Rightarrow> is_fin | None \<Rightarrow> False) vals
           then Some (map (fst \<circ> the) vals, flag = ''1'')
           else None)"

definition parse_setting_value :: "string \<Rightarrow> (nat \<times> string) option"
  where "parse_setting_value line =
    (case strip_prefix ''$'' (trim line) of
       None \<Rightarrow> None
     | Some body \<Rightarrow>
         (case split_once CHR ''='' body of
            None \<Rightarrow> None
          | Some (key, val) \<Rightarrow>
              (case parse_u32 (trim key) of
                 None \<Rightarrow> None
               | Some number \<Rightarrow> Some (number, trim (hd (split_on CHR ''('' val))))))"

definition parse_line :: "(string \<Rightarrow> ('f \<times> bool) option) \<Rightarrow> string \<Rightarrow> 'f Response option"
  where "parse_line parse_f64 line0 =
    (let line = trim_end_matches [CHR '' '', CHR 0x09] line0 in
     if line = [] then None
     else if line = ''ok'' then Some Ok_r
     else case strip_prefix ''error:'' line of
       Some rest \<Rightarrow> Some (Error (case parse_u32 (trim rest) of Some n \<Rightarrow> n | None \<Rightarrow> 0))
     | None \<Rightarrow> (case strip_prefix ''ALARM:'' line of
       Some rest \<Rightarrow> Some (Alarm (case parse_u32 (trim rest) of Some n \<Rightarrow> n | None \<Rightarrow> 0))
     | None \<Rightarrow> (case Option.bind (strip_prefix ''<'' line) (strip_suffix ''>'') of
       Some inner \<Rightarrow> Some (Status inner)
     | None \<Rightarrow> (case Option.bind (strip_prefix ''['' line) (strip_suffix '']'') of
       Some inner \<Rightarrow>
         (case Option.bind (strip_prefix ''PRB:'' inner) (parse_prb_body parse_f64) of
            Some (position, success) \<Rightarrow> Some (ProbeResult position success)
          | None \<Rightarrow> Some (Message inner))
     | None \<Rightarrow> (case strip_prefix ''>'' line of
       Some rest \<Rightarrow> Some (StartupEcho rest)
     | None \<Rightarrow> (case parse_setting_value line of
       Some (number, val) \<Rightarrow> Some (Setting number val)
     | None \<Rightarrow>
         let lower = to_ascii_lowercase line in
         if starts_with ''grbl '' lower \<or> starts_with ''grblhal '' lower then Some (Banner line)
         else Some (Unknown line)))))))"

definition is_grbl_evidence :: "'f Response \<Rightarrow> bool \<Rightarrow> bool"
  where "is_grbl_evidence response accept_acks =
    (case response of
       Status _ \<Rightarrow> True
     | Banner _ \<Rightarrow> True
     | Message body \<Rightarrow> starts_with ''VER:'' body \<or> starts_with ''OPT:'' body
     | Ok_r \<Rightarrow> accept_acks
     | Error _ \<Rightarrow> accept_acks
     | Alarm _ \<Rightarrow> accept_acks
     | ProbeResult _ _ \<Rightarrow> accept_acks
     | Setting _ _ \<Rightarrow> accept_acks
     | StartupEcho _ \<Rightarrow> False
     | Unknown _ \<Rightarrow> False)"

definition rx_buffer_from_opt :: "string \<Rightarrow> nat option"
  where "rx_buffer_from_opt message_body =
    (case strip_prefix ''OPT:'' message_body of
       None \<Rightarrow> None
     | Some rest \<Rightarrow>
         let fields = split_on CHR '','' rest in
         if length fields \<le> 2 then None else parse_usize (trim (fields ! 2)))"

section \<open>Status reports\<close>

datatype HostRunState =
    HRS_Idle | HRS_Run | HRS_Hold | HRS_Jog | HRS_Alarm | HRS_Door | HRS_Check | HRS_Home
  | HRS_Sleep | HRS_Tool | HRS_Unknown

fun host_run_state :: "RunState \<Rightarrow> HostRunState"
  where
    "host_run_state RS_Idle = HRS_Idle"
  | "host_run_state RS_Run = HRS_Run"
  | "host_run_state RS_Hold = HRS_Hold"
  | "host_run_state RS_Jog = HRS_Jog"
  | "host_run_state RS_Alarm = HRS_Alarm"
  | "host_run_state RS_Door = HRS_Door"
  | "host_run_state RS_Check = HRS_Check"
  | "host_run_state RS_Home = HRS_Home"
  | "host_run_state RS_Sleep = HRS_Sleep"
  | "host_run_state RS_Tool = HRS_Tool"

definition host_from_token :: "string \<Rightarrow> HostRunState"
  where "host_from_token token =
    (case from_token token of None \<Rightarrow> HRS_Unknown | Some s \<Rightarrow> host_run_state s)"

definition peek_run_state :: "string \<Rightarrow> HostRunState"
  where "peek_run_state body =
    (let token = hd (split_on CHR ''|'' body)
     in host_from_token (case split_once CHR '':'' token of Some (state, _) \<Rightarrow> state | None \<Rightarrow> token))"

record HostMachineState =
  ms_state :: HostRunState
  ms_substate :: "nat option"

definition parse_machine_state :: "string \<Rightarrow> HostMachineState"
  where "parse_machine_state token =
    (case split_once CHR '':'' token of
       Some (state, sub) \<Rightarrow> \<lparr>ms_state = host_from_token state, ms_substate = parse_u32 (trim sub)\<rparr>
     | None \<Rightarrow> \<lparr>ms_state = host_from_token token, ms_substate = None\<rparr>)"

record PinState =
  limit_x :: bool
  limit_y :: bool
  limit_z :: bool
  limit_a :: bool
  limit_b :: bool
  limit_c :: bool
  limit_u :: bool
  limit_v :: bool
  limit_w :: bool
  pin_probe :: bool
  probe_disconnected :: bool
  pin_door :: bool
  pin_reset :: bool
  pin_feed_hold :: bool
  pin_cycle_start :: bool
  e_stop :: bool
  block_delete :: bool
  optional_stop :: bool
  motor_warning :: bool
  motor_fault :: bool
  single_step :: bool

definition PinState_default :: PinState
  where "PinState_default =
    \<lparr>limit_x = False, limit_y = False, limit_z = False, limit_a = False, limit_b = False,
     limit_c = False, limit_u = False, limit_v = False, limit_w = False, pin_probe = False,
     probe_disconnected = False, pin_door = False, pin_reset = False, pin_feed_hold = False,
     pin_cycle_start = False, e_stop = False, block_delete = False, optional_stop = False,
     motor_warning = False, motor_fault = False, single_step = False\<rparr>"

definition pin_letter :: "PinState \<Rightarrow> char \<Rightarrow> PinState"
  where "pin_letter pins letter =
    (if letter = CHR ''X'' then pins\<lparr>limit_x := True\<rparr>
     else if letter = CHR ''Y'' then pins\<lparr>limit_y := True\<rparr>
     else if letter = CHR ''Z'' then pins\<lparr>limit_z := True\<rparr>
     else if letter = CHR ''A'' then pins\<lparr>limit_a := True\<rparr>
     else if letter = CHR ''B'' then pins\<lparr>limit_b := True\<rparr>
     else if letter = CHR ''C'' then pins\<lparr>limit_c := True\<rparr>
     else if letter = CHR ''U'' then pins\<lparr>limit_u := True\<rparr>
     else if letter = CHR ''V'' then pins\<lparr>limit_v := True\<rparr>
     else if letter = CHR ''W'' then pins\<lparr>limit_w := True\<rparr>
     else if letter = CHR ''P'' then pins\<lparr>pin_probe := True\<rparr>
     else if letter = CHR ''O'' then pins\<lparr>probe_disconnected := True\<rparr>
     else if letter = CHR ''D'' then pins\<lparr>pin_door := True\<rparr>
     else if letter = CHR ''R'' then pins\<lparr>pin_reset := True\<rparr>
     else if letter = CHR ''H'' then pins\<lparr>pin_feed_hold := True\<rparr>
     else if letter = CHR ''S'' then pins\<lparr>pin_cycle_start := True\<rparr>
     else if letter = CHR ''E'' then pins\<lparr>e_stop := True\<rparr>
     else if letter = CHR ''L'' then pins\<lparr>block_delete := True\<rparr>
     else if letter = CHR ''T'' then pins\<lparr>optional_stop := True\<rparr>
     else if letter = CHR ''M'' then pins\<lparr>motor_warning := True\<rparr>
     else if letter = CHR ''F'' then pins\<lparr>motor_fault := True\<rparr>
     else if letter = CHR ''Q'' then pins\<lparr>single_step := True\<rparr>
     else pins)"

definition from_letters :: "string \<Rightarrow> PinState"
  where "from_letters letters = foldl pin_letter PinState_default letters"

definition any_xyz_limit :: "PinState \<Rightarrow> bool"
  where "any_xyz_limit p \<longleftrightarrow> limit_x p \<or> limit_y p \<or> limit_z p"

datatype PositionKind = Machine | Work

record 'f StatusReport =
  sr_machine_state :: HostMachineState
  sr_position_kind :: PositionKind
  sr_position :: "'f list"
  sr_wco :: "'f list option"
  sr_feed_speed :: "('f \<times> 'f \<times> 'f option) option"
  sr_overrides :: "(nat \<times> nat \<times> nat) option"
  sr_pins :: string
  sr_buffer :: "(nat \<times> nat) option"
  sr_line :: "nat option"

definition pin_state :: "'f StatusReport \<Rightarrow> PinState"
  where "pin_state r = from_letters (sr_pins r)"

text \<open>\<^verbatim>\<open>parts\<close> is the comma-separated value; a missing part is \<^verbatim>\<open>None\<close>, as \<^verbatim>\<open>next()?\<close> has it.\<close>

definition nth_part :: "nat \<Rightarrow> string \<Rightarrow> string option"
  where "nth_part i value =
    (let parts = split_on CHR '','' value in if i < length parts then Some (trim (parts ! i)) else None)"

definition parse_floats :: "(string \<Rightarrow> ('f \<times> bool) option) \<Rightarrow> string \<Rightarrow> 'f list"
  where "parse_floats parse_f64 value =
    map (fst \<circ> the) (filter (\<lambda>v. v \<noteq> None) (map (\<lambda>n. parse_f64 (trim n)) (split_on CHR '','' value)))"

definition parse_feed_speed ::
    "(string \<Rightarrow> ('f \<times> bool) option) \<Rightarrow> string \<Rightarrow> ('f \<times> 'f \<times> 'f option) option"
  where "parse_feed_speed parse_f64 value =
    Option.bind (nth_part 0 value) (\<lambda>p. Option.bind (parse_f64 p) (\<lambda>(feed, _).
    Option.bind (nth_part 1 value) (\<lambda>p. Option.bind (parse_f64 p) (\<lambda>(rpm, _).
    let actual = map_option fst (Option.bind (nth_part 2 value) parse_f64)
    in Some (feed, rpm, actual)))))"

definition parse_overrides :: "string \<Rightarrow> (nat \<times> nat \<times> nat) option"
  where "parse_overrides value =
    Option.bind (Option.bind (nth_part 0 value) parse_u32) (\<lambda>feed.
    Option.bind (Option.bind (nth_part 1 value) parse_u32) (\<lambda>rapid.
    Option.bind (Option.bind (nth_part 2 value) parse_u32) (\<lambda>spindle.
    Some (feed, rapid, spindle))))"

definition parse_pair_u32 :: "string \<Rightarrow> (nat \<times> nat) option"
  where "parse_pair_u32 value =
    Option.bind (Option.bind (nth_part 0 value) parse_u32) (\<lambda>a.
    Option.bind (Option.bind (nth_part 1 value) parse_u32) (\<lambda>b. Some (a, b)))"

fun drop_ws :: "nat \<Rightarrow> string \<Rightarrow> string"
  where
    "drop_ws 0 s = s"
  | "drop_ws (Suc n) [] = []"
  | "drop_ws (Suc n) (c # cs) =
      (case strip_any ws_encodings (c # cs) of Some s' \<Rightarrow> drop_ws n s' | None \<Rightarrow> c # drop_ws n cs)"

definition status_field ::
    "(string \<Rightarrow> ('f \<times> bool) option) \<Rightarrow> 'f \<Rightarrow> 'f StatusReport \<Rightarrow> string \<Rightarrow> 'f StatusReport"
  where "status_field parse_f64 zero r field =
    (case split_once CHR '':'' field of
       None \<Rightarrow> r
     | Some (tag, value) \<Rightarrow>
         if tag = ''MPos'' then r\<lparr>sr_position_kind := Machine, sr_position := parse_floats parse_f64 value\<rparr>
         else if tag = ''WPos'' then r\<lparr>sr_position_kind := Work, sr_position := parse_floats parse_f64 value\<rparr>
         else if tag = ''WCO'' then r\<lparr>sr_wco := Some (parse_floats parse_f64 value)\<rparr>
         else if tag = ''FS'' then r\<lparr>sr_feed_speed := parse_feed_speed parse_f64 value\<rparr>
         else if tag = ''F'' then
           r\<lparr>sr_feed_speed := map_option (\<lambda>(f, _). (f, zero, None)) (parse_f64 (trim value))\<rparr>
         else if tag = ''Ov'' then r\<lparr>sr_overrides := parse_overrides value\<rparr>
         else if tag = ''Pn'' then r\<lparr>sr_pins := drop_ws (length value) value\<rparr>
         else if tag = ''Bf'' then r\<lparr>sr_buffer := parse_pair_u32 value\<rparr>
         else if tag = ''Ln'' then r\<lparr>sr_line := parse_u32 (trim value)\<rparr>
         else r)"

definition parse_status :: "(string \<Rightarrow> ('f \<times> bool) option) \<Rightarrow> 'f \<Rightarrow> string \<Rightarrow> 'f StatusReport"
  where "parse_status parse_f64 zero body =
    (let fields = split_on CHR ''|'' body
     in foldl (status_field parse_f64 zero)
          \<lparr>sr_machine_state = parse_machine_state (hd fields), sr_position_kind = Machine,
           sr_position = [], sr_wco = None, sr_feed_speed = None, sr_overrides = None,
           sr_pins = [], sr_buffer = None, sr_line = None\<rparr>
          (tl fields))"

lemma status_field_state [simp]: "sr_machine_state (status_field f z r x) = sr_machine_state r"
  by (simp add: status_field_def split: option.split prod.split)

lemma foldl_status_state [simp]: "sr_machine_state (foldl (status_field f z) r xs) = sr_machine_state r"
  by (induction xs arbitrary: r) simp_all

lemma parse_machine_state_state: "ms_state (parse_machine_state (hd (split_on CHR ''|'' b))) = peek_run_state b"
  by (simp add: parse_machine_state_def peek_run_state_def Let_def split: option.split prod.split)

lemma status_state_peek: "ms_state (sr_machine_state (parse_status f z body)) = peek_run_state body"
  by (simp add: parse_status_def Let_def parse_machine_state_state)

end
