(* ===== verification/Realtime.thy ===== *)
theory Realtime
  imports Prelude
begin

text \<open>
  The out-of-band command bytes on both ends.  Firmware: the classifier
  \<^verbatim>\<open>crates/firmware-core/src/protocol/realtime.rs\<close> and the override state machine
  \<^verbatim>\<open>crates/firmware-core/src/protocol/overrides.rs\<close>.  Host: the command set and its wire bytes
  \<^verbatim>\<open>crates/skirnir/src/protocol/realtime.rs\<close>; the host's constructors carry the prefix \<^verbatim>\<open>H_\<close>.
\<close>

section \<open>Firmware: classification\<close>

datatype RealtimeCommand =
    StatusReport
  | CycleStart
  | FeedHold
  | SoftReset
  | Stop
  | ParserStateReport
  | SafetyDoor
  | JogCancel
  | ProgramStop
  | FullStatusReport
  | ToggleAutoReport
  | ToggleOptionalStop
  | Override u8

definition classify_realtime :: "u8 \<Rightarrow> RealtimeCommand option"
  where "classify_realtime byte =
    (if byte = 0x3F \<or> byte = 0x80 then Some StatusReport
     else if byte = 0x7E \<or> byte = 0x81 then Some CycleStart
     else if byte = 0x21 \<or> byte = 0x82 then Some FeedHold
     else if byte = 0x18 then Some SoftReset
     else if byte = 0x19 then Some Stop
     else if byte = 0x83 then Some ParserStateReport
     else if byte = 0x84 then Some SafetyDoor
     else if byte = 0x85 then Some JogCancel
     else if byte = 0x86 then Some ProgramStop
     else if byte = 0x87 then Some FullStatusReport
     else if byte = 0x8C then Some ToggleAutoReport
     else if byte = 0x88 then Some ToggleOptionalStop
     else if (0x90 \<le> byte \<and> byte \<le> 0x9E) \<or> (0xA0 \<le> byte \<and> byte \<le> 0xA4) then Some (Override byte)
     else None)"

section \<open>Firmware: overrides\<close>

definition OVERRIDE_MIN_PCT :: u8
  where "OVERRIDE_MIN_PCT = 10"

definition OVERRIDE_MAX_PCT :: u8
  where "OVERRIDE_MAX_PCT = 200"

definition OVERRIDE_DEFAULT_PCT :: u8
  where "OVERRIDE_DEFAULT_PCT = 100"

record Overrides =
  feed :: u8
  rapid :: u8
  spindle :: u8
  spindle_stop :: bool
  flood :: bool
  mist :: bool

definition Overrides_new :: Overrides
  where "Overrides_new =
    \<lparr>feed = OVERRIDE_DEFAULT_PCT, rapid = OVERRIDE_DEFAULT_PCT, spindle = OVERRIDE_DEFAULT_PCT,
     spindle_stop = False, flood = False, mist = False\<rparr>"

text \<open>
  The candidate is an \<^verbatim>\<open>i16\<close>; from a byte it is at least \<^verbatim>\<open>-10\<close> and at most \<^verbatim>\<open>265\<close>, so an integer
  stands for it.
\<close>

definition clamp_override :: "int \<Rightarrow> u8"
  where "clamp_override candidate =
    word_of_int (max (uint OVERRIDE_MIN_PCT) (min (uint OVERRIDE_MAX_PCT) candidate))"

definition apply_override :: "Overrides \<Rightarrow> u8 \<Rightarrow> Overrides \<times> bool"
  where "apply_override s byte =
    (let before = s;
         s = (if byte = 0x90 then s\<lparr>feed := OVERRIDE_DEFAULT_PCT\<rparr>
              else if byte = 0x91 then s\<lparr>feed := clamp_override (uint (feed s) + 10)\<rparr>
              else if byte = 0x92 then s\<lparr>feed := clamp_override (uint (feed s) - 10)\<rparr>
              else if byte = 0x93 then s\<lparr>feed := clamp_override (uint (feed s) + 1)\<rparr>
              else if byte = 0x94 then s\<lparr>feed := clamp_override (uint (feed s) - 1)\<rparr>
              else if byte = 0x95 then s\<lparr>rapid := 100\<rparr>
              else if byte = 0x96 then s\<lparr>rapid := 50\<rparr>
              else if byte = 0x97 then s\<lparr>rapid := 25\<rparr>
              else if byte = 0x99 then s\<lparr>spindle := OVERRIDE_DEFAULT_PCT\<rparr>
              else if byte = 0x9A then s\<lparr>spindle := clamp_override (uint (spindle s) + 10)\<rparr>
              else if byte = 0x9B then s\<lparr>spindle := clamp_override (uint (spindle s) - 10)\<rparr>
              else if byte = 0x9C then s\<lparr>spindle := clamp_override (uint (spindle s) + 1)\<rparr>
              else if byte = 0x9D then s\<lparr>spindle := clamp_override (uint (spindle s) - 1)\<rparr>
              else if byte = 0x9E then s\<lparr>spindle_stop := \<not> spindle_stop s\<rparr>
              else if byte = 0xA0 then s\<lparr>flood := \<not> flood s\<rparr>
              else if byte = 0xA1 then s\<lparr>mist := \<not> mist s\<rparr>
              else s)
     in (s, s \<noteq> before))"

definition pct_ok :: "u8 \<Rightarrow> bool"
  where "pct_ok p \<longleftrightarrow> 10 \<le> p \<and> p \<le> 200"

definition overrides_ok :: "Overrides \<Rightarrow> bool"
  where "overrides_ok s \<longleftrightarrow> pct_ok (feed s) \<and> pct_ok (spindle s) \<and> rapid s \<in> {25, 50, 100}"

lemma uint_clamp_override: "uint (clamp_override c) = max 10 (min 200 c)"
  by (auto simp: clamp_override_def OVERRIDE_MIN_PCT_def OVERRIDE_MAX_PCT_def unsigned_of_int
      take_bit_int_eq_self_iff max_def min_def)

lemma pct_ok_clamp [simp]: "pct_ok (clamp_override c)"
  by (simp add: pct_ok_def word_le_def uint_clamp_override)

lemma pct_ok_default [simp]: "pct_ok OVERRIDE_DEFAULT_PCT"
  by (simp add: pct_ok_def OVERRIDE_DEFAULT_PCT_def)

lemma overrides_ok_new: "overrides_ok Overrides_new"
  by (simp add: overrides_ok_def Overrides_new_def OVERRIDE_DEFAULT_PCT_def pct_ok_def)

lemma overrides_ok_apply: "overrides_ok s \<Longrightarrow> overrides_ok (fst (apply_override s b))"
  by (simp add: apply_override_def Let_def overrides_ok_def)

lemma overrides_ok_run:
  "overrides_ok s \<Longrightarrow> overrides_ok (foldl (\<lambda>s b. fst (apply_override s b)) s bs)"
  by (induction bs arbitrary: s) (simp_all add: overrides_ok_apply)

section \<open>Host: the commands and their bytes\<close>

datatype HostRealtime =
    H_SoftReset | H_ProgramStop | H_StatusReport | H_CycleStart | H_FeedHold | H_SafetyDoor
  | H_JogCancel | H_FullReport
  | H_FeedOverrideReset | H_FeedOverridePlus10 | H_FeedOverrideMinus10
  | H_FeedOverridePlus1 | H_FeedOverrideMinus1
  | H_RapidOverrideReset | H_RapidOverride50 | H_RapidOverride25
  | H_SpindleOverrideReset | H_SpindleOverridePlus10 | H_SpindleOverrideMinus10
  | H_SpindleOverridePlus1 | H_SpindleOverrideMinus1 | H_SpindleStopToggle
  | H_CoolantFloodToggle | H_CoolantMistToggle

fun byte :: "HostRealtime \<Rightarrow> u8"
  where
    "byte H_SoftReset = 0x18"
  | "byte H_ProgramStop = 0x86"
  | "byte H_StatusReport = 0x3F"
  | "byte H_CycleStart = 0x7E"
  | "byte H_FeedHold = 0x21"
  | "byte H_SafetyDoor = 0x84"
  | "byte H_JogCancel = 0x85"
  | "byte H_FullReport = 0x87"
  | "byte H_FeedOverrideReset = 0x90"
  | "byte H_FeedOverridePlus10 = 0x91"
  | "byte H_FeedOverrideMinus10 = 0x92"
  | "byte H_FeedOverridePlus1 = 0x93"
  | "byte H_FeedOverrideMinus1 = 0x94"
  | "byte H_RapidOverrideReset = 0x95"
  | "byte H_RapidOverride50 = 0x96"
  | "byte H_RapidOverride25 = 0x97"
  | "byte H_SpindleOverrideReset = 0x99"
  | "byte H_SpindleOverridePlus10 = 0x9A"
  | "byte H_SpindleOverrideMinus10 = 0x9B"
  | "byte H_SpindleOverridePlus1 = 0x9C"
  | "byte H_SpindleOverrideMinus1 = 0x9D"
  | "byte H_SpindleStopToggle = 0x9E"
  | "byte H_CoolantFloodToggle = 0xA0"
  | "byte H_CoolantMistToggle = 0xA1"

text \<open>
  What each host command asks for, in the terms of the firmware: a plain command, or an effect
  on the override state (a percentage in range is moved by a step and kept within 10 to 200).
\<close>

fun plain_meaning :: "HostRealtime \<Rightarrow> RealtimeCommand option"
  where
    "plain_meaning H_SoftReset = Some SoftReset"
  | "plain_meaning H_ProgramStop = Some ProgramStop"
  | "plain_meaning H_StatusReport = Some StatusReport"
  | "plain_meaning H_CycleStart = Some CycleStart"
  | "plain_meaning H_FeedHold = Some FeedHold"
  | "plain_meaning H_SafetyDoor = Some SafetyDoor"
  | "plain_meaning H_JogCancel = Some JogCancel"
  | "plain_meaning H_FullReport = Some FullStatusReport"
  | "plain_meaning _ = None"

definition step_pct :: "int \<Rightarrow> u8 \<Rightarrow> u8"
  where "step_pct d p = word_of_int (max 10 (min 200 (uint p + d)))"

fun override_meaning :: "HostRealtime \<Rightarrow> Overrides \<Rightarrow> Overrides"
  where
    "override_meaning H_FeedOverrideReset s = s\<lparr>feed := 100\<rparr>"
  | "override_meaning H_FeedOverridePlus10 s = s\<lparr>feed := step_pct 10 (feed s)\<rparr>"
  | "override_meaning H_FeedOverrideMinus10 s = s\<lparr>feed := step_pct (-10) (feed s)\<rparr>"
  | "override_meaning H_FeedOverridePlus1 s = s\<lparr>feed := step_pct 1 (feed s)\<rparr>"
  | "override_meaning H_FeedOverrideMinus1 s = s\<lparr>feed := step_pct (-1) (feed s)\<rparr>"
  | "override_meaning H_RapidOverrideReset s = s\<lparr>rapid := 100\<rparr>"
  | "override_meaning H_RapidOverride50 s = s\<lparr>rapid := 50\<rparr>"
  | "override_meaning H_RapidOverride25 s = s\<lparr>rapid := 25\<rparr>"
  | "override_meaning H_SpindleOverrideReset s = s\<lparr>spindle := 100\<rparr>"
  | "override_meaning H_SpindleOverridePlus10 s = s\<lparr>spindle := step_pct 10 (spindle s)\<rparr>"
  | "override_meaning H_SpindleOverrideMinus10 s = s\<lparr>spindle := step_pct (-10) (spindle s)\<rparr>"
  | "override_meaning H_SpindleOverridePlus1 s = s\<lparr>spindle := step_pct 1 (spindle s)\<rparr>"
  | "override_meaning H_SpindleOverrideMinus1 s = s\<lparr>spindle := step_pct (-1) (spindle s)\<rparr>"
  | "override_meaning H_SpindleStopToggle s = s\<lparr>spindle_stop := \<not> spindle_stop s\<rparr>"
  | "override_meaning H_CoolantFloodToggle s = s\<lparr>flood := \<not> flood s\<rparr>"
  | "override_meaning H_CoolantMistToggle s = s\<lparr>mist := \<not> mist s\<rparr>"
  | "override_meaning _ s = s"

lemma classify_plain:
  "plain_meaning c = Some r \<Longrightarrow> classify_realtime (byte c) = Some r"
  by (cases c) (auto simp: classify_realtime_def)

lemma classify_override:
  "plain_meaning c = None \<Longrightarrow> classify_realtime (byte c) = Some (Override (byte c))"
  by (cases c) (auto simp: classify_realtime_def)

lemma apply_override_meaning:
  "plain_meaning c = None \<Longrightarrow> fst (apply_override s (byte c)) = override_meaning c s"
  by (cases c) (simp_all add: apply_override_def Let_def OVERRIDE_DEFAULT_PCT_def clamp_override_def
      step_pct_def OVERRIDE_MIN_PCT_def OVERRIDE_MAX_PCT_def)

section \<open>Properties\<close>

text \<open>
  the two ends agree on every real-time byte.  Each byte the host can inject is diverted by
  the firmware's classifier to the command the host meant; an override byte, applied to the
  override state, has the effect the host command names.
\<close>

theorem realtime_bytes_agree:
  "case plain_meaning c of
     Some r \<Rightarrow> classify_realtime (byte c) = Some r
   | None \<Rightarrow> classify_realtime (byte c) = Some (Override (byte c)) \<and>
       fst (apply_override s (byte c)) = override_meaning c s"
  by (auto split: option.split simp: classify_plain classify_override apply_override_meaning)

text \<open>
  overrides stay in range.  After any sequence of real-time override bytes from power-on the
  feed and spindle overrides are between 10 and 200 percent and the rapid override is 25, 50 or
  100 percent; and a byte is reported as a change exactly when it changed the state.
\<close>

theorem overrides_stay_in_range:
  "overrides_ok (foldl (\<lambda>s b. fst (apply_override s b)) Overrides_new bs) \<and>
   (snd (apply_override s b) \<longleftrightarrow> fst (apply_override s b) \<noteq> s)"
proof
  show "snd (apply_override s b) \<longleftrightarrow> fst (apply_override s b) \<noteq> s"
    unfolding apply_override_def Let_def fst_conv snd_conv ..
qed (rule overrides_ok_run [OF overrides_ok_new])

end
