(* ===== verification/Protocol_Core.thy ===== *)
theory Protocol_Core
  imports Flow_Window Grbl_Text Realtime
begin

text \<open>
  \<^verbatim>\<open>crates/skirnir/src/protocol/core.rs\<close>: the host's streaming state machine.  Every \<^verbatim>\<open>on_*\<close>
  method is a function from the core to the new core and the effects the driver must carry out,
  in order.  The lifecycle enum is \<^verbatim>\<open>crates/skirnir/src/protocol/lifecycle.rs\<close>.
\<close>

section \<open>State and effects\<close>

datatype ConnectionState = Disconnected | Connecting | Idle | Streaming | Hold | AlarmState | ErrorState

definition can_release_program_lines :: "ConnectionState \<Rightarrow> bool"
  where "can_release_program_lines s \<longleftrightarrow> s = Streaming"

definition is_connected :: "ConnectionState \<Rightarrow> bool"
  where "is_connected s \<longleftrightarrow> s \<noteq> Disconnected \<and> s \<noteq> Connecting"

definition has_transport :: "ConnectionState \<Rightarrow> bool"
  where "has_transport s \<longleftrightarrow> s \<noteq> Disconnected"

datatype 'f Effect =
    WriteLine "u8 list"
  | WriteRealtime "u8 list"
  | AbortQueued
  | StateChanged ConnectionState
  | ResponseEff "'f Response"
  | Progress nat nat nat
  | Fault EngineError

datatype InflightKind = Program | Other

record ProtocolCore =
  pc_state :: ConnectionState
  flow :: FlowWindow
  program :: "u8 list list"
  inflight_kinds :: "InflightKind list"
  program_total :: nat
  program_sent :: nat
  program_acked :: nat
  trailing_acks :: nat
  ignore_stray_acks :: bool
  pinned_rx_window :: "nat option"

definition ProtocolCore_new :: ProtocolCore
  where "ProtocolCore_new =
    \<lparr>pc_state = Disconnected, flow = FlowWindow_new DEFAULT_RX_BUFFER, program = [],
     inflight_kinds = [], program_total = 0, program_sent = 0, program_acked = 0,
     trailing_acks = 0, ignore_stray_acks = False, pinned_rx_window = None\<rparr>"

section \<open>Helpers\<close>

definition pin_rx_window :: "ProtocolCore \<Rightarrow> nat \<Rightarrow> ProtocolCore"
  where "pin_rx_window c bytes =
    c\<lparr>pinned_rx_window := Some bytes, flow := set_rx_buffer (flow c) bytes\<rparr>"

definition transition :: "ProtocolCore \<Rightarrow> ConnectionState \<Rightarrow> ProtocolCore \<times> 'f Effect list"
  where "transition c nxt =
    (if pc_state c \<noteq> nxt then (c\<lparr>pc_state := nxt\<rparr>, [StateChanged nxt]) else (c, []))"

text \<open>\<^verbatim>\<open>a |> f\<close>: run \<^verbatim>\<open>f\<close> on the core and append its effects, as the shared \<^verbatim>\<open>out\<close> vector does.\<close>

fun also_do ::
    "ProtocolCore \<times> 'f Effect list \<Rightarrow> (ProtocolCore \<Rightarrow> ProtocolCore \<times> 'f Effect list) \<Rightarrow>
     ProtocolCore \<times> 'f Effect list"
  where "also_do (c, out) f = (let (c', out') = f c in (c', out @ out'))"

definition clear_program :: "ProtocolCore \<Rightarrow> ProtocolCore"
  where "clear_program c =
    c\<lparr>program := [], program_total := 0, program_sent := 0, program_acked := 0\<rparr>"

definition reset_window :: "ProtocolCore \<Rightarrow> bool \<Rightarrow> ProtocolCore"
  where "reset_window c tolerate_trailing_acks =
    (let c = (if tolerate_trailing_acks
              then c\<lparr>trailing_acks := trailing_acks c + length (inflight_kinds c)\<rparr> else c);
         budget = (case pinned_rx_window c of Some b \<Rightarrow> b | None \<Rightarrow> rx_buffer (flow c))
     in c\<lparr>flow := FlowWindow_new budget, inflight_kinds := []\<rparr>)"

definition emit_progress :: "ProtocolCore \<Rightarrow> ProtocolCore \<times> 'f Effect list"
  where "emit_progress c = (c, [Progress (program_sent c) (program_acked c) (program_total c)])"

definition has_program_inflight :: "ProtocolCore \<Rightarrow> bool"
  where "has_program_inflight c \<longleftrightarrow> Program \<in> set (inflight_kinds c)"

definition complete_if_drained :: "ProtocolCore \<Rightarrow> ProtocolCore \<times> 'f Effect list"
  where "complete_if_drained c =
    (if program c = [] \<and> \<not> has_program_inflight c then transition c Idle else (c, []))"

text \<open>The bookkeeping of one released program line.\<close>

definition send_front :: "ProtocolCore \<Rightarrow> ProtocolCore"
  where "send_front c =
    c\<lparr>program := tl (program c), flow := on_line_sent (flow c) (length (hd (program c))),
      ignore_stray_acks := False, inflight_kinds := inflight_kinds c @ [Program],
      program_sent := program_sent c + 1\<rparr>"

function release_ready_lines :: "ProtocolCore \<Rightarrow> ProtocolCore \<times> 'f Effect list"
  where "release_ready_lines c =
    (if program c \<noteq> [] \<and> fits (flow c) (length (hd (program c))) = Inr True
     then let (c', out) = release_ready_lines (send_front c)
          in (c', WriteLine (hd (program c)) # out)
     else (c, []))"
  by pat_completeness auto

termination release_ready_lines
  by (relation "measure (\<lambda>c. length (program c))") (auto simp: send_front_def)

declare release_ready_lines.simps [simp del]

definition encode_line :: "string \<Rightarrow> u8 list"
  where "encode_line line =
    map of_char (trim_end_matches [CHR 0x0D, CHR 0x0A] line) @ [0x0A]"

section \<open>The operations\<close>

definition on_connected :: "ProtocolCore \<Rightarrow> ProtocolCore \<times> 'f Effect list"
  where "on_connected c = transition (c\<lparr>trailing_acks := 0, ignore_stray_acks := False\<rparr>) Connecting"

definition on_disconnected :: "ProtocolCore \<Rightarrow> ProtocolCore \<times> 'f Effect list"
  where "on_disconnected c =
    transition ((reset_window (clear_program c) False)\<lparr>ignore_stray_acks := False\<rparr>) Disconnected"

definition on_send_line :: "ProtocolCore \<Rightarrow> string \<Rightarrow> ProtocolCore \<times> 'f Effect list"
  where "on_send_line c line =
    (let encoded = encode_line line in
     case fits (flow c) (length encoded) of
       Inl err \<Rightarrow> (c, [Fault err])
     | Inr True \<Rightarrow>
         (c\<lparr>flow := on_line_sent (flow c) (length encoded), ignore_stray_acks := False,
            inflight_kinds := inflight_kinds c @ [Other]\<rparr>,
          [WriteLine encoded])
     | Inr False \<Rightarrow> (c, [Fault (LineTooLong (length encoded) (rx_buffer (flow c)))]))"

definition begin_handshake :: "ProtocolCore \<Rightarrow> ProtocolCore \<times> 'f Effect list"
  where "begin_handshake c =
    also_do (c, [WriteRealtime [byte H_StatusReport, byte H_FullReport]]) (\<lambda>c. on_send_line c ''$I'')"

text \<open>Loading: every line is encoded and checked against the whole budget before any is sent.\<close>

fun load_lines :: "ProtocolCore \<Rightarrow> string list \<Rightarrow> EngineError + ProtocolCore"
  where
    "load_lines c [] = Inr c"
  | "load_lines c (line # rest) =
      (let encoded = encode_line line in
       case fits (flow c) (length encoded) of
         Inl err \<Rightarrow> Inl err
       | Inr _ \<Rightarrow> load_lines (c\<lparr>program := program c @ [encoded]\<rparr>) rest)"

definition on_stream_program :: "ProtocolCore \<Rightarrow> string list \<Rightarrow> ProtocolCore \<times> 'f Effect list"
  where "on_stream_program c0 lines =
    (let c = clear_program c0 in
     case load_lines c lines of
       Inl err \<Rightarrow> (c, [Fault err])
     | Inr c1 \<Rightarrow>
         let c2 = c1\<lparr>program_total := length (program c1)\<rparr> in
         if program_total c2 = 0
         then (if is_connected (pc_state c2) then transition c2 Idle else (c2, []))
         else also_do (also_do (transition c2 Streaming) release_ready_lines) emit_progress)"

definition stop_effects :: "ProtocolCore \<Rightarrow> ProtocolCore \<times> 'f Effect list"
  where "stop_effects c =
    also_do
      (also_do (emit_progress (clear_program c))
        (\<lambda>c. ((reset_window c False)\<lparr>ignore_stray_acks := True\<rparr>, [AbortQueued])))
      (\<lambda>c. if is_connected (pc_state c) then transition c Idle else (c, []))"

definition on_realtime :: "ProtocolCore \<Rightarrow> HostRealtime \<Rightarrow> ProtocolCore \<times> 'f Effect list"
  where "on_realtime c cmd =
    also_do (c, [WriteRealtime [byte cmd]]) (\<lambda>c.
      if cmd = H_FeedHold \<and> pc_state c = Streaming then transition c Hold
      else if cmd = H_CycleStart \<and> pc_state c = Hold then transition c Streaming
      else if cmd = H_ProgramStop then stop_effects c
      else if cmd = H_SoftReset then stop_effects c
      else (c, []))"

definition adopted_state_for :: "'f Response \<Rightarrow> ConnectionState"
  where "adopted_state_for response =
    (case response of
       Status body \<Rightarrow>
         (case peek_run_state body of
            HRS_Hold \<Rightarrow> Hold | HRS_Alarm \<Rightarrow> AlarmState | _ \<Rightarrow> Idle)
     | Alarm _ \<Rightarrow> AlarmState
     | _ \<Rightarrow> Idle)"

definition lifecycle_from_status_runstate :: "HostRunState \<Rightarrow> ConnectionState option"
  where "lifecycle_from_status_runstate state =
    (case state of
       HRS_Idle \<Rightarrow> Some Idle | HRS_Hold \<Rightarrow> Some Hold | HRS_Alarm \<Rightarrow> Some AlarmState | _ \<Rightarrow> None)"

text \<open>Releasing, progress and completion, the common tail of both acknowledgement branches.\<close>

definition advance_stream :: "ProtocolCore \<Rightarrow> ProtocolCore \<times> 'f Effect list"
  where "advance_stream c =
    (if pc_state c = Streaming
     then also_do (also_do (release_ready_lines c) emit_progress) complete_if_drained
     else (c, []))"

definition on_ack :: "ProtocolCore \<Rightarrow> bool \<Rightarrow> ProtocolCore \<times> 'f Effect list"
  where "on_ack c is_error =
    (case window_ack (flow c) of
       (_, Inl err) \<Rightarrow>
         if 0 < trailing_acks c then (c\<lparr>trailing_acks := trailing_acks c - 1\<rparr>, [])
         else if ignore_stray_acks c then (c, [])
         else (c, [Fault err])
     | (w, Inr _) \<Rightarrow>
         let kind = (case inflight_kinds c of [] \<Rightarrow> Other | k # _ \<Rightarrow> k);
             c = c\<lparr>flow := w, inflight_kinds := tl (inflight_kinds c)\<rparr>
         in if kind = Other then advance_stream c
            else
              let c = (if program_acked c < program_total c
                       then c\<lparr>program_acked := program_acked c + 1\<rparr> else c)
              in if is_error then transition (clear_program c) ErrorState
                 else advance_stream c)"

definition learn_rx_buffer :: "ProtocolCore \<Rightarrow> 'f Response \<Rightarrow> ProtocolCore"
  where "learn_rx_buffer c response =
    (if pinned_rx_window c \<noteq> None then c
     else case response of
       Message body \<Rightarrow>
         (case rx_buffer_from_opt body of
            Some rx \<Rightarrow> c\<lparr>flow := set_rx_buffer (flow c) rx\<rparr> | None \<Rightarrow> c)
     | _ \<Rightarrow> c)"

definition adopt_lifecycle :: "ProtocolCore \<Rightarrow> 'f Response \<Rightarrow> ProtocolCore \<times> 'f Effect list"
  where "adopt_lifecycle c response =
    (if pc_state c = Connecting \<and> is_grbl_evidence response True
     then transition c (adopted_state_for response)
     else case response of
       Status body \<Rightarrow>
         if pc_state c \<in> {AlarmState, Hold, Idle}
         then (case lifecycle_from_status_runstate (peek_run_state body) of
                 Some adopted \<Rightarrow> transition c adopted | None \<Rightarrow> (c, []))
         else (c, [])
     | _ \<Rightarrow> (c, []))"

definition react :: "'f Response \<Rightarrow> ProtocolCore \<Rightarrow> ProtocolCore \<times> 'f Effect list"
  where "react response c =
    (case response of
       Ok_r \<Rightarrow> on_ack c False
     | Error _ \<Rightarrow> on_ack c True
     | Alarm _ \<Rightarrow> transition (clear_program c) AlarmState
     | Banner _ \<Rightarrow>
         also_do ((reset_window (clear_program c) True)\<lparr>ignore_stray_acks := False\<rparr>, [AbortQueued])
           (\<lambda>c. transition c Idle)
     | _ \<Rightarrow> (c, []))"

definition on_response :: "ProtocolCore \<Rightarrow> 'f Response \<Rightarrow> ProtocolCore \<times> 'f Effect list"
  where "on_response c response =
    also_do
      (also_do (learn_rx_buffer c response, [ResponseEff response])
        (\<lambda>c. adopt_lifecycle c response))
      (react response)"

end
