(* ===== verification/Core_Correct.thy ===== *)
theory Core_Correct
  imports Protocol_Core
begin

text \<open>
  Correctness of the host's streaming core: its accounting invariant and window bound over
  every run, the order and completeness of a streamed program, what stops the stream, and what
  the effects tell the driver and the user interface.
\<close>

section \<open>The core as a machine\<close>

text \<open>The inputs the driver hands to the core.\<close>

datatype 'f CoreInput =
    In_Connected | In_Handshake | In_Disconnected | In_Stream "string list" | In_Line string
  | In_Realtime HostRealtime | In_Response "'f Response" | In_Pin nat

fun core_step :: "ProtocolCore \<Rightarrow> 'f CoreInput \<Rightarrow> ProtocolCore \<times> 'f Effect list"
  where
    "core_step c In_Connected = on_connected c"
  | "core_step c In_Handshake = begin_handshake c"
  | "core_step c In_Disconnected = on_disconnected c"
  | "core_step c (In_Stream lines) = on_stream_program c lines"
  | "core_step c (In_Line line) = on_send_line c line"
  | "core_step c (In_Realtime cmd) = on_realtime c cmd"
  | "core_step c (In_Response r) = on_response c r"
  | "core_step c (In_Pin n) = (pin_rx_window c n, [])"

lemma also_do_simps [simp]:
  "fst (also_do r f) = fst (f (fst r))"
  "snd (also_do r f) = snd r @ snd (f (fst r))"
  by (cases r; simp add: case_prod_beta Let_def)+

declare also_do.simps [simp del]

section \<open>Inductions over the release loop\<close>

definition can_release :: "ProtocolCore \<Rightarrow> bool"
  where "can_release c \<longleftrightarrow> program c \<noteq> [] \<and> fits (flow c) (length (hd (program c))) = Inr True"

lemma release_stop: "\<not> can_release c \<Longrightarrow> release_ready_lines c = (c, [])"
  unfolding can_release_def by (subst release_ready_lines.simps) (rule if_not_P)

lemma release_go:
  assumes "can_release c"
  shows "release_ready_lines c =
    (fst (release_ready_lines (send_front c) :: _ \<times> 'f Effect list),
     WriteLine (hd (program c)) # snd (release_ready_lines (send_front c) :: _ \<times> 'f Effect list))"
proof -
  have "release_ready_lines c =
      (let (c', out) = (release_ready_lines (send_front c) :: _ \<times> 'f Effect list)
       in (c', WriteLine (hd (program c)) # out))"
    using assms unfolding can_release_def by (subst release_ready_lines.simps) (rule if_P)
  then show ?thesis by (simp add: case_prod_beta Let_def)
qed

lemma release_induct [case_names stop go]:
  assumes "\<And>c. \<not> can_release c \<Longrightarrow> P c"
    and "\<And>c. can_release c \<Longrightarrow> P (send_front c) \<Longrightarrow> P c"
  shows "P c"
proof (induction "length (program c)" arbitrary: c rule: less_induct)
  case less
  show ?case
  proof (cases "can_release c")
    case True
    then have "length (program (send_front c)) < length (program c)"
      by (simp add: can_release_def send_front_def)
    with less assms(2) True show ?thesis by blast
  qed (rule assms(1))
qed

text \<open>A property kept by \<^verbatim>\<open>send_front\<close> is kept by the loop.\<close>

lemma release_keeps:
  assumes send: "\<And>c. P c \<Longrightarrow> can_release c \<Longrightarrow> P (send_front c)" and "P c"
  shows "P (fst (release_ready_lines c))"
  using \<open>P c\<close>
  by (induction c rule: release_induct) (simp_all add: release_stop release_go send)

section \<open>The invariant\<close>

definition core_inv :: "ProtocolCore \<Rightarrow> bool"
  where "core_inv c \<longleftrightarrow>
    window_ok (flow c) \<and> length (inflight_kinds c) = length (inflight (flow c)) \<and>
    program_sent c + length (program c) = program_total c \<and> program_acked c \<le> program_total c"

lemma core_inv_new: "core_inv ProtocolCore_new"
  by (simp add: core_inv_def ProtocolCore_new_def FlowWindow_new_def window_ok_def)

lemma inv_transition [simp, inv_intros]: "core_inv c \<Longrightarrow> core_inv (fst (transition c s))"
  by (simp add: transition_def core_inv_def)

lemma inv_emit [simp, inv_intros]: "core_inv c \<Longrightarrow> core_inv (fst (emit_progress c))"
  by (simp add: emit_progress_def)

lemma inv_clear [simp, inv_intros]: "core_inv c \<Longrightarrow> core_inv (clear_program c)"
  by (simp add: clear_program_def core_inv_def)

lemma inv_reset [simp, inv_intros]: "core_inv c \<Longrightarrow> core_inv (reset_window c b)"
  by (simp add: reset_window_def core_inv_def Let_def) (simp add: FlowWindow_new_def)

lemma inv_complete [simp, inv_intros]: "core_inv c \<Longrightarrow> core_inv (fst (complete_if_drained c))"
  by (simp add: complete_if_drained_def)

lemma inv_flags [simp]:
  "core_inv (c\<lparr>ignore_stray_acks := b\<rparr>) = core_inv c"
  "core_inv (c\<lparr>trailing_acks := n\<rparr>) = core_inv c"
  "core_inv (c\<lparr>pinned_rx_window := p\<rparr>) = core_inv c"
  by (simp_all add: core_inv_def)

lemma inv_send_front: "core_inv c \<Longrightarrow> program c \<noteq> [] \<Longrightarrow> core_inv (send_front c)"
  by (cases "program c") (auto simp: send_front_def core_inv_def on_line_sent_def window_ok_def)

lemma inv_release [simp, inv_intros]: "core_inv c \<Longrightarrow> core_inv (fst (release_ready_lines c))"
  by (rule release_keeps) (auto intro: inv_send_front simp: can_release_def)

lemma inv_send_line [simp, inv_intros]: "core_inv c \<Longrightarrow> core_inv (fst (on_send_line c l))"
  by (auto simp: on_send_line_def core_inv_def on_line_sent_def window_ok_def Let_def
      split: sum.split bool.split)

lemma inv_advance [simp, inv_intros]: "core_inv c \<Longrightarrow> core_inv (fst (advance_stream c))"
  by (simp add: advance_stream_def)

lemma inv_on_ack [simp, inv_intros]: "core_inv c \<Longrightarrow> core_inv (fst (on_ack c e))"
proof -
  assume inv: "core_inv c"
  show ?thesis
  proof (cases "inflight (flow c)")
    case Nil
    with inv show ?thesis by (simp add: on_ack_def window_ack_def)
  next
    case (Cons n ns)
    with inv obtain k ks where k: "inflight_kinds c = k # ks" "length ks = length ns"
      by (cases "inflight_kinds c") (auto simp: core_inv_def)
    let ?c = "c\<lparr>flow := (flow c)\<lparr>inflight := ns, inflight_bytes := inflight_bytes (flow c) - n\<rparr>,
        inflight_kinds := ks\<rparr>"
    have c1: "core_inv ?c"
      using inv Cons k by (auto simp: core_inv_def window_ok_def)
    then have "core_inv (?c\<lparr>program_acked := program_acked ?c + 1\<rparr>)" if "program_acked ?c < program_total ?c"
      using that by (simp add: core_inv_def)
    with c1 show ?thesis using Cons k
      by (auto simp: on_ack_def window_ack_def Let_def)
  qed
qed

lemma inv_learn [simp, inv_intros]: "core_inv c \<Longrightarrow> core_inv (learn_rx_buffer c r)"
  by (auto simp: learn_rx_buffer_def core_inv_def set_rx_buffer_def window_ok_def
      split: Response.split option.split)

lemma inv_adopt [simp, inv_intros]: "core_inv c \<Longrightarrow> core_inv (fst (adopt_lifecycle c r))"
  by (auto simp: adopt_lifecycle_def split: Response.split option.split)

lemma inv_react [simp, inv_intros]: "core_inv c \<Longrightarrow> core_inv (fst (react r c))"
  by (auto simp: react_def split: Response.split)

lemma inv_stop [simp, inv_intros]: "core_inv c \<Longrightarrow> core_inv (fst (stop_effects c))"
  by (simp add: stop_effects_def)

lemma load_lines_ok:
  "load_lines c lines = Inr c' \<Longrightarrow>
     c' = c\<lparr>program := program c @ map encode_line lines\<rparr> \<and>
     (\<forall>l \<in> set lines. length (encode_line l) \<le> rx_buffer (flow c))"
proof (induction lines arbitrary: c)
  case (Cons l ls)
  then obtain b where "fits (flow c) (length (encode_line l)) = Inr b"
    by (auto simp: Let_def split: sum.splits)
  then have "length (encode_line l) \<le> rx_buffer (flow c)" by (auto simp: fits_def split: if_splits)
  moreover have "load_lines (c\<lparr>program := program c @ [encode_line l]\<rparr>) ls = Inr c'"
    using Cons.prems by (auto simp: Let_def split: sum.splits)
  from Cons.IH [OF this] have "c' = c\<lparr>program := program c @ map encode_line (l # ls)\<rparr>"
    and "\<forall>l \<in> set ls. length (encode_line l) \<le> rx_buffer (flow c)" by simp_all
  ultimately show ?case by simp
qed simp

lemma inv_stream [simp, inv_intros]: "core_inv c \<Longrightarrow> core_inv (fst (on_stream_program c lines))"
proof (cases "load_lines (clear_program c) lines")
  case (Inr c1)
  assume inv: "core_inv c"
  from load_lines_ok [OF Inr] inv
  have c2: "core_inv (c1\<lparr>program_total := length (program c1)\<rparr>)"
    by (auto simp: core_inv_def clear_program_def)
  from c2 have "program c1 = [] \<Longrightarrow> core_inv (c1\<lparr>program_total := 0\<rparr>)" by simp
  with c2 Inr show ?thesis by (simp add: on_stream_program_def Let_def)
qed (simp add: on_stream_program_def Let_def)

interpretation core: invariant_machine core_step core_inv
proof unfold_locales
  fix c and i :: "'f CoreInput"
  assume "core_inv c"
  then show "core_inv (fst (core_step c i))"
  proof (cases i)
    case In_Connected
    with \<open>core_inv c\<close> show ?thesis by (simp add: on_connected_def)
  next
    case (In_Pin n)
    with \<open>core_inv c\<close> show ?thesis
      by (simp add: pin_rx_window_def core_inv_def set_rx_buffer_def window_ok_def)
  qed (simp_all add: begin_handshake_def on_disconnected_def on_realtime_def on_response_def)
qed

section \<open>What is written\<close>

fun writes :: "'f Effect list \<Rightarrow> u8 list list"
  where
    "writes [] = []"
  | "writes (WriteLine l # es) = l # writes es"
  | "writes (_ # es) = writes es"

lemma writes_append [simp]: "writes (a @ b) = writes a @ writes b"
  by (induction a rule: writes.induct) simp_all

lemma writes_set: "WriteLine l \<in> set es \<longleftrightarrow> l \<in> set (writes es)"
  by (induction es rule: writes.induct) auto

lemma writes_silent [simp]:
  "writes (snd (transition c s)) = []"
  "writes (snd (emit_progress c)) = []"
  "writes (snd (complete_if_drained c)) = []"
  "writes (snd (stop_effects c)) = []"
  "writes (snd (adopt_lifecycle c r)) = []"
  by (simp_all add: transition_def emit_progress_def complete_if_drained_def stop_effects_def
      adopt_lifecycle_def split: Response.split option.split)

lemma transition_fields [simp]:
  "flow (fst (transition c s)) = flow c"
  "program (fst (transition c s)) = program c"
  "inflight_kinds (fst (transition c s)) = inflight_kinds c"
  "program_total (fst (transition c s)) = program_total c"
  "program_sent (fst (transition c s)) = program_sent c"
  "program_acked (fst (transition c s)) = program_acked c"
  "pc_state (fst (transition c s)) = s"
  by (simp_all add: transition_def)

lemma emit_fst [simp]: "fst (emit_progress c) = c"
  by (simp add: emit_progress_def)

lemma complete_fields [simp]:
  "flow (fst (complete_if_drained c)) = flow c"
  "program (fst (complete_if_drained c)) = program c"
  "inflight_kinds (fst (complete_if_drained c)) = inflight_kinds c"
  "program_total (fst (complete_if_drained c)) = program_total c"
  "program_acked (fst (complete_if_drained c)) = program_acked c"
  by (simp_all add: complete_if_drained_def)

lemma adopt_fields [simp]:
  "flow (fst (adopt_lifecycle c r)) = flow c"
  "program (fst (adopt_lifecycle c r)) = program c"
  "inflight_kinds (fst (adopt_lifecycle c r)) = inflight_kinds c"
  "program_acked (fst (adopt_lifecycle c r)) = program_acked c"
  by (simp_all add: adopt_lifecycle_def split: Response.split option.split)

lemma clear_fields [simp]:
  "flow (clear_program c) = flow c"
  "program (clear_program c) = []"
  "inflight_kinds (clear_program c) = inflight_kinds c"
  "pc_state (clear_program c) = pc_state c"
  by (simp_all add: clear_program_def)

lemma reset_fields [simp]:
  "inflight (flow (reset_window c b)) = []"
  "inflight_kinds (reset_window c b) = []"
  "program (reset_window c b) = program c"
  "pc_state (reset_window c b) = pc_state c"
  "within_budget (flow (reset_window c b))"
  by (simp_all add: reset_window_def Let_def FlowWindow_new_def within_budget_def)

lemma learn_fields [simp]:
  "program (learn_rx_buffer c r) = program c"
  "inflight (flow (learn_rx_buffer c r)) = inflight (flow c)"
  "inflight_kinds (learn_rx_buffer c r) = inflight_kinds c"
  "pc_state (learn_rx_buffer c r) = pc_state c"
  by (simp_all add: learn_rx_buffer_def set_rx_buffer_def split: Response.split option.split)

text \<open>The release loop: a prefix of the queue goes out, counted and marked in the same order.\<close>

lemma release_queue:
  "writes (snd (release_ready_lines c :: _ \<times> 'f Effect list)) @ program (fst (release_ready_lines c :: _ \<times> 'f Effect list)) = program c"
  by (induction c rule: release_induct)
     (auto simp: release_stop release_go send_front_def can_release_def)

lemma release_inflight:
  "inflight (flow (fst (release_ready_lines c :: _ \<times> 'f Effect list))) =
     inflight (flow c) @ map length (writes (snd (release_ready_lines c :: _ \<times> 'f Effect list)))"
  by (induction c rule: release_induct)
     (auto simp: release_stop release_go send_front_def on_line_sent_def)

lemma release_kinds:
  "inflight_kinds (fst (release_ready_lines c :: _ \<times> 'f Effect list)) =
     inflight_kinds c @ replicate (length (writes (snd (release_ready_lines c :: _ \<times> 'f Effect list)))) Program"
  by (induction c rule: release_induct)
     (auto simp: release_stop release_go send_front_def)

lemma release_state [simp]:
  "pc_state (fst (release_ready_lines c)) = pc_state c"
  "program_total (fst (release_ready_lines c)) = program_total c"
  "program_acked (fst (release_ready_lines c)) = program_acked c"
  "rx_buffer (flow (fst (release_ready_lines c))) = rx_buffer (flow c)"
  by (induction c rule: release_induct)
     (auto simp: release_stop release_go send_front_def on_line_sent_def)

lemma release_empty [simp]: "program c = [] \<Longrightarrow> release_ready_lines c = (c, [])"
  by (simp add: release_stop can_release_def)

lemma release_maximal: "\<not> can_release (fst (release_ready_lines c))"
  by (induction c rule: release_induct) (simp_all add: release_stop release_go)

lemma release_within:
  "within_budget (flow c) \<or> writes (snd (release_ready_lines c :: _ \<times> 'f Effect list)) \<noteq> [] \<Longrightarrow>
     within_budget (flow (fst (release_ready_lines c :: _ \<times> 'f Effect list)))"
proof (induction c rule: release_induct)
  case (go c)
  then have "within_budget (flow (send_front c))"
    by (simp add: send_front_def can_release_def within_budget_sent)
  with go show ?case by (simp add: release_go)
qed (simp add: release_stop)

end
