(* ===== verification/Core_Props.thy ===== *)
theory Core_Props
  imports Core_Correct
begin

text \<open>
  The properties of the streaming core: accounting, budget, order, completion, the states in
  which nothing is written, and the two places where the stream can be left waiting.
\<close>

section \<open>One acknowledgement\<close>

definition is_ack :: "'f Response \<Rightarrow> bool"
  where "is_ack r = (case r of Ok_r \<Rightarrow> True | Error _ \<Rightarrow> True | _ \<Rightarrow> False)"

text \<open>The core after the oldest line has been taken out of the window.\<close>

definition pop_oldest :: "ProtocolCore \<Rightarrow> ProtocolCore"
  where "pop_oldest c =
    c\<lparr>flow := fst (window_ack (flow c)), inflight_kinds := tl (inflight_kinds c)\<rparr>"

definition count_ack :: "ProtocolCore \<Rightarrow> ProtocolCore"
  where "count_ack c =
    (if program_acked c < program_total c then c\<lparr>program_acked := program_acked c + 1\<rparr> else c)"

lemma on_ack_cases:
  "on_ack c e =
    (if inflight (flow c) = [] then
       (if 0 < trailing_acks c then (c\<lparr>trailing_acks := trailing_acks c - 1\<rparr>, [])
        else if ignore_stray_acks c then (c, []) else (c, [Fault UnexpectedAck]))
     else if inflight_kinds c = [] \<or> hd (inflight_kinds c) = Other then advance_stream (pop_oldest c)
     else if e then transition (clear_program (count_ack (pop_oldest c))) ErrorState
     else advance_stream (count_ack (pop_oldest c)))"
  by (cases "inflight (flow c)"; cases "inflight_kinds c")
     (auto simp: on_ack_def window_ack_def pop_oldest_def count_ack_def Let_def)

lemma pop_fields [simp]:
  "inflight (flow (pop_oldest c)) = tl (inflight (flow c))"
  "inflight_kinds (pop_oldest c) = tl (inflight_kinds c)"
  "program (pop_oldest c) = program c"
  "pc_state (pop_oldest c) = pc_state c"
  "program_acked (pop_oldest c) = program_acked c"
  "program_total (pop_oldest c) = program_total c"
  "rx_buffer (flow (pop_oldest c)) = rx_buffer (flow c)"
  "program_sent (pop_oldest c) = program_sent c"
  "window_ok (flow c) \<Longrightarrow> window_ok (flow (pop_oldest c))"
  by (auto simp: pop_oldest_def window_ack_def window_ok_def split: list.split)

lemma count_fields [simp]:
  "flow (count_ack c) = flow c"
  "program (count_ack c) = program c"
  "inflight_kinds (count_ack c) = inflight_kinds c"
  "pc_state (count_ack c) = pc_state c"
  "program_total (count_ack c) = program_total c"
  by (simp_all add: count_ack_def)

lemma advance_queue:
  "writes (snd (advance_stream c :: _ \<times> 'f Effect list)) @ program (fst (advance_stream c :: _ \<times> 'f Effect list)) = program c"
  by (simp add: advance_stream_def release_queue)

lemma advance_inflight:
  "inflight (flow (fst (advance_stream c :: _ \<times> 'f Effect list))) = inflight (flow c) @ map length (writes (snd (advance_stream c :: _ \<times> 'f Effect list)))"
  by (simp add: advance_stream_def release_inflight)

lemma advance_within:
  "writes (snd (advance_stream c :: _ \<times> 'f Effect list)) \<noteq> [] \<Longrightarrow> within_budget (flow (fst (advance_stream c :: _ \<times> 'f Effect list)))"
  by (auto simp: advance_stream_def intro: release_within split: if_splits)

lemma ack_queue:
  "writes (snd (on_ack c e :: _ \<times> 'f Effect list)) @ program (fst (on_ack c e :: _ \<times> 'f Effect list)) = program c \<or>
   (writes (snd (on_ack c e :: _ \<times> 'f Effect list)) = [] \<and> program (fst (on_ack c e :: _ \<times> 'f Effect list)) = [])"
  by (simp add: on_ack_cases advance_queue)

lemma ack_inflight:
  "inflight (flow (fst (on_ack c e :: _ \<times> 'f Effect list))) = drop 1 (inflight (flow c)) @ map length (writes (snd (on_ack c e :: _ \<times> 'f Effect list)))"
  by (simp add: on_ack_cases advance_inflight drop_Suc)

lemma ack_within:
  "writes (snd (on_ack c e :: _ \<times> 'f Effect list)) \<noteq> [] \<Longrightarrow> within_budget (flow (fst (on_ack c e :: _ \<times> 'f Effect list)))"
  by (auto simp: on_ack_cases intro: advance_within split: if_splits)

lemma react_queue:
  "writes (snd (react r c)) @ program (fst (react r c)) = program c \<or>
   (writes (snd (react r c)) = [] \<and> program (fst (react r c)) = [])"
  by (cases r) (simp_all add: react_def ack_queue)

lemma react_within:
  "writes (snd (react r c)) \<noteq> [] \<Longrightarrow> within_budget (flow (fst (react r c)))"
  by (auto simp: react_def intro: ack_within split: Response.splits)

section \<open>One input\<close>

definition clears_window :: "'f CoreInput \<Rightarrow> bool"
  where "clears_window i = (case i of
      In_Disconnected \<Rightarrow> True
    | In_Realtime cmd \<Rightarrow> cmd = H_SoftReset \<or> cmd = H_ProgramStop
    | In_Response (Banner _) \<Rightarrow> True
    | _ \<Rightarrow> False)"

definition ack_count :: "'f CoreInput \<Rightarrow> nat"
  where "ack_count i = (case i of In_Response r \<Rightarrow> if is_ack r then 1 else 0 | _ \<Rightarrow> 0)"

lemma stop_fields [simp]:
  "inflight (flow (fst (stop_effects c))) = []"
  "inflight_kinds (fst (stop_effects c)) = []"
  "program (fst (stop_effects c)) = []"
  "within_budget (flow (fst (stop_effects c)))"
  by (simp_all add: stop_effects_def)

lemma send_line_inflight:
  "inflight (flow (fst (on_send_line c l :: _ \<times> 'f Effect list))) = inflight (flow c) @ map length (writes (snd (on_send_line c l :: _ \<times> 'f Effect list)))"
  by (simp add: on_send_line_def Let_def on_line_sent_def split: sum.split bool.split)

lemma send_line_within:
  "writes (snd (on_send_line c l :: _ \<times> 'f Effect list)) \<noteq> [] \<Longrightarrow> within_budget (flow (fst (on_send_line c l :: _ \<times> 'f Effect list)))"
  by (auto simp: on_send_line_def Let_def within_budget_sent split: sum.splits bool.splits)

lemma stream_inflight:
  "inflight (flow (fst (on_stream_program c ls :: _ \<times> 'f Effect list))) =
     inflight (flow c) @ map length (writes (snd (on_stream_program c ls :: _ \<times> 'f Effect list)))"
  by (auto simp: on_stream_program_def Let_def release_inflight split: sum.split dest!: load_lines_ok)

lemma stream_within:
  "writes (snd (on_stream_program c ls :: _ \<times> 'f Effect list)) \<noteq> [] \<Longrightarrow> within_budget (flow (fst (on_stream_program c ls :: _ \<times> 'f Effect list)))"
  by (auto simp: on_stream_program_def Let_def intro: release_within split: sum.splits if_splits)

lemma step_inflight:
  "inflight (flow (fst (core_step c i))) =
     (if clears_window i then [] else drop (ack_count i) (inflight (flow c)))
     @ map length (writes (snd (core_step c i)))"
proof (cases i)
  case (In_Response r)
  then show ?thesis
    by (cases r)
       (simp_all add: on_response_def react_def clears_window_def ack_count_def is_ack_def ack_inflight)
next
  case (In_Realtime cmd)
  then show ?thesis by (simp add: on_realtime_def clears_window_def ack_count_def)
qed (simp_all add: clears_window_def ack_count_def on_connected_def on_disconnected_def
    begin_handshake_def send_line_inflight stream_inflight pin_rx_window_def set_rx_buffer_def)

lemma step_within:
  "writes (snd (core_step c i)) \<noteq> [] \<Longrightarrow> within_budget (flow (fst (core_step c i)))"
proof (cases i)
  case (In_Response r)
  then show "writes (snd (core_step c i)) \<noteq> [] \<Longrightarrow> ?thesis"
    by (simp add: on_response_def react_within)
qed (auto simp: on_connected_def on_disconnected_def on_realtime_def begin_handshake_def
    pin_rx_window_def intro: send_line_within stream_within)

section \<open>Silence\<close>

definition quiet :: "'f CoreInput \<Rightarrow> bool"
  where "quiet i = (case i of
      In_Stream _ \<Rightarrow> False | In_Line _ \<Rightarrow> False | In_Handshake \<Rightarrow> False | _ \<Rightarrow> True)"

lemma response_queue:
  "writes (snd (on_response c r)) @ program (fst (on_response c r)) = program c \<or>
   (writes (snd (on_response c r)) = [] \<and> program (fst (on_response c r)) = [])"
  using react_queue [of r "fst (adopt_lifecycle (learn_rx_buffer c r) r)"]
  by (simp add: on_response_def)

lemma quiet_step:
  assumes "program c = []" and "quiet i"
  shows "writes (snd (core_step c i)) = [] \<and> program (fst (core_step c i)) = []"
proof (cases i)
  case (In_Response r)
  with assms response_queue [of c r] show ?thesis by auto
qed (use assms in \<open>simp_all add: quiet_def on_connected_def on_disconnected_def on_realtime_def
    pin_rx_window_def\<close>)

lemma quiet_run:
  "program c = [] \<Longrightarrow> list_all quiet is \<Longrightarrow>
     writes (snd (run_steps core_step c is)) = [] \<and> program (fst (run_steps core_step c is)) = []"
proof (induction "is" arbitrary: c)
  case (Cons i "is")
  with quiet_step [of c i] show ?case by (simp del: run_steps.simps)
qed simp

text \<open>The inputs that end the program: after them the queue is empty.\<close>

definition ends_program :: "ProtocolCore \<Rightarrow> 'f CoreInput \<Rightarrow> bool"
  where "ends_program c i = (case i of
      In_Disconnected \<Rightarrow> True
    | In_Realtime cmd \<Rightarrow> cmd = H_SoftReset \<or> cmd = H_ProgramStop
    | In_Response (Banner _) \<Rightarrow> True
    | In_Response (Alarm _) \<Rightarrow> True
    | In_Response (Error _) \<Rightarrow> inflight (flow c) \<noteq> [] \<and> inflight_kinds c \<noteq> [] \<and> hd (inflight_kinds c) = Program
    | _ \<Rightarrow> False)"

lemma ends_program_step:
  assumes "ends_program c i"
  shows "writes (snd (core_step c i)) = [] \<and> program (fst (core_step c i)) = []"
proof (cases i)
  case (In_Response r)
  with assms show ?thesis
    by (cases r) (simp_all add: ends_program_def on_response_def react_def on_ack_cases)
qed (use assms in \<open>auto simp: ends_program_def on_disconnected_def on_realtime_def\<close>)

section \<open>What the effects say of the lifecycle\<close>

definition follow :: "ConnectionState \<Rightarrow> 'f Effect \<Rightarrow> ConnectionState"
  where "follow s e = (case e of StateChanged s' \<Rightarrow> s' | _ \<Rightarrow> s)"

definition mirrors :: "ProtocolCore \<Rightarrow> ProtocolCore \<times> 'f Effect list \<Rightarrow> bool"
  where "mirrors c r \<longleftrightarrow> foldl follow (pc_state c) (snd r) = pc_state (fst r)"

lemma mirrors_also:
  "mirrors c r \<Longrightarrow> mirrors (fst r) (f (fst r)) \<Longrightarrow> mirrors c (also_do r f)"
  by (simp add: mirrors_def)

lemma mirrors_transition [simp]: "pc_state c = pc_state d \<Longrightarrow> mirrors c (transition d s)"
  by (simp add: mirrors_def transition_def follow_def)

lemma mirrors_same: "pc_state d = pc_state c \<Longrightarrow> mirrors c (d, [])"
  by (simp add: mirrors_def)

lemma mirrors_one: "pc_state d = pc_state c \<Longrightarrow> \<forall>s. e \<noteq> StateChanged s \<Longrightarrow> mirrors c (d, [e])"
  by (cases e) (simp_all add: mirrors_def follow_def)

lemma mirrors_emit [simp]: "pc_state c = pc_state d \<Longrightarrow> mirrors c (emit_progress d)"
  by (simp add: emit_progress_def mirrors_one)

lemma mirrors_complete [simp]: "pc_state c = pc_state d \<Longrightarrow> mirrors c (complete_if_drained d)"
  by (simp add: complete_if_drained_def mirrors_same)

lemma mirrors_release [simp]: "mirrors c (release_ready_lines c)"
  by (induction c rule: release_induct)
     (auto simp: mirrors_def release_stop release_go follow_def send_front_def)

lemma mirrors_advance [simp]: "pc_state c = pc_state d \<Longrightarrow> mirrors c (advance_stream d)"
proof -
  assume eq: "pc_state c = pc_state d"
  have "mirrors d (advance_stream d)"
    by (simp add: advance_stream_def mirrors_same) (intro impI mirrors_also; simp)
  with eq show ?thesis by (simp add: mirrors_def)
qed

lemma mirrors_stop [simp]: "mirrors c (stop_effects c)"
  unfolding stop_effects_def
  by (intro mirrors_also mirrors_one) (simp_all add: mirrors_same)

lemma mirrors_send_line [simp]: "mirrors c (on_send_line c l)"
  by (auto simp: on_send_line_def Let_def mirrors_def follow_def split: sum.split bool.split)

lemma mirrors_stream [simp]: "mirrors c (on_stream_program c ls)"
proof (cases "load_lines (clear_program c) ls")
  case (Inr c1)
  with load_lines_ok [OF Inr] have "pc_state c1 = pc_state c" by simp
  with Inr show ?thesis
    by (simp add: on_stream_program_def Let_def mirrors_same) (intro impI conjI mirrors_also; simp)
qed (simp add: on_stream_program_def Let_def mirrors_one)

lemma mirrors_on_ack [simp]: "mirrors c (on_ack c e)"
  by (simp add: on_ack_cases mirrors_same mirrors_one)

lemma mirrors_react [simp]: "mirrors c (react r c)"
  by (cases r) (simp_all add: react_def mirrors_same, intro mirrors_also mirrors_one, simp_all)

lemma mirrors_adopt [simp]: "mirrors c (adopt_lifecycle c r)"
  by (simp add: adopt_lifecycle_def mirrors_same split: Response.split option.split)

lemma mirrors_response [simp]: "mirrors c (on_response c r)"
  unfolding on_response_def by (intro mirrors_also mirrors_one) simp_all

lemma mirrors_step: "mirrors c (core_step c i)"
proof (cases i)
  case (In_Realtime cmd)
  have "mirrors c (on_realtime c cmd)"
    unfolding on_realtime_def by (intro mirrors_also mirrors_one) (simp_all add: mirrors_same)
  with In_Realtime show ?thesis by simp
next
  case In_Handshake
  have "mirrors c (begin_handshake c)"
    unfolding begin_handshake_def by (intro mirrors_also mirrors_one) simp_all
  with In_Handshake show ?thesis by simp
qed (simp_all add: on_connected_def on_disconnected_def mirrors_same pin_rx_window_def)

section \<open>Streaming to the end\<close>

definition remaining_lines :: "ProtocolCore \<Rightarrow> nat"
  where "remaining_lines c = length (inflight (flow c)) + length (program c)"

text \<open>A stream under way with nothing but its own lines in flight.\<close>

definition streaming_inv :: "ProtocolCore \<Rightarrow> bool"
  where "streaming_inv c \<longleftrightarrow> core_inv c \<and> pc_state c = Streaming \<and> set (inflight_kinds c) \<subseteq> {Program} \<and>
    \<not> can_release c \<and> (\<forall>l \<in> set (program c). length l \<le> rx_buffer (flow c)) \<and>
    program_acked c + remaining_lines c = program_total c"

definition finished :: "ProtocolCore \<Rightarrow> bool"
  where "finished c \<longleftrightarrow> pc_state c = Idle \<and> program c = [] \<and> inflight (flow c) = [] \<and>
    program_acked c = program_total c"

lemma streaming_inflight:
  assumes "streaming_inv c" and "program c \<noteq> []"
  shows "inflight (flow c) \<noteq> []"
proof
  assume "inflight (flow c) = []"
  with assms have "fits (flow c) (length (hd (program c))) = Inr True"
    by (intro fits_empty) (auto simp: streaming_inv_def core_inv_def)
  with assms show False by (simp add: streaming_inv_def can_release_def)
qed

lemma release_remaining:
  "remaining_lines (fst (release_ready_lines c :: _ \<times> 'f Effect list)) = remaining_lines c"
  using arg_cong [OF release_queue [of c, where 'f = 'f], of length]
  by (simp add: remaining_lines_def release_inflight)

lemma release_program_subset:
  "set (program (fst (release_ready_lines c :: _ \<times> 'f Effect list))) \<subseteq> set (program c)"
  using arg_cong [OF release_queue [of c, where 'f = 'f], of set] by auto

lemma advance_streaming:
  assumes inv: "core_inv c" and st: "pc_state c = Streaming" and k: "set (inflight_kinds c) \<subseteq> {Program}"
    and len: "\<forall>l \<in> set (program c). length l \<le> rx_buffer (flow c)"
    and tot: "program_acked c + remaining_lines c = program_total c"
  shows "if remaining_lines c = 0 then finished (fst (advance_stream c :: _ \<times> 'f Effect list))
    else streaming_inv (fst (advance_stream c :: _ \<times> 'f Effect list)) \<and>
      remaining_lines (fst (advance_stream c :: _ \<times> 'f Effect list)) = remaining_lines c"
proof -
  let ?d = "fst (release_ready_lines c :: _ \<times> 'f Effect list)"
  have inv': "core_inv ?d" using inv by simp
  have k': "set (inflight_kinds ?d) \<subseteq> {Program}" using k by (auto simp: release_kinds)
  have rem: "remaining_lines ?d = remaining_lines c" by (rule release_remaining)
  have len': "\<forall>l \<in> set (program ?d). length l \<le> rx_buffer (flow ?d)"
    using len release_program_subset by auto
  have s: "streaming_inv ?d"
    using inv' k' len' rem st tot by (simp add: streaming_inv_def release_maximal)
  have adv: "fst (advance_stream c :: _ \<times> 'f Effect list) = fst (complete_if_drained ?d :: _ \<times> 'f Effect list)"
    using st by (simp add: advance_stream_def)
  show ?thesis
  proof (cases "remaining_lines c = 0")
    case True
    with rem have e: "program ?d = []" "inflight (flow ?d) = []" by (simp_all add: remaining_lines_def)
    with inv' have "inflight_kinds ?d = []" by (simp add: core_inv_def)
    with True e tot adv show ?thesis
      by (simp add: finished_def complete_if_drained_def has_program_inflight_def)
  next
    case False
    have "inflight (flow ?d) \<noteq> []"
    proof
      assume e: "inflight (flow ?d) = []"
      then have "program ?d = []" using streaming_inflight [OF s] by auto
      with e rem False show False by (simp add: remaining_lines_def)
    qed
    with inv' have "inflight_kinds ?d \<noteq> []" by (auto simp: core_inv_def)
    with k' have "has_program_inflight ?d" by (cases "inflight_kinds ?d") (auto simp: has_program_inflight_def)
    with False s adv rem show ?thesis by (simp add: complete_if_drained_def)
  qed
qed

lemma ok_is_ack: "pc_state c = Streaming \<Longrightarrow> fst (on_response c (Ok_r :: 'f Response)) = fst (on_ack c False :: _ \<times> 'f Effect list)"
  by (simp add: on_response_def learn_rx_buffer_def adopt_lifecycle_def react_def)

lemma ok_step:
  assumes s: "streaming_inv c" and pos: "0 < remaining_lines c"
  shows "if remaining_lines c = 1 then finished (fst (on_response c (Ok_r :: 'f Response)))
    else streaming_inv (fst (on_response c (Ok_r :: 'f Response))) \<and>
      remaining_lines (fst (on_response c (Ok_r :: 'f Response))) = remaining_lines c - 1"
proof -
  have nonempty: "inflight (flow c) \<noteq> []"
    using streaming_inflight [OF s] pos by (auto simp: remaining_lines_def)
  with s have kinds: "inflight_kinds c \<noteq> []" by (auto simp: streaming_inv_def core_inv_def)
  with s have hd: "hd (inflight_kinds c) = Program"
    by (cases "inflight_kinds c") (auto simp: streaming_inv_def)
  let ?d = "count_ack (pop_oldest c)"
  have acked: "program_acked ?d = program_acked c + 1"
    using s pos by (simp add: count_ack_def streaming_inv_def)
  have rem: "remaining_lines ?d = remaining_lines c - 1"
    using nonempty by (cases "inflight (flow c)") (simp_all add: remaining_lines_def)
  have inv: "core_inv ?d"
    using s pos nonempty kinds
    by (auto simp: streaming_inv_def core_inv_def count_ack_def)
  have "set (inflight_kinds ?d) \<subseteq> {Program}"
    using s by (cases "inflight_kinds c") (auto simp: streaming_inv_def)
  then have "if remaining_lines ?d = 0 then finished (fst (advance_stream ?d :: _ \<times> 'f Effect list))
    else streaming_inv (fst (advance_stream ?d :: _ \<times> 'f Effect list)) \<and>
      remaining_lines (fst (advance_stream ?d :: _ \<times> 'f Effect list)) = remaining_lines ?d"
    using inv s acked rem pos
    by (intro advance_streaming) (simp_all add: streaming_inv_def)
  moreover have "on_ack c False = (advance_stream ?d :: _ \<times> 'f Effect list)"
    using nonempty kinds hd by (simp add: on_ack_cases)
  moreover have "pc_state c = Streaming" using s by (simp add: streaming_inv_def)
  ultimately show ?thesis
    using rem pos by (simp add: ok_is_ack split: if_splits)
qed

lemma ok_written:
  assumes s: "streaming_inv c" and pos: "0 < remaining_lines c"
  shows "writes (snd (on_response c (Ok_r :: 'f Response))) @ program (fst (on_response c (Ok_r :: 'f Response)))
    = program c"
proof -
  have st: "pc_state c = Streaming" using s by (simp add: streaming_inv_def)
  have "on_response c (Ok_r :: 'f Response) = also_do (c, [ResponseEff Ok_r]) (\<lambda>c. on_ack c False)"
    using st by (simp add: on_response_def learn_rx_buffer_def adopt_lifecycle_def react_def also_do.simps)
  then show ?thesis
    by (auto simp: on_ack_cases advance_queue)
qed

text \<open>Reports that arrive between the acknowledgements and change nothing.\<close>

definition informational :: "'f Response \<Rightarrow> bool"
  where "informational r = (case r of
      Status _ \<Rightarrow> True | ProbeResult _ _ \<Rightarrow> True | Setting _ _ \<Rightarrow> True | StartupEcho _ \<Rightarrow> True
    | Unknown _ \<Rightarrow> True | Message body \<Rightarrow> rx_buffer_from_opt body = None | _ \<Rightarrow> False)"

lemma informational_noop:
  assumes "informational r" and "pc_state c = Streaming"
  shows "on_response c r = (c, [ResponseEff r])"
  using assms
  by (cases r) (simp_all add: on_response_def learn_rx_buffer_def adopt_lifecycle_def react_def
      informational_def also_do.simps)

definition count_ok :: "'f Response list \<Rightarrow> nat"
  where "count_ok rs = length (filter (\<lambda>r. r = Ok_r) rs)"

lemma ok_run:
  fixes rs :: "'f Response list"
  assumes "streaming_inv c" and "\<forall>r \<in> set rs. r = Ok_r \<or> informational r"
    and "count_ok rs = remaining_lines c" and "rs \<noteq> []" and "last rs = Ok_r"
  shows "finished (fst (run_steps on_response c rs)) \<and>
    writes (snd (run_steps on_response c rs)) = program c"
  using assms
proof (induction rs arbitrary: c)
  case (Cons r rs)
  show ?case
  proof (cases "r = Ok_r")
    case False
    with Cons.prems have "informational r" by simp
    moreover from Cons.prems have "pc_state c = Streaming" by (simp add: streaming_inv_def)
    moreover from False Cons.prems have "rs \<noteq> []" "last rs = Ok_r" by (auto split: if_splits)
    ultimately show ?thesis
      using Cons.prems False Cons.IH [of c]
      by (simp add: informational_noop count_ok_def del: run_steps.simps)
  next
    case True
    with Cons.prems(3) have pos: "0 < remaining_lines c" and cnt: "count_ok rs = remaining_lines c - 1"
      by (simp_all add: count_ok_def)
    let ?c = "fst (on_response c (Ok_r :: 'f Response))"
    show ?thesis
    proof (cases "remaining_lines c = 1")
      case one: True
      have "rs = []"
      proof (rule ccontr)
        assume "rs \<noteq> []"
        with Cons.prems(5) have "Ok_r \<in> set rs" by (simp split: if_splits) (metis last_in_set)
        with cnt one show False by (auto simp: count_ok_def filter_empty_conv)
      qed
      with ok_step [OF Cons.prems(1) pos, where 'f = 'f] ok_written [OF Cons.prems(1) pos, where 'f = 'f]
        one True show ?thesis by (simp add: finished_def)
    next
      case many: False
      with ok_step [OF Cons.prems(1) pos, where 'f = 'f]
      have s: "streaming_inv ?c" "remaining_lines ?c = remaining_lines c - 1" by simp_all
      with many pos cnt have "rs \<noteq> []" by (auto simp: count_ok_def)
      with Cons.prems Cons.IH [of ?c] s cnt True ok_written [OF Cons.prems(1) pos, where 'f = 'f]
      show ?thesis
        by (simp del: run_steps.simps add: run_steps_Cons split: if_splits)
    qed
  qed
qed simp

lemma load_lines_fit:
  "\<forall>l \<in> set lines. length (encode_line l) \<le> rx_buffer (flow c) \<Longrightarrow>
     load_lines c lines = Inr (c\<lparr>program := program c @ map encode_line lines\<rparr>)"
proof (induction lines arbitrary: c)
  case (Cons l ls)
  then have "\<exists>b. fits (flow c) (length (encode_line l)) = Inr b" by (simp add: fits_def)
  with Cons show ?case by (auto simp: Let_def)
qed simp

lemma stream_start:
  assumes inv: "core_inv c" and empty: "inflight (flow c) = []" and ne: "lines \<noteq> []"
    and len: "\<forall>l \<in> set lines. length (encode_line l) \<le> rx_buffer (flow c)"
  defines "r \<equiv> on_stream_program c lines :: _ \<times> 'f Effect list"
  shows "streaming_inv (fst r)" and "remaining_lines (fst r) = length lines"
    and "program_total (fst r) = length lines"
    and "writes (snd r) @ program (fst r) = map encode_line lines"
proof -
  let ?c2 = "(clear_program c)\<lparr>program := map encode_line lines, program_total := length lines\<rparr>"
  let ?c3 = "fst (transition ?c2 Streaming :: _ \<times> 'f Effect list)"
  let ?d = "fst (release_ready_lines ?c3 :: _ \<times> 'f Effect list)"
  have load: "load_lines (clear_program c) lines = Inr ((clear_program c)\<lparr>program := map encode_line lines\<rparr>)"
    using len by (subst load_lines_fit) simp_all
  have r: "r = also_do (also_do (transition ?c2 Streaming) release_ready_lines) emit_progress"
    using ne load by (simp add: r_def on_stream_program_def Let_def)
  then have d: "fst r = ?d" by simp
  have kinds: "inflight_kinds c = []" using inv empty by (simp add: core_inv_def)
  have inv2: "core_inv ?c2" using inv by (simp add: core_inv_def clear_program_def)
  then have inv3: "core_inv ?d" by simp
  have rem: "remaining_lines ?d = length lines"
    using empty by (simp add: release_remaining) (simp add: remaining_lines_def)
  have "\<forall>l \<in> set (program ?d). length l \<le> rx_buffer (flow ?d)"
    using len release_program_subset [of ?c3] by auto
  with inv3 rem kinds show "streaming_inv (fst r)"
    by (auto simp: d streaming_inv_def release_maximal release_kinds clear_program_def)
  show "remaining_lines (fst r) = length lines" using rem d by simp
  show "program_total (fst r) = length lines" by (simp add: d)
  show "writes (snd r) @ program (fst r) = map encode_line lines"
    by (simp add: r release_queue)
qed

section \<open>Properties\<close>

text \<open>
  C7: the accounting of the send-ahead window.  From power-on, under any sequence of inputs, the
  cached byte count is the sum of the lines in flight, every line in flight has a recorded kind,
  the lines released and the lines queued make up the program, and no more lines are counted
  acknowledged than the program has.
\<close>

theorem core_accounting:
  "core_inv (fst (run_steps core_step ProtocolCore_new ins))"
  by (rule core.inv_run [OF core_inv_new])

text \<open>
  C6: the window is a FIFO of what was written.  Whatever the input, the lines in flight
  afterwards are those before, less the oldest one if the input was an acknowledgement (or all of
  them if it was a reset, a stop, a banner or a disconnect), followed by the lines this input
  wrote to the wire.
\<close>

theorem window_fifo:
  "inflight (flow (fst (core_step c i))) =
     (if clears_window i then [] else drop (ack_count i) (inflight (flow c)))
     @ map length (writes (snd (core_step c i)))"
  by (rule step_inflight)

text \<open>
  C4: flow control.  In every state reached from power-on, an input that puts a line on the wire
  leaves at most the receive budget unacknowledged, also when the budget was lowered meanwhile.
\<close>

theorem writes_within_budget:
  fixes ins :: "'f CoreInput list" and i :: "'f CoreInput"
  assumes "c = fst (run_steps core_step ProtocolCore_new ins)"
    and "WriteLine l \<in> set (snd (core_step c i))"
  shows "sum_list (inflight (flow (fst (core_step c i)))) \<le> rx_buffer (flow (fst (core_step c i)))"
proof -
  have "core_inv (fst (core_step c i))"
    using core.inv_run [OF core_inv_new, of ins] assms(1) core.inv_step by blast
  moreover have "within_budget (flow (fst (core_step c i)))"
    using assms(2) by (intro step_within) (auto simp: writes_set)
  ultimately show ?thesis by (simp add: core_inv_def window_ok_def within_budget_def)
qed

theorem writes_within_budget_witness:
  "sum_list (inflight (flow (fst (core_step ProtocolCore_new (In_Line ''G0'') :: _ \<times> nat Effect list)))) \<le>
     rx_buffer (flow (fst (core_step ProtocolCore_new (In_Line ''G0'') :: _ \<times> nat Effect list)))"
proof (rule writes_within_budget [where 'f = nat and ins = "[]"])
  show "WriteLine [71, 48, 10] \<in> set (snd (core_step ProtocolCore_new (In_Line ''G0'') :: _ \<times> nat Effect list))"
    by (simp add: on_send_line_def encode_line_def trim_end_matches_def fits_def ProtocolCore_new_def
        FlowWindow_new_def DEFAULT_RX_BUFFER_def)
qed simp

text \<open>
  C1: a program is streamed completely and in order.  Started with nothing in flight, and with
  lines that each fit the receive buffer, a program of \<^verbatim>\<open>n\<close> lines is written line by line in
  program order, each exactly once, and \<^verbatim>\<open>n\<close> \<^verbatim>\<open>ok\<close> responses, with any status reports, messages
  or settings between them, bring the core to \<^verbatim>\<open>Idle\<close> with all lines acknowledged.
\<close>

theorem program_streams_to_completion:
  fixes rs :: "'f Response list"
  assumes "core_inv c" and "inflight (flow c) = []" and "lines \<noteq> []"
    and "\<forall>l \<in> set lines. length (encode_line l) \<le> rx_buffer (flow c)"
    and "\<forall>r \<in> set rs. r = Ok_r \<or> informational r"
    and "count_ok rs = length lines" and "last rs = Ok_r"
  shows "let start = on_stream_program c lines;
             end_run = run_steps on_response (fst start) rs
         in writes (snd start @ snd end_run) = map encode_line lines \<and>
            pc_state (fst end_run) = Idle \<and> inflight (flow (fst end_run)) = [] \<and>
            program_acked (fst end_run) = program_total (fst end_run)"
proof -
  let ?r = "on_stream_program c lines :: _ \<times> 'f Effect list"
  let ?e = "run_steps on_response (fst ?r) rs"
  note start = stream_start [OF assms(1-4), where 'f = 'f]
  have ne: "rs \<noteq> []" using assms(3,6) by (auto simp: count_ok_def)
  have fin: "finished (fst ?e) \<and> writes (snd ?e) = program (fst ?r)"
    using ok_run [OF start(1) assms(5) _ ne assms(7)] assms(6) start(2) by simp
  with start(4) show ?thesis by (simp add: Let_def finished_def)
qed

theorem program_streams_to_completion_witness:
  "let start = on_stream_program ProtocolCore_new [''G0'', ''G1''];
       end_run = run_steps on_response (fst start) [Ok_r, Message ''hi'', Ok_r]
   in writes (snd start @ snd end_run :: nat Effect list) = map encode_line [''G0'', ''G1''] \<and>
      pc_state (fst end_run) = Idle \<and> inflight (flow (fst end_run)) = [] \<and>
      program_acked (fst end_run) = program_total (fst end_run)"
  by (rule program_streams_to_completion [OF core_inv_new])
     (simp_all add: ProtocolCore_new_def FlowWindow_new_def DEFAULT_RX_BUFFER_def encode_line_def
       trim_end_matches_def informational_def count_ok_def rx_buffer_from_opt_def strip_prefix_def)

text \<open>
  C3: a stop is a stop.  After a disconnect, a soft reset, a program stop, a banner, an alarm or an
  error on a program line, no line goes to the wire until the user streams or sends one, or the
  handshake starts: not on a cycle start, an \<^verbatim>\<open>ok\<close>, a status report or a larger buffer.
\<close>

theorem nothing_written_after_stop:
  assumes "ends_program c i" and "list_all quiet rest"
  shows "writes (snd (run_steps core_step c (i # rest))) = []"
  using ends_program_step [OF assms(1)] quiet_run [OF _ assms(2), of "fst (core_step c i)"]
  by (simp add: run_steps_Cons del: run_steps.simps)

theorem nothing_written_after_stop_witness:
  "writes (snd (run_steps core_step (fst (on_stream_program ProtocolCore_new [''G0'', ''G1''] :: _ \<times> nat Effect list))
     [In_Realtime H_SoftReset, In_Response Ok_r, In_Realtime H_CycleStart] :: _ \<times> nat Effect list)) = []"
  by (rule nothing_written_after_stop) (simp_all add: ends_program_def quiet_def)

text \<open>
  the effects tell the lifecycle.  A reader that starts with the core's state and follows the
  \<^verbatim>\<open>StateChanged\<close> effects of any sequence of inputs ends in the core's state.
\<close>

theorem effects_tell_lifecycle:
  "foldl follow (pc_state c) (snd (run_steps core_step c ins)) = pc_state (fst (run_steps core_step c ins))"
proof (induction ins arbitrary: c)
  case (Cons i ins)
  with mirrors_step [of c i] show ?case by (simp add: run_steps_Cons mirrors_def del: run_steps.simps)
qed simp

text \<open>
  the stall.  If every line in flight was acknowledged while the stream was held, a cycle
  start makes the lifecycle \<^verbatim>\<open>Streaming\<close> and releases nothing, although lines are queued and fit;
  and no status report, message, setting or probe result releases one afterwards.  The release
  loop runs on an acknowledgement only, and none is outstanding.
\<close>

theorem resume_with_empty_window_stalls:
  fixes rs :: "'f Response list"
  assumes "pc_state c = Hold" and "inflight (flow c) = []" and "program c \<noteq> []"
    and "\<forall>r \<in> set rs. informational r"
  shows "let end_run = run_steps core_step c (In_Realtime H_CycleStart # map In_Response rs)
         in pc_state (fst end_run) = Streaming \<and> program (fst end_run) = program c \<and>
            inflight (flow (fst end_run)) = [] \<and> writes (snd end_run) = []"
proof -
  have quiet: "fst (run_steps core_step d (map In_Response rs)) = d \<and>
      writes (snd (run_steps core_step d (map In_Response rs))) = []"
    if "pc_state d = Streaming" for d
    using assms(4) that
    by (induction rs) (simp, simp add: informational_noop del: run_steps.simps)
  show ?thesis
    using assms(1-3) quiet [of "c\<lparr>pc_state := Streaming\<rparr>"]
    by (simp add: run_steps_Cons on_realtime_def transition_def also_do.simps Let_def del: run_steps.simps)
qed

text \<open>The state is reached: a window of one line, held, and the line acknowledged.\<close>

definition held_and_acked :: ProtocolCore
  where "held_and_acked = fst (run_steps core_step ProtocolCore_new
    [In_Pin 4, In_Connected, In_Response (Banner ''Grbl 1.1''), In_Stream [''G0'', ''G1''],
     In_Realtime H_FeedHold, In_Response (Ok_r :: nat Response)])"

theorem resume_with_empty_window_stalls_witness:
  "let end_run = run_steps core_step held_and_acked
         (In_Realtime H_CycleStart # map In_Response [Status ''Idle'', Message ''x'' :: nat Response])
   in pc_state (fst end_run) = Streaming \<and> program (fst end_run) = program held_and_acked \<and>
      inflight (flow (fst end_run)) = [] \<and> writes (snd end_run) = []"
  by (rule resume_with_empty_window_stalls)
     (simp_all add: held_and_acked_def, code_simp, code_simp, code_simp,
      simp_all add: informational_def rx_buffer_from_opt_def strip_prefix_def)

end
