(* ===== verification/Wire_Format.thy ===== *)
theory Wire_Format
  imports Grbl_Text Realtime
begin

text \<open>
  What the firmware writes to the host: the error and alarm tables of
  \<^verbatim>\<open>crates/firmware-core/src/protocol/codes.rs\<close>, the input pins of \<^verbatim>\<open>pins.rs\<close>, the machine
  snapshot and the refresh cadence of \<^verbatim>\<open>report.rs\<close>, the formatters of \<^verbatim>\<open>response.rs\<close>, and the
  enumeration loops of \<^verbatim>\<open>crates/firmware/src/comms/syscmd.rs\<close>.  A \<^verbatim>\<open>heapless::String<N>\<close> is a
  \<^verbatim>\<open>string\<close> of at most \<^verbatim>\<open>N\<close> bytes.  The float type, its \<^verbatim>\<open>{:.3}\<close> and \<^verbatim>\<open>{:.0}\<close> formats and its
  subtraction are parameters.
\<close>

section \<open>Constants\<close>

definition AXIS_COUNT :: nat
  where "AXIS_COUNT = 4"

definition AXIS_LETTERS :: string
  where "AXIS_LETTERS = ''XYZA''"

definition RX_BUFFER_SIZE :: nat
  where "RX_BUFFER_SIZE = 1024"

definition BLOCK_BUFFER_SIZE :: nat
  where "BLOCK_BUFFER_SIZE = 32"

definition RESPONSE_CAPACITY :: nat
  where "RESPONSE_CAPACITY = 160"

definition VERSION :: string
  where "VERSION = ''1.1f''"

section \<open>Code tables\<close>

record ErrorCode =
  ec_id :: u8
  ec_name :: string
  ec_description :: string

definition ERROR_CODES :: "ErrorCode list"
  where "ERROR_CODES =
    [\<lparr>ec_id = 1, ec_name = ''Expected command letter'',
      ec_description = ''G-code words consist of a letter and a value. Letter was not found.''\<rparr>,
     \<lparr>ec_id = 2, ec_name = ''Bad number format'',
      ec_description = ''Numeric value format is not valid or missing an expected value.''\<rparr>,
     \<lparr>ec_id = 3, ec_name = ''Invalid statement'',
      ec_description = ''Grbl '' @ [CHR 0x27] @ ''$'' @ [CHR 0x27] @ '' system command was not recognized or supported.''\<rparr>,
     \<lparr>ec_id = 5, ec_name = ''Setting disabled'',
      ec_description = ''Homing cycle failure. Homing is not enabled via settings.''\<rparr>,
     \<lparr>ec_id = 8, ec_name = ''Not idle'',
      ec_description = ''Grbl '' @ [CHR 0x27] @ ''$'' @ [CHR 0x27] @ '' command cannot be used unless Grbl is IDLE. Ensures smooth operation during a job.''\<rparr>,
     \<lparr>ec_id = 9, ec_name = ''G-code lock'',
      ec_description = ''G-code locked out during alarm or jog state.''\<rparr>,
     \<lparr>ec_id = 15, ec_name = ''Travel exceeded'',
      ec_description = ''Jog target exceeds machine travel, or the line length was exceeded. Command ignored.''\<rparr>,
     \<lparr>ec_id = 20, ec_name = ''Unsupported command'',
      ec_description = ''Unsupported or invalid g-code command found in block.''\<rparr>,
     \<lparr>ec_id = 21, ec_name = ''Modal group violation'',
      ec_description = ''More than one G-code command from the same modal group was found in the block.''\<rparr>,
     \<lparr>ec_id = 22, ec_name = ''Undefined feed rate'',
      ec_description = ''Feed rate has not yet been set or is undefined.''\<rparr>,
     \<lparr>ec_id = 23, ec_name = ''Invalid g-code ID:23'',
      ec_description = ''A G-code command value, such as a tool number (T), must be a non-negative integer within range.''\<rparr>,
     \<lparr>ec_id = 26, ec_name = ''No axis words in block'',
      ec_description = ''A G-code command (or the current modal state) requires axis words, but none were found in the block.''\<rparr>,
     \<lparr>ec_id = 33, ec_name = ''Invalid target'',
      ec_description = ''A G-code motion command has an invalid target (for example, arc geometry that cannot be reconciled, or a rotary axis word in a G38.x probe, which is linear-only).''\<rparr>]"

definition error_name :: "u8 \<Rightarrow> string option"
  where "error_name code = map_option ec_name (List.find (\<lambda>c. ec_id c = code) ERROR_CODES)"

fun alarm_name :: "AlarmCode \<Rightarrow> string"
  where
    "alarm_name HardLimit = ''Hard limit''"
  | "alarm_name SoftLimit = ''Soft limit''"
  | "alarm_name AbortDuringCycle = ''Abort during cycle''"
  | "alarm_name ProbeFailInitial = ''Probe fail''"
  | "alarm_name ProbeFailContact = ''Probe fail''"
  | "alarm_name HomingFail = ''Homing fail''"
  | "alarm_name EStop = ''EStop asserted''"
  | "alarm_name HomingRequired = ''Homing required''"
  | "alarm_name MotorFault = ''Motor fault''"

fun alarm_description :: "AlarmCode \<Rightarrow> string"
  where
    "alarm_description HardLimit =
      ''Hard limit has been triggered. Machine position is likely lost due to sudden halt. Re-homing is highly recommended.''"
  | "alarm_description SoftLimit =
      ''Soft limit alarm. G-code motion target exceeds machine travel.''"
  | "alarm_description AbortDuringCycle =
      ''Reset while in motion. Machine position is likely lost. Re-homing is highly recommended.''"
  | "alarm_description ProbeFailInitial =
      ''Probe fail. Probe is not in the expected initial state before starting probe cycle.''"
  | "alarm_description ProbeFailContact =
      ''Probe fail. Probe did not contact the workpiece within the programmed travel.''"
  | "alarm_description HomingFail =
      ''Homing fail. Could not find limit switch within search distance.''"
  | "alarm_description EStop =
      ''Emergency stop active.''"
  | "alarm_description HomingRequired =
      ''Homing is required. Execute homing cycle ($H) to continue.''"
  | "alarm_description MotorFault =
      ''Motor fault. The step output to a motor failed mid-move. Machine position is likely lost. Re-homing is required.''"

section \<open>Formatting into a bounded buffer\<close>

datatype FmtError = FmtError

definition write_str :: "nat \<Rightarrow> string \<Rightarrow> string \<Rightarrow> (string, FmtError, unit) outcome"
  where "write_str n s out =
    (if length out + length s \<le> n then (out @ s, Inr ()) else (out, Inl FmtError))"

text \<open>The pieces of one \<^verbatim>\<open>write!\<close>, or of several in sequence, each followed by the question mark.\<close>

fun write_all :: "nat \<Rightarrow> string list \<Rightarrow> string \<Rightarrow> (string, FmtError, unit) outcome"
  where
    "write_all n [] out = (out, Inr ())"
  | "write_all n (s # ss) out = and_then (write_str n s out) (\<lambda>_. write_all n ss)"

definition dec_digit :: "nat \<Rightarrow> char"
  where "dec_digit k = char_of (48 + k)"

fun dec :: "nat \<Rightarrow> string"
  where "dec n = (if n < 10 then [dec_digit n] else dec (n div 10) @ [dec_digit (n mod 10)])"

declare dec.simps [simp del]

abbreviation CRLF :: string
  where "CRLF \<equiv> [CHR 0x0D, CHR 0x0A]"

definition of_bool8 :: "bool \<Rightarrow> string"
  where "of_bool8 b = (if b then ''1'' else ''0'')"

section \<open>Input pins\<close>

record PinReport =
  pr_probe :: bool
  pr_limits :: "bool list"
  pr_door :: bool
  pr_hold :: bool
  pr_reset :: bool
  pr_cycle_start :: bool

definition PinReport_new_idle :: PinReport
  where "PinReport_new_idle =
    \<lparr>pr_probe = False, pr_limits = replicate AXIS_COUNT False, pr_door = False, pr_hold = False,
     pr_reset = False, pr_cycle_start = False\<rparr>"

definition pins_any :: "PinReport \<Rightarrow> bool"
  where "pins_any p \<longleftrightarrow>
    pr_probe p \<or> list_ex (\<lambda>l. l) (pr_limits p) \<or> pr_door p \<or> pr_hold p \<or> pr_reset p \<or> pr_cycle_start p"

definition pin_letters :: "PinReport \<Rightarrow> string"
  where "pin_letters p =
    (if pr_probe p then ''P'' else []) @
    map fst (filter snd (zip AXIS_LETTERS (pr_limits p))) @
    (if pr_door p then ''D'' else []) @
    (if pr_hold p then ''H'' else []) @
    (if pr_reset p then ''R'' else []) @
    (if pr_cycle_start p then ''S'' else [])"

definition write_letters :: "nat \<Rightarrow> PinReport \<Rightarrow> string \<Rightarrow> (string, FmtError, unit) outcome"
  where "write_letters n p = write_all n (map (\<lambda>c. [c]) (pin_letters p))"

definition SIGNAL_CAPABILITIES :: PinReport
  where "SIGNAL_CAPABILITIES =
    \<lparr>pr_probe = True, pr_limits = [True, True, True, False], pr_door = False, pr_hold = False,
     pr_reset = False, pr_cycle_start = False\<rparr>"

section \<open>The snapshot and the refresh cadence\<close>

datatype PositionReport = PR_Machine | PR_Work

definition STATUS_MASK_MACHINE_POSITION :: u8
  where "STATUS_MASK_MACHINE_POSITION = 1"

definition from_status_mask :: "u8 \<Rightarrow> PositionReport"
  where "from_status_mask bits =
    (if bits AND STATUS_MASK_MACHINE_POSITION \<noteq> 0 then PR_Machine else PR_Work)"

record 'f MachineSnapshot =
  snap_state :: MachineState
  mpos_mm :: "'f list"
  wco_mm :: "'f list"
  position_report :: PositionReport
  include_wco :: bool
  feed_mm_min :: 'f
  spindle_rpm :: u16
  planner_blocks_free :: u8
  rx_bytes_free :: u16
  snap_pins :: PinReport
  snap_overrides :: Overrides
  include_ov :: bool

definition MachineSnapshot_idle :: "'f \<Rightarrow> 'f MachineSnapshot"
  where "MachineSnapshot_idle zero =
    \<lparr>snap_state = MS_Idle, mpos_mm = replicate AXIS_COUNT zero, wco_mm = replicate AXIS_COUNT zero,
     position_report = PR_Machine, include_wco = True, feed_mm_min = zero, spindle_rpm = 0,
     planner_blocks_free = of_nat BLOCK_BUFFER_SIZE, rx_bytes_free = of_nat RX_BUFFER_SIZE,
     snap_pins = PinReport_new_idle, snap_overrides = Overrides_new, include_ov = True\<rparr>"

definition REFRESH_PERIOD :: u16
  where "REFRESH_PERIOD = 10"

record 't RefreshReporter =
  last_reported :: 't
  since_refresh :: u16
  force_first :: bool

definition RefreshReporter_new :: "'t \<Rightarrow> 't RefreshReporter"
  where "RefreshReporter_new baseline =
    \<lparr>last_reported = baseline, since_refresh = 0, force_first = True\<rparr>"

definition RefreshReporter_reset :: "'t RefreshReporter \<Rightarrow> 't \<Rightarrow> 't RefreshReporter"
  where "RefreshReporter_reset s baseline = RefreshReporter_new baseline"

text \<open>\<^verbatim>\<open>differs\<close> is the type's \<^verbatim>\<open>PartialEq\<close>, negated; on floats it need not be irreflexive.\<close>

definition should_include ::
    "('t \<Rightarrow> 't \<Rightarrow> bool) \<Rightarrow> 't RefreshReporter \<Rightarrow> 't \<Rightarrow> 't RefreshReporter \<times> bool"
  where "should_include differs s current =
    (let changed = differs current (last_reported s);
         periodic = REFRESH_PERIOD - 1 \<le> since_refresh s
     in if force_first s \<or> changed \<or> periodic
        then (s\<lparr>last_reported := current, since_refresh := 0, force_first := False\<rparr>, True)
        else (s\<lparr>since_refresh := (if since_refresh s = 0xFFFF then 0xFFFF else since_refresh s + 1)\<rparr>, False))"

section \<open>The formatters\<close>

definition write_banner :: "nat \<Rightarrow> string \<Rightarrow> (string, FmtError, unit) outcome"
  where "write_banner n =
    write_all n [''Grbl '', VERSION, '' ['' @ [CHR 0x27] @ ''$'' @ [CHR 0x27] @ '' for help]'' @ CRLF]"

definition write_ok :: "nat \<Rightarrow> string \<Rightarrow> (string, FmtError, unit) outcome"
  where "write_ok n = write_str n (''ok'' @ CRLF)"

definition write_error :: "nat \<Rightarrow> u8 \<Rightarrow> string \<Rightarrow> (string, FmtError, unit) outcome"
  where "write_error n code = write_all n [''error:'', dec (unat code), CRLF]"

definition write_alarm :: "nat \<Rightarrow> AlarmCode \<Rightarrow> string \<Rightarrow> (string, FmtError, unit) outcome"
  where "write_alarm n code = write_all n [''ALARM:'', dec (unat (alarm_number code)), CRLF]"

text \<open>\<^verbatim>\<open>write_axes_csv\<close> as the pieces it writes.\<close>

fun axes_csv :: "('f \<Rightarrow> string) \<Rightarrow> 'f list \<Rightarrow> string list"
  where
    "axes_csv fmt3 [] = []"
  | "axes_csv fmt3 [v] = [fmt3 v]"
  | "axes_csv fmt3 (v # w # vs) = fmt3 v # '','' # axes_csv fmt3 (w # vs)"

definition probe_report ::
    "('f \<Rightarrow> string) \<Rightarrow> nat \<Rightarrow> 'f list \<Rightarrow> bool \<Rightarrow> string \<Rightarrow> (string, FmtError, unit) outcome"
  where "probe_report fmt3 n position success =
    write_all n ([''[PRB:''] @ axes_csv fmt3 position @ ['':'', of_bool8 success, '']'' @ CRLF])"

definition error_code_line :: "nat \<Rightarrow> ErrorCode \<Rightarrow> string \<Rightarrow> (string, FmtError, unit) outcome"
  where "error_code_line n code =
    write_all n [''[ERRORCODE:'', dec (unat (ec_id code)), ''|'', ec_name code, ''|'', ec_description code,
      '']'' @ CRLF]"

definition alarm_code_line :: "nat \<Rightarrow> AlarmCode \<Rightarrow> string \<Rightarrow> (string, FmtError, unit) outcome"
  where "alarm_code_line n code =
    write_all n [''[ALARMCODE:'', dec (unat (alarm_number code)), ''|'', alarm_name code, ''|'',
      alarm_description code, '']'' @ CRLF]"

definition message :: "nat \<Rightarrow> string \<Rightarrow> string \<Rightarrow> (string, FmtError, unit) outcome"
  where "message n txt = write_all n [''[MSG:'', txt, '']'' @ CRLF]"

definition EM_DASH :: string
  where "EM_DASH = [CHR 0xE2, CHR 0x80, CHR 0x94]"

definition tool_change_message :: "nat \<Rightarrow> u16 \<Rightarrow> string \<Rightarrow> (string, FmtError, unit) outcome"
  where "tool_change_message n tool =
    (let tail = '' '' @ EM_DASH @ '' swap tool, then cycle-start (~) to resume'' in
     if tool = 0 then write_str n (''Manual tool change (no tool selected)'' @ tail)
     else write_all n [''Manual tool change to T'', dec (unat tool), tail])"

definition error_context :: "nat \<Rightarrow> u8 \<Rightarrow> string \<Rightarrow> (string, FmtError, unit) outcome"
  where "error_context n code out =
    (case error_name code of
       Some name \<Rightarrow> write_all n [''[MSG:error:'', dec (unat code), '' '', name, '']'' @ CRLF] out
     | None \<Rightarrow> (out, Inr ()))"

definition alarm_context :: "nat \<Rightarrow> AlarmCode \<Rightarrow> string \<Rightarrow> (string, FmtError, unit) outcome"
  where "alarm_context n code =
    write_all n [''[MSG:ALARM:'', dec (unat (alarm_number code)), '' '', alarm_name code, '']'' @ CRLF]"

definition write_help :: "nat \<Rightarrow> string \<Rightarrow> (string, FmtError, unit) outcome"
  where "write_help n = write_str n (''[HLP:$$ $# $G $I $N $X $H $C $SLP $RST=$ ~ ! ?]'' @ CRLF)"

text \<open>The status report, as the pieces written before the closing bracket.\<close>

definition state_pieces :: "MachineState \<Rightarrow> string list"
  where "state_pieces s =
    [state_token s] @
    (case s of
       MS_Hold in_progress \<Rightarrow> ['':'', of_bool8 in_progress]
     | MS_Alarm code \<Rightarrow> ['':'', dec (unat code)]
     | _ \<Rightarrow> [])"

definition position_pieces ::
    "('f \<Rightarrow> string) \<Rightarrow> ('f \<Rightarrow> 'f \<Rightarrow> 'f) \<Rightarrow> 'f MachineSnapshot \<Rightarrow> string list"
  where "position_pieces fmt3 sub snap =
    (case position_report snap of
       PR_Machine \<Rightarrow> [''|'', ''MPos'', '':''] @ axes_csv fmt3 (mpos_mm snap)
     | PR_Work \<Rightarrow>
         [''|'', ''WPos'', '':''] @ axes_csv fmt3 (map2 sub (mpos_mm snap) (wco_mm snap)))"

definition status_pieces ::
    "('f \<Rightarrow> string) \<Rightarrow> ('f \<Rightarrow> string) \<Rightarrow> ('f \<Rightarrow> 'f \<Rightarrow> 'f) \<Rightarrow> 'f MachineSnapshot \<Rightarrow> string list"
  where "status_pieces fmt3 fmt0 sub snap =
    state_pieces (snap_state snap) @
    position_pieces fmt3 sub snap @
    [''|FS:'', fmt0 (feed_mm_min snap), '','', dec (unat (spindle_rpm snap)),
     ''|Bf:'', dec (unat (planner_blocks_free snap)), '','', dec (unat (rx_bytes_free snap))] @
    (if pins_any (snap_pins snap) then ''|Pn:'' # map (\<lambda>c. [c]) (pin_letters (snap_pins snap)) else []) @
    (if include_wco snap then ''|WCO:'' # axes_csv fmt3 (wco_mm snap) else []) @
    (if include_ov snap
     then [''|Ov:'', dec (unat (feed (snap_overrides snap))), '','',
           dec (unat (rapid (snap_overrides snap))), '','', dec (unat (spindle (snap_overrides snap)))]
     else [])"

definition status_report ::
    "('f \<Rightarrow> string) \<Rightarrow> ('f \<Rightarrow> string) \<Rightarrow> ('f \<Rightarrow> 'f \<Rightarrow> 'f) \<Rightarrow> nat \<Rightarrow> 'f MachineSnapshot \<Rightarrow> string \<Rightarrow>
     (string, FmtError, unit) outcome"
  where "status_report fmt3 fmt0 sub n snap =
    write_all n ([''<''] @ status_pieces fmt3 fmt0 sub snap @ [''>'' @ CRLF])"

definition build_info :: "nat \<Rightarrow> bool \<Rightarrow> string \<Rightarrow> (string, FmtError, unit) outcome"
  where "build_info n extended =
    write_all n
      ([''[VER:'', VERSION, ''.20260616:]'' @ CRLF,
        ''[OPT:VNMSL,'', dec BLOCK_BUFFER_SIZE, '','', dec RX_BUFFER_SIZE, '','', dec AXIS_COUNT, '',0]'' @ CRLF] @
       (if extended
        then [''[AXS:'', dec AXIS_COUNT, '':''] @ map (\<lambda>c. [c]) AXIS_LETTERS @ ['']'' @ CRLF] @
             [''[NEWOPT:ENUMS,RT+,SED]'' @ CRLF, ''[FIRMWARE:grblHAL]'' @ CRLF, ''[SIGNALS:''] @
             map (\<lambda>c. [c]) (pin_letters SIGNAL_CAPABILITIES) @ ['']'' @ CRLF]
        else []))"

section \<open>The enumeration commands\<close>

text \<open>
  \<^verbatim>\<open>enqueue_lines\<close>: each item is rendered into a fresh response and enqueued only if that
  succeeded; the result is what is enqueued, in order.
\<close>

definition enqueue_lines :: "('t \<Rightarrow> string \<Rightarrow> (string, FmtError, unit) outcome) \<Rightarrow> 't list \<Rightarrow> string list"
  where "enqueue_lines fmt items =
    concat (map (\<lambda>item. case fmt item [] of (line, Inr ()) \<Rightarrow> [line] | (_, Inl _) \<Rightarrow> []) items)"

definition enumerate_error_codes :: "string list"
  where "enumerate_error_codes = enqueue_lines (error_code_line RESPONSE_CAPACITY) ERROR_CODES"

definition enumerate_alarm_codes :: "string list"
  where "enumerate_alarm_codes = enqueue_lines (alarm_code_line RESPONSE_CAPACITY) AlarmCode_ALL"

end
