(* ===== verification/Line_Stream.thy ===== *)
theory Line_Stream
  imports Prelude
begin

text \<open>
  Line framing on both ends of the wire.  The firmware's \<^verbatim>\<open>LineReader\<close> and \<^verbatim>\<open>StreamEngine\<close>
  (\<^verbatim>\<open>crates/firmware-core/src/protocol/stream.rs\<close>) frame the bytes a host sends, with a bounded
  buffer; the host's \<^verbatim>\<open>LineReassembler\<close> (\<^verbatim>\<open>crates/skirnir/src/protocol/terminator.rs\<close>) frames the
  bytes the firmware sends.  Both refine one abstract reading of a byte stream, \<^verbatim>\<open>split_lines\<close>,
  in which CR, LF, CRLF and LFCR each end one line; the locale \<^verbatim>\<open>line_framer\<close> is their contract.
\<close>

abbreviation CR :: u8
  where "CR \<equiv> 13"

abbreviation LF :: u8
  where "LF \<equiv> 10"

definition MAX_LINE_LEN :: nat
  where "MAX_LINE_LEN = 256"

definition ERROR_LINE_OVERFLOW :: u8
  where "ERROR_LINE_OVERFLOW = 15"

section \<open>What a byte stream means\<close>

definition is_term :: "u8 \<Rightarrow> bool"
  where "is_term b \<longleftrightarrow> b = CR \<or> b = LF"

definition pairs_with :: "u8 \<Rightarrow> u8 \<Rightarrow> bool"
  where "pairs_with p b \<longleftrightarrow> (p = CR \<and> b = LF) \<or> (p = LF \<and> b = CR)"

lemma pairs_with_term: "pairs_with p b \<Longrightarrow> is_term p \<and> is_term b"
  by (auto simp: pairs_with_def is_term_def)

text \<open>
  The lines of a stream and the unterminated rest, read with one byte of lookahead: \<^verbatim>\<open>acc\<close> is
  the part of the current line already read.
\<close>

fun split_lines :: "u8 list \<Rightarrow> u8 list \<Rightarrow> u8 list list \<times> u8 list"
  where
    "split_lines acc [] = ([], acc)"
  | "split_lines acc [c] = (if is_term c then ([acc], []) else ([], acc @ [c]))"
  | "split_lines acc (c # d # bs) =
      (if is_term c
       then let (ls, r) = split_lines [] (if pairs_with c d then bs else d # bs) in (acc # ls, r)
       else split_lines (acc @ [c]) (d # bs))"

text \<open>The bytes left to read when the previous byte was the terminator \<^verbatim>\<open>p\<close>.\<close>

fun skip_pair :: "u8 option \<Rightarrow> u8 list \<Rightarrow> u8 list"
  where
    "skip_pair (Some p) (b # bs) = (if pairs_with p b then bs else b # bs)"
  | "skip_pair _ bs = bs"

lemma skip_pair_Nil [simp]: "skip_pair p [] = []"
  by (cases p) auto

lemma split_lines_term:
  "is_term c \<Longrightarrow> split_lines acc (c # bs) =
     (acc # fst (split_lines [] (skip_pair (Some c) bs)), snd (split_lines [] (skip_pair (Some c) bs)))"
  by (cases bs) (auto simp: case_prod_beta)

lemma split_lines_char:
  "\<not> is_term c \<Longrightarrow> split_lines acc (c # bs) = split_lines (acc @ [c]) bs"
  by (cases bs) auto

lemma skip_pair_keep:
  "\<not> (\<exists>p. q = Some p \<and> pairs_with p b) \<Longrightarrow> skip_pair q (b # bs) = b # bs"
  by (cases q) auto

section \<open>The contract of a framer\<close>

text \<open>
  A framer consumes a byte and emits some outputs.  Its contract: every state stands for a
  current line \<^verbatim>\<open>acc\<close> and a possibly pending terminator; a completing half of a pair is
  swallowed, a terminator emits what \<^verbatim>\<open>fin\<close> says of the line, any other byte extends the line
  and emits what \<^verbatim>\<open>grow\<close> says of the line it extends.
\<close>

definition line_out :: "(u8 list \<Rightarrow> 'o list) \<Rightarrow> u8 list \<Rightarrow> 'o list"
  where "line_out grow l = concat (map (\<lambda>k. grow (take k l)) [0..<length l])"

lemma line_out_Nil [simp]: "line_out grow [] = []"
  by (simp add: line_out_def)

lemma line_out_snoc: "line_out grow (l @ [c]) = line_out grow l @ grow l"
  by (auto simp: line_out_def intro!: arg_cong [where f = concat] map_cong)

definition stream_out ::
    "(u8 list \<Rightarrow> 'o list) \<Rightarrow> (u8 list \<Rightarrow> 'o list) \<Rightarrow> u8 list list \<times> u8 list \<Rightarrow> 'o list"
  where "stream_out grow fin lr =
    concat (map (\<lambda>l. line_out grow l @ fin l) (fst lr)) @ line_out grow (snd lr)"

lemma stream_out_Nil [simp]: "stream_out grow fin ([], r) = line_out grow r"
  by (simp add: stream_out_def)

lemma stream_out_term:
  "is_term b \<Longrightarrow> stream_out grow fin (split_lines acc (b # bs)) =
     line_out grow acc @ fin acc @ stream_out grow fin (split_lines [] (skip_pair (Some b) bs))"
  by (simp add: stream_out_def split_lines_term)

locale line_framer =
  fixes step :: "'s \<Rightarrow> u8 \<Rightarrow> 's \<times> 'o list"
    and stands :: "'s \<Rightarrow> u8 list \<Rightarrow> u8 option \<Rightarrow> bool"
    and grow :: "u8 list \<Rightarrow> 'o list"
    and fin :: "u8 list \<Rightarrow> 'o list"
  assumes on_pair: "stands s acc (Some p) \<Longrightarrow> pairs_with p b \<Longrightarrow>
      snd (step s b) = [] \<and> stands (fst (step s b)) [] None"
    and pending_empty: "stands s acc (Some p) \<Longrightarrow> acc = []"
    and on_term: "stands s acc q \<Longrightarrow> is_term b \<Longrightarrow> \<not> (\<exists>p. q = Some p \<and> pairs_with p b) \<Longrightarrow>
      snd (step s b) = fin acc \<and> stands (fst (step s b)) [] (Some b)"
    and on_char: "stands s acc q \<Longrightarrow> \<not> is_term b \<Longrightarrow>
      snd (step s b) = grow acc \<and> stands (fst (step s b)) (acc @ [b]) None"
begin

lemma run_out:
  assumes "stands s acc q"
  shows "line_out grow acc @ snd (run_steps step s bs) =
    stream_out grow fin (split_lines acc (skip_pair q bs))"
  using assms
proof (induction bs arbitrary: s acc q)
  case (Cons b bs)
  consider (pair) p where "q = Some p" "pairs_with p b"
    | (newline) "is_term b" "\<not> (\<exists>p. q = Some p \<and> pairs_with p b)"
    | (content) "\<not> is_term b"
    by blast
  then show ?case
  proof cases
    case pair
    with Cons.prems have "acc = []" "snd (step s b) = []" "stands (fst (step s b)) [] None"
      by (auto dest: on_pair pending_empty)
    with Cons.IH [of "fst (step s b)" "[]" None] pair show ?thesis
      by (simp add: case_prod_beta Let_def)
  next
    case newline
    with Cons.prems have "snd (step s b) = fin acc" "stands (fst (step s b)) [] (Some b)"
      by (auto dest: on_term)
    with Cons.IH [of "fst (step s b)" "[]" "Some b"] newline(1) skip_pair_keep [OF newline(2)]
    show ?thesis
      by (simp add: case_prod_beta Let_def stream_out_term)
  next
    case content
    then have nopair: "\<not> (\<exists>p. q = Some p \<and> pairs_with p b)" using pairs_with_term by blast
    from content Cons.prems have "snd (step s b) = grow acc" "stands (fst (step s b)) (acc @ [b]) None"
      by (auto dest: on_char)
    with Cons.IH [of "fst (step s b)" "acc @ [b]" None] content skip_pair_keep [OF nopair]
    show ?thesis
      by (simp add: case_prod_beta Let_def split_lines_char line_out_snoc)
  qed
qed simp

lemma run_out_fresh:
  assumes "stands s [] None"
  shows "snd (run_steps step s bs) = stream_out grow fin (split_lines [] bs)"
  using run_out [OF assms, of bs] by simp

lemma run_stands: "stands s acc q \<Longrightarrow> \<exists>acc' q'. stands (fst (run_steps step s bs)) acc' q'"
proof (induction bs arbitrary: s acc q)
  case (Cons b bs)
  have "\<exists>acc' q'. stands (fst (step s b)) acc' q'"
    using Cons.prems on_pair on_term on_char by blast
  with Cons.IH show ?case by (auto simp: case_prod_beta Let_def)
qed auto

end

section \<open>The firmware: LineReader and StreamEngine\<close>

datatype LineEvent = Pending | Line "u8 list" | Overflow

datatype PendingTerminator = NoneTerm | Cr | Lf

record LineReader =
  buf :: "u8 list"
  pending :: PendingTerminator
  overflowed :: bool
  line_done :: bool

definition LineReader_new :: LineReader
  where "LineReader_new = \<lparr>buf = [], pending = NoneTerm, overflowed = False, line_done = False\<rparr>"

definition LineReader_reset :: "LineReader \<Rightarrow> LineReader"
  where "LineReader_reset s =
    s\<lparr>buf := [], pending := NoneTerm, overflowed := False, line_done := False\<rparr>"

definition rotate_line :: "LineReader \<Rightarrow> LineReader"
  where "rotate_line s = (if line_done s then s\<lparr>buf := [], line_done := False\<rparr> else s)"

definition LineReader_feed :: "LineReader \<Rightarrow> u8 \<Rightarrow> LineReader \<times> LineEvent"
  where "LineReader_feed s byte =
    (if (pending s = Cr \<and> byte = LF) \<or> (pending s = Lf \<and> byte = CR)
     then (s\<lparr>pending := NoneTerm\<rparr>, Pending)
     else
       let s = rotate_line s in
       if byte = CR \<or> byte = LF then
         let s = s\<lparr>pending := (if byte = CR then Cr else Lf)\<rparr> in
         if overflowed s then (s\<lparr>buf := [], overflowed := False\<rparr>, Pending)
         else (s\<lparr>line_done := True\<rparr>, Line (buf s))
       else
         let s = s\<lparr>pending := NoneTerm\<rparr> in
         if overflowed s then (s, Pending)
         else if length (buf s) < MAX_LINE_LEN then (s\<lparr>buf := buf s @ [byte]\<rparr>, Pending)
         else (s\<lparr>overflowed := True, buf := []\<rparr>, Overflow))"

datatype EngineEvent = NoEvent | AcceptLine "u8 list" | Reject u8

record StreamEngine =
  reader :: LineReader

definition StreamEngine_new :: StreamEngine
  where "StreamEngine_new = \<lparr>reader = LineReader_new\<rparr>"

definition ingest :: "StreamEngine \<Rightarrow> u8 \<Rightarrow> StreamEngine \<times> EngineEvent"
  where "ingest s byte =
    (let (r, ev) = LineReader_feed (reader s) byte in
     (s\<lparr>reader := r\<rparr>,
      case ev of
        Pending \<Rightarrow> NoEvent
      | Overflow \<Rightarrow> Reject ERROR_LINE_OVERFLOW
      | Line line \<Rightarrow> AcceptLine line))"

definition StreamEngine_soft_reset :: "StreamEngine \<Rightarrow> StreamEngine"
  where "StreamEngine_soft_reset s = s\<lparr>reader := LineReader_reset (reader s)\<rparr>"

text \<open>The events the driver acts on.\<close>

definition ingest_out :: "StreamEngine \<Rightarrow> u8 \<Rightarrow> StreamEngine \<times> EngineEvent list"
  where "ingest_out s b = (let (s', e) = ingest s b in (s', if e = NoEvent then [] else [e]))"

fun pending_byte :: "PendingTerminator \<Rightarrow> u8 option"
  where
    "pending_byte NoneTerm = None"
  | "pending_byte Cr = Some CR"
  | "pending_byte Lf = Some LF"

definition reader_stands :: "LineReader \<Rightarrow> u8 list \<Rightarrow> u8 option \<Rightarrow> bool"
  where "reader_stands s acc q \<longleftrightarrow>
    pending_byte (pending s) = q \<and> (q \<noteq> None \<longrightarrow> acc = []) \<and> length (buf s) \<le> MAX_LINE_LEN \<and>
    (if line_done s then acc = [] \<and> \<not> overflowed s
     else if overflowed s then MAX_LINE_LEN < length acc \<and> buf s = []
     else buf s = acc)"

definition engine_grow :: "u8 list \<Rightarrow> EngineEvent list"
  where "engine_grow acc = (if length acc = MAX_LINE_LEN then [Reject ERROR_LINE_OVERFLOW] else [])"

definition engine_fin :: "u8 list \<Rightarrow> EngineEvent list"
  where "engine_fin acc = (if length acc \<le> MAX_LINE_LEN then [AcceptLine acc] else [])"

lemma pending_byte_eq [simp]:
  "pending_byte q = Some b \<longleftrightarrow> (q = Cr \<and> b = CR) \<or> (q = Lf \<and> b = LF)"
  "pending_byte q = None \<longleftrightarrow> q = NoneTerm"
  by (cases q; auto)+

lemmas feed_defs = ingest_out_def ingest_def LineReader_feed_def rotate_line_def Let_def
  reader_stands_def engine_grow_def engine_fin_def is_term_def pairs_with_def

interpretation engine: line_framer ingest_out "\<lambda>s :: StreamEngine. reader_stands (reader s)" engine_grow engine_fin
proof unfold_locales
  fix s :: StreamEngine and acc p b
  assume "reader_stands (reader s) acc (Some p)" and "pairs_with p b"
  then show "snd (ingest_out s b) = [] \<and> reader_stands (reader (fst (ingest_out s b))) [] None"
    by (cases "pending (reader s)") (simp_all add: feed_defs, auto split: if_splits)
next
  fix s :: StreamEngine and acc p
  assume "reader_stands (reader s) acc (Some p)"
  then show "acc = []" by (auto simp: reader_stands_def)
next
  fix s :: StreamEngine and acc q b
  assume "reader_stands (reader s) acc q" and "is_term b" and "\<not> (\<exists>p. q = Some p \<and> pairs_with p b)"
  then show "snd (ingest_out s b) = engine_fin acc \<and>
      reader_stands (reader (fst (ingest_out s b))) [] (Some b)"
    by (cases "line_done (reader s)"; cases "overflowed (reader s)") (auto simp: feed_defs)
next
  fix s :: StreamEngine and acc q b
  assume "reader_stands (reader s) acc q" and "\<not> is_term b"
  then show "snd (ingest_out s b) = engine_grow acc \<and>
      reader_stands (reader (fst (ingest_out s b))) (acc @ [b]) None"
    by (cases "line_done (reader s)"; cases "overflowed (reader s)")
       (auto simp: feed_defs MAX_LINE_LEN_def)
qed

section \<open>The host: LineReassembler\<close>

record LineReassembler =
  buffer :: "u8 list"
  pending_pair :: "u8 option"

definition LineReassembler_new :: LineReassembler
  where "LineReassembler_new = \<lparr>buffer = [], pending_pair = None\<rparr>"

text \<open>
  The body of the loop of \<^verbatim>\<open>push\<close> for one byte, and the loop over a chunk.  \<^verbatim>\<open>decode\<close> stands for
  \<^verbatim>\<open>String::from_utf8_lossy\<close>; nothing below depends on what it does.
\<close>

definition push_one :: "(u8 list \<Rightarrow> 'str) \<Rightarrow> LineReassembler \<Rightarrow> u8 \<Rightarrow> LineReassembler \<times> 'str list"
  where "push_one decode s byte =
    (let prev = pending_pair s;
         s = s\<lparr>pending_pair := None\<rparr>
     in if (case prev of
              None \<Rightarrow> False
            | Some p \<Rightarrow> (p = CR \<and> byte = LF) \<or> (p = LF \<and> byte = CR))
        then (s, [])
        else if byte = CR \<or> byte = LF
        then (s\<lparr>buffer := [], pending_pair := Some byte\<rparr>, [decode (buffer s)])
        else (s\<lparr>buffer := buffer s @ [byte]\<rparr>, []))"

definition push_chunk :: "(u8 list \<Rightarrow> 'str) \<Rightarrow> LineReassembler \<Rightarrow> u8 list \<Rightarrow> LineReassembler \<times> 'str list"
  where "push_chunk decode s chunk = run_steps (push_one decode) s chunk"

fun push_chunks :: "(u8 list \<Rightarrow> 'str) \<Rightarrow> LineReassembler \<Rightarrow> u8 list list \<Rightarrow> LineReassembler \<times> 'str list"
  where
    "push_chunks decode s [] = (s, [])"
  | "push_chunks decode s (c # cs) =
      (let (s1, ls1) = push_chunk decode s c; (s2, ls2) = push_chunks decode s1 cs in (s2, ls1 @ ls2))"

definition reassembler_stands :: "LineReassembler \<Rightarrow> u8 list \<Rightarrow> u8 option \<Rightarrow> bool"
  where "reassembler_stands s acc q \<longleftrightarrow>
    buffer s = acc \<and> pending_pair s = q \<and> (q \<noteq> None \<longrightarrow> acc = [])"

interpretation reassembler:
  line_framer "push_one decode" reassembler_stands "\<lambda>_. []" "\<lambda>l. [decode l]"
  for decode :: "u8 list \<Rightarrow> 'str"
  by unfold_locales
     (auto simp: push_one_def reassembler_stands_def is_term_def pairs_with_def Let_def
       split: option.splits)

lemma line_out_silent [simp]: "line_out (\<lambda>_. []) l = []"
  by (simp add: line_out_def)

lemma push_chunks_concat: "push_chunks decode s cs = push_chunk decode s (concat cs)"
  by (induction cs arbitrary: s)
     (simp_all add: push_chunk_def run_steps_append case_prod_beta Let_def)

section \<open>Events per line\<close>

definition line_verdict :: "u8 list \<Rightarrow> EngineEvent"
  where "line_verdict l =
    (if length l \<le> MAX_LINE_LEN then AcceptLine l else Reject ERROR_LINE_OVERFLOW)"

lemma engine_line_out:
  "line_out engine_grow l = (if MAX_LINE_LEN < length l then [Reject ERROR_LINE_OVERFLOW] else [])"
proof (induction l rule: rev_induct)
  case (snoc c l)
  then show ?case by (auto simp: line_out_snoc engine_grow_def)
qed simp

lemma engine_line_total: "line_out engine_grow l @ engine_fin l = [line_verdict l]"
  by (simp add: engine_line_out engine_fin_def line_verdict_def)

lemma reader_stands_new: "reader_stands (reader StreamEngine_new) [] None"
  by (simp add: reader_stands_def StreamEngine_new_def LineReader_new_def)

lemma reassembler_stands_new: "reassembler_stands LineReassembler_new [] None"
  by (simp add: reassembler_stands_def LineReassembler_new_def)

lemma concat_map_singleton: "concat (map (\<lambda>x. [f x]) xs) = map f xs"
  by (induction xs) auto

section \<open>Properties\<close>

text \<open>
  one answer per line.  Fed any byte stream from the start, the firmware's framer produces
  one event per line of the stream, in order: the line itself if it has at most 256 bytes and
  \<^verbatim>\<open>error:15\<close> otherwise; an unterminated rest produces nothing until it is already too long.
\<close>

theorem engine_one_event_per_line:
  "snd (run_steps ingest_out StreamEngine_new bs) =
     map line_verdict (fst (split_lines [] bs)) @
     (if MAX_LINE_LEN < length (snd (split_lines [] bs)) then [Reject ERROR_LINE_OVERFLOW] else [])"
  using engine.run_out_fresh [OF reader_stands_new, of bs]
  by (simp only: stream_out_def engine_line_total concat_map_singleton) (simp only: engine_line_out)

text \<open>
  the framer's memory is bounded and its reset complete: in every state reached from the
  fresh one the line buffer holds at most 256 bytes, and \<^verbatim>\<open>soft_reset\<close> returns exactly the fresh
  engine, so nothing of a half-received line survives.
\<close>

theorem engine_buffer_bounded:
  "length (buf (reader (fst (run_steps ingest_out StreamEngine_new bs)))) \<le> MAX_LINE_LEN \<and>
   StreamEngine_soft_reset (fst (run_steps ingest_out StreamEngine_new bs)) = StreamEngine_new"
proof
  from engine.run_stands [OF reader_stands_new, of bs]
  show "length (buf (reader (fst (run_steps ingest_out StreamEngine_new bs)))) \<le> MAX_LINE_LEN"
    by (auto simp: reader_stands_def)
  show "StreamEngine_soft_reset (fst (run_steps ingest_out StreamEngine_new bs)) = StreamEngine_new"
    by (simp add: StreamEngine_soft_reset_def StreamEngine_new_def LineReader_reset_def LineReader_new_def)
qed

text \<open>
  the host's reassembler returns the lines of everything received so far, however the
  bytes were cut into reads: CRLF and LFCR count once even when the cut separates them.
\<close>

theorem reassembler_lines:
  "snd (push_chunks decode LineReassembler_new chunks) = map decode (fst (split_lines [] (concat chunks)))"
  using reassembler.run_out_fresh [OF reassembler_stands_new, of decode "concat chunks"]
  by (simp add: push_chunks_concat push_chunk_def stream_out_def concat_map_singleton)

end
