(* ===== verification/Wire_Props.thy ===== *)
theory Wire_Props
  imports Wire_Format Line_Stream
begin

text \<open>
  What the host reads of what the firmware writes: the number, text and framing lemmas of the two
  ends, and from them the round trips of the responses, the input pins and the status report.
\<close>

section \<open>Bounded formatting\<close>

lemma write_all_ok:
  "length out + length (concat ss) \<le> n \<Longrightarrow> write_all n ss out = (out @ concat ss, Inr ())"
  by (induction ss arbitrary: out) (auto simp: write_str_def)

lemma write_all_err:
  "length out \<le> n \<Longrightarrow> n < length out + length (concat ss) \<Longrightarrow> snd (write_all n ss out) = Inl FmtError"
  by (induction ss arbitrary: out) (auto simp: write_str_def)

section \<open>Decimal numbers\<close>

lemma dec_digit_is_digit [simp]: "k < 10 \<Longrightarrow> is_digit (dec_digit k)"
  by (simp add: is_digit_def dec_digit_def)

lemma digit_value_dec [simp]: "k < 10 \<Longrightarrow> digit_value (dec_digit k) = k"
  by (simp add: digit_value_def dec_digit_def)

lemma dec_digits: "list_all is_digit (dec n) \<and> dec n \<noteq> []"
  by (induction n rule: dec.induct) (subst (1 2) dec.simps, simp)

lemma dec_value: "foldl (\<lambda>a c. 10 * a + digit_value c) 0 (dec n) = n"
proof (induction n rule: dec.induct)
  case (1 n)
  then show ?case by (subst dec.simps) simp
qed

lemma parse_dec [simp]: "n \<le> m \<Longrightarrow> parse_unsigned m (dec n) = Some n"
proof -
  assume "n \<le> m"
  obtain c cs where c: "dec n = c # cs" using dec_digits [of n] by (cases "dec n") auto
  with dec_digits [of n] have "is_digit c" by simp
  then have "c \<noteq> CHR ''+''" by (auto simp: is_digit_def)
  with c \<open>n \<le> m\<close> show ?thesis
    using dec_digits [of n] dec_value [of n] by (auto simp: parse_unsigned_def Let_def)
qed

section \<open>Text without white space\<close>

definition visible :: "char \<Rightarrow> bool"
  where "visible c \<longleftrightarrow> 32 < (of_char c :: nat) \<and> (of_char c :: nat) < 127"

lemma ws_first: "w \<in> set ws_encodings \<Longrightarrow> \<not> visible (hd w) \<and> \<not> visible (last w) \<and> w \<noteq> []"
proof -
  have "list_all (\<lambda>w. \<not> visible (hd w) \<and> \<not> visible (last w) \<and> w \<noteq> []) ws_encodings" by code_simp
  then show "w \<in> set ws_encodings \<Longrightarrow> ?thesis" by (simp add: list_all_iff)
qed

lemma strip_any_visible:
  assumes "\<forall>w \<in> set ws. \<not> visible (hd w) \<and> w \<noteq> []" and "s = [] \<or> visible (hd s)"
  shows "strip_any ws s = None"
proof -
  have "strip_prefix w s = None" if "w \<in> set ws" for w
  proof (rule ccontr)
    assume "strip_prefix w s \<noteq> None"
    then obtain r where "s = w @ r" by (auto simp: strip_prefix_Some)
    with that assms show False by (cases w) auto
  qed
  then have "filter (\<lambda>w. strip_prefix w s \<noteq> None) ws = []" by (simp add: filter_empty_conv)
  then show ?thesis by (simp add: strip_any_def)
qed

lemma trim_front_visible:
  "\<forall>w \<in> set ws. \<not> visible (hd w) \<and> w \<noteq> [] \<Longrightarrow> s = [] \<or> visible (hd s) \<Longrightarrow> trim_front n ws s = s"
  by (cases n) (simp_all add: strip_any_visible)

lemma trim_visible:
  assumes "s = [] \<or> visible (hd s) \<and> visible (last s)"
  shows "trim s = s"
proof -
  have fwd: "\<forall>w \<in> set ws_encodings. \<not> visible (hd w) \<and> w \<noteq> []" using ws_first by blast
  have bwd: "\<forall>w \<in> set (map rev ws_encodings). \<not> visible (hd w) \<and> w \<noteq> []"
    using ws_first by (auto simp: hd_rev)
  from assms have "rev s = [] \<or> visible (hd (rev s))" by (auto simp: hd_rev)
  with assms show ?thesis
    by (auto simp: trim_def Let_def trim_front_visible [OF fwd] trim_front_visible [OF bwd])
qed

lemma trim_all_visible: "list_all visible s \<Longrightarrow> trim s = s"
  by (rule trim_visible) (cases "s = []"; simp add: list_all_iff)

lemma drop_ws_visible: "list_all visible s \<Longrightarrow> drop_ws n s = s"
proof (induction n s rule: drop_ws.induct)
  case (3 n c cs)
  have "\<forall>w \<in> set ws_encodings. \<not> visible (hd w) \<and> w \<noteq> []" using ws_first by blast
  with 3 show ?case by (simp add: strip_any_visible)
qed simp_all

lemma digit_visible: "is_digit c \<Longrightarrow> visible c"
  by (auto simp: is_digit_def visible_def)

lemma dec_visible [simp]: "list_all visible (dec n)"
  using dec_digits [of n] by (auto simp: list_all_iff digit_visible)

lemma trim_dec [simp]: "trim (dec n) = dec n"
  by (simp add: trim_all_visible)

section \<open>One line from end to end\<close>

definition byte_char :: "u8 \<Rightarrow> char"
  where "byte_char b = char_of (unat b)"

lemma byte_char_of_char [simp]: "byte_char (of_char c) = c"
proof -
  have "(of_char c :: u8) = of_nat (of_char c)" by (cases c) (simp add: of_char_def)
  moreover have "(of_char c :: nat) < 256" by simp
  ultimately have "unat (of_char c :: u8) = of_char c"
    by (simp only: unat_of_nat) simp
  then show ?thesis by (simp add: byte_char_def)
qed

text \<open>The responses the host parses from what the firmware sends, a fresh reassembler receiving it.\<close>

definition host_reads :: "(string \<Rightarrow> ('f \<times> bool) option) \<Rightarrow> string \<Rightarrow> 'f Response option list"
  where "host_reads parse_f64 sent =
    map (parse_line parse_f64) (snd (push_chunk (map byte_char) LineReassembler_new (map of_char sent)))"

definition one_line :: "string \<Rightarrow> bool"
  where "one_line s \<longleftrightarrow> CHR 0x0D \<notin> set s \<and> CHR 0x0A \<notin> set s"

lemma of_char_term: "is_term (of_char c :: u8) \<longleftrightarrow> c = CHR 0x0D \<or> c = CHR 0x0A"
proof -
  have "(of_char c :: u8) = of_char d \<longleftrightarrow> c = d" for d
    by (metis byte_char_of_char)
  from this [of "CHR 0x0D"] this [of "CHR 0x0A"] show ?thesis by (simp add: is_term_def)
qed

lemma split_lines_chars:
  "list_all (\<lambda>b. \<not> is_term b) bs \<Longrightarrow> split_lines acc (bs @ cs) = split_lines (acc @ bs) cs"
  by (induction bs arbitrary: acc) (simp_all add: split_lines_char)

lemma map_byte_char [simp]: "map (byte_char \<circ> of_char) s = s"
  by (induction s) simp_all

lemma host_reads_line:
  assumes "one_line s"
  shows "host_reads parse_f64 (s @ CRLF) = [parse_line parse_f64 s]"
proof -
  have "split_lines [] (map of_char s @ [CR, LF]) = ([map of_char s :: u8 list], [])"
    using assms by (subst split_lines_chars)
      (auto simp: list_all_iff of_char_term one_line_def pairs_with_def, simp add: is_term_def)
  then have "snd (push_chunk (map byte_char) LineReassembler_new (map of_char s @ [CR, LF :: u8])) = [s]"
    using reassembler.run_out_fresh [OF reassembler_stands_new, of "map byte_char" "map of_char s @ [CR, LF]"]
    by (simp add: push_chunk_def stream_out_def)
  then show ?thesis by (simp add: host_reads_def)
qed

lemma dec_one_line [simp]: "one_line (dec n)"
  using dec_visible [of n] by (auto simp: one_line_def list_all_iff visible_def)

lemma one_line_append [simp]: "one_line (s @ t) \<longleftrightarrow> one_line s \<and> one_line t"
  by (auto simp: one_line_def)

lemma one_line_Cons [simp]: "one_line (c # s) \<longleftrightarrow> c \<noteq> CHR 0x0D \<and> c \<noteq> CHR 0x0A \<and> one_line s"
  by (auto simp: one_line_def)

lemma one_line_Nil [simp]: "one_line []"
  by (simp add: one_line_def)

lemma trim_end_keep: "s \<noteq> [] \<Longrightarrow> last s \<notin> set cs \<Longrightarrow> trim_end_matches cs s = s"
  by (cases s rule: rev_cases) (simp_all add: trim_end_matches_def)

lemma strip_prefix_Cons [simp]:
  "strip_prefix [] s = Some s"
  "strip_prefix (p # ps) [] = None"
  "strip_prefix (p # ps) (c # cs) = (if p = c then strip_prefix ps cs else None)"
  by (auto simp: strip_prefix_def)

lemma dec_last: "last (dec n) \<noteq> CHR '' '' \<and> last (dec n) \<noteq> CHR 0x09"
proof -
  have "visible (last (dec n))"
    using dec_visible [of n] dec_digits [of n] by (simp add: list_all_iff)
  then show ?thesis by (auto simp: visible_def)
qed

lemma parse_line_error:
  "n \<le> 0xFFFFFFFF \<Longrightarrow> parse_line f (''error:'' @ dec n) = Some (Error n)"
  using dec_last [of n] dec_digits [of n]
  by (subst parse_line_def) (simp add: Let_def trim_end_keep)

lemma parse_line_alarm:
  "n \<le> 0xFFFFFFFF \<Longrightarrow> parse_line f (''ALARM:'' @ dec n) = Some (Alarm n)"
  using dec_last [of n] dec_digits [of n]
  by (subst parse_line_def) (simp add: Let_def trim_end_keep)

lemma parse_line_message:
  "parse_line f (''[MSG:'' @ t @ '']'') = Some (Message (''MSG:'' @ t))"
  by (subst parse_line_def) (simp add: Let_def trim_end_keep strip_suffix_def)

lemma parse_line_status:
  "parse_line f (''<'' @ t @ ''>'') = Some (Status t)"
  by (subst parse_line_def) (simp add: Let_def trim_end_keep strip_suffix_def)

lemma length_dec_u8: "length (dec (unat (c :: u8))) \<le> 3"
proof -
  have "n < 256 \<Longrightarrow> length (dec n) \<le> 3" for n
    by (subst dec.simps, subst dec.simps, subst dec.simps) auto
  then show ?thesis using unat_u8_le [of c] by (simp add: le_less_trans)
qed

section \<open>Fields and comma lists\<close>

definition plain :: "string \<Rightarrow> bool"
  where "plain s \<longleftrightarrow> list_all (\<lambda>c. visible c \<and> c \<notin> set '',:|'') s"

lemma plain_dec [simp]: "plain (dec n)"
  using dec_digits [of n]
  by (auto simp: plain_def list_all_iff digit_visible) (auto simp: is_digit_def dest!: bspec)

lemma plain_append [simp]: "plain (s @ t) \<longleftrightarrow> plain s \<and> plain t"
  by (auto simp: plain_def)

lemma trim_plain [simp]: "plain s \<Longrightarrow> trim s = s"
  by (rule trim_all_visible) (auto simp: plain_def list_all_iff)

lemma plain_no: "plain s \<Longrightarrow> c \<in> set '',:|'' \<Longrightarrow> c \<notin> set s"
  by (auto simp: plain_def list_all_iff)

lemma split_on_fields:
  "\<forall>f \<in> set (f0 # fs). c \<notin> set f \<Longrightarrow> split_on c (f0 @ concat (map (\<lambda>f. c # f) fs)) = f0 # fs"
  by (induction fs arbitrary: f0) (simp_all add: split_on_single split_on_append)

lemma concat_axes_csv: "concat (axes_csv fmt (v # vs)) = fmt v @ concat (map (\<lambda>w. CHR '','' # fmt w) vs)"
  by (induction vs arbitrary: v) simp_all

lemma split_axes_csv:
  assumes "\<forall>v \<in> set vs. plain (fmt v)" and "vs \<noteq> []"
  shows "split_on CHR '','' (concat (axes_csv fmt vs)) = map fmt vs"
proof -
  from assms(2) obtain w ws where vs: "vs = w # ws" by (cases vs) auto
  have "split_on CHR '','' (fmt w @ concat (map (\<lambda>f. CHR '','' # f) (map fmt ws))) = fmt w # map fmt ws"
    using assms(1) vs by (intro split_on_fields) (auto simp: plain_no)
  then show ?thesis by (simp add: vs concat_axes_csv comp_def)
qed

lemma axes_csv_no:
  "\<forall>v \<in> set vs. plain (fmt v) \<Longrightarrow> c \<in> set '':|'' \<Longrightarrow> c \<notin> set (concat (axes_csv fmt vs))"
  by (induction fmt vs rule: axes_csv.induct) (auto dest: plain_no)

text \<open>The value the host reads from a printed one.\<close>

definition reading :: "(string \<Rightarrow> ('f \<times> bool) option) \<Rightarrow> string \<Rightarrow> 'f"
  where "reading parse_f64 s = fst (the (parse_f64 s))"

lemma parse_floats_csv:
  assumes "\<forall>v \<in> set vs. plain (fmt v) \<and> parse_f64 (fmt v) \<noteq> None" and "vs \<noteq> []"
  shows "parse_floats parse_f64 (concat (axes_csv fmt vs)) = map (reading parse_f64 \<circ> fmt) vs"
proof -
  have "filter (\<lambda>v. v \<noteq> None) (map (\<lambda>n. parse_f64 (trim n)) (map fmt vs)) = map (parse_f64 \<circ> fmt) vs"
    using assms(1) by (induction vs) auto
  then show ?thesis
    using assms by (simp add: parse_floats_def split_axes_csv reading_def comp_def)
qed

lemma nth_part_two:
  assumes "plain a" and "plain b"
  shows "nth_part 0 (a @ CHR '','' # b) = Some a" "nth_part 1 (a @ CHR '','' # b) = Some b"
    "nth_part 2 (a @ CHR '','' # b) = None"
proof -
  have "split_on CHR '','' (a @ CHR '','' # b) = [a, b]"
    using assms by (simp add: split_on_append split_on_single plain_no)
  then show "nth_part 0 (a @ CHR '','' # b) = Some a" "nth_part 1 (a @ CHR '','' # b) = Some b"
    "nth_part 2 (a @ CHR '','' # b) = None"
    using assms by (simp_all add: nth_part_def)
qed

lemma nth_part_three:
  assumes "plain a" and "plain b" and "plain c"
  shows "nth_part 0 (a @ CHR '','' # b @ CHR '','' # c) = Some a"
    "nth_part 1 (a @ CHR '','' # b @ CHR '','' # c) = Some b"
    "nth_part 2 (a @ CHR '','' # b @ CHR '','' # c) = Some c"
proof -
  have "split_on CHR '','' (a @ CHR '','' # b @ CHR '','' # c) = [a, b, c]"
    using assms by (simp add: split_on_append split_on_single plain_no)
  then show "nth_part 0 (a @ CHR '','' # b @ CHR '','' # c) = Some a"
    "nth_part 1 (a @ CHR '','' # b @ CHR '','' # c) = Some b"
    "nth_part 2 (a @ CHR '','' # b @ CHR '','' # c) = Some c"
    using assms by (simp_all add: nth_part_def)
qed

section \<open>The status report\<close>

definition status_fields ::
    "('f \<Rightarrow> string) \<Rightarrow> ('f \<Rightarrow> string) \<Rightarrow> ('f \<Rightarrow> 'f \<Rightarrow> 'f) \<Rightarrow> 'f MachineSnapshot \<Rightarrow> string list"
  where "status_fields fmt3 fmt0 sub snap =
    [(case position_report snap of
        PR_Machine \<Rightarrow> ''MPos:'' @ concat (axes_csv fmt3 (mpos_mm snap))
      | PR_Work \<Rightarrow> ''WPos:'' @ concat (axes_csv fmt3 (map2 sub (mpos_mm snap) (wco_mm snap)))),
     ''FS:'' @ fmt0 (feed_mm_min snap) @ CHR '','' # dec (unat (spindle_rpm snap)),
     ''Bf:'' @ dec (unat (planner_blocks_free snap)) @ CHR '','' # dec (unat (rx_bytes_free snap))] @
    (if pins_any (snap_pins snap) then [''Pn:'' @ pin_letters (snap_pins snap)] else []) @
    (if include_wco snap then [''WCO:'' @ concat (axes_csv fmt3 (wco_mm snap))] else []) @
    (if include_ov snap
     then [''Ov:'' @ dec (unat (feed (snap_overrides snap))) @ CHR '','' #
             dec (unat (rapid (snap_overrides snap))) @ CHR '','' # dec (unat (spindle (snap_overrides snap)))]
     else [])"

lemma concat_singletons [simp]: "concat (map (\<lambda>c. [c]) s) = s"
  by (induction s) simp_all

lemma status_pieces_fields:
  "concat (status_pieces fmt3 fmt0 sub snap) =
     concat (state_pieces (snap_state snap)) @
     concat (map (\<lambda>f. CHR ''|'' # f) (status_fields fmt3 fmt0 sub snap))"
  by (simp add: status_pieces_def status_fields_def position_pieces_def split: PositionReport.split)

text \<open>The floats a report prints, and what the formats must do with them.\<close>

definition printed :: "('f \<Rightarrow> 'f \<Rightarrow> 'f) \<Rightarrow> 'f MachineSnapshot \<Rightarrow> 'f set"
  where "printed sub snap =
    set (mpos_mm snap) \<union> set (wco_mm snap) \<union> set (map2 sub (mpos_mm snap) (wco_mm snap))"

definition formats_ok ::
    "(string \<Rightarrow> ('f \<times> bool) option) \<Rightarrow> ('f \<Rightarrow> string) \<Rightarrow> ('f \<Rightarrow> string) \<Rightarrow> ('f \<Rightarrow> 'f \<Rightarrow> 'f) \<Rightarrow>
     'f MachineSnapshot \<Rightarrow> bool"
  where "formats_ok parse_f64 fmt3 fmt0 sub snap \<longleftrightarrow>
    (\<forall>v \<in> printed sub snap. plain (fmt3 v) \<and> parse_f64 (fmt3 v) \<noteq> None) \<and>
    plain (fmt0 (feed_mm_min snap)) \<and> parse_f64 (fmt0 (feed_mm_min snap)) \<noteq> None \<and>
    parse_f64 (dec (unat (spindle_rpm snap))) \<noteq> None"

definition snapshot_ok :: "'f MachineSnapshot \<Rightarrow> bool"
  where "snapshot_ok snap \<longleftrightarrow> length (mpos_mm snap) = AXIS_COUNT \<and> length (wco_mm snap) = AXIS_COUNT \<and>
    length (pr_limits (snap_pins snap)) = AXIS_COUNT"

fun substate :: "MachineState \<Rightarrow> nat option"
  where
    "substate (MS_Hold in_progress) = Some (of_bool in_progress)"
  | "substate (MS_Alarm code) = Some (unat code)"
  | "substate _ = None"

text \<open>What the host should hold after reading the report.\<close>

definition reported ::
    "(string \<Rightarrow> ('f \<times> bool) option) \<Rightarrow> ('f \<Rightarrow> string) \<Rightarrow> ('f \<Rightarrow> string) \<Rightarrow> ('f \<Rightarrow> 'f \<Rightarrow> 'f) \<Rightarrow>
     'f MachineSnapshot \<Rightarrow> 'f StatusReport"
  where "reported parse_f64 fmt3 fmt0 sub snap =
    \<lparr>sr_machine_state = \<lparr>ms_state = host_run_state (run_state (snap_state snap)),
       ms_substate = substate (snap_state snap)\<rparr>,
     sr_position_kind = (case position_report snap of PR_Machine \<Rightarrow> Machine | PR_Work \<Rightarrow> Work),
     sr_position = map (reading parse_f64 \<circ> fmt3)
       (case position_report snap of
          PR_Machine \<Rightarrow> mpos_mm snap | PR_Work \<Rightarrow> map2 sub (mpos_mm snap) (wco_mm snap)),
     sr_wco = (if include_wco snap then Some (map (reading parse_f64 \<circ> fmt3) (wco_mm snap)) else None),
     sr_feed_speed = Some (reading parse_f64 (fmt0 (feed_mm_min snap)),
       reading parse_f64 (dec (unat (spindle_rpm snap))), None),
     sr_overrides =
       (if include_ov snap
        then Some (unat (feed (snap_overrides snap)), unat (rapid (snap_overrides snap)),
          unat (spindle (snap_overrides snap)))
        else None),
     sr_pins = pin_letters (snap_pins snap),
     sr_buffer = Some (unat (planner_blocks_free snap), unat (rx_bytes_free snap)),
     sr_line = None\<rparr>"

lemma state_token_plain: "plain (state_token s)"
  by (cases s) (simp_all add: state_token_def plain_def visible_def)

lemma parse_state_pieces:
  "parse_machine_state (concat (state_pieces s)) =
     \<lparr>ms_state = host_run_state (run_state s), ms_substate = substate s\<rparr>"
proof -
  have none: "split_once CHR '':'' (state_token s) = None"
    using plain_no [OF state_token_plain [of s], of "CHR '':''"] split_once_Some
    by (cases "split_once CHR '':'' (state_token s)") force+
  have some: "split_once CHR '':'' (state_token s @ CHR '':'' # t) = Some (state_token s, t)" for t
    using plain_no [OF state_token_plain [of s]] by (simp add: split_once_Some)
  have tok: "host_from_token (state_token s) = host_run_state (run_state s)"
    by (simp add: host_from_token_def state_token_def from_as_token)
  have bool: "parse_u32 (trim (of_bool8 b)) = Some (of_bool b)" for b
    by (cases b) (simp_all add: of_bool8_def trim_all_visible visible_def parse_unsigned_def is_digit_def
      digit_value_def Let_def)
  have "unat (code :: u8) \<le> 0xFFFFFFFF" for code
    using unat_u8_le [of code] by simp
  with none some tok bool show ?thesis
    by (cases s) (simp_all add: state_pieces_def parse_machine_state_def)
qed

lemma state_pieces_no_bar: "CHR ''|'' \<notin> set (concat (state_pieces s))"
  using plain_no [OF state_token_plain [of s], of "CHR ''|''"]
  by (cases s) (auto simp: state_pieces_def of_bool8_def plain_no [OF plain_dec])

lemma pin_letters_visible:
  assumes "length (pr_limits p) = AXIS_COUNT"
  shows "list_all visible (pin_letters p) \<and> plain (pin_letters p)"
proof -
  have "set (pin_letters p) \<subseteq> set ''PXYZADHRS''"
    by (auto simp: pin_letters_def AXIS_LETTERS_def dest!: set_zip_leftD)
  moreover have "list_all (\<lambda>c. visible c \<and> c \<notin> set '',:|'') ''PXYZADHRS''"
    by (simp add: visible_def)
  ultimately show ?thesis unfolding plain_def list_all_iff by blast
qed

lemma pin_letters_empty: "\<not> pins_any p \<Longrightarrow> pin_letters p = []"
proof -
  assume "\<not> pins_any p"
  then have "\<forall>x \<in> set (zip AXIS_LETTERS (pr_limits p)). \<not> snd x"
    by (auto simp: pins_any_def list_ex_iff dest: set_zip_rightD)
  with \<open>\<not> pins_any p\<close> show ?thesis
    by (simp add: pin_letters_def pins_any_def filter_empty_conv)
qed

lemma status_fields_no_bar:
  assumes "formats_ok parse_f64 fmt3 fmt0 sub snap" and "snapshot_ok snap"
  shows "\<forall>f \<in> set (status_fields fmt3 fmt0 sub snap). CHR ''|'' \<notin> set f"
proof -
  from assms(1) have p: "\<forall>v \<in> printed sub snap. plain (fmt3 v)" and f: "plain (fmt0 (feed_mm_min snap))"
    by (auto simp: formats_ok_def)
  have csv: "CHR ''|'' \<notin> set (concat (axes_csv fmt3 vs))" if "set vs \<subseteq> printed sub snap" for vs
    using p that by (intro axes_csv_no) auto
  have "set (mpos_mm snap) \<subseteq> printed sub snap" "set (wco_mm snap) \<subseteq> printed sub snap"
    "set (map2 sub (mpos_mm snap) (wco_mm snap)) \<subseteq> printed sub snap"
    by (auto simp: printed_def)
  note c = csv [OF this(1)] csv [OF this(2)] csv [OF this(3)]
  have pins: "CHR ''|'' \<notin> set (pin_letters (snap_pins snap))"
    using assms(2) pin_letters_visible by (auto simp: snapshot_ok_def plain_no)
  show ?thesis
    using c pins plain_no [OF f, of "CHR ''|''"] plain_no [OF plain_dec, of "CHR ''|''"]
    by (auto simp: status_fields_def simp del: set_concat split: PositionReport.split)
qed

lemma plain_one_line:
  assumes "plain s"
  shows "one_line s"
proof -
  have "visible c" if "c \<in> set s" for c using assms that by (simp add: plain_def list_all_iff)
  from this [of "CHR 0x0D"] this [of "CHR 0x0A"] show ?thesis
    by (simp add: one_line_def visible_def) blast
qed

lemma axes_csv_one_line: "\<forall>v \<in> set vs. plain (fmt v) \<Longrightarrow> one_line (concat (axes_csv fmt vs))"
  by (induction fmt vs rule: axes_csv.induct) (simp_all add: plain_one_line)

lemma status_one_line:
  assumes "formats_ok parse_f64 fmt3 fmt0 sub snap" and "snapshot_ok snap"
  shows "one_line (concat (status_pieces fmt3 fmt0 sub snap))"
proof -
  from assms(1) have p: "\<forall>v \<in> printed sub snap. plain (fmt3 v)" and f: "plain (fmt0 (feed_mm_min snap))"
    by (auto simp: formats_ok_def)
  have "one_line (concat (axes_csv fmt3 vs))" if "set vs \<subseteq> printed sub snap" for vs
    using p that by (intro axes_csv_one_line) auto
  moreover have "set (mpos_mm snap) \<subseteq> printed sub snap" "set (wco_mm snap) \<subseteq> printed sub snap"
    "set (map2 sub (mpos_mm snap) (wco_mm snap)) \<subseteq> printed sub snap"
    by (auto simp: printed_def)
  moreover have "one_line (pin_letters (snap_pins snap))"
    using assms(2) pin_letters_visible by (auto simp: snapshot_ok_def plain_one_line)
  moreover have "one_line (concat (state_pieces s))" for s
    by (cases s) (simp_all add: state_pieces_def plain_one_line [OF state_token_plain] of_bool8_def)
  ultimately show ?thesis
    using plain_one_line [OF f]
    by (simp add: status_pieces_def position_pieces_def split: PositionReport.split)
qed

text \<open>The fields one by one.\<close>

lemma read_position:
  "status_field f z r (''MPos:'' @ v) = r\<lparr>sr_position_kind := Machine, sr_position := parse_floats f v\<rparr>"
  "status_field f z r (''WPos:'' @ v) = r\<lparr>sr_position_kind := Work, sr_position := parse_floats f v\<rparr>"
  "status_field f z r (''WCO:'' @ v) = r\<lparr>sr_wco := Some (parse_floats f v)\<rparr>"
  by (simp_all add: status_field_def)

lemma read_rest:
  "status_field f z r (''FS:'' @ v) = r\<lparr>sr_feed_speed := parse_feed_speed f v\<rparr>"
  "status_field f z r (''Bf:'' @ v) = r\<lparr>sr_buffer := parse_pair_u32 v\<rparr>"
  "status_field f z r (''Ov:'' @ v) = r\<lparr>sr_overrides := parse_overrides v\<rparr>"
  "status_field f z r (''Pn:'' @ v) = r\<lparr>sr_pins := drop_ws (length v) v\<rparr>"
  by (simp_all add: status_field_def)

lemma read_feed_speed:
  "plain a \<Longrightarrow> f a \<noteq> None \<Longrightarrow> f (dec n) \<noteq> None \<Longrightarrow>
     parse_feed_speed f (a @ CHR '','' # dec n) = Some (reading f a, reading f (dec n), None)"
  by (auto simp: parse_feed_speed_def nth_part_two [simplified] reading_def)

lemma read_pair:
  "m \<le> 0xFFFFFFFF \<Longrightarrow> n \<le> 0xFFFFFFFF \<Longrightarrow> parse_pair_u32 (dec m @ CHR '','' # dec n) = Some (m, n)"
  by (simp add: parse_pair_u32_def nth_part_two [simplified])

lemma read_overrides:
  "a \<le> 0xFFFFFFFF \<Longrightarrow> b \<le> 0xFFFFFFFF \<Longrightarrow> c \<le> 0xFFFFFFFF \<Longrightarrow>
     parse_overrides (dec a @ CHR '','' # dec b @ CHR '','' # dec c) = Some (a, b, c)"
  by (simp add: parse_overrides_def nth_part_three [simplified])

lemma u8_u32: "unat (w :: u8) \<le> 0xFFFFFFFF"
  using unat_u8_le [of w] by simp

lemma u16_u32: "unat (w :: u16) \<le> 0xFFFFFFFF"
  using unat_u16_le [of w] by simp

lemma parse_status_fields:
  assumes "formats_ok parse_f64 fmt3 fmt0 sub snap" and "snapshot_ok snap"
  shows "parse_status parse_f64 zero (concat (status_pieces fmt3 fmt0 sub snap)) =
    foldl (status_field parse_f64 zero)
      \<lparr>sr_machine_state = \<lparr>ms_state = host_run_state (run_state (snap_state snap)),
         ms_substate = substate (snap_state snap)\<rparr>,
       sr_position_kind = Machine, sr_position = [], sr_wco = None, sr_feed_speed = None,
       sr_overrides = None, sr_pins = [], sr_buffer = None, sr_line = None\<rparr>
      (status_fields fmt3 fmt0 sub snap)"
proof -
  have "split_on CHR ''|'' (concat (status_pieces fmt3 fmt0 sub snap)) =
      concat (state_pieces (snap_state snap)) # status_fields fmt3 fmt0 sub snap"
    unfolding status_pieces_fields
    using status_fields_no_bar [OF assms] state_pieces_no_bar by (intro split_on_fields) auto
  then show ?thesis by (simp only: parse_status_def Let_def list.sel parse_state_pieces)
qed

lemma parse_status_reported:
  assumes "formats_ok parse_f64 fmt3 fmt0 sub snap" and "snapshot_ok snap"
  shows "parse_status parse_f64 zero (concat (status_pieces fmt3 fmt0 sub snap)) =
    reported parse_f64 fmt3 fmt0 sub snap"
proof -
  have len: "length (mpos_mm snap) = 4" "length (wco_mm snap) = 4"
    using assms(2) by (auto simp: snapshot_ok_def AXIS_COUNT_def)
  have fl: "parse_floats parse_f64 (concat (axes_csv fmt3 vs)) = map (reading parse_f64 \<circ> fmt3) vs"
    if "set vs \<subseteq> printed sub snap" "length vs = 4" for vs
    using assms(1) that by (intro parse_floats_csv) (auto simp: formats_ok_def)
  have m: "parse_floats parse_f64 (concat (axes_csv fmt3 (mpos_mm snap))) =
      map (reading parse_f64 \<circ> fmt3) (mpos_mm snap)"
    and w: "parse_floats parse_f64 (concat (axes_csv fmt3 (wco_mm snap))) =
      map (reading parse_f64 \<circ> fmt3) (wco_mm snap)"
    and d: "parse_floats parse_f64 (concat (axes_csv fmt3 (map2 sub (mpos_mm snap) (wco_mm snap)))) =
      map (reading parse_f64 \<circ> fmt3) (map2 sub (mpos_mm snap) (wco_mm snap))"
    using len by (intro fl; auto simp: printed_def)+
  have fs: "parse_feed_speed parse_f64 (fmt0 (feed_mm_min snap) @ CHR '','' # dec (unat (spindle_rpm snap))) =
      Some (reading parse_f64 (fmt0 (feed_mm_min snap)), reading parse_f64 (dec (unat (spindle_rpm snap))), None)"
    using assms(1) by (intro read_feed_speed) (auto simp: formats_ok_def)
  have pins: "drop_ws (length (pin_letters (snap_pins snap))) (pin_letters (snap_pins snap)) = pin_letters (snap_pins snap)"
    using assms(2) pin_letters_visible by (auto simp: snapshot_ok_def drop_ws_visible)
  note rd = read_pair [OF u8_u32 u16_u32] read_overrides [OF u8_u32 u8_u32 u8_u32]
  show ?thesis
    unfolding parse_status_fields [OF assms] status_fields_def
    by (cases "position_report snap"; cases "pins_any (snap_pins snap)"; cases "include_wco snap";
        cases "include_ov snap")
       (simp_all only: PositionReport.case if_True if_False append.simps foldl.simps
         read_position [simplified] read_rest [simplified] m w d fs pins rd reported_def,
        simp_all add: pin_letters_empty)
qed

lemma set_pin:
  "\<not> limit_x r \<Longrightarrow> foldl pin_letter r (if b then ''X'' else []) = r\<lparr>limit_x := b\<rparr>"
  "\<not> limit_y r \<Longrightarrow> foldl pin_letter r (if b then ''Y'' else []) = r\<lparr>limit_y := b\<rparr>"
  "\<not> limit_z r \<Longrightarrow> foldl pin_letter r (if b then ''Z'' else []) = r\<lparr>limit_z := b\<rparr>"
  "\<not> limit_a r \<Longrightarrow> foldl pin_letter r (if b then ''A'' else []) = r\<lparr>limit_a := b\<rparr>"
  "\<not> pin_probe r \<Longrightarrow> foldl pin_letter r (if b then ''P'' else []) = r\<lparr>pin_probe := b\<rparr>"
  "\<not> pin_door r \<Longrightarrow> foldl pin_letter r (if b then ''D'' else []) = r\<lparr>pin_door := b\<rparr>"
  "\<not> pin_feed_hold r \<Longrightarrow> foldl pin_letter r (if b then ''H'' else []) = r\<lparr>pin_feed_hold := b\<rparr>"
  "\<not> pin_reset r \<Longrightarrow> foldl pin_letter r (if b then ''R'' else []) = r\<lparr>pin_reset := b\<rparr>"
  "\<not> pin_cycle_start r \<Longrightarrow> foldl pin_letter r (if b then ''S'' else []) = r\<lparr>pin_cycle_start := b\<rparr>"
  by (cases r; cases b; simp add: pin_letter_def)+

lemma limit_letters:
  "map fst (filter snd (zip AXIS_LETTERS [x, y, z, a])) =
     (if x then ''X'' else []) @ (if y then ''Y'' else []) @ (if z then ''Z'' else []) @ (if a then ''A'' else [])"
  by (simp add: AXIS_LETTERS_def)

section \<open>The refresh cadence\<close>

definition refresh_step :: "('t \<Rightarrow> 't \<Rightarrow> bool) \<Rightarrow> 't RefreshReporter \<Rightarrow> 't \<Rightarrow> 't RefreshReporter \<times> bool list"
  where "refresh_step differs s v = (let (s', b) = should_include differs s v in (s', [b]))"

lemma should_include_cases:
  assumes "since_refresh s \<le> 9"
  shows "snd (should_include differs s v) \<and> since_refresh (fst (should_include differs s v)) = 0 \<or>
    \<not> snd (should_include differs s v) \<and> since_refresh s < 9 \<and>
    since_refresh (fst (should_include differs s v)) = since_refresh s + 1"
  using assms by (auto simp: should_include_def REFRESH_PERIOD_def Let_def not_le)

lemma since_refresh_bounded:
  "since_refresh s \<le> 9 \<Longrightarrow> since_refresh (fst (should_include differs s v)) \<le> 9"
  using should_include_cases [of s differs v]
  by (auto simp: word_le_nat_alt word_less_nat_alt unat_word_ariths)

interpretation refresh: invariant_machine "refresh_step differs" "\<lambda>s. since_refresh s \<le> 9"
  for differs :: "'t \<Rightarrow> 't \<Rightarrow> bool"
  by unfold_locales (simp add: refresh_step_def case_prod_beta Let_def since_refresh_bounded)

lemma none_included:
  "since_refresh s \<le> 9 \<Longrightarrow> True \<notin> set (snd (run_steps (refresh_step differs) s vs)) \<Longrightarrow>
     unat (since_refresh s) + length vs \<le> 9"
proof (induction vs arbitrary: s)
  case Nil
  then show ?case by (simp add: word_le_nat_alt)
next
  case (Cons v vs)
  let ?s = "fst (should_include differs s v)"
  have step: "refresh_step differs s v = (?s, [snd (should_include differs s v)])"
    by (simp add: refresh_step_def case_prod_beta Let_def)
  with Cons.prems(2) have "\<not> snd (should_include differs s v)"
    and rest: "True \<notin> set (snd (run_steps (refresh_step differs) ?s vs))"
    by (simp_all del: run_steps.simps)
  with should_include_cases [OF Cons.prems(1), of differs v]
  have "since_refresh s < 9" "since_refresh ?s = since_refresh s + 1" by auto
  moreover have "unat (since_refresh ?s) + length vs \<le> 9"
    by (rule Cons.IH [OF since_refresh_bounded [OF Cons.prems(1)] rest])
  ultimately show ?case by (simp add: word_less_nat_alt unat_word_ariths)
qed

section \<open>Properties\<close>

text \<open>
  C25: the status report is read back.  For every machine snapshot whose report fits the response
  buffer, whose floats print as plain text the host's float parser accepts, the host receives one
  status line, and its decoded report is the snapshot: run state and substate, position kind and
  position, work offset, feed and spindle speed, overrides, pins and buffer levels.
\<close>

theorem status_report_read_back:
  assumes "formats_ok parse_f64 fmt3 fmt0 sub snap" and "snapshot_ok snap"
    and "length (concat (status_pieces fmt3 fmt0 sub snap)) + 4 \<le> RESPONSE_CAPACITY"
  shows "\<exists>body. host_reads parse_f64 (fst (status_report fmt3 fmt0 sub RESPONSE_CAPACITY snap [])) = [Some (Status body)] \<and>
    parse_status parse_f64 zero body = reported parse_f64 fmt3 fmt0 sub snap"
proof -
  let ?body = "concat (status_pieces fmt3 fmt0 sub snap)"
  have "fst (status_report fmt3 fmt0 sub RESPONSE_CAPACITY snap []) = (''<'' @ ?body @ ''>'') @ CRLF"
    unfolding status_report_def using assms(3) by (subst write_all_ok) simp_all
  moreover have "one_line (''<'' @ ?body @ ''>'')" using status_one_line [OF assms(1,2)] by simp
  ultimately have "host_reads parse_f64 (fst (status_report fmt3 fmt0 sub RESPONSE_CAPACITY snap [])) = [Some (Status ?body)]"
    by (simp only: host_reads_line parse_line_status)
  with parse_status_reported [OF assms(1,2)] show ?thesis by blast
qed

definition sample_snapshot :: "nat MachineSnapshot"
  where "sample_snapshot = (MachineSnapshot_idle 0)
    \<lparr>snap_state := MS_Hold True, position_report := PR_Work, mpos_mm := [15, 26, 37, 48],
     wco_mm := [1, 2, 3, 4], snap_pins := SIGNAL_CAPABILITIES\<rparr>"

definition sample_parse :: "string \<Rightarrow> (nat \<times> bool) option"
  where "sample_parse s = map_option (\<lambda>n. (n, True)) (parse_u32 s)"

theorem status_report_read_back_witness:
  "\<exists>body. host_reads sample_parse (fst (status_report dec dec (-) RESPONSE_CAPACITY sample_snapshot [])) = [Some (Status body)] \<and>
    parse_status sample_parse 0 body = reported sample_parse dec dec (-) sample_snapshot"
proof (rule status_report_read_back)
  show "formats_ok sample_parse dec dec (-) sample_snapshot"
    by (simp add: formats_ok_def printed_def sample_snapshot_def MachineSnapshot_idle_def sample_parse_def)
  show "snapshot_ok sample_snapshot"
    by (simp add: snapshot_ok_def sample_snapshot_def AXIS_COUNT_def SIGNAL_CAPABILITIES_def)
  show "length (concat (status_pieces dec dec (-) sample_snapshot)) + 4 \<le> RESPONSE_CAPACITY"
    by code_simp
qed

text \<open>
  the acknowledgements are read back: a fresh host reads each \<^verbatim>\<open>ok\<close>, \<^verbatim>\<open>error:N\<close> and \<^verbatim>\<open>ALARM:N\<close>
  the firmware renders, for every code, as exactly that response, and the banner as a banner.
\<close>

theorem responses_read_back:
  "host_reads parse_f64 (fst (write_ok RESPONSE_CAPACITY [])) = [Some Ok_r] \<and>
   host_reads parse_f64 (fst (write_error RESPONSE_CAPACITY code [])) = [Some (Error (unat code))] \<and>
   host_reads parse_f64 (fst (write_alarm RESPONSE_CAPACITY alarm [])) = [Some (Alarm (unat (alarm_number alarm)))] \<and>
   (\<exists>greeting. host_reads parse_f64 (fst (write_banner RESPONSE_CAPACITY [])) = [Some (Banner greeting)])"
proof (intro conjI)
  have e: "fst (write_error RESPONSE_CAPACITY code []) = (''error:'' @ dec (unat code)) @ CRLF"
    unfolding write_error_def using length_dec_u8 [of code]
    by (subst write_all_ok) (simp_all add: RESPONSE_CAPACITY_def)
  have "one_line (''error:'' @ dec (unat code))" by simp
  then show "host_reads parse_f64 (fst (write_error RESPONSE_CAPACITY code [])) = [Some (Error (unat code))]"
    by (simp only: e host_reads_line parse_line_error [OF u8_u32])
  have a: "fst (write_alarm RESPONSE_CAPACITY alarm []) = (''ALARM:'' @ dec (unat (alarm_number alarm))) @ CRLF"
    unfolding write_alarm_def using length_dec_u8 [of "alarm_number alarm"]
    by (subst write_all_ok) (simp_all add: RESPONSE_CAPACITY_def)
  have "one_line (''ALARM:'' @ dec (unat (alarm_number alarm)))" by simp
  then show "host_reads parse_f64 (fst (write_alarm RESPONSE_CAPACITY alarm [])) = [Some (Alarm (unat (alarm_number alarm)))]"
    by (simp only: a host_reads_line parse_line_alarm [OF u8_u32])
  have o: "fst (write_ok RESPONSE_CAPACITY []) = ''ok'' @ CRLF"
    by (simp add: write_ok_def write_str_def RESPONSE_CAPACITY_def)
  have "parse_line parse_f64 ''ok'' = Some Ok_r"
    by (simp add: parse_line_def Let_def trim_end_keep)
  moreover have "one_line ''ok''" by simp
  ultimately show "host_reads parse_f64 (fst (write_ok RESPONSE_CAPACITY [])) = [Some Ok_r]"
    by (simp only: o host_reads_line)
  let ?b = "''Grbl 1.1f ['' @ [CHR 0x27] @ ''$'' @ [CHR 0x27] @ '' for help]''"
  have b: "fst (write_banner RESPONSE_CAPACITY []) = ?b @ CRLF"
    unfolding write_banner_def by (subst write_all_ok) (simp_all add: RESPONSE_CAPACITY_def VERSION_def)
  have "parse_line parse_f64 ?b = Some (Banner ?b)"
    unfolding parse_line_def parse_setting_value_def starts_with_def
    by (simp add: Let_def trim_end_keep trim_visible visible_def to_ascii_lowercase_def) code_simp
  moreover have "one_line ?b" by simp
  ultimately show "\<exists>greeting. host_reads parse_f64 (fst (write_banner RESPONSE_CAPACITY [])) = [Some (Banner greeting)]"
    by (simp only: b host_reads_line) blast
qed

text \<open>The pins are read back: the letters the firmware writes for its pin report decode to exactly
  those pins, with every other signal the host knows clear.\<close>

lemma pins_read_back:
  "from_letters (pin_letters
     \<lparr>pr_probe = p, pr_limits = [x, y, z, a], pr_door = d, pr_hold = h, pr_reset = r, pr_cycle_start = s\<rparr>) =
   PinState_default\<lparr>pin_probe := p, limit_x := x, limit_y := y, limit_z := z, limit_a := a,
     pin_door := d, pin_feed_hold := h, pin_reset := r, pin_cycle_start := s\<rparr>"
  by (simp add: from_letters_def pin_letters_def limit_letters set_pin PinState_default_def)

text \<open>
  the error table as the host receives it.  Every row of \<^verbatim>\<open>ERROR_CODES\<close> renders into a response
  except that of code 33, which is longer than the 160 bytes of one, so \<^verbatim>\<open>$EE\<close> leaves it out;
  every alarm row renders, so \<^verbatim>\<open>$EA\<close> is complete.
\<close>

theorem error_enumeration_omits_33:
  "map (\<lambda>c. snd (error_code_line RESPONSE_CAPACITY c [])) ERROR_CODES =
     map (\<lambda>c. if ec_id c = 33 then Inl FmtError else Inr ()) ERROR_CODES \<and>
   33 \<in> ec_id ` set ERROR_CODES \<and> length enumerate_error_codes = length ERROR_CODES - 1 \<and>
   length enumerate_alarm_codes = length AlarmCode_ALL"
  by code_simp

text \<open>
  no element goes stale.  Whatever values it is given, from a fresh reporter on, any ten
  consecutive reports include the element at least once, and a report whose value differs from the
  last one included always includes it.
\<close>

theorem refreshed_within_period:
  assumes "s = fst (run_steps (refresh_step differs) (RefreshReporter_new baseline) earlier)"
    and "length vs = unat REFRESH_PERIOD"
  shows "True \<in> set (snd (run_steps (refresh_step differs) s vs)) \<and>
    (differs v (last_reported s) \<longrightarrow> snd (should_include differs s v))"
proof
  have "since_refresh s \<le> 9"
    unfolding assms(1) by (rule refresh.inv_run) (simp add: RefreshReporter_new_def)
  then show "True \<in> set (snd (run_steps (refresh_step differs) s vs))"
    using none_included [of s differs vs] assms(2) by (auto simp: REFRESH_PERIOD_def)
qed (simp add: should_include_def Let_def)

theorem refreshed_within_period_witness:
  "let s = fst (run_steps (refresh_step (\<noteq>)) (RefreshReporter_new (0 :: nat)) [1, 2])
   in True \<in> set (snd (run_steps (refresh_step (\<noteq>)) s (replicate 10 2))) \<and>
     (2 \<noteq> last_reported s \<longrightarrow> snd (should_include (\<noteq>) s 2))"
  unfolding Let_def by (rule refreshed_within_period [OF refl]) (simp add: REFRESH_PERIOD_def)

end
