(* ===== verification/Rx_Pipeline.thy ===== *)
theory Rx_Pipeline
  imports Line_Stream Wire_Format
begin

text \<open>
  The firmware's receive path: \<^verbatim>\<open>crates/firmware/src/comms/rx.rs\<close> (the reader task, the line
  assembler), the real-time dispatch of \<^verbatim>\<open>comms/realtime.rs\<close>, the response helpers of
  \<^verbatim>\<open>comms/tx.rs\<close> they use and the shared statics of \<^verbatim>\<open>comms/state.rs\<close>.  A signal is a flag, a
  bounded channel a list with its capacity, a relaxed counter a wrapping word.  A task that waits
  for room in a channel is the \<^verbatim>\<open>blocked\<close> field; one call of a step is what the task does between
  two suspension points.  Where both futures of the assembler's \<^verbatim>\<open>select\<close> are ready, the argument
  \<^verbatim>\<open>byte_first\<close> says which of them the executor's implementation returns.
\<close>

section \<open>The shared state\<close>

definition LINE_QUEUE_DEPTH :: nat
  where "LINE_QUEUE_DEPTH = 4"

definition RESPONSE_QUEUE_DEPTH :: nat
  where "RESPONSE_QUEUE_DEPTH = 8"

definition RX_PIPE_CAPACITY :: nat
  where "RX_PIPE_CAPACITY = RX_BUFFER_SIZE"

text \<open>What the assembler is waiting to hand over.\<close>

datatype Blocked = SendLine "u8 list" | SendContext string u8 | SendResponse string

record Comms =
  rx_pipe :: "u8 list"
  rx_pipe_overflow :: u32
  rx_activity :: u32
  framer :: StreamEngine
  blocked :: "Blocked option"
  line_queue :: "u8 list list"
  lines_framed :: u32
  acks_emitted :: u32
  responses :: "string list"
  line_reset :: bool
  soft_reset_signal :: bool
  control :: ControlState
  ovr :: Overrides
  hold_requested :: bool
  hold_wake :: bool
  status_request :: bool
  pause_active :: bool
  pause_resume :: bool
  jog_cancel :: bool
  program_stop_signal :: bool
  probe_request :: bool
  auto_report_suspended :: bool
  auto_report_wake :: bool
  optional_stop_enabled :: bool
  executor_running :: bool
  reset_was_running :: bool
  motion_reset_pending :: bool
  motion_reset :: bool
  spindle_update :: bool

definition Comms_new :: "ControlState \<Rightarrow> Comms"
  where "Comms_new s =
    \<lparr>rx_pipe = [], rx_pipe_overflow = 0, rx_activity = 0, framer = StreamEngine_new, blocked = None,
     line_queue = [], lines_framed = 0, acks_emitted = 0, responses = [], line_reset = False,
     soft_reset_signal = False, control = s, ovr = Overrides_new, hold_requested = False,
     hold_wake = False, status_request = False, pause_active = False, pause_resume = False,
     jog_cancel = False, program_stop_signal = False, probe_request = False,
     auto_report_suspended = False, auto_report_wake = False, optional_stop_enabled = False,
     executor_running = False, reset_was_running = False, motion_reset_pending = False,
     motion_reset = False, spindle_update = False\<rparr>"

section \<open>Real-time dispatch\<close>

text \<open>\<^verbatim>\<open>RESPONSE.try_send\<close>: dropped when the channel is full.\<close>

definition try_send :: "string \<Rightarrow> Comms \<Rightarrow> Comms"
  where "try_send s c =
    (if length (responses c) < RESPONSE_QUEUE_DEPTH then c\<lparr>responses := responses c @ [s]\<rparr> else c)"

definition try_send_banner :: "Comms \<Rightarrow> Comms"
  where "try_send_banner c =
    (case write_banner RESPONSE_CAPACITY [] of (s, Inr ()) \<Rightarrow> try_send s c | (_, Inl _) \<Rightarrow> c)"

definition handle_soft_reset :: "Comms \<Rightarrow> Comms"
  where "handle_soft_reset c =
    (let c = c\<lparr>reset_was_running := executor_running c\<rparr>;
         c = c\<lparr>rx_pipe := [], line_queue := []\<rparr>;
         c = c\<lparr>jog_cancel := False\<rparr>;
         c = c\<lparr>hold_requested := False, probe_request := False\<rparr>;
         c = c\<lparr>line_reset := True, soft_reset_signal := True\<rparr>;
         c = c\<lparr>motion_reset_pending := True, hold_wake := True, motion_reset := True\<rparr>
     in try_send_banner c)"

definition handle_override :: "u8 \<Rightarrow> Comms \<Rightarrow> Comms"
  where "handle_override b c =
    (let (ov, changed) = apply_override (ovr c) b in
     if changed
     then c\<lparr>ovr := ov, spindle_update := spindle_update c \<or>
              (spindle ov, spindle_stop ov) \<noteq> (spindle (ovr c), spindle_stop (ovr c))\<rparr>
     else c)"

fun dispatch_realtime :: "RealtimeCommand \<Rightarrow> Comms \<Rightarrow> Comms"
  where
    "dispatch_realtime StatusReport c = c\<lparr>status_request := True\<rparr>"
  | "dispatch_realtime FullStatusReport c = c\<lparr>status_request := True\<rparr>"
  | "dispatch_realtime FeedHold c =
      (let nxt = feed_hold (control c);
           c = c\<lparr>control := nxt\<rparr>
       in case nxt of
            CS_Hold _ \<Rightarrow> c\<lparr>hold_requested := True, hold_wake := True\<rparr>
          | _ \<Rightarrow> c)"
  | "dispatch_realtime CycleStart c =
      (if resumes_on_cycle_start (control c)
       then let c = c\<lparr>control := cycle_start (control c), hold_requested := False, hold_wake := True\<rparr>
            in if pause_active c then c\<lparr>pause_resume := True\<rparr> else c
       else c)"
  | "dispatch_realtime SoftReset c = handle_soft_reset c"
  | "dispatch_realtime Stop c = handle_soft_reset c"
  | "dispatch_realtime JogCancel c =
      (if control c = CS_Jog then c\<lparr>jog_cancel := True\<rparr> else c)"
  | "dispatch_realtime ProgramStop c =
      (if program_stop_quiesces (control c) then c\<lparr>program_stop_signal := True\<rparr> else c)"
  | "dispatch_realtime (Override b) c = handle_override b c"
  | "dispatch_realtime ToggleAutoReport c =
      (let suspended = auto_report_suspended c;
           c = c\<lparr>auto_report_suspended := \<not> suspended\<rparr>
       in if suspended then c\<lparr>auto_report_wake := True\<rparr> else c)"
  | "dispatch_realtime ToggleOptionalStop c = c\<lparr>optional_stop_enabled := \<not> optional_stop_enabled c\<rparr>"
  | "dispatch_realtime ParserStateReport c = c"
  | "dispatch_realtime SafetyDoor c = c"

section \<open>The reader task\<close>

definition rx_byte :: "u8 \<Rightarrow> Comms \<Rightarrow> Comms"
  where "rx_byte b c =
    (case classify_realtime b of
       Some cmd \<Rightarrow> dispatch_realtime cmd c
     | None \<Rightarrow>
         if length (rx_pipe c) < RX_PIPE_CAPACITY then c\<lparr>rx_pipe := rx_pipe c @ [b]\<rparr>
         else c\<lparr>rx_pipe_overflow := rx_pipe_overflow c + 1\<rparr>)"

text \<open>One successful read of the reader's loop.\<close>

definition usb_rx :: "u8 list \<Rightarrow> Comms \<Rightarrow> Comms"
  where "usb_rx chunk c =
    (let c = (if 0 < length chunk then c\<lparr>rx_activity := rx_activity c + of_nat (length chunk)\<rparr> else c)
     in fold rx_byte chunk c)"

section \<open>The line assembler\<close>

definition error_bare :: "u8 \<Rightarrow> Comms \<Rightarrow> Comms"
  where "error_bare code c =
    (case write_error RESPONSE_CAPACITY code [] of
       (s, Inr ()) \<Rightarrow> c\<lparr>acks_emitted := acks_emitted c + 1, blocked := Some (SendResponse s)\<rparr>
     | (_, Inl _) \<Rightarrow> c\<lparr>blocked := None\<rparr>)"

definition error_start :: "u8 \<Rightarrow> Comms \<Rightarrow> Comms"
  where "error_start code c =
    (case error_context RESPONSE_CAPACITY code [] of
       (ctx, Inr ()) \<Rightarrow> if ctx \<noteq> [] then c\<lparr>blocked := Some (SendContext ctx code)\<rparr> else error_bare code c
     | (_, Inl _) \<Rightarrow> error_bare code c)"

definition frame_byte :: "u8 \<Rightarrow> Comms \<Rightarrow> Comms"
  where "frame_byte b c =
    (let (e, ev) = ingest (framer c) b;
         c = c\<lparr>framer := e\<rparr>
     in case ev of
          NoEvent \<Rightarrow> c
        | AcceptLine line \<Rightarrow> c\<lparr>lines_framed := lines_framed c + 1, blocked := Some (SendLine line)\<rparr>
        | Reject code \<Rightarrow> error_start code c)"

text \<open>A waiting send: it completes when its channel has room.\<close>

fun resume_send :: "Blocked \<Rightarrow> Comms \<Rightarrow> Comms"
  where
    "resume_send (SendLine line) c =
      (if length (line_queue c) < LINE_QUEUE_DEPTH
       then c\<lparr>line_queue := line_queue c @ [line], blocked := None\<rparr> else c)"
  | "resume_send (SendContext ctx code) c =
      (if length (responses c) < RESPONSE_QUEUE_DEPTH
       then error_bare code (c\<lparr>responses := responses c @ [ctx]\<rparr>) else c)"
  | "resume_send (SendResponse s) c =
      (if length (responses c) < RESPONSE_QUEUE_DEPTH
       then c\<lparr>responses := responses c @ [s], blocked := None\<rparr> else c)"

definition take_line_reset :: "Comms \<Rightarrow> Comms"
  where "take_line_reset c = c\<lparr>line_reset := False, framer := StreamEngine_soft_reset (framer c)\<rparr>"

definition line_assembler :: "bool \<Rightarrow> Comms \<Rightarrow> Comms"
  where "line_assembler byte_first c =
    (case blocked c of
       Some b \<Rightarrow> resume_send b c
     | None \<Rightarrow>
         if rx_pipe c \<noteq> [] \<and> (byte_first \<or> \<not> line_reset c)
         then frame_byte (hd (rx_pipe c)) (c\<lparr>rx_pipe := tl (rx_pipe c)\<rparr>)
         else if line_reset c then take_line_reset c
         else c)"

section \<open>The pipeline as a machine\<close>

text \<open>Its steps: a read, a turn of the assembler, the consumer taking a line.\<close>

datatype PipeStep = Read "u8 list" | Assemble bool | Take

fun pipe_step :: "Comms \<Rightarrow> PipeStep \<Rightarrow> Comms \<times> u8 list list"
  where
    "pipe_step c (Read chunk) = (usb_rx chunk c, [])"
  | "pipe_step c (Assemble byte_first) = (line_assembler byte_first c, [])"
  | "pipe_step c Take =
      (case line_queue c of [] \<Rightarrow> (c, []) | l # ls \<Rightarrow> (c\<lparr>line_queue := ls\<rparr>, [l]))"

section \<open>What a step leaves alone\<close>

definition is_reset_byte :: "u8 \<Rightarrow> bool"
  where "is_reset_byte b \<longleftrightarrow> classify_realtime b \<in> {Some SoftReset, Some Stop}"

definition is_line_byte :: "u8 \<Rightarrow> bool"
  where "is_line_byte b \<longleftrightarrow> classify_realtime b = None"

lemma dispatch_keeps:
  assumes "cmd \<noteq> SoftReset" and "cmd \<noteq> Stop"
  shows "rx_pipe (dispatch_realtime cmd c) = rx_pipe c \<and> framer (dispatch_realtime cmd c) = framer c \<and>
    blocked (dispatch_realtime cmd c) = blocked c \<and> line_queue (dispatch_realtime cmd c) = line_queue c \<and>
    line_reset (dispatch_realtime cmd c) = line_reset c"
  using assms
  by (cases cmd) (simp_all add: Let_def handle_override_def split: prod.split ControlState.split)

lemma try_send_banner_keeps [simp]:
  "rx_pipe (try_send_banner c) = rx_pipe c"
  "framer (try_send_banner c) = framer c"
  "blocked (try_send_banner c) = blocked c"
  "line_queue (try_send_banner c) = line_queue c"
  "line_reset (try_send_banner c) = line_reset c"
  "reset_was_running (try_send_banner c) = reset_was_running c"
  "soft_reset_signal (try_send_banner c) = soft_reset_signal c"
  "hold_requested (try_send_banner c) = hold_requested c"
  by (simp_all add: try_send_banner_def try_send_def split: prod.split sum.split unit.split)

lemma soft_reset_fields [simp]:
  "rx_pipe (handle_soft_reset c) = []"
  "line_queue (handle_soft_reset c) = []"
  "line_reset (handle_soft_reset c)"
  "soft_reset_signal (handle_soft_reset c)"
  "\<not> hold_requested (handle_soft_reset c)"
  "blocked (handle_soft_reset c) = blocked c"
  "framer (handle_soft_reset c) = framer c"
  "reset_was_running (handle_soft_reset c) = executor_running c"
  by (simp_all add: handle_soft_reset_def Let_def)

lemma rx_reset: "rx_byte 0x18 c = handle_soft_reset c"
  by (simp add: rx_byte_def classify_realtime_def)

lemma rx_line_byte:
  "is_line_byte b \<Longrightarrow> length (rx_pipe c) < RX_PIPE_CAPACITY \<Longrightarrow> rx_byte b c = c\<lparr>rx_pipe := rx_pipe c @ [b]\<rparr>"
  by (simp add: rx_byte_def is_line_byte_def)

text \<open>A chunk without a reset that fits the pipe appends its line bytes and no more.\<close>

lemma fold_rx_pipe:
  assumes "list_all (\<lambda>b. \<not> is_reset_byte b) chunk"
    and "length (rx_pipe c) + length (filter is_line_byte chunk) \<le> RX_PIPE_CAPACITY"
  shows "rx_pipe (fold rx_byte chunk c) = rx_pipe c @ filter is_line_byte chunk \<and>
    framer (fold rx_byte chunk c) = framer c \<and> blocked (fold rx_byte chunk c) = blocked c \<and>
    line_queue (fold rx_byte chunk c) = line_queue c \<and> line_reset (fold rx_byte chunk c) = line_reset c"
  using assms
proof (induction chunk arbitrary: c)
  case (Cons b chunk)
  show ?case
  proof (cases "classify_realtime b")
    case None
    with Cons show ?thesis by (simp add: rx_line_byte is_line_byte_def)
  next
    case (Some cmd)
    with Cons.prems have "cmd \<noteq> SoftReset" "cmd \<noteq> Stop" by (auto simp: is_reset_byte_def)
    from dispatch_keeps [OF this, of c] Some Cons.prems Cons.IH [of "dispatch_realtime cmd c"]
    show ?thesis by (simp add: rx_byte_def is_line_byte_def)
  qed
qed simp

lemma usb_rx_pipe:
  assumes "list_all (\<lambda>b. \<not> is_reset_byte b) chunk"
    and "length (rx_pipe c) + length (filter is_line_byte chunk) \<le> RX_PIPE_CAPACITY"
  shows "rx_pipe (usb_rx chunk c) = rx_pipe c @ filter is_line_byte chunk"
    "framer (usb_rx chunk c) = framer c" "blocked (usb_rx chunk c) = blocked c"
    "line_queue (usb_rx chunk c) = line_queue c" "line_reset (usb_rx chunk c) = line_reset c"
  using assms fold_rx_pipe [of chunk "if 0 < length chunk then
      c\<lparr>rx_activity := rx_activity c + of_nat (length chunk)\<rparr> else c"]
  by (simp_all add: usb_rx_def Let_def split: if_splits)

section \<open>Delivery\<close>

fun accepted :: "EngineEvent list \<Rightarrow> u8 list list"
  where
    "accepted [] = []"
  | "accepted (AcceptLine l # es) = l # accepted es"
  | "accepted (_ # es) = accepted es"

lemma accepted_append [simp]: "accepted (es @ fs) = accepted es @ accepted fs"
  by (induction es rule: accepted.induct) simp_all

definition waiting :: "Comms \<Rightarrow> u8 list list"
  where "waiting c = (case blocked c of Some (SendLine l) \<Rightarrow> [l] | _ \<Rightarrow> [])"

text \<open>The lines of the bytes read that are short enough to be accepted.\<close>

definition lines_of :: "u8 list \<Rightarrow> u8 list list"
  where "lines_of bs = filter (\<lambda>l. length l \<le> MAX_LINE_LEN) (fst (split_lines [] bs))"

lemma accepted_run: "accepted (snd (run_steps ingest_out StreamEngine_new bs)) = lines_of bs"
proof -
  have verdicts: "accepted (map line_verdict ls) = filter (\<lambda>l. length l \<le> MAX_LINE_LEN) ls" for ls
    by (induction ls) (simp_all add: line_verdict_def)
  have "snd (run_steps ingest_out StreamEngine_new bs) =
      map line_verdict (fst (split_lines [] bs)) @ line_out engine_grow (snd (split_lines [] bs))"
    using engine.run_out_fresh [OF reader_stands_new, of bs]
    by (simp only: stream_out_def engine_line_total concat_map_singleton)
  then show ?thesis by (simp add: verdicts lines_of_def engine_line_out)
qed

lemma error_bare_keeps [simp]:
  "rx_pipe (error_bare code c) = rx_pipe c" "framer (error_bare code c) = framer c"
  "line_queue (error_bare code c) = line_queue c" "line_reset (error_bare code c) = line_reset c"
  "waiting (error_bare code c) = []"
  by (simp_all add: error_bare_def waiting_def split: prod.split sum.split unit.split)

lemma error_start_keeps [simp]:
  "rx_pipe (error_start code c) = rx_pipe c" "framer (error_start code c) = framer c"
  "line_queue (error_start code c) = line_queue c" "line_reset (error_start code c) = line_reset c"
  "waiting (error_start code c) = []"
  by (simp_all add: error_start_def split: prod.split sum.split unit.split) (simp add: waiting_def)

lemma resume_keeps [simp]:
  "rx_pipe (resume_send b c) = rx_pipe c" "framer (resume_send b c) = framer c"
  "line_reset (resume_send b c) = line_reset c"
  by (cases b; simp)+

lemma resume_waiting:
  "blocked c = Some b \<Longrightarrow>
     line_queue (resume_send b c) @ waiting (resume_send b c) = line_queue c @ waiting c"
  by (cases b) (simp_all add: waiting_def, simp add: waiting_def [symmetric])

lemma frame_byte_framer: "framer (frame_byte b c) = fst (ingest_out (framer c) b)"
  by (simp add: frame_byte_def ingest_out_def case_prod_beta Let_def split: EngineEvent.split)

lemma frame_byte_waiting:
  "blocked c = None \<Longrightarrow> waiting (frame_byte b c) = accepted (snd (ingest_out (framer c) b))"
  by (simp add: frame_byte_def ingest_out_def case_prod_beta Let_def split: EngineEvent.split)
     (simp add: waiting_def)

lemma frame_byte_keeps [simp]:
  "rx_pipe (frame_byte b c) = rx_pipe c" "line_queue (frame_byte b c) = line_queue c"
  "line_reset (frame_byte b c) = line_reset c"
  by (simp_all add: frame_byte_def case_prod_beta Let_def split: EngineEvent.split)

text \<open>
  What a state knows of the bytes \<^verbatim>\<open>fed\<close> since the framer was fresh and the lines \<^verbatim>\<open>taken\<close> by the
  consumer since.
\<close>

definition delivers :: "Comms \<Rightarrow> u8 list \<Rightarrow> u8 list list \<Rightarrow> bool"
  where "delivers c fed taken \<longleftrightarrow> \<not> line_reset c \<and>
    (\<exists>consumed. fed = consumed @ rx_pipe c \<and>
       framer c = fst (run_steps ingest_out StreamEngine_new consumed) \<and>
       lines_of consumed = taken @ line_queue c @ waiting c)"

fun step_fits :: "Comms \<Rightarrow> PipeStep \<Rightarrow> bool"
  where
    "step_fits c (Read chunk) \<longleftrightarrow> list_all (\<lambda>b. \<not> is_reset_byte b) chunk \<and>
       length (rx_pipe c) + length (filter is_line_byte chunk) \<le> RX_PIPE_CAPACITY"
  | "step_fits c _ \<longleftrightarrow> True"

text \<open>A compliant host: no read overruns the pipe, and none carries a reset.\<close>

fun run_fits :: "Comms \<Rightarrow> PipeStep list \<Rightarrow> bool"
  where
    "run_fits c [] \<longleftrightarrow> True"
  | "run_fits c (st # sts) \<longleftrightarrow> step_fits c st \<and> run_fits (fst (pipe_step c st)) sts"

fun bytes_read :: "PipeStep list \<Rightarrow> u8 list"
  where
    "bytes_read [] = []"
  | "bytes_read (Read chunk # sts) = filter is_line_byte chunk @ bytes_read sts"
  | "bytes_read (_ # sts) = bytes_read sts"

lemma delivers_assembler:
  assumes "delivers c fed taken"
  shows "delivers (line_assembler p c) fed taken"
proof -
  from assms obtain consumed where c: "fed = consumed @ rx_pipe c" "\<not> line_reset c"
    "framer c = fst (run_steps ingest_out StreamEngine_new consumed)"
    "lines_of consumed = taken @ line_queue c @ waiting c"
    by (auto simp: delivers_def)
  show ?thesis
  proof (cases "blocked c")
    case (Some b)
    with c resume_waiting [OF Some] show ?thesis
      by (auto simp: delivers_def line_assembler_def intro!: exI [of _ consumed])
  next
    case None
    show ?thesis
    proof (cases "rx_pipe c")
      case Nil
      with None assms c show ?thesis by (simp add: line_assembler_def)
    next
      case (Cons b bs)
      let ?c = "c\<lparr>rx_pipe := bs\<rparr>"
      have step: "line_assembler p c = frame_byte b ?c"
        using None Cons c by (simp add: line_assembler_def)
      have w: "waiting (frame_byte b ?c) = accepted (snd (ingest_out (framer c) b))"
        using None by (simp add: frame_byte_waiting)
      have "lines_of (consumed @ [b]) = lines_of consumed @ accepted (snd (ingest_out (framer c) b))"
        using c(3) by (simp add: accepted_run [symmetric] run_steps_append case_prod_beta Let_def)
      moreover have "waiting c = []" using None by (simp add: waiting_def)
      ultimately have "lines_of (consumed @ [b]) = taken @ line_queue c @ waiting (frame_byte b ?c)"
        using c(4) w by simp
      moreover have "framer (frame_byte b ?c) = fst (run_steps ingest_out StreamEngine_new (consumed @ [b]))"
        using c(3) by (simp add: frame_byte_framer run_steps_append case_prod_beta Let_def)
      ultimately show ?thesis
        using c Cons by (auto simp: delivers_def step intro!: exI [of _ "consumed @ [b]"])
    qed
  qed
qed

lemma delivers_step:
  assumes "delivers c fed taken" and "step_fits c st"
  shows "delivers (fst (pipe_step c st)) (fed @ bytes_read [st]) (taken @ snd (pipe_step c st))"
proof (cases st)
  case (Read chunk)
  with assms usb_rx_pipe [of chunk c] show ?thesis
    by (auto simp: delivers_def waiting_def)
next
  case (Assemble p)
  with delivers_assembler [OF assms(1), of p] show ?thesis by simp
next
  case Take
  with assms show ?thesis by (auto simp: delivers_def waiting_def split: list.split)
qed

lemma bytes_read_Cons: "bytes_read (st # sts) = bytes_read [st] @ bytes_read sts"
  by (cases st) simp_all

lemma delivers_run:
  "delivers c fed taken \<Longrightarrow> run_fits c sts \<Longrightarrow>
     delivers (fst (run_steps pipe_step c sts)) (fed @ bytes_read sts) (taken @ snd (run_steps pipe_step c sts))"
proof (induction sts arbitrary: c fed taken)
  case (Cons st sts)
  with delivers_step [of c fed taken st]
    Cons.IH [of "fst (pipe_step c st)" "fed @ bytes_read [st]" "taken @ snd (pipe_step c st)"]
  show ?case by (simp add: bytes_read_Cons [of st sts] del: run_steps.simps)
qed simp

lemma delivers_fresh:
  "rx_pipe c = [] \<Longrightarrow> framer c = StreamEngine_new \<Longrightarrow> blocked c = None \<Longrightarrow> line_queue c = [] \<Longrightarrow>
     \<not> line_reset c \<Longrightarrow> delivers c [] []"
  by (simp add: delivers_def lines_of_def waiting_def)

lemma engine_reset_fresh: "StreamEngine_soft_reset s = StreamEngine_new"
  by (cases s) (simp add: StreamEngine_soft_reset_def StreamEngine_new_def LineReader_reset_def LineReader_new_def)

lemma reset_then_assembler:
  assumes "blocked c = None"
  shows "delivers (line_assembler p (rx_byte 0x18 c)) [] []"
  using assms
  by (intro delivers_fresh)
     (simp_all add: rx_reset line_assembler_def take_line_reset_def engine_reset_fresh)

section \<open>A reset that meets a half-framed line\<close>

lemma assemble_one:
  assumes "reader_stands (reader (framer c)) acc None" and "\<not> is_term b"
    and "length acc < MAX_LINE_LEN" and "blocked c = None" and "rx_pipe c = b # bs"
  shows "reader_stands (reader (framer (line_assembler True c))) (acc @ [b]) None \<and>
    blocked (line_assembler True c) = None \<and> rx_pipe (line_assembler True c) = bs \<and>
    line_queue (line_assembler True c) = line_queue c"
proof -
  let ?c = "c\<lparr>rx_pipe := bs\<rparr>"
  have step: "line_assembler True c = frame_byte b ?c" using assms by (simp add: line_assembler_def)
  have out: "snd (ingest_out (framer c) b) = [] \<and> reader_stands (reader (fst (ingest_out (framer c) b))) (acc @ [b]) None"
    using engine.on_char [OF assms(1,2)] assms(3) by (simp add: engine_grow_def)
  then have "snd (ingest (framer c) b) = NoEvent"
    by (simp add: ingest_out_def case_prod_beta Let_def split: if_splits)
  then have "frame_byte b ?c = ?c\<lparr>framer := fst (ingest_out (framer c) b)\<rparr>"
    by (simp add: frame_byte_def ingest_out_def case_prod_beta Let_def)
  with step out assms(4) show ?thesis by simp
qed

lemma assemble_chars:
  assumes "reader_stands (reader (framer c)) acc None" and "list_all (\<lambda>b. \<not> is_term b) bs"
    and "length acc + length bs \<le> MAX_LINE_LEN" and "blocked c = None" and "rx_pipe c = bs @ rest"
  defines "d \<equiv> fst (run_steps pipe_step c (replicate (length bs) (Assemble True)))"
  shows "reader_stands (reader (framer d)) (acc @ bs) None \<and> blocked d = None \<and> rx_pipe d = rest \<and>
    line_queue d = line_queue c"
  unfolding d_def using assms(1-5)
proof (induction bs arbitrary: c acc)
  case (Cons b bs)
  then have "reader_stands (reader (framer (line_assembler True c))) (acc @ [b]) None \<and>
      blocked (line_assembler True c) = None \<and> rx_pipe (line_assembler True c) = bs @ rest \<and>
      line_queue (line_assembler True c) = line_queue c"
    by (intro assemble_one) simp_all
  with Cons.IH [of "line_assembler True c" "acc @ [b]"] Cons.prems
  show ?case by (simp del: run_steps.simps)
qed simp

lemma assemble_end:
  assumes "reader_stands (reader (framer c)) acc None" and "length acc \<le> MAX_LINE_LEN"
    and "blocked c = None" and "rx_pipe c = LF # bs"
  shows "blocked (line_assembler True c) = Some (SendLine acc) \<and>
    line_queue (line_assembler True c) = line_queue c"
proof -
  let ?c = "c\<lparr>rx_pipe := bs\<rparr>"
  have step: "line_assembler True c = frame_byte LF ?c" using assms by (simp add: line_assembler_def)
  have "snd (ingest_out (framer c) LF) = [AcceptLine acc]"
    using engine.on_term [OF assms(1), of LF] assms(2) by (simp add: engine_fin_def is_term_def)
  then have "snd (ingest (framer c) LF) = AcceptLine acc"
    by (simp add: ingest_out_def case_prod_beta Let_def split: if_splits)
  with step show ?thesis by (simp add: frame_byte_def case_prod_beta Let_def)
qed

text \<open>Bytes of a line's text: neither a real-time command nor a terminator.\<close>

definition text_byte :: "u8 \<Rightarrow> bool"
  where "text_byte b \<longleftrightarrow> is_line_byte b \<and> \<not> is_term b"

lemma text_bytes:
  "list_all text_byte bs \<Longrightarrow> list_all (\<lambda>b. \<not> is_reset_byte b) bs \<and> filter is_line_byte bs = bs \<and>
     list_all (\<lambda>b. \<not> is_term b) bs"
  by (induction bs) (auto simp: text_byte_def is_line_byte_def is_reset_byte_def)

lemma line_feed_byte [simp]: "is_line_byte LF" "\<not> is_reset_byte LF"
  by (simp_all add: is_line_byte_def is_reset_byte_def classify_realtime_def)

definition after_reset_read :: "u8 list \<Rightarrow> Comms \<Rightarrow> Comms"
  where "after_reset_read cs c = usb_rx (0x18 # cs @ [LF]) c"

lemma after_reset_read_fields:
  assumes "list_all text_byte cs" and "length cs \<le> MAX_LINE_LEN"
  shows "rx_pipe (after_reset_read cs c) = cs @ [LF] \<and> framer (after_reset_read cs c) = framer c \<and>
    blocked (after_reset_read cs c) = blocked c \<and> line_queue (after_reset_read cs c) = []"
proof -
  let ?c = "handle_soft_reset (c\<lparr>rx_activity := rx_activity c + of_nat (Suc (Suc (length cs)))\<rparr>)"
  have read: "after_reset_read cs c = fold rx_byte (cs @ [LF]) ?c"
    by (simp add: after_reset_read_def usb_rx_def Let_def rx_reset)
  have no: "list_all (\<lambda>b. \<not> is_reset_byte b) (cs @ [LF])" and all: "filter is_line_byte (cs @ [LF]) = cs @ [LF]"
    using text_bytes [OF assms(1)] by simp_all
  have "length (rx_pipe ?c) + length (filter is_line_byte (cs @ [LF])) \<le> RX_PIPE_CAPACITY"
    using assms(2) unfolding all by (simp add: MAX_LINE_LEN_def RX_PIPE_CAPACITY_def RX_BUFFER_SIZE_def)
  from fold_rx_pipe [OF no this] show ?thesis unfolding read all by simp
qed

lemma replicate_plus_2: "replicate (n + 2) x @ ys = replicate n x @ x # x # ys"
  by (induction n) simp_all

lemma joined_line:
  assumes "reader_stands (reader (framer c)) acc None" and "blocked c = None"
    and "list_all text_byte cs" and "length acc + length cs \<le> MAX_LINE_LEN"
  shows "snd (run_steps pipe_step c ([Read (0x18 # cs @ [LF])] @
    replicate (length cs + 2) (Assemble True) @ [Take])) = [acc @ cs]"
proof -
  let ?c = "after_reset_read cs c"
  let ?d = "fst (run_steps pipe_step ?c (replicate (length cs) (Assemble True)))"
  have c: "rx_pipe ?c = cs @ [LF]" "framer ?c = framer c" "blocked ?c = None" "line_queue ?c = []"
    using after_reset_read_fields [OF assms(3), of c] assms(2,4) by simp_all
  have d: "reader_stands (reader (framer ?d)) (acc @ cs) None \<and> blocked ?d = None \<and> rx_pipe ?d = [LF] \<and>
      line_queue ?d = line_queue ?c"
    using c assms text_bytes [OF assms(3)] by (intro assemble_chars) simp_all
  then have e: "blocked (line_assembler True ?d) = Some (SendLine (acc @ cs))"
    "line_queue (line_assembler True ?d) = []"
    using assemble_end [of ?d "acc @ cs" "[]"] assms(4) c(4) by simp_all
  then have "line_queue (line_assembler True (line_assembler True ?d)) = [acc @ cs]"
    by (simp add: line_assembler_def [of True "line_assembler True ?d"] LINE_QUEUE_DEPTH_def)
  moreover have "snd (run_steps pipe_step x (replicate n (Assemble True))) = []" for x n
    by (induction n arbitrary: x) (simp_all del: run_steps.simps add: run_steps.simps(1))
  ultimately show ?thesis
    unfolding replicate_plus_2
    by (simp add: run_steps_append after_reset_read_def [symmetric] del: run_steps.simps
      add: run_steps.simps(1))
qed

lemma after_text:
  fixes s :: ControlState
  assumes "list_all text_byte acc" and "length acc \<le> MAX_LINE_LEN"
  defines "c \<equiv> fst (run_steps pipe_step (Comms_new s) ([Read acc] @ replicate (length acc) (Assemble True)))"
  shows "reader_stands (reader (framer c)) acc None \<and> blocked c = None"
proof -
  let ?c = "usb_rx acc (Comms_new s)"
  have "length (rx_pipe (Comms_new s)) + length (filter is_line_byte acc) \<le> RX_PIPE_CAPACITY"
    using assms(2) text_bytes [OF assms(1)]
    by (simp add: Comms_new_def MAX_LINE_LEN_def RX_PIPE_CAPACITY_def RX_BUFFER_SIZE_def)
  with usb_rx_pipe [of acc "Comms_new s"] text_bytes [OF assms(1)]
  have c: "rx_pipe ?c = acc @ []" "framer ?c = StreamEngine_new" "blocked ?c = None"
    by (simp_all add: Comms_new_def)
  have "reader_stands (reader (framer ?c)) [] None" using c reader_stands_new by simp
  from assemble_chars [OF this _ _ c(3,1)] text_bytes [OF assms(1)] assms(2)
  show ?thesis by (simp add: c_def del: run_steps.simps)
qed

section \<open>Properties\<close>

text \<open>
  C23: the receive path loses and reorders nothing.  From power-on, under any interleaving of reads,
  assembler turns and consumer turns in which no read overruns the receive pipe and none carries a
  reset byte, the bytes read are those framed followed by those still in the pipe, and the lines the
  consumer took, those in the queue and the one being handed over are, in order, exactly the lines
  of the framed bytes that are not over-long (those are answered with an error); real-time commands
  anywhere between change nothing of it.
\<close>

theorem pipeline_delivers:
  assumes "run_fits (Comms_new s) sts"
  shows "let (c, taken) = run_steps pipe_step (Comms_new s) sts
    in \<exists>framed. bytes_read sts = framed @ rx_pipe c \<and> lines_of framed = taken @ line_queue c @ waiting c"
proof -
  have "delivers (Comms_new s) [] []"
    by (rule delivers_fresh) (simp_all add: Comms_new_def)
  from delivers_run [OF this assms] show ?thesis by (auto simp: delivers_def case_prod_beta Let_def)
qed

theorem pipeline_delivers_witness:
  "let (c, taken) = run_steps pipe_step (Comms_new CS_Normal)
         [Read [71, 48, 0x3F, 10, 71], Assemble True, Assemble True, Assemble True, Assemble True, Take]
    in \<exists>framed. bytes_read [Read [71, 48, 0x3F, 10, 71], Assemble True, Assemble True, Assemble True, Assemble True, Take] =
         framed @ rx_pipe c \<and> lines_of framed = taken @ line_queue c @ waiting c"
  by (rule pipeline_delivers) code_simp

text \<open>
  a reset that finds the assembler waiting for a byte, and is noticed before the next byte,
  separates the streams: whatever was framed, queued or buffered before, the lines delivered
  afterwards are exactly those of the bytes read after it.
\<close>

theorem reset_separates_streams:
  assumes "blocked c = None" and "run_fits (line_assembler p (rx_byte 0x18 c)) sts"
  shows "let (d, taken) = run_steps pipe_step (line_assembler p (rx_byte 0x18 c)) sts
    in \<exists>framed. bytes_read sts = framed @ rx_pipe d \<and> lines_of framed = taken @ line_queue d @ waiting d"
  using delivers_run [OF reset_then_assembler [OF assms(1)] assms(2)]
  by (auto simp: delivers_def case_prod_beta Let_def)

definition half_framed :: Comms
  where "half_framed = fst (run_steps pipe_step (Comms_new CS_Normal) [Read [71, 49], Assemble True, Assemble True])"

theorem reset_separates_streams_witness:
  "let (d, taken) = run_steps pipe_step (line_assembler True (rx_byte 0x18 half_framed)) [Read [71, 10], Assemble True]
    in \<exists>framed. bytes_read [Read [71, 10], Assemble True] = framed @ rx_pipe d \<and>
      lines_of framed = taken @ line_queue d @ waiting d"
  by (rule reset_separates_streams) code_simp+

text \<open>
  C26: a line that outlives the reset.  If the assembler is waiting for room in the line queue when
  a soft reset is dispatched, the reset empties the queue and the pipe but not the assembler's
  hands: on its next turn the assembler puts the line framed before the reset into the flushed
  queue, and the consumer takes it.
\<close>

theorem blocked_line_survives_reset:
  assumes "blocked c = Some (SendLine l)"
  shows "line_queue (rx_byte 0x18 c) = [] \<and> rx_pipe (rx_byte 0x18 c) = [] \<and>
    snd (run_steps pipe_step c [Read [0x18], Assemble p, Take]) = [l]"
  using assms
  by (simp add: rx_reset usb_rx_def line_assembler_def LINE_QUEUE_DEPTH_def)

text \<open>Such a state is reached: five short lines arrive and the consumer is busy.\<close>

definition backpressured :: Comms
  where "backpressured = fst (run_steps pipe_step (Comms_new CS_Normal)
    (Read (concat (replicate 5 [71, 48, 10])) # replicate 19 (Assemble True)))"

theorem blocked_line_survives_reset_witness:
  "line_queue (rx_byte 0x18 backpressured) = [] \<and> rx_pipe (rx_byte 0x18 backpressured) = [] \<and>
    snd (run_steps pipe_step backpressured [Read [0x18], Assemble False, Take]) = [[71, 48]]"
  by (rule blocked_line_survives_reset) code_simp

text \<open>
  two lines become one.  If the unfinished text of a line has been framed, and one read brings
  a soft reset and the first line of the new stream, an assembler whose \<^verbatim>\<open>select\<close> returns the ready
  byte rather than the ready reset delivers one line: the old text followed by the new.
\<close>

theorem reset_can_join_lines:
  assumes "list_all text_byte old" and "list_all text_byte new"
    and "length old + length new \<le> MAX_LINE_LEN"
  shows "snd (run_steps pipe_step
      (fst (run_steps pipe_step (Comms_new s) ([Read old] @ replicate (length old) (Assemble True))))
      ([Read (0x18 # new @ [LF])] @ replicate (length new + 2) (Assemble True) @ [Take])) = [old @ new]"
  using after_text [OF assms(1), of s] assms(2,3) by (intro joined_line) auto

theorem reset_can_join_lines_witness:
  "snd (run_steps pipe_step
      (fst (run_steps pipe_step (Comms_new CS_Normal) ([Read [71, 49]] @ replicate (length [71 :: u8, 49]) (Assemble True))))
      ([Read (0x18 # [71, 48] @ [LF])] @ replicate (length [71 :: u8, 48] + 2) (Assemble True) @ [Take])) =
    [[71, 49] @ [71, 48]]"
  by (rule reset_can_join_lines) code_simp+

end
