(* ===== verification/Tmc2209.thy ===== *)
theory Tmc2209
  imports Prelude
begin

text \<open>
  The stepper drivers of \<^verbatim>\<open>crates/firmware-core/src/drivers\<close>: the UART datagram codec
  (\<^verbatim>\<open>tmc2209.rs\<close>), the register builders (\<^verbatim>\<open>tmc2209/registers.rs\<close>), the manager's start-up
  sequence with its write verification (\<^verbatim>\<open>tmc2209/manager.rs\<close>), and the probe outcomes with their
  snapshot codes (\<^verbatim>\<open>protocol/diag_types.rs\<close>).  The \<^verbatim>\<open>TmcBus\<close> trait is a pair of functions \<^verbatim>\<open>rd\<close> and
  \<^verbatim>\<open>wr\<close> on a bus state; the float \<^verbatim>\<open>cs_for_current\<close> is a parameter \<^verbatim>\<open>cs_for\<close>.
\<close>

section \<open>Datagrams\<close>

definition SYNC :: u8
  where "SYNC = 0x05"

definition MASTER_ADDR :: u8
  where "MASTER_ADDR = 0xFF"

definition WRITE_FLAG :: u8
  where "WRITE_FLAG = 0x80"

definition REG_ADDR_MASK :: u8
  where "REG_ADDR_MASK = 0x7F"

definition WRITE_DATAGRAM_LEN :: nat
  where "WRITE_DATAGRAM_LEN = 8"

definition READ_REQUEST_LEN :: nat
  where "READ_REQUEST_LEN = 4"

definition READ_REPLY_LEN :: nat
  where "READ_REPLY_LEN = 8"

datatype TmcError =
  T_BadLength | T_BadSync | T_BadAddress | T_RegisterMismatch | T_BadCrc | T_Timeout | T_Io

text \<open>One bit of the inner loop: \<^verbatim>\<open>b\<close> is the bit of the byte that meets the top bit of the register.\<close>

definition crc8_bit :: "u8 \<Rightarrow> bool \<Rightarrow> u8"
  where "crc8_bit crc b = (if bit crc 7 \<noteq> b then push_bit 1 crc XOR 0x07 else push_bit 1 crc)"

definition crc8_byte :: "u8 \<Rightarrow> u8 \<Rightarrow> u8"
  where "crc8_byte crc byte = foldl (\<lambda>c i. crc8_bit c (bit byte i)) crc [0..<8]"

definition crc8_atm :: "u8 list \<Rightarrow> u8"
  where "crc8_atm bytes = foldl crc8_byte 0 bytes"

definition encode_write :: "u8 \<Rightarrow> u8 \<Rightarrow> u32 \<Rightarrow> u8 list"
  where "encode_write node reg val =
    (let frame = [SYNC, node, (reg AND REG_ADDR_MASK) OR WRITE_FLAG, ucast (drop_bit 24 val),
                  ucast (drop_bit 16 val), ucast (drop_bit 8 val), ucast val]
     in frame @ [crc8_atm frame])"

definition encode_read_request :: "u8 \<Rightarrow> u8 \<Rightarrow> u8 list"
  where "encode_read_request node reg =
    (let frame = [SYNC, node, reg AND REG_ADDR_MASK] in frame @ [crc8_atm frame])"

definition decode_read_reply :: "u8 list \<Rightarrow> u8 \<Rightarrow> TmcError + u32"
  where "decode_read_reply reply expected_reg =
    (if length reply \<noteq> READ_REPLY_LEN then Inl T_BadLength
     else if reply ! 0 \<noteq> SYNC then Inl T_BadSync
     else if reply ! 1 \<noteq> MASTER_ADDR then Inl T_BadAddress
     else if reply ! 2 \<noteq> expected_reg AND REG_ADDR_MASK then Inl T_RegisterMismatch
     else if reply ! (READ_REPLY_LEN - 1) \<noteq> crc8_atm (take (READ_REPLY_LEN - 1) reply) then Inl T_BadCrc
     else Inr (push_bit 24 (ucast (reply ! 3)) OR push_bit 16 (ucast (reply ! 4)) OR
       push_bit 8 (ucast (reply ! 5)) OR ucast (reply ! 6)))"

section \<open>Registers\<close>

definition GCONF :: u8 where "GCONF = 0x00"
definition GSTAT :: u8 where "GSTAT = 0x01"
definition IFCNT :: u8 where "IFCNT = 0x02"
definition SLAVECONF :: u8 where "SLAVECONF = 0x03"
definition IOIN :: u8 where "IOIN = 0x06"
definition IHOLD_IRUN :: u8 where "IHOLD_IRUN = 0x10"
definition TPOWERDOWN :: u8 where "TPOWERDOWN = 0x11"
definition TPWMTHRS :: u8 where "TPWMTHRS = 0x13"
definition CHOPCONF :: u8 where "CHOPCONF = 0x6C"
definition DRV_STATUS :: u8 where "DRV_STATUS = 0x6F"
definition PWMCONF :: u8 where "PWMCONF = 0x70"

definition register_name :: "u8 \<Rightarrow> string option"
  where "register_name reg =
    (if reg = GCONF then Some ''GCONF''
     else if reg = GSTAT then Some ''GSTAT''
     else if reg = IFCNT then Some ''IFCNT''
     else if reg = SLAVECONF then Some ''SLAVECONF''
     else if reg = IOIN then Some ''IOIN''
     else if reg = IHOLD_IRUN then Some ''IHOLD_IRUN''
     else if reg = TPOWERDOWN then Some ''TPOWERDOWN''
     else if reg = TPWMTHRS then Some ''TPWMTHRS''
     else if reg = CHOPCONF then Some ''CHOPCONF''
     else if reg = DRV_STATUS then Some ''DRV_STATUS''
     else if reg = PWMCONF then Some ''PWMCONF''
     else None)"

definition gconf_uart_control :: u32
  where "gconf_uart_control = push_bit 6 1 OR push_bit 7 1 OR push_bit 8 1"

definition GSTAT_CLEAR_ALL :: u32
  where "GSTAT_CLEAR_ALL = 7"

definition slaveconf :: "u8 \<Rightarrow> u32"
  where "slaveconf send_delay = push_bit 8 (ucast send_delay AND 0x0F)"

definition ihold_irun :: "u8 \<Rightarrow> u8 \<Rightarrow> u8 \<Rightarrow> u32"
  where "ihold_irun irun_cs ihold_cs ihold_delay =
    (ucast ihold_cs AND 0x1F) OR push_bit 8 (ucast irun_cs AND 0x1F) OR push_bit 16 (ucast ihold_delay AND 0x0F)"

definition CHOPCONF_VSENSE :: u32
  where "CHOPCONF_VSENSE = push_bit 17 1"

definition CHOPCONF_INTPOL :: u32
  where "CHOPCONF_INTPOL = push_bit 28 1"

definition mres_code :: "u16 \<Rightarrow> u8 option"
  where "mres_code steps =
    (if steps = 256 then Some 0 else if steps = 128 then Some 1 else if steps = 64 then Some 2
     else if steps = 32 then Some 3 else if steps = 16 then Some 4 else if steps = 8 then Some 5
     else if steps = 4 then Some 6 else if steps = 2 then Some 7 else if steps = 1 then Some 8
     else None)"

definition chopconf :: "u16 \<Rightarrow> bool \<Rightarrow> u32 option"
  where "chopconf steps vsense =
    (case mres_code steps of
       None \<Rightarrow> None
     | Some mres \<Rightarrow>
         let base = 3 OR push_bit 4 5 OR push_bit 7 0 OR push_bit 15 2 OR CHOPCONF_INTPOL;
             val = base OR push_bit 24 (ucast mres AND 0x0F)
         in Some (if vsense then val OR CHOPCONF_VSENSE else val))"

definition pwmconf_stealthchop :: u32
  where "pwmconf_stealthchop = 0xC10D0024 OR push_bit 18 1 OR push_bit 19 1"

definition CS_MIN_RECOMMENDED :: u8
  where "CS_MIN_RECOMMENDED = 16"

record CurrentScaling =
  cs :: u8
  vsense :: bool

definition rms_current_to_cs :: "(u16 \<Rightarrow> 'r \<Rightarrow> bool \<Rightarrow> u8) \<Rightarrow> u16 \<Rightarrow> 'r \<Rightarrow> CurrentScaling"
  where "rms_current_to_cs cs_for rms_ma r_sense =
    (let low = cs_for rms_ma r_sense False in
     if CS_MIN_RECOMMENDED \<le> low then \<lparr>cs = low, vsense = False\<rparr>
     else \<lparr>cs = cs_for rms_ma r_sense True, vsense = True\<rparr>)"

definition EXPECTED_VERSION :: u8
  where "EXPECTED_VERSION = 0x21"

definition ioin_version :: "u32 \<Rightarrow> u8"
  where "ioin_version raw = ucast (drop_bit 24 raw)"

definition ifcnt :: "u32 \<Rightarrow> u8"
  where "ifcnt raw = ucast raw"

record DrvStatus =
  raw_status :: u32

definition overtemp_prewarning :: "DrvStatus \<Rightarrow> bool"
  where "overtemp_prewarning s \<longleftrightarrow> raw_status s AND 1 \<noteq> 0"

definition overtemp_shutdown :: "DrvStatus \<Rightarrow> bool"
  where "overtemp_shutdown s \<longleftrightarrow> raw_status s AND push_bit 1 1 \<noteq> 0"

definition short_to_ground :: "DrvStatus \<Rightarrow> bool"
  where "short_to_ground s \<longleftrightarrow> raw_status s AND (push_bit 2 1 OR push_bit 3 1) \<noteq> 0"

definition short_to_supply :: "DrvStatus \<Rightarrow> bool"
  where "short_to_supply s \<longleftrightarrow> raw_status s AND (push_bit 4 1 OR push_bit 5 1) \<noteq> 0"

definition open_load :: "DrvStatus \<Rightarrow> bool"
  where "open_load s \<longleftrightarrow> raw_status s AND (push_bit 6 1 OR push_bit 7 1) \<noteq> 0"

definition standstill :: "DrvStatus \<Rightarrow> bool"
  where "standstill s \<longleftrightarrow> raw_status s AND push_bit 31 1 \<noteq> 0"

definition cs_actual :: "DrvStatus \<Rightarrow> u8"
  where "cs_actual s = ucast (drop_bit 16 (raw_status s) AND 0x1F)"

definition has_fault :: "DrvStatus \<Rightarrow> bool"
  where "has_fault s \<longleftrightarrow> overtemp_shutdown s \<or> short_to_ground s \<or> short_to_supply s"

section \<open>The manager\<close>

record AxisConfig =
  ac_node :: u8
  run_current_ma :: u16
  hold_current_ma :: u16
  microsteps :: u16

record 'r TmcConfig =
  axes :: "AxisConfig list"
  r_sense_ohms :: 'r
  ihold_delay :: u8
  tpowerdown :: u8
  tpwmthrs :: u32
  send_delay :: u8

datatype TmcManagerError =
  Bus TmcError | WriteVerification u8 u8 u8 | InvalidMicrosteps u8 u16

record AxisReport =
  ar_node :: u8
  present :: bool
  ar_version :: u8
  current :: CurrentScaling

text \<open>The bus operations, with \<^verbatim>\<open>map_err(Into::into)\<close> of the question mark.\<close>

type_synonym 'b rd_reg = "u8 \<Rightarrow> u8 \<Rightarrow> 'b \<Rightarrow> 'b \<times> (TmcError + u32)"
type_synonym 'b wr_reg = "u8 \<Rightarrow> u8 \<Rightarrow> u32 \<Rightarrow> 'b \<Rightarrow> 'b \<times> (TmcError + unit)"

fun lift_bus :: "'b \<times> (TmcError + 'a) \<Rightarrow> ('b, TmcManagerError, 'a) outcome"
  where
    "lift_bus (b, Inl e) = (b, Inl (Bus e))"
  | "lift_bus (b, Inr x) = (b, Inr x)"

fun write_table :: "'b wr_reg \<Rightarrow> u8 \<Rightarrow> (u8 \<times> u32) list \<Rightarrow> 'b \<Rightarrow> ('b, TmcManagerError, unit) outcome"
  where
    "write_table wr node [] b = (b, Inr ())"
  | "write_table wr node ((reg, val) # ws) b =
      and_then (lift_bus (wr node reg val b)) (\<lambda>_. write_table wr node ws)"

definition config_writes :: "'r TmcConfig \<Rightarrow> u32 \<Rightarrow> CurrentScaling \<Rightarrow> u8 \<Rightarrow> (u8 \<times> u32) list"
  where "config_writes cfg chop cur hold_cs =
    [(GSTAT, GSTAT_CLEAR_ALL), (SLAVECONF, slaveconf (send_delay cfg)), (GCONF, gconf_uart_control),
     (CHOPCONF, chop), (IHOLD_IRUN, ihold_irun (cs cur) hold_cs (ihold_delay cfg)),
     (TPOWERDOWN, ucast (tpowerdown cfg)), (TPWMTHRS, tpwmthrs cfg), (PWMCONF, pwmconf_stealthchop)]"

definition write_config ::
    "(u16 \<Rightarrow> 'r \<Rightarrow> bool \<Rightarrow> u8) \<Rightarrow> 'b wr_reg \<Rightarrow> 'r TmcConfig \<Rightarrow> nat \<Rightarrow> CurrentScaling \<Rightarrow> 'b \<Rightarrow>
     ('b, TmcManagerError, u8) outcome"
  where "write_config cs_for wr cfg axis cur b =
    (let config = axes cfg ! axis; node = ac_node config in
     case chopconf (microsteps config) (vsense cur) of
       None \<Rightarrow> (b, Inl (InvalidMicrosteps node (microsteps config)))
     | Some chop \<Rightarrow>
         let hold_cs = cs_for (hold_current_ma config) (r_sense_ohms cfg) (vsense cur);
             ws = config_writes cfg chop cur hold_cs
         in and_then (write_table wr node ws b) (\<lambda>_ b. (b, Inr (of_nat (length ws)))))"

definition init_axis ::
    "(u16 \<Rightarrow> 'r \<Rightarrow> bool \<Rightarrow> u8) \<Rightarrow> 'b rd_reg \<Rightarrow> 'b wr_reg \<Rightarrow> 'r TmcConfig \<Rightarrow> nat \<Rightarrow> 'b \<Rightarrow>
     ('b, TmcManagerError, AxisReport) outcome"
  where "init_axis cs_for rd wr cfg axis b =
    (let config = axes cfg ! axis;
         node = ac_node config;
         cur = rms_current_to_cs cs_for (run_current_ma config) (r_sense_ohms cfg);
         absent = (\<lambda>v. \<lparr>ar_node = node, present = False, ar_version = v, current = cur\<rparr>)
     in case rd node IOIN b of
          (b, Inl e) \<Rightarrow> if e = T_Timeout then (b, Inr (absent 0)) else (b, Inl (Bus e))
        | (b, Inr raw) \<Rightarrow>
            let version = ioin_version raw in
            if version \<noteq> EXPECTED_VERSION then (b, Inr (absent version))
            else
              and_then (lift_bus (rd node IFCNT b)) (\<lambda>before b.
              and_then (write_config cs_for wr cfg axis cur b) (\<lambda>writes b.
              and_then (lift_bus (rd node IFCNT b)) (\<lambda>after b.
              let delta = ifcnt after - ifcnt before in
              if delta \<noteq> writes then (b, Inl (WriteVerification node writes delta))
              else (b, Inr \<lparr>ar_node = node, present = True, ar_version = version, current = cur\<rparr>)))))"

fun init_from ::
    "(u16 \<Rightarrow> 'r \<Rightarrow> bool \<Rightarrow> u8) \<Rightarrow> 'b rd_reg \<Rightarrow> 'b wr_reg \<Rightarrow> 'r TmcConfig \<Rightarrow> nat list \<Rightarrow> 'b \<Rightarrow>
     'b \<times> (TmcManagerError + AxisReport) list"
  where
    "init_from cs_for rd wr cfg [] b = (b, [])"
  | "init_from cs_for rd wr cfg (axis # rest) b =
      (let (b, r) = init_axis cs_for rd wr cfg axis b; (b, rs) = init_from cs_for rd wr cfg rest b
       in (b, r # rs))"

definition init_all ::
    "(u16 \<Rightarrow> 'r \<Rightarrow> bool \<Rightarrow> u8) \<Rightarrow> 'b rd_reg \<Rightarrow> 'b wr_reg \<Rightarrow> 'r TmcConfig \<Rightarrow> 'b \<Rightarrow>
     'b \<times> (TmcManagerError + AxisReport) list"
  where "init_all cs_for rd wr cfg = init_from cs_for rd wr cfg [0..<4]"

definition set_current ::
    "(u16 \<Rightarrow> 'r \<Rightarrow> bool \<Rightarrow> u8) \<Rightarrow> 'b wr_reg \<Rightarrow> 'r TmcConfig \<Rightarrow> nat \<Rightarrow> u16 \<Rightarrow> u16 \<Rightarrow> 'b \<Rightarrow>
     ('b, TmcManagerError, CurrentScaling) outcome"
  where "set_current cs_for wr cfg axis run_ma hold_ma b =
    (let config = axes cfg ! axis;
         node = ac_node config;
         run = rms_current_to_cs cs_for run_ma (r_sense_ohms cfg);
         hold_cs = cs_for hold_ma (r_sense_ohms cfg) (vsense run)
     in case chopconf (microsteps config) (vsense run) of
          None \<Rightarrow> (b, Inl (InvalidMicrosteps node (microsteps config)))
        | Some chop \<Rightarrow>
            and_then (lift_bus (wr node CHOPCONF chop b)) (\<lambda>_ b.
            and_then (lift_bus (wr node IHOLD_IRUN (ihold_irun (cs run) hold_cs (ihold_delay cfg)) b)) (\<lambda>_ b.
            (b, Inr run))))"

definition read_status :: "'b rd_reg \<Rightarrow> 'r TmcConfig \<Rightarrow> nat \<Rightarrow> 'b \<Rightarrow> 'b \<times> (TmcError + DrvStatus)"
  where "read_status rd cfg axis b =
    (case rd (ac_node (axes cfg ! axis)) DRV_STATUS b of
       (b, Inl e) \<Rightarrow> (b, Inl e)
     | (b, Inr raw) \<Rightarrow> (b, Inr \<lparr>raw_status = raw\<rparr>))"

section \<open>Probe outcomes\<close>

datatype RxErrorKind = Rx_Overflow | Rx_Glitch | Rx_Framing | Rx_Parity

fun rx_to_code :: "RxErrorKind \<Rightarrow> u32"
  where
    "rx_to_code Rx_Overflow = 0"
  | "rx_to_code Rx_Glitch = 1"
  | "rx_to_code Rx_Framing = 2"
  | "rx_to_code Rx_Parity = 3"

definition rx_from_code :: "u32 \<Rightarrow> RxErrorKind"
  where "rx_from_code code =
    (let c = code AND 0x3 in
     if c = 0 then Rx_Overflow else if c = 1 then Rx_Glitch else if c = 2 then Rx_Framing else Rx_Parity)"

datatype TmcProbeStage =
    Responded
  | EchoTimeout
  | ReplyTimeout u8 bool
  | DecodeError
  | VersionMismatch u8
  | WriteVerify u8 u8
  | InitError
  | RespondedDespiteGlitch RxErrorKind
  | DecodeErrorGlitched RxErrorKind

fun to_bits :: "TmcProbeStage \<Rightarrow> u16"
  where
    "to_bits Responded = 0x0000"
  | "to_bits EchoTimeout = 0x0100"
  | "to_bits (ReplyTimeout fifo ready) =
      (let payload = min fifo 0x7F OR (if ready then push_bit 7 1 else 0) in 0x0200 OR ucast payload)"
  | "to_bits DecodeError = 0x0300"
  | "to_bits (VersionMismatch version) = 0x0400 OR ucast version"
  | "to_bits (WriteVerify expected actual) =
      (let payload = push_bit 4 (min expected 0x0F) OR min actual 0x0F in 0x0500 OR ucast payload)"
  | "to_bits InitError = 0x0600"
  | "to_bits (RespondedDespiteGlitch v) = 0x0700 OR ucast (rx_to_code v)"
  | "to_bits (DecodeErrorGlitched v) = 0x0800 OR ucast (rx_to_code v)"

definition from_bits :: "u16 \<Rightarrow> TmcProbeStage"
  where "from_bits bits =
    (let payload = ucast (bits AND 0xFF) :: u8; tag = drop_bit 8 bits in
     if tag = 0x01 then EchoTimeout
     else if tag = 0x02 then ReplyTimeout (payload AND 0x7F) (payload AND 0x80 \<noteq> 0)
     else if tag = 0x03 then DecodeError
     else if tag = 0x04 then VersionMismatch payload
     else if tag = 0x05 then WriteVerify (drop_bit 4 payload) (payload AND 0x0F)
     else if tag = 0x06 then InitError
     else if tag = 0x07 then RespondedDespiteGlitch (rx_from_code (ucast payload))
     else if tag = 0x08 then DecodeErrorGlitched (rx_from_code (ucast payload))
     else Responded)"

definition classify_ioin :: "TmcManagerError + AxisReport \<Rightarrow> TmcProbeStage \<Rightarrow> TmcProbeStage"
  where "classify_ioin report stage =
    (case report of
       Inr r \<Rightarrow>
         if present r
         then (case stage of RespondedDespiteGlitch v \<Rightarrow> RespondedDespiteGlitch v | _ \<Rightarrow> Responded)
         else (case stage of
                 Responded \<Rightarrow> VersionMismatch (ar_version r)
               | RespondedDespiteGlitch _ \<Rightarrow> VersionMismatch (ar_version r)
               | other \<Rightarrow> other)
     | Inl (WriteVerification _ expected actual) \<Rightarrow> WriteVerify expected actual
     | Inl (Bus _) \<Rightarrow> (case stage of Responded \<Rightarrow> InitError | other \<Rightarrow> other)
     | Inl _ \<Rightarrow> InitError)"

section \<open>The checksum detects\<close>

lemma crc8_bit_linear:
  "crc8_bit (c XOR c') (b \<noteq> b') = crc8_bit c b XOR crc8_bit c' b'"
proof -
  have "push_bit 1 (c XOR c') = push_bit 1 c XOR push_bit 1 c'" by simp
  then show ?thesis
    by (cases "bit c 7"; cases "bit c' 7"; cases b; cases b')
       (simp_all add: crc8_bit_def bit_xor_iff ac_simps)
qed

lemma crc8_byte_linear: "crc8_byte (c XOR c') (b XOR b') = crc8_byte c b XOR crc8_byte c' b'"
proof -
  have "foldl (\<lambda>c i. crc8_bit c (bit (b XOR b') i)) (c XOR c') is =
      foldl (\<lambda>c i. crc8_bit c (bit b i)) c is XOR foldl (\<lambda>c i. crc8_bit c (bit b' i)) c' is" for "is"
  proof (induction "is" arbitrary: c c')
    case (Cons i "is")
    have "crc8_bit (c XOR c') (bit (b XOR b') i) = crc8_bit c (bit b i) XOR crc8_bit c' (bit b' i)"
      using crc8_bit_linear [of c c' "bit b i" "bit b' i"] by (simp add: bit_xor_iff)
    with Cons show ?case by simp
  qed simp
  then show ?thesis by (simp add: crc8_byte_def)
qed

lemma crc8_byte_bits: "crc8_byte c byte = foldl crc8_bit c (map (bit byte) [0..<8])"
  by (simp add: crc8_byte_def foldl_map)

lemma bit_crc8_bit:
  "k < 8 \<Longrightarrow> bit (crc8_bit c b) k \<longleftrightarrow> (0 < k \<and> bit c (k - 1)) \<noteq> (bit c 7 \<noteq> b \<and> k < 3)"
proof -
  have seven: "bit (0x07 :: u8) k \<longleftrightarrow> k < 3" if "k < 8"
  proof -
    have "k \<in> {0, 1, 2, 3, 4, 5, 6, 7}" using that by auto
    then show ?thesis by auto
  qed
  have shift: "bit (push_bit 1 c) k \<longleftrightarrow> 0 < k \<and> bit c (k - 1)" if "k < 8"
    using that by (simp only: bit_push_bit_iff) auto
  show "k < 8 \<Longrightarrow> ?thesis"
    by (simp only: crc8_bit_def if_distrib [of "\<lambda>w. bit w k"] bit_xor_iff seven shift) auto
qed

lemma crc8_bit_zero: "crc8_bit c b = 0 \<Longrightarrow> c = (if b then 0x80 else 0)"
proof -
  assume z: "crc8_bit c b = 0"
  have no: "\<not> bit (crc8_bit c b) k" for k using z by simp
  have top: "bit c 7 = b" using no [of 0] bit_crc8_bit [of 0 c b] by simp
  have low: "\<not> bit c k" if "k < 7" for k
    using no [of "Suc k"] bit_crc8_bit [of "Suc k" c b] top that by simp
  show "c = (if b then 0x80 else 0)"
  proof (rule bit_word_eqI)
    fix k assume "k < LENGTH(8)"
    then have "k = 7 \<or> k \<in> {0, 1, 2, 3, 4, 5, 6}" by auto
    with low [of k] top show "bit c k = bit (if b then 0x80 else 0 :: u8) k" by auto
  qed
qed

text \<open>A state whose lowest set bit is \<^verbatim>\<open>m\<close> is at least \<^verbatim>\<open>m + 1\<close> steps from zero.\<close>

lemma crc8_low_bit:
  "bit (foldl crc8_bit 0 bs) m \<Longrightarrow> \<forall>k < m. \<not> bit (foldl crc8_bit 0 bs) k \<Longrightarrow> m < 8 \<Longrightarrow> m < length bs"
proof (induction bs arbitrary: m rule: rev_induct)
  case (snoc b bs)
  let ?c = "foldl crc8_bit 0 bs"
  show ?case
  proof (cases m)
    case (Suc n)
    with snoc.prems have z: "\<not> bit (crc8_bit ?c b) 0" by simp
    then have top: "bit ?c 7 = b" using bit_crc8_bit [of 0 ?c b] by simp
    have step: "bit (crc8_bit ?c b) (Suc k) = bit ?c k" if "Suc k < 8" for k
      using bit_crc8_bit [OF that, of ?c b] top by simp
    have "bit ?c n" "\<forall>k < n. \<not> bit ?c k"
      using snoc.prems Suc step by auto
    from snoc.IH [OF this] snoc.prems(3) Suc show ?thesis by simp
  qed simp
qed simp

lemma crc8_bits_zero: "foldl crc8_bit 0 bs = 0 \<Longrightarrow> length bs \<le> 8 \<Longrightarrow> list_all Not bs"
proof (induction bs rule: rev_induct)
  case (snoc b bs)
  then have c: "foldl crc8_bit 0 bs = (if b then 0x80 else 0)" using crc8_bit_zero by simp
  have "\<not> b"
  proof
    assume b
    have "\<not> bit (0x80 :: u8) k" if "k < 7" for k
    proof -
      have "k \<in> {0, 1, 2, 3, 4, 5, 6}" using that by auto
      then show ?thesis by auto
    qed
    with c \<open>b\<close> crc8_low_bit [of bs 7] snoc.prems(2) show False by simp
  qed
  with c snoc show ?case by simp
qed simp

lemma crc8_state_zero: "foldl crc8_bit c bs = 0 \<Longrightarrow> list_all Not bs \<Longrightarrow> c = 0"
proof (induction bs arbitrary: c)
  case (Cons b bs)
  then have "crc8_bit c False = 0" by simp
  then show ?case using crc8_bit_zero by fastforce
qed simp

lemma crc8_kernel:
  "crc8_byte c 0 = 0 \<Longrightarrow> c = 0" "crc8_byte 0 b = 0 \<Longrightarrow> b = 0"
proof -
  show "crc8_byte c 0 = 0 \<Longrightarrow> c = 0"
    using crc8_state_zero [of c "map (bit 0) [0..<8]"] by (simp add: crc8_byte_bits list_all_iff)
  assume "crc8_byte 0 b = 0"
  then have "list_all Not (map (bit b) [0..<8])"
    by (intro crc8_bits_zero) (simp_all add: crc8_byte_bits)
  then show "b = 0" by (intro bit_word_eqI) (auto simp: list_all_iff)
qed

interpretation crc8: byte_checksum crc8_byte
proof unfold_locales
  fix s s' b b' :: u8
  show "crc8_byte s b = crc8_byte s' b \<Longrightarrow> s = s'"
  proof -
    assume "crc8_byte s b = crc8_byte s' b"
    with crc8_byte_linear [of s s' b b] have "crc8_byte (s XOR s') 0 = 0" by simp
    then have "s XOR s' = s' XOR s'" using crc8_kernel(1) [of "s XOR s'"] by simp
    then show "s = s'" by (simp only: xor_right_cancel)
  qed
  show "crc8_byte s b = crc8_byte s b' \<Longrightarrow> b = b'"
  proof -
    assume "crc8_byte s b = crc8_byte s b'"
    with crc8_byte_linear [of s s b b'] have "crc8_byte 0 (b XOR b') = 0" by simp
    then have "b XOR b' = b' XOR b'" using crc8_kernel(2) [of "b XOR b'"] by simp
    then show "b = b'" by (simp only: xor_right_cancel)
  qed
qed

section \<open>Reading a reply\<close>

text \<open>The reply a driver sends for a register holding \<^verbatim>\<open>val\<close>.\<close>

definition reply_frame :: "u8 \<Rightarrow> u32 \<Rightarrow> u8 list"
  where "reply_frame reg val =
    (let body = [SYNC, MASTER_ADDR, reg AND REG_ADDR_MASK, ucast (drop_bit 24 val),
                 ucast (drop_bit 16 val), ucast (drop_bit 8 val), ucast val]
     in body @ [crc8_atm body])"

lemma big_endian:
  "push_bit 24 (ucast (ucast (drop_bit 24 val) :: u8)) OR push_bit 16 (ucast (ucast (drop_bit 16 val) :: u8)) OR
   push_bit 8 (ucast (ucast (drop_bit 8 val) :: u8)) OR ucast (ucast val :: u8) = (val :: u32)"
proof (rule bit_word_eqI)
  fix n assume "n < LENGTH(32)"
  then have "n < 8 \<or> 8 \<le> n \<and> n < 16 \<or> 16 \<le> n \<and> n < 24 \<or> 24 \<le> n \<and> n < 32" by auto
  then show "bit (push_bit 24 (ucast (ucast (drop_bit 24 val) :: u8)) OR
      push_bit 16 (ucast (ucast (drop_bit 16 val) :: u8)) OR
      push_bit 8 (ucast (ucast (drop_bit 8 val) :: u8)) OR ucast (ucast val :: u8) :: u32) n = bit val n"
    by (elim disjE) (auto simp: bit_or_iff bit_push_bit_iff bit_drop_bit_eq bit_ucast_iff)
qed

lemma decode_reply_frame: "decode_read_reply (reply_frame reg val) reg = Inr val"
  using big_endian [of val]
  by (simp add: decode_read_reply_def reply_frame_def READ_REPLY_LEN_def Let_def numeral_eq_Suc)

lemma crc8_update:
  assumes "i < length bs" and "b \<noteq> bs ! i"
  shows "crc8_atm (bs[i := b]) \<noteq> crc8_atm bs"
proof
  assume "crc8_atm (bs[i := b]) = crc8_atm bs"
  then have "bs[i := b] = bs" using crc8.run_detects_update [OF assms(1), of 0 b] by (auto simp: crc8_atm_def)
  then have "bs[i := b] ! i = bs ! i" by simp
  with assms show False by simp
qed

lemma decode_ok_crc:
  assumes "decode_read_reply reply reg = Inr val"
  shows "length reply = 8 \<and> reply ! 0 = SYNC \<and> reply ! 1 = MASTER_ADDR \<and> reply ! 2 = reg AND REG_ADDR_MASK \<and>
    reply ! 7 = crc8_atm (take 7 reply)"
  using assms by (auto simp: decode_read_reply_def READ_REPLY_LEN_def split: if_splits)

lemma corrupt_reply:
  assumes len: "length reply = 8" and crc: "reply ! 7 = crc8_atm (take 7 reply)"
    and i: "i < 8" and b: "b \<noteq> reply ! i"
  shows "\<not> (reply[i := b] ! 7 = crc8_atm (take 7 (reply[i := b])))"
proof (cases "i = 7")
  case True
  with assms show ?thesis by simp
next
  case False
  with i have "i < 7" by simp
  then have "take 7 (reply[i := b]) = (take 7 reply)[i := b]" by (simp add: take_update_swap)
  moreover have "crc8_atm ((take 7 reply)[i := b]) \<noteq> crc8_atm (take 7 reply)"
    using \<open>i < 7\<close> len b by (intro crc8_update) simp_all
  ultimately show ?thesis using \<open>i < 7\<close> crc by auto
qed

section \<open>Start-up with write verification\<close>

text \<open>How many of the writes \<^verbatim>\<open>ws\<close> the driver takes, starting in bus state \<^verbatim>\<open>b\<close>.\<close>

fun taken :: "'b wr_reg \<Rightarrow> ('b \<Rightarrow> bool) \<Rightarrow> u8 \<Rightarrow> (u8 \<times> u32) list \<Rightarrow> 'b \<Rightarrow> nat"
  where
    "taken wr takes node [] b = 0"
  | "taken wr takes node ((reg, val) # ws) b =
      (if takes b then 1 else 0) + taken wr takes node ws (fst (wr node reg val b))"

lemma taken_le: "taken wr takes node ws b \<le> length ws"
proof (induction ws arbitrary: b)
  case (Cons w ws)
  then show ?case by (cases w) (simp add: le_SucI)
qed simp

lemma write_table_counts:
  assumes "\<And>r v b. snd (wr node r v b) = Inr ()"
    and "\<And>r v b. cnt (fst (wr node r v b)) = cnt b + (if takes b then 1 else 0)"
  shows "snd (write_table wr node ws b) = Inr () \<and>
    cnt (fst (write_table wr node ws b)) = cnt b + (of_nat (taken wr takes node ws b) :: u8)"
proof (induction ws arbitrary: b)
  case (Cons w ws)
  obtain r v where w: "w = (r, v)" by (cases w)
  have step: "wr node r v b = (fst (wr node r v b), Inr ())" using assms(1) [of r v b] by (simp add: prod_eq_iff)
  have "write_table wr node (w # ws) b = write_table wr node ws (fst (wr node r v b))"
    by (simp add: w) (subst step, simp)
  with Cons.IH [of "fst (wr node r v b)"] assms(2) [of r v b] show ?case by (simp add: w ac_simps)
qed simp

section \<open>Snapshot codes\<close>

lemma low_bits_id: "p \<le> 2 ^ n - 1 \<Longrightarrow> n < 8 \<Longrightarrow> p AND mask n = (p :: u8)"
proof -
  assume p: "p \<le> 2 ^ n - 1" and n: "n < 8"
  have "(2 ^ n - 1 :: u8) = mask n" by (simp add: mask_eq_exp_minus_1)
  moreover have "uint (mask n :: u8) < 2 ^ n" using and_mask_lt_2p [of "- 1" n] by simp
  ultimately have "uint p < 2 ^ n" using p by (simp add: word_le_def)
  then show ?thesis by (simp add: mask_eq_iff)
qed

lemma tag_and_payload:
  "ucast ((push_bit 8 t OR ucast p) AND 0xFF :: u16) = (p :: u8)"
  "t < 256 \<Longrightarrow> drop_bit 8 (push_bit 8 t OR ucast p :: u16) = t"
proof -
  have m: "(0xFF :: u16) = mask 8" by (simp add: mask_eq_exp_minus_1)
  show "ucast ((push_bit 8 t OR ucast p) AND 0xFF :: u16) = p"
    unfolding m by (intro bit_word_eqI) (auto simp: bit_simps)
  assume "t < 256"
  then have t: "t AND mask 8 = t" by (simp add: mask_eq_iff word_less_def)
  show "drop_bit 8 (push_bit 8 t OR ucast p :: u16) = t"
  proof (rule bit_word_eqI)
    fix n :: nat assume n: "n < LENGTH(16)"
    have "bit t n \<Longrightarrow> n < 8" using t by (metis bit_and_iff bit_mask_iff)
    with n show "bit (drop_bit 8 (push_bit 8 t OR ucast p)) n = bit t n" by (auto simp: bit_simps dest: bit_imp_le_length)
  qed
qed

lemma flagged_count: "p \<le> 0x7F \<Longrightarrow> (p OR (if r then push_bit 7 1 else 0)) AND 0x7F = (p :: u8)"
  "p \<le> 0x7F \<Longrightarrow> (p OR (if r then push_bit 7 1 else 0)) AND 0x80 \<noteq> 0 \<longleftrightarrow> r"
proof -
  assume "p \<le> 0x7F"
  then have "p AND mask 7 = p" using low_bits_id [of p 7] by simp
  then have b: "bit p n \<Longrightarrow> n < 7" for n by (metis bit_and_iff bit_mask_iff)
  have m: "(0x7F :: u8) = mask 7" "(0x80 :: u8) = push_bit 7 1" by (simp_all add: mask_eq_exp_minus_1)
  have e: "bit (0x80 :: u8) n \<longleftrightarrow> n = 7" for n
    unfolding m(2) by (simp only: bit_push_bit_iff bit_1_iff) auto
  have f: "bit (if r then push_bit 7 1 else 0 :: u8) n \<longleftrightarrow> r \<and> n = 7" for n
    unfolding m(2) [symmetric] by (simp only: if_distrib [of "\<lambda>w. bit w n"] e bit_0_eq) simp
  show "(p OR (if r then push_bit 7 1 else 0)) AND 0x7F = p"
    unfolding m(1) by (intro bit_word_eqI, simp only: bit_and_iff bit_or_iff bit_mask_iff f) (use b in auto)
  have "(p OR (if r then push_bit 7 1 else 0)) AND 0x80 = (if r then 0x80 else 0)"
    by (intro bit_word_eqI, simp only: bit_and_iff bit_or_iff f if_distrib [of "\<lambda>w. bit w _"] e bit_0_eq)
       (use b in auto)
  then show "(p OR (if r then push_bit 7 1 else 0)) AND 0x80 \<noteq> 0 \<longleftrightarrow> r" by simp
qed

lemma nibble_pair: "p \<le> 0x0F \<Longrightarrow> q \<le> 0x0F \<Longrightarrow> drop_bit 4 (push_bit 4 p OR q) = (p :: u8)"
  "p \<le> 0x0F \<Longrightarrow> q \<le> 0x0F \<Longrightarrow> (push_bit 4 p OR q) AND 0x0F = q"
proof -
  assume "p \<le> 0x0F" "q \<le> 0x0F"
  then have "p AND mask 4 = p" "q AND mask 4 = q"
    using low_bits_id [of p 4] low_bits_id [of q 4] by simp_all
  then have b: "bit p n \<Longrightarrow> n < 4" "bit q n \<Longrightarrow> n < 4" for n by (metis bit_and_iff bit_mask_iff)+
  then show "drop_bit 4 (push_bit 4 p OR q) = p"
    by (intro bit_word_eqI) (fastforce simp: bit_simps)
  have m: "(0x0F :: u8) = mask 4" by (simp add: mask_eq_exp_minus_1)
  from b show "(push_bit 4 p OR q) AND 0x0F = q"
    unfolding m by (intro bit_word_eqI) (fastforce simp: bit_simps)
qed

lemma rx_code_read_back: "rx_from_code (rx_to_code v) = v" "rx_from_code (ucast (ucast (rx_to_code v) :: u8)) = v"
  by (cases v; simp add: rx_from_code_def)+

text \<open>Unpacking splits a code into its tag and its payload.\<close>

lemma from_bits_tagged:
  "t < 256 \<Longrightarrow> from_bits (push_bit 8 t OR ucast payload) =
    (if t = 1 then EchoTimeout
     else if t = 2 then ReplyTimeout (payload AND 0x7F) (payload AND 0x80 \<noteq> 0)
     else if t = 3 then DecodeError
     else if t = 4 then VersionMismatch payload
     else if t = 5 then WriteVerify (drop_bit 4 payload) (payload AND 0x0F)
     else if t = 6 then InitError
     else if t = 7 then RespondedDespiteGlitch (rx_from_code (ucast payload))
     else if t = 8 then DecodeErrorGlitched (rx_from_code (ucast payload))
     else Responded)"
  unfolding from_bits_def tag_and_payload(1) Let_def by (simp only: tag_and_payload(2))

section \<open>Properties\<close>

text \<open>
  replies are read exactly and guarded by the checksum.  The reply of a driver decodes to the
  register's value; and changing any single byte of any reply that decodes, to any other value,
  makes decoding fail.
\<close>

theorem tmc_reply_guarded:
  assumes "decode_read_reply reply reg = Inr val" and "i < READ_REPLY_LEN" and "b \<noteq> reply ! i"
  shows "decode_read_reply (reply_frame reg v) reg = Inr v \<and>
    (\<exists>e. decode_read_reply (reply[i := b]) reg = Inl e)"
proof
  note ok = decode_ok_crc [OF assms(1)]
  have "i < 8" using assms(2) by (simp add: READ_REPLY_LEN_def)
  with ok assms(3) have bad: "\<not> (reply[i := b] ! 7 = crc8_atm (take 7 (reply[i := b])))"
    by (intro corrupt_reply) auto
  show "\<exists>e. decode_read_reply (reply[i := b]) reg = Inl e"
  proof (cases "decode_read_reply (reply[i := b]) reg")
    case (Inr x)
    with decode_ok_crc [OF Inr] bad show ?thesis by blast
  qed blast
qed (rule decode_reply_frame)

theorem tmc_reply_guarded_witness:
  "decode_read_reply (reply_frame 6 0x21000041) 6 = Inr 0x21000041 \<and>
    (\<exists>e. decode_read_reply ((reply_frame 6 0x21000040)[3 := 0x20]) 6 = Inl e)"
  by (rule tmc_reply_guarded [OF decode_reply_frame [of 6 "0x21000040"]])
     (simp_all add: READ_REPLY_LEN_def reply_frame_def Let_def)

text \<open>
  C28: start-up reports a driver configured exactly when it took the whole configuration.  On a bus
  whose node answers the presence read with the right version, fails no operation and counts the writes it takes in its
  8-bit counter, wherever that counter starts, initialization of an axis with a valid microstep setting succeeds if the driver took all eight
  writes and otherwise fails with the number it took.
\<close>

theorem init_verifies_every_write:
  fixes cnt :: "'b \<Rightarrow> u8"
  assumes "\<And>b. rd (ac_node (axes cfg ! axis)) IOIN b = (b, Inr raw)" and "ioin_version raw = EXPECTED_VERSION"
    and "\<And>b. rd (ac_node (axes cfg ! axis)) IFCNT b = (b, Inr (ucast (cnt b)))"
    and "\<And>r v b. snd (wr (ac_node (axes cfg ! axis)) r v b) = Inr ()"
    and "\<And>r v b. cnt (fst (wr (ac_node (axes cfg ! axis)) r v b)) = cnt b + (if takes b then 1 else 0)"
    and "chopconf (microsteps (axes cfg ! axis)) (vsense cur) = Some chop"
    and "cur = rms_current_to_cs cs_for (run_current_ma (axes cfg ! axis)) (r_sense_ohms cfg)"
    and "ws = config_writes cfg chop cur (cs_for (hold_current_ma (axes cfg ! axis)) (r_sense_ohms cfg) (vsense cur))"
  shows "let node = ac_node (axes cfg ! axis); n = taken wr takes node ws b
    in snd (init_axis cs_for rd wr cfg axis b) =
      (if n = 8 then Inr \<lparr>ar_node = node, present = True, ar_version = EXPECTED_VERSION, current = cur\<rparr>
       else Inl (WriteVerification node 8 (of_nat n)))"
proof -
  let ?node = "ac_node (axes cfg ! axis)"
  let ?n = "taken wr takes ?node ws b"
  let ?t = "write_table wr ?node ws b"
  have cnts: "snd ?t = Inr () \<and> cnt (fst ?t) = cnt b + of_nat ?n"
    by (rule write_table_counts) (rule assms(4,5))+
  then have t: "?t = (fst ?t, Inr ())" by (simp add: prod_eq_iff)
  have len: "length ws = 8" by (simp add: assms(8) config_writes_def)
  have wc: "write_config cs_for wr cfg axis cur b = (fst ?t, Inr 8)"
    unfolding write_config_def using assms(6) by (simp add: Let_def assms(8) [symmetric] len) (subst t, simp)
  have ifcnt_ucast: "ifcnt (ucast (w :: u8)) = w" for w
    unfolding ifcnt_def by (intro bit_word_eqI) (auto simp: bit_ucast_iff)
  have delta: "ifcnt (ucast (cnt (fst ?t))) - ifcnt (ucast (cnt b)) = of_nat ?n"
    using cnts by (simp add: ifcnt_ucast)
  have "(of_nat ?n :: u8) = 8 \<longleftrightarrow> ?n = 8"
  proof -
    have "?n \<le> 8" using taken_le [of wr takes ?node ws b] len by simp
    then have "?n \<in> {0, 1, 2, 3, 4, 5, 6, 7, 8}" by auto
    then show ?thesis by auto
  qed
  then show ?thesis
    using assms(1,2,3) wc delta
    by (simp add: init_axis_def Let_def assms(7) [symmetric])
qed

text \<open>A driver that loses the writes a script says it loses.\<close>

definition lossy_rd :: "(u8 \<times> bool list) rd_reg"
  where "lossy_rd node reg b = (b, Inr (if reg = IOIN then 0x21000000 else ucast (fst b)))"

definition lossy_wr :: "(u8 \<times> bool list) wr_reg"
  where "lossy_wr node reg val b =
    ((fst b + (if snd b = [] \<or> hd (snd b) then 1 else 0), tl (snd b)), Inr ())"

definition lossy_cfg :: "unit TmcConfig"
  where "lossy_cfg =
    \<lparr>axes = [\<lparr>ac_node = 0, run_current_ma = 900, hold_current_ma = 450, microsteps = 16\<rparr>], r_sense_ohms = (),
     ihold_delay = 8, tpowerdown = 20, tpwmthrs = 0, send_delay = 2\<rparr>"

lemma lossy_taken:
  "taken lossy_wr (\<lambda>b. snd b = [] \<or> hd (snd b)) 0
    (config_writes lossy_cfg chop cur hold) (254, [True, True, False]) = 7"
  by (simp add: config_writes_def lossy_wr_def)

theorem init_verifies_every_write_witness:
  "snd (init_axis (\<lambda>_ _ _. 20) lossy_rd lossy_wr lossy_cfg 0 (254, [True, True, False])) =
    Inl (WriteVerification 0 8 7)"
proof -
  let ?b = "(254, [True, True, False]) :: u8 \<times> bool list"
  let ?cur = "\<lparr>cs = 20, vsense = False\<rparr>"
  let ?node = "ac_node (axes lossy_cfg ! 0)"
  have chop: "chopconf (microsteps (axes lossy_cfg ! 0)) (vsense ?cur) = Some (the (chopconf 16 False))"
    by (simp add: lossy_cfg_def chopconf_def mres_code_def Let_def)
  have cur: "?cur = rms_current_to_cs (\<lambda>_ _ _. 20) (run_current_ma (axes lossy_cfg ! 0)) (r_sense_ohms lossy_cfg)"
    by (simp add: rms_current_to_cs_def CS_MIN_RECOMMENDED_def)
  have version: "ioin_version 0x21000000 = EXPECTED_VERSION" by (simp add: ioin_version_def EXPECTED_VERSION_def)
  have bus: "lossy_rd ?node IOIN b = (b, Inr 0x21000000)" "lossy_rd ?node IFCNT b = (b, Inr (ucast (fst b)))"
    "snd (lossy_wr ?node r v b) = Inr ()"
    "fst (fst (lossy_wr ?node r v b)) = fst b + (if snd b = [] \<or> hd (snd b) then 1 else 0)" for r v b
    by (simp_all add: lossy_rd_def lossy_wr_def IOIN_def IFCNT_def)
  have node: "?node = 0" by (simp add: lossy_cfg_def)
  note init = init_verifies_every_write [where b = ?b and takes = "\<lambda>b. snd b = [] \<or> hd (snd b)"
      and rd = lossy_rd and wr = lossy_wr and cfg = lossy_cfg and axis = 0 and raw = "0x21000000" and cnt = fst
      and cs_for = "\<lambda>_ _ _. 20", OF bus(1) version bus(2,3,4) chop cur refl]
  show ?thesis using init by (simp only: Let_def node lossy_taken) simp
qed

fun capped :: "TmcProbeStage \<Rightarrow> TmcProbeStage"
  where
    "capped (ReplyTimeout fifo ready) = ReplyTimeout (min fifo 0x7F) ready"
  | "capped (WriteVerify expected actual) = WriteVerify (min expected 0x0F) (min actual 0x0F)"
  | "capped stage = stage"

text \<open>
  a probe outcome survives the snapshot.  Packing an outcome into 16 bits and unpacking it gives
  the outcome back, with the FIFO count capped at 127 and the write counts at 15.
\<close>

theorem probe_snapshot_read_back: "from_bits (to_bits stage) = capped stage"
proof (cases stage)
  case (ReplyTimeout fifo ready)
  have "min fifo 0x7F \<le> (0x7F :: u8)" by simp
  then show ?thesis
    using from_bits_tagged [of 2] by (simp add: ReplyTimeout flagged_count Let_def)
next
  case (WriteVerify expected actual)
  have "min expected 0x0F \<le> (0x0F :: u8)" "min actual 0x0F \<le> (0x0F :: u8)" by simp_all
  note pair = nibble_pair [OF this]
  have "to_bits stage = push_bit 8 5 OR ucast (push_bit 4 (min expected 0x0F) OR min actual 0x0F)"
    unfolding WriteVerify to_bits.simps Let_def by simp
  then show ?thesis
    using from_bits_tagged [of 5 "push_bit 4 (min expected 0x0F) OR min actual 0x0F"]
    unfolding pair by (simp add: WriteVerify)
next
  case (VersionMismatch version)
  then show ?thesis using from_bits_tagged [of 4] by simp
next
  case (RespondedDespiteGlitch v)
  then show ?thesis by (cases v) (simp_all add: from_bits_def rx_from_code_def Let_def)
next
  case (DecodeErrorGlitched v)
  then show ?thesis by (cases v) (simp_all add: from_bits_def rx_from_code_def Let_def)
qed (simp_all add: from_bits_def Let_def)

fun healthy :: "TmcProbeStage \<Rightarrow> bool"
  where
    "healthy Responded = True"
  | "healthy (RespondedDespiteGlitch _) = True"
  | "healthy _ = False"

text \<open>
  an axis that failed to start is never shown as plainly healthy.  The outcome shown is \<^verbatim>\<open>ok\<close> or
  \<^verbatim>\<open>ok(...)\<close> exactly when the start-up reported the driver present, or when a bus error found the
  transport's record of an earlier glitched but decoded read.
\<close>

theorem classify_healthy:
  "healthy (classify_ioin report stage) \<longleftrightarrow>
    (case report of Inr r \<Rightarrow> present r
     | Inl e \<Rightarrow> (\<exists>b v. e = Bus b \<and> stage = RespondedDespiteGlitch v))"
  by (cases report; cases stage) (auto simp: classify_ioin_def split: TmcManagerError.splits)

end
