(* ===== verification/Step_Motion.thy ===== *)
theory Step_Motion
  imports Prelude
begin

text \<open>
  Step generation of \<^verbatim>\<open>crates/cnc-kinematics\<close>: the step-output contract (\<^verbatim>\<open>step.rs\<close>), the planned
  block (\<^verbatim>\<open>planner.rs\<close>), and of \<^verbatim>\<open>motion.rs\<close> the pulse-timing limits, the segment generator with its
  Bresenham coordination and burst batching, the probe stepper, the live step counter and the split
  of a silent symbol.

  An array over the axes is a list of length \<^verbatim>\<open>AXES\<close>.  A \<^verbatim>\<open>StepSink\<close> is a pair of functions on the
  sink's state.  The generator's velocity profile is f32 arithmetic; it is the parameter \<^verbatim>\<open>rate\<close>, which
  says for a block, its exit speed, the override scale, the speed ceiling and a tick what
  \<^verbatim>\<open>roundf(tick_hz / clamped) as u32\<close> is, or \<^verbatim>\<open>None\<close> where \<^verbatim>\<open>clamped <= 0\<close>.
\<close>

type_synonym i32 = "32 word"

section \<open>The step-output contract\<close>

definition AXES :: nat
  where "AXES = 4"

definition MAX_SYMBOLS_PER_BURST :: nat
  where "MAX_SYMBOLS_PER_BURST = 46"

record DirState =
  dir :: "bool list"

record StepEvent =
  step :: "bool list"
  period_ticks :: u32

datatype StepError = BurstTooLong | Transport

type_synonym 's set_dir = "DirState \<Rightarrow> 's \<Rightarrow> ('s, StepError, unit) outcome"
type_synonym 's emit = "StepEvent list \<Rightarrow> 's \<Rightarrow> ('s, StepError, unit) outcome"

section \<open>Blocks\<close>

record 'f Block =
  steps :: "i32 list"
  step_event_count :: u32
  unit_vec :: "'f list"
  millimeters :: 'f
  acceleration :: 'f
  nominal_speed_sq :: 'f
  max_entry_speed_sq :: 'f
  entry_speed_sq :: 'f
  rapid :: bool
  jog :: bool

text \<open>\<^verbatim>\<open>i32::unsigned_abs\<close>.\<close>

definition unsigned_abs :: "i32 \<Rightarrow> u32"
  where "unsigned_abs w = (if w <s 0 then - w else w)"

text \<open>The constants 0.0 and 1.0 are the arguments \<^verbatim>\<open>zero\<close> and \<^verbatim>\<open>one\<close>.\<close>

definition placeholder :: "'f \<Rightarrow> 'f \<Rightarrow> i32 list \<Rightarrow> 'f Block"
  where "placeholder zero one delta =
    \<lparr>steps = delta, step_event_count = fold (\<lambda>d n. max n (unsigned_abs d)) delta 0,
     unit_vec = replicate AXES zero, millimeters = one, acceleration = one, nominal_speed_sq = one,
     max_entry_speed_sq = one, entry_speed_sq = zero, rapid = False, jog = False\<rparr>"

section \<open>Pulse timing\<close>

record 'f MotionConfig =
  tick_hz :: 'f
  step_pulse_ticks :: u32
  min_low_ticks :: u32

definition config_min_period_ticks :: "'f MotionConfig \<Rightarrow> u32"
  where "config_min_period_ticks cfg = step_pulse_ticks cfg + min_low_ticks cfg"

datatype MotionError = InvalidConfig | Sink StepError

definition RMT_MAX_FIELD_LEN :: u32
  where "RMT_MAX_FIELD_LEN = 0x7FFF"

definition SLOWEST_PERIOD_TICKS :: u32
  where "SLOWEST_PERIOD_TICKS = 30000"

definition clamp :: "u32 \<Rightarrow> u32 \<Rightarrow> u32 \<Rightarrow> u32"
  where "clamp v lo hi = (if v < lo then lo else if hi < v then hi else v)"

record StepTiming =
  min_period_ticks :: u32
  max_period_ticks :: u32
  floor_period_ticks :: u32

definition StepTiming_for_block :: "'f MotionConfig \<Rightarrow> StepTiming"
  where "StepTiming_for_block cfg =
    (let lo = config_min_period_ticks cfg; hi = max (RMT_MAX_FIELD_LEN + step_pulse_ticks cfg) lo
     in \<lparr>min_period_ticks = lo, max_period_ticks = hi, floor_period_ticks = clamp SLOWEST_PERIOD_TICKS lo hi\<rparr>)"

definition timing_period :: "StepTiming \<Rightarrow> u32 option \<Rightarrow> u32"
  where "timing_period t rounded =
    (case rounded of
       None \<Rightarrow> floor_period_ticks t
     | Some p \<Rightarrow> clamp p (min_period_ticks t) (max_period_ticks t))"

definition silent_symbol_halves :: "u32 \<Rightarrow> u32 \<times> u32"
  where "silent_symbol_halves period = (let p = max period 2; a = max (p div 2) 1 in (a, p - a))"

section \<open>The generator\<close>

fun dominant_from :: "i32 list \<Rightarrow> nat \<Rightarrow> nat \<Rightarrow> u32 \<Rightarrow> nat"
  where
    "dominant_from [] axis best best_abs = best"
  | "dominant_from (delta # rest) axis best best_abs =
      (let a = unsigned_abs delta in
       if best_abs < a then dominant_from rest (axis + 1) axis a
       else dominant_from rest (axis + 1) best best_abs)"

definition dominant_axis :: "i32 list \<Rightarrow> nat"
  where "dominant_axis deltas = dominant_from (tl deltas) 1 0 (unsigned_abs (hd deltas))"

text \<open>The step counts as i64 values, and one axis of one tick: the new error and whether it steps.\<close>

definition abs_steps :: "i32 list \<Rightarrow> int list"
  where "abs_steps deltas = map (\<lambda>d. uint (unsigned_abs d)) deltas"

definition axis_tick :: "nat \<Rightarrow> int list \<Rightarrow> int list \<Rightarrow> nat \<Rightarrow> int \<times> bool"
  where "axis_tick dominant counts error axis =
    (if axis = dominant then (error ! axis, counts ! axis \<noteq> 0)
     else
       let e = error ! axis + counts ! axis in
       if counts ! dominant \<le> e then (e - counts ! dominant, True) else (e, False))"

definition tick_errors :: "nat \<Rightarrow> int list \<Rightarrow> int list \<Rightarrow> int list"
  where "tick_errors dominant counts error = map (fst \<circ> axis_tick dominant counts error) [0..<AXES]"

definition tick_mask :: "nat \<Rightarrow> int list \<Rightarrow> int list \<Rightarrow> bool list"
  where "tick_mask dominant counts error = map (snd \<circ> axis_tick dominant counts error) [0..<AXES]"

fun sink_error :: "'s \<times> (StepError + 'a) \<Rightarrow> ('s, MotionError, 'a) outcome"
  where
    "sink_error (s, Inl e) = (s, Inl (Sink e))"
  | "sink_error (s, Inr x) = (s, Inr x)"

fun emit_ticks ::
    "'s emit \<Rightarrow> nat \<Rightarrow> int list \<Rightarrow> (nat \<Rightarrow> u32) \<Rightarrow> nat list \<Rightarrow> int list \<Rightarrow> StepEvent list \<Rightarrow> u32 \<Rightarrow> 's \<Rightarrow>
     ('s, MotionError, u32) outcome"
  where
    "emit_ticks emit dominant counts period [] error burst emitted s =
      (if burst = [] then (s, Inr emitted)
       else and_then (sink_error (emit burst s)) (\<lambda>_ s. (s, Inr emitted)))"
  | "emit_ticks emit dominant counts period (tick # ticks) error burst emitted s =
      (let event = \<lparr>step = tick_mask dominant counts error, period_ticks = period tick\<rparr>;
           error = tick_errors dominant counts error
       in if length burst = MAX_SYMBOLS_PER_BURST
          then and_then (sink_error (emit burst s))
            (\<lambda>_. emit_ticks emit dominant counts period ticks error [event] (emitted + 1))
          else emit_ticks emit dominant counts period ticks error (burst @ [event]) (emitted + 1) s)"

definition emit_profile ::
    "'s emit \<Rightarrow> 'f MotionConfig \<Rightarrow> 'f Block \<Rightarrow> (nat \<Rightarrow> u32 option) \<Rightarrow> 's \<Rightarrow> ('s, MotionError, u32) outcome"
  where "emit_profile emit cfg block profile =
    (let timing = StepTiming_for_block cfg
     in emit_ticks emit (dominant_axis (steps block)) (abs_steps (steps block)) (timing_period timing \<circ> profile)
          [0..<unat (step_event_count block)] (replicate AXES 0) [] 0)"

definition direction_of :: "'f Block \<Rightarrow> DirState"
  where "direction_of block = \<lparr>dir = map (\<lambda>d. 0 \<le>s d) (steps block)\<rparr>"

definition run_block_scaled ::
    "('f \<Rightarrow> bool) \<Rightarrow> ('f Block \<Rightarrow> 'f \<Rightarrow> 'f \<Rightarrow> 'f \<Rightarrow> nat \<Rightarrow> u32 option) \<Rightarrow> 's set_dir \<Rightarrow> 's emit \<Rightarrow> 'f MotionConfig \<Rightarrow>
     'f Block \<Rightarrow> 'f \<Rightarrow> 'f \<Rightarrow> 'f \<Rightarrow> 's \<Rightarrow> ('s, MotionError, u32) outcome"
  where "run_block_scaled nonpositive rate set_direction emit cfg block exit_speed_sq override_scale max_speed_sq s =
    (if nonpositive (tick_hz cfg) \<or> config_min_period_ticks cfg = 0 then (s, Inl InvalidConfig)
     else if step_event_count block = 0 then (s, Inr 0)
     else and_then (sink_error (set_direction (direction_of block) s))
       (\<lambda>_. emit_profile emit cfg block (rate block exit_speed_sq override_scale max_speed_sq)))"

section \<open>The probe stepper\<close>

record ProbeOutcome =
  triggered :: bool
  steps_emitted :: u32

text \<open>
  The closure \<^verbatim>\<open>is_at_stop_edge\<close> reads an input that changes with the machine: it is a function of the
  sink's state, which it may change.
\<close>

type_synonym 's edge = "'s \<Rightarrow> 's \<times> bool"

fun probe_ticks ::
    "'s emit \<Rightarrow> 's edge \<Rightarrow> nat \<Rightarrow> int list \<Rightarrow> u32 \<Rightarrow> nat \<Rightarrow> int list \<Rightarrow> u32 \<Rightarrow> 's \<Rightarrow>
     ('s, MotionError, ProbeOutcome) outcome"
  where
    "probe_ticks emit edge dominant counts period 0 error emitted s =
      (let (s, hit) = edge s in (s, Inr \<lparr>triggered = hit, steps_emitted = emitted\<rparr>))"
  | "probe_ticks emit edge dominant counts period (Suc n) error emitted s =
      (let (s, hit) = edge s in
       if hit then (s, Inr \<lparr>triggered = True, steps_emitted = emitted\<rparr>)
       else and_then (sink_error (emit [\<lparr>step = tick_mask dominant counts error, period_ticks = period\<rparr>] s))
         (\<lambda>_. probe_ticks emit edge dominant counts period n (tick_errors dominant counts error) (emitted + 1)))"

definition run_probe ::
    "('f \<Rightarrow> bool) \<Rightarrow> 's set_dir \<Rightarrow> 's emit \<Rightarrow> 's edge \<Rightarrow> 'f MotionConfig \<Rightarrow> 'f Block \<Rightarrow> u32 \<Rightarrow> 's \<Rightarrow>
     ('s, MotionError, ProbeOutcome) outcome"
  where "run_probe nonpositive set_direction emit edge cfg block step_period_ticks s =
    (if nonpositive (tick_hz cfg) \<or> config_min_period_ticks cfg = 0 then (s, Inl InvalidConfig)
     else if step_event_count block = 0
     then (let (s, hit) = edge s in (s, Inr \<lparr>triggered = hit, steps_emitted = 0\<rparr>))
     else and_then (sink_error (set_direction (direction_of block) s)) (\<lambda>_.
       let hi = max (RMT_MAX_FIELD_LEN + step_pulse_ticks cfg) (config_min_period_ticks cfg);
           period = clamp step_period_ticks (config_min_period_ticks cfg) hi
       in probe_ticks emit edge (dominant_axis (steps block)) (abs_steps (steps block)) period
            (unat (step_event_count block)) (replicate AXES 0) 0))"

section \<open>The live position\<close>

record StepCounter =
  position :: "i32 list"
  counter_dir :: "bool list"

definition StepCounter_new :: StepCounter
  where "StepCounter_new = \<lparr>position = replicate AXES 0, counter_dir = replicate AXES True\<rparr>"

definition counter_set_direction :: "DirState \<Rightarrow> StepCounter \<Rightarrow> StepCounter"
  where "counter_set_direction d c = c\<lparr>counter_dir := dir d\<rparr>"

text \<open>\<^verbatim>\<open>saturating_add\<close> of 1 or -1.\<close>

definition saturating_step :: "bool \<Rightarrow> i32 \<Rightarrow> i32"
  where "saturating_step up p =
    (if up then if p = 0x7FFFFFFF then p else p + 1 else if p = 0x80000000 then p else p - 1)"

definition advance :: "StepEvent \<Rightarrow> StepCounter \<Rightarrow> StepCounter"
  where "advance ev c = c\<lparr>position :=
    map (\<lambda>axis. if step ev ! axis then saturating_step (counter_dir c ! axis) (position c ! axis)
       else position c ! axis) [0..<AXES]\<rparr>"

definition counter_reset :: "StepCounter \<Rightarrow> StepCounter"
  where "counter_reset c = c\<lparr>position := replicate AXES 0\<rparr>"

definition sync_to :: "i32 list \<Rightarrow> StepCounter \<Rightarrow> StepCounter"
  where "sync_to p c = c\<lparr>position := p\<rparr>"

end
