(* ===== verification/Step_Line.thy ===== *)
theory Step_Line
  imports Step_Motion
begin

text \<open>
  The line a block walks.  After \<^verbatim>\<open>k\<close> ticks an axis has taken \<^verbatim>\<open>k * count div dominant count\<close> steps,
  which gives the accumulated errors and masks of every tick in closed form; a sink that counts the
  bursts it passes on keeps its counter on that line.
\<close>

section \<open>Step counts\<close>

lemma uint_unsigned_abs: "uint (unsigned_abs w) = \<bar>sint w\<bar>"
proof (cases "w <s 0")
  case True
  then have neg: "sint w < 0" by (simp add: word_sless_alt)
  have "- w = word_of_int (- sint w)" by simp
  then have "uint (- w) = take_bit 32 (- sint w)" using uint_word_of_int_eq [of "- sint w", where 'a = 32] by simp
  moreover have "- sint w < 2 ^ 32" using sint_ge [of w] by simp
  ultimately have "uint (- w) = - sint w" using neg by (simp add: take_bit_int_eq_self)
  with True neg show ?thesis by (simp add: unsigned_abs_def)
next
  case False
  then have "0 \<le> sint w" by (simp add: word_sless_alt)
  moreover have "sint w < 2 ^ 32" using sint_lt [of w] by simp
  moreover have "uint w = take_bit 32 (sint w)" using uint_sint [of w] by simp
  ultimately have "uint w = sint w" by (simp add: take_bit_int_eq_self)
  with \<open>0 \<le> sint w\<close> False show ?thesis by (simp add: unsigned_abs_def)
qed


lemma length_abs_steps [simp]: "length (abs_steps ds) = length ds"
  by (simp add: abs_steps_def)

lemma nth_abs_steps [simp]: "i < length ds \<Longrightarrow> abs_steps ds ! i = \<bar>sint (ds ! i)\<bar>"
  by (simp add: abs_steps_def uint_unsigned_abs)

text \<open>The dominant axis is an axis with the largest step count.\<close>

lemma dominant_from_max:
  assumes "best < axis" and "axis + length ds = length all" and "drop axis all = ds"
    and "best_abs = unsigned_abs (all ! best)" and "\<forall>i < axis. unsigned_abs (all ! i) \<le> best_abs"
  shows "dominant_from ds axis best best_abs < length all \<and>
    (\<forall>i < length all. unsigned_abs (all ! i) \<le> unsigned_abs (all ! dominant_from ds axis best best_abs))"
  using assms
proof (induction ds arbitrary: axis best best_abs)
  case (Cons d ds)
  have d: "all ! axis = d" using Cons.prems(2,3) by (metis nth_via_drop)
  have rest: "drop (axis + 1) all = ds" using Cons.prems(3) by (metis Suc_eq_plus1 drop_Suc list.sel(3) tl_drop)
  show ?case
  proof (cases "best_abs < unsigned_abs d")
    case True
    then have "\<forall>i < axis + 1. unsigned_abs (all ! i) \<le> unsigned_abs d"
      using Cons.prems(5) d by (auto simp: less_Suc_eq)
    then show ?thesis using Cons.IH [of axis "axis + 1" "unsigned_abs d"] Cons.prems True d rest
      by (simp add: Let_def)
  next
    case False
    then have "\<forall>i < axis + 1. unsigned_abs (all ! i) \<le> best_abs" using Cons.prems(5) d by (auto simp: less_Suc_eq)
    then show ?thesis using Cons.IH [of best "axis + 1" best_abs] Cons.prems False d rest by (simp add: Let_def)
  qed
qed simp

lemma dominant_axis_max:
  assumes "ds \<noteq> []"
  shows "dominant_axis ds < length ds \<and>
    (\<forall>i < length ds. unsigned_abs (ds ! i) \<le> unsigned_abs (ds ! dominant_axis ds))"
  unfolding dominant_axis_def using assms
  by (intro dominant_from_max) (auto simp: drop_Suc hd_conv_nth)

section \<open>The line\<close>

definition taken_steps :: "int list \<Rightarrow> nat \<Rightarrow> nat \<Rightarrow> nat \<Rightarrow> int"
  where "taken_steps counts dominant k axis = int k * counts ! axis div counts ! dominant"

definition line_error :: "int list \<Rightarrow> nat \<Rightarrow> nat \<Rightarrow> int list"
  where "line_error counts dominant k =
    map (\<lambda>axis. if axis = dominant then 0 else int k * counts ! axis mod counts ! dominant) [0..<AXES]"

definition line_mask :: "int list \<Rightarrow> nat \<Rightarrow> nat \<Rightarrow> bool list"
  where "line_mask counts dominant k =
    map (\<lambda>axis. taken_steps counts dominant (Suc k) axis \<noteq> taken_steps counts dominant k axis) [0..<AXES]"

definition line_events :: "int list \<Rightarrow> nat \<Rightarrow> (nat \<Rightarrow> u32) \<Rightarrow> nat list \<Rightarrow> StepEvent list"
  where "line_events counts dominant period ticks =
    map (\<lambda>tick. \<lparr>step = line_mask counts dominant tick, period_ticks = period tick\<rparr>) ticks"

lemma error_update:
  fixes a D k :: int
  assumes "0 < D" and "0 \<le> a" and "a \<le> D"
  shows "(1 + k) * a div D = k * a div D + (if D \<le> k * a mod D + a then 1 else 0)"
    "(1 + k) * a mod D = k * a mod D + a - (if D \<le> k * a mod D + a then D else 0)"
proof -
  have eq: "(1 + k) * a = D * (k * a div D) + (k * a mod D + a)" by (simp add: algebra_simps)
  have r: "0 \<le> k * a mod D" "k * a mod D < D" using assms(1) by simp_all
  have "(k * a mod D + a) div D = (if D \<le> k * a mod D + a then 1 else 0)"
  proof (cases "D \<le> k * a mod D + a")
    case True
    have "(k * a mod D + a - D) div D = 0" using True r(2) assms(3) by (intro div_pos_pos_trivial) linarith+
    with True assms show ?thesis using div_pos_geq [of D "k * a mod D + a"] by simp
  qed (use r assms in \<open>simp add: div_pos_pos_trivial\<close>)
  moreover have "(1 + k) * a div D = k * a div D + (k * a mod D + a) div D"
    using assms(1) by (subst eq, subst div_mult_self4) simp_all
  ultimately show d: "(1 + k) * a div D = k * a div D + (if D \<le> k * a mod D + a then 1 else 0)" by simp
  have "x mod D = y - D * b" if "x = D * q + y" "x div D = q + b" for x y q b :: int
    using that minus_mult_div_eq_mod [of x D] by (simp add: algebra_simps)
  from this [OF eq d]
  show "(1 + k) * a mod D = k * a mod D + a - (if D \<le> k * a mod D + a then D else 0)"
    by (cases "D \<le> k * a mod D + a") (simp_all only: if_True if_False mult_1_right mult_zero_right)
qed

text \<open>A block the generator can walk: the counts of the axes and the largest of them.\<close>

definition line_counts :: "int list \<Rightarrow> nat \<Rightarrow> bool"
  where "line_counts counts dominant \<longleftrightarrow>
    length counts = AXES \<and> dominant < AXES \<and> 0 < counts ! dominant \<and>
    (\<forall>axis < AXES. 0 \<le> counts ! axis \<and> counts ! axis \<le> counts ! dominant)"

lemma tick_on_line:
  assumes "line_counts counts dominant"
  shows "tick_errors dominant counts (line_error counts dominant k) = line_error counts dominant (Suc k)"
    "tick_mask dominant counts (line_error counts dominant k) = line_mask counts dominant k"
proof -
  have upd: "axis_tick dominant counts (line_error counts dominant k) axis =
      (line_error counts dominant (Suc k) ! axis, line_mask counts dominant k ! axis)" if "axis < AXES" for axis
  proof (cases "axis = dominant")
    case True
    then show ?thesis using assms that
      by (simp add: axis_tick_def line_error_def line_mask_def taken_steps_def line_counts_def)
  next
    case False
    have "0 < counts ! dominant" "0 \<le> counts ! axis" "counts ! axis \<le> counts ! dominant"
      using assms that by (simp_all add: line_counts_def)
    note upd = error_update [OF this, of "int k"]
    with False that upd show ?thesis
      by (simp add: axis_tick_def line_error_def line_mask_def taken_steps_def Let_def)
  qed
  show "tick_errors dominant counts (line_error counts dominant k) = line_error counts dominant (Suc k)"
    by (rule nth_equalityI) (simp_all add: tick_errors_def upd, simp_all add: line_error_def)
  show "tick_mask dominant counts (line_error counts dominant k) = line_mask counts dominant k"
    by (rule nth_equalityI) (simp_all add: tick_mask_def upd, simp_all add: line_mask_def)
qed

lemma line_error_start: "replicate AXES 0 = line_error counts dominant 0"
  by (rule nth_equalityI) (simp_all add: line_error_def)

lemma taken_Suc:
  assumes "line_counts counts dominant" and "axis < AXES"
  shows "taken_steps counts dominant (Suc k) axis =
    taken_steps counts dominant k axis + (if line_mask counts dominant k ! axis then 1 else 0)"
proof -
  have "0 < counts ! dominant" "0 \<le> counts ! axis" "counts ! axis \<le> counts ! dominant"
    using assms by (simp_all add: line_counts_def)
  from error_update(1) [OF this, of "int k"] assms(2) show ?thesis
    by (auto simp: line_mask_def taken_steps_def)
qed

lemma taken_bounds:
  assumes "line_counts counts dominant" and "axis < AXES" and "int k \<le> counts ! dominant"
  shows "0 \<le> taken_steps counts dominant k axis \<and> taken_steps counts dominant k axis \<le> counts ! axis"
proof -
  have c: "0 < counts ! dominant" "0 \<le> counts ! axis" using assms by (simp_all add: line_counts_def)
  have "int k * counts ! axis \<le> counts ! dominant * counts ! axis" using c assms(3) by (intro mult_right_mono)
  then have "int k * counts ! axis div counts ! dominant \<le> counts ! dominant * counts ! axis div counts ! dominant"
    using c by (intro zdiv_mono1)
  with c show ?thesis by (simp add: taken_steps_def pos_imp_zdiv_nonneg_iff)
qed

lemma taken_all:
  "line_counts counts dominant \<Longrightarrow> int k = counts ! dominant \<Longrightarrow> taken_steps counts dominant k axis = counts ! axis"
  by (simp add: taken_steps_def line_counts_def)

section \<open>The counter walks the line\<close>

lemma saturating_step_sint:
  assumes "up \<Longrightarrow> sint p < 2 ^ 31 - 1" and "\<not> up \<Longrightarrow> - (2 ^ 31) < sint p"
  shows "sint (saturating_step up p) = sint p + (if up then 1 else - 1)"
proof (cases up)
  case True
  then have "p \<noteq> 0x7FFFFFFF" using assms(1) by auto
  moreover have "sint (p + 1) = sint p + 1"
    using assms(1) True sint_ge [of p] by (simp add: sint_word_ariths signed_take_bit_int_eq_self)
  ultimately show ?thesis using True by (simp add: saturating_step_def)
next
  case False
  then have "p \<noteq> 0x80000000" using assms(2) by auto
  moreover have "sint (p - 1) = sint p - 1"
    using assms(2) False sint_lt [of p] by (simp add: sint_word_ariths signed_take_bit_int_eq_self)
  ultimately show ?thesis using False by (simp add: saturating_step_def)
qed

text \<open>The counter \<^verbatim>\<open>c'\<close> is \<^verbatim>\<open>k\<close> ticks down the line of the step deltas \<^verbatim>\<open>ds\<close> from the counter \<^verbatim>\<open>c\<close>.\<close>

definition on_line :: "i32 list \<Rightarrow> StepCounter \<Rightarrow> nat \<Rightarrow> StepCounter \<Rightarrow> bool"
  where "on_line ds c k c' \<longleftrightarrow>
    length (position c') = AXES \<and>
    (\<forall>axis < AXES. sint (position c' ! axis) = sint (position c ! axis) +
      sgn (sint (ds ! axis)) * taken_steps (abs_steps ds) (dominant_axis ds) k axis)"

text \<open>The target of the deltas can be represented.\<close>

definition counter_in_range :: "i32 list \<Rightarrow> StepCounter \<Rightarrow> bool"
  where "counter_in_range ds c \<longleftrightarrow>
    (\<forall>axis < AXES. - (2 ^ 31) \<le> sint (position c ! axis) + sint (ds ! axis) \<and>
      sint (position c ! axis) + sint (ds ! axis) < 2 ^ 31)"

lemma line_counts_abs_steps:
  assumes "length ds = AXES" and "unsigned_abs (ds ! dominant_axis ds) \<noteq> 0"
  shows "line_counts (abs_steps ds) (dominant_axis ds)"
proof -
  from assms(1) have "ds \<noteq> []" by (auto simp: AXES_def)
  note dom = dominant_axis_max [OF this]
  have "uint (unsigned_abs (ds ! axis)) \<le> uint (unsigned_abs (ds ! dominant_axis ds))" if "axis < AXES" for axis
    using dom that assms(1) by (simp add: word_le_def)
  moreover have "0 < uint (unsigned_abs (ds ! dominant_axis ds))" using assms(2) by (simp add: word_greater_zero_iff [symmetric] word_less_def)
  ultimately show ?thesis using dom assms(1) by (auto simp: line_counts_def uint_unsigned_abs)
qed

lemma advance_on_line:
  assumes "line_counts (abs_steps ds) (dominant_axis ds)" and "length ds = AXES" and "length (position c) = AXES"
    and "counter_dir c = map (\<lambda>d. 0 \<le>s d) ds" and "counter_in_range ds c"
  shows "int k \<le> abs_steps ds ! dominant_axis ds \<Longrightarrow>
    (let c' = fold advance (line_events (abs_steps ds) (dominant_axis ds) period [0..<k]) c
     in counter_dir c' = counter_dir c \<and> on_line ds c k c')"
proof (induction k)
  case 0
  then show ?case using assms(3) by (simp add: line_events_def on_line_def taken_steps_def)
next
  case (Suc k)
  let ?taken = "taken_steps (abs_steps ds) (dominant_axis ds)"
  let ?mask = "line_mask (abs_steps ds) (dominant_axis ds) k"
  define c' where "c' = fold advance (line_events (abs_steps ds) (dominant_axis ds) period [0..<k]) c"
  from Suc have IH: "counter_dir c' = counter_dir c" "on_line ds c k c'" by (simp_all add: c'_def Let_def)
  let ?c = "advance \<lparr>step = ?mask, period_ticks = period k\<rparr> c'"
  have "sint (position ?c ! axis) = sint (position c ! axis) + sgn (sint (ds ! axis)) * ?taken (Suc k) axis"
    if axis: "axis < AXES" for axis
  proof -
    have pos: "sint (position c' ! axis) = sint (position c ! axis) + sgn (sint (ds ! axis)) * ?taken k axis"
      using IH(2) axis by (simp add: on_line_def)
    have range: "- (2 ^ 31) \<le> sint (position c ! axis) + sint (ds ! axis)"
      "sint (position c ! axis) + sint (ds ! axis) < 2 ^ 31"
      using assms(5) axis by (simp_all add: counter_in_range_def)
    have new: "?taken (Suc k) axis = ?taken k axis + (if ?mask ! axis then 1 else 0)"
      by (rule taken_Suc [OF assms(1) axis])
    have bounds: "0 \<le> ?taken k axis" "?taken (Suc k) axis \<le> \<bar>sint (ds ! axis)\<bar>"
      using taken_bounds [OF assms(1) axis] Suc.prems axis assms(2) by simp_all
    show ?thesis
    proof (cases "?mask ! axis")
      case False
      then show ?thesis using pos new axis by (simp add: advance_def)
    next
      case True
      let ?up = "0 \<le>s ds ! axis"
      have up: "?up \<longleftrightarrow> 0 \<le> sint (ds ! axis)" by (simp add: word_sle_eq)
      have nonzero: "sint (ds ! axis) \<noteq> 0" using True new bounds by auto
      have "sint (saturating_step ?up (position c' ! axis)) = sint (position c' ! axis) + (if ?up then 1 else - 1)"
        by (rule saturating_step_sint)
           (use up nonzero pos new bounds range True in \<open>auto simp: sgn_if split: if_splits\<close>)
      moreover have "position ?c ! axis = saturating_step ?up (position c' ! axis)"
        using True axis IH(1) assms(2,4) by (simp add: advance_def)
      ultimately show ?thesis using pos new True up nonzero by (auto simp: sgn_if)
    qed
  qed
  then have "on_line ds c (Suc k) ?c" by (simp add: on_line_def) (simp add: advance_def)
  moreover have "counter_dir ?c = counter_dir c" using IH(1) by (simp add: advance_def)
  ultimately show ?case by (simp add: line_events_def c'_def Let_def)
qed

section \<open>Sinks that count\<close>

text \<open>A run over \<^verbatim>\<open>ticks\<close> ticks ended after \<^verbatim>\<open>j\<close> of them: at a burst boundary, if it failed.\<close>

definition ended_at :: "nat \<Rightarrow> u32 \<Rightarrow> nat \<Rightarrow> MotionError + u32 \<Rightarrow> bool"
  where "ended_at ticks n j r \<longleftrightarrow> (case r of Inr m \<Rightarrow> j = ticks \<and> m = n | Inl e \<Rightarrow> MAX_SYMBOLS_PER_BURST dvd j)"

lemma ended_at_simps [simp]:
  "ended_at ticks n j (Inr m) \<longleftrightarrow> j = ticks \<and> m = n"
  "ended_at ticks n j (Inl e) \<longleftrightarrow> MAX_SYMBOLS_PER_BURST dvd j"
  by (simp_all add: ended_at_def)

text \<open>
  What the executor relies on in the sink it hands to the generator: a burst that is passed on
  advances the counter by every event, a burst that fails leaves it, and a direction is latched.
\<close>

locale counted_sink =
  fixes set_direction :: "'s set_dir" and emit :: "'s emit" and counter :: "'s \<Rightarrow> StepCounter"
  assumes direction: "counter (fst (set_direction d s)) = counter_set_direction d (counter s)"
    and passed: "snd (emit burst s) = Inr () \<Longrightarrow> counter (fst (emit burst s)) = fold advance burst (counter s)"
    and refused: "snd (emit burst s) = Inl e \<Longrightarrow> counter (fst (emit burst s)) = counter s"
begin

lemma emit_ticks_counts:
  assumes "line_counts counts dominant"
  shows "length burst \<le> MAX_SYMBOLS_PER_BURST \<Longrightarrow>
    r = emit_ticks emit dominant counts period [k..<k + n] (line_error counts dominant k) burst emitted s \<Longrightarrow>
    (\<exists>j \<le> length burst + n.
      counter (fst r) = fold advance (take j (burst @ line_events counts dominant period [k..<k + n])) (counter s) \<and>
      ended_at (length burst + n) (emitted + of_nat n) j (snd r))"
proof (induction n arbitrary: k burst emitted s r)
  case 0
  obtain s' x where e: "emit burst s = (s', x)" by (cases "emit burst s")
  show ?case
  proof (cases "burst = []")
    case True
    with 0 show ?thesis by (simp add: line_events_def)
  next
    case False
    show ?thesis
    proof (cases x)
      case (Inl err)
      then have "counter s' = counter s" using refused [of burst s err] e by simp
      with 0 False e Inl show ?thesis by (intro exI [of _ 0]) simp
    next
      case (Inr u)
      then have "counter s' = fold advance burst (counter s)" using passed [of burst s] e by simp
      with 0 False e Inr show ?thesis by (intro exI [of _ "length burst"]) (simp add: line_events_def)
    qed
  qed
next
  case (Suc n)
  let ?event = "\<lparr>step = line_mask counts dominant k, period_ticks = period k\<rparr>"
  let ?rest = "line_events counts dominant period [Suc k..<Suc k + n]"
  have upt: "[k..<k + Suc n] = k # [Suc k..<Suc k + n]" by (simp add: upt_conv_Cons del: upt_Suc)
  have events: "line_events counts dominant period [k..<k + Suc n] = ?event # ?rest"
    by (simp only: upt line_events_def list.map)
  note tick = tick_on_line [OF assms, of k]
  obtain s' x where e: "emit burst s = (s', x)" by (cases "emit burst s")
  show ?case
  proof (cases "length burst = MAX_SYMBOLS_PER_BURST")
    case False
    then have r: "r = emit_ticks emit dominant counts period [Suc k..<Suc k + n] (line_error counts dominant (Suc k))
        (burst @ [?event]) (emitted + 1) s"
      using Suc.prems(2) by (simp only: upt emit_ticks.simps Let_def tick if_False)
    have "length (burst @ [?event]) \<le> MAX_SYMBOLS_PER_BURST" using False Suc.prems(1) by simp
    from Suc.IH [OF this r] obtain j where j: "j \<le> length (burst @ [?event]) + n"
      "counter (fst r) = fold advance (take j ((burst @ [?event]) @ ?rest)) (counter s)"
      "ended_at (length (burst @ [?event]) + n) (emitted + 1 + of_nat n) j (snd r)" by (elim exE conjE)
    then show ?thesis unfolding events by (intro exI [of _ j]) (simp add: ac_simps)
  next
    case True
    then have r: "r = and_then (sink_error (s', x))
        (\<lambda>_. emit_ticks emit dominant counts period [Suc k..<Suc k + n] (line_error counts dominant (Suc k))
          [?event] (emitted + 1))"
      using Suc.prems(2) by (simp only: upt emit_ticks.simps Let_def tick if_True simp_thms e)
    show ?thesis
    proof (cases x)
      case (Inl err)
      then have "counter s' = counter s" using refused [of burst s err] e by simp
      with r Inl show ?thesis by (intro exI [of _ 0]) simp
    next
      case (Inr u)
      then have c: "counter s' = fold advance burst (counter s)" using passed [of burst s] e by simp
      have r': "r = emit_ticks emit dominant counts period [Suc k..<Suc k + n] (line_error counts dominant (Suc k))
          [?event] (emitted + 1) s'" using r Inr by simp
      have "length [?event] \<le> MAX_SYMBOLS_PER_BURST" by (simp add: MAX_SYMBOLS_PER_BURST_def)
      from Suc.IH [OF this r'] obtain j where j: "j \<le> length [?event] + n"
        "counter (fst r) = fold advance (take j ([?event] @ ?rest)) (counter s')"
        "ended_at (length [?event] + n) (emitted + 1 + of_nat n) j (snd r)" by (elim exE conjE)
      have "counter (fst r) = fold advance (take (length burst + j) (burst @ ?event # ?rest)) (counter s)"
        using j(2) c by simp
      moreover have "ended_at (length burst + Suc n) (emitted + of_nat (Suc n)) (length burst + j) (snd r)"
        using j(3) True by (cases "snd r") (simp_all add: ac_simps)
      ultimately show ?thesis using j(1) unfolding events by (intro exI [of _ "length burst + j"]) simp
    qed
  qed
qed

text \<open>The block's event count is the step count of its dominant axis.\<close>

lemma run_block_counts:
  assumes "length (steps block) = AXES"
    and "step_event_count block = unsigned_abs (steps block ! dominant_axis (steps block))"
    and "length (position (counter s)) = AXES" and "counter_in_range (steps block) (counter s)"
    and "r = run_block_scaled nonpositive rate set_direction emit cfg block exit_sq scale ceiling s"
  shows "\<exists>k \<le> unat (step_event_count block). on_line (steps block) (counter s) k (counter (fst r)) \<and>
    ended_at (unat (step_event_count block)) (step_event_count block) k (snd r)"
proof -
  let ?ds = "steps block"
  have stay: "on_line ?ds (counter s) 0 c" if "position c = position (counter s)" for c
    using that assms(3) by (simp add: on_line_def taken_steps_def)
  obtain s' x where d: "set_direction (direction_of block) s = (s', x)" by (cases "set_direction (direction_of block) s")
  have c': "counter s' = counter_set_direction (direction_of block) (counter s)"
    using direction [of "direction_of block" s] d by simp
  show ?thesis
  proof (cases "nonpositive (tick_hz cfg) \<or> config_min_period_ticks cfg = 0 \<or> step_event_count block = 0 \<or> (\<exists>e. x = Inl e)")
    case True
    then have "position (counter (fst r)) = position (counter s) \<and>
      ended_at (unat (step_event_count block)) (step_event_count block) 0 (snd r)"
      using assms(5) d c' by (auto simp: run_block_scaled_def counter_set_direction_def)
    with stay show ?thesis by (intro exI [of _ 0]) simp
  next
    case False
    then obtain u where x: "x = Inr u" by (cases x) auto
    let ?period = "timing_period (StepTiming_for_block cfg) \<circ> rate block exit_sq scale ceiling"
    from False x d have r: "r = emit_ticks emit (dominant_axis ?ds) (abs_steps ?ds) ?period
        [0..<0 + unat (step_event_count block)] (line_error (abs_steps ?ds) (dominant_axis ?ds) 0) [] 0 s'"
      using assms(5) by (simp add: run_block_scaled_def emit_profile_def Let_def line_error_start [symmetric])
    have line: "line_counts (abs_steps ?ds) (dominant_axis ?ds)"
      using assms(1,2) False by (intro line_counts_abs_steps) auto
    have "length ([] :: StepEvent list) \<le> MAX_SYMBOLS_PER_BURST" by simp
    from emit_ticks_counts [OF line this r] obtain j where j: "j \<le> length ([] :: StepEvent list) + unat (step_event_count block)"
      "counter (fst r) = fold advance (take j ([] @ line_events (abs_steps ?ds) (dominant_axis ?ds) ?period
        [0..<0 + unat (step_event_count block)])) (counter s')"
      "ended_at (length ([] :: StepEvent list) + unat (step_event_count block)) (0 + of_nat (unat (step_event_count block))) j
        (snd r)" by (elim exE conjE)
    then have j: "j \<le> unat (step_event_count block)"
      "counter (fst r) = fold advance
        (take j (line_events (abs_steps ?ds) (dominant_axis ?ds) ?period [0..<unat (step_event_count block)])) (counter s')"
      "ended_at (unat (step_event_count block)) (step_event_count block) j (snd r)" by simp_all
    have "abs_steps ?ds ! dominant_axis ?ds = uint (step_event_count block)"
      using assms(1,2) line by (simp add: line_counts_def uint_unsigned_abs)
    then have "int j \<le> abs_steps ?ds ! dominant_axis ?ds" using j(1) by (metis of_nat_le_iff uint_nat)
    moreover have "take j (line_events (abs_steps ?ds) (dominant_axis ?ds) ?period [0..<unat (step_event_count block)]) =
        line_events (abs_steps ?ds) (dominant_axis ?ds) ?period [0..<j]"
      using j(1) by (simp add: line_events_def take_map)
    ultimately have "on_line ?ds (counter s') j (counter (fst r))"
      using advance_on_line [OF line assms(1), of "counter s'" j ?period] assms(3,4) c' j(2)
      by (simp add: counter_set_direction_def direction_of_def counter_in_range_def Let_def)
    then have "on_line ?ds (counter s) j (counter (fst r))" by (simp add: on_line_def c' counter_set_direction_def)
    with j show ?thesis by (intro exI [of _ j]) simp
  qed
qed

lemma probe_ticks_counts:
  assumes "line_counts counts dominant" and "\<And>s. counter (fst (edge s)) = counter s"
  shows "r = probe_ticks emit edge dominant counts period n (line_error counts dominant k) emitted s \<Longrightarrow>
    \<exists>j \<le> n. counter (fst r) = fold advance (line_events counts dominant (\<lambda>_. period) [k..<k + j]) (counter s) \<and>
      (\<forall>out. snd r = Inr out \<longrightarrow> steps_emitted out = emitted + of_nat j \<and> (\<not> triggered out \<longrightarrow> j = n))"
proof (induction n arbitrary: k emitted s r)
  case 0
  obtain s' hit where e: "edge s = (s', hit)" by (cases "edge s")
  then have "counter s' = counter s" using assms(2) [of s] by simp
  with 0 e show ?case by (simp add: line_events_def)
next
  case (Suc n)
  let ?event = "\<lparr>step = line_mask counts dominant k, period_ticks = period\<rparr>"
  note tick = tick_on_line [OF assms(1), of k]
  obtain s' hit where e: "edge s = (s', hit)" by (cases "edge s")
  have c': "counter s' = counter s" using assms(2) [of s] e by simp
  show ?case
  proof (cases hit)
    case True
    with Suc.prems e c' show ?thesis by (intro exI [of _ 0]) (simp add: line_events_def)
  next
    case False
    obtain s2 x where m: "emit [?event] s' = (s2, x)" by (cases "emit [?event] s'")
    have r: "r = and_then (sink_error (s2, x))
        (\<lambda>_. probe_ticks emit edge dominant counts period n (line_error counts dominant (Suc k)) (emitted + 1))"
      using Suc.prems False by (simp add: e tick m)
    show ?thesis
    proof (cases x)
      case (Inl err)
      then have "counter s2 = counter s'" using refused [of "[?event]" s' err] m by simp
      with r Inl c' show ?thesis by (intro exI [of _ 0]) (simp add: line_events_def)
    next
      case (Inr u)
      then have c2: "counter s2 = advance ?event (counter s)" using passed [of "[?event]" s'] m c' by simp
      have "r = probe_ticks emit edge dominant counts period n (line_error counts dominant (Suc k)) (emitted + 1) s2"
        using r Inr by simp
      from Suc.IH [OF this] obtain j where j: "j \<le> n"
        "counter (fst r) = fold advance (line_events counts dominant (\<lambda>_. period) [Suc k..<Suc k + j]) (counter s2)"
        "\<forall>out. snd r = Inr out \<longrightarrow> steps_emitted out = emitted + 1 + of_nat j \<and> (\<not> triggered out \<longrightarrow> j = n)"
        by (elim exE conjE)
      have upt: "[k..<k + Suc j] = k # [Suc k..<Suc k + j]" by (simp add: upt_conv_Cons del: upt_Suc)
      have "counter (fst r) = fold advance (line_events counts dominant (\<lambda>_. period) [k..<k + Suc j]) (counter s)"
        unfolding upt using j(2) c2 by (simp only: line_events_def list.map fold_simps)
      moreover have "emitted + 1 + of_nat j = emitted + of_nat (Suc j)" by simp
      ultimately show ?thesis using j(1,3) by (intro exI [of _ "Suc j"]) (simp only: Suc_le_mono nat.inject simp_thms)
    qed
  qed
qed

end

end
