(* ===== verification/Rmt_Sink.thy ===== *)
theory Rmt_Sink
  imports Step_Line
begin

text \<open>
  The motion executor's sinks (\<^verbatim>\<open>crates/firmware/src/motion.rs\<close>): the RMT sink that turns a burst into
  one symbol buffer per channel, the counting sink that keeps the live position, and the runs of one
  block and of one probe.

  The types and functions of esp-hal are the record \<^verbatim>\<open>rmt_hal\<close>: the symbol constructor
  \<^verbatim>\<open>PulseCode::new_clamped\<close>, the end marker, \<^verbatim>\<open>Channel::transmit\<close> (no transaction when the start
  fails, and the channel is lost) and \<^verbatim>\<open>TxTransaction::wait\<close> of a completed transaction.  Breadcrumbs,
  the liveness beat and the time-out that resets the board are left out.
\<close>

section \<open>The RMT sink\<close>

record ('p, 'c, 't) rmt_hal =
  new_clamped :: "bool \<Rightarrow> u16 \<Rightarrow> bool \<Rightarrow> u16 \<Rightarrow> 'p"
  end_marker :: 'p
  transmit :: "'c \<Rightarrow> 'p list \<Rightarrow> 't option"
  await_tx :: "'t \<Rightarrow> 'c \<times> bool"

definition MAX_LEN :: u16
  where "MAX_LEN = 0x7FFF"

datatype TruncationSource = TransmitStart nat | WaitError nat | BurstTooLongAt nat

record ('p, 'c) RmtStepSink =
  channels :: "'c option list"
  dir_levels :: "bool list"
  pulse_ticks :: u32
  dir_setup_us :: u32
  last_dir :: "DirState option"
  scratch :: "'p list list"
  burst_seq :: u32
  last_error :: "TruncationSource option"

definition RmtStepSink_new ::
    "('p, 'c, 't) rmt_hal \<Rightarrow> 'c list \<Rightarrow> bool list \<Rightarrow> 'f MotionConfig \<Rightarrow> u32 \<Rightarrow> ('p, 'c) RmtStepSink"
  where "RmtStepSink_new hal chans levels cfg setup_us =
    \<lparr>channels = map Some chans, dir_levels = levels, pulse_ticks = step_pulse_ticks cfg, dir_setup_us = setup_us,
     last_dir = None, scratch = replicate AXES (replicate (MAX_SYMBOLS_PER_BURST + 1) (end_marker hal)),
     burst_seq = 0, last_error = None\<rparr>"

definition clamp_len :: "u32 \<Rightarrow> u16"
  where "clamp_len ticks = (if ucast MAX_LEN < ticks then MAX_LEN else ucast ticks)"

definition encode_symbol :: "('p, 'c, 't) rmt_hal \<Rightarrow> u32 \<Rightarrow> nat \<Rightarrow> StepEvent \<Rightarrow> 'p"
  where "encode_symbol hal pulse axis event =
    (let period = max (period_ticks event) (pulse + 1) in
     if step event ! axis then new_clamped hal True (clamp_len pulse) False (clamp_len (period - pulse))
     else let (a, b) = silent_symbol_halves period
          in new_clamped hal False (clamp_len a) False (clamp_len b))"

definition encode_channel :: "('p, 'c, 't) rmt_hal \<Rightarrow> nat \<Rightarrow> StepEvent list \<Rightarrow> ('p, 'c) RmtStepSink \<Rightarrow> ('p, 'c) RmtStepSink"
  where "encode_channel hal axis ticks k =
    (let old = scratch k ! axis;
         new = map (encode_symbol hal (pulse_ticks k) axis) ticks @ drop (length ticks) old
     in k\<lparr>scratch := (scratch k)[axis := new[length ticks := end_marker hal]]\<rparr>)"

definition rmt_set_direction :: "('p, 'c) RmtStepSink set_dir"
  where "rmt_set_direction d k = (k\<lparr>dir_levels := dir d, last_dir := Some d\<rparr>, Inr ())"

text \<open>Starting the transmissions takes each channel out of its slot; a failed start abandons the burst.\<close>

fun start_all ::
    "('p, 'c, 't) rmt_hal \<Rightarrow> nat \<Rightarrow> nat list \<Rightarrow> (nat \<times> 't) list \<Rightarrow> ('p, 'c) RmtStepSink \<Rightarrow>
     (('p, 'c) RmtStepSink, StepError, (nat \<times> 't) list) outcome"
  where
    "start_all hal len [] txns k = (k, Inr txns)"
  | "start_all hal len (axis # rest) txns k =
      (case channels k ! axis of
         None \<Rightarrow> (k\<lparr>last_error := Some (TransmitStart axis)\<rparr>, Inl Transport)
       | Some channel \<Rightarrow>
           let k = k\<lparr>channels := (channels k)[axis := None]\<rparr> in
           case transmit hal channel (take len (scratch k ! axis)) of
             None \<Rightarrow> (k\<lparr>last_error := Some (TransmitStart axis)\<rparr>, Inl Transport)
           | Some txn \<Rightarrow> start_all hal len rest (txns @ [(axis, txn)]) k)"

fun wait_all ::
    "('p, 'c, 't) rmt_hal \<Rightarrow> (nat \<times> 't) list \<Rightarrow> StepError + unit \<Rightarrow> ('p, 'c) RmtStepSink \<Rightarrow>
     (('p, 'c) RmtStepSink, StepError, unit) outcome"
  where
    "wait_all hal [] result k = (k, result)"
  | "wait_all hal ((axis, txn) # rest) result k =
      (let (channel, ok) = await_tx hal txn; k = k\<lparr>channels := (channels k)[axis := Some channel]\<rparr> in
       if ok then wait_all hal rest result k
       else wait_all hal rest (Inl Transport) (k\<lparr>last_error := Some (WaitError axis)\<rparr>))"

definition rmt_emit_burst :: "('p, 'c, 't) rmt_hal \<Rightarrow> ('p, 'c) RmtStepSink emit"
  where "rmt_emit_burst hal ticks k =
    (if MAX_SYMBOLS_PER_BURST < length ticks then (k\<lparr>last_error := Some (BurstTooLongAt 0)\<rparr>, Inl BurstTooLong)
     else if ticks = [] then (k, Inr ())
     else
       let k = k\<lparr>burst_seq := burst_seq k + 1\<rparr>;
           k = encode_channel hal 0 ticks k;
           k = encode_channel hal 1 ticks k;
           k = encode_channel hal 2 ticks k
       in and_then (start_all hal (length ticks + 1) [0..<AXES] [] k)
            (\<lambda>txns. wait_all hal txns (Inr ())))"

section \<open>The counting sink\<close>

text \<open>
  \<^verbatim>\<open>reset_loads\<close> are the values the coming loads of \<^verbatim>\<open>MOTION_RESET_PENDING\<close> return, \<^verbatim>\<open>False\<close> when the
  list is used up; \<^verbatim>\<open>live_position\<close> stands for the atomics of \<^verbatim>\<open>LIVE_POSITION\<close>.
\<close>

record ('p, 'c) CountingSink =
  inner :: "('p, 'c) RmtStepSink"
  live_counter :: StepCounter
  publish_per_burst :: bool
  live_position :: "i32 list"
  reset_loads :: "bool list"

definition publish_live_position :: "('p, 'c) CountingSink \<Rightarrow> ('p, 'c) CountingSink"
  where "publish_live_position s = s\<lparr>live_position := position (live_counter s)\<rparr>"

definition counting_set_direction :: "('p, 'c) CountingSink set_dir"
  where "counting_set_direction d s =
    (let (k, r) = rmt_set_direction d (inner s)
     in (s\<lparr>inner := k, live_counter := counter_set_direction d (live_counter s)\<rparr>, r))"

definition counting_emit_burst :: "('p, 'c, 't) rmt_hal \<Rightarrow> ('p, 'c) CountingSink emit"
  where "counting_emit_burst hal ticks s =
    (let pending = reset_loads s \<noteq> [] \<and> hd (reset_loads s); s = s\<lparr>reset_loads := tl (reset_loads s)\<rparr> in
     if pending then (s, Inl Transport)
     else case rmt_emit_burst hal ticks (inner s) of
            (k, Inl e) \<Rightarrow> (s\<lparr>inner := k\<rparr>, Inl e)
          | (k, Inr _) \<Rightarrow>
              let s = s\<lparr>inner := k, live_counter := fold advance ticks (live_counter s)\<rparr>
              in (if publish_per_burst s then publish_live_position s else s, Inr ()))"

interpretation counting: counted_sink counting_set_direction "counting_emit_burst hal" live_counter for hal
  by unfold_locales
    (auto simp: counting_set_direction_def rmt_set_direction_def counting_emit_burst_def publish_live_position_def
      Let_def split: prod.splits sum.splits if_splits)

section \<open>One block, one probe\<close>

text \<open>
  The executor around one block: it latches the direction on the counter, runs the generator through a
  publishing counting sink and turns a step-output failure into a motion fault.  The live overrides are
  the two percentages; \<^verbatim>\<open>fraction\<close> divides by 100, \<^verbatim>\<open>squared\<close> and \<^verbatim>\<open>infinity\<close> are f32 operations.
\<close>

definition run_block ::
    "('p, 'c, 't) rmt_hal \<Rightarrow> ('f \<Rightarrow> bool) \<Rightarrow> ('f Block \<Rightarrow> 'f \<Rightarrow> 'f \<Rightarrow> 'f \<Rightarrow> nat \<Rightarrow> u32 option) \<Rightarrow>
     (u16 \<Rightarrow> 'f) \<Rightarrow> ('f \<Rightarrow> 'f) \<Rightarrow> 'f \<Rightarrow> u16 \<times> u16 \<Rightarrow> 'f MotionConfig \<Rightarrow> 'f Block \<Rightarrow> 'f \<Rightarrow> 'f \<Rightarrow>
     ('p, 'c) CountingSink \<Rightarrow> ('p, 'c) CountingSink \<times> bool"
  where "run_block hal nonpositive rate fraction squared infinity overrides cfg block exit_speed_sq max_rate s =
    (let (feed, rapid_pct) = overrides;
         override_scale = fraction (if rapid block then rapid_pct else feed);
         max_speed_sq = (if rapid block then infinity else squared max_rate);
         s = s\<lparr>live_counter := counter_set_direction (direction_of block) (live_counter s), publish_per_burst := True\<rparr>
     in case run_block_scaled nonpositive rate counting_set_direction (counting_emit_burst hal) cfg block
               exit_speed_sq override_scale max_speed_sq s of
          (s, Inr _) \<Rightarrow> (s, False)
        | (s, Inl _) \<Rightarrow>
            (s\<lparr>inner := (inner s)\<lparr>last_error := None\<rparr>\<rparr>, last_error (inner s) \<noteq> None))"

definition probe_block_to :: "'f \<Rightarrow> 'f \<Rightarrow> i32 list \<Rightarrow> i32 list \<Rightarrow> 'f Block"
  where "probe_block_to zero one start target = placeholder zero one (map2 (-) target start)"

record ProbeResult =
  pr_triggered :: bool
  stop_steps :: "i32 list"
  already_at_edge :: bool

definition firmware_probe ::
    "('p, 'c, 't) rmt_hal \<Rightarrow> 'f \<Rightarrow> 'f \<Rightarrow> ('f \<Rightarrow> bool) \<Rightarrow> (('p, 'c) CountingSink edge) \<Rightarrow> 'f MotionConfig \<Rightarrow> i32 list \<Rightarrow> u32 \<Rightarrow>
     ('p, 'c) CountingSink \<Rightarrow> ('p, 'c) CountingSink \<times> ProbeResult"
  where "firmware_probe hal zero one nonpositive at_stop_edge cfg target period s =
    (let block = probe_block_to zero one (position (live_counter s)) target;
         s = s\<lparr>publish_per_burst := True\<rparr>;
         (s, outcome) = run_probe nonpositive counting_set_direction (counting_emit_burst hal) at_stop_edge cfg block period s;
         stop = position (live_counter s)
     in case outcome of
          Inr out \<Rightarrow>
            if triggered out \<and> steps_emitted out = 0
            then (s, \<lparr>pr_triggered = False, stop_steps = stop, already_at_edge = True\<rparr>)
            else (s, \<lparr>pr_triggered = triggered out, stop_steps = stop, already_at_edge = False\<rparr>)
        | Inl _ \<Rightarrow> (s, \<lparr>pr_triggered = False, stop_steps = stop, already_at_edge = False\<rparr>))"

end
