(* ===== verification/Motion_Props.thy ===== *)
theory Motion_Props
  imports Rmt_Sink
begin

text \<open>
  The properties of the motion path: the live position of a block at every burst boundary, the stop
  of a probe at first contact, the symbols of a burst, and the fourth axis.
\<close>

section \<open>Where a probe stops\<close>

text \<open>The world as the probe's \<^verbatim>\<open>k\<close>-th sample finds it.\<close>

fun probe_world :: "'s emit \<Rightarrow> 's edge \<Rightarrow> (nat \<Rightarrow> StepEvent) \<Rightarrow> 's \<Rightarrow> nat \<Rightarrow> 's"
  where
    "probe_world emit edge event s 0 = s"
  | "probe_world emit edge event s (Suc k) = probe_world emit edge (event \<circ> Suc) (fst (emit [event 0] (fst (edge s)))) k"

lemma probe_ticks_stops:
  assumes "line_counts counts dominant"
  shows "probe_ticks emit edge dominant counts period n (line_error counts dominant k) emitted s = (s', Inr out) \<Longrightarrow>
    \<exists>j \<le> n. steps_emitted out = emitted + of_nat j \<and>
      (let w = probe_world emit edge (\<lambda>i. \<lparr>step = line_mask counts dominant (k + i), period_ticks = period\<rparr>) s
       in (\<forall>i < j. \<not> snd (edge (w i))) \<and> edge (w j) = (s', triggered out) \<and> (\<not> triggered out \<longrightarrow> j = n))"
proof (induction n arbitrary: k emitted s)
  case 0
  then show ?case by (auto split: prod.splits)
next
  case (Suc n)
  note tick = tick_on_line [OF assms, of k]
  let ?event = "\<lambda>k i. \<lparr>step = line_mask counts dominant (k + i), period_ticks = period\<rparr>"
  obtain s1 hit where e: "edge s = (s1, hit)" by (cases "edge s")
  show ?case
  proof (cases hit)
    case True
    with Suc.prems e show ?thesis by (intro exI [of _ 0]) auto
  next
    case False
    obtain s2 x where m: "emit [?event k 0] s1 = (s2, x)" by (cases "emit [?event k 0] s1")
    from Suc.prems False have "and_then (sink_error (s2, x))
        (\<lambda>_. probe_ticks emit edge dominant counts period n (line_error counts dominant (Suc k)) (emitted + 1)) = (s', Inr out)"
      using m by (simp add: e tick)
    then have "probe_ticks emit edge dominant counts period n (line_error counts dominant (Suc k)) (emitted + 1) s2 = (s', Inr out)"
      by (cases x) simp_all
    from Suc.IH [OF this] obtain j where j: "j \<le> n" "steps_emitted out = emitted + 1 + of_nat j"
      "\<forall>i < j. \<not> snd (edge (probe_world emit edge (?event (Suc k)) s2 i))"
      "edge (probe_world emit edge (?event (Suc k)) s2 j) = (s', triggered out)" "\<not> triggered out \<longrightarrow> j = n"
      by (auto simp: Let_def)
    have shift: "?event k \<circ> Suc = ?event (Suc k)" by (rule ext) simp
    have "\<not> snd (edge (probe_world emit edge (?event k) s i))" if "i < Suc j" for i
      using that j(3) e False m shift by (cases i) simp_all
    then have "\<forall>i < Suc j. \<not> snd (edge (probe_world emit edge (?event k) s i))" by blast
    moreover have "edge (probe_world emit edge (?event k) s (Suc j)) = (s', triggered out)"
      using j(4) e m shift by simp
    moreover have "emitted + 1 + of_nat j = emitted + of_nat (Suc j)" by simp
    ultimately show ?thesis using j(1,2,5) unfolding Let_def
      by (intro exI [of _ "Suc j"]) (simp only: Suc_le_mono nat.inject simp_thms)
  qed
qed

section \<open>Symbols\<close>

lemma unat_halves:
  assumes "2 \<le> p"
  shows "case silent_symbol_halves p of (a, b) \<Rightarrow> unat a = unat p div 2 \<and> unat b = unat p - unat p div 2"
proof -
  have "2 \<le> unat p" using assms by (simp add: word_le_nat_alt)
  moreover have d: "unat (p div 2) = unat p div 2" by (simp add: unat_div)
  ultimately have "1 \<le> unat (p div 2)" using div_le_mono [of 2 "unat p" 2] by simp
  then have "max (p div 2) 1 = p div 2" by (intro max_absorb1) (simp only: word_le_nat_alt unat_1)
  moreover have "max p 2 = p" using assms by (simp add: max_absorb1)
  moreover have "unat (p - p div 2) = unat p - unat p div 2"
    using d by (subst unat_sub) (simp_all add: word_le_nat_alt)
  ultimately show ?thesis using d by (simp add: silent_symbol_halves_def Let_def)
qed

lemma clamp_len_exact: "unat w \<le> 0x7FFF \<Longrightarrow> unat (clamp_len w) = unat w"
  by (simp add: clamp_len_def MAX_LEN_def word_less_nat_alt unsigned_ucast_eq take_bit_nat_eq_self)

section \<open>The fourth axis\<close>

text \<open>A burst with the fourth axis silenced.\<close>

definition without_a :: "StepEvent list \<Rightarrow> StepEvent list"
  where "without_a ticks = map (\<lambda>ev. ev\<lparr>step := (step ev)[3 := False]\<rparr>) ticks"

lemma encode_channel_without_a:
  "axis \<noteq> 3 \<Longrightarrow> encode_channel hal axis (without_a ticks) k = encode_channel hal axis ticks k"
proof -
  assume "axis \<noteq> 3"
  then have "encode_symbol hal p axis (ev\<lparr>step := (step ev)[3 := False]\<rparr>) = encode_symbol hal p axis ev" for p ev
    by (simp add: encode_symbol_def)
  then show ?thesis by (simp add: encode_channel_def without_a_def comp_def)
qed

section \<open>Properties\<close>

text \<open>
  C8: the live position never leaves the commanded line.  However a block ends (all ticks emitted, a
  soft reset between bursts, a step-output failure) the live position is the one the line from start
  to target has after some number k of ticks, floor(k * count / total) steps on each axis, where k is
  a whole number of full bursts if the block was cut short; a block that ends without an error has
  emitted one tick per dominant-axis step and left the position exactly at the target.
\<close>

theorem block_moves_on_the_line:
  assumes "length (steps block) = AXES"
    and "step_event_count block = unsigned_abs (steps block ! dominant_axis (steps block))"
    and "length (position (live_counter s)) = AXES" and "counter_in_range (steps block) (live_counter s)"
    and "run_block_scaled nonpositive rate counting_set_direction (counting_emit_burst hal) cfg block
      exit_sq scale ceiling s = (s', r)"
  shows "\<exists>k \<le> unat (step_event_count block).
    (\<forall>axis < AXES. sint (position (live_counter s') ! axis) = sint (position (live_counter s) ! axis) +
      sgn (sint (steps block ! axis)) *
        (int k * \<bar>sint (steps block ! axis)\<bar> div uint (step_event_count block))) \<and>
    (case r of
       Inl _ \<Rightarrow> MAX_SYMBOLS_PER_BURST dvd k
     | Inr n \<Rightarrow> n = step_event_count block \<and>
         (\<forall>axis < AXES. sint (position (live_counter s') ! axis) =
           sint (position (live_counter s) ! axis) + sint (steps block ! axis)))"
proof -
  let ?ds = "steps block"
  have ne: "?ds \<noteq> []" using assms(1) by (auto simp: AXES_def)
  note dom = dominant_axis_max [OF ne]
  have taken: "taken_steps (abs_steps ?ds) (dominant_axis ?ds) k axis =
      int k * \<bar>sint (?ds ! axis)\<bar> div uint (step_event_count block)" if "axis < AXES" for k axis
    using that assms(1,2) dom by (simp add: taken_steps_def uint_unsigned_abs)
  obtain k where k: "k \<le> unat (step_event_count block)" "on_line ?ds (live_counter s) k (live_counter s')"
    "ended_at (unat (step_event_count block)) (step_event_count block) k r"
    using counting.run_block_counts [OF assms(1-4) assms(5) [symmetric]] by auto
  have all: "sint (position (live_counter s') ! axis) = sint (position (live_counter s) ! axis) + sint (?ds ! axis)"
    if "k = unat (step_event_count block)" "axis < AXES" for axis
  proof (cases "step_event_count block = 0")
    case True
    with assms(1,2) dom that(2) have "unsigned_abs (?ds ! axis) = 0" by simp
    then have "sint (?ds ! axis) = 0" using uint_unsigned_abs [of "?ds ! axis"] by simp
    then show ?thesis using k(2) that(2) by (simp add: on_line_def)
  next
    case False
    have "taken_steps (abs_steps ?ds) (dominant_axis ?ds) k axis = \<bar>sint (?ds ! axis)\<bar>"
      using taken_all [OF line_counts_abs_steps [OF assms(1)], of k axis] False that assms(1,2) dom
      by (simp add: uint_unsigned_abs [symmetric] uint_nat [symmetric])
    then show ?thesis using k(2) that(2) by (simp add: on_line_def sgn_mult_abs)
  qed
  from k(2) have "\<forall>axis < AXES. sint (position (live_counter s') ! axis) = sint (position (live_counter s) ! axis) +
      sgn (sint (?ds ! axis)) * (int k * \<bar>sint (?ds ! axis)\<bar> div uint (step_event_count block))"
    by (simp add: on_line_def taken)
  with k(1,3) all show ?thesis by (intro exI [of _ k]) (cases r; simp)
qed

text \<open>An RMT whose transmissions all succeed, its symbols kept as they are built.\<close>

definition plain_hal :: "(bool \<times> u16 \<times> bool \<times> u16, nat, nat) rmt_hal"
  where "plain_hal = \<lparr>new_clamped = (\<lambda>l a m b. (l, a, m, b)), end_marker = (False, 0, False, 0),
    transmit = (\<lambda>c symbols. Some c), await_tx = (\<lambda>t. (t, True))\<rparr>"

definition plain_cfg :: "int MotionConfig"
  where "plain_cfg = \<lparr>tick_hz = 1000000, step_pulse_ticks = 10, min_low_ticks = 2\<rparr>"

definition plain_sink :: "bool list \<Rightarrow> (bool \<times> u16 \<times> bool \<times> u16, nat) CountingSink"
  where "plain_sink loads =
    \<lparr>inner = RmtStepSink_new plain_hal [0, 1, 2, 3] (replicate AXES False) plain_cfg 5, live_counter = StepCounter_new,
     publish_per_burst = True, live_position = replicate AXES 0, reset_loads = loads\<rparr>"

theorem block_moves_on_the_line_witness:
  "let r = run_block_scaled (\<lambda>hz. hz = 0) (\<lambda>_ _ _ _ _. Some 50) counting_set_direction (counting_emit_burst plain_hal)
      plain_cfg (placeholder 0 1 [100, - 40, 0, 7]) 0 1 9 (plain_sink [False, True])
   in \<exists>k \<le> 100. sint (position (live_counter (fst r)) ! 1) = - (int k * 40 div 100)"
proof -
  let ?b = "placeholder 0 1 [100, - 40, 0, 7] :: int Block"
  have steps: "steps ?b = [100, - 40, 0, 7]" by (simp add: placeholder_def)
  have count: "step_event_count ?b = 100"
    by (simp add: placeholder_def unsigned_abs_def word_sless_alt max_def)
  have dom: "dominant_axis [100, - 40, 0, 7 :: i32] = 0"
    by (simp add: dominant_axis_def unsigned_abs_def word_sless_alt)
  have axes: "axis < AXES \<longleftrightarrow> axis = 0 \<or> axis = 1 \<or> axis = 2 \<or> axis = 3" for axis by (auto simp: AXES_def)
  have range: "counter_in_range (steps ?b) (live_counter (plain_sink [False, True]))"
    unfolding counter_in_range_def axes by (auto simp: steps plain_sink_def StepCounter_new_def AXES_def)
  have "length (steps ?b) = AXES" by (simp add: steps AXES_def)
  moreover have "step_event_count ?b = unsigned_abs (steps ?b ! dominant_axis (steps ?b))"
    by (simp add: count steps dom unsigned_abs_def word_sless_alt)
  moreover have "length (position (live_counter (plain_sink [False, True]))) = AXES"
    by (simp add: plain_sink_def StepCounter_new_def)
  ultimately obtain k where k: "k \<le> unat (step_event_count ?b)"
    "\<forall>axis < AXES. sint (position (live_counter (fst (run_block_scaled (\<lambda>hz. hz = 0) (\<lambda>_ _ _ _ _. Some 50)
        counting_set_direction (counting_emit_burst plain_hal) plain_cfg ?b 0 1 9 (plain_sink [False, True])))) ! axis) =
      sint (position (live_counter (plain_sink [False, True])) ! axis) + sgn (sint (steps ?b ! axis)) *
        (int k * \<bar>sint (steps ?b ! axis)\<bar> div uint (step_event_count ?b))"
    using block_moves_on_the_line [OF _ _ _ range surjective_pairing] by blast
  have "1 < AXES" by (simp add: AXES_def)
  with k show ?thesis
    unfolding Let_def by (intro exI [of _ k] conjI)
       (simp_all add: Let_def count steps plain_sink_def StepCounter_new_def AXES_def sgn_if)
qed

text \<open>
  C24: a probe stops at first contact, on its line.  When a probe run returns, there is a number j of
  steps such that none of the first j samples saw the stop edge, the sample after j steps is the last one
  taken and decides the outcome, exactly j steps were emitted, a miss means the full travel, and the
  position is the line's after j ticks.
\<close>

theorem probe_stops_at_first_contact:
  assumes "length (steps block) = AXES"
    and "step_event_count block = unsigned_abs (steps block ! dominant_axis (steps block))" "step_event_count block \<noteq> 0"
    and "length (position (live_counter s)) = AXES" and "counter_in_range (steps block) (live_counter s)"
    and "\<And>s. live_counter (fst (edge s)) = live_counter s"
    and "run_probe nonpositive counting_set_direction (counting_emit_burst hal) edge cfg block period s = (s', Inr out)"
    and "ticks = clamp period (config_min_period_ticks cfg)
      (max (RMT_MAX_FIELD_LEN + step_pulse_ticks cfg) (config_min_period_ticks cfg))"
    and "w = probe_world (counting_emit_burst hal) edge
      (\<lambda>k. \<lparr>step = line_mask (abs_steps (steps block)) (dominant_axis (steps block)) k, period_ticks = ticks\<rparr>)
      (fst (counting_set_direction (direction_of block) s))"
  shows "\<exists>j \<le> unat (step_event_count block).
    steps_emitted out = of_nat j \<and> (\<forall>i < j. \<not> snd (edge (w i))) \<and> edge (w j) = (s', triggered out) \<and>
    (\<not> triggered out \<longrightarrow> j = unat (step_event_count block)) \<and>
    (\<forall>axis < AXES. sint (position (live_counter s') ! axis) = sint (position (live_counter s) ! axis) +
      sgn (sint (steps block ! axis)) *
        (int j * \<bar>sint (steps block ! axis)\<bar> div uint (step_event_count block)))"
proof -
  let ?ds = "steps block"
  let ?n = "unat (step_event_count block)"
  let ?counts = "abs_steps ?ds" and ?dom = "dominant_axis ?ds"
  have ne: "?ds \<noteq> []" using assms(1) by (auto simp: AXES_def)
  note dom = dominant_axis_max [OF ne]
  have line: "line_counts ?counts ?dom" using assms(1-3) by (intro line_counts_abs_steps) auto
  obtain s1 where d: "counting_set_direction (direction_of block) s = (s1, Inr ())"
    by (auto simp: counting_set_direction_def rmt_set_direction_def)
  have c1: "live_counter s1 = counter_set_direction (direction_of block) (live_counter s)"
    using counting.direction [of "direction_of block" s] d by simp
  have run: "probe_ticks (counting_emit_burst hal) edge ?dom ?counts ticks ?n (line_error ?counts ?dom 0) 0 s1 = (s', Inr out)"
    using assms(3,7) d
    by (simp add: run_probe_def Let_def assms(8) [symmetric] line_error_start [symmetric] split: if_splits)
  obtain j where j: "j \<le> ?n" "steps_emitted out = of_nat j" "\<forall>i < j. \<not> snd (edge (w i))"
    "edge (w j) = (s', triggered out)" "\<not> triggered out \<longrightarrow> j = ?n"
    using probe_ticks_stops [OF line run] d by (auto simp: assms(9) Let_def)
  obtain j' where j': "j' \<le> ?n" "steps_emitted out = of_nat j'"
    "live_counter s' = fold advance (line_events ?counts ?dom (\<lambda>_. ticks) [0..<0 + j']) (live_counter s1)"
    using counting.probe_ticks_counts [where edge = edge, OF line assms(6) run [symmetric]] by auto
  have "j < 2 ^ 32" "j' < 2 ^ 32"
    using j(1) j'(1) unsigned_less [of "step_event_count block", where 'a = nat] by simp_all
  then have "unat (of_nat j :: u32) = j" "unat (of_nat j' :: u32) = j'" by (simp_all add: of_nat_inverse [OF refl])
  then have same: "j' = j" using j(2) j'(2) by metis
  have "?counts ! ?dom = uint (step_event_count block)" using assms(1,2) dom by (simp add: uint_unsigned_abs)
  then have "int j \<le> ?counts ! ?dom" using j(1) by (metis of_nat_le_iff uint_nat)
  then have "on_line ?ds (live_counter s1) j (live_counter s')"
    using advance_on_line [OF line assms(1), of "live_counter s1" j "\<lambda>_. ticks"] assms(4,5) j'(3) same c1
    by (simp add: counter_set_direction_def direction_of_def counter_in_range_def Let_def)
  then have "\<forall>axis < AXES. sint (position (live_counter s') ! axis) = sint (position (live_counter s) ! axis) +
      sgn (sint (?ds ! axis)) * (int j * \<bar>sint (?ds ! axis)\<bar> div uint (step_event_count block))"
    using assms(1,2) dom by (simp add: on_line_def c1 counter_set_direction_def taken_steps_def uint_unsigned_abs)
  with j show ?thesis by blast
qed

lemma plain_probe_block:
  "steps (placeholder 0 1 [0, 0, - 2, 0] :: int Block) = [0, 0, - 2, 0]"
  "step_event_count (placeholder 0 1 [0, 0, - 2, 0] :: int Block) = 2"
  "dominant_axis [0, 0, - 2, 0 :: i32] = 2"
  by (simp_all add: placeholder_def dominant_axis_def unsigned_abs_def word_sless_alt max_def)

theorem probe_stops_at_first_contact_witness:
  "let r = run_probe (\<lambda>hz. hz = 0) counting_set_direction (counting_emit_burst plain_hal) (\<lambda>s. (s, False)) plain_cfg
      (placeholder 0 1 [0, 0, - 2, 0]) 400 (plain_sink [])
   in \<exists>out. snd r = Inr out \<and> steps_emitted out = 2 \<and> sint (position (live_counter (fst r)) ! 2) = - 2"
proof -
  let ?b = "placeholder 0 1 [0, 0, - 2, 0] :: int Block"
  let ?r = "run_probe (\<lambda>hz. hz = 0) counting_set_direction (counting_emit_burst plain_hal) (\<lambda>s. (s, False)) plain_cfg
      ?b 400 (plain_sink [])"
  have axes: "axis < AXES \<longleftrightarrow> axis = 0 \<or> axis = 1 \<or> axis = 2 \<or> axis = 3" for axis by (auto simp: AXES_def)
  have "case snd ?r of Inl _ \<Rightarrow> False | Inr out \<Rightarrow> \<not> triggered out" by code_simp
  then have "\<exists>out. snd ?r = Inr out \<and> \<not> triggered out" by (cases "snd ?r") auto
  then obtain out where out: "snd ?r = Inr out" "\<not> triggered out" by blast
  then have r: "?r = (fst ?r, Inr out)" by (simp add: prod_eq_iff)
  have "counter_in_range (steps ?b) (live_counter (plain_sink []))"
    unfolding counter_in_range_def axes by (auto simp: plain_probe_block plain_sink_def StepCounter_new_def AXES_def)
  moreover have "length (steps ?b) = AXES" "length (position (live_counter (plain_sink []))) = AXES"
    by (simp_all add: plain_probe_block AXES_def plain_sink_def StepCounter_new_def)
  moreover have "step_event_count ?b = unsigned_abs (steps ?b ! dominant_axis (steps ?b))" "step_event_count ?b \<noteq> 0"
    by (simp_all add: plain_probe_block unsigned_abs_def word_sless_alt)
  ultimately obtain j where "steps_emitted out = of_nat j" "j = unat (step_event_count ?b)"
    "\<forall>axis < AXES. sint (position (live_counter (fst ?r)) ! axis) = sint (position (live_counter (plain_sink [])) ! axis) +
      sgn (sint (steps ?b ! axis)) * (int j * \<bar>sint (steps ?b ! axis)\<bar> div uint (step_event_count ?b))"
    using probe_stops_at_first_contact [OF _ _ _ _ _ _ r refl refl] out(2) by fastforce
  moreover have "2 < AXES" by (simp add: AXES_def)
  ultimately show ?thesis
    using out(1) unfolding Let_def
    by (simp add: plain_probe_block plain_sink_def StepCounter_new_def AXES_def)
qed

text \<open>
  every symbol keeps its tick's period and is no end marker.  For a timing configuration whose pulse
  and low times are at least one tick and fit the 15-bit field, whatever the velocity asks for, the symbol of
  a tick on a channel has two non-zero lengths that fit the field and add up to the tick's period, and
  its first level is high exactly when the axis steps.
\<close>

theorem symbols_keep_their_period:
  assumes "1 \<le> step_pulse_ticks cfg" and "step_pulse_ticks cfg \<le> 0x7FFF"
    and "1 \<le> min_low_ticks cfg" and "min_low_ticks cfg \<le> 0x7FFF"
    and "period_ticks event = timing_period (StepTiming_for_block cfg) rounded"
  shows "\<exists>a b. encode_symbol hal (step_pulse_ticks cfg) axis event = new_clamped hal (step event ! axis) a False b \<and>
    a \<noteq> 0 \<and> b \<noteq> 0 \<and> unat a \<le> 0x7FFF \<and> unat b \<le> 0x7FFF \<and> unat a + unat b = unat (period_ticks event)"
proof -
  let ?p = "period_ticks event" and ?pulse = "step_pulse_ticks cfg"
  have sizes: "1 \<le> unat ?pulse" "unat ?pulse \<le> 0x7FFF" "1 \<le> unat (min_low_ticks cfg)" "unat (min_low_ticks cfg) \<le> 0x7FFF"
    using assms(1-4) by (simp_all add: word_le_nat_alt)
  have lo: "unat (config_min_period_ticks cfg) = unat ?pulse + unat (min_low_ticks cfg)"
    using sizes unfolding config_min_period_ticks_def by (subst unat_word_ariths) simp
  have hi: "unat (RMT_MAX_FIELD_LEN + ?pulse) = 0x7FFF + unat ?pulse"
    using sizes unfolding RMT_MAX_FIELD_LEN_def by (subst unat_word_ariths) simp
  have max: "max (RMT_MAX_FIELD_LEN + ?pulse) (config_min_period_ticks cfg) = RMT_MAX_FIELD_LEN + ?pulse"
    using sizes lo hi by (intro max_absorb1) (simp add: word_le_nat_alt)
  have "config_min_period_ticks cfg \<le> ?p \<and> ?p \<le> RMT_MAX_FIELD_LEN + ?pulse"
    using sizes lo hi
    by (auto simp: assms(5) timing_period_def StepTiming_for_block_def Let_def max clamp_def word_le_nat_alt
        word_less_nat_alt not_less split: option.splits)
  then have p: "unat ?pulse + 1 \<le> unat ?p" "unat ?p \<le> 0x7FFF + unat ?pulse"
    using sizes lo hi by (simp_all add: word_le_nat_alt)
  have "unat (?pulse + 1) = unat ?pulse + 1" using sizes by (subst unat_word_ariths) simp
  then have floor: "max ?p (?pulse + 1) = ?p" using p(1) by (intro max_absorb1) (simp add: word_le_nat_alt)
  show ?thesis
  proof (cases "step event ! axis")
    case True
    have "unat (?p - ?pulse) = unat ?p - unat ?pulse" using p(1) by (subst unat_sub) (simp_all add: word_le_nat_alt)
    with p sizes True floor show ?thesis
      using clamp_len_exact [of ?pulse] clamp_len_exact [of "?p - ?pulse"]
      by (intro exI [of _ "clamp_len ?pulse"] exI [of _ "clamp_len (?p - ?pulse)"])
         (auto simp: encode_symbol_def Let_def unat_eq_zero [symmetric])
  next
    case False
    obtain a b where h: "silent_symbol_halves ?p = (a, b)" by (cases "silent_symbol_halves ?p")
    have "2 \<le> ?p" using p(1) sizes by (simp add: word_le_nat_alt)
    from unat_halves [OF this] h have "unat a = unat ?p div 2" "unat b = unat ?p - unat ?p div 2" by simp_all
    with p sizes False floor h show ?thesis
      using clamp_len_exact [of a] clamp_len_exact [of b]
      by (intro exI [of _ "clamp_len a"] exI [of _ "clamp_len b"])
         (auto simp: encode_symbol_def Let_def unat_eq_zero [symmetric])
  qed
qed

theorem symbols_keep_their_period_witness:
  "\<exists>a b. encode_symbol plain_hal 10 0 \<lparr>step = [False, True, False, False], period_ticks = 32777\<rparr> = (False, a, False, b) \<and>
    unat a + unat b = 32777"
proof -
  have "32777 = timing_period (StepTiming_for_block plain_cfg) (Some 90000)"
    by (simp add: timing_period_def StepTiming_for_block_def plain_cfg_def config_min_period_ticks_def
        RMT_MAX_FIELD_LEN_def clamp_def max_def Let_def)
  then show ?thesis
    using symbols_keep_their_period [of plain_cfg "\<lparr>step = [False, True, False, False], period_ticks = 32777\<rparr>"
      "Some 90000" plain_hal 0] by (auto simp: plain_cfg_def plain_hal_def)
qed

text \<open>
  the fourth axis moves only on paper.  The RMT sink does exactly the same with a burst whether or not
  the rotary axis A steps in it, for every hardware and every state, since only the buffers of the first
  three channels are ever encoded; yet every step of A in a burst that was accepted is counted into
  the live position.
\<close>

theorem fourth_axis_never_pulses:
  "rmt_emit_burst hal (without_a ticks) k = rmt_emit_burst hal ticks k \<and>
   position (live_counter (fst (counting_emit_burst hal [ev] s))) ! 3 =
     (if snd (counting_emit_burst hal [ev] s) = Inr () \<and> step ev ! 3
      then saturating_step (counter_dir (live_counter s) ! 3) (position (live_counter s) ! 3)
      else position (live_counter s) ! 3)"
proof
  show "rmt_emit_burst hal (without_a ticks) k = rmt_emit_burst hal ticks k"
    by (simp add: rmt_emit_burst_def encode_channel_without_a Let_def) (simp add: without_a_def)
  show "position (live_counter (fst (counting_emit_burst hal [ev] s))) ! 3 =
     (if snd (counting_emit_burst hal [ev] s) = Inr () \<and> step ev ! 3
      then saturating_step (counter_dir (live_counter s) ! 3) (position (live_counter s) ! 3)
      else position (live_counter s) ! 3)"
  proof (cases "snd (counting_emit_burst hal [ev] s)")
    case (Inl e)
    with counting.refused [OF Inl] show ?thesis by simp
  next
    case (Inr u)
    then have "live_counter (fst (counting_emit_burst hal [ev] s)) = advance ev (live_counter s)"
      using counting.passed [of hal "[ev]" s] by simp
    with Inr show ?thesis by (simp add: advance_def AXES_def)
  qed
qed

end
