(* ===== verification/Homing.thy ===== *)
theory Homing
  imports Rmt_Sink
begin

text \<open>
  The limit switches and the homing cycle: the trigger sense and the inputs' configuration of
  \<^verbatim>\<open>firmware-core/src/hal_traits.rs\<close>, the one-axis homing cycle and the hard-limit decision of
  \<^verbatim>\<open>firmware-core/src/homing.rs\<close>, and the executor's use of both in \<^verbatim>\<open>firmware/src/motion.rs\<close>.
  The f32 arithmetic is the record \<^verbatim>\<open>homing_fp\<close>: \<^verbatim>\<open>mm_to_steps_safe\<close>, the search scalar's product and
  \<^verbatim>\<open>axis_step_period_ticks\<close>.
\<close>

section \<open>Inputs\<close>

record LimitConfig =
  invert :: bool

definition limit_triggered :: "bool \<Rightarrow> LimitConfig \<Rightarrow> bool"
  where "limit_triggered raw_high config \<longleftrightarrow> raw_high \<noteq> invert config"

record ProbeConfig =
  probe_invert :: bool
  pullup_disable :: bool

definition probe_triggered :: "bool \<Rightarrow> ProbeConfig \<Rightarrow> bool"
  where "probe_triggered raw_high config \<longleftrightarrow> (\<not> raw_high) \<noteq> probe_invert config"

text \<open>A \<^verbatim>\<open>DigitalIn\<close> or \<^verbatim>\<open>ProbeInput\<close> reads a level of a world that may change with time.\<close>

type_synonym 's digital_in = "'s \<Rightarrow> 's \<times> bool"

section \<open>The homing cycle\<close>

datatype HomeDirection = Positive | Negative

fun dir_sign :: "HomeDirection \<Rightarrow> i32"
  where
    "dir_sign Positive = 1"
  | "dir_sign Negative = - 1"

definition HOMING_GROUPS :: "nat list list"
  where "HOMING_GROUPS = [[2], [0, 1]]"

datatype HomingError = NoContact nat | HomingInvalidConfig nat | HomingSink

record 'f HomingConfig =
  steps_per_mm :: "'f list"
  max_travel_mm :: "'f list"
  seek_mm_min :: 'f
  feed_mm_min :: 'f
  pulloff_mm :: 'f
  direction :: "HomeDirection list"
  force_set_origin :: bool
  motion :: "'f MotionConfig"
  limit :: LimitConfig

record 'f homing_fp =
  mm_to_steps_safe :: "'f \<Rightarrow> 'f \<Rightarrow> u32"
  search_scaled :: "'f \<Rightarrow> 'f"
  step_period :: "'f MotionConfig \<Rightarrow> 'f \<Rightarrow> 'f \<Rightarrow> u32"
  nonpositive :: "'f \<Rightarrow> bool"
  fp_zero :: 'f
  fp_one :: 'f

definition axis_step_period_ticks :: "'f homing_fp \<Rightarrow> 'f HomingConfig \<Rightarrow> nat \<Rightarrow> 'f \<Rightarrow> u32"
  where "axis_step_period_ticks fp config axis rate = step_period fp (motion config) (steps_per_mm config ! axis) rate"

definition search_steps :: "'f homing_fp \<Rightarrow> 'f HomingConfig \<Rightarrow> nat \<Rightarrow> u32"
  where "search_steps fp config axis =
    mm_to_steps_safe fp (search_scaled fp (max_travel_mm config ! axis)) (steps_per_mm config ! axis)"

definition pulloff_steps :: "'f homing_fp \<Rightarrow> 'f HomingConfig \<Rightarrow> nat \<Rightarrow> u32"
  where "pulloff_steps fp config axis = mm_to_steps_safe fp (pulloff_mm config) (steps_per_mm config ! axis)"

text \<open>\<^verbatim>\<open>i32::saturating_add\<close> of two values.\<close>

definition i32_saturating_add :: "i32 \<Rightarrow> i32 \<Rightarrow> i32"
  where "i32_saturating_add a b = word_of_int (max (- (2 ^ 31)) (min (2 ^ 31 - 1) (sint a + sint b)))"

definition machine_zero_steps :: "'f homing_fp \<Rightarrow> 'f HomingConfig \<Rightarrow> nat \<Rightarrow> i32"
  where "machine_zero_steps fp config axis =
    (if force_set_origin config then 0
     else
       let pulloff = pulloff_steps fp config axis in
       case direction config ! axis of
         Positive \<Rightarrow> - pulloff
       | Negative \<Rightarrow>
           i32_saturating_add (mm_to_steps_safe fp (max_travel_mm config ! axis) (steps_per_mm config ! axis)) pulloff)"

definition single_axis_block :: "'f homing_fp \<Rightarrow> nat \<Rightarrow> i32 \<Rightarrow> 'f Block"
  where "single_axis_block fp axis delta = placeholder (fp_zero fp) (fp_one fp) ((replicate AXES 0)[axis := delta])"

definition seek_into_switch ::
    "'f homing_fp \<Rightarrow> 's set_dir \<Rightarrow> 's emit \<Rightarrow> 's digital_in \<Rightarrow> 'f HomingConfig \<Rightarrow> nat \<Rightarrow> u32 \<Rightarrow> i32 \<Rightarrow> u32 \<Rightarrow> 's \<Rightarrow>
     ('s, HomingError, unit) outcome"
  where "seek_into_switch fp set_direction emit is_high config axis search sign period s =
    (let block = single_axis_block fp axis (sign * search);
         tripped = (\<lambda>s. let (s, high) = is_high s in (s, limit_triggered high (limit config)))
     in case run_probe (nonpositive fp) set_direction emit tripped (motion config) block period s of
          (s, Inr out) \<Rightarrow> if triggered out then (s, Inr ()) else (s, Inl (NoContact axis))
        | (s, Inl _) \<Rightarrow> (s, Inl HomingSink))"

definition pull_off ::
    "'f homing_fp \<Rightarrow> 's set_dir \<Rightarrow> 's emit \<Rightarrow> 'f HomingConfig \<Rightarrow> nat \<Rightarrow> u32 \<Rightarrow> i32 \<Rightarrow> 's \<Rightarrow> ('s, HomingError, unit) outcome"
  where "pull_off fp set_direction emit config axis pulloff sign s =
    (if pulloff = 0 then (s, Inr ())
     else
       let block = single_axis_block fp axis (sign * pulloff);
           period = axis_step_period_ticks fp config axis (feed_mm_min config)
       in case run_probe (nonpositive fp) set_direction emit (\<lambda>s. (s, False)) (motion config) block period s of
            (s, Inr _) \<Rightarrow> (s, Inr ())
          | (s, Inl _) \<Rightarrow> (s, Inl HomingSink))"

record HomeAxisOutcome =
  homed_axis :: nat
  zero_steps :: i32

definition home_axis ::
    "'f homing_fp \<Rightarrow> 's set_dir \<Rightarrow> 's emit \<Rightarrow> 's digital_in \<Rightarrow> 'f HomingConfig \<Rightarrow> nat \<Rightarrow> 's \<Rightarrow>
     ('s, HomingError, HomeAxisOutcome) outcome"
  where "home_axis fp set_direction emit is_high config axis s =
    (if AXES \<le> axis then (s, Inl (HomingInvalidConfig axis))
     else
       let search = search_steps fp config axis in
       if search = 0 then (s, Inl (HomingInvalidConfig axis))
       else
         let pulloff = pulloff_steps fp config axis;
             sign = dir_sign (direction config ! axis);
             seek_period = axis_step_period_ticks fp config axis (seek_mm_min config);
             locate_period = axis_step_period_ticks fp config axis (feed_mm_min config)
         in and_then (seek_into_switch fp set_direction emit is_high config axis search sign seek_period s) (\<lambda>_ s.
            and_then (pull_off fp set_direction emit config axis pulloff (- sign) s) (\<lambda>_ s.
            and_then (seek_into_switch fp set_direction emit is_high config axis search sign locate_period s) (\<lambda>_ s.
            and_then (pull_off fp set_direction emit config axis pulloff (- sign) s) (\<lambda>_ s.
            (s, Inr \<lparr>homed_axis = axis, zero_steps = machine_zero_steps fp config axis\<rparr>))))))"

text \<open>The executor's cycle: the groups in order, the axes of a group one after another.\<close>

fun home_axes ::
    "'f homing_fp \<Rightarrow> ('p, 'c, 't) rmt_hal \<Rightarrow> (nat \<Rightarrow> ('p, 'c) CountingSink digital_in) \<Rightarrow> 'f HomingConfig \<Rightarrow> nat list \<Rightarrow>
     i32 list \<Rightarrow> ('p, 'c) CountingSink \<Rightarrow> (('p, 'c) CountingSink, HomingError, i32 list) outcome"
  where
    "home_axes fp hal limits config [] zeros s = (s, Inr zeros)"
  | "home_axes fp hal limits config (axis # rest) zeros s =
      and_then (home_axis fp counting_set_direction (counting_emit_burst hal) (limits axis) config axis s) (\<lambda>o1 s.
        home_axes fp hal limits config rest (zeros[axis := zero_steps o1]) (publish_live_position s))"

definition run_homing ::
    "'f homing_fp \<Rightarrow> ('p, 'c, 't) rmt_hal \<Rightarrow> (nat \<Rightarrow> ('p, 'c) CountingSink digital_in) \<Rightarrow> 'f HomingConfig \<Rightarrow>
     ('p, 'c) CountingSink \<Rightarrow> (('p, 'c) CountingSink, HomingError, i32 list) outcome"
  where "run_homing fp hal limits config s =
    and_then (home_axes fp hal limits config (concat HOMING_GROUPS) (position (live_counter s)) (s\<lparr>publish_per_burst := False\<rparr>))
      (\<lambda>zeros s. (publish_live_position (s\<lparr>live_counter := sync_to zeros (live_counter s)\<rparr>), Inr zeros))"

section \<open>Hard limits\<close>

record HardLimitDecision =
  hl_triggered :: "bool list"
  alarm :: bool

definition hard_limit_alarm :: "bool list \<Rightarrow> LimitConfig \<Rightarrow> bool \<Rightarrow> bool \<Rightarrow> HardLimitDecision"
  where "hard_limit_alarm raw_high config enabled homing =
    (let trig = map (\<lambda>axis. limit_triggered (raw_high ! axis) config) [0..<AXES]
     in \<lparr>hl_triggered = trig, alarm = enabled \<and> \<not> homing \<and> list_ex id trig\<rparr>)"

record ArmedHardLimitDecision = HardLimitDecision +
  next_armed :: "bool list"

definition hard_limit_alarm_armed ::
    "bool list \<Rightarrow> LimitConfig \<Rightarrow> bool \<Rightarrow> bool \<Rightarrow> bool list \<Rightarrow> ArmedHardLimitDecision"
  where "hard_limit_alarm_armed raw_high config enabled homing prev =
    (let trig = map (\<lambda>axis. limit_triggered (raw_high ! axis) config) [0..<AXES];
         fresh = list_ex (\<lambda>axis. trig ! axis \<and> \<not> prev ! axis) [0..<AXES]
     in \<lparr>hl_triggered = trig, alarm = enabled \<and> \<not> homing \<and> fresh, next_armed = trig\<rparr>)"

definition pack_limit_mask :: "bool list \<Rightarrow> u8"
  where "pack_limit_mask trig = fold (\<lambda>axis mask. if trig ! axis then mask OR push_bit axis 1 else mask) [0..<length trig] 0"

definition A_LIMIT_AXIS :: nat
  where "A_LIMIT_AXIS = 3"

text \<open>
  One sample of the limit inputs: the levels of the four pins are \<^verbatim>\<open>levels\<close>; the result is the new
  arming state, the published mask and whether \<^verbatim>\<open>HARD_LIMIT_TRIPPED\<close> is signalled.
\<close>

definition check_hard_limits :: "bool list \<Rightarrow> LimitConfig \<Rightarrow> bool \<Rightarrow> bool \<Rightarrow> bool list \<Rightarrow> bool list \<times> u8 \<times> bool"
  where "check_hard_limits levels config enabled homing armed =
    (let raw_high = map (\<lambda>i. i \<noteq> A_LIMIT_AXIS \<and> levels ! i) [0..<AXES];
         decision = hard_limit_alarm_armed raw_high config enabled homing armed
     in (next_armed decision, pack_limit_mask (hl_triggered decision), alarm decision))"

definition sample_limit_triggered :: "bool list \<Rightarrow> LimitConfig \<Rightarrow> bool list"
  where "sample_limit_triggered levels config =
    map (\<lambda>axis. axis \<noteq> A_LIMIT_AXIS \<and> limit_triggered (levels ! axis) config) [0..<AXES]"

end
