(* ===== verification/Homing_Props.thy ===== *)
theory Homing_Props
  imports Homing Motion_Props
begin

text \<open>
  The properties of the limit switches: where a homing cycle leaves the axes, what the cycle has seen
  of the switch, and when the hard-limit sample raises an alarm.
\<close>

section \<open>One axis\<close>

definition single_axis :: "nat \<Rightarrow> i32 \<Rightarrow> i32 list"
  where "single_axis axis d = (replicate AXES 0)[axis := d]"

lemma unsigned_abs_zero [simp]: "unsigned_abs 0 = 0"
  by (simp add: unsigned_abs_def)

lemma axes_cases: "axis < AXES \<Longrightarrow> axis = 0 \<or> axis = 1 \<or> axis = 2 \<or> axis = 3"
  by (auto simp: AXES_def)

lemma single_axis_facts:
  assumes "axis < AXES"
  shows "length (single_axis axis d) = AXES"
    "single_axis axis d ! axis = d"
    "i < AXES \<Longrightarrow> i \<noteq> axis \<Longrightarrow> single_axis axis d ! i = 0"
    "steps (single_axis_block fp axis d) = single_axis axis d"
    "step_event_count (single_axis_block fp axis d) = unsigned_abs d"
    "d \<noteq> 0 \<Longrightarrow> dominant_axis (single_axis axis d) = axis"
proof -
  have pos: "0 < unsigned_abs d" if "d \<noteq> 0"
    using that by (simp add: unsigned_abs_def word_greater_zero_iff)
  note axes = axes_cases [OF assms]
  show "length (single_axis axis d) = AXES" "single_axis axis d ! axis = d"
    "i < AXES \<Longrightarrow> i \<noteq> axis \<Longrightarrow> single_axis axis d ! i = 0"
    "steps (single_axis_block fp axis d) = single_axis axis d"
    using assms by (simp_all add: single_axis_def single_axis_block_def placeholder_def)
  show "step_event_count (single_axis_block fp axis d) = unsigned_abs d"
    using axes by (auto simp: single_axis_block_def placeholder_def AXES_def numeral_eq_Suc)
  show "d \<noteq> 0 \<Longrightarrow> dominant_axis (single_axis axis d) = axis"
    using axes pos by (auto simp: single_axis_def dominant_axis_def AXES_def numeral_eq_Suc)
qed

lemma sint_zero_steps: "sgn (sint d) * (int j * \<bar>sint d\<bar> div \<bar>sint d\<bar>) = sgn (sint d) * int j" for d :: i32
  by (cases "sint d = 0") simp_all

text \<open>A counter whose axis moved by \<^verbatim>\<open>x\<close> and whose other axes did not.\<close>

definition moved :: "nat \<Rightarrow> int \<Rightarrow> StepCounter \<Rightarrow> StepCounter \<Rightarrow> bool"
  where "moved axis x c c' \<longleftrightarrow>
    length (position c') = AXES \<and> sint (position c' ! axis) = sint (position c ! axis) + x \<and>
    (\<forall>i < AXES. i \<noteq> axis \<longrightarrow> position c' ! i = position c ! i)"

lemma moved_trans: "moved axis x c c' \<Longrightarrow> moved axis y c' c'' \<Longrightarrow> moved axis (x + y) c c''"
  by (simp add: moved_def)

lemma moved_refl: "length (position c) = AXES \<Longrightarrow> moved axis 0 c c"
  by (simp add: moved_def)

lemma moved_bound:
  assumes "moved axis (u * int j) c c'" and "u = 1 \<or> u = - 1" and "j \<le> n"
  shows "length (position c') = AXES"
    "\<bar>sint (position c' ! axis)\<bar> \<le> \<bar>sint (position c ! axis)\<bar> + int n"
proof -
  have "int j \<le> int n" using assms(3) by simp
  then show "length (position c') = AXES" "\<bar>sint (position c' ! axis)\<bar> \<le> \<bar>sint (position c ! axis)\<bar> + int n"
    using assms(1,2) by (auto simp: moved_def abs_if)
qed

lemma on_line_moved:
  assumes "axis < AXES" and "d \<noteq> 0" and "on_line (single_axis axis d) c j c'"
  shows "moved axis (sgn (sint d) * int j) c c'"
proof -
  note f = single_axis_facts(1-3,6) [OF assms(1)]
  have "position c' ! i = position c ! i" if "i < AXES" "i \<noteq> axis" for i
  proof -
    have "sint (position c' ! i) = sint (position c ! i)"
      using that(1) assms(3) f(3) [OF that, of d] by (simp add: on_line_def)
    then show ?thesis by (rule signed_word_eqI)
  qed
  with assms f show ?thesis by (simp add: moved_def on_line_def taken_steps_def sint_zero_steps)
qed

lemma signed_count:
  assumes "n \<le> 0x7FFFFFFF" and "sign = 1 \<or> sign = - 1"
  shows "sint (sign * n :: i32) = sint sign * int (unat n)" "unat (unsigned_abs (sign * n)) = unat n"
    "n \<noteq> 0 \<Longrightarrow> sgn (sint (sign * n)) = sint sign"
proof -
  have n: "sint n = int (unat n)"
  proof -
    have "uint n < 2 ^ 31" using assms(1) by (simp add: word_le_def)
    moreover have "- (2 ^ 31) \<le> uint n" by (rule order_trans [of _ 0]) simp_all
    ultimately have "signed_take_bit 31 (uint n) = uint n" by (intro signed_take_bit_int_eq_self)
    then show ?thesis unfolding uint_nat [symmetric] by (simp add: sint_uint)
  qed
  have minus: "sint (- n) = - int (unat n)"
  proof -
    have "- (2 ^ 31) \<le> - sint n" using sint_lt [of n] by simp
    moreover have "- sint n < 2 ^ 31" by (rule le_less_trans [of _ 0]) (simp_all add: n)
    ultimately have "signed_take_bit 31 (- sint n) = - sint n" by (intro signed_take_bit_int_eq_self)
    then show ?thesis by (simp add: sint_word_ariths n)
  qed
  show s: "sint (sign * n) = sint sign * int (unat n)" using assms(2) n minus by auto
  have "uint (unsigned_abs (sign * n)) = int (unat n)" using assms(2) s by (auto simp: uint_unsigned_abs)
  then show "unat (unsigned_abs (sign * n)) = unat n" by (metis uint_nat of_nat_eq_iff)
  show "sgn (sint (sign * n)) = sint sign" if "n \<noteq> 0"
  proof -
    have "0 < unat n" using that by (simp add: unat_gt_0)
    then have "0 < int (unat n)" by (simp only: of_nat_0_less_iff)
    then show ?thesis unfolding s using assms(2) by (auto simp only: sgn_mult sgn_pos) simp_all
  qed
qed

text \<open>The last sample decides the outcome of a probe run.\<close>

lemma probe_ticks_last_sample:
  "probe_ticks emit edge dominant counts period n error emitted s = (s', Inr out) \<Longrightarrow> \<exists>w. edge w = (s', triggered out)"
proof (induction n arbitrary: error emitted s)
  case (Suc n)
  obtain s1 hit where e: "edge s = (s1, hit)" by (cases "edge s")
  show ?case
  proof (cases hit)
    case False
    obtain s2 x where m: "emit [\<lparr>step = tick_mask dominant counts error, period_ticks = period\<rparr>] s1 = (s2, x)" by fastforce
    with Suc.prems e False show ?thesis by (cases x) (auto intro: Suc.IH)
  qed (use Suc.prems e in auto)
qed (auto split: prod.splits)

lemma run_probe_last_sample:
  assumes "run_probe nonpos set_direction emit edge cfg block period s = (s', Inr out)"
  shows "\<exists>w. edge w = (s', triggered out)"
proof (cases "step_event_count block = 0")
  case True
  with assms show ?thesis by (auto simp: run_probe_def split: if_splits prod.splits)
next
  case False
  obtain s1 x where d: "set_direction (direction_of block) s = (s1, x)" by fastforce
  with assms False show ?thesis
    by (cases x) (auto simp: run_probe_def Let_def split: if_splits dest: probe_ticks_last_sample)
qed

context counted_sink
begin

lemma run_probe_single:
  assumes "axis < AXES" and "length (position (counter s)) = AXES"
    and "- (2 ^ 31) \<le> sint (position (counter s) ! axis) + sint d" "sint (position (counter s) ! axis) + sint d < 2 ^ 31"
    and "\<And>s. counter (fst (edge s)) = counter s"
    and "r = run_probe nonpos set_direction emit edge cfg (single_axis_block fp axis d) period s"
  shows "\<exists>j \<le> unat (unsigned_abs d). moved axis (sgn (sint d) * int j) (counter s) (counter (fst r)) \<and>
    (\<forall>out. snd r = Inr out \<longrightarrow> (\<not> triggered out \<longrightarrow> j = unat (unsigned_abs d)) \<and>
      ((\<forall>w. snd (edge w)) \<longrightarrow> triggered out \<and> j = 0))"
proof (cases "nonpos (tick_hz cfg) \<or> config_min_period_ticks cfg = 0 \<or> d = 0")
  case True
  obtain s1 hit where e: "edge s = (s1, hit)" by (cases "edge s")
  have "counter (fst r) = counter s"
    using True assms(5) [of s] assms(6) e by (auto simp: run_probe_def single_axis_facts(5) [OF assms(1)])
  moreover have "\<forall>out. snd r = Inr out \<longrightarrow> d = 0 \<and> ((\<forall>w. snd (edge w)) \<longrightarrow> triggered out)"
    using True assms(6) e by (auto simp: run_probe_def single_axis_facts(5) [OF assms(1)] split: if_splits) (metis snd_conv)+
  ultimately show ?thesis using moved_refl [OF assms(2)] by (intro exI [of _ 0]) auto
next
  case False
  note f = single_axis_facts [OF assms(1)]
  obtain s1 x where d: "set_direction (direction_of (single_axis_block fp axis d)) s = (s1, x)"
    by (cases "set_direction (direction_of (single_axis_block fp axis d)) s")
  have c1: "counter s1 = counter_set_direction (direction_of (single_axis_block fp axis d)) (counter s)"
    using direction [of "direction_of (single_axis_block fp axis d)" s] d by simp
  then have pos1: "position (counter s1) = position (counter s)" by (simp add: counter_set_direction_def)
  have n: "unsigned_abs d \<noteq> 0" using False by (simp add: unsigned_abs_def)
  show ?thesis
  proof (cases x)
    case (Inl e)
    then have "r = (s1, Inl (Sink e))" using False assms(6) d n by (simp add: run_probe_def f(5))
    with pos1 moved_refl [OF assms(2)] show ?thesis by (intro exI [of _ 0]) (simp add: moved_def)
  next
    case (Inr u)
    let ?counts = "abs_steps (single_axis axis d)" and ?n = "unat (unsigned_abs d)"
    obtain p where r: "r = probe_ticks emit edge axis ?counts p ?n (line_error ?counts axis 0) 0 s1"
      using False assms(6) d n Inr by (simp add: run_probe_def Let_def line_error_start [symmetric] f)
    have line: "line_counts ?counts axis"
      using line_counts_abs_steps [of "single_axis axis d"] f False n by simp
    obtain j where j: "j \<le> ?n" "counter (fst r) = fold advance (line_events ?counts axis (\<lambda>_. p) [0..<0 + j]) (counter s1)"
      "\<forall>out. snd r = Inr out \<longrightarrow> steps_emitted out = 0 + of_nat j \<and> (\<not> triggered out \<longrightarrow> j = ?n)"
      using probe_ticks_counts [OF line assms(5) r] by (elim exE conjE)
    have "counter_in_range (single_axis axis d) (counter s1)"
      unfolding counter_in_range_def pos1
    proof (intro allI impI)
      fix i assume i: "i < AXES"
      show "- (2 ^ 31) \<le> sint (position (counter s) ! i) + sint (single_axis axis d ! i) \<and>
          sint (position (counter s) ! i) + sint (single_axis axis d ! i) < 2 ^ 31"
        using assms(3,4) f(2) [of d] f(3) [OF i, of d] sint_ge [of "position (counter s) ! i"]
          sint_lt [of "position (counter s) ! i"] by (cases "i = axis") simp_all
    qed
    moreover have "int j \<le> ?counts ! axis"
      using j(1) f(1,2) assms(1) by (simp add: uint_unsigned_abs [symmetric]) (metis of_nat_le_iff uint_nat)
    ultimately have "on_line (single_axis axis d) (counter s1) j (counter (fst r))"
      using advance_on_line [of "single_axis axis d" "counter s1" j "\<lambda>_. p"] line False assms(2) j(2) c1
      by (simp add: pos1 counter_set_direction_def direction_of_def Let_def f)
    then have "moved axis (sgn (sint d) * int j) (counter s) (counter (fst r))"
      using on_line_moved [OF assms(1), of d "counter s1" j "counter (fst r)"] False by (simp add: moved_def pos1)
    moreover have "triggered out \<and> j = 0" if out: "snd r = Inr out" "\<forall>w. snd (edge w)" for out
    proof -
      obtain m where m: "?n = Suc m" using n by (cases ?n) (simp_all add: unat_eq_zero)
      obtain s2 where "edge s1 = (s2, True)" using out(2) by (cases "edge s1") (metis snd_conv)
      then have r': "r = (s2, Inr \<lparr>triggered = True, steps_emitted = 0\<rparr>)" using r m by simp
      have "j < 2 ^ 32" using j(1) unsigned_less [of "unsigned_abs d", where 'a = nat] by simp
      with j(3) r' out(1) of_nat_inverse [OF refl, of j, where 'a = 32] show ?thesis by auto
    qed
    ultimately show ?thesis using j(1,3) by (intro exI [of _ j]) blast
  qed
qed

lemma seek_moves:
  assumes "axis < AXES" and "length (position (counter s)) = AXES"
    and "sign = 1 \<or> sign = - 1" and "search \<le> 0x7FFFFFFF"
    and "\<bar>sint (position (counter s) ! axis)\<bar> + int (unat search) < 2 ^ 31"
    and "\<And>s. counter (fst (is_high s)) = counter s"
    and "seek_into_switch fp set_direction emit is_high config axis search sign period s = (s', Inr u)"
  shows "\<exists>j \<le> unat search. moved axis (sint sign * int j) (counter s) (counter s') \<and>
    ((\<forall>w. limit_triggered (snd (is_high w)) (limit config)) \<longrightarrow> j = 0)"
proof -
  let ?tripped = "\<lambda>s. let (s, high) = is_high s in (s, limit_triggered high (limit config))"
  have edge: "counter (fst (?tripped s)) = counter s" for s using assms(6) [of s] by (cases "is_high s") simp
  have hit: "snd (?tripped w) = limit_triggered (snd (is_high w)) (limit config)" for w by (simp split: prod.splits)
  note c = signed_count [OF assms(4,3)]
  define r where "r = run_probe (nonpositive fp) set_direction emit ?tripped (motion config)
      (single_axis_block fp axis (sign * search)) period s"
  obtain out where out: "r = (s', Inr out)" "triggered out"
    using assms(7) by (auto simp: seek_into_switch_def r_def Let_def split: prod.splits sum.splits if_splits)
  have sz: "sint sign * int (unat search) = int (unat search) \<or> sint sign * int (unat search) = - int (unat search)"
    using assms(3) by auto
  have "- (2 ^ 31) \<le> sint (position (counter s) ! axis) + sint (sign * search)"
    "sint (position (counter s) ! axis) + sint (sign * search) < 2 ^ 31"
    using sz assms(5) unfolding c(1) by linarith+
  from run_probe_single [OF assms(1,2) this edge r_def] out c(2)
  obtain j where j: "j \<le> unat search" "moved axis (sgn (sint (sign * search)) * int j) (counter s) (counter s')"
    "(\<forall>w. snd (?tripped w)) \<longrightarrow> j = 0" by auto
  moreover have "sgn (sint (sign * search)) * int j = sint sign * int j"
    using j(1) c(3) by (cases "search = 0") auto
  moreover have "(\<forall>w. limit_triggered (snd (is_high w)) (limit config)) \<longrightarrow> j = 0" using j(3) by (simp only: hit)
  ultimately show ?thesis by (intro exI [of _ j]) simp
qed

lemma pull_off_moves:
  assumes "axis < AXES" and "length (position (counter s)) = AXES"
    and "sign = 1 \<or> sign = - 1" and "pulloff \<le> 0x7FFFFFFF"
    and "\<bar>sint (position (counter s) ! axis)\<bar> + int (unat pulloff) < 2 ^ 31"
    and "pull_off fp set_direction emit config axis pulloff sign s = (s', Inr u)"
  shows "moved axis (sint sign * int (unat pulloff)) (counter s) (counter s')"
proof (cases "pulloff = 0")
  case True
  with assms(2,6) show ?thesis by (simp add: pull_off_def moved_def)
next
  case False
  note c = signed_count [OF assms(4,3)]
  let ?period = "axis_step_period_ticks fp config axis (feed_mm_min config)"
  define r where "r = run_probe (nonpositive fp) set_direction emit (\<lambda>s. (s, False)) (motion config)
      (single_axis_block fp axis (sign * pulloff)) ?period s"
  obtain out where out: "r = (s', Inr out)"
    using assms(6) False by (auto simp: pull_off_def r_def Let_def split: prod.splits sum.splits)
  have miss: "\<not> triggered out"
    using run_probe_last_sample [OF out [unfolded r_def]] by auto
  have sz: "sint sign * int (unat pulloff) = int (unat pulloff) \<or> sint sign * int (unat pulloff) = - int (unat pulloff)"
    using assms(3) by auto
  have "- (2 ^ 31) \<le> sint (position (counter s) ! axis) + sint (sign * pulloff)"
    "sint (position (counter s) ! axis) + sint (sign * pulloff) < 2 ^ 31"
    using sz assms(5) unfolding c(1) by linarith+
  from run_probe_single [OF assms(1,2) this _ r_def] out c(2) miss
  obtain j where "j = unat pulloff" "moved axis (sgn (sint (sign * pulloff)) * int j) (counter s) (counter s')" by auto
  with c(3) False show ?thesis by simp
qed

end

section \<open>Properties\<close>

text \<open>
  what a homing cycle does.  When homing an axis succeeds, the axis has moved toward its switch by some
  j1 and then some j2 steps, each at most the search bound, with one pull-off back after either; no
  other axis has moved, and the reported zero is the configured machine zero.  The switch need not
  have been released in between: with a switch that reads triggered throughout, both approaches are empty
  and the cycle still reports the axis homed, two pull-offs away from where it started.
\<close>

theorem home_axis_moves:
  assumes "axis < AXES" and "length (position (live_counter s)) = AXES"
    and "\<And>mm spm. mm_to_steps_safe fp mm spm \<le> 0x7FFFFFFF" and "\<And>s. live_counter (fst (is_high s)) = live_counter s"
    and "\<bar>sint (position (live_counter s) ! axis)\<bar> + 2 * int (unat (search_steps fp config axis)) +
      2 * int (unat (pulloff_steps fp config axis)) < 2 ^ 31"
    and "home_axis fp counting_set_direction (counting_emit_burst hal) is_high config axis s = (s', Inr out)"
  shows "\<exists>j1 j2. j1 \<le> unat (search_steps fp config axis) \<and> j2 \<le> unat (search_steps fp config axis) \<and>
    sint (position (live_counter s') ! axis) = sint (position (live_counter s) ! axis) +
      sint (dir_sign (direction config ! axis)) *
        (int j1 + int j2 - 2 * int (unat (pulloff_steps fp config axis))) \<and>
    (\<forall>i < AXES. i \<noteq> axis \<longrightarrow> position (live_counter s') ! i = position (live_counter s) ! i) \<and>
    out = \<lparr>homed_axis = axis, zero_steps = machine_zero_steps fp config axis\<rparr> \<and>
    ((\<forall>w. limit_triggered (snd (is_high w)) (limit config)) \<longrightarrow> j1 = 0 \<and> j2 = 0)"
proof -
  let ?set = counting_set_direction and ?emit = "counting_emit_burst hal"
  let ?search = "search_steps fp config axis" and ?pull = "pulloff_steps fp config axis"
  let ?sign = "dir_sign (direction config ! axis)"
  have sign: "?sign = 1 \<or> ?sign = - 1" "- ?sign = 1 \<or> - ?sign = - 1" by (cases "direction config ! axis"; simp)+
  have neg: "sint (- ?sign) = - sint ?sign" and unit: "sint ?sign = 1 \<or> sint ?sign = - 1"
    by (cases "direction config ! axis"; simp)+
  have unit': "sint (- ?sign) = 1 \<or> sint (- ?sign) = - 1" using unit by (auto simp: neg)
  have le: "?search \<le> 0x7FFFFFFF" "?pull \<le> 0x7FFFFFFF"
    using assms(3) by (simp_all add: search_steps_def pulloff_steps_def)
  obtain p1 p2 s1 s2 s3 where steps:
    "seek_into_switch fp ?set ?emit is_high config axis ?search ?sign p1 s = (s1, Inr ())"
    "pull_off fp ?set ?emit config axis ?pull (- ?sign) s1 = (s2, Inr ())"
    "seek_into_switch fp ?set ?emit is_high config axis ?search ?sign p2 s2 = (s3, Inr ())"
    "pull_off fp ?set ?emit config axis ?pull (- ?sign) s3 = (s', Inr ())"
    and out: "out = \<lparr>homed_axis = axis, zero_steps = machine_zero_steps fp config axis\<rparr>"
    using assms(6) by (auto simp: home_axis_def Let_def and_then_ok split: if_splits)
  note seek = counting.seek_moves [where fp = fp and config = config and is_high = is_high, OF assms(1) _ sign(1) le(1) _ assms(4)]
  note retreat = counting.pull_off_moves [where fp = fp and config = config, OF assms(1) _ sign(2) le(2)]
  obtain j1 where j1: "j1 \<le> unat ?search" "moved axis (sint ?sign * int j1) (live_counter s) (live_counter s1)"
    "(\<forall>w. limit_triggered (snd (is_high w)) (limit config)) \<longrightarrow> j1 = 0"
    using seek [OF assms(2) _ steps(1)] assms(5) by (smt (verit) of_nat_0_le_iff)
  have b1: "length (position (live_counter s1)) = AXES"
    "\<bar>sint (position (live_counter s1) ! axis)\<bar> \<le> \<bar>sint (position (live_counter s) ! axis)\<bar> + int (unat ?search)"
    using moved_bound [OF j1(2) unit j1(1)] .
  have m2: "moved axis (sint (- ?sign) * int (unat ?pull)) (live_counter s1) (live_counter s2)"
    using retreat [OF b1(1) _ steps(2)] b1(2) assms(5) by (smt (verit) of_nat_0_le_iff)
  have b2: "length (position (live_counter s2)) = AXES"
    "\<bar>sint (position (live_counter s2) ! axis)\<bar> \<le> \<bar>sint (position (live_counter s1) ! axis)\<bar> + int (unat ?pull)"
    using moved_bound [OF m2 unit' le_refl] .
  obtain j2 where j2: "j2 \<le> unat ?search" "moved axis (sint ?sign * int j2) (live_counter s2) (live_counter s3)"
    "(\<forall>w. limit_triggered (snd (is_high w)) (limit config)) \<longrightarrow> j2 = 0"
    using seek [OF b2(1) _ steps(3)] b1(2) b2(2) assms(5) by (smt (verit) of_nat_0_le_iff)
  have b3: "length (position (live_counter s3)) = AXES"
    "\<bar>sint (position (live_counter s3) ! axis)\<bar> \<le> \<bar>sint (position (live_counter s2) ! axis)\<bar> + int (unat ?search)"
    using moved_bound [OF j2(2) unit j2(1)] .
  have m4: "moved axis (sint (- ?sign) * int (unat ?pull)) (live_counter s3) (live_counter s')"
    using retreat [OF b3(1) _ steps(4)] b1(2) b2(2) b3(2) assms(5) by (smt (verit) of_nat_0_le_iff)
  have "moved axis (sint ?sign * (int j1 + int j2 - 2 * int (unat ?pull))) (live_counter s) (live_counter s')"
    using moved_trans [OF moved_trans [OF moved_trans [OF j1(2) m2] j2(2)] m4]
    by (simp add: neg algebra_simps)
  with j1(1,3) j2(1,3) out show ?thesis unfolding moved_def by blast
qed

text \<open>Three steps to every positive distance, and a switch that reads triggered throughout.\<close>

definition plain_fp :: "int homing_fp"
  where "plain_fp = \<lparr>mm_to_steps_safe = (\<lambda>mm spm. if 0 < mm then 3 else 0), search_scaled = (\<lambda>mm. 2 * mm),
    step_period = (\<lambda>cfg spm rate. 400), nonpositive = (\<lambda>hz. hz \<le> 0), fp_zero = 0, fp_one = 1\<rparr>"

definition plain_homing :: "int HomingConfig"
  where "plain_homing = \<lparr>steps_per_mm = [80, 80, 400, 10], max_travel_mm = [200, 200, 50, 0], seek_mm_min = 500,
    feed_mm_min = 50, pulloff_mm = 1, direction = [Positive, Positive, Positive, Positive],
    force_set_origin = False, motion = plain_cfg, limit = \<lparr>invert = False\<rparr>\<rparr>"

theorem home_axis_moves_witness:
  "let r = home_axis plain_fp counting_set_direction (counting_emit_burst plain_hal) (\<lambda>s. (s, True)) plain_homing 0 (plain_sink [])
   in snd r = Inr \<lparr>homed_axis = 0, zero_steps = - 3\<rparr> \<and> sint (position (live_counter (fst r)) ! 0) = - 6"
proof -
  let ?r = "home_axis plain_fp counting_set_direction (counting_emit_burst plain_hal) (\<lambda>s. (s, True)) plain_homing 0
    (plain_sink [])"
  have "case snd ?r of Inl _ \<Rightarrow> False | Inr out \<Rightarrow> True" by code_simp
  then obtain s' out where out: "?r = (s', Inr out)" by (cases ?r) (auto split: sum.splits)
  have safe: "mm_to_steps_safe plain_fp mm spm \<le> 0x7FFFFFFF" for mm spm by (simp add: plain_fp_def)
  have "0 < AXES" "length (position (live_counter (plain_sink []))) = AXES"
    by (simp_all add: AXES_def plain_sink_def StepCounter_new_def)
  have steps: "search_steps plain_fp plain_homing 0 = 3" "pulloff_steps plain_fp plain_homing 0 = 3"
    "position (live_counter (plain_sink [])) ! 0 = 0"
    by (simp_all add: search_steps_def pulloff_steps_def plain_fp_def plain_homing_def plain_sink_def
        StepCounter_new_def AXES_def)
  then have bound: "\<bar>sint (position (live_counter (plain_sink [])) ! 0)\<bar> +
      2 * int (unat (search_steps plain_fp plain_homing 0)) + 2 * int (unat (pulloff_steps plain_fp plain_homing 0)) < 2 ^ 31"
    by simp
  obtain j1 j2 where pos: "sint (position (live_counter s') ! 0) =
      sint (dir_sign (direction plain_homing ! 0)) * (int j1 + int j2 - 6)"
    and res: "out = \<lparr>homed_axis = 0, zero_steps = machine_zero_steps plain_fp plain_homing 0\<rparr>"
    and stuck: "(\<forall>w. limit_triggered (snd ((\<lambda>s. (s, True)) (w :: (bool \<times> u16 \<times> bool \<times> u16, nat) CountingSink)))
      (limit plain_homing)) \<longrightarrow> j1 = 0 \<and> j2 = 0"
    using home_axis_moves [OF \<open>0 < AXES\<close> \<open>length (position (live_counter (plain_sink []))) = AXES\<close> safe _ bound out]
    unfolding steps by auto
  have "j1 = 0 \<and> j2 = 0" using stuck by (simp add: limit_triggered_def plain_homing_def)
  moreover have "dir_sign (direction plain_homing ! 0) = 1" "machine_zero_steps plain_fp plain_homing 0 = - 3"
    by (simp_all add: machine_zero_steps_def pulloff_steps_def plain_fp_def plain_homing_def)
  ultimately show ?thesis unfolding Let_def out using pos res by simp
qed

text \<open>
  a hard limit alarms once per trip.  Sampling the inputs raises the alarm exactly when hard limits are on,
  no homing runs and some axis reads triggered that the previous sample did not; a sample of unchanged
  inputs never alarms.
\<close>

theorem hard_limit_alarms_on_edges:
  "let (armed', mask, tripped) = check_hard_limits levels config enabled homing armed
   in (tripped \<longleftrightarrow> enabled \<and> \<not> homing \<and>
        (\<exists>axis < AXES. limit_triggered (axis \<noteq> A_LIMIT_AXIS \<and> levels ! axis) config \<and> \<not> armed ! axis)) \<and>
      snd (snd (check_hard_limits levels config enabled homing armed')) = False"
  by (auto simp: check_hard_limits_def hard_limit_alarm_armed_def Let_def list_ex_iff)

text \<open>
  inverted limits alarm without a switch.  With the limit inputs inverted, hard limits on and no homing, the first
  sample after the arming state was taken from the very same inputs raises the alarm and publishes the
  bit of the fourth axis, whatever the levels of the pins: the absent switch of axis A is read as a
  constant low level before the inversion is applied.
\<close>

theorem inverted_limits_alarm_without_switch:
  "let (armed', mask, tripped) =
     check_hard_limits levels \<lparr>invert = True\<rparr> True False (sample_limit_triggered levels \<lparr>invert = True\<rparr>)
   in tripped \<and> armed' ! A_LIMIT_AXIS \<and> bit mask A_LIMIT_AXIS"
proof -
  have axes: "[0..<4] = [0, 1, 2, 3 :: nat]" by (simp add: upt_rec)
  show ?thesis
    by (simp add: check_hard_limits_def hard_limit_alarm_armed_def sample_limit_triggered_def limit_triggered_def
        pack_limit_mask_def A_LIMIT_AXIS_def AXES_def axes Let_def) 
qed

end
