(* ===== verification/Float32.thy ===== *)
theory Float32
  imports Prelude
begin

text \<open>
  The \<^verbatim>\<open>f32\<close> of the Rust sources: IEEE 754 binary32 with round to nearest, ties to even.  Every
  finite binary32 number is a multiple of 2 to the power -149, so a finite value is its sign and its
  magnitude counted in that unit, an integer; each operation computes the exact result as a fraction
  of integers and rounds it once.  The payload and the sign of a NaN are not represented (the sources
  never look at them).  Functions of the \<^verbatim>\<open>libm\<close> crate are the fields of a record, which the
  definitions that call them take as an argument, with the laws the proofs need stated by a locale.
\<close>

section \<open>Values and rounding\<close>

datatype f32 = FFin bool int | FInf bool | FNan

definition unit_den :: int
  where "unit_den = 2 ^ 149"

lemma unit_den_code [code]: "unit_den = 0x20000000000000000000000000000000000000"
  by (simp add: unit_den_def)

lemma unit_den_pos [simp]: "0 < unit_den" "0 \<le> unit_den" "unit_den \<noteq> 0" "\<not> unit_den < 0"
  by (simp_all add: unit_den_def)

definition overflow_mag :: int
  where "overflow_mag = 2 ^ 277"

lemma overflow_mag_pos [simp]: "0 < overflow_mag" "0 \<le> overflow_mag" "\<not> overflow_mag < 0"
    "\<not> overflow_mag \<le> 0"
  by (simp_all add: overflow_mag_def)

lemma overflow_mag_code [code]: "overflow_mag = 0x2000000000000000000000000000000000000000000000000000000000000000000000"
  by (simp add: overflow_mag_def)

text \<open>
  \<^verbatim>\<open>scale ps n d\<close> multiplies the denominator by powers of two, largest first, while the quotient keeps
  at least 24 significant bits: the result is \<^verbatim>\<open>d\<close> times the weight of the last kept bit.
\<close>

fun scale :: "int list \<Rightarrow> int \<Rightarrow> int \<Rightarrow> int"
  where
    "scale [] n d = d"
  | "scale (p # ps) n d = scale ps n (if 8388608 * (d * p) \<le> n then d * p else d)"

definition two_powers :: "int list"
  where "two_powers = [2 ^ 256, 2 ^ 128, 2 ^ 64, 2 ^ 32, 2 ^ 16, 2 ^ 8, 2 ^ 4, 2 ^ 2, 2]"

lemma two_powers_code [code]: "two_powers =
    [0x10000000000000000000000000000000000000000000000000000000000000000,
     0x100000000000000000000000000000000, 0x10000000000000000, 4294967296, 65536, 256, 16, 4, 2]"
  by (simp add: two_powers_def)

definition round_mag :: "int \<Rightarrow> int \<Rightarrow> int"
  where "round_mag n d =
    (let w = scale two_powers n d; q = n div w; r = n mod w
     in (if w < 2 * r \<or> (2 * r = w \<and> odd q) then q + 1 else q) * (w div d))"

definition pack :: "bool \<Rightarrow> int \<Rightarrow> int \<Rightarrow> f32"
  where "pack s n d = (let m = round_mag n d in if overflow_mag \<le> m then FInf s else FFin s m)"

definition is_nan :: "f32 \<Rightarrow> bool"
  where "is_nan x = (x = FNan)"

definition is_finite :: "f32 \<Rightarrow> bool"
  where "is_finite x = (case x of FFin _ _ \<Rightarrow> True | _ \<Rightarrow> False)"

section \<open>Arithmetic\<close>

definition signed :: "bool \<Rightarrow> int \<Rightarrow> int"
  where "signed s m = (if s then - m else m)"

definition of_units :: "bool \<Rightarrow> int \<Rightarrow> f32"
  where "of_units zero_sign v = (if v = 0 then FFin zero_sign 0 else pack (v < 0) \<bar>v\<bar> 1)"

fun fneg :: "f32 \<Rightarrow> f32"
  where
    "fneg (FFin s m) = FFin (\<not> s) m"
  | "fneg (FInf s) = FInf (\<not> s)"
  | "fneg FNan = FNan"

fun fadd :: "f32 \<Rightarrow> f32 \<Rightarrow> f32"
  where
    "fadd (FFin s a) (FFin t b) = of_units (s \<and> t) (signed s a + signed t b)"
  | "fadd (FInf s) (FInf t) = (if s = t then FInf s else FNan)"
  | "fadd (FInf s) (FFin _ _) = FInf s"
  | "fadd (FFin _ _) (FInf t) = FInf t"
  | "fadd _ _ = FNan"

definition fsub :: "f32 \<Rightarrow> f32 \<Rightarrow> f32"
  where "fsub x y = fadd x (fneg y)"

fun fmul :: "f32 \<Rightarrow> f32 \<Rightarrow> f32"
  where
    "fmul (FFin s a) (FFin t b) = pack (s \<noteq> t) (a * b) unit_den"
  | "fmul (FInf s) (FInf t) = FInf (s \<noteq> t)"
  | "fmul (FInf s) (FFin t b) = (if b = 0 then FNan else FInf (s \<noteq> t))"
  | "fmul (FFin s a) (FInf t) = (if a = 0 then FNan else FInf (s \<noteq> t))"
  | "fmul _ _ = FNan"

fun fdiv :: "f32 \<Rightarrow> f32 \<Rightarrow> f32"
  where
    "fdiv (FFin s a) (FFin t b) =
      (if b = 0 then (if a = 0 then FNan else FInf (s \<noteq> t)) else pack (s \<noteq> t) (a * unit_den) b)"
  | "fdiv (FInf s) (FFin t _) = FInf (s \<noteq> t)"
  | "fdiv (FFin s _) (FInf t) = FFin (s \<noteq> t) 0"
  | "fdiv _ _ = FNan"

text \<open>\<^verbatim>\<open>f32::abs\<close>.\<close>

fun fabs :: "f32 \<Rightarrow> f32"
  where
    "fabs (FFin s m) = FFin False m"
  | "fabs (FInf s) = FInf False"
  | "fabs FNan = FNan"

section \<open>Comparison\<close>

text \<open>Every comparison with a NaN is false, and the two zeros are equal.\<close>

fun flt :: "f32 \<Rightarrow> f32 \<Rightarrow> bool"
  where
    "flt (FFin s a) (FFin t b) = (signed s a < signed t b)"
  | "flt (FInf s) (FInf t) = (s \<and> \<not> t)"
  | "flt (FInf s) (FFin _ _) = s"
  | "flt (FFin _ _) (FInf t) = (\<not> t)"
  | "flt _ _ = False"

fun feq :: "f32 \<Rightarrow> f32 \<Rightarrow> bool"
  where
    "feq (FFin s a) (FFin t b) = (signed s a = signed t b)"
  | "feq (FInf s) (FInf t) = (s = t)"
  | "feq _ _ = False"

definition fle :: "f32 \<Rightarrow> f32 \<Rightarrow> bool"
  where "fle x y = (flt x y \<or> feq x y)"

text \<open>
  \<^verbatim>\<open>f32::max\<close> and \<^verbatim>\<open>f32::min\<close> return the other operand when one is a NaN (which of two zeros of
  different sign they return is left open by Rust; the first is taken here).  \<^verbatim>\<open>f32::clamp\<close> keeps a NaN.
\<close>

definition fmax :: "f32 \<Rightarrow> f32 \<Rightarrow> f32"
  where "fmax x y = (if is_nan x then y else if flt x y then y else x)"

definition fmin :: "f32 \<Rightarrow> f32 \<Rightarrow> f32"
  where "fmin x y = (if is_nan x then y else if flt y x then y else x)"

definition fclamp :: "f32 \<Rightarrow> f32 \<Rightarrow> f32 \<Rightarrow> f32"
  where "fclamp x lo hi = (let y = (if flt x lo then lo else x) in if flt hi y then hi else y)"

section \<open>Conversions\<close>

definition f32_of_int :: "int \<Rightarrow> f32"
  where "f32_of_int n = of_units False (n * unit_den)"

text \<open>A decimal literal of the sources, as a fraction: the nearest representable value.\<close>

definition f32_ratio :: "int \<Rightarrow> int \<Rightarrow> f32"
  where "f32_ratio n d = (if n = 0 then FFin False 0 else pack (n < 0) (\<bar>n\<bar> * unit_den) d)"

abbreviation f32_zero :: f32
  where "f32_zero \<equiv> FFin False 0"

definition f32_one :: f32
  where "f32_one = FFin False unit_den"

text \<open>\<^verbatim>\<open>x as u16\<close>, \<^verbatim>\<open>x as i32\<close>: truncate towards zero, saturate, and a NaN gives 0.\<close>

fun f32_to_int :: "int \<Rightarrow> int \<Rightarrow> f32 \<Rightarrow> int"
  where
    "f32_to_int lo hi (FFin s m) = max lo (min hi (signed s (m div unit_den)))"
  | "f32_to_int lo hi (FInf s) = (if s then lo else hi)"
  | "f32_to_int lo hi FNan = 0"

definition f32_to_u16 :: "f32 \<Rightarrow> u16"
  where "f32_to_u16 x = word_of_int (f32_to_int 0 65535 x)"

definition f32_to_u32 :: "f32 \<Rightarrow> u32"
  where "f32_to_u32 x = word_of_int (f32_to_int 0 4294967295 x)"

definition f32_to_i32 :: "f32 \<Rightarrow> int"
  where "f32_to_i32 x = f32_to_int (-2147483648) 2147483647 x"

section \<open>Evaluation\<close>

text \<open>
  Code equations that fire on computed operands only, so that the kernel's evaluation of a program with
  local bindings neither unfolds an operation on an unknown value nor duplicates an unevaluated one.
\<close>

definition pack_int :: "bool \<Rightarrow> int \<Rightarrow> int \<Rightarrow> f32"
  where "pack_int = pack"

lemma pack_int_code [code]: "pack_int s n d = (let m = round_mag n d in if overflow_mag \<le> m then FInf s else FFin s m)"
  by (simp add: pack_int_def pack_def)

lemma pack_code [code]:
  "pack s 0 d = pack_int s 0 d" "pack s (Int.Pos k) d = pack_int s (Int.Pos k) d"
  "pack s (Int.Neg k) d = pack_int s (Int.Neg k) d"
  by (simp_all add: pack_int_def)

lemma of_units_code [code]:
  "of_units z 0 = FFin z 0" "of_units z (Int.Pos k) = pack_int False (Int.Pos k) 1"
  "of_units z (Int.Neg k) = pack_int True (Int.Pos k) 1"
  by (simp_all add: pack_int_def of_units_def)

lemma fmin_code [code]: "fmin FNan y = y"
  "fmin (FFin s a) y = (case flt y (FFin s a) of True \<Rightarrow> y | False \<Rightarrow> FFin s a)"
  "fmin (FInf s) y = (case flt y (FInf s) of True \<Rightarrow> y | False \<Rightarrow> FInf s)"
  by (simp_all add: fmin_def is_nan_def split: bool.splits)

lemma fmax_code [code]: "fmax FNan y = y"
  "fmax (FFin s a) y = (case flt (FFin s a) y of True \<Rightarrow> y | False \<Rightarrow> FFin s a)"
  "fmax (FInf s) y = (case flt (FInf s) y of True \<Rightarrow> y | False \<Rightarrow> FInf s)"
  by (simp_all add: fmax_def is_nan_def split: bool.splits)

lemma fle_code [code]: "fle FNan y = False"
  "fle (FFin s a) y = (flt (FFin s a) y \<or> feq (FFin s a) y)"
  "fle (FInf s) y = (flt (FInf s) y \<or> feq (FInf s) y)"
  by (simp_all add: fle_def)

definition force :: "f32 \<Rightarrow> (f32 \<Rightarrow> 'a) \<Rightarrow> 'a"
  where "force x f = f x"

lemma force_code [code]:
  "force (FFin s 0) f = f (FFin s 0)" "force (FFin s (Int.Pos k)) f = f (FFin s (Int.Pos k))"
  "force (FFin s (Int.Neg k)) f = f (FFin s (Int.Neg k))" "force (FInf s) f = f (FInf s)" "force FNan f = f FNan"
  by (simp_all add: force_def)

fun forces :: "f32 list \<Rightarrow> (f32 list \<Rightarrow> 'a) \<Rightarrow> 'a"
  where
    "forces [] f = f []"
  | "forces (x # xs) f = force x (\<lambda>y. forces xs (\<lambda>ys. f (y # ys)))"

lemma forces_eq: "forces xs f = f xs"
  by (induction xs arbitrary: f) (simp_all add: force_def)

text \<open>Division with the common factors of two cancelled first, which is cheap on binary numerals.\<close>

fun cancel_num :: "num \<Rightarrow> num \<Rightarrow> num \<times> num"
  where
    "cancel_num (num.Bit0 a) (num.Bit0 b) = cancel_num a b"
  | "cancel_num a b = (a, b)"

lemma cancel_num_eq: "\<exists>c::int. 0 < c \<and> numeral a = numeral (fst (cancel_num a b)) * c \<and>
    numeral b = numeral (snd (cancel_num a b)) * c"
proof (induction a b rule: cancel_num.induct)
  case (1 a b)
  then obtain c :: int where "0 < c" "numeral a = numeral (fst (cancel_num a b)) * c"
    "numeral b = numeral (snd (cancel_num a b)) * c" by blast
  then show ?case
    by (intro exI [of _ "c + c"]) (simp only: cancel_num.simps numeral_Bit0 distrib_left add_pos_pos simp_thms)
qed (auto intro: exI [of _ 1])

definition cancel_twos :: "int \<Rightarrow> int \<Rightarrow> int \<times> int"
  where "cancel_twos n w =
    (if 0 < n \<and> 0 < w
     then map_prod numeral numeral (cancel_num (num_of_nat (nat n)) (num_of_nat (nat w))) else (n, w))"

lemma cancel_twos_code [code]:
  "cancel_twos (Int.Pos a) (Int.Pos b) = map_prod Int.Pos Int.Pos (cancel_num a b)"
  "cancel_twos 0 w = (0, w)" "cancel_twos (Int.Neg a) w = (Int.Neg a, w)"
  "cancel_twos n 0 = (n, 0)" "cancel_twos n (Int.Neg b) = (n, Int.Neg b)"
  by (simp_all add: cancel_twos_def num_of_nat_numeral_eq)

lemma cancel_twos_eq:
  assumes "cancel_twos n w = (n', w')"
  shows "\<exists>c. 0 < c \<and> n = n' * c \<and> w = w' * c"
proof (cases "0 < n \<and> 0 < w")
  case True
  let ?a = "num_of_nat (nat n)" and ?b = "num_of_nat (nat w)"
  have num: "numeral (num_of_nat (nat k)) = k" if "0 < k" for k :: int
    using that numeral_num_of_nat [of "nat k"] by (metis int_nat_eq less_le of_nat_numeral zero_less_nat_eq)
  have "n' = numeral (fst (cancel_num ?a ?b))" "w' = numeral (snd (cancel_num ?a ?b))"
    using assms True by (auto simp: cancel_twos_def map_prod_def split: prod.splits)
  with cancel_num_eq [of ?a ?b] num True show ?thesis by metis
qed (use assms in \<open>auto simp: cancel_twos_def intro: exI [of _ 1]\<close>)

lemma round_mag_code [code]: "round_mag n d =
    (case cancel_twos n (scale two_powers n d) of (n', w') \<Rightarrow>
      (case cancel_twos (scale two_powers n d) d of (u, v) \<Rightarrow>
        (let q = n' div w'; r = n' - q * w'
         in (if w' < 2 * r \<or> (2 * r = w' \<and> odd q) then q + 1 else q) * (u div v))))"
proof -
  define ww where "ww = scale two_powers n d"
  obtain n' w' u v where c: "cancel_twos n ww = (n', w')" "cancel_twos ww d = (u, v)" by fastforce
  from cancel_twos_eq [OF c(1)] obtain k where k: "0 < k" "n = n' * k" "ww = w' * k" by auto
  from cancel_twos_eq [OF c(2)] obtain l where l: "0 < l" "ww = u * l" "d = v * l" by auto
  have "n div ww = n' div w'" using k(1) by (subst k(2), subst k(3)) simp
  moreover have "n mod ww = (n' mod w') * k" unfolding k(3) by (subst k(2)) (rule mod_mult_mult2)
  moreover have "ww div d = u div v" using l(1) by (subst l(2), subst l(3)) simp
  moreover have "w' * k < 2 * (r * k) \<longleftrightarrow> w' < 2 * r" "2 * (r * k) = w' * k \<longleftrightarrow> 2 * r = w'" for r
    using k(1) by (simp_all flip: mult.assoc)
  ultimately show ?thesis
    unfolding round_mag_def ww_def [symmetric] c prod.case Let_def minus_div_mult_eq_mod by (simp add: k(3))
qed

section \<open>The mathematical library\<close>

record libm =
  roundf :: "f32 \<Rightarrow> f32"
  fabsf :: "f32 \<Rightarrow> f32"
  ceilf :: "f32 \<Rightarrow> f32"
  sqrtf :: "f32 \<Rightarrow> f32"
  acosf :: "f32 \<Rightarrow> f32"
  atan2f :: "f32 \<Rightarrow> f32 \<Rightarrow> f32"
  cosf :: "f32 \<Rightarrow> f32"
  sinf :: "f32 \<Rightarrow> f32"

text \<open>Round half away from zero, as C's \<^verbatim>\<open>roundf\<close> documents it.\<close>

fun round_away :: "f32 \<Rightarrow> f32"
  where
    "round_away (FFin s m) = FFin s ((2 * m + unit_den) div (2 * unit_den) * unit_den)"
  | "round_away x = x"


text \<open>
  A correctly rounded square root, for instances: the radicand in units times the unit is brought to
  50 bits by a power of four, its integer root has 25 bits, and a sticky bit decides the rounding.
\<close>

fun isqrt_bits :: "int list \<Rightarrow> int \<Rightarrow> int \<Rightarrow> int"
  where
    "isqrt_bits [] n r = r"
  | "isqrt_bits (p # ps) n r = isqrt_bits ps n (if (r + p) * (r + p) \<le> n then r + p else r)"

definition root_bits :: "int list"
  where "root_bits =
    [33554432, 16777216, 8388608, 4194304, 2097152, 1048576, 524288, 262144, 131072, 65536, 32768,
     16384, 8192, 4096, 2048, 1024, 512, 256, 128, 64, 32, 16, 8, 4, 2, 1]"

text \<open>Powers of two, largest first: divide the radicand by their squares while 48 bits remain.\<close>

fun root_scale :: "int list \<Rightarrow> int \<Rightarrow> int \<Rightarrow> int"
  where
    "root_scale [] n d = d"
  | "root_scale (p # ps) n d = root_scale ps n (if 281474976710656 * (d * p) * (d * p) \<le> n then d * p else d)"

fun fsqrt :: "f32 \<Rightarrow> f32"
  where
    "fsqrt (FFin s m) =
      (if m = 0 then FFin s 0
       else if s then FNan
       else let n = m * unit_den; d = root_scale two_powers n 1; k = n div (d * d);
                r = isqrt_bits root_bits k 0
            in pack False ((2 * r + (if r * r * (d * d) = n then 0 else 1)) * d) 2)"
  | "fsqrt (FInf s) = (if s then FNan else FInf False)"
  | "fsqrt FNan = FNan"

text \<open>Rounding up to an integer, as C's \<^verbatim>\<open>ceilf\<close> documents it.\<close>

fun fceil :: "f32 \<Rightarrow> f32"
  where
    "fceil (FFin s m) =
      (if s then FFin True (m div unit_den * unit_den)
       else FFin False ((m + unit_den - 1) div unit_den * unit_den))"
  | "fceil x = x"

text \<open>
  An instance of the library for concrete runs: the algebraic functions correctly rounded, the
  trigonometric ones by their value at 0 (no instance below follows an arc).
\<close>

definition exact_libm :: libm
  where "exact_libm =
    \<lparr>roundf = round_away, fabsf = fabs, ceilf = fceil, sqrtf = fsqrt, acosf = (\<lambda>_. f32_zero),
     atan2f = (\<lambda>_ _. f32_zero), cosf = (\<lambda>_. f32_one), sinf = (\<lambda>_. f32_zero)\<rparr>"

section \<open>Exactness of the rounding\<close>

lemma scale_cancel: "0 < d \<Longrightarrow> scale ps (n * d) (k * d) = scale ps n k * d"
proof (induction ps arbitrary: k)
  case (Cons p ps)
  have "8388608 * (k * d * p) \<le> n * d \<longleftrightarrow> 8388608 * (k * p) * d \<le> n * d"
    by (simp add: ac_simps)
  also have "\<dots> \<longleftrightarrow> 8388608 * (k * p) \<le> n" using Cons.prems by simp
  finally show ?case using Cons.IH [of k] Cons.IH [of "k * p"] Cons.prems by (simp add: ac_simps)
qed simp

text \<open>The jumps of \<^verbatim>\<open>scale\<close> reach the first denominator at which at most 24 bits remain.\<close>

definition jumps :: "nat \<Rightarrow> int list"
  where "jumps k = map (\<lambda>i. 2 ^ (2 ^ i)) (rev [0..<k])"

lemma jumps_Suc: "jumps (Suc k) = 2 ^ (2 ^ k) # jumps k"
  by (simp add: jumps_def)

lemma two_powers_jumps: "two_powers = jumps 9"
  by (simp add: two_powers_def jumps_def upt_rec)

lemma scale_jumps:
  assumes "0 < d" and "n < 8388608 * d * 2 ^ (2 ^ k)"
  shows "\<exists>e. scale (jumps k) n d = d * 2 ^ e \<and> n < 16777216 * (d * 2 ^ e) \<and>
    (e = 0 \<or> 8388608 * (d * 2 ^ e) \<le> n)"
  using assms
proof (induction k arbitrary: d)
  case 0
  then show ?case by (simp add: jumps_def exI [of _ 0])
next
  case (Suc k)
  let ?p = "2 ^ (2 ^ k) :: int"
  have sq: "2 ^ (2 ^ Suc k) = ?p * ?p"
    by (simp add: mult_2 flip: power_add)
  show ?case
  proof (cases "8388608 * (d * ?p) \<le> n")
    case True
    have eq: "8388608 * d * (?p * ?p) = 8388608 * (d * ?p) * ?p" by (simp only: ac_simps)
    have "n < 8388608 * (d * ?p) * ?p" using Suc.prems(2) by (simp only: sq eq)
    then obtain e where e: "scale (jumps k) n (d * ?p) = d * ?p * 2 ^ e"
        "n < 16777216 * (d * ?p * 2 ^ e)" "e = 0 \<or> 8388608 * (d * ?p * 2 ^ e) \<le> n"
      using Suc.IH [of "d * ?p"] Suc.prems(1) by auto
    have "d * ?p * 2 ^ e = d * 2 ^ (2 ^ k + e)" by (simp add: power_add ac_simps)
    with e True show ?thesis by (intro exI [of _ "2 ^ k + e"]) (auto simp: jumps_Suc)
  next
    case False
    then have "n < 8388608 * d * ?p" by (simp add: ac_simps)
    from Suc.IH [OF Suc.prems(1) this] False show ?thesis by (simp add: jumps_Suc)
  qed
qed

definition representable :: "int \<Rightarrow> bool"
  where "representable m = (\<exists>k e. m = k * 2 ^ e \<and> 0 \<le> k \<and> k \<le> 16777216)"

lemma round_mag_one:
  assumes "representable m" and "m < 2 ^ 512"
  shows "round_mag m 1 = m"
proof -
  obtain k e where m: "m = k * 2 ^ e" "0 \<le> k" "k \<le> 16777216"
    using assms(1) by (auto simp: representable_def)
  obtain f where f: "scale two_powers m 1 = 2 ^ f" "f = 0 \<or> 8388608 * 2 ^ f \<le> m"
    using scale_jumps [of 1 m 9] assms(2) by (auto simp: two_powers_jumps)
  have "2 ^ f dvd m"
  proof (cases "f \<le> e")
    case True
    then show ?thesis by (simp add: m(1) le_imp_power_dvd)
  next
    case False
    then have fe: "f = 0 \<or> 8388608 * (2::int) ^ f \<le> 16777216 * 2 ^ e"
      using f(2) m by (meson mult_right_mono order_trans zero_le_numeral zero_le_power)
    have "(2::int) ^ Suc e \<le> 2 ^ f" using False by (intro power_increasing) auto
    with fe False have "(2::int) ^ f = 2 ^ Suc e" by auto
    then have feq: "f = Suc e" by (metis power_inject_exp one_less_numeral_iff semiring_norm(76))
    with f(2) m(1) have "16777216 * 2 ^ e \<le> k * 2 ^ e" by simp
    then have "16777216 \<le> k" by simp
    with m(3) have "k = 16777216" by simp
    then have "m = 2 ^ Suc e * 8388608" using m(1) by simp
    then show ?thesis unfolding feq by (rule dvdI)
  qed
  then show ?thesis by (simp add: round_mag_def f(1) Let_def)
qed

lemma round_mag_cancel: "0 < d \<Longrightarrow> round_mag (n * d) d = round_mag n 1"
proof -
  assume d: "0 < d"
  let ?w = "scale two_powers n 1"
  have w: "scale two_powers (n * d) d = ?w * d" using scale_cancel [OF d, of _ n 1] by simp
  have c: "a * d < 2 * (b * d) \<longleftrightarrow> a < 2 * b" "2 * (b * d) = a * d \<longleftrightarrow> 2 * b = a" for a b
    using d by (simp_all flip: mult.assoc)
  show ?thesis using d by (simp add: round_mag_def w c Let_def mod_mult_mult2)
qed

lemma representable_unit: "0 \<le> n \<Longrightarrow> n \<le> 16777216 \<Longrightarrow> representable (n * unit_den)"
  unfolding representable_def unit_den_def by blast

lemma pack_nat:
  assumes "0 \<le> n" and "n \<le> 16777216"
  shows "pack s (n * unit_den) 1 = FFin s (n * unit_den)"
proof -
  have le: "n * unit_den \<le> 16777216 * unit_den" using assms by simp
  then have "n * unit_den < overflow_mag" "n * unit_den < 2 ^ 512"
    by (simp_all add: unit_den_def overflow_mag_def)
  with round_mag_one [OF representable_unit [OF assms]] show ?thesis by (simp add: pack_def)
qed

lemma pack_nat_mult:
  assumes "0 \<le> n" and "n \<le> 16777216"
  shows "pack s (n * unit_den * unit_den) unit_den = FFin s (n * unit_den)"
  using pack_nat [OF assms] by (simp add: pack_def round_mag_cancel)

abbreviation f32_nat :: "int \<Rightarrow> f32"
  where "f32_nat n \<equiv> FFin False (n * unit_den)"

lemma f32_of_int_nat: "0 \<le> n \<Longrightarrow> n \<le> 16777216 \<Longrightarrow> f32_of_int n = f32_nat n"
  using pack_nat [of n False] by (auto simp: f32_of_int_def of_units_def mult_less_0_iff abs_mult)

lemma fadd_nat:
  assumes "0 \<le> a" "0 \<le> b" "a + b \<le> 16777216"
  shows "fadd (f32_nat a) (f32_nat b) = f32_nat (a + b)"
proof -
  have "fadd (f32_nat a) (f32_nat b) = f32_of_int (a + b)"
    by (simp add: signed_def f32_of_int_def distrib_right)
  with assms show ?thesis by (simp add: f32_of_int_nat)
qed

lemma fmul_nat:
  assumes "0 \<le> a" "0 \<le> b" "a * b \<le> 16777216"
  shows "fmul (f32_nat a) (f32_nat b) = f32_nat (a * b)"
  using pack_nat_mult [of "a * b" False] assms by (simp add: ac_simps)

lemma signed_simps [simp]: "signed False m = m" "signed True m = - m"
  by (simp_all add: signed_def)

text \<open>Comparisons on values that are not a NaN are those of a linear order.\<close>

lemma flt_irrefl [simp]: "\<not> flt x x"
  by (cases x) auto

lemma feq_refl [simp]: "feq x x \<longleftrightarrow> x \<noteq> FNan"
  by (cases x) auto

lemma flt_trans: "flt x y \<Longrightarrow> flt y z \<Longrightarrow> flt x z"
  by (cases x; cases y; cases z) auto

lemma fle_trans: "fle x y \<Longrightarrow> fle y z \<Longrightarrow> fle x z"
  by (cases x; cases y; cases z) (auto simp: fle_def)

lemma fle_linear: "x \<noteq> FNan \<Longrightarrow> y \<noteq> FNan \<Longrightarrow> fle x y \<or> flt y x"
  by (cases x; cases y) (auto simp: fle_def)

lemma fle_not_flt: "fle x y \<Longrightarrow> \<not> flt y x"
  by (cases x; cases y) (auto simp: fle_def)

lemma fmin_le: "y \<noteq> FNan \<Longrightarrow> fle (fmin x y) y"
  using fle_linear [of x y] by (auto simp: fmin_def is_nan_def fle_def)

end
