(* ===== verification/Gcode_Lexer.thy ===== *)
theory Gcode_Lexer
  imports Float32
begin

text \<open>
  The lexer of \<^verbatim>\<open>crates/cnc-kinematics/src/gcode.rs\<close>: error codes, words, comment and blank skipping,
  and the hand-written number grammar, over the bytes of one line.  A \<^verbatim>\<open>Lexer\<close> is a slice and a cursor
  into it; here it is the part of the slice the cursor has not passed.
\<close>

section \<open>Errors and words\<close>

datatype GcodeError =
    ExpectedCommandLetterValue | BadNumberFormat | ModalGroupViolation | UnsupportedCommand
  | ProbeNoAxis | FeedRateUndefined | JogNoAxis | ProbeInverseTimeUnsupported
  | ProbeRotaryAxisWord | BadToolNumber

fun gcode_error_code :: "GcodeError \<Rightarrow> u8"
  where
    "gcode_error_code ExpectedCommandLetterValue = 1"
  | "gcode_error_code BadNumberFormat = 2"
  | "gcode_error_code ModalGroupViolation = 21"
  | "gcode_error_code UnsupportedCommand = 20"
  | "gcode_error_code ProbeNoAxis = 26"
  | "gcode_error_code FeedRateUndefined = 22"
  | "gcode_error_code JogNoAxis = 26"
  | "gcode_error_code ProbeInverseTimeUnsupported = 22"
  | "gcode_error_code ProbeRotaryAxisWord = 33"
  | "gcode_error_code BadToolNumber = 23"

record GWord =
  letter :: u8
  wvalue :: f32

definition ascii_digit :: "u8 \<Rightarrow> bool"
  where "ascii_digit b = (0x30 \<le> b \<and> b \<le> 0x39)"

definition ascii_alphabetic :: "u8 \<Rightarrow> bool"
  where "ascii_alphabetic b = (0x41 \<le> b \<and> b \<le> 0x5A \<or> 0x61 \<le> b \<and> b \<le> 0x7A)"

definition ascii_uppercase :: "u8 \<Rightarrow> u8"
  where "ascii_uppercase b = (if 0x61 \<le> b \<and> b \<le> 0x7A then b - 0x20 else b)"

section \<open>Blanks and comments\<close>

text \<open>The bytes after a block comment whose opening parenthesis has been consumed.\<close>

definition after_block_comment :: "u8 list \<Rightarrow> u8 list"
  where "after_block_comment bs = drop 1 (dropWhile (\<lambda>b. b \<noteq> 0x29) bs)"

lemma length_after_block_comment: "length (after_block_comment bs) \<le> length bs"
  using length_dropWhile_le [of "\<lambda>b. b \<noteq> 0x29" bs] by (simp add: after_block_comment_def)

function skip_insignificant :: "u8 list \<Rightarrow> u8 list"
  where
    "skip_insignificant [] = []"
  | "skip_insignificant (b # bs) =
      (if b \<in> {0x20, 0x09, 0x0D, 0x0A} then skip_insignificant bs
       else if b = 0x3B then []
       else if b = 0x28 then skip_insignificant (after_block_comment bs)
       else b # bs)"
  by pat_completeness auto
termination
  by (relation "measure length") (auto simp: le_imp_less_Suc length_after_block_comment)

section \<open>Numbers\<close>

definition skip_sign :: "u8 list \<Rightarrow> u8 list"
  where "skip_sign bs = (case bs of b # rest \<Rightarrow> if b \<in> {0x2B, 0x2D} then rest else bs | [] \<Rightarrow> [])"

definition advance_over_number :: "u8 list \<Rightarrow> u8 list"
  where "advance_over_number bs = dropWhile (\<lambda>b. ascii_digit b \<or> b = 0x2E) (skip_sign bs)"

definition f32_of_byte :: "u8 \<Rightarrow> f32"
  where "f32_of_byte b = f32_of_int (uint b)"

definition ten :: f32
  where "ten = f32_of_int 10"

text \<open>The integer digits: the accumulated value, whether a digit was seen, and the bytes left.\<close>

fun integer_digits :: "f32 \<Rightarrow> bool \<Rightarrow> u8 list \<Rightarrow> f32 \<times> bool \<times> u8 list"
  where
    "integer_digits v saw [] = (v, saw, [])"
  | "integer_digits v saw (b # bs) =
      (if ascii_digit b then integer_digits (fadd (fmul v ten) (f32_of_byte (b - 0x30))) True bs
       else (v, saw, b # bs))"

fun fraction_digits :: "f32 \<Rightarrow> f32 \<Rightarrow> bool \<Rightarrow> u8 list \<Rightarrow> f32 \<times> bool \<times> u8 list"
  where
    "fraction_digits v place saw [] = (v, saw, [])"
  | "fraction_digits v place saw (b # bs) =
      (if ascii_digit b
       then fraction_digits (fadd v (fmul (f32_of_byte (b - 0x30)) place))
              (fmul place (f32_ratio 1 10)) True bs
       else (v, saw, b # bs))"

definition parse_f32 :: "u8 list \<Rightarrow> GcodeError + f32"
  where "parse_f32 token =
    (let negative = (case token of b # _ \<Rightarrow> b = 0x2D | [] \<Rightarrow> False);
         (int_part, saw, rest) = integer_digits f32_zero False (skip_sign token);
         (v, saw, rest) =
           (case rest of
              b # frac \<Rightarrow> if b = 0x2E then fraction_digits int_part (f32_ratio 1 10) saw frac
                          else (int_part, saw, rest)
            | [] \<Rightarrow> (int_part, saw, rest))
     in if \<not> saw \<or> rest \<noteq> [] then Inl BadNumberFormat
        else Inr (if negative then fneg v else v))"

section \<open>Words\<close>

definition next_word :: "u8 list \<Rightarrow> (u8 list \<times> (GcodeError + GWord)) option"
  where "next_word bytes =
    (case skip_insignificant bytes of
       [] \<Rightarrow> None
     | first # rest \<Rightarrow>
         if \<not> ascii_alphabetic first then Some (first # rest, Inl ExpectedCommandLetterValue)
         else
           (let start = dropWhile (\<lambda>b. b \<in> {0x20, 0x09}) rest;
                after = advance_over_number start;
                token = take (length start - length after) start
            in if token = [] then Some (after, Inl ExpectedCommandLetterValue)
               else Some (after,
                 (case parse_f32 token of
                    Inl err \<Rightarrow> Inl err
                  | Inr v \<Rightarrow> Inr \<lparr>letter = ascii_uppercase first, wvalue = v\<rparr>))))"

lemma length_skip_insignificant: "length (skip_insignificant bs) \<le> length bs"
  by (induction bs rule: skip_insignificant.induct)
    (auto intro: le_SucI order_trans [OF _ length_after_block_comment])

lemma length_skip_sign: "length (skip_sign bs) \<le> length bs"
  by (auto simp: skip_sign_def split: list.splits)

lemma length_advance_over_number: "length (advance_over_number bs) \<le> length bs"
  unfolding advance_over_number_def using length_dropWhile_le length_skip_sign order_trans by blast

text \<open>A lexed word consumes at least its letter, so the word loop of a line ends.\<close>

lemma next_word_shorter: "next_word bs = Some (rest, Inr w) \<Longrightarrow> length rest < length bs"
proof (cases "skip_insignificant bs")
  case (Cons b tail)
  assume "next_word bs = Some (rest, Inr w)"
  with Cons have "rest = advance_over_number (dropWhile (\<lambda>b. b \<in> {0x20, 0x09}) tail)"
    by (simp add: next_word_def Let_def split: if_split_asm)
  then have "length rest \<le> length tail"
    using length_advance_over_number length_dropWhile_le order_trans by blast
  also have "\<dots> < length bs" using length_skip_insignificant [of bs] Cons by simp
  finally show ?thesis .
qed (simp add: next_word_def)

text \<open>The words of a line, up to the first lexing error.\<close>

function lex_line :: "u8 list \<Rightarrow> GcodeError + GWord list"
  where "lex_line bytes =
    (case next_word bytes of
       None \<Rightarrow> Inr []
     | Some (rest, Inl e) \<Rightarrow> Inl e
     | Some (rest, Inr w) \<Rightarrow> map_sum id (Cons w) (lex_line rest))"
  by pat_completeness auto
termination
  by (relation "measure length") (auto simp: next_word_shorter)

declare lex_line.simps [simp del]

end
