(* ===== verification/Gcode_Parser.thy ===== *)
theory Gcode_Parser
  imports Gcode_Lexer
begin

text \<open>
  The parser of \<^verbatim>\<open>crates/cnc-kinematics/src/gcode.rs\<close>: the modal state, the modal-group guard, the
  per-line accumulator, the word handlers, the emission of at most one command per line, and the jog
  parser.  The mutable arguments of \<^verbatim>\<open>apply_word\<close> (guard, accumulator, staged state) are one record
  \<^verbatim>\<open>LineCtx\<close> that the handlers return; they are locals of \<^verbatim>\<open>parse_line\<close>, so an error drops them.
  Fields of the modal state, the guard and the accumulator carry the prefixes \<^verbatim>\<open>m_\<close>, \<^verbatim>\<open>g_\<close>, \<^verbatim>\<open>a_\<close>.
  The functions \<^verbatim>\<open>roundf\<close> and \<^verbatim>\<open>fabsf\<close> of the \<^verbatim>\<open>libm\<close> crate are fields of the argument \<^verbatim>\<open>lm\<close>.
\<close>

section \<open>Modal state and commands\<close>

definition WCS_COUNT :: nat
  where "WCS_COUNT = 6"

definition PREDEFINED_COUNT :: nat
  where "PREDEFINED_COUNT = 2"

datatype MotionMode = MM_Rapid | MM_Linear | MM_ArcCw | MM_ArcCcw

datatype DistanceMode = Absolute | Incremental

datatype Units = Inch | Millimeter

datatype FeedMode = UnitsPerMin | InverseTime

datatype Plane = PlaneXY | PlaneZX | PlaneYZ

record CoolantState =
  mist :: bool
  flood :: bool

definition coolant_off :: CoolantState
  where "coolant_off = \<lparr>mist = False, flood = False\<rparr>"

record ProbeKind =
  toward :: bool
  alarm_on_fail :: bool

definition G38_2 :: ProbeKind
  where "G38_2 = \<lparr>toward = True, alarm_on_fail = True\<rparr>"

definition G38_3 :: ProbeKind
  where "G38_3 = \<lparr>toward = True, alarm_on_fail = False\<rparr>"

definition G38_4 :: ProbeKind
  where "G38_4 = \<lparr>toward = False, alarm_on_fail = True\<rparr>"

definition G38_5 :: ProbeKind
  where "G38_5 = \<lparr>toward = False, alarm_on_fail = False\<rparr>"

datatype SpindleState = Clockwise | CounterClockwise | SpindleStop

record ModalState =
  m_motion :: MotionMode
  m_distance :: DistanceMode
  m_units :: Units
  m_feed_mode :: FeedMode
  m_wcs :: nat
  m_tlo_active :: bool
  m_feed :: f32
  m_spindle_speed :: f32
  m_spindle :: SpindleState
  m_plane :: Plane
  m_coolant :: CoolantState
  m_pending_tool :: u16
  m_current_tool :: u16

definition ModalState_default :: ModalState
  where "ModalState_default =
    \<lparr>m_motion = MM_Rapid, m_distance = Absolute, m_units = Millimeter, m_feed_mode = UnitsPerMin,
     m_wcs = 0, m_tlo_active = False, m_feed = f32_zero, m_spindle_speed = f32_zero,
     m_spindle = SpindleStop, m_plane = PlaneXY, m_coolant = coolant_off,
     m_pending_tool = 0, m_current_tool = 0\<rparr>"

record AxisWords =
  ax_x :: "f32 option"
  ax_y :: "f32 option"
  ax_z :: "f32 option"
  ax_a :: "f32 option"

definition AxisWords_default :: AxisWords
  where "AxisWords_default = \<lparr>ax_x = None, ax_y = None, ax_z = None, ax_a = None\<rparr>"

datatype CoordinateOp =
    SelectWcs nat
  | SetWcsOffset nat AxisWords Units
  | SetWcsOffsetToPosition nat AxisWords Units
  | SetG92ToPosition AxisWords Units
  | ClearG92
  | StorePredefined nat
  | ApplyTlo f32 Units
  | CancelTlo

record JogCommand =
  jog_axes :: AxisWords
  jog_distance :: DistanceMode
  jog_units :: Units
  jog_feed :: f32
  jog_machine_coords :: bool

text \<open>
  The arguments of the command constructors are the fields of the source's variants, in order:
  \<^verbatim>\<open>Move rapid axes units distance feed feed_mode machine_coords\<close>,
  \<^verbatim>\<open>Arc cw axes i j k plane units distance feed feed_mode machine_coords\<close>,
  \<^verbatim>\<open>Probe kind axes units distance feed\<close>, \<^verbatim>\<open>GoToPredefined is_g28 intermediate units distance\<close>.
\<close>

datatype PlannerCommand =
    Move bool AxisWords Units DistanceMode f32 FeedMode bool
  | Arc bool AxisWords "f32 option" "f32 option" "f32 option" Plane Units DistanceMode f32 FeedMode bool
  | Probe ProbeKind AxisWords Units DistanceMode f32
  | Dwell f32
  | GoToPredefined bool AxisWords Units DistanceMode
  | Coordinate CoordinateOp
  | Spindle SpindleState f32
  | ProgramEnd
  | ProgramPause bool bool
  | Coolant CoolantState

section \<open>Modal groups\<close>

datatype Group =
    GrpMotion | GrpUnits | GrpDistance | GrpPlane | GrpSpindle | GrpStop | GrpFeedMode
  | GrpCoordinate | GrpToolOffset | GrpNonModal | GrpCoolant

record GroupGuard =
  g_motion :: bool
  g_units :: bool
  g_distance :: bool
  g_plane :: bool
  g_spindle :: bool
  g_stop :: bool
  g_feed_mode :: bool
  g_coordinate :: bool
  g_tool_offset :: bool
  g_non_modal :: bool
  g_coolant :: bool

definition GroupGuard_default :: GroupGuard
  where "GroupGuard_default =
    \<lparr>g_motion = False, g_units = False, g_distance = False, g_plane = False, g_spindle = False,
     g_stop = False, g_feed_mode = False, g_coordinate = False, g_tool_offset = False,
     g_non_modal = False, g_coolant = False\<rparr>"

fun claimed :: "GroupGuard \<Rightarrow> Group \<Rightarrow> bool"
  where
    "claimed g GrpMotion = g_motion g"
  | "claimed g GrpUnits = g_units g"
  | "claimed g GrpDistance = g_distance g"
  | "claimed g GrpPlane = g_plane g"
  | "claimed g GrpSpindle = g_spindle g"
  | "claimed g GrpStop = g_stop g"
  | "claimed g GrpFeedMode = g_feed_mode g"
  | "claimed g GrpCoordinate = g_coordinate g"
  | "claimed g GrpToolOffset = g_tool_offset g"
  | "claimed g GrpNonModal = g_non_modal g"
  | "claimed g GrpCoolant = g_coolant g"

fun set_claimed :: "Group \<Rightarrow> GroupGuard \<Rightarrow> GroupGuard"
  where
    "set_claimed GrpMotion g = g\<lparr>g_motion := True\<rparr>"
  | "set_claimed GrpUnits g = g\<lparr>g_units := True\<rparr>"
  | "set_claimed GrpDistance g = g\<lparr>g_distance := True\<rparr>"
  | "set_claimed GrpPlane g = g\<lparr>g_plane := True\<rparr>"
  | "set_claimed GrpSpindle g = g\<lparr>g_spindle := True\<rparr>"
  | "set_claimed GrpStop g = g\<lparr>g_stop := True\<rparr>"
  | "set_claimed GrpFeedMode g = g\<lparr>g_feed_mode := True\<rparr>"
  | "set_claimed GrpCoordinate g = g\<lparr>g_coordinate := True\<rparr>"
  | "set_claimed GrpToolOffset g = g\<lparr>g_tool_offset := True\<rparr>"
  | "set_claimed GrpNonModal g = g\<lparr>g_non_modal := True\<rparr>"
  | "set_claimed GrpCoolant g = g\<lparr>g_coolant := True\<rparr>"

section \<open>The line being accumulated\<close>

record PendingPause =
  pause_optional :: bool
  pause_tool_change :: bool

datatype PendingCoordinate =
    PC_G10 | PC_G92Set | PC_G92Clear | PC_StorePredefined nat | PC_ApplyTlo | PC_CancelTlo

record LineAccumulator =
  a_predefined :: "bool option"
  a_dwell :: bool
  a_probe :: "ProbeKind option"
  a_spindle :: "SpindleState option"
  a_program_end :: bool
  a_pause :: "PendingPause option"
  a_coolant :: "CoolantState option"
  a_coordinate :: "PendingCoordinate option"
  a_machine_coords :: bool
  a_selected_wcs :: bool
  a_l :: "f32 option"
  a_saw_feed :: bool
  a_axes :: AxisWords
  a_i :: "f32 option"
  a_j :: "f32 option"
  a_k :: "f32 option"
  a_p :: "f32 option"

definition LineAccumulator_default :: LineAccumulator
  where "LineAccumulator_default =
    \<lparr>a_predefined = None, a_dwell = False, a_probe = None, a_spindle = None, a_program_end = False,
     a_pause = None, a_coolant = None, a_coordinate = None, a_machine_coords = False,
     a_selected_wcs = False, a_l = None, a_saw_feed = False, a_axes = AxisWords_default,
     a_i = None, a_j = None, a_k = None, a_p = None\<rparr>"

definition axes_present :: "AxisWords \<Rightarrow> bool"
  where "axes_present ax = (ax_x ax \<noteq> None \<or> ax_y ax \<noteq> None \<or> ax_z ax \<noteq> None \<or> ax_a ax \<noteq> None)"

definition has_axes :: "LineAccumulator \<Rightarrow> bool"
  where "has_axes acc = axes_present (a_axes acc)"

record LineCtx =
  c_guard :: GroupGuard
  c_acc :: LineAccumulator
  c_next :: ModalState

fun bind_ok :: "'e + 'a \<Rightarrow> ('a \<Rightarrow> 'e + 'b) \<Rightarrow> 'e + 'b"
  where
    "bind_ok (Inl e) k = Inl e"
  | "bind_ok (Inr a) k = k a"

lemma bind_ok_Inr: "bind_ok r k = Inr b \<longleftrightarrow> (\<exists>a. r = Inr a \<and> k a = Inr b)"
  by (cases r) auto

definition claim :: "Group \<Rightarrow> LineCtx \<Rightarrow> GcodeError + LineCtx"
  where "claim grp c =
    (if claimed (c_guard c) grp then Inl ModalGroupViolation
     else Inr (c\<lparr>c_guard := set_claimed grp (c_guard c)\<rparr>))"

text \<open>Claim a group, then update the staged modal state or the accumulator.\<close>

definition claim_state :: "Group \<Rightarrow> (ModalState \<Rightarrow> ModalState) \<Rightarrow> LineCtx \<Rightarrow> GcodeError + LineCtx"
  where "claim_state grp f c = bind_ok (claim grp c) (\<lambda>c. Inr (c\<lparr>c_next := f (c_next c)\<rparr>))"

definition claim_acc ::
    "Group \<Rightarrow> (LineAccumulator \<Rightarrow> LineAccumulator) \<Rightarrow> LineCtx \<Rightarrow> GcodeError + LineCtx"
  where "claim_acc grp f c = bind_ok (claim grp c) (\<lambda>c. Inr (c\<lparr>c_acc := f (c_acc c)\<rparr>))"

section \<open>Codes and tools\<close>

text \<open>\<^verbatim>\<open>(lo..=hi).contains(&x)\<close>.\<close>

definition in_range :: "f32 \<Rightarrow> f32 \<Rightarrow> f32 \<Rightarrow> bool"
  where "in_range lo hi x = (fle lo x \<and> fle x hi)"

definition off_integer :: "libm \<Rightarrow> f32 \<Rightarrow> f32 \<Rightarrow> bool"
  where "off_integer lm v rounded = flt (f32_ratio 1 1000) (fabsf lm (fsub v rounded))"

definition tool_number :: "libm \<Rightarrow> f32 \<Rightarrow> GcodeError + u16"
  where "tool_number lm v =
    (let rounded = roundf lm v
     in if \<not> in_range f32_zero (f32_of_int 65535) rounded \<or> off_integer lm v rounded
        then Inl BadToolNumber else Inr (f32_to_u16 rounded))"

definition g_code :: "libm \<Rightarrow> f32 \<Rightarrow> GcodeError + u16"
  where "g_code lm v =
    (let rounded = roundf lm v
     in if \<not> in_range f32_zero (f32_of_int 255) rounded \<or> off_integer lm v rounded
        then Inl UnsupportedCommand else Inr (f32_to_u16 rounded))"

section \<open>Word handlers\<close>

definition apply_fractional_g_word :: "libm \<Rightarrow> f32 \<Rightarrow> LineCtx \<Rightarrow> (GcodeError + LineCtx) option"
  where "apply_fractional_g_word lm v c =
    (let scaled = roundf lm (fmul v ten)
     in if flt (f32_ratio 1 100) (fabsf lm (fsub (fmul v ten) scaled)) \<or> f32_to_i32 scaled mod 10 = 0
        then None
        else
          (let code = f32_to_i32 scaled
           in Some
             (if code = 281 then
                claim_acc GrpNonModal (\<lambda>a. a\<lparr>a_coordinate := Some (PC_StorePredefined 0)\<rparr>) c
              else if code = 301 then
                claim_acc GrpNonModal (\<lambda>a. a\<lparr>a_coordinate := Some (PC_StorePredefined 1)\<rparr>) c
              else if code = 431 then
                bind_ok (claim_acc GrpToolOffset (\<lambda>a. a\<lparr>a_coordinate := Some PC_ApplyTlo\<rparr>) c)
                  (\<lambda>c. Inr (c\<lparr>c_next := (c_next c)\<lparr>m_tlo_active := True\<rparr>\<rparr>))
              else if code = 921 then
                claim_acc GrpNonModal (\<lambda>a. a\<lparr>a_coordinate := Some PC_G92Clear\<rparr>) c
              else if code = 382 then claim_acc GrpMotion (\<lambda>a. a\<lparr>a_probe := Some G38_2\<rparr>) c
              else if code = 383 then claim_acc GrpMotion (\<lambda>a. a\<lparr>a_probe := Some G38_3\<rparr>) c
              else if code = 384 then claim_acc GrpMotion (\<lambda>a. a\<lparr>a_probe := Some G38_4\<rparr>) c
              else if code = 385 then claim_acc GrpMotion (\<lambda>a. a\<lparr>a_probe := Some G38_5\<rparr>) c
              else Inl UnsupportedCommand)))"

definition apply_integer_g_word :: "u16 \<Rightarrow> LineCtx \<Rightarrow> GcodeError + LineCtx"
  where "apply_integer_g_word code c =
    (if code = 0 then claim_state GrpMotion (\<lambda>m. m\<lparr>m_motion := MM_Rapid\<rparr>) c
     else if code = 1 then claim_state GrpMotion (\<lambda>m. m\<lparr>m_motion := MM_Linear\<rparr>) c
     else if code = 2 then claim_state GrpMotion (\<lambda>m. m\<lparr>m_motion := MM_ArcCw\<rparr>) c
     else if code = 3 then claim_state GrpMotion (\<lambda>m. m\<lparr>m_motion := MM_ArcCcw\<rparr>) c
     else if code = 4 then claim_acc GrpMotion (\<lambda>a. a\<lparr>a_dwell := True\<rparr>) c
     else if code = 10 then claim_acc GrpNonModal (\<lambda>a. a\<lparr>a_coordinate := Some PC_G10\<rparr>) c
     else if code = 17 then claim_state GrpPlane (\<lambda>m. m\<lparr>m_plane := PlaneXY\<rparr>) c
     else if code = 18 then claim_state GrpPlane (\<lambda>m. m\<lparr>m_plane := PlaneZX\<rparr>) c
     else if code = 19 then claim_state GrpPlane (\<lambda>m. m\<lparr>m_plane := PlaneYZ\<rparr>) c
     else if code = 20 then claim_state GrpUnits (\<lambda>m. m\<lparr>m_units := Inch\<rparr>) c
     else if code = 21 then claim_state GrpUnits (\<lambda>m. m\<lparr>m_units := Millimeter\<rparr>) c
     else if code = 93 then claim_state GrpFeedMode (\<lambda>m. m\<lparr>m_feed_mode := InverseTime\<rparr>) c
     else if code = 94 then claim_state GrpFeedMode (\<lambda>m. m\<lparr>m_feed_mode := UnitsPerMin\<rparr>) c
     else if code = 28 then claim_acc GrpMotion (\<lambda>a. a\<lparr>a_predefined := Some True\<rparr>) c
     else if code = 30 then claim_acc GrpMotion (\<lambda>a. a\<lparr>a_predefined := Some False\<rparr>) c
     else if code = 53 then Inr (c\<lparr>c_acc := (c_acc c)\<lparr>a_machine_coords := True\<rparr>\<rparr>)
     else if code = 49 then
       bind_ok (claim_state GrpToolOffset (\<lambda>m. m\<lparr>m_tlo_active := False\<rparr>) c)
         (\<lambda>c. Inr (c\<lparr>c_acc := (c_acc c)\<lparr>a_coordinate := Some PC_CancelTlo\<rparr>\<rparr>))
     else if 54 \<le> code \<and> code \<le> 59 then
       bind_ok (claim_state GrpCoordinate (\<lambda>m. m\<lparr>m_wcs := unat (code - 54)\<rparr>) c)
         (\<lambda>c. Inr (c\<lparr>c_acc := (c_acc c)\<lparr>a_selected_wcs := True\<rparr>\<rparr>))
     else if code = 90 then claim_state GrpDistance (\<lambda>m. m\<lparr>m_distance := Absolute\<rparr>) c
     else if code = 91 then claim_state GrpDistance (\<lambda>m. m\<lparr>m_distance := Incremental\<rparr>) c
     else if code = 92 then claim_acc GrpNonModal (\<lambda>a. a\<lparr>a_coordinate := Some PC_G92Set\<rparr>) c
     else Inl UnsupportedCommand)"

definition apply_g_word :: "libm \<Rightarrow> f32 \<Rightarrow> LineCtx \<Rightarrow> GcodeError + LineCtx"
  where "apply_g_word lm v c =
    (case apply_fractional_g_word lm v c of
       Some result \<Rightarrow> result
     | None \<Rightarrow> bind_ok (g_code lm v) (\<lambda>code. apply_integer_g_word code c))"

definition stage_spindle :: "SpindleState \<Rightarrow> LineCtx \<Rightarrow> GcodeError + LineCtx"
  where "stage_spindle sp c =
    bind_ok (claim_acc GrpSpindle (\<lambda>a. a\<lparr>a_spindle := Some sp\<rparr>) c)
      (\<lambda>c. Inr (c\<lparr>c_next := (c_next c)\<lparr>m_spindle := sp\<rparr>\<rparr>))"

definition stage_coolant :: "(CoolantState \<Rightarrow> CoolantState) \<Rightarrow> LineCtx \<Rightarrow> GcodeError + LineCtx"
  where "stage_coolant f c =
    bind_ok (claim GrpCoolant c)
      (\<lambda>c. let cool = f (m_coolant (c_next c))
           in Inr (c\<lparr>c_next := (c_next c)\<lparr>m_coolant := cool\<rparr>, c_acc := (c_acc c)\<lparr>a_coolant := Some cool\<rparr>\<rparr>))"

definition stage_pause :: "bool \<Rightarrow> bool \<Rightarrow> LineCtx \<Rightarrow> GcodeError + LineCtx"
  where "stage_pause opt change c =
    claim_acc GrpStop
      (\<lambda>a. a\<lparr>a_pause := Some \<lparr>pause_optional = opt, pause_tool_change = change\<rparr>\<rparr>) c"

definition commit_tool :: "ModalState \<Rightarrow> ModalState"
  where "commit_tool m = m\<lparr>m_current_tool := m_pending_tool m, m_pending_tool := 0\<rparr>"

definition apply_integer_m_word :: "u16 \<Rightarrow> LineCtx \<Rightarrow> GcodeError + LineCtx"
  where "apply_integer_m_word code c =
    (if code = 0 then stage_pause False False c
     else if code = 1 then stage_pause True False c
     else if code = 6 then
       bind_ok (stage_pause False True c) (\<lambda>c. Inr (c\<lparr>c_next := commit_tool (c_next c)\<rparr>))
     else if code = 7 then stage_coolant (\<lambda>cool. cool\<lparr>mist := True\<rparr>) c
     else if code = 8 then stage_coolant (\<lambda>cool. cool\<lparr>flood := True\<rparr>) c
     else if code = 9 then stage_coolant (\<lambda>_. coolant_off) c
     else if code = 3 then stage_spindle Clockwise c
     else if code = 4 then stage_spindle CounterClockwise c
     else if code = 5 then stage_spindle SpindleStop c
     else if code = 2 \<or> code = 30 then claim_acc GrpStop (\<lambda>a. a\<lparr>a_program_end := True\<rparr>) c
     else Inl UnsupportedCommand)"

definition apply_m_word :: "libm \<Rightarrow> f32 \<Rightarrow> LineCtx \<Rightarrow> GcodeError + LineCtx"
  where "apply_m_word lm v c = bind_ok (g_code lm v) (\<lambda>code. apply_integer_m_word code c)"

definition stage :: "(LineAccumulator \<Rightarrow> LineAccumulator) \<Rightarrow> LineCtx \<Rightarrow> GcodeError + LineCtx"
  where "stage f c = Inr (c\<lparr>c_acc := f (c_acc c)\<rparr>)"

text \<open>The letters, as bytes: G, M, X, Y, Z, A, I, J, K, P, L, F, S, T, N.\<close>

definition apply_word :: "libm \<Rightarrow> GWord \<Rightarrow> LineCtx \<Rightarrow> GcodeError + LineCtx"
  where "apply_word lm w c =
    (let l = letter w; v = wvalue w in
     if l = 0x47 then apply_g_word lm v c
     else if l = 0x4D then apply_m_word lm v c
     else if l = 0x58 then stage (\<lambda>a. a\<lparr>a_axes := (a_axes a)\<lparr>ax_x := Some v\<rparr>\<rparr>) c
     else if l = 0x59 then stage (\<lambda>a. a\<lparr>a_axes := (a_axes a)\<lparr>ax_y := Some v\<rparr>\<rparr>) c
     else if l = 0x5A then stage (\<lambda>a. a\<lparr>a_axes := (a_axes a)\<lparr>ax_z := Some v\<rparr>\<rparr>) c
     else if l = 0x41 then stage (\<lambda>a. a\<lparr>a_axes := (a_axes a)\<lparr>ax_a := Some v\<rparr>\<rparr>) c
     else if l = 0x49 then stage (\<lambda>a. a\<lparr>a_i := Some v\<rparr>) c
     else if l = 0x4A then stage (\<lambda>a. a\<lparr>a_j := Some v\<rparr>) c
     else if l = 0x4B then stage (\<lambda>a. a\<lparr>a_k := Some v\<rparr>) c
     else if l = 0x50 then stage (\<lambda>a. a\<lparr>a_p := Some v\<rparr>) c
     else if l = 0x4C then stage (\<lambda>a. a\<lparr>a_l := Some v\<rparr>) c
     else if l = 0x46 then
       Inr (c\<lparr>c_next := (c_next c)\<lparr>m_feed := v\<rparr>, c_acc := (c_acc c)\<lparr>a_saw_feed := True\<rparr>\<rparr>)
     else if l = 0x53 then Inr (c\<lparr>c_next := (c_next c)\<lparr>m_spindle_speed := v\<rparr>\<rparr>)
     else if l = 0x54 then
       bind_ok (tool_number lm v) (\<lambda>t. Inr (c\<lparr>c_next := (c_next c)\<lparr>m_pending_tool := t\<rparr>\<rparr>))
     else if l = 0x4E then Inr c
     else Inl UnsupportedCommand)"

section \<open>Emission\<close>

definition wcs_index_from_p :: "libm \<Rightarrow> f32 option \<Rightarrow> nat \<Rightarrow> nat"
  where "wcs_index_from_p lm p fallback =
    (case p of
       Some v \<Rightarrow>
         (let n = f32_to_i32 (roundf lm v)
          in if 1 \<le> n \<and> n \<le> int WCS_COUNT then nat (n - 1) else fallback)
     | None \<Rightarrow> fallback)"

definition resolve_coordinate ::
    "libm \<Rightarrow> PendingCoordinate \<Rightarrow> LineAccumulator \<Rightarrow> ModalState \<Rightarrow> nat \<Rightarrow> CoordinateOp"
  where "resolve_coordinate lm pending a m active_wcs_fallback =
    (case pending of
       PC_G10 \<Rightarrow>
         (let index = wcs_index_from_p lm (a_p a) active_wcs_fallback;
              is_l20 = (case a_l a of Some l \<Rightarrow> f32_to_i32 (roundf lm l) = 20 | None \<Rightarrow> False)
          in if is_l20 then SetWcsOffsetToPosition index (a_axes a) (m_units m)
             else SetWcsOffset index (a_axes a) (m_units m))
     | PC_G92Set \<Rightarrow> SetG92ToPosition (a_axes a) (m_units m)
     | PC_G92Clear \<Rightarrow> ClearG92
     | PC_StorePredefined index \<Rightarrow> StorePredefined index
     | PC_ApplyTlo \<Rightarrow> ApplyTlo (case ax_z (a_axes a) of Some z \<Rightarrow> z | None \<Rightarrow> f32_zero) (m_units m)
     | PC_CancelTlo \<Rightarrow> CancelTlo)"

definition feed_is_undefined :: "ModalState \<Rightarrow> bool \<Rightarrow> bool \<Rightarrow> bool"
  where "feed_is_undefined m saw_feed needs_feed =
    (if \<not> needs_feed then False
     else if fle (m_feed m) f32_zero then True
     else m_feed_mode m = InverseTime \<and> \<not> saw_feed)"

definition motion_command :: "LineAccumulator \<Rightarrow> ModalState \<Rightarrow> PlannerCommand"
  where "motion_command a m =
    (let move = (\<lambda>rapid. Move rapid (a_axes a) (m_units m) (m_distance m) (m_feed m)
                   (m_feed_mode m) (a_machine_coords a));
         arc = (\<lambda>cw. Arc cw (a_axes a) (a_i a) (a_j a) (a_k a) (m_plane m) (m_units m) (m_distance m)
                   (m_feed m) (m_feed_mode m) (a_machine_coords a))
     in case m_motion m of
          MM_Rapid \<Rightarrow> move True
        | MM_Linear \<Rightarrow> move False
        | MM_ArcCw \<Rightarrow> arc True
        | MM_ArcCcw \<Rightarrow> arc False)"

definition emit_probe ::
    "ProbeKind \<Rightarrow> LineAccumulator \<Rightarrow> ModalState \<Rightarrow> GcodeError + PlannerCommand option"
  where "emit_probe kind a m =
    (if ax_a (a_axes a) \<noteq> None then Inl ProbeRotaryAxisWord
     else if m_feed_mode m = InverseTime then Inl ProbeInverseTimeUnsupported
     else if feed_is_undefined m (a_saw_feed a) True then Inl FeedRateUndefined
     else Inr (Some (Probe kind (a_axes a) (m_units m) (m_distance m) (m_feed m))))"

definition emit_tail :: "LineAccumulator \<Rightarrow> ModalState \<Rightarrow> GcodeError + PlannerCommand option"
  where "emit_tail a m =
    (if has_axes a then
       (if feed_is_undefined m (a_saw_feed a) (m_motion m \<noteq> MM_Rapid) then Inl FeedRateUndefined
        else Inr (Some (motion_command a m)))
     else case a_spindle a of
       Some sp \<Rightarrow> Inr (Some (Spindle sp (m_spindle_speed m)))
     | None \<Rightarrow>
         (case a_coolant a of
            Some cool \<Rightarrow> Inr (Some (Coolant cool))
          | None \<Rightarrow>
              if a_selected_wcs a then Inr (Some (Coordinate (SelectWcs (m_wcs m)))) else Inr None))"

definition emit_command ::
    "libm \<Rightarrow> LineAccumulator \<Rightarrow> ModalState \<Rightarrow> nat \<Rightarrow> GcodeError + PlannerCommand option"
  where "emit_command lm a m pre_line_wcs =
    (if a_program_end a then Inr (Some ProgramEnd)
     else case a_pause a of
       Some p \<Rightarrow> Inr (Some (ProgramPause (pause_optional p) (pause_tool_change p)))
     | None \<Rightarrow>
         if a_dwell a then Inr (Some (Dwell (case a_p a of Some v \<Rightarrow> v | None \<Rightarrow> f32_zero)))
         else case a_predefined a of
           Some is_g28 \<Rightarrow>
             Inr (Some (GoToPredefined is_g28 (a_axes a) (m_units m) (m_distance m)))
         | None \<Rightarrow>
             (case a_coordinate a of
                Some pending \<Rightarrow>
                  Inr (Some (Coordinate (resolve_coordinate lm pending a m pre_line_wcs)))
              | None \<Rightarrow>
                  (case a_probe a of
                     Some kind \<Rightarrow> emit_probe kind a m
                   | None \<Rightarrow> emit_tail a m)))"

section \<open>Lines\<close>

function parse_words :: "libm \<Rightarrow> u8 list \<Rightarrow> LineCtx \<Rightarrow> GcodeError + LineCtx"
  where "parse_words lm bytes c =
    (case next_word bytes of
       None \<Rightarrow> Inr c
     | Some (rest, Inl e) \<Rightarrow> Inl e
     | Some (rest, Inr w) \<Rightarrow> bind_ok (apply_word lm w c) (parse_words lm rest))"
  by pat_completeness auto
termination
  by (relation "measure (\<lambda>(lm, bytes, c). length bytes)") (auto simp: next_word_shorter)

declare parse_words.simps [simp del]

record Parser =
  pstate :: ModalState

definition Parser_new :: Parser
  where "Parser_new = \<lparr>pstate = ModalState_default\<rparr>"

definition set_current_tool :: "u16 \<Rightarrow> Parser \<Rightarrow> Parser"
  where "set_current_tool tool p = p\<lparr>pstate := (pstate p)\<lparr>m_current_tool := tool\<rparr>\<rparr>"

definition line_start :: "ModalState \<Rightarrow> LineCtx"
  where "line_start m = \<lparr>c_guard = GroupGuard_default, c_acc = LineAccumulator_default, c_next = m\<rparr>"

definition parse_gcode_line :: "libm \<Rightarrow> Parser \<Rightarrow> u8 list \<Rightarrow> Parser \<times> (GcodeError + PlannerCommand option)"
  where "parse_gcode_line lm p line =
    (case parse_words lm line (line_start (pstate p)) of
       Inl e \<Rightarrow> (p, Inl e)
     | Inr c \<Rightarrow>
         if a_probe (c_acc c) \<noteq> None \<and> \<not> has_axes (c_acc c) then (p, Inl ProbeNoAxis)
         else case emit_command lm (c_acc c) (c_next c) (m_wcs (pstate p)) of
           Inl e \<Rightarrow> (p, Inl e)
         | Inr cmd \<Rightarrow> (p\<lparr>pstate := c_next c\<rparr>, Inr cmd))"

section \<open>Jogs\<close>

record JogCtx =
  jc_state :: ModalState
  jc_axes :: AxisWords
  jc_feed :: bool
  jc_machine :: bool

definition jog_g_word :: "u16 \<Rightarrow> JogCtx \<Rightarrow> GcodeError + JogCtx"
  where "jog_g_word code j =
    (if code = 20 then Inr (j\<lparr>jc_state := (jc_state j)\<lparr>m_units := Inch\<rparr>\<rparr>)
     else if code = 21 then Inr (j\<lparr>jc_state := (jc_state j)\<lparr>m_units := Millimeter\<rparr>\<rparr>)
     else if code = 90 then Inr (j\<lparr>jc_state := (jc_state j)\<lparr>m_distance := Absolute\<rparr>\<rparr>)
     else if code = 91 then Inr (j\<lparr>jc_state := (jc_state j)\<lparr>m_distance := Incremental\<rparr>\<rparr>)
     else if code = 53 then Inr (j\<lparr>jc_machine := True\<rparr>)
     else Inl UnsupportedCommand)"

definition jog_word :: "libm \<Rightarrow> GWord \<Rightarrow> JogCtx \<Rightarrow> GcodeError + JogCtx"
  where "jog_word lm w j =
    (let l = letter w; v = wvalue w in
     if l = 0x58 then Inr (j\<lparr>jc_axes := (jc_axes j)\<lparr>ax_x := Some v\<rparr>\<rparr>)
     else if l = 0x59 then Inr (j\<lparr>jc_axes := (jc_axes j)\<lparr>ax_y := Some v\<rparr>\<rparr>)
     else if l = 0x5A then Inr (j\<lparr>jc_axes := (jc_axes j)\<lparr>ax_z := Some v\<rparr>\<rparr>)
     else if l = 0x41 then Inr (j\<lparr>jc_axes := (jc_axes j)\<lparr>ax_a := Some v\<rparr>\<rparr>)
     else if l = 0x46 then Inr (j\<lparr>jc_state := (jc_state j)\<lparr>m_feed := v\<rparr>, jc_feed := True\<rparr>)
     else if l = 0x47 then bind_ok (g_code lm v) (\<lambda>code. jog_g_word code j)
     else Inl UnsupportedCommand)"

function jog_words :: "libm \<Rightarrow> u8 list \<Rightarrow> JogCtx \<Rightarrow> GcodeError + JogCtx"
  where "jog_words lm bytes j =
    (case next_word bytes of
       None \<Rightarrow> Inr j
     | Some (rest, Inl e) \<Rightarrow> Inl e
     | Some (rest, Inr w) \<Rightarrow> bind_ok (jog_word lm w j) (jog_words lm rest))"
  by pat_completeness auto
termination
  by (relation "measure (\<lambda>(lm, bytes, j). length bytes)") (auto simp: next_word_shorter)

declare jog_words.simps [simp del]

definition parse_jog :: "libm \<Rightarrow> Parser \<Rightarrow> u8 list \<Rightarrow> GcodeError + JogCommand"
  where "parse_jog lm p line =
    bind_ok
      (jog_words lm line
        \<lparr>jc_state = pstate p, jc_axes = AxisWords_default, jc_feed = False, jc_machine = False\<rparr>)
      (\<lambda>j. if \<not> jc_feed j then Inl FeedRateUndefined
           else if \<not> axes_present (jc_axes j) then Inl JogNoAxis
           else Inr \<lparr>jog_axes = jc_axes j, jog_distance = m_distance (jc_state j),
                     jog_units = m_units (jc_state j), jog_feed = m_feed (jc_state j),
                     jog_machine_coords = jc_machine j\<rparr>)"

end
