(* ===== verification/Float32_Facts.thy ===== *)
theory Float32_Facts
  imports Float32
begin

text \<open>
  What the proofs about callers use of the rounding: it keeps signs, at most doubles a magnitude, and
  no operation the number grammar applies to its accumulators can produce a NaN.
\<close>

section \<open>Bounds of the rounding\<close>

lemma scale_shape: "\<exists>e. scale (jumps k) n d = d * 2 ^ e"
proof (induction k arbitrary: d)
  case (Suc k)
  let ?p = "2 ^ 2 ^ k :: int"
  obtain e f where e: "scale (jumps k) n (d * ?p) = d * ?p * 2 ^ e"
      and f: "scale (jumps k) n d = d * 2 ^ f"
    using Suc.IH [of "d * ?p"] Suc.IH [of d] by blast
  have "d * ?p * 2 ^ e = d * 2 ^ (2 ^ k + e)" by (simp add: power_add)
  with e f show ?case by (cases "8388608 * (d * ?p) \<le> n") (auto simp only: jumps_Suc scale.simps if_True if_False)
qed (simp add: jumps_def exI [of _ 0])

lemma round_mag_bounds:
  assumes "0 \<le> n" and "0 < d"
  shows "0 \<le> round_mag n d" and "round_mag n d * d \<le> 2 * n"
proof -
  obtain e where w: "scale two_powers n d = d * 2 ^ e"
    using scale_shape by (metis two_powers_jumps)
  let ?w = "d * 2 ^ e" let ?q = "n div ?w" let ?r = "n mod ?w"
  have r: "round_mag n d = (if ?w < 2 * ?r \<or> (2 * ?r = ?w \<and> odd ?q) then ?q + 1 else ?q) * 2 ^ e"
    using assms by (simp add: round_mag_def w Let_def)
  have q: "0 \<le> ?q" using assms by (simp add: pos_imp_zdiv_nonneg_iff)
  show "0 \<le> round_mag n d" using q by (simp add: r)
  have n: "n = ?q * ?w + ?r" by (rule div_mult_mod_eq [symmetric])
  have "0 \<le> ?r" and "0 \<le> ?q * ?w" using assms q by simp_all
  then have "?q * ?w \<le> 2 * n" and "?w \<le> 2 * ?r \<Longrightarrow> ?q * ?w + ?w \<le> 2 * n"
    using n assms(1) by linarith+
  then have "?q * ?w \<le> 2 * n" and "?w \<le> 2 * ?r \<Longrightarrow> (?q + 1) * ?w \<le> 2 * n"
    by (simp_all only: distrib_right mult_1)
  then show "round_mag n d * d \<le> 2 * n" unfolding r by (auto simp: ac_simps)
qed

section \<open>Values that are not negative and not a NaN\<close>

definition fnonneg :: "f32 \<Rightarrow> bool"
  where "fnonneg x = (case x of FFin s m \<Rightarrow> \<not> s \<and> 0 \<le> m | FInf s \<Rightarrow> \<not> s | FNan \<Rightarrow> False)"

lemma fnonneg_not_nan: "fnonneg x \<Longrightarrow> x \<noteq> FNan"
  by (auto simp: fnonneg_def)

lemma fneg_not_nan: "x \<noteq> FNan \<Longrightarrow> fneg x \<noteq> FNan"
  by (cases x) auto

lemma pack_nonneg: "0 \<le> n \<Longrightarrow> 0 < d \<Longrightarrow> fnonneg (pack False n d)"
  by (simp add: pack_def Let_def fnonneg_def round_mag_bounds)

lemma fnonneg_zero [simp]: "fnonneg f32_zero"
  by (simp add: fnonneg_def)

lemma f32_of_int_nonneg: "0 \<le> n \<Longrightarrow> fnonneg (f32_of_int n)"
  by (auto simp: f32_of_int_def of_units_def mult_less_0_iff pack_nonneg)

lemma fadd_nonneg: "fnonneg x \<Longrightarrow> fnonneg y \<Longrightarrow> fnonneg (fadd x y)"
  by (cases x; cases y) (auto simp: fnonneg_def of_units_def intro: pack_nonneg [unfolded fnonneg_def])

lemma fmul_nonneg:
  assumes "fnonneg x" and "fnonneg y" and "is_finite x \<or> y \<noteq> f32_zero" and "is_finite y"
    and "x = FInf False \<Longrightarrow> \<not> feq y f32_zero"
  shows "fnonneg (fmul x y)"
  using assms
  by (cases x; cases y)
    (auto simp: fnonneg_def is_finite_def intro!: pack_nonneg [unfolded fnonneg_def])

section \<open>Decimal places\<close>

text \<open>The place value of a fractional digit starts at 0.1 and is multiplied by 0.1: it stays below 1.\<close>

definition place_ok :: "f32 \<Rightarrow> bool"
  where "place_ok x = (\<exists>m. x = FFin False m \<and> 0 \<le> m \<and> m \<le> unit_den)"

lemma tenth: "\<exists>m. f32_ratio 1 10 = FFin False m \<and> 0 \<le> m \<and> 2 * m \<le> unit_den"
proof -
  have "f32_ratio 1 10 = FFin False (13421773 * 2 ^ 122)" by code_simp
  then show ?thesis by (simp add: unit_den_def)
qed

lemma place_ok_tenth [simp]: "place_ok (f32_ratio 1 10)"
  using tenth by (force simp: place_ok_def)

lemma place_ok_step:
  assumes "place_ok x"
  shows "place_ok (fmul x (f32_ratio 1 10))"
proof -
  obtain m t where x: "x = FFin False m" "0 \<le> m" "m \<le> unit_den"
      and t: "f32_ratio 1 10 = FFin False t" "0 \<le> t" "2 * t \<le> unit_den"
    using assms tenth by (auto simp: place_ok_def)
  let ?r = "round_mag (m * t) unit_den"
  have "2 * (m * t) \<le> m * unit_den" using x t mult_left_mono [of "2 * t" unit_den m] by simp
  moreover have "?r * unit_den \<le> 2 * (m * t)"
    using round_mag_bounds(2) [of "m * t" unit_den] x t by simp
  ultimately have "?r * unit_den \<le> m * unit_den" by linarith
  then have le: "?r \<le> m" using mult_le_cancel_right_pos unit_den_pos(1) by blast
  then have "?r \<le> unit_den" using x by simp
  moreover have "unit_den < overflow_mag" by (simp add: unit_den_def overflow_mag_def)
  ultimately have "pack False (m * t) unit_den = FFin False ?r" by (simp add: pack_def Let_def)
  moreover have "0 \<le> ?r" using round_mag_bounds(1) x t by simp
  ultimately show ?thesis using \<open>?r \<le> unit_den\<close> by (simp add: x(1) t(1) place_ok_def)
qed

lemma place_product_nonneg: "0 \<le> n \<Longrightarrow> place_ok p \<Longrightarrow> n \<le> 16777216 \<Longrightarrow> fnonneg (fmul (f32_of_int n) p)"
  by (auto simp: place_ok_def f32_of_int_nat intro!: pack_nonneg)

section \<open>Monotonicity of the rounding\<close>

text \<open>Rounding the quotient by the weight of the last kept bit, ties to even.\<close>

definition round_even :: "int \<Rightarrow> int \<Rightarrow> int"
  where "round_even n w =
    (if w < 2 * (n mod w) \<or> (2 * (n mod w) = w \<and> odd (n div w)) then n div w + 1 else n div w)"

lemma le_div_iff:
  assumes "0 < (w::int)"
  shows "c \<le> n div w \<longleftrightarrow> c * w \<le> n"
proof
  assume "c \<le> n div w"
  then have "c * w \<le> n div w * w" using assms by simp
  also have "\<dots> \<le> n" using div_mult_mod_eq [of n w] pos_mod_sign [OF assms, of n] by linarith
  finally show "c * w \<le> n" .
next
  assume "c * w \<le> n"
  from zdiv_mono1 [OF this assms] assms show "c \<le> n div w" by simp
qed

lemma round_even_bounds:
  assumes "0 < w"
  shows "n div w \<le> round_even n w" and "round_even n w \<le> n div w + 1"
    and "c * w \<le> n \<Longrightarrow> c \<le> round_even n w" and "n < c * w \<Longrightarrow> round_even n w \<le> c"
proof -
  show lo: "n div w \<le> round_even n w" and hi: "round_even n w \<le> n div w + 1"
    by (auto simp: round_even_def)
  show "c * w \<le> n \<Longrightarrow> c \<le> round_even n w" using lo le_div_iff [OF assms, of c n] by linarith
  show "n < c * w \<Longrightarrow> round_even n w \<le> c" using hi le_div_iff [OF assms, of c n] by linarith
qed

lemma round_even_mono:
  assumes "0 < w" and "n \<le> n'"
  shows "round_even n w \<le> round_even n' w"
proof -
  have q: "n div w \<le> n' div w" using assms by (simp add: zdiv_mono1)
  show ?thesis
  proof (cases "n div w = n' div w")
    case True
    then have "n mod w \<le> n' mod w"
      using assms(2) by (metis add_le_cancel_left mult_div_mod_eq)
    with True show ?thesis by (auto simp: round_even_def)
  next
    case False
    then have "n div w + 1 \<le> n' div w" using q by simp
    then show ?thesis using round_even_bounds [OF assms(1), of n] round_even_bounds [OF assms(1), of n']
      by linarith
  qed
qed

text \<open>Magnitudes a sum of two finite values can have.\<close>

definition sum_bound :: int
  where "sum_bound = 8388608 * 2 ^ 512"

lemma round_mag_shape:
  assumes "0 \<le> n" and "n < sum_bound"
  shows "\<exists>e. round_mag n 1 = round_even n (2 ^ e) * 2 ^ e \<and> n < 16777216 * 2 ^ e \<and>
    (e = 0 \<or> 8388608 * 2 ^ e \<le> n)"
proof -
  obtain e where "scale two_powers n 1 = 2 ^ e" "n < 16777216 * 2 ^ e"
      "e = 0 \<or> 8388608 * 2 ^ e \<le> n"
    using scale_jumps [of 1 n 9] assms(2) by (auto simp: two_powers_jumps sum_bound_def)
  then show ?thesis by (auto simp: round_mag_def round_even_def Let_def)
qed

lemma round_mag_representable:
  assumes "0 \<le> n" and "n < sum_bound"
  shows "representable (round_mag n 1)"
proof -
  obtain e where e: "round_mag n 1 = round_even n (2 ^ e) * 2 ^ e" "n < 16777216 * 2 ^ e"
    using round_mag_shape [OF assms] by blast
  have "0 \<le> round_even n (2 ^ e)" using round_even_bounds(3) [of "2 ^ e" 0 n] assms(1) by simp
  moreover have "round_even n (2 ^ e) \<le> 16777216" using round_even_bounds(4) e(2) by simp
  ultimately show ?thesis using e(1) by (auto simp: representable_def)
qed

lemma round_mag_mono:
  assumes "0 \<le> n" and "n \<le> m" and "m < sum_bound"
  shows "round_mag n 1 \<le> round_mag m 1"
proof -
  obtain e where e: "round_mag n 1 = round_even n (2 ^ e) * 2 ^ e" "n < 16777216 * 2 ^ e"
      "e = 0 \<or> 8388608 * 2 ^ e \<le> n"
    using round_mag_shape [of n] assms by auto
  obtain f where f: "round_mag m 1 = round_even m (2 ^ f) * 2 ^ f" "m < 16777216 * 2 ^ f"
      "f = 0 \<or> 8388608 * 2 ^ f \<le> m"
    using round_mag_shape [of m] assms by auto
  consider "e = f" | "e < f" | "f < e" by linarith
  then show ?thesis
  proof cases
    case 1
    then show ?thesis using e(1) f(1) round_even_mono [of "2 ^ e" n m] assms(2) by simp
  next
    case 2
    then have le: "(2::int) ^ Suc e \<le> 2 ^ f" by (intro power_increasing) auto
    have "round_even n (2 ^ e) * 2 ^ e \<le> 16777216 * 2 ^ e"
      using round_even_bounds(4) [of "2 ^ e" n 16777216] e(2) by simp
    also have "\<dots> \<le> 8388608 * 2 ^ f" using le by simp
    also have "\<dots> \<le> round_even m (2 ^ f) * 2 ^ f"
      using round_even_bounds(3) [of "2 ^ f" 8388608 m] f(3) 2 by simp
    finally show ?thesis using e(1) f(1) by simp
  next
    case 3
    then have "(2::int) ^ Suc f \<le> 2 ^ e" by (intro power_increasing) auto
    with e(3) f(2) assms(2) 3 show ?thesis by auto
  qed
qed

section \<open>Well-formed values and addition\<close>

text \<open>A value the hardware could hold: a finite magnitude is its own rounding and below the overflow.\<close>

definition fwf :: "f32 \<Rightarrow> bool"
  where "fwf x = (case x of FFin s m \<Rightarrow> round_mag m 1 = m \<and> 0 \<le> m \<and> m < overflow_mag | _ \<Rightarrow> True)"

text \<open>The rounding of a signed magnitude, with the infinities as the overflow bounds.\<close>

definition srnd :: "int \<Rightarrow> int"
  where "srnd v = (if v < 0 then - min overflow_mag (round_mag (- v) 1) else min overflow_mag (round_mag v 1))"

fun rank :: "f32 \<Rightarrow> int"
  where
    "rank (FFin s m) = signed s m"
  | "rank (FInf s) = signed s overflow_mag"
  | "rank FNan = 0"

lemma fle_rank: "fwf x \<Longrightarrow> fwf y \<Longrightarrow> x \<noteq> FNan \<Longrightarrow> y \<noteq> FNan \<Longrightarrow> fle x y \<longleftrightarrow> rank x \<le> rank y"
  by (cases x; cases y) (auto simp: fle_def fwf_def signed_def)

lemma round_mag_zero [simp]: "round_mag 0 1 = 0"
  using round_mag_bounds [of 0 1] by simp

lemma overflow_below_sum: "2 * overflow_mag < sum_bound"
  by (simp add: overflow_mag_def sum_bound_def)

lemma round_mag_idem:
  assumes "0 \<le> n" and "n < sum_bound" and "round_mag n 1 < overflow_mag"
  shows "round_mag (round_mag n 1) 1 = round_mag n 1"
proof -
  have "overflow_mag < 2 ^ 512" by (simp add: overflow_mag_def)
  with assms show ?thesis by (intro round_mag_one round_mag_representable) simp_all
qed

lemma pack_facts:
  assumes "0 \<le> n" and "n < sum_bound"
  shows "fwf (pack s n 1)" and "pack s n 1 \<noteq> FNan"
    and "rank (pack s n 1) = signed s (min overflow_mag (round_mag n 1))"
  using round_mag_idem [OF assms] round_mag_bounds(1) [of n 1] assms
  by (simp_all add: pack_def Let_def fwf_def min_def)

lemma of_units_facts:
  assumes "\<bar>v\<bar> < sum_bound"
  shows "fwf (of_units z v)" and "of_units z v \<noteq> FNan" and "rank (of_units z v) = srnd v"
proof -
  note pack = pack_facts [of "\<bar>v\<bar>" "v < 0", OF abs_ge_zero assms]
  show "fwf (of_units z v)" using pack(1) by (simp add: of_units_def fwf_def)
  show "of_units z v \<noteq> FNan" using pack(2) by (simp add: of_units_def)
  show "rank (of_units z v) = srnd v"
    using pack(3) by (cases "v < 0") (simp_all add: of_units_def srnd_def signed_def)
qed

lemma srnd_mono: "v \<le> u \<Longrightarrow> \<bar>v\<bar> < sum_bound \<Longrightarrow> \<bar>u\<bar> < sum_bound \<Longrightarrow> srnd v \<le> srnd u"
proof -
  assume le: "v \<le> u" and b: "\<bar>v\<bar> < sum_bound" "\<bar>u\<bar> < sum_bound"
  have nn: "0 \<le> n \<Longrightarrow> 0 \<le> round_mag n 1" for n using round_mag_bounds(1) [of n 1] by simp
  consider "u < 0" | "v < 0" "0 \<le> u" | "0 \<le> v" using le by linarith
  then show ?thesis
  proof cases
    case 1
    with le b round_mag_mono [of "- u" "- v"] show ?thesis by (auto simp: srnd_def)
  next
    case 2
    have "srnd v \<le> 0" "0 \<le> srnd u" using 2 nn [of "- v"] nn [of u] by (simp_all add: srnd_def)
    then show ?thesis by linarith
  next
    case 3
    with le b round_mag_mono [of v u] show ?thesis by (auto simp: srnd_def)
  qed
qed

lemma srnd_exact: "fwf (FFin s m) \<Longrightarrow> srnd (signed s m) = signed s m"
  by (auto simp: srnd_def fwf_def signed_def)

text \<open>Negation is exact, and addition of well-formed values is monotone.\<close>

lemma fwf_fneg [simp]: "fwf (fneg x) \<longleftrightarrow> fwf x"
  by (cases x) (simp_all add: fwf_def)

lemma srnd_overflow [simp]: "srnd overflow_mag = overflow_mag" "srnd (- overflow_mag) = - overflow_mag"
proof -
  have "representable overflow_mag"
    unfolding representable_def overflow_mag_def by (rule exI [of _ 1], rule exI [of _ 277]) simp
  moreover have "overflow_mag < 2 ^ 512" by (simp add: overflow_mag_def)
  ultimately have "round_mag overflow_mag 1 = overflow_mag" by (rule round_mag_one)
  then show "srnd overflow_mag = overflow_mag" "srnd (- overflow_mag) = - overflow_mag"
    by (simp_all add: srnd_def)
qed

lemma srnd_zero [simp]: "srnd 0 = 0"
  by (simp add: srnd_def)

lemma fwf_bound: "fwf x \<Longrightarrow> \<bar>rank x\<bar> \<le> overflow_mag"
  by (cases x) (auto simp: fwf_def signed_def)

text \<open>Adding a finite value that is not negative.\<close>

definition gain_ok :: "f32 \<Rightarrow> bool"
  where "gain_ok g = (fwf g \<and> (case g of FFin s m \<Rightarrow> \<not> s | _ \<Rightarrow> False))"

lemma fadd_gain:
  assumes "fwf v" and "v \<noteq> FNan" and "gain_ok g"
  shows "fwf (fadd v g)" and "fadd v g \<noteq> FNan"
    and "rank (fadd v g) =
      (case v of FFin _ _ \<Rightarrow> srnd (rank v + rank g) | _ \<Rightarrow> rank v)"
    and "fle v (fadd v g)"
proof -
  obtain m where g: "g = FFin False m" "fwf g" "0 \<le> m" "m < overflow_mag"
    using assms(3) by (auto simp: gain_ok_def fwf_def split: f32.splits bool.splits)
  show wf: "fwf (fadd v g)" and nan: "fadd v g \<noteq> FNan"
    and rank: "rank (fadd v g) = (case v of FFin _ _ \<Rightarrow> srnd (rank v + rank g) | _ \<Rightarrow> rank v)"
  proof (atomize(full), cases v)
    case (FFin s a)
    with fwf_bound [OF assms(1)] g(3,4) overflow_below_sum
    have "\<bar>signed s a + m\<bar> < sum_bound" by simp
    from of_units_facts [OF this] FFin g(1) assms(2)
    show "fwf (fadd v g) \<and> fadd v g \<noteq> FNan \<and>
      rank (fadd v g) = (case v of FFin _ _ \<Rightarrow> srnd (rank v + rank g) | _ \<Rightarrow> rank v)" by simp
  qed (use assms g(1) in simp_all)
  have "rank v \<le> rank (fadd v g)"
  proof (cases v)
    case (FFin s a)
    with fwf_bound [OF assms(1)] g(3,4) overflow_below_sum
    have "srnd (signed s a) \<le> srnd (signed s a + m)" by (intro srnd_mono) simp_all
    with FFin rank g(1) srnd_exact [of s a] assms(1) show ?thesis by simp
  qed (use rank in simp_all)
  then show "fle v (fadd v g)" using fle_rank assms wf nan by simp
qed

lemma fadd_gain_mono:
  assumes "fwf v" "v \<noteq> FNan" "fwf w" "w \<noteq> FNan" "fle v w" "gain_ok g"
  shows "fle (fadd v g) (fadd w g)"
proof -
  note fv = fadd_gain [OF assms(1,2,6)] and fw = fadd_gain [OF assms(3,4,6)]
  have bounds: "\<bar>rank v + rank g\<bar> < sum_bound" "\<bar>rank w + rank g\<bar> < sum_bound"
    using fwf_bound assms overflow_below_sum by (smt (verit) gain_ok_def)+
  have le: "rank v \<le> rank w" using assms fle_rank by simp
  have "rank (fadd v g) \<le> rank (fadd w g)"
  proof (cases v)
    case v: (FFin s a)
    show ?thesis
    proof (cases w)
      case (FFin t b)
      with v fv(3) fw(3) le bounds show ?thesis by (simp add: srnd_mono)
    next
      case (FInf t)
      with v le assms(1) fwf_bound [OF fv(1)] fw(3) show ?thesis
        by (cases t) (auto simp: fwf_def signed_def split: if_splits)
    qed (use assms in simp)
  next
    case (FInf s)
    with fv(3) fwf_bound [OF fw(1)] assms(3,5) fw(3) show ?thesis
      by (cases s; cases w) (auto simp: fle_def)
  qed (use assms in simp)
  then show ?thesis using fle_rank fv(1,2) fw(1,2) by simp
qed

end
