(* ===== verification/Gcode_Props.thy ===== *)
theory Gcode_Props
  imports Gcode_Parser Float32_Facts
begin

text \<open>
  What a parsed line guarantees: which word lists a line may carry (the modal-group table of the
  language against the guard of the implementation), that every emitted command is well formed, that
  case does not matter, that the words of a command are the last ones on the line, and that integers
  are read exactly.
\<close>

section \<open>A line as its list of words\<close>

fun apply_words :: "libm \<Rightarrow> GWord list \<Rightarrow> LineCtx \<Rightarrow> GcodeError + LineCtx"
  where
    "apply_words lm [] c = Inr c"
  | "apply_words lm (w # ws) c = bind_ok (apply_word lm w c) (apply_words lm ws)"

lemma map_sum_id_Inr: "map_sum id f r = Inr b \<longleftrightarrow> (\<exists>a. r = Inr a \<and> b = f a)"
  by (cases r) auto

lemma parse_words_lex:
  "parse_words lm bs c = Inr c' \<longleftrightarrow> (\<exists>ws. lex_line bs = Inr ws \<and> apply_words lm ws c = Inr c')"
proof (induction lm bs c rule: parse_words.induct)
  case (1 lm bytes c)
  show ?case
  proof (cases "next_word bytes")
    case None
    then show ?thesis by (simp add: parse_words.simps [of lm bytes] lex_line.simps [of bytes])
  next
    case (Some p)
    then obtain rest r where nw: "next_word bytes = Some (rest, r)" by (cases p) auto
    show ?thesis
    proof (cases r)
      case (Inl e)
      with nw show ?thesis by (simp add: parse_words.simps [of lm bytes] lex_line.simps [of bytes])
    next
      case (Inr w)
      show ?thesis
        using 1 [OF nw refl Inr]
        by (auto simp: parse_words.simps [of lm bytes] lex_line.simps [of bytes] nw Inr bind_ok_Inr
            map_sum_id_Inr)
    qed
  qed
qed

section \<open>The modal groups of the language\<close>

text \<open>
  The word table: \<^verbatim>\<open>None\<close> for a word outside the supported subset, \<^verbatim>\<open>Some None\<close> for a word of no
  modal group, \<^verbatim>\<open>Some (Some g)\<close> for a word of group \<^verbatim>\<open>g\<close>.  Fractional codes are looked up by ten times
  their value.
\<close>

definition integer_g_table :: "(u16 \<times> Group) list"
  where "integer_g_table =
    [(0, GrpMotion), (1, GrpMotion), (2, GrpMotion), (3, GrpMotion), (4, GrpMotion),
     (28, GrpMotion), (30, GrpMotion), (10, GrpNonModal), (92, GrpNonModal),
     (17, GrpPlane), (18, GrpPlane), (19, GrpPlane), (20, GrpUnits), (21, GrpUnits),
     (93, GrpFeedMode), (94, GrpFeedMode), (49, GrpToolOffset),
     (54, GrpCoordinate), (55, GrpCoordinate), (56, GrpCoordinate), (57, GrpCoordinate),
     (58, GrpCoordinate), (59, GrpCoordinate), (90, GrpDistance), (91, GrpDistance)]"

definition fractional_g_table :: "(int \<times> Group) list"
  where "fractional_g_table =
    [(281, GrpNonModal), (301, GrpNonModal), (921, GrpNonModal), (431, GrpToolOffset),
     (382, GrpMotion), (383, GrpMotion), (384, GrpMotion), (385, GrpMotion)]"

definition m_table :: "(u16 \<times> Group) list"
  where "m_table =
    [(0, GrpStop), (1, GrpStop), (6, GrpStop), (2, GrpStop), (30, GrpStop),
     (3, GrpSpindle), (4, GrpSpindle), (5, GrpSpindle),
     (7, GrpCoolant), (8, GrpCoolant), (9, GrpCoolant)]"

definition is_fractional :: "libm \<Rightarrow> f32 \<Rightarrow> bool"
  where "is_fractional lm v =
    (let scaled = roundf lm (fmul v ten)
     in \<not> flt (f32_ratio 1 100) (fabsf lm (fsub (fmul v ten) scaled)) \<and> f32_to_i32 scaled mod 10 \<noteq> 0)"

definition g_class :: "libm \<Rightarrow> f32 \<Rightarrow> Group option option"
  where "g_class lm v =
    (if is_fractional lm v
     then map_option Some (map_of fractional_g_table (f32_to_i32 (roundf lm (fmul v ten))))
     else case g_code lm v of
       Inl _ \<Rightarrow> None
     | Inr code \<Rightarrow> if code = 53 then Some None else map_option Some (map_of integer_g_table code))"

definition word_class :: "libm \<Rightarrow> GWord \<Rightarrow> Group option option"
  where "word_class lm w =
    (if letter w = 0x47 then g_class lm (wvalue w)
     else if letter w = 0x4D then
       (case g_code lm (wvalue w) of Inl _ \<Rightarrow> None | Inr code \<Rightarrow> map_option Some (map_of m_table code))
     else if letter w = 0x54 then
       (case tool_number lm (wvalue w) of Inl _ \<Rightarrow> None | Inr _ \<Rightarrow> Some None)
     else if letter w \<in> {0x58, 0x59, 0x5A, 0x41, 0x49, 0x4A, 0x4B, 0x50, 0x4C, 0x46, 0x53, 0x4E}
     then Some None else None)"

text \<open>How a word of each class acts on the guard.\<close>

definition acts :: "Group option option \<Rightarrow> LineCtx \<Rightarrow> GcodeError + LineCtx \<Rightarrow> bool"
  where "acts cls c r =
    (case cls of
       None \<Rightarrow> \<exists>e. r = Inl e \<and> e \<noteq> ModalGroupViolation
     | Some None \<Rightarrow> \<exists>c'. r = Inr c' \<and> c_guard c' = c_guard c
     | Some (Some g) \<Rightarrow>
         if claimed (c_guard c) g then r = Inl ModalGroupViolation
         else \<exists>c'. r = Inr c' \<and> c_guard c' = set_claimed g (c_guard c))"

lemma claimed_set: "claimed (set_claimed g gd) h \<longleftrightarrow> g = h \<or> claimed gd h"
  by (cases g; cases h) simp_all

lemmas group_defs = claim_state_def claim_acc_def claim_def stage_def stage_spindle_def
  stage_coolant_def stage_pause_def Let_def

lemma g_code_error: "g_code lm v = Inl e \<Longrightarrow> e = UnsupportedCommand"
  by (auto simp: g_code_def Let_def split: if_splits)

lemma tool_number_error: "tool_number lm v = Inl e \<Longrightarrow> e = BadToolNumber"
  by (auto simp: tool_number_def Let_def split: if_splits)

lemma integer_g_acts:
  "acts (if code = 53 then Some None else map_option Some (map_of integer_g_table code)) c
     (apply_integer_g_word code c)"
proof -
  have "code \<in> {54, 55, 56, 57, 58, 59}" if "54 \<le> code" "code \<le> 59"
  proof -
    from that have "unat code \<in> {54..59}" by (auto simp: word_le_nat_alt)
    then have "unat code = 54 \<or> unat code = 55 \<or> unat code = 56 \<or> unat code = 57
        \<or> unat code = 58 \<or> unat code = 59" by auto
    then show ?thesis by (auto simp: word_unat_eq_iff)
  qed
  then show ?thesis
    by (auto simp: apply_integer_g_word_def integer_g_table_def acts_def group_defs)
qed

lemma fractional_g_acts:
  "apply_fractional_g_word lm v c = None \<longleftrightarrow> \<not> is_fractional lm v"
  "is_fractional lm v \<Longrightarrow> apply_fractional_g_word lm v c = Some r \<Longrightarrow>
     acts (map_option Some (map_of fractional_g_table (f32_to_i32 (roundf lm (fmul v ten))))) c r"
  by (auto simp: apply_fractional_g_word_def is_fractional_def Let_def)
    (auto simp: fractional_g_table_def acts_def group_defs)

lemma m_acts: "acts (map_option Some (map_of m_table code)) c (apply_integer_m_word code c)"
  by (auto simp: apply_integer_m_word_def m_table_def acts_def group_defs commit_tool_def)

lemma g_acts: "acts (g_class lm v) c (apply_g_word lm v c)"
proof (cases "is_fractional lm v")
  case True
  then obtain r where "apply_fractional_g_word lm v c = Some r" using fractional_g_acts(1) by blast
  with True fractional_g_acts(2) show ?thesis by (simp add: g_class_def apply_g_word_def)
next
  case False
  then show ?thesis
    using fractional_g_acts(1) [of lm v c] integer_g_acts
    by (cases "g_code lm v") (auto simp: g_class_def apply_g_word_def acts_def dest: g_code_error)
qed

lemma word_acts: "acts (word_class lm w) c (apply_word lm w c)"
proof (cases "letter w \<in> {0x47, 0x4D, 0x54}")
  case True
  then consider "letter w = 0x47" | "letter w = 0x4D" | "letter w = 0x54" by auto
  then show ?thesis
  proof cases
    case 1
    then show ?thesis using g_acts by (simp add: word_class_def apply_word_def Let_def)
  next
    case 2
    then show ?thesis using m_acts
      by (cases "g_code lm (wvalue w)")
        (auto simp: word_class_def apply_word_def apply_m_word_def acts_def dest: g_code_error)
  next
    case 3
    then show ?thesis
      by (cases "tool_number lm (wvalue w)")
        (auto simp: word_class_def apply_word_def acts_def dest: tool_number_error)
  qed
next
  case False
  then show ?thesis by (auto simp: word_class_def apply_word_def acts_def stage_def Let_def)
qed

definition group_count :: "libm \<Rightarrow> Group \<Rightarrow> GWord list \<Rightarrow> nat"
  where "group_count lm g ws = length (filter (\<lambda>w. word_class lm w = Some (Some g)) ws)"

lemma apply_words_ok:
  "(\<exists>c'. apply_words lm ws c = Inr c') \<longleftrightarrow>
     (\<forall>w \<in> set ws. word_class lm w \<noteq> None) \<and>
     (\<forall>g. group_count lm g ws \<le> (if claimed (c_guard c) g then 0 else 1))"
proof (induction ws arbitrary: c)
  case (Cons w ws)
  have acts: "acts (word_class lm w) c (apply_word lm w c)" by (rule word_acts)
  consider "word_class lm w = None" | "word_class lm w = Some None"
    | g where "word_class lm w = Some (Some g)" by (metis option.exhaust)
  then show ?case
  proof cases
    case 1
    with acts show ?thesis by (auto simp: acts_def)
  next
    case 2
    with acts obtain c' where "apply_word lm w c = Inr c'" "c_guard c' = c_guard c"
      by (auto simp: acts_def)
    with Cons.IH [of c'] 2 show ?thesis by (simp add: group_count_def)
  next
    case 3
    show ?thesis
    proof (cases "claimed (c_guard c) g")
      case True
      with acts 3 have "apply_word lm w c = Inl ModalGroupViolation" by (simp add: acts_def)
      with True 3 show ?thesis by (auto simp: group_count_def intro!: exI [of _ g])
    next
      case False
      with acts 3 obtain c' where c': "apply_word lm w c = Inr c'"
          "c_guard c' = set_claimed g (c_guard c)"
        by (auto simp: acts_def)
      have "(\<forall>h. group_count lm h (w # ws) \<le> (if claimed (c_guard c) h then 0 else 1)) \<longleftrightarrow>
            (\<forall>h. group_count lm h ws \<le> (if claimed (c_guard c') h then 0 else 1))"
        using 3 False by (auto simp: group_count_def c'(2) claimed_set)
      with Cons.IH [of c'] c'(1) 3 show ?thesis by simp
    qed
  qed
qed (simp add: group_count_def)

text \<open>
  C29: The word loop of a line succeeds exactly on the lines the language allows: the line lexes,
  every word is in the supported subset, and no modal group has two words.
\<close>

theorem accepts_one_word_per_group:
  "(\<exists>c. parse_words lm line (line_start m) = Inr c) \<longleftrightarrow>
     (\<exists>ws. lex_line line = Inr ws \<and> (\<forall>w \<in> set ws. word_class lm w \<noteq> None) \<and>
        (\<forall>g. group_count lm g ws \<le> 1))"
proof -
  have "\<not> claimed (c_guard (line_start m)) g" for g
    by (cases g) (simp_all add: line_start_def GroupGuard_default_def)
  then have "(\<exists>c. apply_words lm ws (line_start m) = Inr c) \<longleftrightarrow>
      (\<forall>w \<in> set ws. word_class lm w \<noteq> None) \<and> (\<forall>g. group_count lm g ws \<le> 1)" for ws
    using apply_words_ok [of lm ws "line_start m"] by simp
  then show ?thesis unfolding parse_words_lex by metis
qed

section \<open>Well-formed commands\<close>

text \<open>The number grammar produces no NaN.\<close>

lemma ten_nat: "ten = f32_nat 10"
  by (simp add: ten_def f32_of_int_nat)

lemma byte_nonneg: "fnonneg (f32_of_byte b)"
  by (simp add: f32_of_byte_def f32_of_int_nonneg)

lemma fmul_ten_nonneg: "fnonneg v \<Longrightarrow> fnonneg (fmul v ten)"
  by (rule fmul_nonneg) (auto simp: ten_nat fnonneg_def is_finite_def)

lemma integer_digits_nonneg:
  "fnonneg v \<Longrightarrow> integer_digits v saw bs = (v', saw', rest) \<Longrightarrow> fnonneg v'"
  by (induction v saw bs rule: integer_digits.induct)
    (auto simp: fadd_nonneg fmul_ten_nonneg byte_nonneg split: if_splits)

lemma fraction_digits_nonneg:
  "fnonneg v \<Longrightarrow> place_ok p \<Longrightarrow> fraction_digits v p saw bs = (v', saw', rest) \<Longrightarrow> fnonneg v'"
proof (induction v p saw bs rule: fraction_digits.induct)
  case (2 v p saw b bs)
  have "uint (b - 0x30) \<le> 255" using uint_bounded [of "b - 0x30"] by simp
  then have "fnonneg (fmul (f32_of_byte (b - 0x30)) p)"
    using 2(3) by (simp add: f32_of_byte_def place_product_nonneg)
  with 2 show ?case by (auto simp: fadd_nonneg place_ok_step split: if_splits)
qed simp

lemma parse_f32_not_nan:
  assumes "parse_f32 token = Inr v"
  shows "v \<noteq> FNan"
proof -
  obtain i saw rest where int: "integer_digits f32_zero False (skip_sign token) = (i, saw, rest)"
    by (metis prod_cases3)
  then have i: "fnonneg i" by (rule integer_digits_nonneg [OF fnonneg_zero])
  have "\<exists>x. fnonneg x \<and> (v = x \<or> v = fneg x)"
  proof (cases "\<exists>frac. rest = 0x2E # frac")
    case True
    then obtain frac x saw' rest' where rest: "rest = 0x2E # frac"
        and frac: "fraction_digits i (f32_ratio 1 10) saw frac = (x, saw', rest')"
      by (metis prod_cases3)
    from frac have "fnonneg x" by (rule fraction_digits_nonneg [OF i place_ok_tenth])
    with assms show ?thesis by (auto simp: parse_f32_def Let_def int rest frac split: if_splits)
  next
    case False
    then have "v = i \<or> v = fneg i"
      using assms by (auto simp: parse_f32_def Let_def int split: list.splits if_splits)
    with i show ?thesis by blast
  qed
  then show ?thesis by (metis fnonneg_not_nan fneg_not_nan)
qed

lemma next_word_not_nan: "next_word bs = Some (rest, Inr w) \<Longrightarrow> wvalue w \<noteq> FNan"
  by (auto simp: next_word_def Let_def dest: parse_f32_not_nan
      split: list.split_asm if_split_asm sum.split_asm)

lemma lex_line_not_nan: "lex_line bs = Inr ws \<Longrightarrow> w \<in> set ws \<Longrightarrow> wvalue w \<noteq> FNan"
proof (induction bs arbitrary: ws rule: lex_line.induct)
  case (1 bytes)
  show ?case
  proof (cases "next_word bytes")
    case None
    with 1(2,3) show ?thesis by (simp add: lex_line.simps [of bytes])
  next
    case (Some p)
    then obtain rest r where nw: "next_word bytes = Some (rest, r)" by (cases p) auto
    with 1(2) obtain x where r: "r = Inr x" by (cases r) (simp_all add: lex_line.simps [of bytes])
    with 1(2) nw obtain vs where "lex_line rest = Inr vs" "ws = x # vs"
      by (auto simp: lex_line.simps [of bytes] map_sum_id_Inr)
    with 1(1) [OF nw refl r] 1(3) nw r next_word_not_nan show ?thesis by auto
  qed
qed

section \<open>What a line's words put into the context\<close>

fun op_ok :: "CoordinateOp \<Rightarrow> bool"
  where
    "op_ok (SelectWcs i) = (i < WCS_COUNT)"
  | "op_ok (SetWcsOffset i _ _) = (i < WCS_COUNT)"
  | "op_ok (SetWcsOffsetToPosition i _ _) = (i < WCS_COUNT)"
  | "op_ok (StorePredefined i) = (i < PREDEFINED_COUNT)"
  | "op_ok _ = True"

text \<open>A positive number: in particular not a NaN.\<close>

abbreviation positive :: "f32 \<Rightarrow> bool"
  where "positive f \<equiv> flt f32_zero f"

fun command_ok :: "PlannerCommand \<Rightarrow> bool"
  where
    "command_ok (Move rapid ax u d f fm mc) = (axes_present ax \<and> (rapid \<or> positive f))"
  | "command_ok (Arc cw ax i j k pl u d f fm mc) = (axes_present ax \<and> positive f)"
  | "command_ok (Probe kind ax u d f) = (axes_present ax \<and> ax_a ax = None \<and> positive f)"
  | "command_ok (Dwell s) = (s \<noteq> FNan)"
  | "command_ok (Coordinate op) = op_ok op"
  | "command_ok _ = True"

definition modal_ok :: "ModalState \<Rightarrow> bool"
  where "modal_ok m = (m_wcs m < WCS_COUNT \<and> m_feed m \<noteq> FNan \<and> m_spindle_speed m \<noteq> FNan)"

definition acc_ok :: "LineAccumulator \<Rightarrow> bool"
  where "acc_ok a = ((\<forall>i. a_coordinate a = Some (PC_StorePredefined i) \<longrightarrow> i < PREDEFINED_COUNT)
    \<and> a_p a \<noteq> Some FNan)"

definition ctx_ok :: "LineCtx \<Rightarrow> bool"
  where "ctx_ok c = (modal_ok (c_next c) \<and> acc_ok (c_acc c))"

lemmas ctx_defs = ctx_ok_def modal_ok_def acc_ok_def WCS_COUNT_def PREDEFINED_COUNT_def

lemma integer_g_ctx: "apply_integer_g_word code c = Inr c' \<Longrightarrow> ctx_ok c \<Longrightarrow> ctx_ok c'"
proof -
  have "unat (code - 54) < 6" if "54 \<le> code" "code \<le> 59"
    using that by (simp add: unat_sub word_le_nat_alt)
  then show "apply_integer_g_word code c = Inr c' \<Longrightarrow> ctx_ok c \<Longrightarrow> ctx_ok c'"
    by (auto simp: apply_integer_g_word_def group_defs bind_ok_Inr ctx_defs split: if_split_asm)
qed

lemma fractional_g_ctx:
  "apply_fractional_g_word lm v c = Some (Inr c') \<Longrightarrow> ctx_ok c \<Longrightarrow> ctx_ok c'"
  by (auto simp: apply_fractional_g_word_def group_defs bind_ok_Inr ctx_defs split: if_split_asm)

lemma m_ctx: "apply_integer_m_word code c = Inr c' \<Longrightarrow> ctx_ok c \<Longrightarrow> ctx_ok c'"
  by (auto simp: apply_integer_m_word_def group_defs bind_ok_Inr ctx_defs commit_tool_def
      split: if_split_asm)

lemma word_ctx:
  assumes "apply_word lm w c = Inr c'" and "ctx_ok c" and "wvalue w \<noteq> FNan"
  shows "ctx_ok c'"
proof (cases "letter w \<in> {0x47, 0x4D}")
  case True
  with assms(1,2) show ?thesis
    by (auto simp: apply_word_def apply_g_word_def apply_m_word_def Let_def bind_ok_Inr
        intro: integer_g_ctx fractional_g_ctx m_ctx split: option.split_asm)
next
  case False
  with assms show ?thesis
    by (auto simp: apply_word_def Let_def stage_def bind_ok_Inr ctx_defs split: if_split_asm)
qed

lemma words_ctx:
  "apply_words lm ws c = Inr c' \<Longrightarrow> ctx_ok c \<Longrightarrow> (\<forall>w \<in> set ws. wvalue w \<noteq> FNan) \<Longrightarrow> ctx_ok c'"
  by (induction ws arbitrary: c) (auto simp: bind_ok_Inr dest: word_ctx)

section \<open>Emission\<close>

lemma positive_feed: "m_feed m \<noteq> FNan \<Longrightarrow> \<not> feed_is_undefined m saw True \<Longrightarrow> positive (m_feed m)"
  using fle_linear [of "m_feed m" f32_zero] by (auto simp: feed_is_undefined_def split: if_splits)

lemma wcs_index_bound: "fallback < WCS_COUNT \<Longrightarrow> wcs_index_from_p lm p fallback < WCS_COUNT"
  by (auto simp: wcs_index_from_p_def WCS_COUNT_def Let_def split: option.splits)

lemma resolve_ok:
  "acc_ok a \<Longrightarrow> a_coordinate a = Some pending \<Longrightarrow> i < WCS_COUNT \<Longrightarrow>
     op_ok (resolve_coordinate lm pending a m i)"
  by (auto simp: resolve_coordinate_def acc_ok_def Let_def wcs_index_bound split: PendingCoordinate.split)

lemma emit_probe_ok:
  "emit_probe kind a m = Inr (Some cmd) \<Longrightarrow> modal_ok m \<Longrightarrow> has_axes a \<Longrightarrow> command_ok cmd"
  by (auto simp: emit_probe_def has_axes_def modal_ok_def positive_feed split: if_split_asm)

lemma emit_tail_ok: "emit_tail a m = Inr (Some cmd) \<Longrightarrow> modal_ok m \<Longrightarrow> command_ok cmd"
  by (cases "m_motion m")
    (auto simp: emit_tail_def motion_command_def Let_def has_axes_def modal_ok_def positive_feed
      split: if_split_asm option.split_asm)

lemma emit_ok:
  assumes "emit_command lm a m i = Inr (Some cmd)" and "modal_ok m" and "acc_ok a"
    and "i < WCS_COUNT" and "a_probe a \<noteq> None \<Longrightarrow> has_axes a"
  shows "command_ok cmd"
  using assms emit_probe_ok emit_tail_ok resolve_ok
  by (auto simp: emit_command_def acc_ok_def split: if_split_asm option.split_asm)

text \<open>
  C30: The parser's modal state stays well formed, and every command it emits is: coordinate systems
  and stored positions are in range, a move, arc or probe has at least one axis word, a feed move, an
  arc and a probe carry a positive feed, and a probe never names the rotary axis.
\<close>

theorem parsed_commands_well_formed:
  assumes "parse_gcode_line lm p line = (p', r)" and "modal_ok (pstate p)"
  shows "modal_ok (pstate p') \<and> (\<forall>cmd. r = Inr (Some cmd) \<longrightarrow> command_ok cmd)"
proof (cases "parse_words lm line (line_start (pstate p))")
  case (Inl e)
  with assms show ?thesis by (auto simp: parse_gcode_line_def)
next
  case (Inr c)
  then obtain ws where ws: "lex_line line = Inr ws" "apply_words lm ws (line_start (pstate p)) = Inr c"
    by (auto simp: parse_words_lex)
  have "ctx_ok (line_start (pstate p))"
    using assms(2) by (simp add: line_start_def ctx_ok_def acc_ok_def LineAccumulator_default_def)
  with ws have ctx: "ctx_ok c" by (meson words_ctx lex_line_not_nan)
  show ?thesis
  proof (cases "a_probe (c_acc c) \<noteq> None \<and> \<not> has_axes (c_acc c)")
    case True
    with assms Inr show ?thesis by (auto simp: parse_gcode_line_def)
  next
    case False
    have "command_ok cmd"
      if "emit_command lm (c_acc c) (c_next c) (m_wcs (pstate p)) = Inr (Some cmd)" for cmd
      by (rule emit_ok [OF that, rotated 4])
        (use ctx assms(2) False in \<open>auto simp: ctx_ok_def modal_ok_def\<close>)
    with assms Inr False ctx show ?thesis
      by (auto simp: parse_gcode_line_def ctx_ok_def split: sum.split_asm if_split_asm)
  qed
qed

section \<open>Letter case\<close>

abbreviation upper :: "u8 list \<Rightarrow> u8 list"
  where "upper \<equiv> map ascii_uppercase"

lemma upper_eq: "c < 0x41 \<Longrightarrow> ascii_uppercase b = c \<longleftrightarrow> b = c"
  by (auto simp: ascii_uppercase_def word_less_nat_alt word_le_nat_alt unat_sub)

lemma upper_digit [simp]: "ascii_digit (ascii_uppercase b) = ascii_digit b"
  by (auto simp: ascii_uppercase_def ascii_digit_def word_less_nat_alt word_le_nat_alt unat_sub)

lemma digit_upper: "ascii_digit b \<Longrightarrow> ascii_uppercase b = b"
  by (auto simp: ascii_uppercase_def ascii_digit_def word_le_nat_alt)

lemma upper_alphabetic [simp]: "ascii_alphabetic (ascii_uppercase b) = ascii_alphabetic b"
  by (auto simp: ascii_uppercase_def ascii_alphabetic_def word_le_nat_alt unat_sub)

lemma upper_upper [simp]: "ascii_uppercase (ascii_uppercase b) = ascii_uppercase b"
  by (auto simp: ascii_uppercase_def word_le_nat_alt unat_sub)

lemma dropWhile_upper:
  "(\<And>b. P (ascii_uppercase b) = P b) \<Longrightarrow> dropWhile P (upper bs) = upper (dropWhile P bs)"
  by (induction bs) auto

lemma skip_upper: "skip_insignificant (upper bs) = upper (skip_insignificant bs)"
proof (induction bs rule: skip_insignificant.induct)
  case (2 b bs)
  have "after_block_comment (upper bs) = upper (after_block_comment bs)"
    by (simp add: after_block_comment_def dropWhile_upper upper_eq drop_map)
  with 2 show ?case by (simp add: upper_eq)
qed simp

lemma skip_sign_upper: "skip_sign (upper bs) = upper (skip_sign bs)"
  by (auto simp: skip_sign_def upper_eq split: list.splits)

lemma advance_upper: "advance_over_number (upper bs) = upper (advance_over_number bs)"
  unfolding advance_over_number_def skip_sign_upper by (rule dropWhile_upper) (simp add: upper_eq)

lemma integer_digits_upper:
  "integer_digits v saw (upper bs) =
     (case integer_digits v saw bs of (v', saw', rest) \<Rightarrow> (v', saw', upper rest))"
  by (induction v saw bs rule: integer_digits.induct) (simp_all add: digit_upper)

lemma fraction_digits_upper:
  "fraction_digits v p saw (upper bs) =
     (case fraction_digits v p saw bs of (v', saw', rest) \<Rightarrow> (v', saw', upper rest))"
  by (induction v p saw bs rule: fraction_digits.induct) (simp_all add: digit_upper)

lemma parse_f32_upper: "parse_f32 (upper token) = parse_f32 token"
proof -
  have "(case upper token of b # _ \<Rightarrow> b = 0x2D | [] \<Rightarrow> False) =
      (case token of b # _ \<Rightarrow> b = 0x2D | [] \<Rightarrow> False)"
    by (cases token) (simp_all add: upper_eq)
  then show ?thesis
    by (auto simp: parse_f32_def Let_def skip_sign_upper integer_digits_upper fraction_digits_upper
        upper_eq split: prod.splits list.splits)
qed

lemma next_word_Cons:
  assumes "skip_insignificant bs = first # tail"
    and "start = dropWhile (\<lambda>b. b \<in> {0x20, 0x09}) tail"
    and "token = take (length start - length (advance_over_number start)) start"
  shows "next_word bs =
    (if \<not> ascii_alphabetic first then Some (first # tail, Inl ExpectedCommandLetterValue)
     else Some (advance_over_number start,
       if token = [] then Inl ExpectedCommandLetterValue
       else map_sum id (\<lambda>v. \<lparr>letter = ascii_uppercase first, wvalue = v\<rparr>) (parse_f32 token)))"
  unfolding next_word_def assms(1) list.case Let_def assms(2) [symmetric] assms(3) [symmetric]
  by (cases "parse_f32 token") simp_all

lemma next_word_upper:
  "next_word (upper bs) = map_option (\<lambda>(rest, r). (upper rest, r)) (next_word bs)"
proof (cases "skip_insignificant bs")
  case Nil
  then show ?thesis by (simp add: next_word_def skip_upper)
next
  case (Cons first tail)
  define start where "start = dropWhile (\<lambda>b. b \<in> {0x20, 0x09}) tail"
  define token where "token = take (length start - length (advance_over_number start)) start"
  have start: "upper start = dropWhile (\<lambda>b. b \<in> {0x20, 0x09}) (upper tail)"
    unfolding start_def by (rule dropWhile_upper [symmetric]) (simp add: upper_eq)
  have token: "upper token =
      take (length (upper start) - length (advance_over_number (upper start))) (upper start)"
    by (simp add: token_def advance_upper take_map)
  have skip: "skip_insignificant (upper bs) = ascii_uppercase first # upper tail"
    by (simp add: skip_upper Cons)
  show ?thesis
    unfolding next_word_Cons [OF Cons start_def token_def] next_word_Cons [OF skip start token]
    by (simp add: parse_f32_upper advance_upper)
qed

lemma parse_words_upper: "parse_words lm (upper bs) c = parse_words lm bs c"
proof (induction lm bs c rule: parse_words.induct)
  case (1 lm bytes c)
  have "bind_ok (apply_word lm w c) (parse_words lm (upper rest)) =
      bind_ok (apply_word lm w c) (parse_words lm rest)"
    if "next_word bytes = Some (rest, Inr w)" for rest w
    using 1 [OF that refl refl] by (cases "apply_word lm w c") auto
  then show ?case
    by (simp add: parse_words.simps [of lm bytes] parse_words.simps [of lm "upper bytes"]
        next_word_upper split: option.split sum.split prod.split)
qed

lemma jog_words_upper: "jog_words lm (upper bs) j = jog_words lm bs j"
proof (induction lm bs j rule: jog_words.induct)
  case (1 lm bytes j)
  have "bind_ok (jog_word lm w j) (jog_words lm (upper rest)) =
      bind_ok (jog_word lm w j) (jog_words lm rest)"
    if "next_word bytes = Some (rest, Inr w)" for rest w
    using 1 [OF that refl refl] by (cases "jog_word lm w j") auto
  then show ?case
    by (simp add: jog_words.simps [of lm bytes] jog_words.simps [of lm "upper bytes"]
        next_word_upper split: option.split sum.split prod.split)
qed

text \<open>
  Letter case never matters: a line and its upper-case form parse to the same command and the
  same modal state, and so does a jog.
\<close>

theorem parsing_ignores_case:
  "parse_gcode_line lm p (map ascii_uppercase line) = parse_gcode_line lm p line \<and>
   parse_jog lm p (map ascii_uppercase line) = parse_jog lm p line"
  by (simp add: parse_gcode_line_def parse_jog_def parse_words_upper jog_words_upper)

section \<open>Integers are read exactly\<close>

definition digit_byte :: "nat \<Rightarrow> u8"
  where "digit_byte d = of_nat (0x30 + d)"

definition digits_value :: "nat list \<Rightarrow> int"
  where "digits_value ds = foldl (\<lambda>v d. 10 * v + int d) 0 ds"

lemma digit_byte_facts:
  assumes "d < 10"
  shows "ascii_digit (digit_byte d)" and "f32_of_byte (digit_byte d - 0x30) = f32_nat (int d)"
    and "digit_byte d \<notin> {0x2B, 0x2D}"
proof -
  have "d = 0 \<or> d = 1 \<or> d = 2 \<or> d = 3 \<or> d = 4 \<or> d = 5 \<or> d = 6 \<or> d = 7 \<or> d = 8 \<or> d = 9"
    using assms by auto
  then show "ascii_digit (digit_byte d)" "f32_of_byte (digit_byte d - 0x30) = f32_nat (int d)"
      "digit_byte d \<notin> {0x2B, 0x2D}"
    by (auto simp: digit_byte_def ascii_digit_def f32_of_byte_def f32_of_int_nat)
qed

lemma foldl_digits_mono: "0 \<le> v \<Longrightarrow> v \<le> foldl (\<lambda>v d. 10 * v + int d) v ds"
proof (induction ds arbitrary: v)
  case (Cons d ds)
  then have "v \<le> 10 * v + int d" "10 * v + int d \<le> foldl (\<lambda>v d. 10 * v + int d) (10 * v + int d) ds"
    by simp_all
  then show ?case by simp
qed simp

lemma integer_digits_exact:
  assumes "\<forall>d \<in> set ds. d < 10" and "0 \<le> v"
    and "foldl (\<lambda>v d. 10 * v + int d) v ds \<le> 16777216"
  shows "integer_digits (f32_nat v) saw (map digit_byte ds) =
    (f32_nat (foldl (\<lambda>v d. 10 * v + int d) v ds), saw \<or> ds \<noteq> [], [])"
  using assms
proof (induction ds arbitrary: v saw)
  case (Cons d ds)
  let ?v = "10 * v + int d"
  have "?v \<le> 16777216" using Cons.prems foldl_digits_mono [of ?v ds] by simp
  moreover from this have "fmul (f32_nat v) ten = f32_nat (v * 10)"
    unfolding ten_nat using Cons.prems(2) by (intro fmul_nat) auto
  ultimately have "fadd (fmul (f32_nat v) ten) (f32_nat (int d)) = f32_nat ?v"
    using Cons.prems(2) fadd_nat [of "v * 10" "int d"] by (simp only: mult.commute [of 10])
  with Cons digit_byte_facts [of d] show ?case by (simp del: fmul.simps fadd.simps)
qed simp

text \<open>The laws of \<^verbatim>\<open>roundf\<close> and \<^verbatim>\<open>fabsf\<close> the code words rely on.\<close>

locale libm_spec =
  fixes lm :: libm
  assumes round_integer: "0 \<le> n \<Longrightarrow> n \<le> 16777216 \<Longrightarrow> roundf lm (f32_nat n) = f32_nat n"
    and abs_zero: "fabsf lm f32_zero = f32_zero"
begin

lemma g_code_exact:
  assumes "0 \<le> n" "n \<le> 255"
  shows "g_code lm (f32_nat n) = Inr (word_of_int n)"
proof -
  have "fsub (f32_nat n) (f32_nat n) = f32_zero" by (simp add: fsub_def of_units_def)
  moreover have "\<not> flt (f32_ratio 1 1000) f32_zero" by code_simp
  moreover have "in_range f32_zero (f32_of_int 255) (f32_nat n)"
    using assms by (auto simp: in_range_def fle_def f32_of_int_nat)
  ultimately show ?thesis
    using assms by (simp add: g_code_def round_integer off_integer_def abs_zero f32_to_u16_def)
qed

end

lemma round_away_nat: "round_away (f32_nat n) = f32_nat n"
proof -
  have "(2 * (n * unit_den) + unit_den) div (2 * unit_den) = n"
    by (simp add: unit_den_def)
  then show ?thesis by simp
qed

interpretation exact: libm_spec exact_libm
  by unfold_locales (simp_all add: exact_libm_def round_away_nat del: round_away.simps)

text \<open>
  A run of decimal digits whose value is at most 2 to the 24 is read as exactly that number, with
  either sign; and where the value is at most 255 it selects exactly that code.
\<close>

theorem integers_read_exactly:
  assumes "\<forall>d \<in> set ds. d < 10" and "ds \<noteq> []" and "digits_value ds \<le> 16777216"
  shows "parse_f32 (map digit_byte ds) = Inr (f32_nat (digits_value ds)) \<and>
    parse_f32 (0x2D # map digit_byte ds) = Inr (FFin True (digits_value ds * unit_den)) \<and>
    (libm_spec lm \<longrightarrow> digits_value ds \<le> 255 \<longrightarrow>
       bind_ok (parse_f32 (map digit_byte ds)) (g_code lm) = Inr (word_of_int (digits_value ds)))"
proof -
  obtain d rest where ds: "ds = d # rest" using assms(2) by (cases ds) auto
  have sign: "skip_sign (map digit_byte ds) = map digit_byte ds"
      "skip_sign (0x2D # map digit_byte ds) = map digit_byte ds"
      "digit_byte d \<noteq> 0x2D"
    using assms(1) digit_byte_facts(3) [of d] by (auto simp: skip_sign_def ds)
  have "integer_digits f32_zero False (map digit_byte ds) = (f32_nat (digits_value ds), True, [])"
    using integer_digits_exact [of ds 0 False] assms by (simp add: digits_value_def)
  then have "parse_f32 (map digit_byte ds) = Inr (f32_nat (digits_value ds))"
      "parse_f32 (0x2D # map digit_byte ds) = Inr (FFin True (digits_value ds * unit_den))"
    using sign by (simp_all add: parse_f32_def Let_def ds)
  moreover have "0 \<le> digits_value ds" using foldl_digits_mono [of 0 ds] by (simp add: digits_value_def)
  ultimately show ?thesis by (auto intro: libm_spec.g_code_exact)
qed

section \<open>A command carries the last words of its line\<close>

definition last_word :: "u8 \<Rightarrow> GWord list \<Rightarrow> f32 option"
  where "last_word l ws =
    (case filter (\<lambda>w. letter w = l) ws of [] \<Rightarrow> None | xs \<Rightarrow> Some (wvalue (last xs)))"

definition else_keep :: "f32 option \<Rightarrow> f32 option \<Rightarrow> f32 option"
  where "else_keep new old = (case new of Some v \<Rightarrow> Some v | None \<Rightarrow> old)"

definition else_value :: "f32 option \<Rightarrow> f32 \<Rightarrow> f32"
  where "else_value new old = (case new of Some v \<Rightarrow> v | None \<Rightarrow> old)"

lemma last_word_Nil [simp]: "last_word l [] = None"
  by (simp add: last_word_def)

lemma last_word_Cons:
  "else_keep (last_word l (w # ws)) d =
     else_keep (last_word l ws) (if letter w = l then Some (wvalue w) else d)"
  "else_value (last_word l (w # ws)) e =
     else_value (last_word l ws) (if letter w = l then wvalue w else e)"
  by (auto simp: last_word_def else_keep_def else_value_def split: list.split)

lemma else_simps [simp]:
  "else_keep None d = d" "else_keep n None = n" "else_value None e = e"
  by (auto simp: else_keep_def else_value_def split: option.split)

definition params :: "LineCtx \<Rightarrow> AxisWords \<times> f32 option \<times> f32 option \<times> f32 option \<times> f32 option \<times> f32"
  where "params c = (a_axes (c_acc c), a_i (c_acc c), a_j (c_acc c), a_k (c_acc c), a_p (c_acc c),
    m_feed (c_next c))"

lemma integer_g_params: "apply_integer_g_word code c = Inr c' \<Longrightarrow> params c' = params c"
  by (auto simp: apply_integer_g_word_def group_defs bind_ok_Inr params_def split: if_split_asm)

lemma fractional_g_params: "apply_fractional_g_word lm v c = Some (Inr c') \<Longrightarrow> params c' = params c"
  by (auto simp: apply_fractional_g_word_def group_defs bind_ok_Inr params_def split: if_split_asm)

lemma m_params: "apply_integer_m_word code c = Inr c' \<Longrightarrow> params c' = params c"
  by (auto simp: apply_integer_m_word_def group_defs bind_ok_Inr params_def commit_tool_def
      split: if_split_asm)

definition put_word :: "GWord \<Rightarrow>
    AxisWords \<times> f32 option \<times> f32 option \<times> f32 option \<times> f32 option \<times> f32 \<Rightarrow>
    AxisWords \<times> f32 option \<times> f32 option \<times> f32 option \<times> f32 option \<times> f32"
  where "put_word w = (\<lambda>(ax, i, j, k, p, f).
    (let l = letter w; v = wvalue w in
     (ax\<lparr>ax_x := (if l = 0x58 then Some v else ax_x ax), ax_y := (if l = 0x59 then Some v else ax_y ax),
        ax_z := (if l = 0x5A then Some v else ax_z ax), ax_a := (if l = 0x41 then Some v else ax_a ax)\<rparr>,
      if l = 0x49 then Some v else i, if l = 0x4A then Some v else j, if l = 0x4B then Some v else k,
      if l = 0x50 then Some v else p, if l = 0x46 then v else f)))"

lemma word_params:
  assumes "apply_word lm w c = Inr c'"
  shows "params c' = put_word w (params c)"
proof (cases "letter w \<in> {0x47, 0x4D}")
  case True
  then have "params c' = params c"
    using assms
    by (auto simp: apply_word_def apply_g_word_def apply_m_word_def Let_def bind_ok_Inr
        intro: integer_g_params fractional_g_params m_params split: option.split_asm)
  with True show ?thesis by (auto simp: put_word_def Let_def split: prod.split)
next
  case False
  with assms show ?thesis
    by (auto simp: apply_word_def Let_def stage_def bind_ok_Inr params_def put_word_def split: if_split_asm)
qed

lemma words_params: "apply_words lm ws c = Inr c' \<Longrightarrow> params c' = fold put_word ws (params c)"
  by (induction ws arbitrary: c) (auto simp: bind_ok_Inr dest: word_params)

lemma fold_put_word:
  "fold put_word ws (ax, i, j, k, p, f) =
     (\<lparr>ax_x = else_keep (last_word 0x58 ws) (ax_x ax), ax_y = else_keep (last_word 0x59 ws) (ax_y ax),
       ax_z = else_keep (last_word 0x5A ws) (ax_z ax), ax_a = else_keep (last_word 0x41 ws) (ax_a ax)\<rparr>,
      else_keep (last_word 0x49 ws) i, else_keep (last_word 0x4A ws) j, else_keep (last_word 0x4B ws) k,
      else_keep (last_word 0x50 ws) p, else_value (last_word 0x46 ws) f)"
  by (induction ws arbitrary: ax i j k p f) (simp_all add: put_word_def Let_def last_word_Cons)

definition axes_of :: "GWord list \<Rightarrow> AxisWords"
  where "axes_of ws = \<lparr>ax_x = last_word 0x58 ws, ax_y = last_word 0x59 ws, ax_z = last_word 0x5A ws,
    ax_a = last_word 0x41 ws\<rparr>"

lemma line_params:
  assumes "apply_words lm ws (line_start m) = Inr c"
  shows "params c = (axes_of ws, last_word 0x49 ws, last_word 0x4A ws, last_word 0x4B ws,
    last_word 0x50 ws, else_value (last_word 0x46 ws) (m_feed m))"
  unfolding words_params [OF assms]
  by (simp add: params_def line_start_def LineAccumulator_default_def AxisWords_default_def
      fold_put_word axes_of_def)

text \<open>What a command says about the words of its line, given the modal feed before the line.\<close>

fun command_words :: "GWord list \<Rightarrow> f32 \<Rightarrow> PlannerCommand \<Rightarrow> bool"
  where
    "command_words ws feed (Move rapid ax u d f fm mc) =
      (ax = axes_of ws \<and> f = else_value (last_word 0x46 ws) feed)"
  | "command_words ws feed (Arc cw ax i j k pl u d f fm mc) =
      (ax = axes_of ws \<and> f = else_value (last_word 0x46 ws) feed \<and>
       i = last_word 0x49 ws \<and> j = last_word 0x4A ws \<and> k = last_word 0x4B ws)"
  | "command_words ws feed (Probe kind ax u d f) =
      (ax = axes_of ws \<and> f = else_value (last_word 0x46 ws) feed)"
  | "command_words ws feed (Dwell s) = (s = else_value (last_word 0x50 ws) f32_zero)"
  | "command_words ws feed (GoToPredefined is_g28 ax u d) = (ax = axes_of ws)"
  | "command_words ws feed (Coordinate (SetWcsOffset i ax u)) = (ax = axes_of ws)"
  | "command_words ws feed (Coordinate (SetWcsOffsetToPosition i ax u)) = (ax = axes_of ws)"
  | "command_words ws feed (Coordinate (SetG92ToPosition ax u)) = (ax = axes_of ws)"
  | "command_words ws feed (Coordinate (ApplyTlo z u)) = (z = else_value (last_word 0x5A ws) f32_zero)"
  | "command_words ws feed _ = True"

lemma emit_words:
  assumes "emit_command lm a m i = Inr (Some cmd)"
    and "(a_axes a, a_i a, a_j a, a_k a, a_p a, m_feed m) =
      (axes_of ws, last_word 0x49 ws, last_word 0x4A ws, last_word 0x4B ws, last_word 0x50 ws,
       else_value (last_word 0x46 ws) feed)"
  shows "command_words ws feed cmd"
  using assms
  by (auto simp: emit_command_def emit_probe_def emit_tail_def motion_command_def resolve_coordinate_def
      Let_def axes_of_def else_value_def
      split: if_split_asm option.split_asm MotionMode.split_asm PendingCoordinate.split option.split)

text \<open>
  C31: The axis words, arc offsets, dwell time and feed of an emitted command are those of the line:
  the last word of each letter, in any order among the others, with the modal feed where the line has
  no F word.
\<close>

theorem commands_carry_line_words:
  assumes "parse_gcode_line lm p line = (p', Inr (Some cmd))"
  shows "\<exists>ws. lex_line line = Inr ws \<and> command_words ws (m_feed (pstate p)) cmd"
proof -
  obtain c where c: "parse_words lm line (line_start (pstate p)) = Inr c"
      and e: "emit_command lm (c_acc c) (c_next c) (m_wcs (pstate p)) = Inr (Some cmd)"
    using assms by (auto simp: parse_gcode_line_def split: sum.split_asm if_split_asm)
  from c obtain ws where ws: "lex_line line = Inr ws"
      "apply_words lm ws (line_start (pstate p)) = Inr c"
    by (auto simp: parse_words_lex)
  from line_params [OF ws(2)] have "command_words ws (m_feed (pstate p)) cmd"
    by (intro emit_words [OF e]) (simp add: params_def)
  with ws(1) show ?thesis by blast
qed

section \<open>Instances\<close>

text \<open>The line \<^verbatim>\<open>g1 x2.5 F100\<close>.\<close>

definition feed_line :: "u8 list"
  where "feed_line = [0x67, 0x31, 0x20, 0x78, 0x32, 0x2E, 0x35, 0x20, 0x46, 0x31, 0x30, 0x30]"

text \<open>The line \<^verbatim>\<open>G0 G1\<close>.\<close>

definition two_motions :: "u8 list"
  where "two_motions = [0x47, 0x30, 0x20, 0x47, 0x31]"

definition feed_move :: PlannerCommand
  where "feed_move = Move False (AxisWords_default\<lparr>ax_x := Some (f32_ratio 5 2)\<rparr>) Millimeter Absolute
    (f32_of_int 100) UnitsPerMin False"

lemma feed_line_parsed:
  "parse_gcode_line exact_libm Parser_new feed_line =
     (\<lparr>pstate = ModalState_default\<lparr>m_motion := MM_Linear, m_feed := f32_of_int 100\<rparr>\<rparr>,
      Inr (Some feed_move))"
  by code_simp

lemma two_motions_lexed:
  "lex_line two_motions = Inr [\<lparr>letter = 0x47, wvalue = f32_zero\<rparr>, \<lparr>letter = 0x47, wvalue = f32_one\<rparr>]"
  by code_simp

theorem accepts_one_word_per_group_witness:
  "\<not> (\<exists>c. parse_words exact_libm two_motions (line_start ModalState_default) = Inr c)"
proof -
  have "group_count exact_libm GrpMotion
      [\<lparr>letter = 0x47, wvalue = f32_zero\<rparr>, \<lparr>letter = 0x47, wvalue = f32_one\<rparr>] = 2"
    by code_simp
  then have "\<not> (\<forall>g. group_count exact_libm g
      [\<lparr>letter = 0x47, wvalue = f32_zero\<rparr>, \<lparr>letter = 0x47, wvalue = f32_one\<rparr>] \<le> 1)"
    by (metis Suc_1 not_less_eq_eq order_refl One_nat_def)
  with two_motions_lexed show ?thesis by (simp add: accepts_one_word_per_group del: One_nat_def)
qed

theorem parsed_commands_well_formed_witness:
  "modal_ok (ModalState_default\<lparr>m_motion := MM_Linear, m_feed := f32_of_int 100\<rparr>) \<and> command_ok feed_move"
proof -
  have "modal_ok (pstate Parser_new)" by code_simp
  from parsed_commands_well_formed [OF feed_line_parsed this] show ?thesis by simp
qed

theorem integers_read_exactly_witness:
  "parse_f32 [0x37, 0x30] = Inr (f32_nat 70) \<and>
   bind_ok (parse_f32 [0x37, 0x30]) (g_code exact_libm) = Inr 70"
proof -
  have "digits_value [7, 0] = 70" and "map digit_byte [7, 0] = [0x37, 0x30]" by code_simp+
  with integers_read_exactly [of "[7, 0]" exact_libm] exact.libm_spec_axioms show ?thesis by auto
qed

theorem commands_carry_line_words_witness:
  "\<exists>ws. lex_line feed_line = Inr ws \<and> command_words ws f32_zero feed_move"
  using commands_carry_line_words [OF feed_line_parsed] by (simp add: Parser_new_def ModalState_default_def)

text \<open>
  A line has one slot for an action that is not a move: a tool-offset word takes the line, so the
  rapid of \<^verbatim>\<open>G49 G0 Z10\<close> is parsed, acknowledged and never emitted; and a later coordinate word
  overwrites it, so \<^verbatim>\<open>G49 G92 X0\<close> turns the reported offset mode off without cancelling the offset.
\<close>

definition tlo_parser :: Parser
  where "tlo_parser = \<lparr>pstate = ModalState_default\<lparr>m_tlo_active := True, m_motion := MM_Linear\<rparr>\<rparr>"

lemma tool_offset_word_drops_move:
  "parse_gcode_line exact_libm tlo_parser [0x47, 0x34, 0x39, 0x47, 0x30, 0x5A, 0x31, 0x30] =
     (\<lparr>pstate = ModalState_default\<rparr>, Inr (Some (Coordinate CancelTlo)))"
  by code_simp

lemma overwritten_tool_offset_cancel:
  "parse_gcode_line exact_libm tlo_parser [0x47, 0x34, 0x39, 0x47, 0x39, 0x32, 0x58, 0x30] =
     (\<lparr>pstate = ModalState_default\<lparr>m_motion := MM_Linear\<rparr>\<rparr>,
      Inr (Some (Coordinate (SetG92ToPosition (AxisWords_default\<lparr>ax_x := Some f32_zero\<rparr>) Millimeter))))"
  by code_simp

end
