(* ===== verification/Planner.thy ===== *)
theory Planner
  imports Gcode_Parser Step_Motion
begin

text \<open>
  The motion planner of \<^verbatim>\<open>crates/cnc-kinematics/src/planner.rs\<close>: target resolution, block building,
  the ring buffer with its two look-ahead passes and the busy head, jogs, predefined moves, flushes
  and resumable arcs, on binary32 arithmetic and 32-bit step counts that wrap.  Arrays over the axes
  are lists of length \<^verbatim>\<open>AXES\<close>; the ring buffer is a list, head first, of at most \<^verbatim>\<open>BLOCK_QUEUE_LEN\<close>
  blocks; the \<^verbatim>\<open>libm\<close> functions are the argument \<^verbatim>\<open>lm\<close>.  An arc's segment counters are naturals: the
  source's u32 counter could wrap only after 2 to the 32 segments.
\<close>

section \<open>Constants, errors and configuration\<close>

definition A_AXIS :: nat
  where "A_AXIS = 3"

definition BLOCK_QUEUE_LEN :: nat
  where "BLOCK_QUEUE_LEN = 32"

definition MM_PER_INCH :: f32
  where "MM_PER_INCH = f32_ratio 254 10"

definition LENGTH_EPSILON_MM :: f32
  where "LENGTH_EPSILON_MM = f32_ratio 1 1000000"

definition JUNCTION_REVERSAL_EPSILON :: f32
  where "JUNCTION_REVERSAL_EPSILON = f32_ratio 1 1000000"

definition two :: f32
  where "two = f32_of_int 2"

definition sixty :: f32
  where "sixty = f32_of_int 60"

datatype PlannerError = QueueFull | InvalidArc | JogExceedsTravel | MoveExceedsTravel

fun planner_error_code :: "PlannerError \<Rightarrow> u8"
  where
    "planner_error_code QueueFull = 1"
  | "planner_error_code InvalidArc = 33"
  | "planner_error_code JogExceedsTravel = 15"
  | "planner_error_code MoveExceedsTravel = 15"

text \<open>\<^verbatim>\<open>SoftLimits\<close> is its one field, the maximum travel of each axis.\<close>

record PlannerConfig =
  steps_per_mm :: "f32 list"
  max_rate_mm_min :: "f32 list"
  accel_mm_s2 :: "f32 list"
  junction_deviation_mm :: f32
  arc_tolerance_mm :: f32
  rotary_mask :: u8

definition is_rotary :: "PlannerConfig \<Rightarrow> nat \<Rightarrow> bool"
  where "is_rotary cfg axis = bit (rotary_mask cfg) axis"

definition PlannerConfig_default :: PlannerConfig
  where "PlannerConfig_default =
    \<lparr>steps_per_mm = [f32_of_int 800, f32_of_int 800, f32_of_int 3200, f32_ratio 8889 1000],
     max_rate_mm_min = [f32_of_int 2400, f32_of_int 2400, f32_of_int 600, f32_of_int 3600],
     accel_mm_s2 = [f32_of_int 100, f32_of_int 100, f32_of_int 50, f32_of_int 360],
     junction_deviation_mm = f32_ratio 1 100, arc_tolerance_mm = f32_ratio 2 1000, rotary_mask = 8\<rparr>"

datatype PlannerOutcome =
    Queued nat
  | ArcPending nat
  | Out_Dwell f32
  | Out_Spindle SpindleState f32
  | Out_GoToPredefined bool
  | Out_ProgramEnd
  | Out_ProgramPause bool bool
  | Out_Coolant CoolantState
  | Out_Coordinate CoordinateOp
  | Out_Probe ProbeKind "i32 list" f32 Units

section \<open>The spin-up gate\<close>

record SpinUpGate =
  spin_pending :: bool

definition SpinUpGate_new :: SpinUpGate
  where "SpinUpGate_new = \<lparr>spin_pending = False\<rparr>"

definition note_spindle :: "SpindleState \<Rightarrow> SpinUpGate \<Rightarrow> SpinUpGate"
  where "note_spindle sp g = g\<lparr>spin_pending := (sp \<noteq> SpindleStop)\<rparr>"

definition take_dwell_before_move :: "f32 \<Rightarrow> SpinUpGate \<Rightarrow> SpinUpGate \<times> f32 option"
  where "take_dwell_before_move delay g =
    (if \<not> spin_pending g then (g, None)
     else (g\<lparr>spin_pending := False\<rparr>, if flt f32_zero delay then Some delay else None))"

section \<open>Arc state\<close>

record PlaneAxes =
  pa_p0 :: nat
  pa_p1 :: nat
  pa_normal :: nat

fun for_plane :: "Plane \<Rightarrow> PlaneAxes"
  where
    "for_plane PlaneXY = \<lparr>pa_p0 = 0, pa_p1 = 1, pa_normal = 2\<rparr>"
  | "for_plane PlaneZX = \<lparr>pa_p0 = 2, pa_p1 = 0, pa_normal = 1\<rparr>"
  | "for_plane PlaneYZ = \<lparr>pa_p0 = 1, pa_p1 = 2, pa_normal = 0\<rparr>"

definition offset_for_axis ::
    "nat \<Rightarrow> f32 option \<Rightarrow> f32 option \<Rightarrow> f32 option \<Rightarrow> f32 option"
  where "offset_for_axis axis i j k = (if axis = 0 then i else if axis = 1 then j else k)"

definition or_zero :: "f32 option \<Rightarrow> f32"
  where "or_zero v = (case v of Some x \<Rightarrow> x | None \<Rightarrow> f32_zero)"

definition arc_offsets ::
    "PlaneAxes \<Rightarrow> f32 option \<Rightarrow> f32 option \<Rightarrow> f32 option \<Rightarrow> f32 \<times> f32"
  where "arc_offsets pa i j k =
    (or_zero (offset_for_axis (pa_p0 pa) i j k), or_zero (offset_for_axis (pa_p1 pa) i j k))"

definition has_offset :: "PlaneAxes \<Rightarrow> f32 option \<Rightarrow> f32 option \<Rightarrow> f32 option \<Rightarrow> bool"
  where "has_offset pa i j k =
    (offset_for_axis (pa_p0 pa) i j k \<noteq> None \<or> offset_for_axis (pa_p1 pa) i j k \<noteq> None)"

record ArcInProgress =
  arc_plane :: PlaneAxes
  arc_center :: "f32 \<times> f32"
  arc_radius :: f32
  arc_theta_start :: f32
  arc_theta_step :: f32
  arc_segments :: nat
  arc_next_seg :: nat
  arc_normal_start :: f32
  arc_normal_delta :: f32
  arc_a_start :: f32
  arc_a_delta :: f32
  arc_seg_feed :: f32
  arc_units :: Units
  arc_feed_mode :: FeedMode

section \<open>The planner's state\<close>

record Planner =
  pl_config :: PlannerConfig
  pl_queue :: "f32 Block list"
  pl_position :: "i32 list"
  pl_offset :: "f32 list"
  pl_prev_unit :: "f32 list"
  pl_prev_nominal :: f32
  pl_head_busy :: bool
  pl_arc :: "ArcInProgress option"

definition zero_vec :: "f32 list"
  where "zero_vec = replicate AXES f32_zero"

definition Planner_new :: "PlannerConfig \<Rightarrow> Planner"
  where "Planner_new cfg =
    \<lparr>pl_config = cfg, pl_queue = [], pl_position = replicate AXES 0, pl_offset = zero_vec,
     pl_prev_unit = zero_vec, pl_prev_nominal = f32_zero, pl_head_busy = False, pl_arc = None\<rparr>"

text \<open>Dropping the trailing junction state, as every synchronized boundary does.\<close>

definition flush_lookahead :: "Planner \<Rightarrow> Planner"
  where "flush_lookahead p = p\<lparr>pl_prev_unit := zero_vec, pl_prev_nominal := f32_zero\<rparr>"

definition sync_position :: "i32 list \<Rightarrow> Planner \<Rightarrow> Planner"
  where "sync_position steps_now p =
    p\<lparr>pl_position := steps_now, pl_prev_unit := zero_vec, pl_prev_nominal := f32_zero\<rparr>"

definition set_config :: "PlannerConfig \<Rightarrow> Planner \<Rightarrow> Planner"
  where "set_config cfg p =
    p\<lparr>pl_config := cfg, pl_prev_unit := zero_vec, pl_prev_nominal := f32_zero\<rparr>"

definition set_work_offset :: "f32 list \<Rightarrow> Planner \<Rightarrow> Planner"
  where "set_work_offset wco p =
    p\<lparr>pl_offset := map2 (\<lambda>slot v. if is_finite v then v else slot) (pl_offset p) wco\<rparr>"

definition queued_len :: "Planner \<Rightarrow> nat"
  where "queued_len p = length (pl_queue p)"

definition pop_block :: "Planner \<Rightarrow> Planner \<times> f32 Block option"
  where "pop_block p =
    (case pl_queue p of
       [] \<Rightarrow> (p, None)
     | b # rest \<Rightarrow> (p\<lparr>pl_queue := rest, pl_head_busy := (rest \<noteq> [])\<rparr>, Some b))"

definition peek_block :: "Planner \<Rightarrow> f32 Block option"
  where "peek_block p = (case pl_queue p of [] \<Rightarrow> None | b # _ \<Rightarrow> Some b)"

text \<open>The executor's \<^verbatim>\<open>take_block\<close>: the popped block and its exit speed.\<close>

definition take_block :: "Planner \<Rightarrow> Planner \<times> (f32 Block \<times> f32) option"
  where "take_block p =
    (case pop_block p of
       (p', None) \<Rightarrow> (p', None)
     | (p', Some b) \<Rightarrow>
         (p', Some (b, case peek_block p' of Some nxt \<Rightarrow> entry_speed_sq nxt | None \<Rightarrow> f32_zero)))"

definition flush_jog_blocks :: "Planner \<Rightarrow> Planner \<times> nat"
  where "flush_jog_blocks p =
    (let kept = rev (dropWhile jog (rev (pl_queue p)))
     in (flush_lookahead (p\<lparr>pl_queue := kept\<rparr>), length (pl_queue p) - length kept))"

definition flush_queue :: "Planner \<Rightarrow> Planner \<times> nat"
  where "flush_queue p = (flush_lookahead (p\<lparr>pl_queue := []\<rparr>), length (pl_queue p))"

definition abort_arc :: "Planner \<Rightarrow> Planner"
  where "abort_arc p = p\<lparr>pl_arc := None\<rparr>"

section \<open>Units and positions\<close>

fun units_scale :: "Units \<Rightarrow> f32"
  where
    "units_scale Millimeter = f32_one"
  | "units_scale Inch = MM_PER_INCH"

definition f32_to_word :: "f32 \<Rightarrow> i32"
  where "f32_to_word x = word_of_int (f32_to_i32 x)"

definition f32_of_word :: "i32 \<Rightarrow> f32"
  where "f32_of_word w = f32_of_int (sint w)"

definition mm_to_steps :: "libm \<Rightarrow> f32 \<Rightarrow> f32 \<Rightarrow> i32"
  where "mm_to_steps lm pos_mm per_mm = f32_to_word (roundf lm (fmul pos_mm per_mm))"

definition position_mm :: "Planner \<Rightarrow> f32 list"
  where "position_mm p =
    map (\<lambda>axis. fdiv (f32_of_word (pl_position p ! axis)) (steps_per_mm (pl_config p) ! axis)) [0..<AXES]"

definition axis_words :: "AxisWords \<Rightarrow> f32 option list"
  where "axis_words ax = [ax_x ax, ax_y ax, ax_z ax, ax_a ax]"

definition resolve_target ::
    "libm \<Rightarrow> AxisWords \<Rightarrow> Units \<Rightarrow> DistanceMode \<Rightarrow> bool \<Rightarrow> Planner \<Rightarrow> i32 list"
  where "resolve_target lm ax units distance machine p =
    map (\<lambda>axis. case axis_words ax ! axis of
        None \<Rightarrow> pl_position p ! axis
      | Some v \<Rightarrow>
          (let cfg = pl_config p;
               scale = (if is_rotary cfg axis then f32_one else units_scale units);
               value_mm = fmul v scale;
               machine_mm =
                 (case distance of
                    Absolute \<Rightarrow> if machine then value_mm else fadd value_mm (pl_offset p ! axis)
                  | Incremental \<Rightarrow>
                      fadd (fdiv (f32_of_word (pl_position p ! axis)) (steps_per_mm cfg ! axis)) value_mm)
           in mm_to_steps lm machine_mm (steps_per_mm cfg ! axis)))
      [0..<AXES]"

definition soft_limit_violation :: "libm \<Rightarrow> i32 list \<Rightarrow> f32 list \<Rightarrow> f32 list \<Rightarrow> u8 \<Rightarrow> bool"
  where "soft_limit_violation lm target per_mm max_travel rotary =
    (\<exists>axis \<in> set [0..<AXES].
       \<not> bit rotary axis \<and>
       (let lower = mm_to_steps lm (fneg (max_travel ! axis)) (per_mm ! axis) - 1
        in target ! axis <s lower \<or> 1 <s target ! axis))"

section \<open>Building a block\<close>

definition sum_axes :: "(nat \<Rightarrow> f32) \<Rightarrow> f32"
  where "sum_axes f = fold (\<lambda>axis total. fadd total (f axis)) [0..<AXES] f32_zero"

definition is_zero_vec :: "libm \<Rightarrow> f32 list \<Rightarrow> bool"
  where "is_zero_vec lm vec = list_all (\<lambda>c. flt (fabsf lm c) LENGTH_EPSILON_MM) vec"

text \<open>The least of \<^verbatim>\<open>lim axis / |component|\<close> over the axes with a component that is not tiny.\<close>

definition least_limit :: "libm \<Rightarrow> (nat \<Rightarrow> f32) \<Rightarrow> f32 list \<Rightarrow> f32"
  where "least_limit lm lim unit =
    fold (\<lambda>axis limit.
        (let component = fabsf lm (unit ! axis)
         in if flt LENGTH_EPSILON_MM component then fmin limit (fdiv (lim axis) component) else limit))
      [0..<AXES] (FInf False)"

definition limiting_acceleration :: "libm \<Rightarrow> f32 list \<Rightarrow> f32 list \<Rightarrow> f32"
  where "limiting_acceleration lm unit accel = least_limit lm (\<lambda>axis. accel ! axis) unit"

definition axis_rate_limit_mm_s :: "libm \<Rightarrow> PlannerConfig \<Rightarrow> f32 list \<Rightarrow> f32"
  where "axis_rate_limit_mm_s lm cfg unit =
    least_limit lm (\<lambda>axis. fdiv (max_rate_mm_min cfg ! axis) sixty) unit"

definition nominal_speed_mm_s ::
    "libm \<Rightarrow> PlannerConfig \<Rightarrow> f32 \<Rightarrow> Units \<Rightarrow> FeedMode \<Rightarrow> bool \<Rightarrow> f32 \<Rightarrow> f32 list \<Rightarrow> f32"
  where "nominal_speed_mm_s lm cfg feed units mode rapid_move mm unit =
    (let limit = axis_rate_limit_mm_s lm cfg unit
     in if rapid_move then limit
        else
          (let requested =
             (case mode of
                UnitsPerMin \<Rightarrow> fdiv (fmul feed (units_scale units)) sixty
              | InverseTime \<Rightarrow> fdiv (fmul mm feed) sixty)
           in fmax (fmin requested limit) f32_zero))"

definition resolve_feed ::
    "libm \<Rightarrow> PlannerConfig \<Rightarrow> f32 \<Rightarrow> FeedMode \<Rightarrow> Units \<Rightarrow> f32 list \<Rightarrow> f32 \<times> FeedMode"
  where "resolve_feed lm cfg feed mode units delta_mm =
    (if mode \<noteq> UnitsPerMin then (feed, mode)
     else
       (let leg = (\<lambda>rotary. fold
              (\<lambda>axis total.
                 if is_rotary cfg axis = rotary
                 then fadd total (fmul (delta_mm ! axis) (delta_mm ! axis)) else total)
              [0..<AXES] f32_zero);
            linear_len = sqrtf lm (leg False); rotary_len = sqrtf lm (leg True)
        in if flt LENGTH_EPSILON_MM linear_len \<and> flt LENGTH_EPSILON_MM rotary_len
           then (fdiv (fmul feed (units_scale units)) linear_len, InverseTime)
           else (feed, mode)))"

definition junction_speed_sq :: "libm \<Rightarrow> f32 list \<Rightarrow> f32 \<Rightarrow> Planner \<Rightarrow> f32"
  where "junction_speed_sq lm unit accel p =
    (if is_zero_vec lm (pl_prev_unit p) then f32_zero
     else
       (let cos_theta = fneg (sum_axes (\<lambda>axis. fmul (pl_prev_unit p ! axis) (unit ! axis)))
        in if fle (fsub f32_one JUNCTION_REVERSAL_EPSILON) cos_theta then f32_zero
           else
             (let sin_half = sqrtf lm (fmax (fmul (fsub f32_one cos_theta) (f32_ratio 1 2)) f32_zero)
              in if fle sin_half JUNCTION_REVERSAL_EPSILON then FInf False
                 else
                   (let radius = fdiv (fmul (junction_deviation_mm (pl_config p)) sin_half)
                                   (fsub f32_one sin_half)
                    in fmin (fmul accel radius) (pl_prev_nominal p)))))"

definition build_block ::
    "libm \<Rightarrow> i32 list \<Rightarrow> f32 \<Rightarrow> Units \<Rightarrow> FeedMode \<Rightarrow> bool \<Rightarrow> bool \<Rightarrow> Planner \<Rightarrow> f32 Block option"
  where "build_block lm target feed units mode rapid_move jog_move p =
    (let cfg = pl_config p;
         deltas = map (\<lambda>axis. target ! axis - pl_position p ! axis) [0..<AXES];
         count = fold (\<lambda>d n. max n (unsigned_abs d)) deltas 0;
         delta_mm = map (\<lambda>axis. fdiv (f32_of_word (deltas ! axis)) (steps_per_mm cfg ! axis)) [0..<AXES];
         mm = sqrtf lm (sum_axes (\<lambda>axis. fmul (delta_mm ! axis) (delta_mm ! axis)))
     in if flt mm LENGTH_EPSILON_MM \<or> count = 0 then None
        else
          (let inv_mm = fdiv f32_one mm;
               unit = map (\<lambda>axis. fmul (delta_mm ! axis) inv_mm) [0..<AXES];
               (eff_feed, eff_mode) =
                 (if rapid_move then (feed, mode) else resolve_feed lm cfg feed mode units delta_mm);
               accel = limiting_acceleration lm unit (accel_mm_s2 cfg);
               nominal = nominal_speed_mm_s lm cfg eff_feed units eff_mode rapid_move mm unit;
               nominal_sq = fmul nominal nominal;
               max_entry = fmin (junction_speed_sq lm unit accel p) nominal_sq
           in Some \<lparr>steps = deltas, step_event_count = count, unit_vec = unit, millimeters = mm,
                acceleration = accel, nominal_speed_sq = nominal_sq, max_entry_speed_sq = max_entry,
                entry_speed_sq = max_entry, rapid = rapid_move, jog = jog_move\<rparr>))"

section \<open>Evaluation\<close>

text \<open>The constants as literals, and the code equations with every local binding evaluated once.\<close>

lemma MM_PER_INCH_code [code]: "MM_PER_INCH = FFin False 0x32ccccc00000000000000000000000000000000"
  by code_simp

lemma LENGTH_EPSILON_MM_code [code]: "LENGTH_EPSILON_MM = FFin False 0x218def400000000000000000000000000"
  by code_simp

lemma JUNCTION_REVERSAL_EPSILON_code [code]: "JUNCTION_REVERSAL_EPSILON = FFin False 0x218def400000000000000000000000000"
  by code_simp

lemma two_code [code]: "two = FFin False 0x40000000000000000000000000000000000000"
  by code_simp

lemma sixty_code [code]: "sixty = FFin False 0x780000000000000000000000000000000000000"
  by code_simp

lemma PlannerConfig_default_code [code]: "PlannerConfig_default =
    \<lparr>steps_per_mm = [FFin False 0x6400000000000000000000000000000000000000, FFin False 0x6400000000000000000000000000000000000000, FFin False 0x19000000000000000000000000000000000000000, FFin False 0x11c72b000000000000000000000000000000000],
     max_rate_mm_min = [FFin False 0x12c00000000000000000000000000000000000000, FFin False 0x12c00000000000000000000000000000000000000, FFin False 0x4b00000000000000000000000000000000000000, FFin False 0x1c200000000000000000000000000000000000000],
     accel_mm_s2 = [FFin False 0xc80000000000000000000000000000000000000, FFin False 0xc80000000000000000000000000000000000000, FFin False 0x640000000000000000000000000000000000000, FFin False 0x2d00000000000000000000000000000000000000],
     junction_deviation_mm = FFin False 0x51eb85000000000000000000000000000000, arc_tolerance_mm = FFin False 0x10624de00000000000000000000000000000, rotary_mask = 8\<rparr>"
  by code_simp

lemma least_limit_code [code]: "least_limit lm lim unit =
    fold (\<lambda>axis limit. force limit (\<lambda>limit. force (fabsf lm (unit ! axis))
        (\<lambda>component. if flt LENGTH_EPSILON_MM component then fmin limit (fdiv (lim axis) component) else limit)))
      [0..<AXES] (FInf False)"
  by (simp add: least_limit_def force_def Let_def)

lemma nominal_code [code]: "nominal_speed_mm_s lm cfg feed units mode rapid_move mm unit =
    force (axis_rate_limit_mm_s lm cfg unit) (\<lambda>limit. if rapid_move then limit
        else
          (force
             (case mode of
                UnitsPerMin \<Rightarrow> fdiv (fmul feed (units_scale units)) sixty
              | InverseTime \<Rightarrow> fdiv (fmul mm feed) sixty)
           (\<lambda>requested. fmax (fmin requested limit) f32_zero)))"
  unfolding nominal_speed_mm_s_def force_def Let_def by (rule refl)

lemma resolve_feed_code [code]: "resolve_feed lm cfg feed mode units delta_mm =
    (if mode \<noteq> UnitsPerMin then (feed, mode)
     else
       (let leg = (\<lambda>rotary. fold
              (\<lambda>axis total.
                 force total (\<lambda>total. if is_rotary cfg axis = rotary
                 then fadd total (fmul (delta_mm ! axis) (delta_mm ! axis)) else total))
              [0..<AXES] f32_zero)
        in force (sqrtf lm (leg False)) (\<lambda>linear_len. force (sqrtf lm (leg True)) (\<lambda>rotary_len.
          if flt LENGTH_EPSILON_MM linear_len \<and> flt LENGTH_EPSILON_MM rotary_len
           then (fdiv (fmul feed (units_scale units)) linear_len, InverseTime)
           else (feed, mode)))))"
  unfolding resolve_feed_def force_def Let_def by (rule refl)

lemma junction_code [code]: "junction_speed_sq lm unit accel p =
    (if is_zero_vec lm (pl_prev_unit p) then f32_zero
     else
       (force (fneg (sum_axes (\<lambda>axis. fmul (pl_prev_unit p ! axis) (unit ! axis))))
        (\<lambda>cos_theta. if fle (fsub f32_one JUNCTION_REVERSAL_EPSILON) cos_theta then f32_zero
           else
             (force (sqrtf lm (fmax (fmul (fsub f32_one cos_theta) (f32_ratio 1 2)) f32_zero))
               (\<lambda>sin_half. if fle sin_half JUNCTION_REVERSAL_EPSILON then FInf False
                 else
                   (force (fdiv (fmul (junction_deviation_mm (pl_config p)) sin_half)
                                   (fsub f32_one sin_half))
                    (\<lambda>radius. fmin (fmul accel radius) (pl_prev_nominal p))))))))"
  unfolding junction_speed_sq_def force_def Let_def by (rule refl)

lemma build_block_code [code]: "build_block lm target feed units mode rapid_move jog_move p =
    (let cfg = pl_config p;
         deltas = map (\<lambda>axis. target ! axis - pl_position p ! axis) [0..<AXES];
         count = fold (\<lambda>d n. max n (unsigned_abs d)) deltas 0
     in forces (map (\<lambda>axis. fdiv (f32_of_word (deltas ! axis)) (steps_per_mm cfg ! axis)) [0..<AXES]) (\<lambda>delta_mm.
        force (sqrtf lm (sum_axes (\<lambda>axis. fmul (delta_mm ! axis) (delta_mm ! axis)))) (\<lambda>mm.
        if flt mm LENGTH_EPSILON_MM \<or> count = 0 then None
        else
          (force (fdiv f32_one mm) (\<lambda>inv_mm.
           forces (map (\<lambda>axis. fmul (delta_mm ! axis) inv_mm) [0..<AXES]) (\<lambda>unit.
            (case (if rapid_move then (feed, mode) else resolve_feed lm cfg feed mode units delta_mm) of
              (eff_feed, eff_mode) \<Rightarrow>
              force (limiting_acceleration lm unit (accel_mm_s2 cfg)) (\<lambda>accel.
              force (nominal_speed_mm_s lm cfg eff_feed units eff_mode rapid_move mm unit) (\<lambda>nominal.
              force (fmul nominal nominal) (\<lambda>nominal_sq.
              force (fmin (junction_speed_sq lm unit accel p) nominal_sq) (\<lambda>max_entry.
           Some \<lparr>steps = deltas, step_event_count = count, unit_vec = unit, millimeters = mm,
                acceleration = accel, nominal_speed_sq = nominal_sq, max_entry_speed_sq = max_entry,
                entry_speed_sq = max_entry, rapid = rapid_move, jog = jog_move\<rparr>)))))))))))"
  unfolding build_block_def force_def forces_eq Let_def by (rule refl)

section \<open>The look-ahead passes\<close>

definition reachable_sq :: "f32 \<Rightarrow> f32 Block \<Rightarrow> f32"
  where "reachable_sq v b = fadd v (fmul (fmul two (acceleration b)) (millimeters b))"

text \<open>The reverse pass walks the queue from the back; the walk gets the reversed list.\<close>

fun reverse_walk :: "bool \<Rightarrow> f32 \<Rightarrow> f32 Block list \<Rightarrow> f32 Block list"
  where
    "reverse_walk busy next_entry [] = []"
  | "reverse_walk busy next_entry (b # rest) =
      (if busy \<and> rest = [] then [b]
       else
         (let e = fmin (max_entry_speed_sq b) (reachable_sq next_entry b)
          in b\<lparr>entry_speed_sq := e\<rparr> # reverse_walk busy e rest))"

definition reverse_pass :: "bool \<Rightarrow> f32 Block list \<Rightarrow> f32 Block list"
  where "reverse_pass busy q = rev (reverse_walk busy f32_zero (rev q))"

fun forward_walk :: "f32 Block option \<Rightarrow> f32 Block list \<Rightarrow> f32 Block list"
  where
    "forward_walk prev [] = []"
  | "forward_walk prev (b # rest) =
      (let b' = (case prev of
           None \<Rightarrow> b
         | Some a \<Rightarrow>
             (let r = reachable_sq (entry_speed_sq a) a
              in if flt r (entry_speed_sq b) then b\<lparr>entry_speed_sq := r\<rparr> else b))
       in b' # forward_walk (Some b') rest)"

definition forward_pass :: "f32 Block list \<Rightarrow> f32 Block list"
  where "forward_pass q = forward_walk None q"

definition recalculate :: "Planner \<Rightarrow> Planner"
  where "recalculate p = p\<lparr>pl_queue := forward_pass (reverse_pass (pl_head_busy p) (pl_queue p))\<rparr>"

section \<open>Moves\<close>

definition enqueue_block :: "f32 Block \<Rightarrow> Planner \<Rightarrow> (Planner, PlannerError, unit) outcome"
  where "enqueue_block b p =
    (if length (pl_queue p) < BLOCK_QUEUE_LEN then (p\<lparr>pl_queue := pl_queue p @ [b]\<rparr>, Inr ())
     else (p, Inl QueueFull))"

definition enqueue_move ::
    "libm \<Rightarrow> i32 list \<Rightarrow> f32 \<Rightarrow> Units \<Rightarrow> FeedMode \<Rightarrow> bool \<Rightarrow> bool \<Rightarrow> Planner \<Rightarrow>
       (Planner, PlannerError, nat) outcome"
  where "enqueue_move lm target feed units mode rapid_move jog_move p =
    (case build_block lm target feed units mode rapid_move jog_move p of
       None \<Rightarrow> (p, Inr 0)
     | Some b \<Rightarrow>
         and_then (enqueue_block b p)
           (\<lambda>_ p. (p\<lparr>pl_position := target, pl_prev_unit := unit_vec b,
                     pl_prev_nominal := nominal_speed_sq b\<rparr>, Inr 1)))"

definition plan_line ::
    "libm \<Rightarrow> i32 list \<Rightarrow> f32 \<Rightarrow> Units \<Rightarrow> FeedMode \<Rightarrow> bool \<Rightarrow> Planner \<Rightarrow>
       (Planner, PlannerError, nat) outcome"
  where "plan_line lm target feed units mode rapid_move p =
    and_then (enqueue_move lm target feed units mode rapid_move False p)
      (\<lambda>n p. (if n = 1 then recalculate p else p, Inr n))"

section \<open>Arcs\<close>

definition PI :: f32
  where "PI = f32_ratio 314159274 100000000"

definition F32_EPSILON :: f32
  where "F32_EPSILON = f32_ratio 1 8388608"

text \<open>Points in the arc's plane are pairs.\<close>

definition arc_sweep_angle :: "libm \<Rightarrow> f32 \<times> f32 \<Rightarrow> f32 \<times> f32 \<Rightarrow> bool \<Rightarrow> f32"
  where "arc_sweep_angle lm r0 r1 cw =
    (let cross = fsub (fmul (fst r0) (snd r1)) (fmul (snd r0) (fst r1));
         dot = fadd (fmul (fst r0) (fst r1)) (fmul (snd r0) (snd r1));
         angle = atan2f lm cross dot
     in if cw then (if fle f32_zero angle then fsub angle (fmul two PI) else angle)
        else (if fle angle f32_zero then fadd angle (fmul two PI) else angle))"

definition arc_segment_count :: "libm \<Rightarrow> f32 \<Rightarrow> f32 \<Rightarrow> f32 \<Rightarrow> nat"
  where "arc_segment_count lm radius sweep tolerance =
    (let ratio = fsub f32_one (fdiv tolerance radius);
         max_angle =
           (if fle ratio (fneg f32_one) then PI
            else if fle f32_one ratio then F32_EPSILON
            else acosf lm ratio);
         count = ceilf lm (fdiv (fabsf lm sweep) (fmax max_angle F32_EPSILON))
     in max (unat (f32_to_u32 count)) 1)"

definition arc_endpoint_mm ::
    "AxisWords \<Rightarrow> f32 \<Rightarrow> DistanceMode \<Rightarrow> bool \<Rightarrow> f32 list \<Rightarrow> Planner \<Rightarrow> f32 list"
  where "arc_endpoint_mm ax unit_mm distance machine start p =
    map (\<lambda>axis. case axis_words ax ! axis of
        None \<Rightarrow> start ! axis
      | Some v \<Rightarrow>
          (let axis_scale = (if is_rotary (pl_config p) axis then f32_one else unit_mm)
           in case distance of
                Absolute \<Rightarrow>
                  if machine then fmul v axis_scale
                  else fadd (fmul v axis_scale) (pl_offset p ! axis)
              | Incremental \<Rightarrow> fadd (start ! axis) (fmul v axis_scale)))
      [0..<AXES]"

definition mm_target_to_steps :: "libm \<Rightarrow> f32 list \<Rightarrow> Planner \<Rightarrow> i32 list"
  where "mm_target_to_steps lm target_mm p =
    map (\<lambda>axis. mm_to_steps lm (target_mm ! axis) (steps_per_mm (pl_config p) ! axis)) [0..<AXES]"

definition arc_vertex_mm :: "libm \<Rightarrow> ArcInProgress \<Rightarrow> f32 list"
  where "arc_vertex_mm lm arc =
    (let seg = f32_of_int (int (arc_next_seg arc));
         theta = fadd (arc_theta_start arc) (fmul (arc_theta_step arc) seg);
         frac = fdiv seg (f32_of_int (int (arc_segments arc)));
         pa = arc_plane arc
     in zero_vec
          [pa_p0 pa := fadd (fst (arc_center arc)) (fmul (arc_radius arc) (cosf lm theta)),
           pa_p1 pa := fadd (snd (arc_center arc)) (fmul (arc_radius arc) (sinf lm theta)),
           pa_normal pa := fadd (arc_normal_start arc) (fmul (arc_normal_delta arc) frac),
           A_AXIS := fadd (arc_a_start arc) (fmul (arc_a_delta arc) frac)])"

text \<open>
  The loop of \<^verbatim>\<open>enqueue_arc_chunk\<close>: the advanced arc and the blocks enqueued.  A full queue stops the
  chunk before the segment it could not take; any other error is returned.
\<close>

function feed_segments ::
    "libm \<Rightarrow> ArcInProgress \<Rightarrow> nat \<Rightarrow> Planner \<Rightarrow> (Planner, PlannerError, ArcInProgress \<times> nat) outcome"
  where "feed_segments lm arc enqueued p =
    (if arc_next_seg arc \<le> arc_segments arc \<and> length (pl_queue p) < BLOCK_QUEUE_LEN then
       (case enqueue_move lm (mm_target_to_steps lm (arc_vertex_mm lm arc) p) (arc_seg_feed arc)
               (arc_units arc) (arc_feed_mode arc) False False p of
          (p', Inr n) \<Rightarrow>
            feed_segments lm (arc\<lparr>arc_next_seg := arc_next_seg arc + 1\<rparr>) (enqueued + n) p'
        | (p', Inl QueueFull) \<Rightarrow> (p', Inr (arc, enqueued))
        | (p', Inl e) \<Rightarrow> (p', Inl e))
     else (p, Inr (arc, enqueued)))"
  by pat_completeness auto
termination
  by (relation "measure (\<lambda>(lm, arc, enqueued, p). arc_segments arc + 1 - arc_next_seg arc)") auto

declare feed_segments.simps [simp del]

definition enqueue_arc_chunk :: "libm \<Rightarrow> ArcInProgress \<Rightarrow> Planner \<Rightarrow> (Planner, PlannerError, PlannerOutcome) outcome"
  where "enqueue_arc_chunk lm arc p =
    (case feed_segments lm arc 0 p of
       (p', Inl e) \<Rightarrow> (recalculate (p'\<lparr>pl_arc := None\<rparr>), Inl e)
     | (p', Inr (arc', n)) \<Rightarrow>
         (let p'' = recalculate p'
          in if arc_segments arc' < arc_next_seg arc' then (p''\<lparr>pl_arc := None\<rparr>, Inr (Queued n))
             else (p''\<lparr>pl_arc := Some arc'\<rparr>, Inr (ArcPending n))))"

definition plan_arc ::
    "libm \<Rightarrow> bool \<Rightarrow> AxisWords \<Rightarrow> f32 option \<Rightarrow> f32 option \<Rightarrow> f32 option \<Rightarrow> Plane \<Rightarrow> Units \<Rightarrow>
       DistanceMode \<Rightarrow> f32 \<Rightarrow> FeedMode \<Rightarrow> bool \<Rightarrow> Planner \<Rightarrow> (Planner, PlannerError, PlannerOutcome) outcome"
  where "plan_arc lm cw ax i j k plane units distance feed mode machine p =
    (let scale = units_scale units;
         start = position_mm p;
         target = arc_endpoint_mm ax scale distance machine start p;
         pa = for_plane plane
     in if \<not> has_offset pa i j k then (p, Inl InvalidArc)
        else
          (let (off0, off1) = arc_offsets pa i j k;
               c0 = fadd (start ! pa_p0 pa) (fmul off0 scale);
               c1 = fadd (start ! pa_p1 pa) (fmul off1 scale);
               r0 = (fsub (start ! pa_p0 pa) c0, fsub (start ! pa_p1 pa) c1);
               r1 = (fsub (target ! pa_p0 pa) c0, fsub (target ! pa_p1 pa) c1);
               radius = sqrtf lm (fadd (fmul (fst r0) (fst r0)) (fmul (snd r0) (snd r0)))
           in if flt radius LENGTH_EPSILON_MM then (p, Inl InvalidArc)
              else
                (let sweep = arc_sweep_angle lm r0 r1 cw;
                     segments = arc_segment_count lm radius sweep (arc_tolerance_mm (pl_config p));
                     segments_f = f32_of_int (int segments)
                 in enqueue_arc_chunk lm
                      \<lparr>arc_plane = pa, arc_center = (c0, c1), arc_radius = radius,
                       arc_theta_start = atan2f lm (snd r0) (fst r0),
                       arc_theta_step = fdiv sweep segments_f,
                       arc_segments = segments, arc_next_seg = 1,
                       arc_normal_start = start ! pa_normal pa,
                       arc_normal_delta = fsub (target ! pa_normal pa) (start ! pa_normal pa),
                       arc_a_start = start ! A_AXIS,
                       arc_a_delta = fsub (target ! A_AXIS) (start ! A_AXIS),
                       arc_seg_feed =
                         (case mode of UnitsPerMin \<Rightarrow> feed | InverseTime \<Rightarrow> fmul feed segments_f),
                       arc_units = units, arc_feed_mode = mode\<rparr> p)))"

definition resume_arc :: "libm \<Rightarrow> Planner \<Rightarrow> (Planner, PlannerError, PlannerOutcome) outcome"
  where "resume_arc lm p =
    (case pl_arc p of None \<Rightarrow> (p, Inr (Queued 0)) | Some arc \<Rightarrow> enqueue_arc_chunk lm arc p)"

section \<open>Commands\<close>

definition violates :: "libm \<Rightarrow> f32 list option \<Rightarrow> i32 list \<Rightarrow> Planner \<Rightarrow> bool"
  where "violates lm limits target p =
    (case limits of
       None \<Rightarrow> False
     | Some max_travel \<Rightarrow>
         soft_limit_violation lm target (steps_per_mm (pl_config p)) max_travel (rotary_mask (pl_config p)))"

fun plan_command_with_limits ::
    "libm \<Rightarrow> PlannerCommand \<Rightarrow> f32 list option \<Rightarrow> Planner \<Rightarrow> (Planner, PlannerError, PlannerOutcome) outcome"
  where
    "plan_command_with_limits lm (Move rapid_move ax units distance feed mode machine) limits p =
      (let target = resolve_target lm ax units distance machine p
       in if violates lm limits target p then (p, Inl MoveExceedsTravel)
          else and_then (plan_line lm target feed units mode rapid_move p) (\<lambda>n p. (p, Inr (Queued n))))"
  | "plan_command_with_limits lm (Arc cw ax i j k plane units distance feed mode machine) limits p =
      (if violates lm limits (resolve_target lm ax units distance machine p) p
       then (p, Inl MoveExceedsTravel)
       else plan_arc lm cw ax i j k plane units distance feed mode machine p)"
  | "plan_command_with_limits lm (Probe kind ax units distance feed) limits p =
      (let target = resolve_target lm ax units distance False p
       in (flush_lookahead p, Inr (Out_Probe kind target feed units)))"
  | "plan_command_with_limits lm (Dwell seconds) limits p =
      (flush_lookahead p, Inr (Out_Dwell seconds))"
  | "plan_command_with_limits lm (Spindle sp speed) limits p = (p, Inr (Out_Spindle sp speed))"
  | "plan_command_with_limits lm (GoToPredefined is_g28 ax units distance) limits p =
      (flush_lookahead p, Inr (Out_GoToPredefined is_g28))"
  | "plan_command_with_limits lm (Coordinate coord_op) limits p = (p, Inr (Out_Coordinate coord_op))"
  | "plan_command_with_limits lm ProgramEnd limits p = (flush_lookahead p, Inr Out_ProgramEnd)"
  | "plan_command_with_limits lm (ProgramPause opt change) limits p =
      (flush_lookahead p, Inr (Out_ProgramPause opt change))"
  | "plan_command_with_limits lm (Coolant cool) limits p = (p, Inr (Out_Coolant cool))"

definition plan_command :: "libm \<Rightarrow> PlannerCommand \<Rightarrow> Planner \<Rightarrow> (Planner, PlannerError, PlannerOutcome) outcome"
  where "plan_command lm cmd p = plan_command_with_limits lm cmd None p"

definition recall_steps :: "libm \<Rightarrow> f32 list \<Rightarrow> Planner \<Rightarrow> i32 list"
  where "recall_steps lm predefined p =
    map (\<lambda>axis. mm_to_steps lm (predefined ! axis) (steps_per_mm (pl_config p) ! axis)) [0..<AXES]"

definition blocks_needed :: "i32 list option \<Rightarrow> i32 list \<Rightarrow> i32 list \<Rightarrow> nat"
  where "blocks_needed via recall from_pos =
    (let (needed, projected) =
       (case via of
          Some target \<Rightarrow> if target \<noteq> from_pos then (1, target) else (0, from_pos)
        | None \<Rightarrow> (0, from_pos))
     in if recall \<noteq> projected then needed + 1 else needed)"

definition plan_go_to_predefined ::
    "libm \<Rightarrow> AxisWords \<Rightarrow> Units \<Rightarrow> DistanceMode \<Rightarrow> f32 list \<Rightarrow> f32 list option \<Rightarrow> Planner \<Rightarrow>
       (Planner, PlannerError, nat) outcome"
  where "plan_go_to_predefined lm via units distance predefined limits p =
    (let via_target =
           (if axes_present via then Some (resolve_target lm via units distance False p) else None);
         recall = recall_steps lm predefined p
     in if (case via_target of Some target \<Rightarrow> violates lm limits target p | None \<Rightarrow> False)
           \<or> violates lm limits recall p then (p, Inl MoveExceedsTravel)
        else if BLOCK_QUEUE_LEN < queued_len p + blocks_needed via_target recall (pl_position p)
        then (p, Inl QueueFull)
        else
          and_then
            (case via_target of
               Some target \<Rightarrow> plan_line lm target f32_zero units UnitsPerMin True p
             | None \<Rightarrow> (p, Inr 0))
            (\<lambda>n p. and_then (plan_line lm recall f32_zero units UnitsPerMin True p)
               (\<lambda>m p. (p, Inr (n + m)))))"

definition plan_jog :: "libm \<Rightarrow> JogCommand \<Rightarrow> f32 list option \<Rightarrow> Planner \<Rightarrow>
    (Planner, PlannerError, PlannerOutcome) outcome"
  where "plan_jog lm j limits p =
    (let target = resolve_target lm (jog_axes j) (jog_units j) (jog_distance j) (jog_machine_coords j) p
     in if violates lm limits target p then (p, Inl JogExceedsTravel)
        else
          and_then (enqueue_move lm target (jog_feed j) (jog_units j) UnitsPerMin False True p)
            (\<lambda>n p. (if n = 1 then recalculate p else p, Inr (Queued n))))"

end
