(* ===== verification/Planner_Facts.thy ===== *)
theory Planner_Facts
  imports Planner Float32_Facts
begin

text \<open>
  The look-ahead of the motion planner: what the two passes of \<^verbatim>\<open>recalculate\<close> establish on a queue of
  blocks, how a busy head is kept, what a planning operation may do to the queue, and the runs of a
  planner as a step relation.
\<close>

section \<open>Blocks whose numbers are in order\<close>

definition block_gain :: "f32 Block \<Rightarrow> f32"
  where "block_gain b = fmul (fmul two (acceleration b)) (millimeters b)"

definition block_sane :: "f32 Block \<Rightarrow> bool"
  where "block_sane b =
    (gain_ok (block_gain b) \<and> fwf (max_entry_speed_sq b) \<and> fle f32_zero (max_entry_speed_sq b))"

text \<open>A speed: well-formed and not negative (so not a NaN).\<close>

definition speed_ok :: "f32 \<Rightarrow> bool"
  where "speed_ok v = (fwf v \<and> fle f32_zero v)"

definition entry_ok :: "f32 Block \<Rightarrow> bool"
  where "entry_ok b = (speed_ok (entry_speed_sq b) \<and> fle (entry_speed_sq b) (max_entry_speed_sq b))"

lemma fle_not_nan: "fle x y \<Longrightarrow> x \<noteq> FNan" "fle x y \<Longrightarrow> y \<noteq> FNan"
  by (auto simp: fle_def elim: flt.elims feq.elims)

lemma fle_refl [simp]: "fle x x \<longleftrightarrow> x \<noteq> FNan"
  by (auto simp: fle_def)

lemma speed_ok_zero [simp]: "speed_ok f32_zero"
  by (simp add: speed_ok_def fwf_def)

lemma speed_not_nan: "speed_ok v \<Longrightarrow> v \<noteq> FNan"
  using fle_not_nan(2) by (auto simp: speed_ok_def)

lemma max_speed: "block_sane b \<Longrightarrow> speed_ok (max_entry_speed_sq b)"
  by (simp add: block_sane_def speed_ok_def)

lemma fmin_speed:
  assumes "speed_ok x" and "speed_ok y"
  shows "speed_ok (fmin x y)" and "fle (fmin x y) x" and "fle (fmin x y) y"
    and "fle z x \<Longrightarrow> fle z y \<Longrightarrow> fle z (fmin x y)"
  using assms speed_not_nan [OF assms(1)] speed_not_nan [OF assms(2)] fle_linear [of x y]
  by (auto simp: fmin_def is_nan_def fle_def)

lemma reachable_gain: "reachable_sq v b = fadd v (block_gain b)"
  by (simp add: reachable_sq_def block_gain_def)

lemma reachable_speed:
  assumes "speed_ok v" and "block_sane b"
  shows "speed_ok (reachable_sq v b)" and "fle v (reachable_sq v b)"
  using assms fadd_gain [of v "block_gain b"] speed_not_nan [OF assms(1)]
    fle_trans [of f32_zero v "fadd v (block_gain b)"]
  by (auto simp: reachable_gain speed_ok_def block_sane_def)

lemma reachable_mono:
  assumes "speed_ok v" and "speed_ok w" and "fle v w" and "block_sane b"
  shows "fle (reachable_sq v b) (reachable_sq w b)"
  using assms fadd_gain_mono speed_not_nan by (simp add: reachable_gain speed_ok_def block_sane_def)

lemma reachable_entry [simp]: "reachable_sq v (b\<lparr>entry_speed_sq := e\<rparr>) = reachable_sq v b"
  by (simp add: reachable_sq_def)

lemma block_sane_entry [simp]: "block_sane (b\<lparr>entry_speed_sq := e\<rparr>) = block_sane b"
  by (simp add: block_sane_def block_gain_def)

section \<open>Feasible queues\<close>

text \<open>The speed at which the next block takes over, 0 at the end of the queue.\<close>

fun exit_of :: "f32 Block list \<Rightarrow> f32"
  where
    "exit_of [] = f32_zero"
  | "exit_of (b # rest) = entry_speed_sq b"

text \<open>Every block can brake from its entry speed to the entry speed of the next within its length.\<close>

fun decel_ok :: "f32 Block list \<Rightarrow> bool"
  where
    "decel_ok [] = True"
  | "decel_ok (b # rest) = (fle (entry_speed_sq b) (reachable_sq (exit_of rest) b) \<and> decel_ok rest)"

text \<open>Every block can reach the entry speed of the next by accelerating over its length.\<close>

fun accel_ok :: "f32 Block list \<Rightarrow> bool"
  where
    "accel_ok [] = True"
  | "accel_ok (b # rest) =
      ((rest \<noteq> [] \<longrightarrow> fle (exit_of rest) (reachable_sq (entry_speed_sq b) b)) \<and> accel_ok rest)"

section \<open>The reverse pass\<close>

text \<open>The reverse pass on the queue in its own order, without a busy head.\<close>

fun plan_back :: "f32 \<Rightarrow> f32 Block list \<Rightarrow> f32 Block list"
  where
    "plan_back e [] = []"
  | "plan_back e (b # rest) =
      (let r = plan_back e rest; v = (case r of [] \<Rightarrow> e | n # _ \<Rightarrow> entry_speed_sq n)
       in b\<lparr>entry_speed_sq := fmin (max_entry_speed_sq b) (reachable_sq v b)\<rparr> # r)"

definition last_entry :: "f32 \<Rightarrow> f32 Block list \<Rightarrow> f32"
  where "last_entry e bs = (case rev bs of [] \<Rightarrow> e | b # _ \<Rightarrow> entry_speed_sq b)"

lemma reverse_walk_snoc:
  "reverse_walk busy e (xs @ [b]) =
    reverse_walk False e xs @
      [if busy then b
       else b\<lparr>entry_speed_sq := fmin (max_entry_speed_sq b) (reachable_sq (last_entry e (reverse_walk False e xs)) b)\<rparr>]"
proof (induction xs arbitrary: e)
  case (Cons x xs)
  have last: "last_entry (entry_speed_sq x') r = last_entry e (x' # r)" for x' r
    by (simp add: last_entry_def split: list.splits)
  show ?case using Cons.IH by (simp add: Let_def flip: last)
qed (simp add: last_entry_def Let_def)

lemma reverse_walk_back: "rev (reverse_walk False e (rev q)) = plan_back e q"
proof (induction q)
  case (Cons b q)
  then have "reverse_walk False e (rev q) = rev (plan_back e q)" by (metis rev_rev_ident)
  then show ?case by (simp add: reverse_walk_snoc last_entry_def Let_def)
qed simp

lemma reverse_pass_idle: "reverse_pass False q = plan_back f32_zero q"
  by (simp add: reverse_pass_def reverse_walk_back)

lemma reverse_pass_busy: "reverse_pass True (b # q) = b # plan_back f32_zero q"
  using reverse_walk_back [of f32_zero q] by (simp add: reverse_pass_def reverse_walk_snoc)

lemma plan_back_exit: "exit_of (plan_back f32_zero q) = (case plan_back f32_zero q of [] \<Rightarrow> f32_zero | n # _ \<Rightarrow> entry_speed_sq n)"
  by (cases "plan_back f32_zero q") simp_all

lemma plan_back_Cons: "plan_back f32_zero (b # q) =
    b\<lparr>entry_speed_sq := fmin (max_entry_speed_sq b) (reachable_sq (exit_of (plan_back f32_zero q)) b)\<rparr> #
      plan_back f32_zero q"
  by (simp add: Let_def plan_back_exit)

lemma exit_speed:
  "(\<forall>b \<in> set q. entry_ok b) \<Longrightarrow> speed_ok (exit_of q)"
  by (cases q) (auto simp: entry_ok_def)

lemma plan_back_feasible:
  "\<forall>b \<in> set q. block_sane b \<Longrightarrow>
     decel_ok (plan_back f32_zero q) \<and> (\<forall>b \<in> set (plan_back f32_zero q). entry_ok b \<and> block_sane b)"
proof (induction q)
  case (Cons b q)
  let ?r = "plan_back f32_zero q"
  have r: "speed_ok (exit_of ?r)" using Cons exit_speed by simp
  have b: "block_sane b" using Cons.prems by simp
  note min = fmin_speed [OF max_speed [OF b] reachable_speed(1) [OF r b]]
  show ?case unfolding plan_back_Cons using Cons min b by (simp add: entry_ok_def)
qed simp

text \<open>Appending blocks never lowers the speed a feasible queue was planned for.\<close>

lemma plan_back_raises:
  assumes "decel_ok q" and "\<forall>b \<in> set q. entry_ok b" and "\<forall>b \<in> set (q @ bs). block_sane b"
  shows "fle (exit_of q) (exit_of (plan_back f32_zero (q @ bs)))"
  using assms
proof (induction q)
  case Nil
  then show ?case
    using plan_back_feasible [of bs] exit_speed [of "plan_back f32_zero bs"] by (simp add: speed_ok_def)
next
  case (Cons b q)
  let ?r = "plan_back f32_zero (q @ bs)"
  have r: "speed_ok (exit_of ?r)" using plan_back_feasible [of "q @ bs"] exit_speed Cons.prems by simp
  have b: "block_sane b" using Cons.prems by simp
  have q: "speed_ok (exit_of q)" using Cons.prems exit_speed by simp
  have ih: "fle (exit_of q) (exit_of ?r)" using Cons by simp
  have "fle (entry_speed_sq b) (reachable_sq (exit_of q) b)" using Cons.prems by simp
  then have "fle (entry_speed_sq b) (reachable_sq (exit_of ?r) b)"
    using reachable_mono [OF q r ih b] fle_trans by blast
  moreover have "fle (entry_speed_sq b) (max_entry_speed_sq b)" using Cons.prems by (simp add: entry_ok_def)
  ultimately show ?case
    using fmin_speed [OF max_speed [OF b] reachable_speed(1) [OF r b]]
    by (simp add: plan_back_Cons del: plan_back.simps)
qed

section \<open>The forward pass\<close>

lemma forward_walk_feasible:
  assumes "block_sane a" and "entry_ok a" and "fle (entry_speed_sq a) (reachable_sq (exit_of q) a)"
    and "decel_ok q" and "\<forall>b \<in> set q. block_sane b \<and> entry_ok b"
  shows "decel_ok (a # forward_walk (Some a) q) \<and> accel_ok (a # forward_walk (Some a) q) \<and>
    (\<forall>b \<in> set (forward_walk (Some a) q). entry_ok b)"
  using assms
proof (induction q arbitrary: a)
  case (Cons b q)
  let ?r = "reachable_sq (entry_speed_sq a) a"
  let ?b = "if flt ?r (entry_speed_sq b) then b\<lparr>entry_speed_sq := ?r\<rparr> else b"
  have a: "speed_ok (entry_speed_sq a)" using Cons.prems by (simp add: entry_ok_def)
  have b: "speed_ok (entry_speed_sq b)" "fle (entry_speed_sq b) (max_entry_speed_sq b)" "block_sane b"
    using Cons.prems by (auto simp: entry_ok_def)
  have r: "speed_ok ?r" "fle (entry_speed_sq a) ?r" using reachable_speed [OF a] Cons.prems by auto
  have le: "fle (entry_speed_sq ?b) (entry_speed_sq b)" using b(1) speed_not_nan by (auto simp: fle_def)
  have ok: "entry_ok ?b"
    using r b fle_trans [of ?r "entry_speed_sq b" "max_entry_speed_sq b"] by (auto simp: entry_ok_def fle_def)
  have down: "fle (entry_speed_sq ?b) (reachable_sq (exit_of q) ?b)"
    using fle_trans [OF le, of "reachable_sq (exit_of q) b"] Cons.prems by (simp split: if_splits)
  have up: "fle (entry_speed_sq ?b) ?r"
    using r(1) b(1) speed_not_nan fle_linear [of "entry_speed_sq b" ?r] by auto
  have "fle (entry_speed_sq a) (reachable_sq (entry_speed_sq ?b) a)"
  proof (cases "flt ?r (entry_speed_sq b)")
    case True
    then show ?thesis
      using r reachable_speed(2) [OF r(1), of a] Cons.prems(1) fle_trans by auto
  next
    case False
    then show ?thesis using Cons.prems by simp
  qed
  moreover have "decel_ok (?b # forward_walk (Some ?b) q) \<and> accel_ok (?b # forward_walk (Some ?b) q) \<and>
      (\<forall>c \<in> set (forward_walk (Some ?b) q). entry_ok c)"
    using Cons.prems ok down b(3) by (intro Cons.IH) auto
  ultimately show ?case using up ok by (simp add: Let_def)
qed simp

lemma forward_pass_feasible:
  assumes "decel_ok q" and "\<forall>b \<in> set q. block_sane b \<and> entry_ok b"
  shows "decel_ok (forward_pass q) \<and> accel_ok (forward_pass q) \<and> (\<forall>b \<in> set (forward_pass q). entry_ok b)"
proof (cases q)
  case (Cons a rest)
  then show ?thesis using forward_walk_feasible [of a rest] assms by (simp add: forward_pass_def)
qed (simp add: forward_pass_def)

section \<open>Recalculation\<close>

text \<open>A block apart from its planned entry speed.\<close>

definition plan_of :: "f32 Block \<Rightarrow> f32 Block"
  where "plan_of b = b\<lparr>entry_speed_sq := f32_zero\<rparr>"

lemma plan_of_entry [simp]: "plan_of (b\<lparr>entry_speed_sq := e\<rparr>) = plan_of b"
  by (simp add: plan_of_def)

lemma plan_of_fields:
  assumes "plan_of b = plan_of c"
  shows "steps b = steps c" "block_sane b = block_sane c" "jog b = jog c"
proof -
  have "steps (plan_of b) = steps (plan_of c)" "block_sane (plan_of b) = block_sane (plan_of c)"
    "jog (plan_of b) = jog (plan_of c)" by (simp_all only: assms)
  then show "steps b = steps c" "block_sane b = block_sane c" "jog b = jog c" by (simp_all add: plan_of_def)
qed

lemma map_plan_of_fields:
  assumes "map plan_of q = map plan_of q'"
  shows "map steps q = map steps q'" and "(\<forall>b \<in> set q. block_sane b) = (\<forall>b \<in> set q'. block_sane b)"
proof -
  have len: "length q = length q'" using assms map_eq_imp_length_eq by blast
  have i: "plan_of (q ! i) = plan_of (q' ! i)" if "i < length q" for i
    using assms that len by (metis nth_map)
  show "map steps q = map steps q'" using len plan_of_fields(1) [OF i] by (simp add: list_eq_iff_nth_eq)
  show "(\<forall>b \<in> set q. block_sane b) = (\<forall>b \<in> set q'. block_sane b)"
    using len plan_of_fields(2) [OF i] by (auto simp: all_set_conv_all_nth)
qed

lemma plan_back_static [simp]: "map plan_of (plan_back e q) = map plan_of q"
  by (induction q) (simp_all add: Let_def)

lemma forward_walk_static [simp]: "map plan_of (forward_walk a q) = map plan_of q"
  by (induction a q rule: forward_walk.induct) (auto simp: Let_def split: option.splits)

lemma reverse_pass_static [simp]: "map plan_of (reverse_pass busy q) = map plan_of q"
proof (cases busy)
  case True
  then show ?thesis by (cases q) (simp add: reverse_pass_def, simp only: reverse_pass_busy, simp)
next
  case False
  then show ?thesis using plan_back_static by (simp add: reverse_pass_idle)
qed

lemma recalculate_static [simp]: "map plan_of (pl_queue (recalculate p)) = map plan_of (pl_queue p)"
  by (simp add: recalculate_def forward_pass_def)

lemma recalculate_fields [simp]:
  "pl_head_busy (recalculate p) = pl_head_busy p" "pl_position (recalculate p) = pl_position p"
  "pl_arc (recalculate p) = pl_arc p" "pl_prev_unit (recalculate p) = pl_prev_unit p"
  "pl_config (recalculate p) = pl_config p" "length (pl_queue (recalculate p)) = length (pl_queue p)"
proof -
  show "length (pl_queue (recalculate p)) = length (pl_queue p)"
    using arg_cong [OF recalculate_static, of length p] by (simp only: length_map)
qed (simp_all add: recalculate_def)

lemma recalculate_busy_head:
  "pl_head_busy p \<Longrightarrow> pl_queue p = b # q \<Longrightarrow> \<exists>r. pl_queue (recalculate p) = b # r"
  by (auto simp: recalculate_def forward_pass_def reverse_pass_busy Let_def)

section \<open>The invariant of the queue\<close>

definition queue_ok :: "libm \<Rightarrow> Planner \<Rightarrow> bool"
  where "queue_ok lm p =
    (decel_ok (pl_queue p) \<and> accel_ok (pl_queue p) \<and> (\<forall>b \<in> set (pl_queue p). entry_ok b \<and> block_sane b) \<and>
     length (pl_queue p) \<le> BLOCK_QUEUE_LEN \<and>
     (pl_head_busy p \<and> pl_queue p = [] \<longrightarrow> is_zero_vec lm (pl_prev_unit p)))"

text \<open>
  What a planning operation does before it recalculates: it appends blocks whose entry speed is their
  highest, the first of which starts from rest when there is no junction to carry speed over.
\<close>

definition appended :: "libm \<Rightarrow> f32 Block list \<Rightarrow> Planner \<Rightarrow> Planner \<Rightarrow> bool"
  where "appended lm bs p p' =
    (pl_queue p' = pl_queue p @ bs \<and> pl_head_busy p' = pl_head_busy p \<and> pl_config p' = pl_config p \<and>
     (bs = [] \<longrightarrow> pl_prev_unit p' = pl_prev_unit p) \<and>
     (\<forall>axis < AXES. pl_position p' ! axis = pl_position p ! axis + (\<Sum>b\<leftarrow>bs. steps b ! axis)) \<and>
     (bs \<noteq> [] \<longrightarrow> length (pl_queue p') \<le> BLOCK_QUEUE_LEN) \<and>
     (\<forall>b \<in> set bs. entry_speed_sq b = max_entry_speed_sq b) \<and>
     (bs \<noteq> [] \<and> is_zero_vec lm (pl_prev_unit p) \<longrightarrow>
       \<not> fle f32_zero (entry_speed_sq (hd bs)) \<or> fle (entry_speed_sq (hd bs)) f32_zero))"

lemma appended_refl: "appended lm [] p p"
  by (simp add: appended_def)

lemma appended_trans:
  "appended lm bs p p' \<Longrightarrow> appended lm cs p' p'' \<Longrightarrow> appended lm (bs @ cs) p p''"
  by (cases bs; cases cs) (auto simp: appended_def)

lemma decel_cong_exit:
  "decel_ok (b # q) \<Longrightarrow> fle (entry_speed_sq b) (reachable_sq (exit_of r) b) \<Longrightarrow> decel_ok r \<Longrightarrow> decel_ok (b # r)"
  by simp

theorem recalculate_feasible:
  assumes "queue_ok lm p" and "appended lm bs p p'" and "\<forall>b \<in> set (pl_queue p'). block_sane b"
  shows "queue_ok lm (recalculate p')"
proof -
  let ?q = "pl_queue p'"
  have q: "?q = pl_queue p @ bs" and busy: "pl_head_busy p' = pl_head_busy p"
    using assms(2) by (simp_all add: appended_def)
  have rev: "decel_ok (reverse_pass (pl_head_busy p') ?q) \<and>
      (\<forall>b \<in> set (reverse_pass (pl_head_busy p') ?q). block_sane b \<and> entry_ok b)"
  proof (cases "pl_head_busy p' \<and> ?q \<noteq> []")
    case False
    have "reverse_pass (pl_head_busy p') ?q = plan_back f32_zero ?q"
      using False reverse_pass_idle by (cases "pl_head_busy p'") (auto simp: reverse_pass_def)
    with plan_back_feasible [OF assms(3)] show ?thesis by auto
  next
    case True
    then obtain b r where br: "?q = b # r" by (cases ?q) auto
    have sane: "block_sane b" "\<forall>c \<in> set r. block_sane c" using assms(3) br by auto
    note planned = plan_back_feasible [OF sane(2)]
    have exit: "speed_ok (exit_of (plan_back f32_zero r))" using planned exit_speed by blast
    have "entry_ok b \<and> fle (entry_speed_sq b) (reachable_sq (exit_of (plan_back f32_zero r)) b)"
    proof (cases "pl_queue p")
      case Nil
      then have b: "bs = b # r" using br q by simp
      have "is_zero_vec lm (pl_prev_unit p)" using assms(1) True busy Nil by (simp add: queue_ok_def)
      then have "fle (entry_speed_sq b) f32_zero \<or> \<not> fle f32_zero (entry_speed_sq b)"
        and max: "entry_speed_sq b = max_entry_speed_sq b"
        using assms(2) b by (auto simp: appended_def)
      with sane(1) have zero: "fle (entry_speed_sq b) f32_zero" by (simp add: block_sane_def)
      have speed: "speed_ok (entry_speed_sq b)" using max_speed [OF sane(1)] max by simp
      have "fle f32_zero (exit_of (plan_back f32_zero r))" using exit by (simp add: speed_ok_def)
      with zero have "fle (entry_speed_sq b) (exit_of (plan_back f32_zero r))" by (rule fle_trans)
      then have "fle (entry_speed_sq b) (reachable_sq (exit_of (plan_back f32_zero r)) b)"
        using reachable_speed(2) [OF exit sane(1)] by (rule fle_trans)
      with speed max show ?thesis using speed_not_nan by (simp add: entry_ok_def)
    next
      case (Cons c prior)
      then have b: "c = b" "r = prior @ bs" using br q by auto
      have prior: "decel_ok (b # prior)" "\<forall>x \<in> set (b # prior). entry_ok x"
        using assms(1) Cons b(1) by (auto simp: queue_ok_def)
      have "speed_ok (exit_of prior)" using prior(2) exit_speed by simp
      moreover have "fle (exit_of prior) (exit_of (plan_back f32_zero (prior @ bs)))"
        using prior sane(2) b(2) by (intro plan_back_raises) simp_all
      ultimately have "fle (reachable_sq (exit_of prior) b) (reachable_sq (exit_of (plan_back f32_zero r)) b)"
        using exit sane(1) b(2) by (intro reachable_mono) simp_all
      with prior fle_trans show ?thesis by simp blast
    qed
    with True br planned sane show ?thesis by (simp add: reverse_pass_busy)
  qed
  then have fwd: "decel_ok (pl_queue (recalculate p')) \<and> accel_ok (pl_queue (recalculate p')) \<and>
      (\<forall>b \<in> set (pl_queue (recalculate p')). entry_ok b)"
    using forward_pass_feasible [of "reverse_pass (pl_head_busy p') ?q"] by (simp add: recalculate_def)
  have sane: "\<forall>b \<in> set (pl_queue (recalculate p')). block_sane b"
    using map_plan_of_fields(2) [OF recalculate_static] assms(3) by blast
  have len: "length ?q \<le> BLOCK_QUEUE_LEN" using assms(1,2) by (cases bs) (auto simp: appended_def queue_ok_def)
  have "pl_queue (recalculate p') = [] \<Longrightarrow> ?q = []"
    using recalculate_fields(6) [of p'] by simp
  then have "pl_head_busy p' \<and> pl_queue (recalculate p') = [] \<Longrightarrow> is_zero_vec lm (pl_prev_unit p')"
    using assms(1) busy q assms(2) by (simp add: queue_ok_def appended_def)
  with fwd sane len show ?thesis by (simp add: queue_ok_def)
qed

section \<open>Planning operations\<close>

lemma fmin_zero_le: "fle f32_zero (fmin f32_zero y) \<Longrightarrow> fle (fmin f32_zero y) f32_zero"
  by (cases y) (auto simp: fmin_def is_nan_def fle_def)

lemma build_block_shape:
  assumes "build_block lm target feed units mode r j p = Some b"
  shows "\<exists>unit accel nominal_sq. max_entry_speed_sq b = fmin (junction_speed_sq lm unit accel p) nominal_sq \<and>
    entry_speed_sq b = max_entry_speed_sq b \<and> jog b = j \<and>
    steps b = map (\<lambda>axis. target ! axis - pl_position p ! axis) [0..<AXES]"
proof -
  have pick: "(if c then None else Some x) = Some b \<Longrightarrow> b = x" for c and x :: "f32 Block" by (simp split: if_splits)
  show ?thesis
    using pick [OF assms [unfolded build_block_def Let_def case_prod_unfold]] by (simp, blast)
qed

lemma build_block_facts:
  assumes "build_block lm target feed units mode r j p = Some b"
  shows "entry_speed_sq b = max_entry_speed_sq b"
    and "is_zero_vec lm (pl_prev_unit p) \<Longrightarrow>
      \<not> fle f32_zero (entry_speed_sq b) \<or> fle (entry_speed_sq b) f32_zero"
    and "axis < AXES \<Longrightarrow> steps b ! axis = target ! axis - pl_position p ! axis"
    and "jog b = j"
  using build_block_shape [OF assms] fmin_zero_le by (auto simp: junction_speed_sq_def)

lemma enqueue_move_cases:
  assumes "enqueue_move lm target feed units mode r j p = (p', res)"
  shows "(p' = p \<and> (res = Inr 0 \<or> res = Inl QueueFull)) \<or>
    (res = Inr 1 \<and> (\<exists>b. appended lm [b] p p') \<and> pl_arc p' = pl_arc p)"
proof (cases "build_block lm target feed units mode r j p")
  case None
  with assms show ?thesis by (simp add: enqueue_move_def)
next
  case (Some b)
  note b = build_block_facts [OF Some]
  show ?thesis
  proof (cases "length (pl_queue p) < BLOCK_QUEUE_LEN")
    case True
    with assms Some have p': "res = Inr 1"
        "p' = p\<lparr>pl_queue := pl_queue p @ [b], pl_position := target, pl_prev_unit := unit_vec b,
           pl_prev_nominal := nominal_speed_sq b\<rparr>"
      by (auto simp: enqueue_move_def enqueue_block_def)
    have "appended lm [b] p p'" unfolding appended_def p'(2) using b True by simp
    with p' show ?thesis by auto
  qed (use assms Some in \<open>simp add: enqueue_move_def enqueue_block_def\<close>)
qed

text \<open>
  One planning step adds the blocks \<^verbatim>\<open>bs\<close>: the queue is left alone (and the junction state kept or
  dropped), or blocks are appended and the queue is recalculated.
\<close>

inductive queue_step :: "libm \<Rightarrow> f32 Block list \<Rightarrow> Planner \<Rightarrow> Planner \<Rightarrow> bool"
  for lm :: libm
  where
    keep: "pl_queue p' = pl_queue p \<Longrightarrow> pl_head_busy p' = pl_head_busy p \<Longrightarrow>
      pl_position p' = pl_position p \<Longrightarrow> pl_prev_unit p' \<in> {pl_prev_unit p, zero_vec} \<Longrightarrow>
      queue_step lm [] p p'"
  | plan: "appended lm bs p p1 \<Longrightarrow> pl_queue p' = pl_queue (recalculate p1) \<Longrightarrow>
      pl_head_busy p' = pl_head_busy p1 \<Longrightarrow> pl_position p' = pl_position p1 \<Longrightarrow>
      pl_prev_unit p' = pl_prev_unit p1 \<Longrightarrow> queue_step lm bs p p'"

inductive queue_run :: "libm \<Rightarrow> f32 Block list \<Rightarrow> Planner \<Rightarrow> Planner \<Rightarrow> bool"
  for lm :: libm
  where
    stop: "queue_run lm [] p p"
  | step: "queue_step lm bs p p1 \<Longrightarrow> queue_run lm cs p1 p2 \<Longrightarrow> queue_run lm (bs @ cs) p p2"

lemma queue_run_one: "queue_step lm bs p p' \<Longrightarrow> queue_run lm bs p p'"
  using step [OF _ stop, of lm bs p p'] by simp

lemma queue_run_trans: "queue_run lm bs p p1 \<Longrightarrow> queue_run lm cs p1 p2 \<Longrightarrow> queue_run lm (bs @ cs) p p2"
  by (induction rule: queue_run.induct) (auto simp: step)

lemma queue_step_static:
  "queue_step lm bs p p' \<Longrightarrow> map plan_of (pl_queue p') = map plan_of (pl_queue p @ bs)"
  by (erule queue_step.cases) (simp_all add: appended_def)

lemma queue_run_static:
  "queue_run lm bs p p' \<Longrightarrow> map plan_of (pl_queue p') = map plan_of (pl_queue p @ bs)"
  by (induction rule: queue_run.induct) (simp_all add: queue_step_static)

lemma queue_run_position:
  "queue_run lm bs p p' \<Longrightarrow> axis < AXES \<Longrightarrow>
    pl_position p' ! axis = pl_position p ! axis + (\<Sum>b\<leftarrow>bs. steps b ! axis)"
  by (induction rule: queue_run.induct) (auto simp: appended_def algebra_simps elim!: queue_step.cases)

lemma queue_run_busy: "queue_run lm bs p p' \<Longrightarrow> pl_head_busy p' = pl_head_busy p"
  by (induction rule: queue_run.induct) (auto simp: appended_def elim!: queue_step.cases)

lemma queue_run_length:
  "queue_run lm bs p p' \<Longrightarrow> length (pl_queue p) \<le> BLOCK_QUEUE_LEN \<Longrightarrow> length (pl_queue p') \<le> BLOCK_QUEUE_LEN"
proof (induction rule: queue_run.induct)
  case (step bs p p1 cs p2)
  from step.hyps(1) have "length (pl_queue p1) \<le> BLOCK_QUEUE_LEN"
  proof cases
    case keep
    with step.prems show ?thesis by simp
  next
    case (plan q)
    have "length (pl_queue q) \<le> BLOCK_QUEUE_LEN"
    proof (cases "bs = []")
      case True
      then show ?thesis using plan(1) step.prems by (simp add: appended_def)
    next
      case False
      then show ?thesis using plan(1) unfolding appended_def by blast
    qed
    with plan(2) show ?thesis by simp
  qed
  with step.IH show ?case by simp
qed simp

lemma queue_step_head:
  "queue_step lm bs p p' \<Longrightarrow> pl_head_busy p \<Longrightarrow> pl_queue p = b # q \<Longrightarrow> \<exists>r. pl_queue p' = b # r"
  by (erule queue_step.cases) (auto simp: appended_def intro!: recalculate_busy_head)

lemma queue_run_head:
  "queue_run lm bs p p' \<Longrightarrow> pl_head_busy p \<Longrightarrow> pl_queue p = b # q \<Longrightarrow> \<exists>r. pl_queue p' = b # r"
proof (induction arbitrary: q rule: queue_run.induct)
  case (step bs p p1 cs p2)
  then show ?case using queue_step_head queue_run_busy [OF queue_run_one [OF step.hyps(1)]] by blast
qed simp

lemma zero_vec_zero: "fabsf lm f32_zero = f32_zero \<Longrightarrow> is_zero_vec lm zero_vec"
proof -
  have "flt f32_zero LENGTH_EPSILON_MM" by code_simp
  then show "fabsf lm f32_zero = f32_zero \<Longrightarrow> is_zero_vec lm zero_vec"
    by (simp add: is_zero_vec_def zero_vec_def list_all_iff)
qed

lemma queue_step_ok:
  assumes "queue_step lm bs p p'" and "queue_ok lm p" and "\<forall>b \<in> set (pl_queue p'). block_sane b"
    and "fabsf lm f32_zero = f32_zero"
  shows "queue_ok lm p'"
  using assms(1)
proof cases
  case keep
  then show ?thesis using assms zero_vec_zero by (auto simp: queue_ok_def)
next
  case (plan p1)
  have "\<forall>b \<in> set (pl_queue p1). block_sane b"
    using assms(3) plan(2) map_plan_of_fields(2) [OF recalculate_static [of p1]] by simp
  from recalculate_feasible [OF assms(2) plan(1) this] plan(2-) show ?thesis by (simp add: queue_ok_def)
qed

lemma queue_run_ok:
  "queue_run lm bs p p' \<Longrightarrow> queue_ok lm p \<Longrightarrow> \<forall>b \<in> set (pl_queue p'). block_sane b \<Longrightarrow>
     fabsf lm f32_zero = f32_zero \<Longrightarrow> queue_ok lm p'"
proof (induction rule: queue_run.induct)
  case (step bs p p1 cs p2)
  have "\<forall>b \<in> set (pl_queue p1 @ cs). block_sane b"
    using step.prems(2) map_plan_of_fields(2) [OF queue_run_static [OF step.hyps(2)]] by blast
  then have "queue_ok lm p1" using queue_step_ok [OF step.hyps(1)] step.prems by simp
  then show ?case using step by blast
qed simp

section \<open>The operations as steps\<close>

lemma queue_keep [intro]: "queue_run lm [] p p" "queue_run lm [] p (flush_lookahead p)"
  by (rule stop, rule queue_run_one, rule keep) (simp_all add: flush_lookahead_def)

lemma plan_line_run:
  assumes "plan_line lm target feed units mode r p = (p', res)"
  shows "(p' = p \<and> (res = Inr 0 \<or> res = Inl QueueFull)) \<or> (res = Inr 1 \<and> (\<exists>b. queue_step lm [b] p p'))"
proof -
  obtain p1 r1 where m: "enqueue_move lm target feed units mode r False p = (p1, r1)" by (cases "enqueue_move lm target feed units mode r False p")
  from enqueue_move_cases [OF m] assms m show ?thesis
    by (auto simp: plan_line_def intro!: exI plan)
qed

lemma plan_jog_run:
  assumes "plan_jog lm j limits p = (p', res)"
  shows "(p' = p \<and> (res = Inr (Queued 0) \<or> res = Inl QueueFull \<or> res = Inl JogExceedsTravel)) \<or>
    (res = Inr (Queued 1) \<and> (\<exists>b. queue_step lm [b] p p'))"
proof (cases "violates lm limits (resolve_target lm (jog_axes j) (jog_units j) (jog_distance j) (jog_machine_coords j) p) p")
  case False
  obtain p1 r1 where m: "enqueue_move lm (resolve_target lm (jog_axes j) (jog_units j) (jog_distance j) (jog_machine_coords j) p)
      (jog_feed j) (jog_units j) UnitsPerMin False True p = (p1, r1)" by fastforce
  from enqueue_move_cases [OF m] assms m False show ?thesis
    by (auto simp: plan_jog_def intro!: exI plan)
qed (use assms in \<open>simp add: plan_jog_def\<close>)

text \<open>A chunk of an arc: the segments that fit are appended, and the arc moves on by their number at least.\<close>

lemma feed_segments_run:
  "feed_segments lm arc n p = (p', res) \<Longrightarrow>
    \<exists>bs arc' m. res = Inr (arc', m) \<and> appended lm bs p p' \<and> m = n + length bs \<and> pl_arc p' = pl_arc p \<and>
      arc_next_seg arc \<le> arc_next_seg arc' \<and> arc_segments arc' = arc_segments arc \<and>
      (arc_next_seg arc \<le> arc_segments arc \<and> length (pl_queue p) < BLOCK_QUEUE_LEN \<longrightarrow> arc_next_seg arc < arc_next_seg arc') \<and>
      (arc_segments arc < arc_next_seg arc' \<or> length (pl_queue p') = BLOCK_QUEUE_LEN \<or> BLOCK_QUEUE_LEN < length (pl_queue p)) \<and>
      (arc_next_seg arc \<le> arc_segments arc + 1 \<longrightarrow> arc_next_seg arc' \<le> arc_segments arc + 1)"
proof (induction lm arc n p arbitrary: p' rule: feed_segments.induct)
  case (1 lm arc n p)
  let ?more = "arc_next_seg arc \<le> arc_segments arc \<and> length (pl_queue p) < BLOCK_QUEUE_LEN"
  let ?move = "enqueue_move lm (mm_target_to_steps lm (arc_vertex_mm lm arc) p) (arc_seg_feed arc)
      (arc_units arc) (arc_feed_mode arc) False False p"
  show ?case
  proof (cases ?more)
    case False
    with 1 have "p' = p" "res = Inr (arc, n)" by (subst (asm) feed_segments.simps, auto)+
    with False show ?thesis by (intro exI [of _ "[]"]) (auto simp: appended_refl)
  next
    case True
    obtain p1 r1 where m: "?move = (p1, r1)" by (cases ?move)
    have room: "r1 \<noteq> Inl QueueFull"
      using m True by (auto simp: enqueue_move_def enqueue_block_def split: option.splits if_splits)
    from enqueue_move_cases [OF m] room obtain bs where bs: "r1 = Inr (length bs)" "appended lm bs p p1"
        "pl_arc p1 = pl_arc p" "length bs \<le> 1"
      using appended_refl by (elim disjE) (force, force)
    let ?arc = "arc\<lparr>arc_next_seg := arc_next_seg arc + 1\<rparr>"
    have feed: "feed_segments lm ?arc (n + length bs) p1 = (p', res)"
      using "1.prems" True m bs by (subst (asm) feed_segments.simps) auto
    from "1.IH" [OF True m [symmetric] bs(1) feed]
    obtain cs arc' where cs: "res = Inr (arc', n + length bs + length cs)" "appended lm cs p1 p'"
        "pl_arc p' = pl_arc p1" "arc_next_seg ?arc \<le> arc_next_seg arc'" "arc_segments arc' = arc_segments arc"
        "arc_segments arc < arc_next_seg arc' \<or> length (pl_queue p') = BLOCK_QUEUE_LEN \<or> BLOCK_QUEUE_LEN < length (pl_queue p1)"
        "arc_next_seg ?arc \<le> arc_segments arc + 1 \<longrightarrow> arc_next_seg arc' \<le> arc_segments arc + 1"
      by auto
    have "length (pl_queue p1) \<le> BLOCK_QUEUE_LEN" using bs(2,4) True by (simp add: appended_def)
    then show ?thesis using cs bs appended_trans [OF bs(2) cs(2)] True
      by (intro exI [of _ "bs @ cs"] exI [of _ arc'] exI [of _ "n + length bs + length cs"]) auto
  qed
qed

lemma recalculate_arc: "pl_queue (recalculate (p\<lparr>pl_arc := a\<rparr>)) = pl_queue (recalculate p)"
  by (simp add: recalculate_def)

lemma enqueue_arc_chunk_run:
  assumes "enqueue_arc_chunk lm arc p = (p', res)"
  shows "\<exists>bs. queue_step lm bs p p' \<and>
    (res = Inr (Queued (length bs)) \<and> pl_arc p' = None \<or>
     (\<exists>arc'. res = Inr (ArcPending (length bs)) \<and> pl_arc p' = Some arc' \<and>
       arc_segments arc' = arc_segments arc \<and> arc_next_seg arc \<le> arc_next_seg arc' \<and>
       arc_next_seg arc' \<le> arc_segments arc' \<and>
       (length (pl_queue p) < BLOCK_QUEUE_LEN \<longrightarrow> arc_next_seg arc < arc_next_seg arc') \<and>
       BLOCK_QUEUE_LEN \<le> length (pl_queue p')))"
proof -
  obtain p1 r1 where f: "feed_segments lm arc 0 p = (p1, r1)" by (cases "feed_segments lm arc 0 p")
  from feed_segments_run [OF f] obtain bs arc' where r: "r1 = Inr (arc', length bs)" "appended lm bs p p1"
      "arc_next_seg arc \<le> arc_next_seg arc'" "arc_segments arc' = arc_segments arc"
      "arc_next_seg arc \<le> arc_segments arc \<and> length (pl_queue p) < BLOCK_QUEUE_LEN \<longrightarrow> arc_next_seg arc < arc_next_seg arc'"
      "arc_segments arc < arc_next_seg arc' \<or> length (pl_queue p1) = BLOCK_QUEUE_LEN \<or> BLOCK_QUEUE_LEN < length (pl_queue p)"
    by auto
  have step: "queue_step lm bs p (recalculate p1\<lparr>pl_arc := a\<rparr>)" for a
    by (rule plan [OF r(2)]) simp_all
  have len: "length (pl_queue p) \<le> length (pl_queue p1)" using r(2) by (simp add: appended_def)
  show ?thesis
  proof (cases "arc_segments arc' < arc_next_seg arc'")
    case True
    with assms f r(1) have "p' = recalculate p1\<lparr>pl_arc := None\<rparr>" "res = Inr (Queued (length bs))"
      by (simp_all add: enqueue_arc_chunk_def)
    with step [of None] show ?thesis by auto
  next
    case False
    with assms f r(1) have "p' = recalculate p1\<lparr>pl_arc := Some arc'\<rparr>" "res = Inr (ArcPending (length bs))"
      by (simp_all add: enqueue_arc_chunk_def)
    with step [of "Some arc'"] r False len show ?thesis by (intro exI [of _ bs]) auto
  qed
qed

lemma plan_arc_run:
  assumes "plan_arc lm cw ax i j k plane units distance feed mode machine p = (p', res)"
  shows "(p' = p \<and> res = Inl InvalidArc) \<or>
    (\<exists>bs. queue_step lm bs p p' \<and> (res = Inr (Queued (length bs)) \<or> res = Inr (ArcPending (length bs))))"
proof -
  have "p' = p \<and> res = Inl InvalidArc \<or> (\<exists>arc. enqueue_arc_chunk lm arc p = (p', res))"
    using assms unfolding plan_arc_def Let_def case_prod_unfold by (auto split: if_splits)
  then show ?thesis using enqueue_arc_chunk_run by blast
qed

text \<open>Every planning operation that fails leaves the planner as it was.\<close>

lemma plan_command_run:
  assumes "plan_command_with_limits lm cmd limits p = (p', res)"
  shows "(\<exists>bs. queue_run lm bs p p' \<and> (\<forall>n. res = Inr (Queued n) \<or> res = Inr (ArcPending n) \<longrightarrow> n = length bs)) \<and>
    (\<forall>e. res = Inl e \<longrightarrow> p' = p)"
proof (cases cmd)
  case (Move r ax units distance feed mode machine)
  let ?t = "resolve_target lm ax units distance machine p"
  show ?thesis
  proof (cases "violates lm limits ?t p")
    case True
    with assms Move show ?thesis by (auto simp: Let_def)
  next
    case False
    obtain p1 r1 where l: "plan_line lm ?t feed units mode r p = (p1, r1)" by (cases "plan_line lm ?t feed units mode r p")
    have out: "p' = p1" "res = (case r1 of Inl e \<Rightarrow> Inl e | Inr n \<Rightarrow> Inr (Queued n))"
      using assms Move False l by (cases r1; simp add: Let_def)+
    from plan_line_run [OF l] show ?thesis
    proof (elim disjE conjE exE)
      fix b
      assume "r1 = Inr 1" "queue_step lm [b] p p1"
      with out show ?thesis by (intro conjI exI [of _ "[b]"]) (simp_all add: queue_run_one)
    qed (use out in \<open>auto intro!: exI [of _ "[]"]\<close>)
  qed
next
  case (Arc cw ax i j k plane units distance feed mode machine)
  show ?thesis
  proof (cases "violates lm limits (resolve_target lm ax units distance machine p) p")
    case True
    with assms Arc show ?thesis by auto
  next
    case False
    with assms Arc have "plan_arc lm cw ax i j k plane units distance feed mode machine p = (p', res)" by simp
    from plan_arc_run [OF this] show ?thesis by (auto intro: queue_run_one)
  qed
qed (use assms in \<open>auto simp: Let_def intro!: exI [of _ "[]"]\<close>)

lemma resume_arc_run:
  assumes "resume_arc lm p = (p', res)"
  shows "\<exists>bs. queue_run lm bs p p'"
proof (cases "pl_arc p")
  case (Some arc)
  with assms have "enqueue_arc_chunk lm arc p = (p', res)" by (simp add: resume_arc_def)
  from enqueue_arc_chunk_run [OF this] show ?thesis using queue_run_one by blast
qed (use assms in \<open>auto simp: resume_arc_def\<close>)

text \<open>A move to where the machine already is adds nothing, and a queue with room takes every move.\<close>

lemma build_block_here: "build_block lm (pl_position p) feed units mode r j p = None"
proof -
  have "fold (\<lambda>d n. max n (unsigned_abs d)) (map (\<lambda>axis. pl_position p ! axis - pl_position p ! axis) [0..<AXES]) 0 = 0"
    by (simp add: AXES_def upt_rec unsigned_abs_def)
  then show ?thesis by (simp add: build_block_def Let_def)
qed

lemma plan_line_here: "plan_line lm (pl_position p) feed units mode r p = (p, Inr 0)"
  by (simp add: plan_line_def enqueue_move_def build_block_here)

lemma plan_line_room:
  "length (pl_queue p) < BLOCK_QUEUE_LEN \<Longrightarrow> \<exists>n. snd (plan_line lm target feed units mode r p) = Inr n"
  by (simp add: plan_line_def enqueue_move_def enqueue_block_def split: option.split)

lemma plan_line_target:
  assumes "plan_line lm target feed units mode r p = (p', Inr n)"
  shows "n = 0 \<and> p' = p \<or> n = 1 \<and> pl_position p' = target \<and> length (pl_queue p') = length (pl_queue p) + 1"
  using assms
  by (auto simp: plan_line_def enqueue_move_def enqueue_block_def split: option.splits if_splits)

lemma plan_line_ok:
  assumes "length (pl_queue p) < BLOCK_QUEUE_LEN \<or> target = pl_position p"
  shows "\<exists>n bs. plan_line lm target feed units mode r p = (fst (plan_line lm target feed units mode r p), Inr n) \<and>
    queue_run lm bs p (fst (plan_line lm target feed units mode r p)) \<and> n = length bs"
proof (cases "target = pl_position p")
  case True
  then show ?thesis by (auto simp: plan_line_here intro!: exI [of _ "[]"])
next
  case False
  then obtain n where n: "snd (plan_line lm target feed units mode r p) = Inr n"
    using plan_line_room assms by blast
  then have eq: "plan_line lm target feed units mode r p = (fst (plan_line lm target feed units mode r p), Inr n)"
    by (simp add: prod_eq_iff)
  from plan_line_run [OF eq] show ?thesis
  proof (elim disjE conjE exE)
    fix b
    assume "Inr n = Inr (1::nat)" "queue_step lm [b] p (fst (plan_line lm target feed units mode r p))"
    with eq show ?thesis by (intro exI [of _ n] exI [of _ "[b]"]) (simp add: queue_run_one)
  qed (use eq n in \<open>auto intro!: exI [of _ "[]"]\<close>)
qed

lemma room_after_via:
  assumes "plan_line lm t feed units mode r p = (p1, Inr n)"
    and "queued_len p + blocks_needed (Some t) recall (pl_position p) \<le> BLOCK_QUEUE_LEN"
  shows "length (pl_queue p1) < BLOCK_QUEUE_LEN \<or> recall = pl_position p1"
proof (cases "t = pl_position p")
  case True
  then have "p1 = p" using assms(1) by (simp add: plan_line_here)
  then show ?thesis using assms(2) True by (auto simp: blocks_needed_def queued_len_def split: if_splits)
next
  case False
  then have need: "queued_len p + (if recall = t then 1 else 2) \<le> BLOCK_QUEUE_LEN"
    using assms(2) by (simp add: blocks_needed_def split: if_splits)
  from plan_line_target [OF assms(1)] show ?thesis
  proof
    assume "n = 0 \<and> p1 = p"
    with need show ?thesis by (simp add: queued_len_def split: if_splits)
  next
    assume "n = 1 \<and> pl_position p1 = t \<and> length (pl_queue p1) = length (pl_queue p) + 1"
    with need show ?thesis by (auto simp: queued_len_def split: if_splits)
  qed
qed

lemma plan_go_to_predefined_run:
  assumes "plan_go_to_predefined lm via units distance predefined limits p = (p', res)"
  shows "(\<exists>bs. queue_run lm bs p p' \<and> (\<forall>n. res = Inr n \<longrightarrow> n = length bs)) \<and> (\<forall>e. res = Inl e \<longrightarrow> p' = p)"
proof -
  let ?via = "if axes_present via then Some (resolve_target lm via units distance False p) else None"
  let ?recall = "recall_steps lm predefined p"
  let ?go = "\<lambda>t p. plan_line lm t f32_zero units UnitsPerMin True p"
  let ?first = "case ?via of Some t \<Rightarrow> ?go t p | None \<Rightarrow> (p, Inr 0)"
  show ?thesis
  proof (cases "p' = p \<and> (\<exists>e. res = Inl e)")
    case True
    then show ?thesis by auto
  next
    case False
    have run: "and_then ?first (\<lambda>n p. and_then (?go ?recall p) (\<lambda>m p. (p, Inr (n + m)))) = (p', res)"
      and room: "queued_len p + blocks_needed ?via ?recall (pl_position p) \<le> BLOCK_QUEUE_LEN"
      using assms False unfolding plan_go_to_predefined_def Let_def by (simp_all only: split: if_splits) auto
    obtain n bs where first: "?first = (fst ?first, Inr n)" "queue_run lm bs p (fst ?first)" "n = length bs"
    proof (cases "axes_present via")
      case True
      let ?t = "resolve_target lm via units distance False p"
      have "length (pl_queue p) < BLOCK_QUEUE_LEN \<or> ?t = pl_position p"
        using room True by (auto simp: blocks_needed_def queued_len_def split: if_splits)
      from plan_line_ok [OF this, of lm f32_zero units UnitsPerMin True] True that show thesis by auto
    next
      case False
      then show thesis using that [of 0 "[]"] by auto
    qed
    let ?p1 = "fst ?first"
    have "length (pl_queue ?p1) < BLOCK_QUEUE_LEN \<or> ?recall = pl_position ?p1"
    proof (cases "axes_present via")
      case True
      let ?t = "resolve_target lm via units distance False p"
      have eq: "?go ?t p = (?p1, Inr n)" using first(1) True by simp
      show ?thesis using room_after_via [OF eq] room True by simp
    next
      case False
      then show ?thesis using room by (auto simp: blocks_needed_def queued_len_def split: if_splits)
    qed
    from plan_line_ok [OF this, of lm f32_zero units UnitsPerMin True] obtain m cs
      where second: "?go ?recall ?p1 = (fst (?go ?recall ?p1), Inr m)" "queue_run lm cs ?p1 (fst (?go ?recall ?p1))" "m = length cs"
      by blast
    have both: "and_then a (\<lambda>n p. and_then (k p) (\<lambda>m p. (p, Inr (n + m)))) = (fst (k (fst a)), Inr (n + m))"
      if "a = (fst a, Inr n)" "k (fst a) = (fst (k (fst a)), Inr m)"
      for a :: "(Planner, PlannerError, nat) outcome" and k :: "Planner \<Rightarrow> (Planner, PlannerError, nat) outcome"
      by (subst that(1), simp, subst that(2), simp)
    have "p' = fst (?go ?recall ?p1)" "res = Inr (n + m)"
      using run unfolding both [of ?first "?go ?recall", OF first(1) second(1)] by simp_all
    then show ?thesis using queue_run_trans [OF first(2) second(2)] first(3) second(3)
      by (intro conjI exI [of _ "bs @ cs"]) auto
  qed
qed

end
