(* ===== verification/Planner_Props.thy ===== *)
theory Planner_Props
  imports Planner_Facts
begin

text \<open>
  The properties of the motion planner: every block handed to the executor can brake to the speed at
  which the next one takes over, a committed exit speed is kept, a refused command changes nothing,
  the position is the sum of the queued steps, an arc is fed to its end, a recalculation depends only
  on the blocks; and the two inputs on which the executor is asked for a jump in speed.
\<close>

section \<open>Runs of the planner\<close>

text \<open>What the consumer task may ask for while the executor runs.\<close>

inductive planning :: "libm \<Rightarrow> Planner \<Rightarrow> Planner \<Rightarrow> bool"
  for lm :: libm
  where
    command: "planning lm p (fst (plan_command_with_limits lm cmd limits p))"
  | jogging: "planning lm p (fst (plan_jog lm j limits p))"
  | predefined: "planning lm p (fst (plan_go_to_predefined lm via units distance pre limits p))"
  | resuming: "planning lm p (fst (resume_arc lm p))"
  | aborting: "planning lm p (abort_arc p)"
  | offset: "planning lm p (set_work_offset wco p)"

inductive planner_reaches :: "libm \<Rightarrow> Planner \<Rightarrow> bool"
  for lm :: libm
  where
    new: "planner_reaches lm (Planner_new cfg)"
  | plan: "planner_reaches lm p \<Longrightarrow> planning lm p p' \<Longrightarrow> \<forall>b \<in> set (pl_queue p'). block_sane b \<Longrightarrow>
      planner_reaches lm p'"
  | take: "planner_reaches lm p \<Longrightarrow> planner_reaches lm (fst (take_block p))"
  | flush: "planner_reaches lm p \<Longrightarrow> planner_reaches lm (fst (flush_queue p))"
  | flush_jogs: "planner_reaches lm p \<Longrightarrow> snd (flush_jog_blocks p) \<in> {0, queued_len p} \<Longrightarrow>
      planner_reaches lm (fst (flush_jog_blocks p))"
  | sync: "planner_reaches lm p \<Longrightarrow> planner_reaches lm (sync_position now p)"
  | reconfigure: "planner_reaches lm p \<Longrightarrow> planner_reaches lm (set_config cfg p)"

text \<open>
  The planners of a run, newest first, under any of these steps, pops, flushes, jog cancels, synchronizations and
  changes of configuration.
\<close>

inductive planner_history :: "libm \<Rightarrow> Planner list \<Rightarrow> bool"
  for lm :: libm
  where
    new: "planner_history lm [Planner_new cfg]"
  | plan: "planner_history lm (p # h) \<Longrightarrow> planning lm p p' \<Longrightarrow> planner_history lm (p' # p # h)"
  | take: "planner_history lm (p # h) \<Longrightarrow> planner_history lm (fst (take_block p) # p # h)"
  | flush: "planner_history lm (p # h) \<Longrightarrow> planner_history lm (fst (flush_queue p) # p # h)"
  | flush_jogs: "planner_history lm (p # h) \<Longrightarrow> planner_history lm (fst (flush_jog_blocks p) # p # h)"
  | sync: "planner_history lm (p # h) \<Longrightarrow> planner_history lm (sync_position now p # p # h)"
  | reconfigure: "planner_history lm (p # h) \<Longrightarrow> planner_history lm (set_config cfg p # p # h)"

text \<open>The queue ends in no jog or is all jogs, so that a jog cancel takes nothing or everything.\<close>

definition jogs_apart :: "Planner \<Rightarrow> bool"
  where "jogs_apart p \<longleftrightarrow> snd (flush_jog_blocks p) \<in> {0, queued_len p}"

lemma history_reaches:
  "planner_history lm (p # h) \<Longrightarrow> \<forall>s \<in> set (p # h). jogs_apart s \<and> list_all block_sane (pl_queue s) \<Longrightarrow>
    planner_reaches lm p"
proof (induction "p # h" arbitrary: p h rule: planner_history.induct)
  case (plan p h p')
  then show ?case using planner_reaches.plan [of lm p p'] by (simp add: list_all_iff)
next
  case (flush_jogs p h)
  then show ?case using planner_reaches.flush_jogs [of lm p] by (simp add: jogs_apart_def)
qed (auto intro: planner_reaches.intros)

lemma planning_run: "planning lm p p' \<Longrightarrow> \<exists>bs. queue_run lm bs p p'"
proof (induction rule: planning.induct)
  case (command p cmd limits)
  show ?case using plan_command_run [of lm cmd limits p] by (metis prod.collapse)
next
  case (jogging p j limits)
  show ?case using plan_jog_run [of lm j limits p] queue_run_one stop by (metis prod.collapse)
next
  case (predefined p via units distance pre limits)
  show ?case using plan_go_to_predefined_run [of lm via units distance pre limits p] by (metis prod.collapse)
next
  case (resuming p)
  show ?case using resume_arc_run [of lm p] by (metis prod.collapse)
next
  case (aborting p)
  have "queue_step lm [] p (abort_arc p)" by (rule keep) (simp_all add: abort_arc_def)
  then show ?case using queue_run_one by blast
next
  case (offset p wco)
  have "queue_step lm [] p (set_work_offset wco p)" by (rule keep) (simp_all add: set_work_offset_def)
  then show ?case using queue_run_one by blast
qed

lemma take_block_cases:
  "take_block p = (p', r) \<longleftrightarrow>
    (pl_queue p = [] \<and> p' = p \<and> r = None) \<or>
    (\<exists>b q. pl_queue p = b # q \<and> p' = p\<lparr>pl_queue := q, pl_head_busy := (q \<noteq> [])\<rparr> \<and> r = Some (b, exit_of q))"
  by (auto simp: take_block_def pop_block_def peek_block_def split: list.splits)

lemma flush_jogs_all_or_none:
  assumes "snd (flush_jog_blocks p) \<in> {0, queued_len p}"
  shows "rev (dropWhile jog (rev (pl_queue p))) \<in> {[], pl_queue p}"
proof -
  let ?kept = "dropWhile jog (rev (pl_queue p))" and ?cut = "takeWhile jog (rev (pl_queue p))"
  have split: "?cut @ ?kept = rev (pl_queue p)" by (rule takeWhile_dropWhile_id)
  have len: "length ?cut + length ?kept = length (pl_queue p)"
    using arg_cong [OF split, of length] by (simp only: length_append length_rev)
  have "length (pl_queue p) - length ?kept = 0 \<or> length (pl_queue p) - length ?kept = length (pl_queue p)"
    using assms by (simp add: flush_jog_blocks_def queued_len_def Let_def)
  with len have "length ?cut = 0 \<or> length ?kept = 0" by linarith
  then have "?cut = [] \<or> ?kept = []" by (simp only: length_0_conv)
  with split have "?kept = rev (pl_queue p) \<or> ?kept = []" by (elim disjE) (simp_all only: append_Nil simp_thms)
  then show ?thesis
  proof
    assume "?kept = rev (pl_queue p)"
    then show ?thesis by (simp only: rev_rev_ident) simp
  next
    assume "?kept = []"
    then show ?thesis by (simp only: rev.simps) simp
  qed
qed

lemma queue_ok_cut:
  assumes "queue_ok lm p" and "r \<in> {[], pl_queue p}" and "fabsf lm f32_zero = f32_zero"
  shows "queue_ok lm (flush_lookahead (p\<lparr>pl_queue := r\<rparr>))"
  using assms(2)
proof
  assume "r = []"
  then show ?thesis using zero_vec_zero [OF assms(3)] by (simp add: queue_ok_def flush_lookahead_def)
next
  assume "r \<in> {pl_queue p}"
  then show ?thesis using assms(1) zero_vec_zero [OF assms(3)] by (simp add: queue_ok_def flush_lookahead_def)
qed

lemma planner_reaches_ok:
  assumes "planner_reaches lm p" and abs: "fabsf lm f32_zero = f32_zero"
  shows "queue_ok lm p"
  using assms(1)
proof (induction rule: planner_reaches.induct)
  case (plan p p')
  then show ?case using planning_run queue_run_ok abs by blast
next
  case (take p)
  obtain p' r where t: "take_block p = (p', r)" by (cases "take_block p")
  then have "fst (take_block p) = p' \<and> (p' = p \<or> (\<exists>b q. pl_queue p = b # q \<and> p' = p\<lparr>pl_queue := q, pl_head_busy := (q \<noteq> [])\<rparr>))"
    using t take_block_cases [of p p' r] by auto
  with take.IH show ?case by (auto simp: queue_ok_def)
next
  case (flush_jogs p)
  then show ?case
    using queue_ok_cut [OF _ flush_jogs_all_or_none [OF flush_jogs.hyps(2)] abs]
    by (simp add: flush_jog_blocks_def Let_def)
qed (use zero_vec_zero [OF abs] in
  \<open>simp_all add: queue_ok_def Planner_new_def flush_queue_def flush_lookahead_def sync_position_def set_config_def\<close>)

section \<open>What the executor is handed\<close>

text \<open>
  C9: every block the executor is handed can be driven.  In any run of the planner from a fresh one -
  commands, jogs, predefined moves, arcs in chunks, pops, flushes, synchronizations and changes of
  configuration in any order - in which all blocks that were ever queued are in order (\<^verbatim>\<open>block_sane\<close>: a finite
  speed gain that is not negative and a junction speed that is not negative) and jogs were not mixed with
  other moves, the block that is popped can brake, at its acceleration and within its length, from its entry
  speed to the exit speed it is handed with, can accelerate to that exit speed, and enters no faster than its
  junction allows.  The junction speeds are a hypothesis because rounding can make one negative: the theorem
  on a straight continuation below.
\<close>

theorem popped_block_can_be_driven:
  assumes "planner_history lm (p # h)" and "fabsf lm f32_zero = f32_zero"
    and "\<forall>s \<in> set (p # h). \<forall>c \<in> set (pl_queue s). block_sane c" and "\<forall>s \<in> set (p # h). jogs_apart s"
    and "take_block p = (p', Some (b, exit_sq))"
  shows "fle (entry_speed_sq b) (reachable_sq exit_sq b) \<and> fle exit_sq (reachable_sq (entry_speed_sq b) b) \<and>
    fle (entry_speed_sq b) (max_entry_speed_sq b) \<and> fle f32_zero (entry_speed_sq b)"
proof -
  obtain q where q: "pl_queue p = b # q" "exit_sq = exit_of q" using assms(5) by (auto simp: take_block_cases)
  have "planner_reaches lm p" using history_reaches [OF assms(1)] assms(3,4) by (simp add: list_all_iff)
  from planner_reaches_ok [OF this assms(2)] q(1)
  have ok: "decel_ok (b # q)" "accel_ok (b # q)" "entry_ok b" "block_sane b" by (simp_all add: queue_ok_def)
  have entry: "speed_ok (entry_speed_sq b)" using ok(3) by (simp add: entry_ok_def)
  have "fle (exit_of q) (reachable_sq (entry_speed_sq b) b)"
    using ok(2) reachable_speed(1) [OF entry ok(4)] by (cases q) (simp_all add: speed_ok_def)
  with ok entry q(2) show ?thesis by (simp add: entry_ok_def speed_ok_def)
qed

definition move_x :: "int \<Rightarrow> PlannerCommand"
  where "move_x n = Move False \<lparr>ax_x = Some (f32_of_int n), ax_y = None, ax_z = None, ax_a = None\<rparr>
    Millimeter Absolute (f32_of_int 600) UnitsPerMin False"

definition go :: "PlannerCommand \<Rightarrow> Planner \<Rightarrow> Planner"
  where "go cmd p = fst (plan_command_with_limits exact_libm cmd None p)"

lemma exact_abs_zero [simp]: "fabsf exact_libm f32_zero = f32_zero"
  by (simp add: exact_libm_def)

lemma go_history: "planner_history exact_libm (p # h) \<Longrightarrow> planner_history exact_libm (go cmd p # p # h)"
  unfolding go_def by (intro planner_history.plan planning.command)

text \<open>Moves of 10 mm along X at 600 mm/min with the default configuration, as literals: 100 is the squared speed.\<close>

definition hundred :: f32
  where "hundred = FFin False 71362384635297994052914298472474756819137331200"

definition x_vec :: "f32 list"
  where "x_vec = [FFin False 713623846352979940529142984724747568191373312, f32_zero, f32_zero, f32_zero]"

definition x_block :: "f32 \<Rightarrow> f32 \<Rightarrow> f32 Block"
  where "x_block max_entry e =
    \<lparr>steps = [8000, 0, 0, 0], step_event_count = 8000, unit_vec = x_vec,
     millimeters = FFin False 7136238463529799405291429847247475681913733120, acceleration = hundred,
     nominal_speed_sq = hundred, max_entry_speed_sq = max_entry, entry_speed_sq = e, rapid = False, jog = False\<rparr>"

definition x_state :: "f32 Block list \<Rightarrow> i32 \<Rightarrow> bool \<Rightarrow> Planner"
  where "x_state q pos busy =
    \<lparr>pl_config = PlannerConfig_default, pl_queue = q, pl_position = [pos, 0, 0, 0], pl_offset = zero_vec,
     pl_prev_unit = x_vec, pl_prev_nominal = hundred, pl_head_busy = busy, pl_arc = None\<rparr>"

lemma first_move: "go (move_x 10) (Planner_new PlannerConfig_default) = x_state [x_block f32_zero f32_zero] 8000 False"
  by code_simp

lemma second_move: "go (move_x 20) (x_state [x_block f32_zero f32_zero] 8000 False) =
    x_state [x_block f32_zero f32_zero, x_block hundred hundred] 16000 False"
  by code_simp

lemma third_move: "go (move_x 30) (x_state [x_block hundred hundred] 16000 True) =
    x_state [x_block hundred hundred, x_block hundred hundred] 24000 True"
  by code_simp

lemma starved_move: "go (move_x 20) (x_state [] 8000 False) = x_state [x_block hundred hundred] 16000 False"
  by code_simp

lemma x_blocks_sane: "block_sane (x_block f32_zero f32_zero)" "block_sane (x_block hundred hundred)"
  by code_simp+

lemma take_x_state: "take_block (x_state (b # q) pos busy) = (x_state q pos (q \<noteq> []), Some (b, exit_of q))"
  by (auto simp: take_block_cases x_state_def)

lemma x_queue [simp]: "pl_queue (x_state q pos busy) = q"
  by (simp add: x_state_def)

lemma two_moves_history:
  "planner_history exact_libm [x_state [x_block f32_zero f32_zero, x_block hundred hundred] 16000 False,
     x_state [x_block f32_zero f32_zero] 8000 False, Planner_new PlannerConfig_default]"
proof -
  have "planner_history exact_libm [x_state [x_block f32_zero f32_zero] 8000 False, Planner_new PlannerConfig_default]"
    using go_history [OF planner_history.new, of "move_x 10" PlannerConfig_default] by (simp add: first_move)
  from go_history [OF this, of "move_x 20"] show ?thesis by (simp add: second_move)
qed

theorem popped_block_can_be_driven_witness:
  "fle hundred (reachable_sq f32_zero (x_block f32_zero f32_zero))"
proof -
  have "\<not> jog (x_block m e)" for m e by (simp add: x_block_def)
  then have apart: "jogs_apart (x_state [] n h)" "jogs_apart (x_state [x_block m e] n h)"
      "jogs_apart (x_state [x_block m e, x_block m' e'] n h)" for m e m' e' n h
    by (simp_all add: jogs_apart_def flush_jog_blocks_def Let_def)
  have "jogs_apart (Planner_new PlannerConfig_default)"
    by (simp add: jogs_apart_def flush_jog_blocks_def Planner_new_def Let_def)
  moreover have "pl_queue (Planner_new PlannerConfig_default) = []" by (simp add: Planner_new_def)
  ultimately show ?thesis
    using popped_block_can_be_driven [OF two_moves_history exact_abs_zero _ _ take_x_state] apart
    by (simp add: x_blocks_sane) (simp add: x_block_def)
qed

text \<open>
  C10: a committed exit speed is kept.  Once a block has been handed out with the entry speed of the
  block behind it as its exit speed, no command, jog, predefined move or arc that is planned before the
  next pop changes that entry speed: the next block is the same and is entered at exactly that speed.
\<close>

theorem committed_exit_kept:
  assumes "take_block p = (p1, Some (b, exit_sq))" and "pl_queue p1 \<noteq> []"
    and "(planning lm)\<^sup>*\<^sup>* p1 p2"
    and "take_block p2 = (p3, r)"
  shows "\<exists>b2 e. r = Some (b2, e) \<and> entry_speed_sq b2 = exit_sq \<and> b2 = hd (pl_queue p1)"
proof -
  obtain c q where q: "pl_queue p1 = c # q" "exit_sq = entry_speed_sq c" "pl_head_busy p1"
    using assms(1,2) by (auto simp: take_block_cases neq_Nil_conv)
  from assms(3) have "pl_head_busy p2 \<and> (\<exists>q'. pl_queue p2 = c # q')"
  proof (induction rule: rtranclp_induct)
    case (step y z)
    then obtain bs q' where "queue_run lm bs y z" "pl_head_busy y" "pl_queue y = c # q'" using planning_run by blast
    then show ?case using queue_run_head queue_run_busy by blast
  qed (use q in simp)
  with assms(4) q show ?thesis by (auto simp: take_block_cases)
qed

theorem committed_exit_kept_witness:
  "\<exists>b2 e. snd (take_block (x_state [x_block hundred hundred, x_block hundred hundred] 24000 True)) = Some (b2, e) \<and>
     entry_speed_sq b2 = hundred"
proof -
  let ?p1 = "x_state [x_block hundred hundred] 16000 True"
  have take: "take_block (x_state [x_block f32_zero f32_zero, x_block hundred hundred] 16000 False) =
      (?p1, Some (x_block f32_zero f32_zero, hundred))"
    by (simp add: take_x_state) (simp add: x_block_def)
  have "planning exact_libm ?p1 (go (move_x 30) ?p1)" unfolding go_def by (rule planning.command)
  then have "(planning exact_libm)\<^sup>*\<^sup>* ?p1 (x_state [x_block hundred hundred, x_block hundred hundred] 24000 True)"
    by (simp add: third_move)
  from committed_exit_kept [OF take _ this take_x_state] show ?thesis by (simp add: take_x_state)
qed

text \<open>
  the look-ahead carries speed across a drained queue.  Two 10 mm moves along X at 600 mm/min: when
  the executor takes the first before the second is planned, the first is handed out with exit speed 0 and
  ends at rest, and the second, planned against the kept direction of the first, is then handed out with
  an entry speed of 10 mm/s (squared 100): the executor is asked to start it from rest at full speed.
\<close>

theorem starved_queue_jumps:
  "let p1 = go (move_x 10) (Planner_new PlannerConfig_default);
       (p2, first) = take_block p1;
       (p4, second) = take_block (go (move_x 20) p2)
   in first = Some (x_block f32_zero f32_zero, f32_zero) \<and> second = Some (x_block hundred hundred, f32_zero)"
  by (simp add: first_move take_x_state starved_move)

definition move_xyz :: "int \<Rightarrow> int \<Rightarrow> int \<Rightarrow> PlannerCommand"
  where "move_xyz x y z = Move False \<lparr>ax_x = Some (f32_ratio x 100), ax_y = Some (f32_ratio y 100),
      ax_z = Some (f32_ratio z 100), ax_a = None\<rparr> Millimeter Absolute (f32_of_int 600) UnitsPerMin False"

text \<open>
  a straight continuation can be given a negative squared speed.  Two collinear moves, to X0.32 Y2.4
  Z0.74 and to X0.64 Y4.8 Z1.48, have equal unit vectors whose binary32 dot product exceeds 1 by three
  units in the last place: the half-angle sine exceeds 1, the junction radius is negative, and so are the
  squared entry speeds of both blocks, whose square root the executor takes.
\<close>

theorem straight_line_turns_negative:
  "case pl_queue (go (move_xyz 64 480 148) (go (move_xyz 32 240 74) (Planner_new PlannerConfig_default))) of
     [a, b] \<Rightarrow> steps a = steps b \<and> unit_vec a = unit_vec b \<and>
       flt (entry_speed_sq a) f32_zero \<and> flt (entry_speed_sq b) f32_zero
   | _ \<Rightarrow> False"
  by code_simp

text \<open>
  C21: a refused command changes nothing.  Whenever a command, a jog or a predefined move is refused - the
  target outside the travel, a full queue, an arc without a centre - the planner is exactly as it was;
  so a predefined move of two legs is queued whole or not at all.
\<close>

theorem refused_command_changes_nothing:
  "(\<forall>e. snd (plan_command_with_limits lm cmd limits p) = Inl e \<longrightarrow> fst (plan_command_with_limits lm cmd limits p) = p) \<and>
   (\<forall>e. snd (plan_jog lm j limits p) = Inl e \<longrightarrow> fst (plan_jog lm j limits p) = p) \<and>
   (\<forall>e. snd (plan_go_to_predefined lm via units distance pre limits p) = Inl e \<longrightarrow>
      fst (plan_go_to_predefined lm via units distance pre limits p) = p)"
proof -
  have pair: "r = (fst r, Inl e)" if "snd r = Inl e" for r :: "(Planner, PlannerError, 'x) outcome" and e
    using that by (simp add: prod_eq_iff)
  show ?thesis
    using plan_command_run [OF pair] plan_jog_run [OF pair] plan_go_to_predefined_run [OF pair] by (intro conjI) force+
qed

definition arc_nowhere :: PlannerCommand
  where "arc_nowhere = Arc True \<lparr>ax_x = Some (f32_of_int 20), ax_y = None, ax_z = None, ax_a = None\<rparr> None None None PlaneXY
    Millimeter Absolute (f32_of_int 600) UnitsPerMin False"

theorem refused_command_changes_nothing_witness:
  "let p = x_state [] 8000 False
   in plan_command_with_limits exact_libm (move_x 20) (Some zero_vec) p = (p, Inl MoveExceedsTravel) \<and>
      plan_command_with_limits exact_libm arc_nowhere None p = (p, Inl InvalidArc)"
proof -
  let ?p = "x_state [] 8000 False"
  have c: "snd (plan_command_with_limits exact_libm (move_x 20) (Some zero_vec) ?p) = Inl MoveExceedsTravel" by code_simp
  have a: "snd (plan_command_with_limits exact_libm arc_nowhere None ?p) = Inl InvalidArc" by code_simp
  from c a refused_command_changes_nothing [of exact_libm "move_x 20" "Some zero_vec" ?p]
    refused_command_changes_nothing [of exact_libm arc_nowhere None ?p]
  show ?thesis by (simp add: Let_def prod_eq_iff)
qed

text \<open>
  C20: the planned position accounts for every step.  A command, a jog, a predefined move or an arc chunk
  appends blocks at the end of the queue without touching what the queued ones move, reports their
  number, keeps the queue within 32 blocks, and moves the planned position by exactly their steps on
  every axis, in the machine's 32-bit arithmetic.
\<close>

theorem position_accounts_for_steps:
  assumes "plan_command_with_limits lm cmd limits p = (p', res)"
  shows "\<exists>bs. map plan_of (pl_queue p') = map plan_of (pl_queue p @ bs) \<and>
    (\<forall>axis < AXES. pl_position p' ! axis = pl_position p ! axis + (\<Sum>b\<leftarrow>bs. steps b ! axis)) \<and>
    (length (pl_queue p) \<le> BLOCK_QUEUE_LEN \<longrightarrow> length (pl_queue p') \<le> BLOCK_QUEUE_LEN) \<and>
    (\<forall>n. res = Inr (Queued n) \<or> res = Inr (ArcPending n) \<longrightarrow> n = length bs)"
proof -
  obtain bs where bs: "queue_run lm bs p p'" "\<forall>n. res = Inr (Queued n) \<or> res = Inr (ArcPending n) \<longrightarrow> n = length bs"
    using plan_command_run [OF assms] by blast
  then show ?thesis
    using queue_run_static [OF bs(1)] queue_run_position [OF bs(1)] queue_run_length [OF bs(1)] by blast
qed

theorem position_accounts_for_steps_witness:
  "\<exists>bs. map plan_of [x_block hundred hundred] = map plan_of bs \<and>
    16000 = (8000 :: i32) + (\<Sum>b\<leftarrow>bs. steps b ! 0)"
proof -
  have "plan_command_with_limits exact_libm (move_x 20) None (x_state [] 8000 False) =
      (x_state [x_block hundred hundred] 16000 False,
       snd (plan_command_with_limits exact_libm (move_x 20) None (x_state [] 8000 False)))"
    using starved_move by (simp add: go_def prod_eq_iff)
  from position_accounts_for_steps [OF this] obtain bs
    where "map plan_of [x_block hundred hundred] = map plan_of bs"
      and "\<forall>axis < AXES. pl_position (x_state [x_block hundred hundred] 16000 False) ! axis =
        pl_position (x_state [] 8000 False) ! axis + (\<Sum>b\<leftarrow>bs. steps b ! axis)"
    by (auto simp only: x_queue append_Nil)
  moreover have "0 < AXES" by (simp add: AXES_def)
  ultimately have "map plan_of [x_block hundred hundred] = map plan_of bs \<and>
      pl_position (x_state [x_block hundred hundred] 16000 False) ! 0 =
        pl_position (x_state [] 8000 False) ! 0 + (\<Sum>b\<leftarrow>bs. steps b ! 0)" by blast
  then show ?thesis unfolding x_state_def by (intro exI [of _ bs]) simp
qed

fun drive_arc :: "libm \<Rightarrow> nat \<Rightarrow> Planner \<Rightarrow> Planner"
  where
    "drive_arc lm 0 p = p"
  | "drive_arc lm (Suc k) p = drive_arc lm k (fst (resume_arc lm (fst (take_block p))))"

lemma take_block_arc: "pl_arc (fst (take_block p)) = pl_arc p"
  "length (pl_queue (fst (take_block p))) = length (pl_queue p) - 1"
  using take_block_cases [of p "fst (take_block p)" "snd (take_block p)"] by auto

lemma drive_arc_done: "pl_arc p = None \<Longrightarrow> pl_arc (drive_arc lm k p) = None"
proof (induction k arbitrary: p)
  case (Suc k)
  from Suc.prems have "pl_arc (fst (resume_arc lm (fst (take_block p)))) = None"
    by (simp add: resume_arc_def take_block_arc)
  with Suc.IH show ?case by simp
qed simp

text \<open>
  C19: an arc in progress is fed to its end.  Whatever arc is pending, when the executor takes one block
  before each resumption, the arc is finished after at most as many resumptions as it has
  segments left (one, if none is left).
\<close>

theorem pending_arc_is_finished:
  assumes "pl_arc p = Some arc" and "length (pl_queue p) \<le> BLOCK_QUEUE_LEN"
  shows "pl_arc (drive_arc lm (max 1 (arc_segments arc + 1 - arc_next_seg arc)) p) = None"
proof -
  have "pl_arc (drive_arc lm (Suc k) p) = None"
    if "pl_arc p = Some arc" "length (pl_queue p) \<le> BLOCK_QUEUE_LEN" "arc_segments arc \<le> arc_next_seg arc + k" for k p arc
    using that
  proof (induction k arbitrary: p arc)
    case 0
    let ?q = "fst (take_block p)"
    obtain p' res where e: "enqueue_arc_chunk lm arc ?q = (p', res)" by (cases "enqueue_arc_chunk lm arc ?q")
    have "resume_arc lm ?q = (p', res)" using 0 e by (simp add: resume_arc_def take_block_arc)
    moreover have "length (pl_queue ?q) < BLOCK_QUEUE_LEN"
      using 0 take_block_arc(2) [of p] by (simp add: BLOCK_QUEUE_LEN_def)
    then have "pl_arc p' = None" using enqueue_arc_chunk_run [OF e] 0 by auto
    ultimately show ?case by simp
  next
    case (Suc k)
    let ?q = "fst (take_block p)"
    obtain p' res where e: "enqueue_arc_chunk lm arc ?q = (p', res)" by (cases "enqueue_arc_chunk lm arc ?q")
    have r: "resume_arc lm ?q = (p', res)" using Suc.prems e by (simp add: resume_arc_def take_block_arc)
    have room: "length (pl_queue ?q) < BLOCK_QUEUE_LEN"
      using Suc.prems(2) take_block_arc(2) [of p] by (simp add: BLOCK_QUEUE_LEN_def)
    from enqueue_arc_chunk_run [OF e] obtain bs where bs: "queue_step lm bs ?q p'"
      and cases: "pl_arc p' = None \<or> (\<exists>arc'. pl_arc p' = Some arc' \<and> arc_segments arc' = arc_segments arc \<and>
        arc_next_seg arc < arc_next_seg arc')" using room by auto
    have len: "length (pl_queue p') \<le> BLOCK_QUEUE_LEN" using queue_run_length [OF queue_run_one [OF bs]] room by simp
    from cases show ?case
    proof
      assume "pl_arc p' = None"
      then show ?thesis using drive_arc_done [of p' lm "Suc k"] r by simp
    next
      assume "\<exists>arc'. pl_arc p' = Some arc' \<and> arc_segments arc' = arc_segments arc \<and> arc_next_seg arc < arc_next_seg arc'"
      then obtain arc' where "pl_arc p' = Some arc'" "arc_segments arc' = arc_segments arc" "arc_next_seg arc < arc_next_seg arc'"
        by blast
      with Suc.IH [of p' arc'] len Suc.prems(3) r show ?thesis by simp
    qed
  qed
  from this [OF assms, of "arc_segments arc - arc_next_seg arc"]
  have "pl_arc (drive_arc lm (Suc (arc_segments arc - arc_next_seg arc)) p) = None" by simp
  moreover have "Suc (arc_segments arc - arc_next_seg arc) = max 1 (arc_segments arc + 1 - arc_next_seg arc)" by simp
  ultimately show ?thesis by metis
qed

definition plain_arc :: "nat \<Rightarrow> ArcInProgress"
  where "plain_arc seg =
    \<lparr>arc_plane = for_plane PlaneXY, arc_center = (f32_zero, f32_zero), arc_radius = f32_one, arc_theta_start = f32_zero,
     arc_theta_step = f32_one, arc_segments = 40, arc_next_seg = seg, arc_normal_start = f32_zero,
     arc_normal_delta = f32_zero, arc_a_start = f32_zero, arc_a_delta = f32_zero, arc_seg_feed = f32_one,
     arc_units = Millimeter, arc_feed_mode = UnitsPerMin\<rparr>"

theorem pending_arc_is_finished_witness:
  "pl_arc (drive_arc exact_libm 8 (x_state (replicate 32 (x_block hundred hundred)) 8000 True\<lparr>pl_arc := Some (plain_arc 33)\<rparr>)) = None"
  using pending_arc_is_finished [of "x_state (replicate 32 (x_block hundred hundred)) 8000 True\<lparr>pl_arc := Some (plain_arc 33)\<rparr>"
      "plain_arc 33" exact_libm]
  by (simp add: plain_arc_def BLOCK_QUEUE_LEN_def)

definition slower :: "f32 Block list \<Rightarrow> f32 Block list \<Rightarrow> bool"
  where "slower q r = list_all2 (\<lambda>a b. plan_of a = plan_of b \<and> fle (entry_speed_sq a) (entry_speed_sq b)) q r"

lemma plan_of_sets_entry: "plan_of a = plan_of b \<Longrightarrow> a\<lparr>entry_speed_sq := e\<rparr> = b\<lparr>entry_speed_sq := e\<rparr>"
proof -
  assume "plan_of a = plan_of b"
  then have "plan_of a\<lparr>entry_speed_sq := e\<rparr> = plan_of b\<lparr>entry_speed_sq := e\<rparr>" by simp
  then show ?thesis by (simp add: plan_of_def)
qed

lemma plan_of_reachable: "plan_of a = plan_of b \<Longrightarrow> reachable_sq v a = reachable_sq v b"
  "plan_of a = plan_of b \<Longrightarrow> max_entry_speed_sq a = max_entry_speed_sq b"
  by (cases a; cases b; simp add: plan_of_def reachable_sq_def)+

lemma plan_back_cong: "map plan_of q = map plan_of r \<Longrightarrow> plan_back e q = plan_back e r"
proof (induction q arbitrary: r)
  case (Cons a q)
  then obtain b r' where r: "r = b # r'" "plan_of a = plan_of b" "map plan_of q = map plan_of r'" by auto
  from Cons.IH [OF r(3)] show ?case
    using plan_of_sets_entry [OF r(2)] plan_of_reachable [OF r(2)] by (simp add: r(1) Let_def)
qed simp

lemma slower_back:
  assumes "decel_ok q" and "\<forall>b \<in> set q. entry_ok b" and "\<forall>b \<in> set q. block_sane b"
  shows "slower q (plan_back f32_zero q)"
  using assms
proof (induction q)
  case (Cons b q)
  have "fle (exit_of (b # q)) (exit_of (plan_back f32_zero ((b # q) @ [])))"
    using Cons.prems by (intro plan_back_raises) simp_all
  with Cons show ?case by (simp add: slower_def plan_back_Cons del: plan_back.simps)
qed (simp add: slower_def)

lemma slower_forward:
  assumes "accel_ok (a # q)" and "slower q r" and "plan_of a = plan_of c" and "fle (entry_speed_sq a) (entry_speed_sq c)"
    and "\<forall>b \<in> set (a # q). entry_ok b \<and> block_sane b" and "\<forall>b \<in> set (c # r). entry_ok b"
  shows "slower q (forward_walk (Some c) r)"
  using assms
proof (induction q arbitrary: a c r)
  case Nil
  then show ?case by (simp add: slower_def)
next
  case (Cons b q)
  then obtain d r' where r: "r = d # r'" "plan_of b = plan_of d" "fle (entry_speed_sq b) (entry_speed_sq d)" "slower q r'"
    by (auto simp: slower_def list_all2_Cons1)
  let ?v = "reachable_sq (entry_speed_sq c) c"
  let ?d = "if flt ?v (entry_speed_sq d) then d\<lparr>entry_speed_sq := ?v\<rparr> else d"
  have a: "speed_ok (entry_speed_sq a)" "block_sane a" using Cons.prems(5) by (auto simp: entry_ok_def)
  have c: "speed_ok (entry_speed_sq c)" using Cons.prems(6) by (simp add: entry_ok_def)
  have "fle (entry_speed_sq b) (reachable_sq (entry_speed_sq a) a)" using Cons.prems(1) by simp
  moreover have "fle (reachable_sq (entry_speed_sq a) a) ?v"
    using reachable_mono [OF a(1) c Cons.prems(4) a(2)] plan_of_reachable(1) [OF Cons.prems(3)] by simp
  ultimately have v: "fle (entry_speed_sq b) ?v" by (rule fle_trans)
  have sane: "block_sane c" using a(2) plan_of_fields(2) [OF Cons.prems(3)] by simp
  have le: "fle (entry_speed_sq b) (entry_speed_sq ?d)" using v r(3) by simp
  have d: "entry_ok ?d" "plan_of ?d = plan_of d"
    using Cons.prems(6) r(1) reachable_speed(1) [OF c sane] fle_trans [of ?v "entry_speed_sq d" "max_entry_speed_sq d"]
    by (auto simp: entry_ok_def fle_def)
  have "slower q (forward_walk (Some ?d) r')"
    using Cons.prems r le d by (intro Cons.IH [of b]) auto
  with le d(2) r show ?case by (simp add: slower_def Let_def)
qed

text \<open>
  C18: the recalculated plan is the fastest one.  For an idle planner and any assignment of entry speeds
  to the queued blocks that respects every block's highest entry speed, lets every block brake to the
  next one's entry speed (and the last to rest), and lets every block reach it, no block is entered faster
  than in the plan of \<^verbatim>\<open>recalculate\<close>; so the plan depends only on the blocks and not on the speeds
  planned before.
\<close>

theorem recalculated_plan_is_fastest:
  assumes "\<not> pl_head_busy p" and "map plan_of q = map plan_of (pl_queue p)"
    and "decel_ok q" and "accel_ok q" and "\<forall>b \<in> set q. entry_ok b \<and> block_sane b"
  shows "slower q (pl_queue (recalculate p))"
proof -
  have same: "plan_back f32_zero (pl_queue p) = plan_back f32_zero q" using plan_back_cong [OF assms(2)] by simp
  then have p: "pl_queue (recalculate p) = forward_pass (plan_back f32_zero q)"
    using assms(1) by (simp add: recalculate_def reverse_pass_idle)
  have sane: "\<forall>b \<in> set q. block_sane b" using assms(5) by blast
  have reversed: "slower q (plan_back f32_zero q)" using slower_back assms by simp
  show ?thesis
  proof (cases q)
    case Nil
    then show ?thesis by (simp add: p forward_pass_def slower_def)
  next
    case (Cons a rest)
    then obtain c r where c: "plan_back f32_zero q = c # r" "plan_of a = plan_of c"
        "fle (entry_speed_sq a) (entry_speed_sq c)" "slower rest r"
      using reversed by (auto simp: slower_def list_all2_Cons1)
    have "slower rest (forward_walk (Some c) r)"
      using assms Cons c plan_back_feasible [OF sane] by (intro slower_forward [of a]) auto
    with c(2,3) have "slower (a # rest) (forward_pass (c # r))" by (simp add: forward_pass_def slower_def)
    then show ?thesis unfolding p c(1) unfolding Cons .
  qed
qed

theorem recalculated_plan_is_fastest_witness:
  "slower [x_block f32_zero f32_zero, x_block hundred f32_zero]
     (pl_queue (recalculate (x_state [x_block f32_zero f32_zero, x_block hundred hundred] 16000 False)))"
proof -
  let ?q = "[x_block f32_zero f32_zero, x_block hundred f32_zero]"
  have "decel_ok ?q" "accel_ok ?q" "list_all (\<lambda>b. entry_ok b \<and> block_sane b) ?q" by code_simp+
  then show ?thesis
    by (intro recalculated_plan_is_fastest) (simp_all add: x_state_def list_all_iff plan_of_def x_block_def)
qed

end
