(* ===== verification/Settings.thy ===== *)
theory Settings
  imports Float32 Grbl_Text Wire_Format Storage_Frame Homing Planner Tmc2209
begin

text \<open>
  \<^verbatim>\<open>crates/firmware-core/src/settings.rs\<close>: the machine settings, the \<^verbatim>\<open>$n=value\<close> setter with its
  range checks, the \<^verbatim>\<open>$$\<close> and \<^verbatim>\<open>$ES\<close> writers, the sanitizer, the conversions to the configurations of
  the planner, the step generator, the homing cycle and the stepper drivers, the projection onto the
  protobuf message, and the loaders.  A \<^verbatim>\<open>str\<close> is a \<^verbatim>\<open>string\<close> of its UTF-8 bytes, \<^verbatim>\<open>[T; AXES]\<close> a list of
  length \<^verbatim>\<open>AXES\<close>.  The codec the build generates from \<^verbatim>\<open>settings.proto\<close> is the record
  \<^verbatim>\<open>pb_codec\<close>, the rendering \<^verbatim>\<open>{:.3}\<close> of a float the argument \<^verbatim>\<open>show3\<close>.
\<close>

section \<open>Constants\<close>

definition DEFAULT_STEP_IDLE_DELAY_MS :: u32
  where "DEFAULT_STEP_IDLE_DELAY_MS = 25"

definition DEFAULT_MAX_TRAVEL_MM :: f32
  where "DEFAULT_MAX_TRAVEL_MM = f32_of_int 200"

definition DEFAULT_HOMING_FEED_MM_MIN :: f32
  where "DEFAULT_HOMING_FEED_MM_MIN = f32_of_int 100"

definition DEFAULT_HOMING_SEEK_MM_MIN :: f32
  where "DEFAULT_HOMING_SEEK_MM_MIN = f32_of_int 500"

definition DEFAULT_HOMING_DEBOUNCE_MS :: u32
  where "DEFAULT_HOMING_DEBOUNCE_MS = 25"

definition DEFAULT_HOMING_PULLOFF_MM :: f32
  where "DEFAULT_HOMING_PULLOFF_MM = f32_of_int 1"

definition HOMING_FLAG_ENABLE :: u8
  where "HOMING_FLAG_ENABLE = push_bit 0 1"

definition HOMING_FLAG_FORCE_SET_ORIGIN :: u8
  where "HOMING_FLAG_FORCE_SET_ORIGIN = push_bit 3 1"

definition HARD_LIMIT_FLAG_ENABLE :: u8
  where "HARD_LIMIT_FLAG_ENABLE = push_bit 0 1"

definition HARD_LIMIT_FLAG_STRICT :: u8
  where "HARD_LIMIT_FLAG_STRICT = push_bit 1 1"

definition DEFAULT_SPINDLE_RPM_MAX :: f32
  where "DEFAULT_SPINDLE_RPM_MAX = f32_of_int 12000"

definition DEFAULT_SPINDLE_ON_DELAY_S :: f32
  where "DEFAULT_SPINDLE_ON_DELAY_S = f32_zero"

definition DEFAULT_SPINDLE_REVERSE_DWELL_S :: f32
  where "DEFAULT_SPINDLE_REVERSE_DWELL_S = f32_ratio 3 2"

definition DEFAULT_AUTO_REPORT_INTERVAL_MS :: u32
  where "DEFAULT_AUTO_REPORT_INTERVAL_MS = 0"

definition AUTO_REPORT_INTERVAL_MIN_MS :: u32
  where "AUTO_REPORT_INTERVAL_MIN_MS = 100"

definition AUTO_REPORT_INTERVAL_MAX_MS :: u32
  where "AUTO_REPORT_INTERVAL_MAX_MS = 1000"

definition MAX_MOTOR_CURRENT_MA :: u16
  where "MAX_MOTOR_CURRENT_MA = 2000"

definition DEFAULT_ROTARY_MASK :: u8
  where "DEFAULT_ROTARY_MASK = 8"

definition TMC_NODES :: "u8 list"
  where "TMC_NODES = [0, 1, 2, 3]"

section \<open>The settings\<close>

datatype SettingError = UnknownSetting | BadValue | OutOfRange | SoftLimitsNeedHoming

fun setting_error_code :: "SettingError \<Rightarrow> u8"
  where
    "setting_error_code UnknownSetting = 3"
  | "setting_error_code BadValue = 2"
  | "setting_error_code OutOfRange = 2"
  | "setting_error_code SoftLimitsNeedHoming = 5"

record Settings =
  step_pulse_us :: u32
  step_idle_delay_ms :: u32
  step_invert_mask :: u8
  dir_invert_mask :: u8
  limit_invert :: bool
  probe_invert :: bool
  probe_pullup_disable :: bool
  status_report_mask :: u8
  junction_deviation_mm :: f32
  arc_tolerance_mm :: f32
  soft_limits_enable :: bool
  hard_limit_flags :: u8
  homing_flags :: u8
  homing_dir_invert_mask :: u8
  homing_feed_mm_min :: f32
  homing_seek_mm_min :: f32
  homing_debounce_ms :: u32
  homing_pulloff_mm :: f32
  spindle_rpm_max :: f32
  spindle_rpm_min :: f32
  spindle_on_delay_s :: f32
  spindle_reverse_dwell_s :: f32
  auto_report_interval_ms :: u32
  steps_per_mm :: "f32 list"
  max_rate_mm_min :: "f32 list"
  accel_mm_s2 :: "f32 list"
  max_travel_mm :: "f32 list"
  run_current_ma :: "u16 list"
  microsteps :: "u16 list"
  hold_current_ma :: "u16 list"
  tmc_ihold_delay :: u8
  tmc_tpowerdown :: u8
  tmc_tpwmthrs :: u32
  tmc_send_delay :: u8
  tmc_r_sense_ohms :: f32
  rotary_mask :: u8

text \<open>\<^verbatim>\<open>core::array::from_fn\<close> on the axes.\<close>

definition per_axis :: "(nat \<Rightarrow> 'a) \<Rightarrow> 'a list"
  where "per_axis f = map f [0..<AXES]"

definition million :: f32
  where "million = f32_of_int 1000000"

definition ticks_to_us :: "libm \<Rightarrow> u32 \<Rightarrow> f32 \<Rightarrow> u32"
  where "ticks_to_us lm ticks hz =
    f32_to_u32 (roundf lm (fdiv (fmul (f32_of_int (uint ticks)) million) hz))"

definition us_to_ticks :: "libm \<Rightarrow> u32 \<Rightarrow> f32 \<Rightarrow> u32"
  where "us_to_ticks lm us hz =
    f32_to_u32 (roundf lm (fdiv (fmul (f32_of_int (uint us)) hz) million))"

definition MotionConfig_default :: "f32 MotionConfig"
  where "MotionConfig_default = \<lparr>tick_hz = million, step_pulse_ticks = 10, min_low_ticks = 2\<rparr>"

definition R_SENSE_ADAFRUIT_6121_OHMS :: f32
  where "R_SENSE_ADAFRUIT_6121_OHMS = f32_ratio 5 100"

definition TmcConfig_default :: "f32 TmcConfig"
  where "TmcConfig_default =
    \<lparr>axes = map (\<lambda>node. \<lparr>ac_node = node, AxisConfig.run_current_ma = 800,
       AxisConfig.hold_current_ma = 400, AxisConfig.microsteps = 16\<rparr>) [0, 1, 2, 3],
     r_sense_ohms = R_SENSE_ADAFRUIT_6121_OHMS, ihold_delay = 7, tpowerdown = 20, tpwmthrs = 0, send_delay = 2\<rparr>"

definition Settings_default :: "libm \<Rightarrow> Settings"
  where "Settings_default lm =
    (let planner = PlannerConfig_default; motion_cfg = MotionConfig_default; tmc = TmcConfig_default in
     \<lparr>step_pulse_us = ticks_to_us lm (step_pulse_ticks motion_cfg) (tick_hz motion_cfg),
      step_idle_delay_ms = DEFAULT_STEP_IDLE_DELAY_MS, step_invert_mask = 0, dir_invert_mask = 0,
      limit_invert = False, probe_invert = False, probe_pullup_disable = False, status_report_mask = 0,
      junction_deviation_mm = PlannerConfig.junction_deviation_mm planner,
      arc_tolerance_mm = PlannerConfig.arc_tolerance_mm planner,
      soft_limits_enable = False, hard_limit_flags = 0, homing_flags = 0, homing_dir_invert_mask = 0,
      homing_feed_mm_min = DEFAULT_HOMING_FEED_MM_MIN, homing_seek_mm_min = DEFAULT_HOMING_SEEK_MM_MIN,
      homing_debounce_ms = DEFAULT_HOMING_DEBOUNCE_MS, homing_pulloff_mm = DEFAULT_HOMING_PULLOFF_MM,
      spindle_rpm_max = DEFAULT_SPINDLE_RPM_MAX, spindle_rpm_min = f32_zero,
      spindle_on_delay_s = DEFAULT_SPINDLE_ON_DELAY_S, spindle_reverse_dwell_s = DEFAULT_SPINDLE_REVERSE_DWELL_S,
      auto_report_interval_ms = DEFAULT_AUTO_REPORT_INTERVAL_MS,
      steps_per_mm = PlannerConfig.steps_per_mm planner,
      max_rate_mm_min = PlannerConfig.max_rate_mm_min planner,
      accel_mm_s2 = PlannerConfig.accel_mm_s2 planner,
      max_travel_mm = replicate AXES DEFAULT_MAX_TRAVEL_MM,
      run_current_ma = per_axis (\<lambda>axis. AxisConfig.run_current_ma (axes tmc ! axis)),
      microsteps = per_axis (\<lambda>axis. AxisConfig.microsteps (axes tmc ! axis)),
      hold_current_ma = per_axis (\<lambda>axis. AxisConfig.hold_current_ma (axes tmc ! axis)),
      tmc_ihold_delay = ihold_delay tmc, tmc_tpowerdown = tpowerdown tmc, tmc_tpwmthrs = tpwmthrs tmc,
      tmc_send_delay = send_delay tmc, tmc_r_sense_ohms = r_sense_ohms tmc,
      rotary_mask = PlannerConfig.rotary_mask planner\<rparr>)"

section \<open>Flags and configurations\<close>

definition homing_enabled :: "Settings \<Rightarrow> bool"
  where "homing_enabled s \<longleftrightarrow> homing_flags s AND HOMING_FLAG_ENABLE \<noteq> 0"

definition homing_force_set_origin :: "Settings \<Rightarrow> bool"
  where "homing_force_set_origin s \<longleftrightarrow> homing_flags s AND HOMING_FLAG_FORCE_SET_ORIGIN \<noteq> 0"

definition hard_limits_enabled :: "Settings \<Rightarrow> bool"
  where "hard_limits_enabled s \<longleftrightarrow> hard_limit_flags s AND HARD_LIMIT_FLAG_ENABLE \<noteq> 0"

definition hard_limits_strict :: "Settings \<Rightarrow> bool"
  where "hard_limits_strict s \<longleftrightarrow> hard_limit_flags s AND HARD_LIMIT_FLAG_STRICT \<noteq> 0"

definition planner_config :: "Settings \<Rightarrow> PlannerConfig"
  where "planner_config s =
    \<lparr>PlannerConfig.steps_per_mm = steps_per_mm s, max_rate_mm_min = max_rate_mm_min s,
     accel_mm_s2 = accel_mm_s2 s, junction_deviation_mm = junction_deviation_mm s,
     arc_tolerance_mm = arc_tolerance_mm s, rotary_mask = rotary_mask s\<rparr>"

definition motion_config :: "libm \<Rightarrow> f32 \<Rightarrow> Settings \<Rightarrow> f32 MotionConfig"
  where "motion_config lm hz s =
    \<lparr>tick_hz = hz, step_pulse_ticks = us_to_ticks lm (step_pulse_us s) hz,
     min_low_ticks = min_low_ticks MotionConfig_default\<rparr>"

definition probe_config :: "Settings \<Rightarrow> ProbeConfig"
  where "probe_config s = \<lparr>ProbeConfig.probe_invert = probe_invert s, pullup_disable = probe_pullup_disable s\<rparr>"

definition limit_config :: "Settings \<Rightarrow> LimitConfig"
  where "limit_config s = \<lparr>invert = limit_invert s\<rparr>"

definition home_direction :: "Settings \<Rightarrow> nat \<Rightarrow> HomeDirection"
  where "home_direction s axis =
    (if homing_dir_invert_mask s AND push_bit axis 1 \<noteq> 0 then Negative else Positive)"

definition homing_config :: "libm \<Rightarrow> f32 \<Rightarrow> Settings \<Rightarrow> f32 HomingConfig"
  where "homing_config lm hz s =
    \<lparr>HomingConfig.steps_per_mm = steps_per_mm s, max_travel_mm = max_travel_mm s,
     seek_mm_min = homing_seek_mm_min s, feed_mm_min = homing_feed_mm_min s, pulloff_mm = homing_pulloff_mm s,
     direction = per_axis (home_direction s), force_set_origin = homing_force_set_origin s,
     motion = motion_config lm hz s, limit = limit_config s\<rparr>"

definition tmc_config :: "Settings \<Rightarrow> f32 TmcConfig"
  where "tmc_config s =
    \<lparr>axes = per_axis (\<lambda>i. \<lparr>ac_node = TMC_NODES ! i, AxisConfig.run_current_ma = run_current_ma s ! i,
       hold_current_ma = hold_current_ma s ! i, microsteps = microsteps s ! i\<rparr>),
     r_sense_ohms = tmc_r_sense_ohms s, ihold_delay = tmc_ihold_delay s, tpowerdown = tmc_tpowerdown s,
     tpwmthrs = tmc_tpwmthrs s, send_delay = tmc_send_delay s\<rparr>"

section \<open>The sanitizer\<close>

definition positive_or :: "f32 \<Rightarrow> f32 \<Rightarrow> f32"
  where "positive_or x fallback = (if is_finite x \<and> flt f32_zero x then x else fallback)"

definition non_negative_or :: "f32 \<Rightarrow> f32 \<Rightarrow> f32"
  where "non_negative_or x fallback = (if is_finite x \<and> fle f32_zero x then x else fallback)"

definition valid_microsteps :: "u16 list"
  where "valid_microsteps = [1, 2, 4, 8, 16, 32, 64, 128, 256]"

definition clamp_microsteps :: "u16 \<Rightarrow> u16"
  where "clamp_microsteps m = (if m \<in> set valid_microsteps then m else 16)"

definition clamp_word :: "'a::len word \<Rightarrow> 'a word \<Rightarrow> 'a word \<Rightarrow> 'a word"
  where "clamp_word lo hi x = (if x < lo then lo else if hi < x then hi else x)"

definition clamp_auto_report_interval :: "u32 \<Rightarrow> u32"
  where "clamp_auto_report_interval x =
    (if x = 0 then 0 else clamp_word AUTO_REPORT_INTERVAL_MIN_MS AUTO_REPORT_INTERVAL_MAX_MS x)"

definition auto_report_interval :: "Settings \<Rightarrow> u32"
  where "auto_report_interval s = clamp_auto_report_interval (auto_report_interval_ms s)"

definition sanitized :: "libm \<Rightarrow> Settings \<Rightarrow> Settings"
  where "sanitized lm s =
    (let defaults = Settings_default lm in
     s\<lparr>step_pulse_us := clamp_word 1 1000 (step_pulse_us s),
       junction_deviation_mm := non_negative_or (junction_deviation_mm s) (junction_deviation_mm defaults),
       arc_tolerance_mm := positive_or (arc_tolerance_mm s) (arc_tolerance_mm defaults),
       homing_feed_mm_min := positive_or (homing_feed_mm_min s) (homing_feed_mm_min defaults),
       homing_seek_mm_min := positive_or (homing_seek_mm_min s) (homing_seek_mm_min defaults),
       homing_pulloff_mm := fmax (homing_pulloff_mm s) f32_zero,
       spindle_rpm_max := positive_or (spindle_rpm_max s) (spindle_rpm_max defaults),
       spindle_rpm_min := fmax (spindle_rpm_min s) f32_zero,
       spindle_on_delay_s := non_negative_or (spindle_on_delay_s s) (spindle_on_delay_s defaults),
       spindle_reverse_dwell_s := non_negative_or (spindle_reverse_dwell_s s) (spindle_reverse_dwell_s defaults),
       auto_report_interval_ms := clamp_auto_report_interval (auto_report_interval_ms s),
       soft_limits_enable := (if \<not> homing_enabled s then False else soft_limits_enable s),
       steps_per_mm := per_axis (\<lambda>a. positive_or (steps_per_mm s ! a) (steps_per_mm defaults ! a)),
       max_rate_mm_min := per_axis (\<lambda>a. positive_or (max_rate_mm_min s ! a) (max_rate_mm_min defaults ! a)),
       accel_mm_s2 := per_axis (\<lambda>a. positive_or (accel_mm_s2 s ! a) (accel_mm_s2 defaults ! a)),
       max_travel_mm := per_axis (\<lambda>a. positive_or (max_travel_mm s ! a) (max_travel_mm defaults ! a)),
       run_current_ma := per_axis (\<lambda>a. min (run_current_ma s ! a) MAX_MOTOR_CURRENT_MA),
       hold_current_ma := per_axis (\<lambda>a. min (hold_current_ma s ! a) MAX_MOTOR_CURRENT_MA),
       microsteps := per_axis (\<lambda>a. clamp_microsteps (microsteps s ! a)),
       tmc_send_delay := min (tmc_send_delay s) 15,
       tmc_ihold_delay := min (tmc_ihold_delay s) 15,
       tmc_r_sense_ohms := positive_or (tmc_r_sense_ohms s) (tmc_r_sense_ohms defaults),
       rotary_mask := rotary_mask s AND DEFAULT_ROTARY_MASK\<rparr>)"

section \<open>Parsing a value\<close>

text \<open>
  \<^verbatim>\<open>str::parse::<f32>\<close>: an optional sign, then \<^verbatim>\<open>inf\<close>, \<^verbatim>\<open>infinity\<close> or \<^verbatim>\<open>nan\<close> in any case, or decimal
  digits with an optional point and an optional exponent, rounded once.
\<close>

definition split_sign :: "string \<Rightarrow> bool \<times> string"
  where "split_sign s =
    (case s of [] \<Rightarrow> (False, [])
     | c # xs \<Rightarrow> if c = CHR ''-'' then (True, xs) else if c = CHR ''+'' then (False, xs) else (False, s))"

definition digits_value :: "string \<Rightarrow> int"
  where "digits_value ds = int (foldl (\<lambda>a c. 10 * a + digit_value c) 0 ds)"

definition exponent_of :: "string \<Rightarrow> int option"
  where "exponent_of s =
    (case s of [] \<Rightarrow> Some 0
     | c # xs \<Rightarrow>
        let (neg, ds) = split_sign xs in
        if (c = CHR ''e'' \<or> c = CHR ''E'') \<and> ds \<noteq> [] \<and> list_all is_digit ds
        then Some (if neg then - digits_value ds else digits_value ds) else None)"

definition decimal_f32 :: "bool \<Rightarrow> int \<Rightarrow> int \<Rightarrow> f32"
  where "decimal_f32 neg m e =
    (if m = 0 then FFin neg 0
     else if 0 \<le> e then pack neg (m * 10 ^ nat e * unit_den) 1
     else pack neg (m * unit_den) (10 ^ nat (- e)))"

definition f32_from_str :: "string \<Rightarrow> f32 option"
  where "f32_from_str s =
    (let (neg, t) = split_sign s; w = to_ascii_lowercase t in
     if w = ''inf'' \<or> w = ''infinity'' then Some (FInf neg)
     else if w = ''nan'' then Some FNan
     else
       let whole = takeWhile is_digit t; rest = dropWhile is_digit t;
           (frac, rest) = (case rest of c # xs \<Rightarrow>
               if c = CHR ''.'' then (takeWhile is_digit xs, dropWhile is_digit xs) else ([], rest)
             | [] \<Rightarrow> ([], []))
       in if whole = [] \<and> frac = [] then None
          else map_option (\<lambda>e. decimal_f32 neg (digits_value (whole @ frac)) (e - int (length frac)))
                 (exponent_of rest))"

definition parse_uint :: "nat \<Rightarrow> string \<Rightarrow> SettingError + 'a::len word"
  where "parse_uint hi s = (case parse_unsigned hi s of None \<Rightarrow> Inl BadValue | Some n \<Rightarrow> Inr (of_nat n))"

definition parse_u32_value :: "string \<Rightarrow> SettingError + u32"
  where "parse_u32_value s = parse_uint 0xFFFFFFFF s"

definition parse_u8_value :: "string \<Rightarrow> SettingError + u8"
  where "parse_u8_value s = parse_uint 0xFF s"

text \<open>A parsed value that must satisfy a range check.\<close>

definition checked :: "('a \<Rightarrow> bool) \<Rightarrow> SettingError + 'a \<Rightarrow> SettingError + 'a"
  where "checked ok r =
    (case r of Inl e \<Rightarrow> Inl e | Inr x \<Rightarrow> if ok x then Inr x else Inl OutOfRange)"

definition parse_auto_report_interval :: "string \<Rightarrow> SettingError + u32"
  where "parse_auto_report_interval s =
    checked (\<lambda>x. x = 0 \<or> AUTO_REPORT_INTERVAL_MIN_MS \<le> x \<and> x \<le> AUTO_REPORT_INTERVAL_MAX_MS) (parse_uint 0xFFFFFFFF s)"

definition parse_step_pulse_us :: "string \<Rightarrow> SettingError + u32"
  where "parse_step_pulse_us s = checked (\<lambda>x. 1 \<le> x \<and> x \<le> 1000) (parse_uint 0xFFFFFFFF s)"

definition parse_bool :: "string \<Rightarrow> SettingError + bool"
  where "parse_bool s = (case parse_u32_value s of Inl e \<Rightarrow> Inl BadValue | Inr x \<Rightarrow> Inr (x \<noteq> 0))"

definition parse_float :: "string \<Rightarrow> SettingError + f32"
  where "parse_float s = (case f32_from_str s of None \<Rightarrow> Inl BadValue | Some x \<Rightarrow> Inr x)"

definition parse_f32_non_negative :: "string \<Rightarrow> SettingError + f32"
  where "parse_f32_non_negative s = checked (\<lambda>x. is_finite x \<and> fle f32_zero x) (parse_float s)"

definition parse_f32_positive :: "string \<Rightarrow> SettingError + f32"
  where "parse_f32_positive s = checked (\<lambda>x. is_finite x \<and> flt f32_zero x) (parse_float s)"

definition parse_current_ma :: "string \<Rightarrow> SettingError + u16"
  where "parse_current_ma s = checked (\<lambda>x. x \<le> MAX_MOTOR_CURRENT_MA) (parse_uint 0xFFFF s)"

definition parse_microsteps :: "string \<Rightarrow> SettingError + u16"
  where "parse_microsteps s = checked (\<lambda>x. x \<in> set valid_microsteps) (parse_uint 0xFFFF s)"

section \<open>Fields\<close>

datatype Field =
    StepPulseUs | StepIdleDelayMs | StepInvertMask | DirInvertMask | LimitInvert
  | ProbeInvert | ProbePullupDisable | StatusReportMask | JunctionDeviationMm | ArcToleranceMm
  | SoftLimitsEnable | HardLimitFlags | HomingFlags | HomingDirInvertMask | HomingFeedMmMin
  | HomingSeekMmMin | HomingDebounceMs | HomingPulloffMm | SpindleRpmMax | SpindleRpmMin
  | SpindleOnDelayS | SpindleReverseDwellS | AutoReportIntervalMs | StepsPerMm | MaxRateMmMin
  | AccelMmS2 | MaxTravelMm | RunCurrentMa | Microsteps | RotaryMask

definition axis_span :: "Field \<Rightarrow> nat"
  where "axis_span field =
    (case field of StepsPerMm \<Rightarrow> AXES | MaxRateMmMin \<Rightarrow> AXES | AccelMmS2 \<Rightarrow> AXES | MaxTravelMm \<Rightarrow> AXES
     | RunCurrentMa \<Rightarrow> AXES | Microsteps \<Rightarrow> AXES | _ \<Rightarrow> 1)"

text \<open>\<^verbatim>\<open>settings.field = parse(value)?; Ok(())\<close>.\<close>

definition store :: "SettingError + 'a \<Rightarrow> ('a \<Rightarrow> Settings \<Rightarrow> Settings) \<Rightarrow> Settings \<Rightarrow> (Settings, SettingError, unit) outcome"
  where "store r set_field s = (case r of Inl e \<Rightarrow> (s, Inl e) | Inr x \<Rightarrow> (set_field x s, Inr ()))"

fun parse_and_apply :: "Field \<Rightarrow> nat \<Rightarrow> string \<Rightarrow> Settings \<Rightarrow> (Settings, SettingError, unit) outcome"
  where
    "parse_and_apply StepPulseUs axis v s = store (parse_step_pulse_us v) (\<lambda>x. step_pulse_us_update (\<lambda>_. x)) s"
  | "parse_and_apply StepIdleDelayMs axis v s = store (parse_u32_value v) (\<lambda>x. step_idle_delay_ms_update (\<lambda>_. x)) s"
  | "parse_and_apply StepInvertMask axis v s = store (parse_u8_value v) (\<lambda>x. step_invert_mask_update (\<lambda>_. x)) s"
  | "parse_and_apply DirInvertMask axis v s = store (parse_u8_value v) (\<lambda>x. dir_invert_mask_update (\<lambda>_. x)) s"
  | "parse_and_apply LimitInvert axis v s = store (parse_bool v) (\<lambda>x. limit_invert_update (\<lambda>_. x)) s"
  | "parse_and_apply ProbeInvert axis v s = store (parse_bool v) (\<lambda>x. probe_invert_update (\<lambda>_. x)) s"
  | "parse_and_apply ProbePullupDisable axis v s = store (parse_bool v) (\<lambda>x. probe_pullup_disable_update (\<lambda>_. x)) s"
  | "parse_and_apply StatusReportMask axis v s = store (parse_u8_value v) (\<lambda>x. status_report_mask_update (\<lambda>_. x)) s"
  | "parse_and_apply JunctionDeviationMm axis v s = store (parse_f32_non_negative v) (\<lambda>x. junction_deviation_mm_update (\<lambda>_. x)) s"
  | "parse_and_apply ArcToleranceMm axis v s = store (parse_f32_positive v) (\<lambda>x. arc_tolerance_mm_update (\<lambda>_. x)) s"
  | "parse_and_apply SoftLimitsEnable axis v s = store (parse_bool v) (\<lambda>x. soft_limits_enable_update (\<lambda>_. x)) s"
  | "parse_and_apply HardLimitFlags axis v s = store (parse_u8_value v) (\<lambda>x. hard_limit_flags_update (\<lambda>_. x)) s"
  | "parse_and_apply HomingFlags axis v s = store (parse_u8_value v) (\<lambda>x. homing_flags_update (\<lambda>_. x)) s"
  | "parse_and_apply HomingDirInvertMask axis v s = store (parse_u8_value v) (\<lambda>x. homing_dir_invert_mask_update (\<lambda>_. x)) s"
  | "parse_and_apply HomingFeedMmMin axis v s = store (parse_f32_positive v) (\<lambda>x. homing_feed_mm_min_update (\<lambda>_. x)) s"
  | "parse_and_apply HomingSeekMmMin axis v s = store (parse_f32_positive v) (\<lambda>x. homing_seek_mm_min_update (\<lambda>_. x)) s"
  | "parse_and_apply HomingDebounceMs axis v s = store (parse_u32_value v) (\<lambda>x. homing_debounce_ms_update (\<lambda>_. x)) s"
  | "parse_and_apply HomingPulloffMm axis v s = store (parse_f32_non_negative v) (\<lambda>x. homing_pulloff_mm_update (\<lambda>_. x)) s"
  | "parse_and_apply SpindleRpmMax axis v s = store (parse_f32_positive v) (\<lambda>x. spindle_rpm_max_update (\<lambda>_. x)) s"
  | "parse_and_apply SpindleRpmMin axis v s = store (parse_f32_non_negative v) (\<lambda>x. spindle_rpm_min_update (\<lambda>_. x)) s"
  | "parse_and_apply SpindleOnDelayS axis v s = store (parse_f32_non_negative v) (\<lambda>x. spindle_on_delay_s_update (\<lambda>_. x)) s"
  | "parse_and_apply SpindleReverseDwellS axis v s = store (parse_f32_non_negative v) (\<lambda>x. spindle_reverse_dwell_s_update (\<lambda>_. x)) s"
  | "parse_and_apply AutoReportIntervalMs axis v s = store (parse_auto_report_interval v) (\<lambda>x. auto_report_interval_ms_update (\<lambda>_. x)) s"
  | "parse_and_apply StepsPerMm axis v s = store (parse_f32_positive v) (\<lambda>x. steps_per_mm_update (\<lambda>xs. xs[axis := x])) s"
  | "parse_and_apply MaxRateMmMin axis v s = store (parse_f32_positive v) (\<lambda>x. max_rate_mm_min_update (\<lambda>xs. xs[axis := x])) s"
  | "parse_and_apply AccelMmS2 axis v s = store (parse_f32_positive v) (\<lambda>x. accel_mm_s2_update (\<lambda>xs. xs[axis := x])) s"
  | "parse_and_apply MaxTravelMm axis v s = store (parse_f32_positive v) (\<lambda>x. max_travel_mm_update (\<lambda>xs. xs[axis := x])) s"
  | "parse_and_apply RunCurrentMa axis v s = store (parse_current_ma v) (\<lambda>x. run_current_ma_update (\<lambda>xs. xs[axis := x])) s"
  | "parse_and_apply Microsteps axis v s = store (parse_microsteps v) (\<lambda>x. microsteps_update (\<lambda>xs. xs[axis := x])) s"
  | "parse_and_apply RotaryMask axis v s = store (parse_u8_value v) (\<lambda>x. rotary_mask_update (\<lambda>_. x)) s"

definition write_fmt :: "nat \<Rightarrow> string list \<Rightarrow> string \<Rightarrow> string \<times> bool"
  where "write_fmt cap parts out =
    (case write_all cap parts out of (out', Inl _) \<Rightarrow> (out', False) | (out', Inr _) \<Rightarrow> (out', True))"

fun field_text :: "(f32 \<Rightarrow> string) \<Rightarrow> Settings \<Rightarrow> Field \<Rightarrow> nat \<Rightarrow> string"
  where
    "field_text show3 s StepPulseUs axis = dec (unat (step_pulse_us s))"
  | "field_text show3 s StepIdleDelayMs axis = dec (unat (step_idle_delay_ms s))"
  | "field_text show3 s StepInvertMask axis = dec (unat (step_invert_mask s))"
  | "field_text show3 s DirInvertMask axis = dec (unat (dir_invert_mask s))"
  | "field_text show3 s LimitInvert axis = of_bool8 (limit_invert s)"
  | "field_text show3 s ProbeInvert axis = of_bool8 (probe_invert s)"
  | "field_text show3 s ProbePullupDisable axis = of_bool8 (probe_pullup_disable s)"
  | "field_text show3 s StatusReportMask axis = dec (unat (status_report_mask s))"
  | "field_text show3 s JunctionDeviationMm axis = show3 (junction_deviation_mm s)"
  | "field_text show3 s ArcToleranceMm axis = show3 (arc_tolerance_mm s)"
  | "field_text show3 s SoftLimitsEnable axis = of_bool8 (soft_limits_enable s)"
  | "field_text show3 s HardLimitFlags axis = dec (unat (hard_limit_flags s))"
  | "field_text show3 s HomingFlags axis = dec (unat (homing_flags s))"
  | "field_text show3 s HomingDirInvertMask axis = dec (unat (homing_dir_invert_mask s))"
  | "field_text show3 s HomingFeedMmMin axis = show3 (homing_feed_mm_min s)"
  | "field_text show3 s HomingSeekMmMin axis = show3 (homing_seek_mm_min s)"
  | "field_text show3 s HomingDebounceMs axis = dec (unat (homing_debounce_ms s))"
  | "field_text show3 s HomingPulloffMm axis = show3 (homing_pulloff_mm s)"
  | "field_text show3 s SpindleRpmMax axis = show3 (spindle_rpm_max s)"
  | "field_text show3 s SpindleRpmMin axis = show3 (spindle_rpm_min s)"
  | "field_text show3 s SpindleOnDelayS axis = show3 (spindle_on_delay_s s)"
  | "field_text show3 s SpindleReverseDwellS axis = show3 (spindle_reverse_dwell_s s)"
  | "field_text show3 s AutoReportIntervalMs axis = dec (unat (auto_report_interval_ms s))"
  | "field_text show3 s StepsPerMm axis = show3 (steps_per_mm s ! axis)"
  | "field_text show3 s MaxRateMmMin axis = show3 (max_rate_mm_min s ! axis)"
  | "field_text show3 s AccelMmS2 axis = show3 (accel_mm_s2 s ! axis)"
  | "field_text show3 s MaxTravelMm axis = show3 (max_travel_mm s ! axis)"
  | "field_text show3 s RunCurrentMa axis = dec (unat (run_current_ma s ! axis))"
  | "field_text show3 s Microsteps axis = dec (unat (microsteps s ! axis))"
  | "field_text show3 s RotaryMask axis = dec (unat (rotary_mask s))"

definition format_field ::
    "(f32 \<Rightarrow> string) \<Rightarrow> nat \<Rightarrow> Field \<Rightarrow> Settings \<Rightarrow> u16 \<Rightarrow> nat \<Rightarrow> string \<Rightarrow> string \<times> bool"
  where "format_field show3 cap field s n axis out =
    write_fmt cap [''$'', dec (unat n), ''='', field_text show3 s field axis] out"

section \<open>Descriptors\<close>

datatype SettingDatatype = Bitfield | Bool | Integer | Float | AxisMask

fun datatype_code :: "SettingDatatype \<Rightarrow> u8"
  where
    "datatype_code Bitfield = 0"
  | "datatype_code Bool = 3"
  | "datatype_code Integer = 5"
  | "datatype_code Float = 6"
  | "datatype_code AxisMask = 7"

record SettingMeta =
  sm_group :: u16
  sm_name :: string
  sm_unit :: string
  sm_datatype :: SettingDatatype
  sm_format :: string
  sm_min :: string
  sm_max :: string

record SettingDescriptor =
  sd_number :: u16
  sd_field :: Field
  sd_meta :: SettingMeta

record SettingGroup =
  sg_id :: u16
  sg_parent :: u16
  sg_name :: string

definition GROUP_GENERAL :: u16
  where "GROUP_GENERAL = 1"

definition GROUP_CONTROL :: u16
  where "GROUP_CONTROL = 4"

definition GROUP_STEPPER :: u16
  where "GROUP_STEPPER = 8"

definition GROUP_HOMING :: u16
  where "GROUP_HOMING = 6"

definition GROUP_PROBING :: u16
  where "GROUP_PROBING = 5"

definition GROUP_SPINDLE :: u16
  where "GROUP_SPINDLE = 9"

definition GROUP_LIMITS :: u16
  where "GROUP_LIMITS = 3"

definition GROUP_AXIS :: u16
  where "GROUP_AXIS = 11"

definition SETTING_GROUPS :: "SettingGroup list"
  where "SETTING_GROUPS =
    [\<lparr>sg_id = GROUP_GENERAL, sg_parent = 0, sg_name = ''General''\<rparr>,
     \<lparr>sg_id = GROUP_CONTROL, sg_parent = 0, sg_name = ''Control signals''\<rparr>,
     \<lparr>sg_id = GROUP_STEPPER, sg_parent = 0, sg_name = ''Stepper''\<rparr>,
     \<lparr>sg_id = GROUP_HOMING, sg_parent = 0, sg_name = ''Homing''\<rparr>,
     \<lparr>sg_id = GROUP_PROBING, sg_parent = 0, sg_name = ''Probing''\<rparr>,
     \<lparr>sg_id = GROUP_SPINDLE, sg_parent = 0, sg_name = ''Spindle''\<rparr>,
     \<lparr>sg_id = GROUP_LIMITS, sg_parent = 0, sg_name = ''Limits''\<rparr>,
     \<lparr>sg_id = GROUP_AXIS, sg_parent = GROUP_STEPPER, sg_name = ''Axis''\<rparr>]"

definition descriptor ::
    "u16 \<Rightarrow> Field \<Rightarrow> u16 \<Rightarrow> string \<Rightarrow> string \<Rightarrow> SettingDatatype \<Rightarrow> string \<Rightarrow> string \<Rightarrow> string \<Rightarrow> SettingDescriptor"
  where "descriptor n field grp name unit_text datatype format lo hi =
    \<lparr>sd_number = n, sd_field = field,
     sd_meta = \<lparr>sm_group = grp, sm_name = name, sm_unit = unit_text, sm_datatype = datatype,
       sm_format = format, sm_min = lo, sm_max = hi\<rparr>\<rparr>"

definition DESCRIPTORS_PORTS :: "SettingDescriptor list"
  where "DESCRIPTORS_PORTS =
    [descriptor 0 StepPulseUs GROUP_STEPPER ''Step pulse time'' ''microseconds'' Integer
       [] ''1'' ''1000'',
     descriptor 1 StepIdleDelayMs GROUP_STEPPER ''Step idle delay'' ''milliseconds'' Integer
       [] ''0'' ''255'',
     descriptor 2 StepInvertMask GROUP_STEPPER ''Step pulse invert'' [] AxisMask
       [] ''0'' ''7'',
     descriptor 3 DirInvertMask GROUP_STEPPER ''Step direction invert'' [] AxisMask
       [] ''0'' ''7'',
     descriptor 5 LimitInvert GROUP_LIMITS ''Invert limit pins'' [] Bool
       [] ''0'' ''1'',
     descriptor 6 ProbeInvert GROUP_PROBING ''Invert probe pin'' [] Bool
       [] ''0'' ''1'',
     descriptor 10 StatusReportMask GROUP_GENERAL ''Status report options'' [] Bitfield
       ''Position in machine coordinates,Buffer state'' ''0'' [],
     descriptor 11 JunctionDeviationMm GROUP_GENERAL ''Junction deviation'' ''millimeters'' Float
       ''#0.000'' ''0'' [],
     descriptor 12 ArcToleranceMm GROUP_GENERAL ''Arc tolerance'' ''millimeters'' Float
       ''#0.000'' [] [],
     descriptor 19 ProbePullupDisable GROUP_PROBING ''Disable probe pin pull-up'' [] Bool
       [] ''0'' ''1'']"

definition DESCRIPTORS_HOMING :: "SettingDescriptor list"
  where "DESCRIPTORS_HOMING =
    [descriptor 20 SoftLimitsEnable GROUP_LIMITS ''Soft limits enable'' [] Bool
       [] ''0'' ''1'',
     descriptor 21 HardLimitFlags GROUP_LIMITS ''Hard limits enable'' [] Bitfield
       ''Enable,Strict mode'' ''0'' [],
     descriptor 22 HomingFlags GROUP_HOMING ''Homing cycle enable'' [] Bitfield
       ''Enable,Enable single axis commands,Homing on startup required,Set machine origin to 0'' ''0'' [],
     descriptor 23 HomingDirInvertMask GROUP_HOMING ''Homing direction invert'' [] AxisMask
       [] ''0'' ''7'',
     descriptor 24 HomingFeedMmMin GROUP_HOMING ''Homing locate feed rate'' ''mm/min'' Float
       ''#0.000'' [] [],
     descriptor 25 HomingSeekMmMin GROUP_HOMING ''Homing search seek rate'' ''mm/min'' Float
       ''#0.000'' [] [],
     descriptor 26 HomingDebounceMs GROUP_HOMING ''Homing switch debounce delay'' ''milliseconds'' Integer
       [] ''0'' [],
     descriptor 27 HomingPulloffMm GROUP_HOMING ''Homing switch pull-off distance'' ''millimeters'' Float
       ''#0.000'' ''0'' []]"

definition DESCRIPTORS_SPINDLE_AXES :: "SettingDescriptor list"
  where "DESCRIPTORS_SPINDLE_AXES =
    [descriptor 30 SpindleRpmMax GROUP_SPINDLE ''Maximum spindle speed'' ''RPM'' Float
       ''#0.000'' [] [],
     descriptor 31 SpindleRpmMin GROUP_SPINDLE ''Minimum spindle speed'' ''RPM'' Float
       ''#0.000'' ''0'' [],
     descriptor 392 SpindleOnDelayS GROUP_SPINDLE ''Spindle on delay'' ''seconds'' Float
       ''#0.000'' ''0'' [],
     descriptor 393 SpindleReverseDwellS GROUP_SPINDLE ''Spindle reverse dwell'' ''seconds'' Float
       ''#0.000'' ''0'' [],
     descriptor 481 AutoReportIntervalMs GROUP_GENERAL ''Autoreport interval'' ''milliseconds'' Integer
       [] ''0'' ''1000'',
     descriptor 100 StepsPerMm GROUP_AXIS ''Travel resolution'' ''step/mm'' Float
       ''#0.000'' [] [],
     descriptor 110 MaxRateMmMin GROUP_AXIS ''Maximum rate'' ''mm/min'' Float
       ''#0.000'' [] [],
     descriptor 120 AccelMmS2 GROUP_AXIS ''Acceleration'' ''mm/sec^2'' Float
       ''#0.000'' [] [],
     descriptor 130 MaxTravelMm GROUP_AXIS ''Maximum travel'' ''millimeters'' Float
       ''#0.000'' [] [],
     descriptor 140 RunCurrentMa GROUP_AXIS ''Motor current'' ''mA'' Integer
       [] ''0'' ''2000'',
     descriptor 150 Microsteps GROUP_AXIS ''Microsteps'' [] Integer
       [] ''1'' ''256'',
     descriptor 376 RotaryMask GROUP_STEPPER ''Rotary axes'' [] AxisMask
       [] ''0'' ''8'']"

definition SETTING_DESCRIPTORS :: "SettingDescriptor list"
  where "SETTING_DESCRIPTORS = DESCRIPTORS_PORTS @ DESCRIPTORS_HOMING @ DESCRIPTORS_SPINDLE_AXES"

definition numbers_of :: "SettingDescriptor \<Rightarrow> u16 list"
  where "numbers_of d = map (\<lambda>axis. sd_number d + of_nat axis) [0..<axis_span (sd_field d)]"

definition SETTING_NUMBERS :: "u16 list"
  where "SETTING_NUMBERS = concat (map numbers_of SETTING_DESCRIPTORS)"

definition SETTING_COUNT :: nat
  where "SETTING_COUNT = sum_list (map (\<lambda>d. axis_span (sd_field d)) SETTING_DESCRIPTORS)"

fun find_descriptor :: "u16 \<Rightarrow> SettingDescriptor list \<Rightarrow> (SettingDescriptor \<times> nat) option"
  where
    "find_descriptor n [] = None"
  | "find_descriptor n (d # ds) =
      (if sd_number d \<le> n \<and> n < sd_number d + of_nat (axis_span (sd_field d))
       then Some (d, unat (n - sd_number d)) else find_descriptor n ds)"

definition lookup_descriptor :: "u16 \<Rightarrow> (SettingDescriptor \<times> nat) option"
  where "lookup_descriptor n = find_descriptor n SETTING_DESCRIPTORS"

section \<open>The setter and the writers\<close>

definition soft_limits_guard :: "Field \<Rightarrow> string \<Rightarrow> Settings \<Rightarrow> SettingError + unit"
  where "soft_limits_guard field v s =
    (if field = SoftLimitsEnable
     then (case parse_bool v of
             Inl e \<Rightarrow> Inl e
           | Inr enabling \<Rightarrow> if enabling \<and> \<not> homing_enabled s then Inl SoftLimitsNeedHoming else Inr ())
     else Inr ())"

definition set_command :: "u16 \<Rightarrow> string \<Rightarrow> Settings \<Rightarrow> (Settings, SettingError, unit) outcome"
  where "set_command n v s =
    (let v = trim v in
     case lookup_descriptor n of
       None \<Rightarrow> (s, Inl UnknownSetting)
     | Some (desc, axis) \<Rightarrow>
        (case soft_limits_guard (sd_field desc) v s of
           Inl e \<Rightarrow> (s, Inl e)
         | Inr _ \<Rightarrow> parse_and_apply (sd_field desc) axis v s))"

definition write_setting_line ::
    "(f32 \<Rightarrow> string) \<Rightarrow> nat \<Rightarrow> Settings \<Rightarrow> u16 \<Rightarrow> string \<Rightarrow> string \<times> bool"
  where "write_setting_line show3 cap s n out =
    (case lookup_descriptor n of
       Some (desc, axis) \<Rightarrow> format_field show3 cap (sd_field desc) s n axis out
     | None \<Rightarrow> (out, False))"

definition write_setting_enumeration :: "nat \<Rightarrow> u16 \<Rightarrow> string \<Rightarrow> string \<times> bool"
  where "write_setting_enumeration cap n out =
    (case lookup_descriptor n of
       None \<Rightarrow> (out, False)
     | Some (desc, _) \<Rightarrow>
        let meta = sd_meta desc in
        write_fmt cap
          [''[SETTING:'', dec (unat n), ''|'', dec (unat (sm_group meta)), ''|'', sm_name meta, ''|'', sm_unit meta,
           ''|'', dec (unat (datatype_code (sm_datatype meta))), ''|'', sm_format meta, ''|'', sm_min meta, ''|'',
           sm_max meta, '']'' @ CRLF] out)"

definition write_setting_description :: "nat \<Rightarrow> u16 \<Rightarrow> string \<Rightarrow> string \<times> bool"
  where "write_setting_description cap n out =
    (case lookup_descriptor n of
       None \<Rightarrow> (out, False)
     | Some (desc, _) \<Rightarrow>
        let meta = sd_meta desc in
        if sm_unit meta = []
        then write_fmt cap [''[SETTINGDESCR:'', dec (unat n), ''|'', sm_name meta, '']'' @ CRLF] out
        else write_fmt cap [''[SETTINGDESCR:'', dec (unat n), ''|'', sm_name meta, '' ('', sm_unit meta, '')]'' @ CRLF] out)"

definition SETTING_GROUP_COUNT :: nat
  where "SETTING_GROUP_COUNT = length SETTING_GROUPS"

definition write_setting_group :: "nat \<Rightarrow> nat \<Rightarrow> string \<Rightarrow> string \<times> bool"
  where "write_setting_group cap index out =
    (if index < length SETTING_GROUPS
     then let grp = SETTING_GROUPS ! index in
       write_fmt cap [''[SETTINGGROUP:'', dec (unat (sg_id grp)), ''|'', dec (unat (sg_parent grp)), ''|'',
         sg_name grp, '']'' @ CRLF] out
     else (out, False))"

end
