(* ===== verification/Settings_Store.thy ===== *)
theory Settings_Store
  imports Settings
begin

text \<open>
  The persistence half of \<^verbatim>\<open>settings.rs\<close>: the hex codec and the receiver of the \<^verbatim>\<open>$PBX\<close> channel, the
  projection onto the protobuf message (the fields of \<^verbatim>\<open>crates/galdr-proto/proto/settings.proto\<close>), the
  framed record and the loaders over a \<^verbatim>\<open>RecordStore\<close>, which reads and replaces one record.
\<close>

section \<open>The hex channel\<close>

datatype HexError = HexError

definition hex_digits :: string
  where "hex_digits = ''0123456789ABCDEF''"

definition push_char :: "nat \<Rightarrow> char \<Rightarrow> string \<Rightarrow> string option"
  where "push_char cap c out = (if length out < cap then Some (out @ [c]) else None)"

fun write_hex :: "nat \<Rightarrow> u8 list \<Rightarrow> string \<Rightarrow> string \<times> bool"
  where
    "write_hex cap [] out = (out, True)"
  | "write_hex cap (b # bs) out =
      (case push_char cap (hex_digits ! unat (drop_bit 4 b)) out of
         None \<Rightarrow> (out, False)
       | Some out \<Rightarrow>
          (case push_char cap (hex_digits ! unat (b AND 0x0F)) out of
             None \<Rightarrow> (out, False)
           | Some out \<Rightarrow> write_hex cap bs out))"

definition hex_nibble :: "char \<Rightarrow> HexError + u8"
  where "hex_nibble c =
    (let n = (of_char c :: nat) in
     if 48 \<le> n \<and> n \<le> 57 then Inr (of_nat n - 48)
     else if 97 \<le> n \<and> n \<le> 102 then Inr (of_nat n - 97 + 10)
     else if 65 \<le> n \<and> n \<le> 70 then Inr (of_nat n - 65 + 10)
     else Inl HexError)"

fun decode_pairs :: "nat \<Rightarrow> string \<Rightarrow> u8 list \<Rightarrow> (u8 list, HexError, unit) outcome"
  where
    "decode_pairs cap (h # l # xs) out =
      (case hex_nibble h of
         Inl e \<Rightarrow> (out, Inl e)
       | Inr high \<Rightarrow>
          (case hex_nibble l of
             Inl e \<Rightarrow> (out, Inl e)
           | Inr low \<Rightarrow>
              if length out < cap then decode_pairs cap xs (out @ [push_bit 4 high OR low])
              else (out, Inl HexError)))"
  | "decode_pairs cap xs out = (out, Inr ())"

definition decode_hex :: "nat \<Rightarrow> string \<Rightarrow> u8 list \<Rightarrow> (u8 list, HexError, unit) outcome"
  where "decode_hex cap hex out =
    (if length hex mod 2 \<noteq> 0 then (out, Inl HexError) else decode_pairs cap hex out)"

section \<open>The protobuf message\<close>

record PbSettings =
  pb_step_pulse_us :: u32
  pb_step_idle_delay_ms :: u32
  pb_step_invert_mask :: u32
  pb_dir_invert_mask :: u32
  pb_status_report_mask :: u32
  pb_junction_deviation_mm :: f32
  pb_arc_tolerance_mm :: f32
  pb_soft_limits_enable :: bool
  pb_hard_limit_flags :: u32
  pb_homing_flags :: u32
  pb_homing_dir_invert_mask :: u32
  pb_homing_feed_mm_min :: f32
  pb_homing_seek_mm_min :: f32
  pb_homing_debounce_ms :: u32
  pb_homing_pulloff_mm :: f32
  pb_spindle_rpm_max :: f32
  pb_spindle_rpm_min :: f32
  pb_steps_per_mm_x :: f32
  pb_steps_per_mm_y :: f32
  pb_steps_per_mm_z :: f32
  pb_max_rate_mm_min_x :: f32
  pb_max_rate_mm_min_y :: f32
  pb_max_rate_mm_min_z :: f32
  pb_accel_mm_s2_x :: f32
  pb_accel_mm_s2_y :: f32
  pb_accel_mm_s2_z :: f32
  pb_max_travel_mm_x :: f32
  pb_max_travel_mm_y :: f32
  pb_max_travel_mm_z :: f32
  pb_run_current_ma_x :: u32
  pb_run_current_ma_y :: u32
  pb_run_current_ma_z :: u32
  pb_hold_current_ma_x :: u32
  pb_hold_current_ma_y :: u32
  pb_hold_current_ma_z :: u32
  pb_microsteps_x :: u32
  pb_microsteps_y :: u32
  pb_microsteps_z :: u32
  pb_tmc_ihold_delay :: u32
  pb_tmc_tpowerdown :: u32
  pb_tmc_tpwmthrs :: u32
  pb_tmc_send_delay :: u32
  pb_tmc_r_sense_ohms :: f32
  pb_probe_invert :: bool
  pb_probe_pullup_disable :: bool
  pb_auto_report_interval_ms :: u32
  pb_limit_invert :: bool
  pb_spindle_on_delay_s :: f32
  pb_spindle_reverse_dwell_s :: f32
  pb_steps_per_mm_a :: f32
  pb_max_rate_mm_min_a :: f32
  pb_accel_mm_s2_a :: f32
  pb_max_travel_mm_a :: f32
  pb_run_current_ma_a :: u32
  pb_hold_current_ma_a :: u32
  pb_microsteps_a :: u32
  pb_rotary_mask :: u32

record pb_codec =
  settings_size :: "PbSettings \<Rightarrow> nat"
  encode_settings :: "PbSettings \<Rightarrow> u8 list"
  decode_settings :: "u8 list \<Rightarrow> PbSettings option"

definition saturating_u16 :: "u32 \<Rightarrow> u16"
  where "saturating_u16 x = ucast (min x 0xFFFF)"

definition saturating_u8 :: "u32 \<Rightarrow> u8"
  where "saturating_u8 x = ucast (min x 0xFF)"

definition to_proto :: "Settings \<Rightarrow> PbSettings"
  where "to_proto s =
    \<lparr>pb_step_pulse_us = step_pulse_us s,
     pb_step_idle_delay_ms = step_idle_delay_ms s,
     pb_step_invert_mask = ucast (step_invert_mask s),
     pb_dir_invert_mask = ucast (dir_invert_mask s),
     pb_status_report_mask = ucast (status_report_mask s),
     pb_junction_deviation_mm = junction_deviation_mm s,
     pb_arc_tolerance_mm = arc_tolerance_mm s,
     pb_soft_limits_enable = soft_limits_enable s,
     pb_hard_limit_flags = ucast (hard_limit_flags s),
     pb_homing_flags = ucast (homing_flags s),
     pb_homing_dir_invert_mask = ucast (homing_dir_invert_mask s),
     pb_homing_feed_mm_min = homing_feed_mm_min s,
     pb_homing_seek_mm_min = homing_seek_mm_min s,
     pb_homing_debounce_ms = homing_debounce_ms s,
     pb_homing_pulloff_mm = homing_pulloff_mm s,
     pb_spindle_rpm_max = spindle_rpm_max s,
     pb_spindle_rpm_min = spindle_rpm_min s,
     pb_steps_per_mm_x = steps_per_mm s ! 0,
     pb_steps_per_mm_y = steps_per_mm s ! 1,
     pb_steps_per_mm_z = steps_per_mm s ! 2,
     pb_max_rate_mm_min_x = max_rate_mm_min s ! 0,
     pb_max_rate_mm_min_y = max_rate_mm_min s ! 1,
     pb_max_rate_mm_min_z = max_rate_mm_min s ! 2,
     pb_accel_mm_s2_x = accel_mm_s2 s ! 0,
     pb_accel_mm_s2_y = accel_mm_s2 s ! 1,
     pb_accel_mm_s2_z = accel_mm_s2 s ! 2,
     pb_max_travel_mm_x = max_travel_mm s ! 0,
     pb_max_travel_mm_y = max_travel_mm s ! 1,
     pb_max_travel_mm_z = max_travel_mm s ! 2,
     pb_run_current_ma_x = ucast (run_current_ma s ! 0),
     pb_run_current_ma_y = ucast (run_current_ma s ! 1),
     pb_run_current_ma_z = ucast (run_current_ma s ! 2),
     pb_hold_current_ma_x = ucast (hold_current_ma s ! 0),
     pb_hold_current_ma_y = ucast (hold_current_ma s ! 1),
     pb_hold_current_ma_z = ucast (hold_current_ma s ! 2),
     pb_microsteps_x = ucast (microsteps s ! 0),
     pb_microsteps_y = ucast (microsteps s ! 1),
     pb_microsteps_z = ucast (microsteps s ! 2),
     pb_tmc_ihold_delay = ucast (tmc_ihold_delay s),
     pb_tmc_tpowerdown = ucast (tmc_tpowerdown s),
     pb_tmc_tpwmthrs = tmc_tpwmthrs s,
     pb_tmc_send_delay = ucast (tmc_send_delay s),
     pb_tmc_r_sense_ohms = tmc_r_sense_ohms s,
     pb_probe_invert = probe_invert s,
     pb_probe_pullup_disable = probe_pullup_disable s,
     pb_auto_report_interval_ms = auto_report_interval_ms s,
     pb_limit_invert = limit_invert s,
     pb_spindle_on_delay_s = spindle_on_delay_s s,
     pb_spindle_reverse_dwell_s = spindle_reverse_dwell_s s,
     pb_steps_per_mm_a = steps_per_mm s ! A_AXIS,
     pb_max_rate_mm_min_a = max_rate_mm_min s ! A_AXIS,
     pb_accel_mm_s2_a = accel_mm_s2 s ! A_AXIS,
     pb_max_travel_mm_a = max_travel_mm s ! A_AXIS,
     pb_run_current_ma_a = ucast (run_current_ma s ! A_AXIS),
     pb_hold_current_ma_a = ucast (hold_current_ma s ! A_AXIS),
     pb_microsteps_a = ucast (microsteps s ! A_AXIS),
     pb_rotary_mask = ucast (rotary_mask s)\<rparr>"

definition from_proto :: "PbSettings \<Rightarrow> Settings"
  where "from_proto p =
    \<lparr>step_pulse_us = pb_step_pulse_us p,
     step_idle_delay_ms = pb_step_idle_delay_ms p,
     step_invert_mask = saturating_u8 (pb_step_invert_mask p),
     dir_invert_mask = saturating_u8 (pb_dir_invert_mask p),
     limit_invert = pb_limit_invert p,
     probe_invert = pb_probe_invert p,
     probe_pullup_disable = pb_probe_pullup_disable p,
     status_report_mask = saturating_u8 (pb_status_report_mask p),
     junction_deviation_mm = pb_junction_deviation_mm p,
     arc_tolerance_mm = pb_arc_tolerance_mm p,
     soft_limits_enable = pb_soft_limits_enable p,
     hard_limit_flags = saturating_u8 (pb_hard_limit_flags p),
     homing_flags = saturating_u8 (pb_homing_flags p),
     homing_dir_invert_mask = saturating_u8 (pb_homing_dir_invert_mask p),
     homing_feed_mm_min = pb_homing_feed_mm_min p,
     homing_seek_mm_min = pb_homing_seek_mm_min p,
     homing_debounce_ms = pb_homing_debounce_ms p,
     homing_pulloff_mm = pb_homing_pulloff_mm p,
     spindle_rpm_max = pb_spindle_rpm_max p,
     spindle_rpm_min = pb_spindle_rpm_min p,
     spindle_on_delay_s = pb_spindle_on_delay_s p,
     spindle_reverse_dwell_s = pb_spindle_reverse_dwell_s p,
     auto_report_interval_ms = pb_auto_report_interval_ms p,
     steps_per_mm = [pb_steps_per_mm_x p, pb_steps_per_mm_y p, pb_steps_per_mm_z p, pb_steps_per_mm_a p],
     max_rate_mm_min = [pb_max_rate_mm_min_x p, pb_max_rate_mm_min_y p, pb_max_rate_mm_min_z p, pb_max_rate_mm_min_a p],
     accel_mm_s2 = [pb_accel_mm_s2_x p, pb_accel_mm_s2_y p, pb_accel_mm_s2_z p, pb_accel_mm_s2_a p],
     max_travel_mm = [pb_max_travel_mm_x p, pb_max_travel_mm_y p, pb_max_travel_mm_z p, pb_max_travel_mm_a p],
     run_current_ma = [saturating_u16 (pb_run_current_ma_x p), saturating_u16 (pb_run_current_ma_y p), saturating_u16 (pb_run_current_ma_z p), saturating_u16 (pb_run_current_ma_a p)],
     microsteps = [saturating_u16 (pb_microsteps_x p), saturating_u16 (pb_microsteps_y p), saturating_u16 (pb_microsteps_z p), saturating_u16 (pb_microsteps_a p)],
     hold_current_ma = [saturating_u16 (pb_hold_current_ma_x p), saturating_u16 (pb_hold_current_ma_y p), saturating_u16 (pb_hold_current_ma_z p), saturating_u16 (pb_hold_current_ma_a p)],
     tmc_ihold_delay = saturating_u8 (pb_tmc_ihold_delay p),
     tmc_tpowerdown = saturating_u8 (pb_tmc_tpowerdown p),
     tmc_tpwmthrs = pb_tmc_tpwmthrs p,
     tmc_send_delay = saturating_u8 (pb_tmc_send_delay p),
     tmc_r_sense_ohms = pb_tmc_r_sense_ohms p,
     rotary_mask = saturating_u8 (pb_rotary_mask p)\<rparr>"

section \<open>The framed record\<close>

definition SETTINGS_MAX_LEN :: nat
  where "SETTINGS_MAX_LEN = 512"

definition SETTINGS_FRAME_MAX_LEN :: nat
  where "SETTINGS_FRAME_MAX_LEN = SETTINGS_MAX_LEN + FRAME_OVERHEAD"

definition SETTINGS_MAGIC :: u32
  where "SETTINGS_MAGIC = 0x47645331"

definition SETTINGS_SCHEMA_VERSION :: u8
  where "SETTINGS_SCHEMA_VERSION = 1"

definition settings_encode :: "pb_codec \<Rightarrow> nat \<Rightarrow> Settings \<Rightarrow> u8 list \<Rightarrow> (u8 list, CodecError, unit) outcome"
  where "settings_encode pb cap s out =
    (let proto = to_proto s in
     frame cap SETTINGS_MAGIC SETTINGS_SCHEMA_VERSION (settings_size pb proto) out
       (push_slice cap (encode_settings pb proto)))"

definition settings_decode :: "libm \<Rightarrow> pb_codec \<Rightarrow> u8 list \<Rightarrow> CodecError + Settings"
  where "settings_decode lm pb bytes =
    (case unframe SETTINGS_MAGIC SETTINGS_SCHEMA_VERSION bytes of
       Inl e \<Rightarrow> Inl e
     | Inr payload \<Rightarrow>
        (case decode_settings pb payload of
           None \<Rightarrow> Inl BadPayload
         | Some proto \<Rightarrow> Inr (sanitized lm (from_proto proto))))"

definition settings_progress :: "u8 list \<Rightarrow> FrameProgress"
  where "settings_progress buf = frame_progress SETTINGS_MAGIC SETTINGS_SCHEMA_VERSION SETTINGS_FRAME_MAX_LEN buf"

section \<open>Loading and storing\<close>

datatype StoreError = NotFound | StoreIo | TooLarge

record 's record_store =
  store_load :: "nat \<Rightarrow> 's \<Rightarrow> ('s, StoreError, u8 list) outcome"
  store_save :: "u8 list \<Rightarrow> 's \<Rightarrow> ('s, StoreError, unit) outcome"

datatype LoadOutcome = Loaded | DefaultedAbsent | DefaultedCorrupt

definition load_reporting :: "libm \<Rightarrow> pb_codec \<Rightarrow> 's record_store \<Rightarrow> 's \<Rightarrow> 's \<times> Settings \<times> LoadOutcome"
  where "load_reporting lm pb st w =
    (case store_load st SETTINGS_FRAME_MAX_LEN w of
       (w, Inr bytes) \<Rightarrow>
        (case settings_decode lm pb bytes of
           Inr s \<Rightarrow> (w, s, Loaded)
         | Inl _ \<Rightarrow> (w, Settings_default lm, DefaultedCorrupt))
     | (w, Inl _) \<Rightarrow> (w, Settings_default lm, DefaultedAbsent))"

definition load_or_default :: "libm \<Rightarrow> pb_codec \<Rightarrow> 's record_store \<Rightarrow> 's \<Rightarrow> 's \<times> Settings"
  where "load_or_default lm pb st w = (case load_reporting lm pb st w of (w, s, _) \<Rightarrow> (w, s))"

definition store_settings :: "pb_codec \<Rightarrow> 's record_store \<Rightarrow> Settings \<Rightarrow> 's \<Rightarrow> ('s, StoreError, unit) outcome"
  where "store_settings pb st s w =
    (case settings_encode pb SETTINGS_FRAME_MAX_LEN s [] of
       (_, Inl _) \<Rightarrow> (w, Inl TooLarge)
     | (frame_bytes, Inr _) \<Rightarrow> store_save st frame_bytes w)"

section \<open>The chunked receiver\<close>

datatype PbChunkResult = ChunkNeedMore | Complete Settings | ChunkError

record PbReceiver =
  pb_buf :: "u8 list"

definition PbReceiver_new :: PbReceiver
  where "PbReceiver_new = \<lparr>pb_buf = []\<rparr>"

definition PbReceiver_reset :: "PbReceiver \<Rightarrow> PbReceiver"
  where "PbReceiver_reset r = r\<lparr>pb_buf := []\<rparr>"

definition accept_hex :: "libm \<Rightarrow> pb_codec \<Rightarrow> string \<Rightarrow> PbReceiver \<Rightarrow> PbReceiver \<times> PbChunkResult"
  where "accept_hex lm pb hex r =
    (case decode_hex SETTINGS_FRAME_MAX_LEN hex (pb_buf r) of
       (_, Inl _) \<Rightarrow> (r\<lparr>pb_buf := []\<rparr>, ChunkError)
     | (buf, Inr _) \<Rightarrow>
        (case settings_progress buf of
           NeedMore \<Rightarrow> (r\<lparr>pb_buf := buf\<rparr>, ChunkNeedMore)
         | BadHeader \<Rightarrow> (r\<lparr>pb_buf := []\<rparr>, ChunkError)
         | Total len \<Rightarrow>
            if length buf < len then (r\<lparr>pb_buf := buf\<rparr>, ChunkNeedMore)
            else
              let result = (if length buf = len then settings_decode lm pb buf else Inl BadLength) in
              (r\<lparr>pb_buf := []\<rparr>, (case result of Inr s \<Rightarrow> Complete s | Inl _ \<Rightarrow> ChunkError))))"

end
