(* ===== verification/Settings_Facts.thy ===== *)
theory Settings_Facts
  imports Settings_Store
begin

text \<open>
  What the properties of the settings share: the predicate \<^verbatim>\<open>settings_in_range\<close> that the sanitizer establishes and
  every accepted write keeps, the setter field by field, the descriptor lookup, and the text of a value.
\<close>

section \<open>Settings within their ranges\<close>

definition positive :: "f32 \<Rightarrow> bool"
  where "positive x \<longleftrightarrow> is_finite x \<and> flt f32_zero x"

definition non_negative :: "f32 \<Rightarrow> bool"
  where "non_negative x \<longleftrightarrow> is_finite x \<and> fle f32_zero x"

text \<open>
  What \<^verbatim>\<open>max(0.0)\<close> leaves of the homing pull-off and the least spindle speed: unlike the setter of \<^verbatim>\<open>$27\<close> and
  \<^verbatim>\<open>$31\<close> it lets positive infinity through.
\<close>

definition not_below_zero :: "f32 \<Rightarrow> bool"
  where "not_below_zero x \<longleftrightarrow> \<not> is_nan x \<and> \<not> flt x f32_zero"

definition four :: "('a \<Rightarrow> bool) \<Rightarrow> 'a list \<Rightarrow> bool"
  where "four ok xs \<longleftrightarrow> length xs = AXES \<and> list_all ok xs"

definition interval_ok :: "u32 \<Rightarrow> bool"
  where "interval_ok x \<longleftrightarrow> x = 0 \<or> AUTO_REPORT_INTERVAL_MIN_MS \<le> x \<and> x \<le> AUTO_REPORT_INTERVAL_MAX_MS"

definition scalars_ok :: "Settings \<Rightarrow> bool"
  where "scalars_ok s \<longleftrightarrow>
    1 \<le> step_pulse_us s \<and> step_pulse_us s \<le> 1000 \<and> interval_ok (auto_report_interval_ms s) \<and>
    tmc_send_delay s \<le> 15 \<and> tmc_ihold_delay s \<le> 15"

definition floats_ok :: "Settings \<Rightarrow> bool"
  where "floats_ok s \<longleftrightarrow>
    non_negative (junction_deviation_mm s) \<and> positive (arc_tolerance_mm s) \<and>
    positive (homing_feed_mm_min s) \<and> positive (homing_seek_mm_min s) \<and> not_below_zero (homing_pulloff_mm s) \<and>
    positive (spindle_rpm_max s) \<and> not_below_zero (spindle_rpm_min s) \<and>
    non_negative (spindle_on_delay_s s) \<and> non_negative (spindle_reverse_dwell_s s) \<and> positive (tmc_r_sense_ohms s)"

definition axes_ok :: "Settings \<Rightarrow> bool"
  where "axes_ok s \<longleftrightarrow>
    four positive (steps_per_mm s) \<and> four positive (max_rate_mm_min s) \<and> four positive (accel_mm_s2 s) \<and>
    four positive (max_travel_mm s) \<and> four (\<lambda>c. c \<le> MAX_MOTOR_CURRENT_MA) (run_current_ma s) \<and>
    four (\<lambda>c. c \<le> MAX_MOTOR_CURRENT_MA) (hold_current_ma s) \<and> four (\<lambda>m. m \<in> set valid_microsteps) (microsteps s)"

definition settings_in_range :: "Settings \<Rightarrow> bool"
  where "settings_in_range s \<longleftrightarrow> scalars_ok s \<and> floats_ok s \<and> axes_ok s"

lemma not_below_zero_cases: "not_below_zero x \<longleftrightarrow> non_negative x \<or> x = FInf False"
proof (cases x)
  case (FFin s m)
  then show ?thesis
    by (cases s; cases "m = 0") (auto simp: not_below_zero_def non_negative_def is_nan_def is_finite_def fle_def)
next
  case (FInf s)
  then show ?thesis by (cases s) (auto simp: not_below_zero_def non_negative_def is_nan_def is_finite_def)
qed (simp add: not_below_zero_def non_negative_def is_nan_def is_finite_def)

text \<open>The ranges of the setter: the same, with these two finite.\<close>

definition setter_in_range :: "Settings \<Rightarrow> bool"
  where "setter_in_range s \<longleftrightarrow> settings_in_range s \<and> non_negative (homing_pulloff_mm s) \<and> non_negative (spindle_rpm_min s)"

lemma in_range_or_infinite:
  "settings_in_range s \<Longrightarrow> setter_in_range s \<or> homing_pulloff_mm s = FInf False \<or> spindle_rpm_min s = FInf False"
  by (auto simp: setter_in_range_def settings_in_range_def floats_ok_def not_below_zero_cases)

text \<open>What the sanitizer decides across fields or by masking.\<close>

definition bits_ok :: "Settings \<Rightarrow> bool"
  where "bits_ok s \<longleftrightarrow> rotary_mask s AND DEFAULT_ROTARY_MASK = rotary_mask s \<and> (soft_limits_enable s \<longrightarrow> homing_enabled s)"

lemma list_eq_axes: "length xs = AXES \<Longrightarrow> xs = per_axis (\<lambda>a. xs ! a)"
  by (metis map_nth per_axis_def)

lemma per_axis_id: "length xs = AXES \<Longrightarrow> (\<And>x. x \<in> set xs \<Longrightarrow> f x = x) \<Longrightarrow> per_axis (\<lambda>a. f (xs ! a)) = xs"
  by (rule nth_equalityI) (simp_all add: per_axis_def)

lemma per_axis_id2: "length xs = AXES \<Longrightarrow> (\<And>x y. x \<in> set xs \<Longrightarrow> f x y = x) \<Longrightarrow> per_axis (\<lambda>a. f (xs ! a) (ys ! a)) = xs"
  by (rule nth_equalityI) (simp_all add: per_axis_def)

lemma length_per_axis [simp]: "length (per_axis f) = AXES"
  by (simp add: per_axis_def)

lemma four_per_axis: "(\<And>a. a < AXES \<Longrightarrow> ok (f a)) \<Longrightarrow> four ok (per_axis f)"
  by (auto simp: four_def per_axis_def list_all_iff)

lemma fourD: "four ok xs \<Longrightarrow> length xs = AXES" "four ok xs \<Longrightarrow> x \<in> set xs \<Longrightarrow> ok x" "four ok xs \<Longrightarrow> a < AXES \<Longrightarrow> ok (xs ! a)"
  by (auto simp: four_def list_all_iff)

lemma four_update: "four ok xs \<Longrightarrow> ok x \<Longrightarrow> four ok (xs[a := x])"
  by (auto simp: four_def list_all_iff dest!: subsetD [OF set_update_subset_insert])

lemma positive_or_id: "positive x \<Longrightarrow> positive_or x y = x"
  by (simp add: positive_def positive_or_def)

lemma non_negative_or_id: "non_negative x \<Longrightarrow> non_negative_or x y = x"
  by (simp add: non_negative_def non_negative_or_def)

lemma fmax_zero_id: "not_below_zero x \<Longrightarrow> fmax x f32_zero = x"
  by (simp add: not_below_zero_def fmax_def)

lemma fmax_zero_ok: "not_below_zero (fmax x f32_zero)"
  by (simp add: not_below_zero_def fmax_def signed_def is_nan_def)

lemma positive_or_ok: "positive y \<Longrightarrow> positive (positive_or x y)"
  by (simp add: positive_def positive_or_def)

lemma non_negative_or_ok: "non_negative y \<Longrightarrow> non_negative (non_negative_or x y)"
  by (simp add: non_negative_def non_negative_or_def)

lemma clamp_word_id: "lo \<le> x \<Longrightarrow> x \<le> hi \<Longrightarrow> clamp_word lo hi x = x"
  by (auto simp: clamp_word_def not_less [symmetric])

lemma clamp_word_ok: "lo \<le> hi \<Longrightarrow> lo \<le> clamp_word lo hi x \<and> clamp_word lo hi x \<le> hi"
  by (auto simp: clamp_word_def)

lemma clamp_interval_id: "interval_ok x \<Longrightarrow> clamp_auto_report_interval x = x"
  by (auto simp: interval_ok_def clamp_auto_report_interval_def clamp_word_id)

lemma clamp_interval_ok: "interval_ok (clamp_auto_report_interval x)"
  by (simp add: interval_ok_def clamp_auto_report_interval_def AUTO_REPORT_INTERVAL_MIN_MS_def
      AUTO_REPORT_INTERVAL_MAX_MS_def clamp_word_ok)

lemma clamp_microsteps_ok: "clamp_microsteps m \<in> set valid_microsteps"
  by (simp add: clamp_microsteps_def valid_microsteps_def)

text \<open>The sanitizer leaves settings in range alone, but for the two things decided by bits.\<close>

lemma sanitized_in_range:
  assumes "settings_in_range s"
  shows "sanitized lm s = s\<lparr>soft_limits_enable := soft_limits_enable s \<and> homing_enabled s,
    rotary_mask := rotary_mask s AND DEFAULT_ROTARY_MASK\<rparr>"
proof -
  note r = assms [unfolded settings_in_range_def scalars_ok_def floats_ok_def axes_ok_def]
  have micro: "clamp_microsteps m = m" if "m \<in> set valid_microsteps" for m
    using that by (simp add: clamp_microsteps_def)
  have ax: "per_axis (\<lambda>a. positive_or (xs ! a) (ys ! a)) = xs" if "four positive xs" for xs ys
    using that by (intro per_axis_id2) (auto dest: fourD positive_or_id)
  have cur: "per_axis (\<lambda>a. min (xs ! a) MAX_MOTOR_CURRENT_MA) = xs" if "four (\<lambda>c. c \<le> MAX_MOTOR_CURRENT_MA) xs" for xs
    using that by (intro per_axis_id) (auto dest: fourD)
  have ms: "per_axis (\<lambda>a. clamp_microsteps (xs ! a)) = xs" if "four (\<lambda>m. m \<in> set valid_microsteps) xs" for xs
    using that by (intro per_axis_id) (auto dest: fourD micro)
  show ?thesis
    unfolding sanitized_def Let_def
    using r by (simp add: ax cur ms clamp_word_id clamp_interval_id positive_or_id non_negative_or_id fmax_zero_id
        min_absorb1)
qed

lemma positive_planner_defaults:
  "list_all positive (PlannerConfig.steps_per_mm PlannerConfig_default)"
  "list_all positive (PlannerConfig.max_rate_mm_min PlannerConfig_default)"
  "list_all positive (PlannerConfig.accel_mm_s2 PlannerConfig_default)"
  "positive (PlannerConfig.arc_tolerance_mm PlannerConfig_default)"
  "non_negative (PlannerConfig.junction_deviation_mm PlannerConfig_default)"
  by code_simp+

lemma positive_defaults:
  "positive DEFAULT_HOMING_FEED_MM_MIN" "positive DEFAULT_HOMING_SEEK_MM_MIN" "positive DEFAULT_SPINDLE_RPM_MAX"
  "positive DEFAULT_MAX_TRAVEL_MM" "positive R_SENSE_ADAFRUIT_6121_OHMS"
  "non_negative DEFAULT_SPINDLE_ON_DELAY_S" "non_negative DEFAULT_SPINDLE_REVERSE_DWELL_S"
  "not_below_zero DEFAULT_HOMING_PULLOFF_MM" "not_below_zero f32_zero"
  by code_simp+

lemma length_planner_defaults:
  "length (PlannerConfig.steps_per_mm PlannerConfig_default) = AXES"
  "length (PlannerConfig.max_rate_mm_min PlannerConfig_default) = AXES"
  "length (PlannerConfig.accel_mm_s2 PlannerConfig_default) = AXES"
  by (simp_all add: PlannerConfig_default_def AXES_def)

lemmas default_axes = positive_planner_defaults(1-3) [unfolded list_all_length length_planner_defaults, rule_format]

lemma sanitized_is_in_range: "settings_in_range (sanitized lm s)"
proof -
  have "scalars_ok (sanitized lm s)"
    by (simp add: scalars_ok_def sanitized_def Let_def clamp_word_ok clamp_interval_ok)
  moreover have "floats_ok (sanitized lm s)"
    by (simp add: floats_ok_def sanitized_def Let_def Settings_default_def TmcConfig_default_def
        positive_or_ok non_negative_or_ok fmax_zero_ok positive_defaults positive_planner_defaults)
  moreover have "axes_ok (sanitized lm s)"
    by (auto simp: axes_ok_def sanitized_def Let_def Settings_default_def clamp_microsteps_ok
        intro!: four_per_axis positive_or_ok default_axes positive_defaults)
  ultimately show ?thesis by (simp add: settings_in_range_def)
qed

lemma sanitized_bits: "bits_ok (sanitized lm s)"
  by (simp add: bits_ok_def sanitized_def Let_def homing_enabled_def)

lemma sanitized_fixed_iff: "sanitized lm s = s \<longleftrightarrow> settings_in_range s \<and> bits_ok s"
proof
  show "settings_in_range s \<and> bits_ok s" if "sanitized lm s = s"
    using that sanitized_is_in_range [of lm s] sanitized_bits [of lm s] by simp
  show "sanitized lm s = s" if "settings_in_range s \<and> bits_ok s"
    using that by (auto simp: sanitized_in_range bits_ok_def)
qed

lemma ticks_default: "roundf lm (f32_of_int 10) = f32_of_int 10 \<Longrightarrow> ticks_to_us lm 10 million = 10"
proof -
  have "fdiv (fmul (f32_of_int 10) million) million = f32_of_int 10" "f32_to_u32 (f32_of_int 10) = 10"
    by code_simp+
  then show "roundf lm (f32_of_int 10) = f32_of_int 10 \<Longrightarrow> ticks_to_us lm 10 million = 10"
    by (simp add: ticks_to_us_def)
qed

lemma default_travel: "list_all positive (replicate n DEFAULT_MAX_TRAVEL_MM)"
  by (simp add: list_all_iff positive_defaults)

lemma default_in_range:
  assumes "roundf lm (f32_of_int 10) = f32_of_int 10"
  shows "settings_in_range (Settings_default lm)" and "bits_ok (Settings_default lm)"
proof -
  have "scalars_ok (Settings_default lm)"
    by (simp add: scalars_ok_def Settings_default_def Let_def MotionConfig_default_def ticks_default [OF assms]
        interval_ok_def DEFAULT_AUTO_REPORT_INTERVAL_MS_def TmcConfig_default_def)
  moreover have "floats_ok (Settings_default lm)"
    by (simp add: floats_ok_def Settings_default_def Let_def TmcConfig_default_def positive_defaults
        positive_planner_defaults)
  moreover have "axes_ok (Settings_default lm)"
    by (simp add: axes_ok_def Settings_default_def Let_def TmcConfig_default_def positive_defaults
        positive_planner_defaults four_def length_planner_defaults default_travel per_axis_def AXES_def upt_rec
        MAX_MOTOR_CURRENT_MA_def valid_microsteps_def)
  ultimately show "settings_in_range (Settings_default lm)" by (simp add: settings_in_range_def)
  show "bits_ok (Settings_default lm)"
    by (simp add: bits_ok_def Settings_default_def Let_def PlannerConfig_default_def DEFAULT_ROTARY_MASK_def A_AXIS_def)
qed

lemma exact_round_10: "roundf exact_libm (f32_of_int 10) = f32_of_int 10"
  by code_simp

section \<open>The setter\<close>

lemma checked_ok [simp]: "checked ok r = Inr x \<longleftrightarrow> r = Inr x \<and> ok x"
  by (auto simp: checked_def split: sum.splits)

lemma store_ok [simp]: "store r f s = (s', Inr u) \<longleftrightarrow> (\<exists>x. r = Inr x \<and> s' = f x s)"
  by (auto simp: store_def split: sum.splits)

lemma store_err [simp]: "store r f s = (s', Inl e) \<longleftrightarrow> r = Inl e \<and> s' = s"
  by (auto simp: store_def split: sum.splits)

named_theorems parse_defs \<open>the range checks of the setter\<close>

lemmas [parse_defs] = parse_auto_report_interval_def parse_step_pulse_us_def parse_f32_non_negative_def
  parse_f32_positive_def parse_current_ma_def parse_microsteps_def

lemma fle_not_below: "is_finite x \<Longrightarrow> fle f32_zero x \<Longrightarrow> not_below_zero x"
  by (cases x) (auto simp: not_below_zero_def is_nan_def is_finite_def fle_def signed_def split: if_splits)

lemma apply_in_range:
  assumes "parse_and_apply field axis v s = (s', Inr u)" and "settings_in_range s"
  shows "settings_in_range s'"
proof -
  have "scalars_ok s'"
    using assms by (cases field; clarsimp simp: parse_defs settings_in_range_def; simp add: scalars_ok_def interval_ok_def)
  moreover have "floats_ok s'"
    using assms by (cases field; clarsimp simp: parse_defs settings_in_range_def;
      simp add: floats_ok_def positive_def non_negative_def fle_not_below)
  moreover have "axes_ok s'"
    using assms by (cases field; clarsimp simp: parse_defs settings_in_range_def; simp add: axes_ok_def positive_def four_update)
  ultimately show ?thesis by (simp add: settings_in_range_def)
qed

lemma apply_err: "parse_and_apply field axis v s = (s', Inl e) \<Longrightarrow> s' = s"
  by (cases field) simp_all

section \<open>The lookup\<close>

definition span_fits :: "SettingDescriptor \<Rightarrow> bool"
  where "span_fits d \<longleftrightarrow> unat (sd_number d) + axis_span (sd_field d) < 65536"

lemma axis_span_cases: "axis_span field = 1 \<or> axis_span field = AXES"
  by (cases field) (simp_all add: axis_span_def)

lemma in_span:
  assumes "span_fits d"
  shows "sd_number d \<le> n \<and> n < sd_number d + of_nat (axis_span (sd_field d)) \<longleftrightarrow>
    (\<exists>a < axis_span (sd_field d). n = sd_number d + of_nat a)" (is "?l \<longleftrightarrow> ?r")
proof -
  let ?k = "axis_span (sd_field d)"
  have of: "unat (sd_number d + of_nat a) = unat (sd_number d) + a" if "a \<le> ?k" for a
    using that assms by (simp add: span_fits_def unat_word_ariths unat_of_nat take_bit_nat_eq_self)
  have "?l \<longleftrightarrow> unat (sd_number d) \<le> unat n \<and> unat n < unat (sd_number d) + ?k"
    by (simp add: word_le_nat_alt word_less_nat_alt of)
  also have "\<dots> \<longleftrightarrow> (\<exists>a < ?k. unat n = unat (sd_number d) + a)"
    by (metis add_less_cancel_left le_add1 le_Suc_ex)
  also have "\<dots> \<longleftrightarrow> ?r"
    by (metis of less_imp_le word_unat_eq_iff)
  finally show ?thesis .
qed

lemma numbers_of_iff: "span_fits d \<Longrightarrow>
    n \<in> set (numbers_of d) \<longleftrightarrow> sd_number d \<le> n \<and> n < sd_number d + of_nat (axis_span (sd_field d))"
  by (subst in_span) (auto simp: numbers_of_def)

lemma find_descriptor_None:
  "list_all span_fits ds \<Longrightarrow> find_descriptor n ds = None \<longleftrightarrow> n \<notin> set (concat (map numbers_of ds))"
  by (induction ds) (simp_all add: numbers_of_iff)

lemma find_descriptor_Some:
  assumes "find_descriptor n ds = Some (d, a)" and "list_all span_fits ds"
  shows "d \<in> set ds \<and> a < axis_span (sd_field d) \<and> n = sd_number d + of_nat a"
  using assms
proof (induction ds)
  case (Cons e ds)
  show ?case
  proof (cases "n \<in> set (numbers_of e)")
    case True
    with Cons.prems have e: "e = d" "unat (n - sd_number d) = a" "span_fits d" by (auto simp: numbers_of_iff)
    with True obtain b where "b < axis_span (sd_field d)" "n = sd_number d + of_nat b" by (auto simp: numbers_of_def)
    with e show ?thesis by (auto simp: span_fits_def unat_of_nat take_bit_nat_eq_self)
  next
    case False
    with Cons show ?thesis by (auto simp: numbers_of_iff split: if_splits)
  qed
qed simp

lemma descriptors_fit: "list_all span_fits SETTING_DESCRIPTORS"
  by (simp add: SETTING_DESCRIPTORS_def DESCRIPTORS_PORTS_def DESCRIPTORS_HOMING_def DESCRIPTORS_SPINDLE_AXES_def
      descriptor_def span_fits_def axis_span_def AXES_def)

lemma lookup_None: "lookup_descriptor n = None \<longleftrightarrow> n \<notin> set SETTING_NUMBERS"
  by (simp only: lookup_descriptor_def SETTING_NUMBERS_def find_descriptor_None [OF descriptors_fit])

lemma lookup_Some:
  "lookup_descriptor n = Some (d, a) \<Longrightarrow>
    d \<in> set SETTING_DESCRIPTORS \<and> a < axis_span (sd_field d) \<and> n = sd_number d + of_nat a"
  unfolding lookup_descriptor_def by (rule find_descriptor_Some [OF _ descriptors_fit])

lemma soft_limits_number: "d \<in> set SETTING_DESCRIPTORS \<Longrightarrow> sd_field d = SoftLimitsEnable \<Longrightarrow> sd_number d = 20"
  by (auto simp: SETTING_DESCRIPTORS_def DESCRIPTORS_PORTS_def DESCRIPTORS_HOMING_def DESCRIPTORS_SPINDLE_AXES_def
      descriptor_def)

lemma set_command_ok:
  assumes "set_command n v s = (s', Inr u)"
  obtains d axis where "lookup_descriptor n = Some (d, axis)" "soft_limits_guard (sd_field d) (trim v) s = Inr ()"
    "parse_and_apply (sd_field d) axis (trim v) s = (s', Inr u)"
  using assms by (auto simp: set_command_def Let_def split: option.splits prod.splits sum.splits)

end
