(* ===== verification/Settings_Props.thy ===== *)
theory Settings_Props
  imports Settings_Facts Wire_Props
begin

text \<open>
  The settings as a whole: what an accepted and a rejected write do, the \<^verbatim>\<open>$$\<close> dump against the setter,
  and the persisted record against the loader and the chunked receiver.
\<close>

section \<open>Writes\<close>

text \<open>
  C32: A write that the setter accepts on settings the sanitizer leaves alone is left alone by the
  sanitizer too, with exactly two exceptions: bits of the rotary mask other than the A axis are cleared,
  and soft limits are switched off when the write switched homing off.
\<close>
theorem accepted_write_survives_sanitizer:
  assumes "sanitized lm s = s" and "set_command n v s = (s', Inr ())"
  shows "sanitized lm s' = s'\<lparr>soft_limits_enable := soft_limits_enable s' \<and> homing_enabled s',
    rotary_mask := rotary_mask s' AND DEFAULT_ROTARY_MASK\<rparr>"
proof -
  have "settings_in_range s" using assms(1) by (simp add: sanitized_fixed_iff)
  with assms(2) have "settings_in_range s'" by (auto elim: set_command_ok dest: apply_in_range)
  then show ?thesis by (rule sanitized_in_range)
qed

lemma lookup_rotary: "lookup_descriptor 376 = Some (DESCRIPTORS_SPINDLE_AXES ! 11, 0)"
  by (simp add: lookup_descriptor_def SETTING_DESCRIPTORS_def DESCRIPTORS_PORTS_def DESCRIPTORS_HOMING_def
      DESCRIPTORS_SPINDLE_AXES_def descriptor_def axis_span_def AXES_def)

lemma write_rotary_255:
  "set_command 376 ''255'' s = (s\<lparr>rotary_mask := 255\<rparr>, Inr ())"
proof -
  have "trim ''255'' = ''255''" "parse_unsigned 0xFF ''255'' = Some 255" by code_simp+
  then show ?thesis
    by (simp add: set_command_def lookup_rotary DESCRIPTORS_SPINDLE_AXES_def descriptor_def soft_limits_guard_def
        parse_u8_value_def parse_uint_def store_def)
qed

theorem accepted_write_survives_sanitizer_witness:
  "\<exists>s' s. sanitized exact_libm s = s \<and> set_command 376 ''255'' s = (s', Inr ()) \<and> rotary_mask s' = 255 \<and>
    rotary_mask (sanitized exact_libm s') = 8"
proof -
  let ?s = "Settings_default exact_libm"
  have fix_: "sanitized exact_libm ?s = ?s"
    using default_in_range [OF exact_round_10] by (simp add: sanitized_fixed_iff)
  from accepted_write_survives_sanitizer [OF fix_ write_rotary_255]
  have "rotary_mask (sanitized exact_libm (?s\<lparr>rotary_mask := 255\<rparr>)) = 8"
    by (simp add: DEFAULT_ROTARY_MASK_def A_AXIS_def)
  with fix_ write_rotary_255 show ?thesis by (intro exI [of _ "?s\<lparr>rotary_mask := 255\<rparr>"] exI [of _ ?s]) simp
qed

text \<open>
  A rejected write changes nothing; the number is reported unknown exactly when it is not one of the
  setting numbers of the dump, and the soft-limit refusal is given only for a write of setting 20 with
  homing off.
\<close>
theorem rejected_write_changes_nothing:
  assumes "set_command n v s = (s', Inl e)"
  shows "s' = s \<and> (e = UnknownSetting \<longleftrightarrow> n \<notin> set SETTING_NUMBERS) \<and>
    (e = SoftLimitsNeedHoming \<longrightarrow> n = 20 \<and> \<not> homing_enabled s)"
proof -
  note split_all = option.splits prod.splits sum.splits
  have same: "s' = s"
    using assms by (auto simp: set_command_def Let_def dest: apply_err split: split_all)
  have parse_e: "parse_and_apply field axis v s \<noteq> (s', Inl UnknownSetting) \<and>
      parse_and_apply field axis v s \<noteq> (s', Inl SoftLimitsNeedHoming)" for field axis v
    by (cases field) (auto simp: parse_defs checked_def parse_uint_def parse_float_def parse_bool_def
        parse_u8_value_def parse_u32_value_def split: sum.splits option.splits if_splits)
  have guard_e: "soft_limits_guard field v s = Inl e' \<Longrightarrow> e' \<noteq> UnknownSetting \<and>
      (e' = SoftLimitsNeedHoming \<longrightarrow> field = SoftLimitsEnable \<and> \<not> homing_enabled s)" for field v e'
    by (auto simp: soft_limits_guard_def parse_bool_def split: sum.splits if_splits)
  have "e = UnknownSetting \<longleftrightarrow> n \<notin> set SETTING_NUMBERS"
    unfolding lookup_None [symmetric] using assms parse_e guard_e
    by (auto simp: set_command_def Let_def split: split_all)
  moreover have "e = SoftLimitsNeedHoming \<Longrightarrow> n = 20 \<and> \<not> homing_enabled s"
    using assms parse_e guard_e
    by (fastforce simp: set_command_def Let_def axis_span_def dest!: lookup_Some dest: soft_limits_number
        split: split_all)
  ultimately show ?thesis using same by blast
qed

theorem rejected_write_changes_nothing_witness:
  "set_command 999 ''1'' (Settings_default exact_libm) = (Settings_default exact_libm, Inl UnknownSetting) \<and>
    999 \<notin> set SETTING_NUMBERS"
proof -
  have "lookup_descriptor 999 = None"
    by (simp add: lookup_descriptor_def SETTING_DESCRIPTORS_def DESCRIPTORS_PORTS_def DESCRIPTORS_HOMING_def
      DESCRIPTORS_SPINDLE_AXES_def descriptor_def axis_span_def AXES_def)
  then have "set_command 999 ''1'' (Settings_default exact_libm) = (Settings_default exact_libm, Inl UnknownSetting)"
    by (simp add: set_command_def Let_def)
  with rejected_write_changes_nothing [OF this] show ?thesis by blast
qed

section \<open>The dump against the setter\<close>

definition is_float :: "Field \<Rightarrow> bool"
  where "is_float field \<longleftrightarrow> field \<in> {JunctionDeviationMm, ArcToleranceMm, HomingFeedMmMin, HomingSeekMmMin,
    HomingPulloffMm, SpindleRpmMax, SpindleRpmMin, SpindleOnDelayS, SpindleReverseDwellS, StepsPerMm,
    MaxRateMmMin, AccelMmS2, MaxTravelMm}"

lemma parse_uint_dec: "unat x \<le> hi \<Longrightarrow> parse_uint hi (dec (unat x)) = Inr x"
  by (simp add: parse_uint_def)

lemma unat_u32_le: "unat (w :: u32) \<le> 0xFFFFFFFF"
  using unsigned_less [of w, where 'a = nat] by simp

lemma bool8_dec: "of_bool8 b = dec (if b then 1 else 0)"
proof -
  have "char_of (49 :: nat) = CHR ''1''" "char_of (48 :: nat) = CHR ''0''" by code_simp+
  then show ?thesis by (simp add: of_bool8_def dec.simps [of 0] dec.simps [of "Suc 0"] dec_digit_def)
qed

lemma parse_bool_of: "parse_bool (of_bool8 b) = Inr b"
  by (simp add: parse_bool_def parse_u32_value_def parse_uint_def bool8_dec)

lemma scalar_reads_back:
  assumes "scalars_ok s" and "\<not> is_float field" and "field \<noteq> RunCurrentMa" and "field \<noteq> Microsteps"
  shows "parse_and_apply field axis (field_text show3 s field axis) s = (s, Inr ())"
proof -
  note u = parse_uint_dec [OF unat_u8_le] parse_uint_dec [OF unat_u32_le] parse_u8_value_def parse_u32_value_def
  have p: "parse_step_pulse_us (dec (unat (step_pulse_us s))) = Inr (step_pulse_us s)"
      "parse_auto_report_interval (dec (unat (auto_report_interval_ms s))) = Inr (auto_report_interval_ms s)"
    using assms(1) by (simp_all add: parse_defs scalars_ok_def interval_ok_def u del: checked_ok) (simp_all add: checked_def)
  show ?thesis using assms(2-4) by (cases field; simp add: store_def u p parse_bool_of is_float_def)
qed

lemma axis_reads_back:
  assumes "axes_ok s" and "axis < AXES" and "field = RunCurrentMa \<or> field = Microsteps"
  shows "parse_and_apply field axis (field_text show3 s field axis) s = (s, Inr ())"
proof -
  have "run_current_ma s ! axis \<le> MAX_MOTOR_CURRENT_MA" "microsteps s ! axis \<in> set valid_microsteps"
    using assms(1,2) by (auto simp: axes_ok_def dest: fourD)
  then have "parse_current_ma (dec (unat (run_current_ma s ! axis))) = Inr (run_current_ma s ! axis)"
      "parse_microsteps (dec (unat (microsteps s ! axis))) = Inr (microsteps s ! axis)"
    by (simp_all add: parse_defs checked_def parse_uint_dec unat_u16_le)
  then show ?thesis using assms(3) by (auto simp: store_def)
qed

lemma text_reads_back:
  assumes "settings_in_range s" and "\<not> is_float field" and "axis < axis_span field"
  shows "parse_and_apply field axis (field_text show3 s field axis) s = (s, Inr ())"
proof (cases "field = RunCurrentMa \<or> field = Microsteps")
  case True
  with assms(3) have "axis < AXES" by (auto simp: axis_span_def)
  with True show ?thesis using assms(1) by (intro axis_reads_back) (simp_all add: settings_in_range_def)
next
  case False
  with assms show ?thesis by (intro scalar_reads_back) (simp_all add: settings_in_range_def)
qed

lemma field_text_visible: "\<not> is_float field \<Longrightarrow> trim (field_text show3 s field axis) = field_text show3 s field axis"
  by (cases field) (simp_all add: is_float_def bool8_dec)

lemma length_dec: "n < 10 ^ k \<Longrightarrow> 0 < k \<Longrightarrow> length (dec n) \<le> k"
proof (induction k arbitrary: n)
  case (Suc k)
  show ?case
  proof (cases "n < 10")
    case True
    then show ?thesis by (subst dec.simps) simp
  next
    case False
    with Suc.prems have "n div 10 < 10 ^ k" "0 < k"
      by (auto simp: less_mult_imp_div_less mult.commute intro: gr0I)
    then have "length (dec (n div 10)) \<le> k" by (rule Suc.IH)
    with False show ?thesis by (subst dec.simps) simp
  qed
qed simp

lemma length_dec_word:
  "length (dec (unat (a :: u8))) \<le> 10" "length (dec (unat (b :: u16))) \<le> 10" "length (dec (unat (c :: u32))) \<le> 10"
  using unat_u8_le [of a] unat_u16_le [of b] unat_u32_le [of c] by (intro length_dec; simp)+

lemma field_text_short: "\<not> is_float field \<Longrightarrow> length (field_text show3 s field axis) \<le> 10"
  by (cases field) (simp_all add: is_float_def length_dec_word of_bool8_def)

text \<open>
  For every setting that is not a float, on settings the sanitizer leaves alone, the dump writes one
  line \<^verbatim>\<open>$n=value\<close> into a response buffer, and writing that value back through the setter is accepted and
  changes nothing.
\<close>
theorem dumped_line_reads_back:
  assumes "sanitized lm s = s" and "lookup_descriptor n = Some (d, axis)" and "\<not> is_float (sd_field d)"
  shows "\<exists>v. write_setting_line show3 RESPONSE_CAPACITY s n [] = (''$'' @ dec (unat n) @ ''='' @ v, True) \<and>
    set_command n v s = (s, Inr ())"
proof -
  let ?v = "field_text show3 s (sd_field d) axis"
  have r: "settings_in_range s" "bits_ok s" using assms(1) by (simp_all add: sanitized_fixed_iff)
  have "length (dec (unat n)) \<le> 5" using unat_u16_le [of n] by (intro length_dec) simp_all
  with field_text_short [OF assms(3), of show3 s axis]
  have "write_setting_line show3 RESPONSE_CAPACITY s n [] = (''$'' @ dec (unat n) @ ''='' @ ?v, True)"
    by (simp add: write_setting_line_def assms(2) format_field_def write_fmt_def RESPONSE_CAPACITY_def write_all_ok
        del: write_all.simps)
  moreover have "soft_limits_guard (sd_field d) ?v s = Inr ()"
    using r(2) by (auto simp: soft_limits_guard_def parse_bool_of bits_ok_def)
  then have "set_command n ?v s = (s, Inr ())"
    using text_reads_back [OF r(1) assms(3) conjunct1 [OF conjunct2 [OF lookup_Some [OF assms(2)]]]]
    by (simp add: set_command_def assms(2) field_text_visible [OF assms(3)])
  ultimately show ?thesis by blast
qed

theorem dumped_line_reads_back_witness:
  "\<exists>v. write_setting_line (\<lambda>_. []) RESPONSE_CAPACITY (Settings_default exact_libm) 376 [] =
      (''$'' @ dec 376 @ ''='' @ v, True) \<and>
    set_command 376 v (Settings_default exact_libm) = (Settings_default exact_libm, Inr ())"
  using dumped_line_reads_back [of exact_libm "Settings_default exact_libm", OF _ lookup_rotary]
    default_in_range [OF exact_round_10]
  by (simp add: sanitized_fixed_iff DESCRIPTORS_SPINDLE_AXES_def descriptor_def is_float_def)

section \<open>Edges of the table and of the sanitizer\<close>

lemma infinite_pulloff_is_kept: "homing_pulloff_mm s = FInf False \<Longrightarrow> homing_pulloff_mm (sanitized lm s) = FInf False"
  by (simp add: sanitized_def Let_def fmax_def is_nan_def)

lemma axis_groups_own_four_numbers:
  "d \<in> set SETTING_DESCRIPTORS \<Longrightarrow> sd_field d = StepsPerMm \<Longrightarrow> numbers_of d = [100, 101, 102, 103]"
  by (auto simp: SETTING_DESCRIPTORS_def DESCRIPTORS_PORTS_def DESCRIPTORS_HOMING_def DESCRIPTORS_SPINDLE_AXES_def
      descriptor_def numbers_of_def axis_span_def AXES_def upt_rec)

lemma homing_off_leaves_soft_limits_on:
  assumes "soft_limits_enable s"
  shows "\<exists>s'. set_command 22 ''0'' s = (s', Inr ()) \<and> soft_limits_enable s' \<and> \<not> homing_enabled s'"
proof -
  have "lookup_descriptor 22 = Some (DESCRIPTORS_HOMING ! 2, 0)"
    by (simp add: lookup_descriptor_def SETTING_DESCRIPTORS_def DESCRIPTORS_PORTS_def DESCRIPTORS_HOMING_def
        descriptor_def axis_span_def AXES_def)
  moreover have "trim ''0'' = ''0''" "parse_unsigned 0xFF ''0'' = Some 0" by code_simp+
  ultimately have "set_command 22 ''0'' s = (s\<lparr>homing_flags := 0\<rparr>, Inr ())"
    by (simp add: set_command_def DESCRIPTORS_HOMING_def descriptor_def soft_limits_guard_def parse_u8_value_def
        parse_uint_def store_def)
  with assms show ?thesis by (simp add: homing_enabled_def)
qed

end
