(* ===== verification/Settings_Store_Props.thy ===== *)
theory Settings_Store_Props
  imports Settings_Facts
begin

text \<open>
  The persisted settings: the loader never yields unusable settings, a stored record loads back as its
  sanitized settings, and a record sent as hex text in chunks arrives whole.
\<close>

section \<open>Loading\<close>

lemma decode_is_sanitized: "settings_decode lm pb bytes = Inr s \<Longrightarrow> sanitized lm s = s"
  using sanitized_is_in_range sanitized_bits
  by (auto simp: settings_decode_def sanitized_fixed_iff split: sum.splits option.splits)

lemma load_cases:
  obtains (absent) w' e where "store_load st SETTINGS_FRAME_MAX_LEN w = (w', Inl e)"
      "load_reporting lm pb st w = (w', Settings_default lm, DefaultedAbsent)"
  | (corrupt) w' bytes e where "store_load st SETTINGS_FRAME_MAX_LEN w = (w', Inr bytes)" "settings_decode lm pb bytes = Inl e"
      "load_reporting lm pb st w = (w', Settings_default lm, DefaultedCorrupt)"
  | (loaded) w' bytes s where "store_load st SETTINGS_FRAME_MAX_LEN w = (w', Inr bytes)" "settings_decode lm pb bytes = Inr s"
      "load_reporting lm pb st w = (w', s, Loaded)"
proof (cases "store_load st SETTINGS_FRAME_MAX_LEN w")
  case (Pair w' r)
  then show thesis
    using absent corrupt loaded
    by (cases r; cases "settings_decode lm pb (projr r)") (auto simp: load_reporting_def)
qed

text \<open>
  C33: Whatever the store returns at boot - nothing, an error, a record cut short or overwritten, any bytes
  at all - the loaded settings are ones the sanitizer leaves alone; every field is within the range the setter
  enforces, except that a record can bring the homing pull-off \<^verbatim>\<open>$27\<close> or the least spindle speed \<^verbatim>\<open>$31\<close> in as
  positive infinity, the other fields being in range even then; and they are the defaults, all in range, unless
  the outcome is \<^verbatim>\<open>Loaded\<close>.
\<close>
theorem boot_settings_are_usable:
  assumes "roundf lm (f32_of_int 10) = f32_of_int 10"
    and "load_reporting lm pb st w = (w', s, outcome)"
  shows "sanitized lm s = s \<and> settings_in_range s \<and>
    (setter_in_range s \<or> homing_pulloff_mm s = FInf False \<or> spindle_rpm_min s = FInf False) \<and>
    (outcome \<noteq> Loaded \<longrightarrow> s = Settings_default lm \<and> setter_in_range s)"
proof -
  have "sanitized lm s = s \<and> (outcome \<noteq> Loaded \<longrightarrow> s = Settings_default lm)"
    using assms(2) default_in_range [OF assms(1)]
    by (cases rule: load_cases [of st w lm pb]) (auto simp: sanitized_fixed_iff dest: decode_is_sanitized [of lm pb])
  moreover have "setter_in_range (Settings_default lm)"
    using default_in_range [OF assms(1)] unfolding setter_in_range_def sanitized_fixed_iff
    by (simp add: Settings_default_def non_negative_def) code_simp?
  ultimately show ?thesis using in_range_or_infinite [of s] by (auto simp: sanitized_fixed_iff)
qed

definition garbage_store :: "unit record_store"
  where "garbage_store = \<lparr>store_load = \<lambda>_ w. (w, Inr [0x31, 0x53]), store_save = \<lambda>_ w. (w, Inr ())\<rparr>"

definition no_codec :: pb_codec
  where "no_codec = \<lparr>settings_size = \<lambda>_. 0, encode_settings = \<lambda>_. [], decode_settings = \<lambda>_. None\<rparr>"

theorem boot_settings_are_usable_witness:
  "load_reporting exact_libm no_codec garbage_store () = ((), Settings_default exact_libm, DefaultedCorrupt) \<and>
    sanitized exact_libm (Settings_default exact_libm) = Settings_default exact_libm"
proof -
  have "load_reporting exact_libm no_codec garbage_store () = ((), Settings_default exact_libm, DefaultedCorrupt)"
    by (simp add: load_reporting_def garbage_store_def settings_decode_def unframe_def FRAME_OVERHEAD_def)
  with boot_settings_are_usable [OF exact_round_10 this] show ?thesis by blast
qed

section \<open>The message\<close>

definition shaped :: "Settings \<Rightarrow> bool"
  where "shaped s \<longleftrightarrow> length (steps_per_mm s) = AXES \<and> length (max_rate_mm_min s) = AXES \<and> length (accel_mm_s2 s) = AXES \<and>
    length (max_travel_mm s) = AXES \<and> length (run_current_ma s) = AXES \<and> length (hold_current_ma s) = AXES \<and>
    length (microsteps s) = AXES"

lemma saturating_ucast [simp]:
  "saturating_u8 (ucast (x :: u8)) = x" "saturating_u16 (ucast (y :: u16)) = y"
proof -
  have "min (ucast x :: u32) 0xFF = ucast x" "min (ucast y :: u32) 0xFFFF = ucast y"
    using unat_u8_le [of x] unat_u16_le [of y]
    by (simp_all add: min_def word_le_nat_alt unsigned_ucast_eq take_bit_nat_eq_self)
  then have "saturating_u8 (ucast x) = ucast (ucast x :: u32)" "saturating_u16 (ucast y) = ucast (ucast y :: u32)"
    by (simp_all add: saturating_u8_def saturating_u16_def)
  moreover have "ucast (ucast x :: u32) = x" "ucast (ucast y :: u32) = y"
    by (intro bit_word_eqI; auto simp: bit_simps)+
  ultimately show "saturating_u8 (ucast x) = x" "saturating_u16 (ucast y) = y" by simp_all
qed

lemma four_elements: "length xs = AXES \<Longrightarrow> [xs ! 0, xs ! Suc 0, xs ! 2, xs ! 3] = xs"
  by (auto simp: AXES_def list_of_length_4)

lemma from_to_proto: "shaped s \<Longrightarrow> from_proto (to_proto s) = s"
  by (rule Settings.Settings.equality) (simp_all add: from_proto_def to_proto_def shaped_def A_AXIS_def four_elements)

text \<open>What the properties below ask of the generated codec, for the one message they are about.\<close>

definition codec_carries :: "pb_codec \<Rightarrow> PbSettings \<Rightarrow> bool"
  where "codec_carries pb m \<longleftrightarrow>
    decode_settings pb (encode_settings pb m) = Some m \<and> settings_size pb m = length (encode_settings pb m) \<and>
    settings_size pb m \<le> SETTINGS_MAX_LEN"

definition record_image :: "pb_codec \<Rightarrow> Settings \<Rightarrow> u8 list"
  where "record_image pb s = frame_image SETTINGS_MAGIC SETTINGS_SCHEMA_VERSION (encode_settings pb (to_proto s))"

lemma record_length:
  assumes "codec_carries pb (to_proto s)"
  shows "length (encode_settings pb (to_proto s)) \<le> 512" "length (record_image pb s) \<le> SETTINGS_FRAME_MAX_LEN"
  using assms by (simp_all add: codec_carries_def record_image_def SETTINGS_MAX_LEN_def SETTINGS_FRAME_MAX_LEN_def)

lemma encode_image:
  assumes "codec_carries pb (to_proto s)"
  shows "settings_encode pb SETTINGS_FRAME_MAX_LEN s out = (record_image pb s, Inr ())"
proof -
  let ?p = "encode_settings pb (to_proto s)"
  have "frame SETTINGS_FRAME_MAX_LEN SETTINGS_MAGIC SETTINGS_SCHEMA_VERSION (length ?p) out
      (push_slice SETTINGS_FRAME_MAX_LEN ?p) = (record_image pb s, Inr ())"
    using record_length [OF assms]
    by (subst frame_ok_iff) (simp add: record_image_def declared_image_length)
  with assms show ?thesis by (simp add: settings_encode_def codec_carries_def)
qed

lemma decode_image:
  assumes "shaped s" and "codec_carries pb (to_proto s)"
  shows "settings_decode lm pb (record_image pb s) = Inr (sanitized lm s)"
proof -
  have "unframe SETTINGS_MAGIC SETTINGS_SCHEMA_VERSION (record_image pb s) = Inr (encode_settings pb (to_proto s))"
    using record_length [OF assms(2)] by (simp add: record_image_def unframe_frame_image)
  with assms show ?thesis by (simp add: settings_decode_def codec_carries_def from_to_proto)
qed

text \<open>
  Settings stored through a record store that reads back what it saved load as \<^verbatim>\<open>Loaded\<close> and are the
  sanitized settings - the stored settings themselves when they were within their ranges - provided the
  generated codec decodes the message it encoded and keeps to its declared size.
\<close>
theorem stored_settings_load_back:
  assumes "shaped s" and "codec_carries pb (to_proto s)"
    and "store_settings pb st s w = (w', Inr ())"
    and "store_save st (record_image pb s) w = (w', Inr ()) \<Longrightarrow>
      store_load st SETTINGS_FRAME_MAX_LEN w' = (w'', Inr (record_image pb s))"
  shows "load_reporting lm pb st w' = (w'', sanitized lm s, Loaded)"
proof -
  from assms(3) have "store_save st (record_image pb s) w = (w', Inr ())"
    by (simp add: store_settings_def encode_image [OF assms(2)])
  then show ?thesis by (simp add: load_reporting_def assms(4) decode_image [OF assms(1,2)])
qed

text \<open>An instance: a memory that keeps the last record, and a codec of one byte for the default settings.\<close>

definition memory_store :: "u8 list record_store"
  where "memory_store = \<lparr>store_load = \<lambda>_ w. (w, Inr w), store_save = \<lambda>bytes _. (bytes, Inr ())\<rparr>"

definition one_byte_codec :: pb_codec
  where "one_byte_codec = \<lparr>settings_size = \<lambda>_. 1, encode_settings = \<lambda>_. [7],
    decode_settings = \<lambda>bytes. if bytes = [7] then Some (to_proto (Settings_default exact_libm)) else None\<rparr>"

lemma default_shaped: "shaped (Settings_default lm)"
  by (simp add: shaped_def Settings_default_def Let_def length_planner_defaults AXES_def)

lemma one_byte_carries: "codec_carries one_byte_codec (to_proto (Settings_default exact_libm))"
  by (simp add: codec_carries_def one_byte_codec_def SETTINGS_MAX_LEN_def)

theorem stored_settings_load_back_witness:
  "\<exists>w'. store_settings one_byte_codec memory_store (Settings_default exact_libm) [] = (w', Inr ()) \<and>
    load_reporting exact_libm one_byte_codec memory_store w' = (w', Settings_default exact_libm, Loaded)"
proof -
  let ?s = "Settings_default exact_libm" and ?img = "record_image one_byte_codec (Settings_default exact_libm)"
  have st: "store_settings one_byte_codec memory_store ?s [] = (?img, Inr ())"
    by (simp add: store_settings_def encode_image [OF one_byte_carries] memory_store_def)
  have "load_reporting exact_libm one_byte_codec memory_store ?img = (?img, sanitized exact_libm ?s, Loaded)"
    by (rule stored_settings_load_back [OF default_shaped one_byte_carries st]) (simp add: memory_store_def)
  moreover have "sanitized exact_libm ?s = ?s"
    using default_in_range [OF exact_round_10] by (simp add: sanitized_fixed_iff)
  ultimately show ?thesis using st by auto
qed

section \<open>The hex channel\<close>

definition hex_text :: "u8 list \<Rightarrow> string"
  where "hex_text bs = concat (map (\<lambda>b. [hex_digits ! unat (drop_bit 4 b), hex_digits ! unat (b AND 0x0F)]) bs)"

lemma hex_text_simps [simp]: "hex_text [] = []"
    "hex_text (b # bs) = hex_digits ! unat (drop_bit 4 b) # hex_digits ! unat (b AND 0x0F) # hex_text bs"
    "hex_text (bs @ ds) = hex_text bs @ hex_text ds"
  by (simp_all add: hex_text_def)

lemma length_hex_text [simp]: "length (hex_text bs) = 2 * length bs"
  by (induction bs) simp_all

lemma write_hex_text: "length out + 2 * length bs \<le> cap \<Longrightarrow> write_hex cap bs out = (out @ hex_text bs, True)"
  by (induction bs arbitrary: out) (simp_all add: push_char_def)

lemma write_hex_TrueD: "write_hex cap bs out = (t, True) \<Longrightarrow> t = out @ hex_text bs"
proof (induction bs arbitrary: out)
  case (Cons b bs)
  then have "write_hex cap bs (out @ [hex_digits ! unat (drop_bit 4 b), hex_digits ! unat (b AND 0x0F)]) = (t, True)"
    by (auto simp: push_char_def split: option.splits if_splits)
  from Cons.IH [OF this] show ?case by simp
qed simp

lemma hex_nibble_digit: "k < 16 \<Longrightarrow> hex_nibble (hex_digits ! k) = Inr (of_nat k)"
proof -
  have "\<forall>k \<in> set [0..<16]. hex_nibble (hex_digits ! k) = Inr (of_nat k)" by code_simp
  then show "k < 16 \<Longrightarrow> hex_nibble (hex_digits ! k) = Inr (of_nat k)" by simp
qed

lemma nibbles:
  "unat (drop_bit 4 (b :: u8)) < 16" "unat (b AND 0x0F) < 16" "push_bit 4 (drop_bit 4 b) OR (b AND 0x0F) = b"
proof -
  have m: "b AND 0x0F = take_bit 4 b" by (simp add: take_bit_eq_mask mask_eq_decr_exp)
  have "n div 2 ^ 4 < 16" if "n \<le> 255" for n :: nat using that by simp
  from this [OF unat_u8_le [of b, simplified]] show "unat (drop_bit 4 b) < 16"
    by (subst unat_drop_bit_eq, subst drop_bit_eq_div)
  show "unat (b AND 0x0F) < 16"
    unfolding m by (subst unsigned_take_bit_eq, subst take_bit_eq_mod) simp
  show "push_bit 4 (drop_bit 4 b) OR (b AND 0x0F) = b"
    unfolding m by (rule bit_word_eqI) (auto simp: bit_simps)
qed

lemma decode_pairs_text: "length out + length bs \<le> cap \<Longrightarrow> decode_pairs cap (hex_text bs) out = (out @ bs, Inr ())"
  by (induction bs arbitrary: out) (simp_all add: hex_nibble_digit nibbles)

lemma decode_hex_text: "length out + length bs \<le> cap \<Longrightarrow> decode_hex cap (hex_text bs) out = (out @ bs, Inr ())"
  by (simp add: decode_hex_def decode_pairs_text)

text \<open>Chunks of even length of a hex text are the hex texts of chunks of its bytes.\<close>

lemma even_prefix_text:
  assumes "hex_text bs = c @ rest" and "even (length c)"
  shows "c = hex_text (take (length c div 2) bs) \<and> rest = hex_text (drop (length c div 2) bs)"
  using assms
proof (induction bs arbitrary: c)
  case (Cons b bs)
  show ?case
  proof (cases c)
    case (Cons x c1)
    with Cons.prems obtain y c2 where c: "c = x # y # c2" "even (length c2)"
      by (cases c1) auto
    with Cons.prems(1) have "hex_text bs = c2 @ rest" by simp
    from Cons.IH [OF this c(2)] Cons.prems(1) c(1) show ?thesis by simp
  qed (use Cons.prems in simp)
qed simp

lemma chunks_of_text:
  "concat chunks = hex_text bs \<Longrightarrow> \<forall>c \<in> set chunks. even (length c) \<Longrightarrow>
    \<exists>bss. chunks = map hex_text bss \<and> concat bss = bs"
proof (induction chunks arbitrary: bs)
  case (Cons c chunks)
  let ?k = "length c div 2"
  from Cons.prems have c: "c = hex_text (take ?k bs)" "concat chunks = hex_text (drop ?k bs)"
    using even_prefix_text [of bs c "concat chunks"] by auto
  from Cons.IH [OF c(2)] Cons.prems(2) obtain bss where "chunks = map hex_text bss" "concat bss = drop ?k bs" by auto
  with c(1) show ?case by (intro exI [of _ "take ?k bs # bss"]) simp
qed (auto simp: hex_text_def intro: exI [of _ "[]"])

section \<open>Chunks of a record\<close>

definition receive :: "libm \<Rightarrow> pb_codec \<Rightarrow> PbReceiver \<Rightarrow> string \<Rightarrow> PbReceiver \<times> PbChunkResult list"
  where "receive lm pb r hex = (case accept_hex lm pb hex r of (r', x) \<Rightarrow> (r', [x]))"

lemma progress_of_prefix:
  assumes "codec_carries pb (to_proto s)" and "record_image pb s = pre @ post"
  shows "settings_progress pre = (if length pre < 7 then NeedMore else Total (length (record_image pb s)))"
proof (cases "length pre < 7")
  case False
  let ?p = "encode_settings pb (to_proto s)"
  let ?h = "frame_header SETTINGS_MAGIC SETTINGS_SCHEMA_VERSION (length ?p)"
  have len: "length ?p \<le> 512" by (rule record_length [OF assms(1)])
  have "record_image pb s = ?h @ ?p @ le_bytes 4 (crc32 (?h @ ?p))" by (simp add: record_image_def frame_image_def Let_def)
  from arg_cong [OF this, of "take 7"] assms(2) False have "take 7 pre = ?h" by simp
  then have pre: "pre = ?h @ drop 7 pre" by (metis append_take_drop_id)
  from len frame_header_fields [of "length ?p" SETTINGS_MAGIC SETTINGS_SCHEMA_VERSION "drop 7 pre"] False show ?thesis
    by (simp add: pre [symmetric] settings_progress_def frame_progress_def HEADER_LEN_def Let_def record_image_def FRAME_OVERHEAD_def
        SETTINGS_FRAME_MAX_LEN_def SETTINGS_MAX_LEN_def)
qed (simp add: settings_progress_def frame_progress_def HEADER_LEN_def)

lemma accept_part:
  assumes "codec_carries pb (to_proto s)" and "record_image pb s = buf @ bs @ post" and "post \<noteq> []"
  shows "accept_hex lm pb (hex_text bs) \<lparr>pb_buf = buf\<rparr> = (\<lparr>pb_buf = buf @ bs\<rparr>, ChunkNeedMore)"
proof -
  have "length buf + length bs < length (record_image pb s)" using assms(2,3) by simp
  with record_length(2) [OF assms(1)] progress_of_prefix [OF assms(1), of "buf @ bs" post] assms(2) show ?thesis
    by (simp add: accept_hex_def decode_hex_text)
qed

lemma accept_last:
  assumes "shaped s" and "codec_carries pb (to_proto s)" and "record_image pb s = buf @ bs"
  shows "accept_hex lm pb (hex_text bs) \<lparr>pb_buf = buf\<rparr> = (PbReceiver_new, Complete (sanitized lm s))"
proof -
  have "7 \<le> length (record_image pb s)" by (simp add: record_image_def FRAME_OVERHEAD_def)
  with record_length(2) [OF assms(2)] progress_of_prefix [OF assms(2), of "buf @ bs" "[]"] assms(3)
    decode_image [OF assms(1,2), of lm]
  show ?thesis by (simp add: accept_hex_def decode_hex_text PbReceiver_new_def Let_def)
qed

lemma receive_chunks:
  assumes "shaped s" and "codec_carries pb (to_proto s)"
  shows "record_image pb s = buf @ concat bss \<Longrightarrow> bss \<noteq> [] \<Longrightarrow> last bss \<noteq> [] \<Longrightarrow>
    run_steps (receive lm pb) \<lparr>pb_buf = buf\<rparr> (map hex_text bss) =
      (PbReceiver_new, replicate (length bss - 1) ChunkNeedMore @ [Complete (sanitized lm s)])"
proof (induction bss arbitrary: buf)
  case (Cons b bss)
  show ?case
  proof (cases "bss = []")
    case True
    with Cons.prems accept_last [OF assms, of buf b] show ?thesis by (simp add: receive_def)
  next
    case False
    then have "concat bss \<noteq> []" using Cons.prems(3) by (auto simp: last_in_set)
    with Cons.prems(1) accept_part [OF assms(2), of buf b "concat bss" lm]
    have "receive lm pb \<lparr>pb_buf = buf\<rparr> (hex_text b) = (\<lparr>pb_buf = buf @ b\<rparr>, [ChunkNeedMore])"
      by (simp add: receive_def)
    with Cons.IH [of "buf @ b"] Cons.prems False show ?thesis by (cases bss) simp_all
  qed
qed simp

text \<open>
  C34: The hex text of a stored record, cut into chunks of even length in any way, is received whole: every
  chunk but the last asks for more, the last one completes with the sanitized settings, and the receiver is
  empty again.
\<close>
theorem chunked_record_is_received:
  assumes "shaped s" and "codec_carries pb (to_proto s)"
    and "settings_encode pb SETTINGS_FRAME_MAX_LEN s [] = (bytes, Inr ())"
    and "write_hex cap bytes [] = (concat chunks, True)"
    and "\<forall>c \<in> set chunks. even (length c)" and "chunks \<noteq> []" and "last chunks \<noteq> []"
  shows "run_steps (receive lm pb) PbReceiver_new chunks =
    (PbReceiver_new, replicate (length chunks - 1) ChunkNeedMore @ [Complete (sanitized lm s)])"
proof -
  have bytes: "bytes = record_image pb s" using assms(3) encode_image [OF assms(2)] by simp
  from assms(4) have "concat chunks = hex_text (record_image pb s)" by (auto simp: bytes dest: write_hex_TrueD)
  with chunks_of_text assms(5) obtain bss where bss: "chunks = map hex_text bss" "concat bss = record_image pb s" by blast
  with assms(6,7) have "bss \<noteq> []" "last bss \<noteq> []" by (auto simp: last_map)
  with receive_chunks [OF assms(1,2), of "[]" bss lm] bss show ?thesis by (simp add: PbReceiver_new_def)
qed

theorem chunked_record_is_received_witness:
  "\<exists>txt bytes. settings_encode one_byte_codec SETTINGS_FRAME_MAX_LEN (Settings_default exact_libm) [] = (bytes, Inr ()) \<and>
    write_hex 64 bytes [] = (txt, True) \<and> length txt = 24 \<and>
    run_steps (receive exact_libm one_byte_codec) PbReceiver_new [take 10 txt, drop 10 txt] =
      (PbReceiver_new, [ChunkNeedMore, Complete (sanitized exact_libm (Settings_default exact_libm))])"
proof -
  let ?s = "Settings_default exact_libm"
  let ?b = "record_image one_byte_codec ?s"
  have len: "length ?b = 12" by (simp add: record_image_def one_byte_codec_def FRAME_OVERHEAD_def)
  have e: "settings_encode one_byte_codec SETTINGS_FRAME_MAX_LEN ?s [] = (?b, Inr ())"
    by (rule encode_image [OF one_byte_carries])
  have w: "write_hex 64 ?b [] = (hex_text ?b, True)" using len by (simp add: write_hex_text)
  have "run_steps (receive exact_libm one_byte_codec) PbReceiver_new [take 10 (hex_text ?b), drop 10 (hex_text ?b)] =
      (PbReceiver_new, replicate (length [take 10 (hex_text ?b), drop 10 (hex_text ?b)] - 1) ChunkNeedMore @
        [Complete (sanitized exact_libm ?s)])"
    using len by (intro chunked_record_is_received [OF default_shaped one_byte_carries e, of 64]) (simp_all add: w)
  with e w len show ?thesis by (intro exI [of _ "hex_text ?b"] exI [of _ ?b]) simp
qed

end
