(* ===== verification/Coords.thy ===== *)
theory Coords
  imports Settings_Store Gcode_Parser
begin

text \<open>
  \<^verbatim>\<open>crates/firmware-core/src/coords.rs\<close>: the work coordinate systems, the G92 and tool-length offsets and
  the predefined positions, with the one combined offset between work and machine coordinates, and their
  persisted record.  The codec generated from \<^verbatim>\<open>settings.proto\<close> is the record \<^verbatim>\<open>coords_codec\<close>.
\<close>

section \<open>The model\<close>

definition TLO_AXIS :: nat
  where "TLO_AXIS = 2"

record CoordinateSystems =
  c_offsets :: "f32 list list"
  c_active :: nat
  c_g92 :: "f32 list"
  c_tlo :: f32
  c_predefined :: "f32 list list"

definition origin :: "f32 list"
  where "origin = replicate AXES f32_zero"

definition CoordinateSystems_new :: CoordinateSystems
  where "CoordinateSystems_new =
    \<lparr>c_offsets = replicate WCS_COUNT origin, c_active = 0, c_g92 = origin, c_tlo = f32_zero,
     c_predefined = replicate PREDEFINED_COUNT origin\<rparr>"

definition wcs_offset :: "CoordinateSystems \<Rightarrow> nat \<Rightarrow> f32 list option"
  where "wcs_offset c index = (if index < length (c_offsets c) then Some (c_offsets c ! index) else None)"

definition predefined_position :: "CoordinateSystems \<Rightarrow> nat \<Rightarrow> f32 list option"
  where "predefined_position c index =
    (if index < length (c_predefined c) then Some (c_predefined c ! index) else None)"

definition wco :: "CoordinateSystems \<Rightarrow> f32 list"
  where "wco c =
    (let wcs = c_offsets c ! c_active c;
         sums = map (\<lambda>axis. fadd (wcs ! axis) (c_g92 c ! axis)) [0..<AXES]
     in sums[TLO_AXIS := fadd (sums ! TLO_AXIS) (c_tlo c)])"

definition work_to_machine :: "CoordinateSystems \<Rightarrow> f32 list \<Rightarrow> f32 list"
  where "work_to_machine c work = map (\<lambda>axis. fadd (work ! axis) (wco c ! axis)) [0..<AXES]"

definition machine_to_work :: "CoordinateSystems \<Rightarrow> f32 list \<Rightarrow> f32 list"
  where "machine_to_work c machine = map (\<lambda>axis. fsub (machine ! axis) (wco c ! axis)) [0..<AXES]"

section \<open>Mutators\<close>

definition select_wcs :: "nat \<Rightarrow> CoordinateSystems \<Rightarrow> CoordinateSystems"
  where "select_wcs index c = (if index < WCS_COUNT then c\<lparr>c_active := index\<rparr> else c)"

text \<open>A loop over the axes that overwrites the entries of a slot where a guard holds.\<close>

definition write_axes :: "(nat \<Rightarrow> bool) \<Rightarrow> (nat \<Rightarrow> 'a) \<Rightarrow> 'a list \<Rightarrow> 'a list"
  where "write_axes guard f slot = map (\<lambda>axis. if guard axis then f axis else slot ! axis) [0..<AXES]"

definition set_wcs_offset :: "nat \<Rightarrow> f32 list \<Rightarrow> bool list \<Rightarrow> CoordinateSystems \<Rightarrow> CoordinateSystems"
  where "set_wcs_offset index offset given c =
    (if index < length (c_offsets c)
     then c\<lparr>c_offsets := (c_offsets c)[index :=
       write_axes (\<lambda>axis. given ! axis \<and> is_finite (offset ! axis)) (\<lambda>axis. offset ! axis) (c_offsets c ! index)]\<rparr>
     else c)"

definition set_wcs_offset_to_position ::
    "nat \<Rightarrow> f32 list \<Rightarrow> f32 list \<Rightarrow> bool list \<Rightarrow> CoordinateSystems \<Rightarrow> CoordinateSystems"
  where "set_wcs_offset_to_position index machine work given c =
    (if index < length (c_offsets c)
     then c\<lparr>c_offsets := (c_offsets c)[index :=
       write_axes (\<lambda>axis. given ! axis \<and> is_finite (machine ! axis) \<and> is_finite (work ! axis))
         (\<lambda>axis. fsub (fsub (fsub (machine ! axis) (work ! axis)) (c_g92 c ! axis))
            (if axis = TLO_AXIS then c_tlo c else f32_zero))
         (c_offsets c ! index)]\<rparr>
     else c)"

definition set_g92_to_position :: "f32 list \<Rightarrow> f32 list \<Rightarrow> bool list \<Rightarrow> CoordinateSystems \<Rightarrow> CoordinateSystems"
  where "set_g92_to_position machine work given c =
    (let wcs = c_offsets c ! c_active c in
     c\<lparr>c_g92 := write_axes (\<lambda>axis. given ! axis \<and> is_finite (machine ! axis) \<and> is_finite (work ! axis))
       (\<lambda>axis. fsub (fsub (machine ! axis) (wcs ! axis)) (work ! axis)) (c_g92 c)\<rparr>)"

definition clear_g92 :: "CoordinateSystems \<Rightarrow> CoordinateSystems"
  where "clear_g92 c = c\<lparr>c_g92 := origin\<rparr>"

definition apply_tlo :: "f32 \<Rightarrow> CoordinateSystems \<Rightarrow> CoordinateSystems"
  where "apply_tlo x c = (if is_finite x then c\<lparr>c_tlo := x\<rparr> else c)"

definition cancel_tlo :: "CoordinateSystems \<Rightarrow> CoordinateSystems"
  where "cancel_tlo c = c\<lparr>c_tlo := f32_zero\<rparr>"

definition store_predefined :: "nat \<Rightarrow> f32 list \<Rightarrow> CoordinateSystems \<Rightarrow> CoordinateSystems"
  where "store_predefined index machine c =
    (if index < length (c_predefined c)
     then c\<lparr>c_predefined := (c_predefined c)[index :=
       write_axes (\<lambda>axis. is_finite (machine ! axis)) (\<lambda>axis. machine ! axis) (c_predefined c ! index)]\<rparr>
     else c)"

definition clear_volatile :: "CoordinateSystems \<Rightarrow> CoordinateSystems"
  where "clear_volatile c = cancel_tlo (clear_g92 c)"

definition clear_all :: "CoordinateSystems \<Rightarrow> CoordinateSystems"
  where "clear_all c = CoordinateSystems_new"

section \<open>The persistent subset\<close>

record CoordinatePersistent =
  cp_offsets :: "f32 list list"
  cp_active :: nat
  cp_predefined :: "f32 list list"

definition CoordinatePersistent_default :: CoordinatePersistent
  where "CoordinatePersistent_default =
    \<lparr>cp_offsets = replicate WCS_COUNT origin, cp_active = 0, cp_predefined = replicate PREDEFINED_COUNT origin\<rparr>"

definition load_persistent :: "CoordinatePersistent \<Rightarrow> CoordinateSystems \<Rightarrow> CoordinateSystems"
  where "load_persistent cp c =
    (let c = c\<lparr>c_offsets := cp_offsets cp, c_predefined := cp_predefined cp\<rparr> in
     if cp_active cp < WCS_COUNT then c\<lparr>c_active := cp_active cp\<rparr> else c)"

definition persistent :: "CoordinateSystems \<Rightarrow> CoordinatePersistent"
  where "persistent c =
    \<lparr>cp_offsets = c_offsets c, cp_active = c_active c, cp_predefined = c_predefined c\<rparr>"

record PbCoordinates =
  pb_active_wcs :: u32
  pb_g54_x :: f32
  pb_g54_y :: f32
  pb_g54_z :: f32
  pb_g55_x :: f32
  pb_g55_y :: f32
  pb_g55_z :: f32
  pb_g56_x :: f32
  pb_g56_y :: f32
  pb_g56_z :: f32
  pb_g57_x :: f32
  pb_g57_y :: f32
  pb_g57_z :: f32
  pb_g58_x :: f32
  pb_g58_y :: f32
  pb_g58_z :: f32
  pb_g59_x :: f32
  pb_g59_y :: f32
  pb_g59_z :: f32
  pb_g28_x :: f32
  pb_g28_y :: f32
  pb_g28_z :: f32
  pb_g30_x :: f32
  pb_g30_y :: f32
  pb_g30_z :: f32
  pb_g54_a :: f32
  pb_g55_a :: f32
  pb_g56_a :: f32
  pb_g57_a :: f32
  pb_g58_a :: f32
  pb_g59_a :: f32
  pb_g28_a :: f32
  pb_g30_a :: f32

record coords_codec =
  coordinates_size :: "PbCoordinates \<Rightarrow> nat"
  encode_coordinates :: "PbCoordinates \<Rightarrow> u8 list"
  decode_coordinates :: "u8 list \<Rightarrow> PbCoordinates option"

definition COORDINATES_MAX_LEN :: nat
  where "COORDINATES_MAX_LEN = 256"

definition COORDS_MAGIC :: u32
  where "COORDS_MAGIC = 0x47644331"

definition COORDS_SCHEMA_VERSION :: u8
  where "COORDS_SCHEMA_VERSION = 1"

definition COORDS_FRAME_MAX_LEN :: nat
  where "COORDS_FRAME_MAX_LEN = COORDINATES_MAX_LEN + FRAME_OVERHEAD"

definition coords_to_proto :: "CoordinatePersistent \<Rightarrow> PbCoordinates"
  where "coords_to_proto cp =
    \<lparr>pb_active_wcs = of_nat (cp_active cp),
     pb_g54_x = cp_offsets cp ! 0 ! 0,
     pb_g54_y = cp_offsets cp ! 0 ! 1,
     pb_g54_z = cp_offsets cp ! 0 ! 2,
     pb_g55_x = cp_offsets cp ! 1 ! 0,
     pb_g55_y = cp_offsets cp ! 1 ! 1,
     pb_g55_z = cp_offsets cp ! 1 ! 2,
     pb_g56_x = cp_offsets cp ! 2 ! 0,
     pb_g56_y = cp_offsets cp ! 2 ! 1,
     pb_g56_z = cp_offsets cp ! 2 ! 2,
     pb_g57_x = cp_offsets cp ! 3 ! 0,
     pb_g57_y = cp_offsets cp ! 3 ! 1,
     pb_g57_z = cp_offsets cp ! 3 ! 2,
     pb_g58_x = cp_offsets cp ! 4 ! 0,
     pb_g58_y = cp_offsets cp ! 4 ! 1,
     pb_g58_z = cp_offsets cp ! 4 ! 2,
     pb_g59_x = cp_offsets cp ! 5 ! 0,
     pb_g59_y = cp_offsets cp ! 5 ! 1,
     pb_g59_z = cp_offsets cp ! 5 ! 2,
     pb_g28_x = cp_predefined cp ! 0 ! 0,
     pb_g28_y = cp_predefined cp ! 0 ! 1,
     pb_g28_z = cp_predefined cp ! 0 ! 2,
     pb_g30_x = cp_predefined cp ! 1 ! 0,
     pb_g30_y = cp_predefined cp ! 1 ! 1,
     pb_g30_z = cp_predefined cp ! 1 ! 2,
     pb_g54_a = cp_offsets cp ! 0 ! A_AXIS,
     pb_g55_a = cp_offsets cp ! 1 ! A_AXIS,
     pb_g56_a = cp_offsets cp ! 2 ! A_AXIS,
     pb_g57_a = cp_offsets cp ! 3 ! A_AXIS,
     pb_g58_a = cp_offsets cp ! 4 ! A_AXIS,
     pb_g59_a = cp_offsets cp ! 5 ! A_AXIS,
     pb_g28_a = cp_predefined cp ! 0 ! A_AXIS,
     pb_g30_a = cp_predefined cp ! 1 ! A_AXIS\<rparr>"

definition coords_from_proto :: "PbCoordinates \<Rightarrow> CoordinatePersistent"
  where "coords_from_proto p =
    (let active = (if unat (pb_active_wcs p) < WCS_COUNT then unat (pb_active_wcs p) else 0) in
     \<lparr>cp_offsets =
        [[pb_g54_x p, pb_g54_y p, pb_g54_z p, pb_g54_a p],
         [pb_g55_x p, pb_g55_y p, pb_g55_z p, pb_g55_a p],
         [pb_g56_x p, pb_g56_y p, pb_g56_z p, pb_g56_a p],
         [pb_g57_x p, pb_g57_y p, pb_g57_z p, pb_g57_a p],
         [pb_g58_x p, pb_g58_y p, pb_g58_z p, pb_g58_a p],
         [pb_g59_x p, pb_g59_y p, pb_g59_z p, pb_g59_a p]],
      cp_active = active,
      cp_predefined =
        [[pb_g28_x p, pb_g28_y p, pb_g28_z p, pb_g28_a p],
         [pb_g30_x p, pb_g30_y p, pb_g30_z p, pb_g30_a p]]\<rparr>)"

definition coords_encode ::
    "coords_codec \<Rightarrow> nat \<Rightarrow> CoordinatePersistent \<Rightarrow> u8 list \<Rightarrow> (u8 list, CodecError, unit) outcome"
  where "coords_encode pb cap cp out =
    (let proto = coords_to_proto cp in
     frame cap COORDS_MAGIC COORDS_SCHEMA_VERSION (coordinates_size pb proto) out
       (push_slice cap (encode_coordinates pb proto)))"

definition coords_decode :: "coords_codec \<Rightarrow> u8 list \<Rightarrow> CodecError + CoordinatePersistent"
  where "coords_decode pb bytes =
    (case unframe COORDS_MAGIC COORDS_SCHEMA_VERSION bytes of
       Inl e \<Rightarrow> Inl e
     | Inr payload \<Rightarrow>
        (case decode_coordinates pb payload of
           None \<Rightarrow> Inl BadPayload
         | Some proto \<Rightarrow> Inr (coords_from_proto proto)))"

definition coords_load_or_default :: "coords_codec \<Rightarrow> 's record_store \<Rightarrow> 's \<Rightarrow> 's \<times> CoordinatePersistent"
  where "coords_load_or_default pb st w =
    (case store_load st COORDS_FRAME_MAX_LEN w of
       (w, Inr bytes) \<Rightarrow>
        (w, case coords_decode pb bytes of Inr cp \<Rightarrow> cp | Inl _ \<Rightarrow> CoordinatePersistent_default)
     | (w, Inl _) \<Rightarrow> (w, CoordinatePersistent_default))"

definition store_coordinates ::
    "coords_codec \<Rightarrow> 's record_store \<Rightarrow> CoordinatePersistent \<Rightarrow> 's \<Rightarrow> ('s, StoreError, unit) outcome"
  where "store_coordinates pb st cp w =
    (case coords_encode pb COORDS_FRAME_MAX_LEN cp [] of
       (_, Inl _) \<Rightarrow> (w, Inl TooLarge)
     | (bytes, Inr _) \<Rightarrow> store_save st bytes w)"

section \<open>Coordinate words\<close>

fun coords_units_scale :: "Units \<Rightarrow> f32"
  where
    "coords_units_scale Millimeter = f32_one"
  | "coords_units_scale Inch = MM_PER_INCH"

definition axis_values_mm :: "AxisWords \<Rightarrow> Units \<Rightarrow> u8 \<Rightarrow> f32 list \<times> bool list"
  where "axis_values_mm ax units rotary =
    (let linear_scale = coords_units_scale units;
         words = [ax_x ax, ax_y ax, ax_z ax, ax_a ax];
         value_at = (\<lambda>axis. case words ! axis of
             Some x \<Rightarrow> fmul x (if rotary AND push_bit axis 1 \<noteq> 0 then f32_one else linear_scale)
           | None \<Rightarrow> f32_zero)
     in (map value_at [0..<AXES], map (\<lambda>axis. words ! axis \<noteq> None) [0..<AXES]))"

end
