(* ===== verification/Coords_Props.thy ===== *)
theory Coords_Props
  imports Coords
begin

text \<open>
  The coordinate model: positions read back after they are set, the tables keep their shape under every
  operation, and the persistent subset survives a power cycle.
\<close>

section \<open>Positions on a grid\<close>

text \<open>
  Multiples of 1/1024 mm, on which the additions of the model are exact; \<^verbatim>\<open>at_grid x k\<close> says that \<^verbatim>\<open>x\<close> is
  \<^verbatim>\<open>k/1024\<close> (a zero of either sign).
\<close>

definition grid_unit :: int
  where "grid_unit = 2 ^ 139"

definition at_grid :: "f32 \<Rightarrow> int \<Rightarrow> bool"
  where "at_grid x k \<longleftrightarrow> (\<exists>s. x = FFin s (\<bar>k\<bar> * grid_unit) \<and> (if s then k \<le> 0 else 0 \<le> k))"

lemma grid_unit_pos [simp]: "0 < grid_unit" "grid_unit \<noteq> 0" "\<not> grid_unit < 0"
  by (simp_all add: grid_unit_def)

lemma pack_grid:
  assumes "0 \<le> k" and "k \<le> 16777216"
  shows "pack s (k * grid_unit) 1 = FFin s (k * grid_unit)"
proof -
  have "k * grid_unit \<le> 16777216 * grid_unit" using assms by simp
  then have "k * grid_unit < overflow_mag" "k * grid_unit < 2 ^ 512"
    by (simp_all add: grid_unit_def overflow_mag_def)
  moreover have "representable (k * grid_unit)" using assms unfolding representable_def grid_unit_def by blast
  ultimately show ?thesis by (simp add: pack_def round_mag_one)
qed

lemma of_units_grid:
  assumes "\<bar>k\<bar> \<le> 16777216"
  shows "at_grid (of_units z (k * grid_unit)) k"
proof (cases "k = 0")
  case False
  have "\<bar>k * grid_unit\<bar> = \<bar>k\<bar> * grid_unit" by (simp add: abs_mult abs_of_pos)
  with False assms show ?thesis by (simp add: of_units_def mult_less_0_iff pack_grid at_grid_def)
qed (simp add: of_units_def at_grid_def)

lemma at_grid_signed: "at_grid (FFin s m) k \<Longrightarrow> signed s m = k * grid_unit"
  by (cases s) (auto simp: at_grid_def)

lemma fadd_grid:
  assumes "at_grid x a" and "at_grid y b" and "\<bar>a + b\<bar> \<le> 16777216"
  shows "at_grid (fadd x y) (a + b)"
proof -
  from assms(1,2) obtain s m t n where xy: "x = FFin s m" "y = FFin t n" by (auto simp: at_grid_def)
  with assms(1,2) have "signed s m + signed t n = (a + b) * grid_unit"
    using at_grid_signed by (metis distrib_right)
  with xy of_units_grid [OF assms(3)] show ?thesis by simp
qed

lemma fneg_grid: "at_grid x a \<Longrightarrow> at_grid (fneg x) (- a)"
  by (cases x) (auto simp: at_grid_def)

lemma fsub_grid: "at_grid x a \<Longrightarrow> at_grid y b \<Longrightarrow> \<bar>a - b\<bar> \<le> 16777216 \<Longrightarrow> at_grid (fsub x y) (a - b)"
  using fadd_grid [of x a "fneg y" "- b"] fneg_grid [of y b] by (simp add: fsub_def)

lemma grid_finite: "at_grid x a \<Longrightarrow> is_finite x"
  by (auto simp: at_grid_def is_finite_def)

lemma grid_zero: "at_grid f32_zero 0"
  by (auto simp: at_grid_def intro: exI [of _ False])

section \<open>Shape\<close>

definition rows_ok :: "nat \<Rightarrow> 'a list list \<Rightarrow> bool"
  where "rows_ok n rows \<longleftrightarrow> length rows = n \<and> list_all (\<lambda>r. length r = AXES) rows"

definition coords_ok :: "CoordinateSystems \<Rightarrow> bool"
  where "coords_ok c \<longleftrightarrow> rows_ok WCS_COUNT (c_offsets c) \<and> c_active c < WCS_COUNT \<and> length (c_g92 c) = AXES \<and>
    rows_ok PREDEFINED_COUNT (c_predefined c)"

lemma length_write_axes [simp]: "length (write_axes guard f slot) = AXES"
  by (simp add: write_axes_def)

lemma nth_write_axes [simp]: "axis < AXES \<Longrightarrow> write_axes guard f slot ! axis = (if guard axis then f axis else slot ! axis)"
  by (simp add: write_axes_def)

lemma rows_ok_update: "rows_ok n rows \<Longrightarrow> length r = AXES \<Longrightarrow> rows_ok n (rows[i := r])"
  by (auto simp: rows_ok_def list_all_iff dest!: subsetD [OF set_update_subset_insert])

lemma coords_ok_new: "coords_ok CoordinateSystems_new"
  by (simp add: coords_ok_def CoordinateSystems_new_def rows_ok_def origin_def list_all_iff WCS_COUNT_def)

section \<open>Reading back\<close>

lemma wco_nth:
  "axis < AXES \<Longrightarrow> wco c ! axis =
    (if axis = TLO_AXIS then fadd (fadd (c_offsets c ! c_active c ! axis) (c_g92 c ! axis)) (c_tlo c)
     else fadd (c_offsets c ! c_active c ! axis) (c_g92 c ! axis))"
proof -
  have "TLO_AXIS < length (map (\<lambda>axis. fadd (c_offsets c ! c_active c ! axis) (c_g92 c ! axis)) [0..<AXES])"
    by (simp add: TLO_AXIS_def AXES_def)
  then show "axis < AXES \<Longrightarrow> wco c ! axis =
    (if axis = TLO_AXIS then fadd (fadd (c_offsets c ! c_active c ! axis) (c_g92 c ! axis)) (c_tlo c)
     else fadd (c_offsets c ! c_active c ! axis) (c_g92 c ! axis))"
    by (simp add: wco_def Let_def nth_list_update del: length_map)
qed

lemma machine_to_work_nth: "axis < AXES \<Longrightarrow> machine_to_work c machine ! axis = fsub (machine ! axis) (wco c ! axis)"
  by (simp add: machine_to_work_def)

lemma tlo_axis: "TLO_AXIS < AXES"
  by (simp add: TLO_AXIS_def AXES_def)

text \<open>
  C35: Positions and offsets within two metres that are multiples of 1/1024 mm.  After G10 L20 on any of the six
  systems, once that system is selected, the machine position reads exactly the commanded work position on every
  axis given, whatever G92 and tool-length offset are in force; no other system's offset, nor the selection, has
  changed.  After G92, in the system that is active, the position reads the commanded one on every axis given but
  the tool axis, where it reads the commanded position less the tool-length offset.
\<close>
theorem set_position_reads_back:
  assumes "coords_ok c" and "axis < AXES" and "given ! axis" and "index < WCS_COUNT"
    and "at_grid (machine ! axis) m" and "at_grid (work ! axis) w" and "at_grid (c_g92 c ! axis) g"
    and "at_grid (c_offsets c ! c_active c ! axis) k" and "at_grid (c_tlo c) t"
    and "\<bar>m\<bar> \<le> 2097152" "\<bar>w\<bar> \<le> 2097152" "\<bar>g\<bar> \<le> 2097152" "\<bar>k\<bar> \<le> 2097152" "\<bar>t\<bar> \<le> 2097152"
  shows "(let l = set_wcs_offset_to_position index machine work given c
     in at_grid (machine_to_work (select_wcs index l) machine ! axis) w \<and> c_active l = c_active c \<and>
        (\<forall>j < WCS_COUNT. j \<noteq> index \<longrightarrow> c_offsets l ! j = c_offsets c ! j)) \<and>
    at_grid (machine_to_work (set_g92_to_position machine work given c) machine ! axis)
      (if axis = TLO_AXIS then w - t else w)" (is "?L \<and> ?G")
proof -
  define tz where "tz = (if axis = TLO_AXIS then c_tlo c else f32_zero)"
  define tk where "tk = (if axis = TLO_AXIS then t else 0)"
  have tz: "at_grid tz tk" "\<bar>tk\<bar> \<le> 2097152" using assms(9,14) grid_zero by (simp_all add: tz_def tk_def)
  have rows: "length (c_offsets c) = WCS_COUNT" "c_active c < WCS_COUNT" using assms(1) by (simp_all add: coords_ok_def rows_ok_def)
  then have active: "c_active c < length (c_offsets c)" "index < length (c_offsets c)" using assms(4) by simp_all
  have fin: "is_finite (machine ! axis)" "is_finite (work ! axis)" using assms(5,6) by (simp_all add: grid_finite)
  note at = assms(5-9) tz(1)
  note le = assms(10-14) tz(2)
  have wco: "at_grid (wco c' ! axis) (a + b + tk)"
    if "at_grid (c_offsets c' ! c_active c' ! axis) a" "at_grid (c_g92 c' ! axis) b" "c_tlo c' = c_tlo c"
      "\<bar>a + b\<bar> \<le> 8388608" for c' a b
  proof -
    have "at_grid (fadd (c_offsets c' ! c_active c' ! axis) (c_g92 c' ! axis)) (a + b)"
      using that by (intro fadd_grid) linarith+
    moreover have "\<bar>a + b + tk\<bar> \<le> 16777216" using that(4) le by linarith
    ultimately show ?thesis using fadd_grid [OF _ tz(1), of _ "a + b"] that(3) assms(2) by (auto simp: wco_nth tz_def tk_def)
  qed
  let ?s = "set_wcs_offset_to_position index machine work given c"
  let ?l = "select_wcs index ?s" and ?g = "set_g92_to_position machine work given c"
  have l: "c_offsets ?l ! c_active ?l ! axis = fsub (fsub (fsub (machine ! axis) (work ! axis)) (c_g92 c ! axis)) tz"
      "c_g92 ?l = c_g92 c" "c_tlo ?l = c_tlo c"
    using assms(2,3) active fin by (simp_all add: set_wcs_offset_to_position_def select_wcs_def assms(4) tz_def)
  have g: "c_g92 ?g ! axis = fsub (fsub (machine ! axis) (c_offsets c ! c_active c ! axis)) (work ! axis)"
      "c_offsets ?g = c_offsets c" "c_active ?g = c_active c" "c_tlo ?g = c_tlo c"
    using assms(2,3) fin by (simp_all add: set_g92_to_position_def Let_def)
  have "at_grid (c_offsets ?l ! c_active ?l ! axis) (m - w - g - tk)"
    unfolding l by (intro fsub_grid at; use le in linarith)
  then have "at_grid (wco ?l ! axis) (m - w - g - tk + g + tk)"
    using le by (intro wco) (simp_all add: l assms(7), linarith?)
  then have one: "at_grid (machine_to_work ?l machine ! axis) (m - (m - w - g - tk + g + tk))"
    unfolding machine_to_work_nth [OF assms(2)] by (intro fsub_grid at; use le in linarith)
  have "at_grid (c_g92 ?g ! axis) (m - k - w)"
    unfolding g by (intro fsub_grid at; use le in linarith)
  then have "at_grid (wco ?g ! axis) (k + (m - k - w) + tk)"
    using le assms(8) by (intro wco) (simp_all add: g, linarith?)
  then have "at_grid (machine_to_work ?g machine ! axis) (m - (k + (m - k - w) + tk))"
    unfolding machine_to_work_nth [OF assms(2)] by (intro fsub_grid at; use le in linarith)
  moreover have "m - (k + (m - k - w) + tk) = (if axis = TLO_AXIS then w - t else w)" by (simp add: tk_def)
  ultimately have ?G by simp
  moreover from one have ?L by (simp add: set_wcs_offset_to_position_def)
  ultimately show "?L \<and> ?G" by simp
qed

definition tool_up :: CoordinateSystems
  where "tool_up = apply_tlo (f32_of_int 5) CoordinateSystems_new"

lemma at_grid_int:
  assumes "\<bar>n\<bar> \<le> 2000"
  shows "at_grid (f32_of_int n) (n * 1024)"
proof -
  have u: "unit_den = 1024 * grid_unit" by (simp add: unit_den_def grid_unit_def)
  from assms have "\<bar>n * 1024\<bar> \<le> 16777216" by linarith
  from of_units_grid [OF this, of False] show ?thesis by (simp add: f32_of_int_def u mult.assoc)
qed

theorem set_position_reads_back_witness:
  "at_grid (machine_to_work (set_g92_to_position [f32_zero, f32_zero, f32_of_int 30, f32_zero]
      [f32_zero, f32_zero, f32_zero, f32_zero] [False, False, True, False] tool_up)
      [f32_zero, f32_zero, f32_of_int 30, f32_zero] ! 2) (- 5120)"
proof -
  have tlo: "c_tlo tool_up = f32_of_int 5" "c_offsets tool_up ! c_active tool_up ! 2 = f32_zero" "c_g92 tool_up ! 2 = f32_zero"
    by (simp_all add: tool_up_def apply_tlo_def CoordinateSystems_new_def origin_def WCS_COUNT_def AXES_def
        grid_finite [OF at_grid_int])
  have ok: "coords_ok tool_up"
    using coords_ok_new by (simp add: tool_up_def apply_tlo_def coords_ok_def)
  have "at_grid (f32_of_int 30) 30720" "at_grid (f32_of_int 5) 5120" using at_grid_int [of 30] at_grid_int [of 5] by simp_all
  then show ?thesis
    using set_position_reads_back [OF ok, of 2 "[False, False, True, False]" 1 "[f32_zero, f32_zero, f32_of_int 30, f32_zero]" 30720
      "[f32_zero, f32_zero, f32_zero, f32_zero]" 0 0 0 5120] grid_zero
    by (simp add: tlo TLO_AXIS_def AXES_def WCS_COUNT_def)
qed

section \<open>Persistence\<close>

lemma rows_eq: "rows_ok n rows \<Longrightarrow> map (\<lambda>i. [rows ! i ! 0, rows ! i ! Suc 0, rows ! i ! 2, rows ! i ! 3]) [0..<n] = rows"
proof (rule nth_equalityI)
  fix i
  assume ok: "rows_ok n rows" and "i < length (map (\<lambda>i. [rows ! i ! 0, rows ! i ! Suc 0, rows ! i ! 2, rows ! i ! 3]) [0..<n])"
  then have i: "i < n" "length (rows ! i) = 4" by (auto simp: rows_ok_def list_all_iff AXES_def)
  then show "map (\<lambda>i. [rows ! i ! 0, rows ! i ! Suc 0, rows ! i ! 2, rows ! i ! 3]) [0..<n] ! i = rows ! i"
    by (auto simp: list_of_length_4)
qed (simp add: rows_ok_def)

lemma upt_6: "[0..<6] = [0, Suc 0, 2, 3, 4, 5]" and upt_2: "[0..<2] = [0, Suc 0]"
  by (simp_all add: upt_rec)

lemma coords_from_to_proto:
  assumes "coords_ok c"
  shows "coords_from_proto (coords_to_proto (persistent c)) = persistent c"
proof -
  have "unat (of_nat (c_active c) :: u32) = c_active c"
    using assms by (simp add: coords_ok_def WCS_COUNT_def unat_of_nat take_bit_nat_eq_self)
  then show ?thesis
    using rows_eq [of 6 "c_offsets c"] rows_eq [of 2 "c_predefined c"] assms
    by (simp add: coords_from_proto_def coords_to_proto_def persistent_def coords_ok_def WCS_COUNT_def
        PREDEFINED_COUNT_def A_AXIS_def upt_6 upt_2 Let_def)
qed

definition coords_codec_carries :: "coords_codec \<Rightarrow> PbCoordinates \<Rightarrow> bool"
  where "coords_codec_carries pb m \<longleftrightarrow>
    decode_coordinates pb (encode_coordinates pb m) = Some m \<and> coordinates_size pb m = length (encode_coordinates pb m) \<and>
    coordinates_size pb m \<le> COORDINATES_MAX_LEN"

definition coords_image :: "coords_codec \<Rightarrow> CoordinateSystems \<Rightarrow> u8 list"
  where "coords_image pb c = frame_image COORDS_MAGIC COORDS_SCHEMA_VERSION
    (encode_coordinates pb (coords_to_proto (persistent c)))"

lemma coords_encode_image:
  assumes "coords_codec_carries pb (coords_to_proto (persistent c))"
  shows "coords_encode pb COORDS_FRAME_MAX_LEN (persistent c) out = (coords_image pb c, Inr ())"
proof -
  let ?p = "encode_coordinates pb (coords_to_proto (persistent c))"
  have "length ?p \<le> 256" using assms by (simp add: coords_codec_carries_def COORDINATES_MAX_LEN_def)
  then have "frame COORDS_FRAME_MAX_LEN COORDS_MAGIC COORDS_SCHEMA_VERSION (length ?p) out
      (push_slice COORDS_FRAME_MAX_LEN ?p) = (coords_image pb c, Inr ())"
    by (subst frame_ok_iff) (simp add: coords_image_def declared_image_length COORDS_FRAME_MAX_LEN_def
        COORDINATES_MAX_LEN_def)
  with assms show ?thesis by (simp add: coords_encode_def coords_codec_carries_def)
qed

lemma coords_decode_image:
  assumes "coords_ok c" and "coords_codec_carries pb (coords_to_proto (persistent c))"
  shows "coords_decode pb (coords_image pb c) = Inr (persistent c)"
proof -
  have "unframe COORDS_MAGIC COORDS_SCHEMA_VERSION (coords_image pb c) =
      Inr (encode_coordinates pb (coords_to_proto (persistent c)))"
    using assms(2) by (simp add: coords_image_def unframe_frame_image coords_codec_carries_def COORDINATES_MAX_LEN_def)
  with assms show ?thesis by (simp add: coords_decode_def coords_codec_carries_def coords_from_to_proto)
qed

text \<open>
  Coordinates stored through a record store that reads back what it saved, and loaded into a fresh model
  at the next boot, are the coordinates of before with exactly the G92 and tool-length offsets cleared -
  provided the generated codec decodes the message it encoded.
\<close>
theorem coordinates_survive_power_cycle:
  assumes "coords_ok c" and "coords_codec_carries pb (coords_to_proto (persistent c))"
    and "store_coordinates pb st (persistent c) w = (w', Inr ())"
    and "store_save st (coords_image pb c) w = (w', Inr ()) \<Longrightarrow>
      store_load st COORDS_FRAME_MAX_LEN w' = (w'', Inr (coords_image pb c))"
    and "coords_load_or_default pb st w' = (w3, cp)"
  shows "load_persistent cp CoordinateSystems_new = clear_volatile c"
proof -
  from assms(3) have "store_save st (coords_image pb c) w = (w', Inr ())"
    by (simp add: store_coordinates_def coords_encode_image [OF assms(2)])
  with assms(5) have "cp = persistent c"
    by (simp add: coords_load_or_default_def assms(4) coords_decode_image [OF assms(1,2)])
  with assms(1) show ?thesis
    by (simp add: load_persistent_def persistent_def CoordinateSystems_new_def clear_volatile_def clear_g92_def
        cancel_tlo_def coords_ok_def Let_def)
qed

definition coords_store :: "u8 list record_store"
  where "coords_store = \<lparr>store_load = \<lambda>_ w. (w, Inr w), store_save = \<lambda>bytes _. (bytes, Inr ())\<rparr>"

definition tool_up_codec :: coords_codec
  where "tool_up_codec = \<lparr>coordinates_size = \<lambda>_. 2, encode_coordinates = \<lambda>_. [8, 0],
    decode_coordinates = \<lambda>bytes. if bytes = [8, 0] then Some (coords_to_proto (persistent tool_up)) else None\<rparr>"

theorem coordinates_survive_power_cycle_witness:
  "load_persistent (snd (coords_load_or_default tool_up_codec coords_store (coords_image tool_up_codec tool_up)))
      CoordinateSystems_new = clear_volatile tool_up \<and> c_tlo (clear_volatile tool_up) = f32_zero \<and> c_tlo tool_up \<noteq> f32_zero"
proof -
  have ok: "coords_ok tool_up"
    using coords_ok_new by (simp add: tool_up_def apply_tlo_def coords_ok_def)
  have carries: "coords_codec_carries tool_up_codec (coords_to_proto (persistent tool_up))"
    by (simp add: coords_codec_carries_def tool_up_codec_def COORDINATES_MAX_LEN_def)
  let ?img = "coords_image tool_up_codec tool_up"
  have st: "store_coordinates tool_up_codec coords_store (persistent tool_up) [] = (?img, Inr ())"
    by (simp add: store_coordinates_def coords_encode_image [OF carries] coords_store_def)
  have "load_persistent (snd (coords_load_or_default tool_up_codec coords_store ?img)) CoordinateSystems_new =
      clear_volatile tool_up"
    by (rule coordinates_survive_power_cycle [OF ok carries st _ surjective_pairing]) (simp add: coords_store_def)
  moreover have "c_tlo tool_up = FFin False (5 * unit_den)"
    using f32_of_int_nat [of 5] by (simp add: tool_up_def apply_tlo_def is_finite_def)
  ultimately show ?thesis by (simp add: clear_volatile_def cancel_tlo_def)
qed

section \<open>Overflow\<close>

text \<open>Every word is finite, yet the difference of two of them is not: the offset becomes infinite, then not a number.\<close>

definition huge :: f32
  where "huge = FFin False (16777215 * 2 ^ 253)"

lemma finite_words_can_overflow:
  defines "c1 \<equiv> set_g92_to_position origin [fneg huge, f32_zero, f32_zero, f32_zero] [True, False, False, False] CoordinateSystems_new"
  defines "c2 \<equiv> set_wcs_offset_to_position 0 origin [huge, f32_zero, f32_zero, f32_zero] [True, False, False, False] c1"
  defines "c3 \<equiv> set_g92_to_position origin origin [True, False, False, False] c2"
  shows "is_finite huge \<and> wco c2 ! 0 = FInf True \<and> wco c3 ! 0 = FNan"
proof -
  have "is_finite huge \<and>
    (let c1 = set_g92_to_position origin [fneg huge, f32_zero, f32_zero, f32_zero] [True, False, False, False] CoordinateSystems_new;
         c2 = set_wcs_offset_to_position 0 origin [huge, f32_zero, f32_zero, f32_zero] [True, False, False, False] c1
     in wco c2 ! 0 = FInf True \<and> wco (set_g92_to_position origin origin [True, False, False, False] c2) ! 0 = FNan)"
    by code_simp
  then show ?thesis unfolding c1_def c2_def c3_def by (simp add: Let_def)
qed

end
