(* ===== verification/Spindle_Coolant.thy ===== *)
theory Spindle_Coolant
  imports Float32 Gcode_Parser
begin

text \<open>
  The spindle and coolant controllers (\<^verbatim>\<open>crates/firmware-core/src/spindle.rs\<close>, \<^verbatim>\<open>coolant.rs\<close>) and the
  two tasks that drive them (\<^verbatim>\<open>crates/firmware/src/comms/spindle_coolant.rs\<close>).  The output lines and the
  speed output are the record \<^verbatim>\<open>'w spindle_hal\<close> of operations on a world \<^verbatim>\<open>'w\<close>; every one may fail.
\<close>

section \<open>Outputs\<close>

datatype DigitalOutError = DigitalTransport

datatype PwmError = PwmTransport

type_synonym 'w digital_out = "bool \<Rightarrow> 'w \<Rightarrow> ('w, DigitalOutError, unit) outcome"
type_synonym 'w pwm_sink = "f32 \<Rightarrow> 'w \<Rightarrow> ('w, PwmError, unit) outcome"

record 'w spindle_hal =
  pwm_set :: "'w pwm_sink"
  enable_set :: "'w digital_out"
  direction_set :: "'w digital_out"

text \<open>\<^verbatim>\<open>Result::map_err\<close>.\<close>

fun map_err :: "('e \<Rightarrow> 'd) \<Rightarrow> ('s, 'e, 'a) outcome \<Rightarrow> ('s, 'd, 'a) outcome"
  where
    "map_err f (s, Inl e) = (s, Inl (f e))"
  | "map_err f (s, Inr a) = (s, Inr a)"

section \<open>The spindle controller\<close>

definition DIR_CLOCKWISE :: bool
  where "DIR_CLOCKWISE = True"

definition ENABLE_RUN :: bool
  where "ENABLE_RUN = True"

definition MIN_REVERSE_DWELL_S :: f32
  where "MIN_REVERSE_DWELL_S = f32_ratio 1 2"

datatype SpindleError = PwmFault PwmError | EnableFault DigitalOutError | DirectionFault DigitalOutError

datatype SpindleAction = Applied | SpinDownThenReverse f32

record 'w SpindleController =
  sp_out :: 'w
  last_state :: SpindleState
  last_duty :: f32

definition SpindleController_new :: "'w \<Rightarrow> 'w SpindleController"
  where "SpindleController_new w = \<lparr>sp_out = w, last_state = SpindleStop, last_duty = f32_zero\<rparr>"

definition rpm_to_duty :: "f32 \<Rightarrow> f32 \<Rightarrow> f32 \<Rightarrow> f32"
  where "rpm_to_duty rpm rpm_min rpm_max =
    (let span = fsub rpm_max rpm_min in
     if flt f32_zero span then fclamp (fdiv (fsub rpm rpm_min) span) f32_zero f32_one else f32_zero)"

text \<open>One output operation of the controller.\<close>

definition on_out :: "('w \<Rightarrow> ('w, 'e, unit) outcome) \<Rightarrow> 'w SpindleController \<Rightarrow> ('w SpindleController, 'e, unit) outcome"
  where "on_out f c = (case f (sp_out c) of (w, r) \<Rightarrow> (c\<lparr>sp_out := w\<rparr>, r))"

type_synonym 'w spindle_op = "'w SpindleController \<Rightarrow> ('w SpindleController, SpindleError, unit) outcome"

definition drive_stop :: "'w spindle_hal \<Rightarrow> 'w spindle_op"
  where "drive_stop hal c =
    and_then (map_err EnableFault (on_out (enable_set hal (\<not> ENABLE_RUN)) c)) (\<lambda>_ c.
    and_then (map_err PwmFault (on_out (pwm_set hal f32_zero) c)) (\<lambda>_ c.
    (c\<lparr>last_state := SpindleStop, last_duty := f32_zero\<rparr>, Inr ())))"

definition drive_run :: "'w spindle_hal \<Rightarrow> SpindleState \<Rightarrow> f32 \<Rightarrow> 'w spindle_op"
  where "drive_run hal state duty c =
    (let dir_level = ((state = Clockwise) = DIR_CLOCKWISE) in
     and_then (map_err DirectionFault (on_out (direction_set hal dir_level) c)) (\<lambda>_ c.
     and_then (map_err PwmFault (on_out (pwm_set hal duty) c)) (\<lambda>_ c.
     and_then (map_err EnableFault (on_out (enable_set hal ENABLE_RUN) c)) (\<lambda>_ c.
     (c\<lparr>last_state := state, last_duty := duty\<rparr>, Inr ())))))"

definition effective_state :: "SpindleState \<Rightarrow> f32 \<Rightarrow> SpindleState"
  where "effective_state state rpm = (if fle rpm f32_zero then SpindleStop else state)"

definition spindle_apply ::
    "'w spindle_hal \<Rightarrow> SpindleState \<Rightarrow> f32 \<Rightarrow> f32 \<Rightarrow> f32 \<Rightarrow> f32 \<Rightarrow> 'w SpindleController \<Rightarrow>
     ('w SpindleController, SpindleError, SpindleAction) outcome"
  where "spindle_apply hal state rpm rpm_min rpm_max reverse_dwell_s c =
    (let effective = effective_state state rpm in
     if effective = SpindleStop then and_then (drive_stop hal c) (\<lambda>_ c. (c, Inr Applied))
     else
       let running = last_state c \<noteq> SpindleStop;
           reversing = (running \<and> last_state c \<noteq> effective)
       in if reversing
          then and_then (drive_stop hal c) (\<lambda>_ c.
            (c, Inr (SpinDownThenReverse (fmax reverse_dwell_s MIN_REVERSE_DWELL_S))))
          else and_then (drive_run hal effective (rpm_to_duty rpm rpm_min rpm_max) c) (\<lambda>_ c. (c, Inr Applied)))"

definition complete_reverse :: "'w spindle_hal \<Rightarrow> SpindleState \<Rightarrow> f32 \<Rightarrow> f32 \<Rightarrow> f32 \<Rightarrow> 'w spindle_op"
  where "complete_reverse hal state rpm rpm_min rpm_max c =
    (let effective = effective_state state rpm in
     if effective = SpindleStop then drive_stop hal c
     else drive_run hal effective (rpm_to_duty rpm rpm_min rpm_max) c)"

definition emergency_stop :: "'w spindle_hal \<Rightarrow> 'w spindle_op"
  where "emergency_stop hal c = drive_stop hal c"

section \<open>The spindle task\<close>

text \<open>
  What the task reads when it wakes: the commanded direction, the realized speed and the settings.  It
  waits for a command or an emergency stop, or, after stopping for a reversal, for the dwell or an
  emergency stop; a driver error is logged and swallowed.
\<close>

record SpindleCommand =
  sc_state :: SpindleState
  sc_rpm :: f32
  sc_rpm_min :: f32
  sc_rpm_max :: f32
  sc_reverse_dwell :: f32

datatype SpindleTask = AwaitCommand | AwaitDwell f32

datatype SpindleWake = WakeEstop | WakeUpdate SpindleCommand | WakeDwell SpindleCommand

definition apply_spindle :: "'w spindle_hal \<Rightarrow> SpindleCommand \<Rightarrow> 'w SpindleController \<Rightarrow> 'w SpindleController \<times> f32 option"
  where "apply_spindle hal cmd c =
    (case spindle_apply hal (sc_state cmd) (sc_rpm cmd) (sc_rpm_min cmd) (sc_rpm_max cmd) (sc_reverse_dwell cmd) c of
       (c, Inr Applied) \<Rightarrow> (c, None)
     | (c, Inr (SpinDownThenReverse dwell)) \<Rightarrow> (c, Some dwell)
     | (c, Inl _) \<Rightarrow> (c, None))"

definition complete_spindle_reverse :: "'w spindle_hal \<Rightarrow> SpindleCommand \<Rightarrow> 'w SpindleController \<Rightarrow> 'w SpindleController"
  where "complete_spindle_reverse hal cmd c =
    fst (complete_reverse hal (sc_state cmd) (sc_rpm cmd) (sc_rpm_min cmd) (sc_rpm_max cmd) c)"

definition spindle_emergency_stop :: "'w spindle_hal \<Rightarrow> 'w SpindleController \<Rightarrow> 'w SpindleController"
  where "spindle_emergency_stop hal c = fst (emergency_stop hal c)"

fun spindle_task ::
    "'w spindle_hal \<Rightarrow> SpindleTask \<times> 'w SpindleController \<Rightarrow> SpindleWake \<Rightarrow> SpindleTask \<times> 'w SpindleController"
  where
    "spindle_task hal (AwaitCommand, c) WakeEstop = (AwaitCommand, spindle_emergency_stop hal c)"
  | "spindle_task hal (AwaitCommand, c) (WakeUpdate cmd) =
      (case apply_spindle hal cmd c of (c, None) \<Rightarrow> (AwaitCommand, c) | (c, Some dwell) \<Rightarrow> (AwaitDwell dwell, c))"
  | "spindle_task hal (AwaitCommand, c) (WakeDwell cmd) = (AwaitCommand, c)"
  | "spindle_task hal (AwaitDwell d, c) WakeEstop = (AwaitCommand, spindle_emergency_stop hal c)"
  | "spindle_task hal (AwaitDwell d, c) (WakeDwell cmd) = (AwaitCommand, complete_spindle_reverse hal cmd c)"
  | "spindle_task hal (AwaitDwell d, c) (WakeUpdate cmd) = (AwaitDwell d, c)"

section \<open>The coolant controller\<close>

definition COOLANT_BIT_MIST :: u8
  where "COOLANT_BIT_MIST = 1"

definition COOLANT_BIT_FLOOD :: u8
  where "COOLANT_BIT_FLOOD = 2"

definition coolant_mask :: "CoolantState \<Rightarrow> u8"
  where "coolant_mask co =
    (if mist co then COOLANT_BIT_MIST else 0) OR (if flood co then COOLANT_BIT_FLOOD else 0)"

definition commanded_coolant :: "u8 \<Rightarrow> CoolantState"
  where "commanded_coolant m =
    \<lparr>mist = (m AND COOLANT_BIT_MIST \<noteq> 0), flood = (m AND COOLANT_BIT_FLOOD \<noteq> 0)\<rparr>"

datatype CoolantError = MistFault DigitalOutError | FloodFault DigitalOutError

record 'w coolant_hal =
  mist_set :: "'w digital_out"
  flood_set :: "'w digital_out"

record 'w CoolantController =
  co_out :: 'w
  co_last :: CoolantState

definition CoolantController_new :: "'w \<Rightarrow> 'w CoolantController"
  where "CoolantController_new w = \<lparr>co_out = w, co_last = coolant_off\<rparr>"

definition on_circuit ::
    "('w \<Rightarrow> ('w, 'e, unit) outcome) \<Rightarrow> 'w CoolantController \<Rightarrow> ('w CoolantController, 'e, unit) outcome"
  where "on_circuit f c = (case f (co_out c) of (w, r) \<Rightarrow> (c\<lparr>co_out := w\<rparr>, r))"

definition coolant_apply ::
    "'w coolant_hal \<Rightarrow> CoolantState \<Rightarrow> 'w CoolantController \<Rightarrow> ('w CoolantController, CoolantError, unit) outcome"
  where "coolant_apply hal state c =
    and_then (map_err FloodFault (on_circuit (flood_set hal (flood state)) c)) (\<lambda>_ c.
    and_then (map_err MistFault (on_circuit (mist_set hal (mist state)) c)) (\<lambda>_ c.
    (c\<lparr>co_last := state\<rparr>, Inr ())))"

definition coolant_emergency_stop ::
    "'w coolant_hal \<Rightarrow> 'w CoolantController \<Rightarrow> ('w CoolantController, CoolantError, unit) outcome"
  where "coolant_emergency_stop hal c = coolant_apply hal coolant_off c"

datatype CoolantWake = CoolantEstop | CoolantUpdate u8

fun coolant_task :: "'w coolant_hal \<Rightarrow> 'w CoolantController \<Rightarrow> CoolantWake \<Rightarrow> 'w CoolantController"
  where
    "coolant_task hal c CoolantEstop = fst (coolant_emergency_stop hal c)"
  | "coolant_task hal c (CoolantUpdate m) = fst (coolant_apply hal (commanded_coolant m) c)"

section \<open>Lines that may fail\<close>

text \<open>
  The outputs of a real machine: three lines and a speed, with a script of which writes fail (a failed write
  leaves the line as it was), and a note of whether the direction was ever changed while the spindle was
  enabled.
\<close>

record Lines =
  ln_enable :: bool
  ln_direction :: bool
  ln_duty :: f32
  ln_faults :: "bool list"
  ln_flipped :: bool

definition attempt :: "'e \<Rightarrow> (Lines \<Rightarrow> Lines) \<Rightarrow> Lines \<Rightarrow> (Lines, 'e, unit) outcome"
  where "attempt e f w =
    (let w' = w\<lparr>ln_faults := tl (ln_faults w)\<rparr> in
     if ln_faults w \<noteq> [] \<and> hd (ln_faults w) then (w', Inl e) else (f w', Inr ()))"

definition lines_hal :: "Lines spindle_hal"
  where "lines_hal =
    \<lparr>pwm_set = \<lambda>d. attempt PwmTransport (\<lambda>w. w\<lparr>ln_duty := d\<rparr>),
     enable_set = \<lambda>l. attempt DigitalTransport (\<lambda>w. w\<lparr>ln_enable := l\<rparr>),
     direction_set = \<lambda>l. attempt DigitalTransport (\<lambda>w.
       w\<lparr>ln_direction := l, ln_flipped := ln_flipped w \<or> (ln_enable w \<and> ln_direction w \<noteq> l)\<rparr>)\<rparr>"

text \<open>
  The interlock: an enabled spindle turns in the recorded direction, the direction has never been changed
  under power, and the task waits out a dwell only with the spindle disabled.
\<close>

fun interlocked :: "SpindleTask \<times> Lines SpindleController \<Rightarrow> bool"
  where "interlocked (task, c) \<longleftrightarrow>
    \<not> ln_flipped (sp_out c) \<and>
    (ln_enable (sp_out c) \<longrightarrow> last_state c \<noteq> SpindleStop \<and> (ln_direction (sp_out c) \<longleftrightarrow> last_state c = Clockwise)) \<and>
    (case task of AwaitCommand \<Rightarrow> True | AwaitDwell d \<Rightarrow> \<not> ln_enable (sp_out c) \<and> fle MIN_REVERSE_DWELL_S d)"

definition spindle_safe :: "Lines SpindleController \<Rightarrow> bool"
  where "spindle_safe c \<longleftrightarrow> interlocked (AwaitCommand, c)"

text \<open>One write either fails and leaves the lines alone, or does its work.\<close>

definition ticked :: "Lines SpindleController \<Rightarrow> Lines SpindleController"
  where "ticked c = c\<lparr>sp_out := (sp_out c)\<lparr>ln_faults := tl (ln_faults (sp_out c))\<rparr>\<rparr>"

definition faulty :: "Lines SpindleController \<Rightarrow> bool"
  where "faulty c \<longleftrightarrow> ln_faults (sp_out c) \<noteq> [] \<and> hd (ln_faults (sp_out c))"

lemma ticked_simps [simp]:
  "last_state (ticked c) = last_state c" "ln_enable (sp_out (ticked c)) = ln_enable (sp_out c)"
  "ln_direction (sp_out (ticked c)) = ln_direction (sp_out c)" "ln_duty (sp_out (ticked c)) = ln_duty (sp_out c)"
  "ln_flipped (sp_out (ticked c)) = ln_flipped (sp_out c)"
  by (simp_all add: ticked_def)

lemma on_out_lines:
  "on_out (enable_set lines_hal l) c =
    (if faulty c then (ticked c, Inl DigitalTransport) else (sp_out_update (ln_enable_update (\<lambda>_. l)) (ticked c), Inr ()))"
  "on_out (pwm_set lines_hal d) c =
    (if faulty c then (ticked c, Inl PwmTransport) else (sp_out_update (ln_duty_update (\<lambda>_. d)) (ticked c), Inr ()))"
  "on_out (direction_set lines_hal l) c =
    (if faulty c then (ticked c, Inl DigitalTransport)
     else (sp_out_update (\<lambda>w. w\<lparr>ln_direction := l, ln_flipped := ln_flipped w \<or> (ln_enable w \<and> ln_direction w \<noteq> l)\<rparr>) (ticked c), Inr ()))"
  by (simp_all add: on_out_def lines_hal_def attempt_def faulty_def ticked_def Let_def)

text \<open>Stopping either leaves everything as it was, or the spindle is disabled.\<close>

lemma drive_stop_safe:
  assumes "spindle_safe c" and "drive_stop lines_hal c = (c', r)"
  shows "spindle_safe c' \<and> (r = Inr () \<longrightarrow> \<not> ln_enable (sp_out c') \<and> ln_duty (sp_out c') = f32_zero \<and>
    last_state c' = SpindleStop)"
  using assms by (auto simp: drive_stop_def on_out_lines ENABLE_RUN_def spindle_safe_def split: if_splits)

lemma drive_run_safe:
  assumes "spindle_safe c" and "\<not> ln_enable (sp_out c) \<or> last_state c = state" and "state \<noteq> SpindleStop"
    and "drive_run lines_hal state duty c = (c', r)"
  shows "spindle_safe c'"
  using assms
  by (auto simp: drive_run_def on_out_lines ENABLE_RUN_def DIR_CLOCKWISE_def spindle_safe_def Let_def split: if_splits)

lemma min_dwell: "fle MIN_REVERSE_DWELL_S (fmax d MIN_REVERSE_DWELL_S)"
proof -
  have "MIN_REVERSE_DWELL_S \<noteq> FNan" by code_simp
  then show ?thesis using fle_linear [of MIN_REVERSE_DWELL_S d] by (auto simp: fmax_def is_nan_def fle_def)
qed

lemma apply_spindle_safe:
  assumes "spindle_safe c" and "apply_spindle lines_hal cmd c = (c', d)"
  shows "spindle_safe c' \<and> (case d of None \<Rightarrow> True | Some x \<Rightarrow> \<not> ln_enable (sp_out c') \<and> fle MIN_REVERSE_DWELL_S x)"
proof -
  let ?eff = "effective_state (sc_state cmd) (sc_rpm cmd)"
  obtain c1 r1 where stop: "drive_stop lines_hal c = (c1, r1)" by fastforce
  obtain c2 r2 where run: "drive_run lines_hal ?eff (rpm_to_duty (sc_rpm cmd) (sc_rpm_min cmd) (sc_rpm_max cmd)) c = (c2, r2)"
    by fastforce
  note s = drive_stop_safe [OF assms(1) stop]
  consider (stop) "?eff = SpindleStop" | (reverse) "?eff \<noteq> SpindleStop" "last_state c \<noteq> SpindleStop \<and> last_state c \<noteq> ?eff"
    | (run) "?eff \<noteq> SpindleStop" "\<not> (last_state c \<noteq> SpindleStop \<and> last_state c \<noteq> ?eff)" by blast
  then show ?thesis
  proof cases
    case stop
    with s assms(2) \<open>drive_stop lines_hal c = (c1, r1)\<close> show ?thesis
      by (cases r1) (auto simp: apply_spindle_def spindle_apply_def Let_def)
  next
    case reverse
    with s assms(2) stop show ?thesis
      by (cases r1) (auto simp: apply_spindle_def spindle_apply_def Let_def min_dwell)
  next
    case run
    have "\<not> ln_enable (sp_out c) \<or> last_state c = ?eff"
      using run(2) assms(1) by (auto simp: spindle_safe_def)
    from drive_run_safe [OF assms(1) this run(1) \<open>drive_run _ _ _ c = (c2, r2)\<close>] run assms(2)
      \<open>drive_run lines_hal ?eff _ c = (c2, r2)\<close>
    show ?thesis by (cases r2) (auto simp: apply_spindle_def spindle_apply_def Let_def)
  qed
qed

lemma complete_safe:
  assumes "spindle_safe c" and "\<not> ln_enable (sp_out c)"
  shows "spindle_safe (complete_spindle_reverse lines_hal cmd c)"
proof -
  let ?eff = "effective_state (sc_state cmd) (sc_rpm cmd)"
  obtain c1 r1 c2 r2 where "drive_stop lines_hal c = (c1, r1)"
      "drive_run lines_hal ?eff (rpm_to_duty (sc_rpm cmd) (sc_rpm_min cmd) (sc_rpm_max cmd)) c = (c2, r2)" by fastforce
  with drive_stop_safe [OF assms(1)] drive_run_safe [OF assms(1), of ?eff] assms(2) show ?thesis
    by (auto simp: complete_spindle_reverse_def complete_reverse_def Let_def)
qed

definition spindle_machine :: "SpindleTask \<times> Lines SpindleController \<Rightarrow> SpindleWake \<Rightarrow> (SpindleTask \<times> Lines SpindleController) \<times> unit list"
  where "spindle_machine s wake = (spindle_task lines_hal s wake, [])"

interpretation spindle_inv: invariant_machine spindle_machine interlocked
proof unfold_locales
  fix s wake
  assume inv: "interlocked s"
  obtain task c where s: "s = (task, c)" by (cases s)
  with inv have safe: "spindle_safe c" by (auto simp: spindle_safe_def split: SpindleTask.splits)
  have stop: "spindle_safe (spindle_emergency_stop lines_hal c)"
    using drive_stop_safe [OF safe] by (auto simp: spindle_emergency_stop_def emergency_stop_def split: prod.splits)
      (metis fst_conv surj_pair)
  show "interlocked (fst (spindle_machine s wake))"
  proof (cases task)
    case AwaitCommand
    show ?thesis
    proof (cases wake)
      case (WakeUpdate cmd)
      obtain c' d where "apply_spindle lines_hal cmd c = (c', d)" by fastforce
      with apply_spindle_safe [OF safe this] AwaitCommand WakeUpdate s show ?thesis
        by (auto simp: spindle_machine_def spindle_safe_def split: option.splits)
    qed (use stop safe s AwaitCommand in \<open>simp_all add: spindle_machine_def spindle_safe_def\<close>)
  next
    case (AwaitDwell d)
    then have "\<not> ln_enable (sp_out c)" using inv s by simp
    with complete_safe [OF safe] stop inv s AwaitDwell show ?thesis
      by (cases wake) (simp_all add: spindle_machine_def spindle_safe_def)
  qed
qed

section \<open>The interlock\<close>

definition spindle_run :: "Lines \<Rightarrow> SpindleWake list \<Rightarrow> SpindleTask \<times> Lines SpindleController"
  where "spindle_run w wakes = fst (run_steps spindle_machine (AwaitCommand, SpindleController_new w) wakes)"

lemma interlocked_run:
  assumes "\<not> ln_enable w" and "\<not> ln_flipped w"
  shows "interlocked (spindle_run w wakes)"
  using assms unfolding spindle_run_def by (intro spindle_inv.inv_run) (simp add: SpindleController_new_def)

lemma spindle_run_snoc: "spindle_run w (wakes @ [x]) = spindle_task lines_hal (spindle_run w wakes) x"
  by (simp add: spindle_run_def run_steps_append spindle_machine_def)

lemma estop_stops:
  assumes "\<forall>f \<in> set (take 2 (ln_faults (sp_out c))). \<not> f"
  shows "\<not> ln_enable (sp_out (spindle_emergency_stop lines_hal c)) \<and>
    ln_duty (sp_out (spindle_emergency_stop lines_hal c)) = f32_zero"
proof (cases "ln_faults (sp_out c)")
  case (Cons f fs)
  with assms show ?thesis
    by (cases fs) (simp_all add: spindle_emergency_stop_def emergency_stop_def drive_stop_def on_out_def lines_hal_def
        attempt_def ENABLE_RUN_def numeral_2_eq_2)
qed (simp add: spindle_emergency_stop_def emergency_stop_def drive_stop_def on_out_def lines_hal_def attempt_def
  ENABLE_RUN_def)

text \<open>Wakes that stop the spindle without scheduling anything.\<close>

fun stops_spindle :: "SpindleWake \<Rightarrow> bool"
  where
    "stops_spindle WakeEstop = True"
  | "stops_spindle (WakeUpdate cmd) = (effective_state (sc_state cmd) (sc_rpm cmd) = SpindleStop)"
  | "stops_spindle (WakeDwell cmd) = False"

text \<open>Among the wakes that follow there is one at which a dwell of at least the minimum has elapsed.\<close>

definition dwell_passed :: "Lines \<Rightarrow> SpindleWake list \<Rightarrow> SpindleWake list \<Rightarrow> bool"
  where "dwell_passed w wakes us \<longleftrightarrow>
    (\<exists>i < length us. \<exists>cmd d. us ! i = WakeDwell cmd \<and> fst (spindle_run w (wakes @ take i us)) = AwaitDwell d \<and>
       fle MIN_REVERSE_DWELL_S d)"

lemma dwell_passed_snoc:
  assumes "dwell_passed w wakes us"
  shows "dwell_passed w wakes (us @ [x])"
proof -
  from assms obtain i cmd d where i: "i < length us" "us ! i = WakeDwell cmd"
      "fst (spindle_run w (wakes @ take i us)) = AwaitDwell d" "fle MIN_REVERSE_DWELL_S d"
    unfolding dwell_passed_def by blast
  then have "take i (us @ [x]) = take i us" "(us @ [x]) ! i = us ! i" by (simp_all add: nth_append)
  with i show ?thesis unfolding dwell_passed_def by (intro exI [of _ i]) auto
qed

lemma dwell_passed_now:
  "fst (spindle_run w (wakes @ us)) = AwaitDwell d \<Longrightarrow> fle MIN_REVERSE_DWELL_S d \<Longrightarrow> dwell_passed w wakes (us @ [WakeDwell cmd])"
  unfolding dwell_passed_def by (intro exI [of _ "length us"]) simp

text \<open>An update that asks for a direction keeps the recorded one or waits for a dwell.\<close>

lemma apply_keeps_direction:
  assumes "apply_spindle lines_hal cmd c = (c', d)" "effective_state (sc_state cmd) (sc_rpm cmd) \<noteq> SpindleStop"
    "last_state c \<noteq> SpindleStop"
  shows "d = None \<Longrightarrow> last_state c' = last_state c"
  using assms
  by (auto simp: apply_spindle_def spindle_apply_def drive_stop_def drive_run_def on_out_lines Let_def split: if_splits)

lemma direction_or_dwell:
  assumes "\<not> ln_enable w" "\<not> ln_flipped w" "last_state (snd (spindle_run w wakes)) = st" "st \<noteq> SpindleStop"
    and "\<not> list_ex stops_spindle us"
  shows "dwell_passed w wakes us \<or> (\<exists>d. fst (spindle_run w (wakes @ us)) = AwaitDwell d) \<or>
    last_state (snd (spindle_run w (wakes @ us))) = st"
  using assms(5)
proof (induction us rule: rev_induct)
  case (snoc x us)
  obtain task c where run: "spindle_run w (wakes @ us) = (task, c)" by fastforce
  have inv: "interlocked (task, c)" using interlocked_run [OF assms(1,2), of "wakes @ us"] by (simp add: run)
  have step: "spindle_run w (wakes @ us @ [x]) = spindle_task lines_hal (task, c) x"
    using spindle_run_snoc [of w "wakes @ us" x] by (simp add: run)
  have x: "\<not> stops_spindle x" using snoc.prems by simp
  consider (passed) "dwell_passed w wakes us" | (dwell) d where "task = AwaitDwell d" | (kept) "task = AwaitCommand" "last_state c = st"
    using snoc run by (cases task) auto
  then show ?case
  proof cases
    case passed
    then show ?thesis by (simp add: dwell_passed_snoc)
  next
    case dwell
    then show ?thesis
      using x inv run step dwell_passed_now [of w wakes us d] by (cases x) auto
  next
    case kept
    show ?thesis
    proof (cases x)
      case (WakeUpdate cmd)
      obtain c' d where a: "apply_spindle lines_hal cmd c = (c', d)" by fastforce
      show ?thesis
        using apply_keeps_direction [OF a] x WakeUpdate kept assms(4) a step by (cases d) auto
    qed (use x kept step in auto)
  qed
qed (use assms(3) in auto)

text \<open>
  C36: From a disabled spindle, whatever commands, settings, emergency stops and dwells the task is given and
  whichever writes of the three outputs fail: the direction line is never changed while the spindle is enabled;
  while the task waits out a dwell, of at least half a second, the spindle is disabled; if the spindle is enabled
  in one direction and later in the other, and was neither commanded to stop nor stopped by an emergency stop in
  between, then such a dwell has elapsed in between; and an emergency stop whose two writes succeed leaves the
  spindle disabled at zero speed.
\<close>
theorem spindle_never_reversed_under_power:
  assumes "\<not> ln_enable w" and "\<not> ln_flipped w" and "spindle_run w wakes = (task, c)"
  shows "\<not> ln_flipped (sp_out c) \<and>
    (\<forall>d. task = AwaitDwell d \<longrightarrow> \<not> ln_enable (sp_out c) \<and> fle MIN_REVERSE_DWELL_S d) \<and>
    (\<forall>us task' c'. spindle_run w (wakes @ us) = (task', c') \<longrightarrow>
      ln_enable (sp_out c) \<longrightarrow> ln_enable (sp_out c') \<longrightarrow> ln_direction (sp_out c') \<noteq> ln_direction (sp_out c) \<longrightarrow>
      \<not> list_ex stops_spindle us \<longrightarrow> dwell_passed w wakes us) \<and>
    ((\<forall>f \<in> set (take 2 (ln_faults (sp_out c))). \<not> f) \<longrightarrow>
      \<not> ln_enable (sp_out (snd (spindle_run w (wakes @ [WakeEstop])))) \<and>
      ln_duty (sp_out (snd (spindle_run w (wakes @ [WakeEstop])))) = f32_zero)"
proof -
  have inv: "interlocked (spindle_run w ws)" for ws by (rule interlocked_run [OF assms(1,2)])
  have "dwell_passed w wakes us"
    if run: "spindle_run w (wakes @ us) = (task', c')" and on: "ln_enable (sp_out c)" "ln_enable (sp_out c')"
      and turned: "ln_direction (sp_out c') \<noteq> ln_direction (sp_out c)" and "\<not> list_ex stops_spindle us" for us task' c'
  proof -
    have c: "last_state c \<noteq> SpindleStop" "ln_direction (sp_out c) \<longleftrightarrow> last_state c = Clockwise"
      using inv [of wakes] assms(3) on(1) by auto
    have c': "ln_direction (sp_out c') \<longleftrightarrow> last_state c' = Clockwise" "task' = AwaitCommand"
      using inv [of "wakes @ us"] run on(2) by (auto split: SpindleTask.splits)
    from direction_or_dwell [OF assms(1,2) refl, of wakes us] that c c' assms(3) show ?thesis by auto
  qed
  moreover have "spindle_run w (wakes @ [WakeEstop]) = (AwaitCommand, spindle_emergency_stop lines_hal c)"
    by (cases task) (simp_all add: spindle_run_snoc assms(3))
  ultimately show ?thesis
    using inv [of wakes] estop_stops [of c] by (auto simp: assms(3))
qed

definition cw_command :: SpindleCommand
  where "cw_command = \<lparr>sc_state = Clockwise, sc_rpm = f32_of_int 6000, sc_rpm_min = f32_zero,
    sc_rpm_max = f32_of_int 12000, sc_reverse_dwell = f32_zero\<rparr>"

definition lines_off :: Lines
  where "lines_off = \<lparr>ln_enable = False, ln_direction = False, ln_duty = f32_zero, ln_faults = [], ln_flipped = False\<rparr>"

theorem spindle_never_reversed_under_power_witness:
  "\<exists>c. spindle_run lines_off [WakeUpdate cw_command, WakeUpdate (cw_command\<lparr>sc_state := CounterClockwise\<rparr>)] =
      (AwaitDwell MIN_REVERSE_DWELL_S, c) \<and> \<not> ln_flipped (sp_out c) \<and> \<not> ln_enable (sp_out c)"
proof -
  let ?wakes = "[WakeUpdate cw_command, WakeUpdate (cw_command\<lparr>sc_state := CounterClockwise\<rparr>)]"
  have pos: "\<not> fle (f32_of_int 6000) f32_zero" "fmax f32_zero MIN_REVERSE_DWELL_S = MIN_REVERSE_DWELL_S" by code_simp+
  obtain c where c: "spindle_run lines_off ?wakes = (AwaitDwell MIN_REVERSE_DWELL_S, c)"
    by (simp add: spindle_run_def spindle_machine_def SpindleController_new_def apply_spindle_def spindle_apply_def
        effective_state_def cw_command_def pos drive_run_def drive_stop_def on_out_def lines_hal_def attempt_def
        lines_off_def Let_def)
  have "\<not> ln_enable lines_off" "\<not> ln_flipped lines_off" by (simp_all add: lines_off_def)
  from spindle_never_reversed_under_power [OF this c] c show ?thesis by blast
qed

text \<open>
  The stop in between matters: an emergency stop forgets the direction, so the opposite one that follows it is
  enabled at once, without a dwell.
\<close>

lemma stop_skips_the_dwell:
  "\<exists>c. spindle_run lines_off [WakeUpdate cw_command, WakeEstop, WakeUpdate (cw_command\<lparr>sc_state := CounterClockwise\<rparr>)] =
      (AwaitCommand, c) \<and> ln_enable (sp_out c) \<and> \<not> ln_direction (sp_out c)"
proof -
  have pos: "\<not> fle (f32_of_int 6000) f32_zero" by code_simp
  show ?thesis
    by (simp add: spindle_run_def spindle_machine_def SpindleController_new_def apply_spindle_def spindle_apply_def
        effective_state_def cw_command_def pos drive_run_def drive_stop_def on_out_def lines_hal_def attempt_def
        lines_off_def Let_def spindle_emergency_stop_def emergency_stop_def ENABLE_RUN_def DIR_CLOCKWISE_def)
qed

section \<open>Coolant\<close>

text \<open>An emergency stop whose flood write fails returns before the mist line is written.\<close>

lemma coolant_estop_stops_at_a_fault:
  assumes "flood_set hal False (co_out c) = (w, Inl e)"
  shows "coolant_emergency_stop hal c = (c\<lparr>co_out := w\<rparr>, Inl (FloodFault e))"
  using assms by (simp add: coolant_emergency_stop_def coolant_apply_def on_circuit_def coolant_off_def)

lemma commanded_coolant_mask: "commanded_coolant (coolant_mask co) = co"
  by (cases co; cases "mist co"; cases "flood co")
    (simp_all add: commanded_coolant_def coolant_mask_def COOLANT_BIT_MIST_def COOLANT_BIT_FLOOD_def)

end
