(* ===== verification/System_Command.thy ===== *)
theory System_Command
  imports Prelude Grbl_Text Gcode_Lexer
begin

text \<open>
  \<^verbatim>\<open>crates/firmware-core/src/protocol/system_command.rs\<close>: the classification of the bytes after a \<^verbatim>\<open>$\<close>,
  and the queries that a program pause answers in place.
\<close>

section \<open>Bytes and text\<close>

definition bytes :: "string \<Rightarrow> u8 list"
  where "bytes s = map of_char s"

text \<open>\<^verbatim>\<open>core::str::from_utf8\<close>: the well-formed sequences of UTF-8, kept as their bytes.\<close>

definition continuation :: "u8 \<Rightarrow> bool"
  where "continuation b \<longleftrightarrow> 0x80 \<le> b \<and> b \<le> 0xBF"

fun valid_utf8 :: "u8 list \<Rightarrow> bool"
  where
    "valid_utf8 [] = True"
  | "valid_utf8 (a # bs) =
      (if a \<le> 0x7F then valid_utf8 bs
       else case bs of
         [] \<Rightarrow> False
       | b # bs1 \<Rightarrow>
          if 0xC2 \<le> a \<and> a \<le> 0xDF then continuation b \<and> valid_utf8 bs1
          else case bs1 of
            [] \<Rightarrow> False
          | c # bs2 \<Rightarrow>
             if a = 0xE0 then 0xA0 \<le> b \<and> b \<le> 0xBF \<and> continuation c \<and> valid_utf8 bs2
             else if a = 0xED then 0x80 \<le> b \<and> b \<le> 0x9F \<and> continuation c \<and> valid_utf8 bs2
             else if 0xE1 \<le> a \<and> a \<le> 0xEF then continuation b \<and> continuation c \<and> valid_utf8 bs2
             else case bs2 of
               [] \<Rightarrow> False
             | d # bs3 \<Rightarrow>
                ((a = 0xF0 \<and> 0x90 \<le> b \<and> b \<le> 0xBF) \<or> (0xF1 \<le> a \<and> a \<le> 0xF3 \<and> continuation b) \<or>
                 (a = 0xF4 \<and> 0x80 \<le> b \<and> b \<le> 0x8F)) \<and> continuation c \<and> continuation d \<and> valid_utf8 bs3)"

definition from_utf8 :: "u8 list \<Rightarrow> string option"
  where "from_utf8 bs = (if valid_utf8 bs then Some (map (\<lambda>b. char_of (unat b)) bs) else None)"

definition strip_bytes :: "u8 list \<Rightarrow> u8 list \<Rightarrow> u8 list option"
  where "strip_bytes p s = (if take (length p) s = p then Some (drop (length p) s) else None)"

section \<open>Commands\<close>

datatype SystemCommand =
    Help | SettingsDump | BuildInfo bool | ParserState | NgcParams | Unlock | ToggleCheck | SleepCommand | HomeCommand
  | StartupQuery | StartupSet nat "u8 list" | RestoreSettings | RestoreParams | RestoreAll | SetSetting "u8 list"
  | EnumSettings | EnumSettingGroups | EnumErrorCodes | EnumAlarmCodes | SettingDescription u16
  | PbExport | PbImport "u8 list" | Unknown

definition classify_with_payload :: "u8 list \<Rightarrow> SystemCommand"
  where "classify_with_payload rest =
    (case strip_bytes (bytes ''N0='') rest of Some gcode \<Rightarrow> StartupSet 0 gcode | None \<Rightarrow>
    (case strip_bytes (bytes ''N1='') rest of Some gcode \<Rightarrow> StartupSet 1 gcode | None \<Rightarrow>
    (case strip_bytes (bytes ''PBX='') rest of Some hex \<Rightarrow> PbImport hex | None \<Rightarrow>
    (case strip_bytes (bytes ''SED='') rest of
       Some idtext \<Rightarrow>
        (case from_utf8 idtext of
           None \<Rightarrow> Unknown
         | Some s \<Rightarrow> (case parse_unsigned 0xFFFF (trim s) of None \<Rightarrow> Unknown | Some n \<Rightarrow> SettingDescription (of_nat n)))
     | None \<Rightarrow>
        if of_char (CHR ''='') \<in> set rest
        then let head = takeWhile (\<lambda>b. b \<noteq> of_char (CHR ''='')) rest in
          if head \<noteq> [] \<and> list_all ascii_digit head then SetSetting rest else Unknown
        else Unknown))))"

definition exact_commands :: "(u8 list \<times> SystemCommand) list"
  where "exact_commands = map (\<lambda>(s, c). (bytes s, c))
    [([], Help), (''$'', SettingsDump), (''I'', BuildInfo False), (''I+'', BuildInfo True), (''G'', ParserState),
     (''#'', NgcParams), (''X'', Unlock), (''C'', ToggleCheck), (''SLP'', SleepCommand), (''H'', HomeCommand),
     (''N'', StartupQuery), (''RST=$'', RestoreSettings), (''RST=#'', RestoreParams), (''RST=*'', RestoreAll),
     (''ES'', EnumSettings), (''EG'', EnumSettingGroups), (''EE'', EnumErrorCodes), (''EA'', EnumAlarmCodes),
     (''PBX'', PbExport)]"

definition classify_system :: "u8 list \<Rightarrow> SystemCommand"
  where "classify_system rest =
    (case map_of exact_commands rest of Some c \<Rightarrow> c | None \<Rightarrow> classify_with_payload rest)"

fun is_readonly_query :: "SystemCommand \<Rightarrow> bool"
  where
    "is_readonly_query Help = True"
  | "is_readonly_query SettingsDump = True"
  | "is_readonly_query (BuildInfo _) = True"
  | "is_readonly_query ParserState = True"
  | "is_readonly_query NgcParams = True"
  | "is_readonly_query StartupQuery = True"
  | "is_readonly_query EnumSettings = True"
  | "is_readonly_query EnumSettingGroups = True"
  | "is_readonly_query EnumErrorCodes = True"
  | "is_readonly_query EnumAlarmCodes = True"
  | "is_readonly_query (SettingDescription _) = True"
  | "is_readonly_query PbExport = True"
  | "is_readonly_query _ = False"

text \<open>A payload is always a suffix of the line, and a setting write is headed by its digits.\<close>

lemma strip_bytes_Some: "strip_bytes p s = Some r \<longleftrightarrow> s = p @ r"
  by (auto simp: strip_bytes_def) (metis append_take_drop_id)

lemma classify_payload:
  "classify_system rest = StartupSet i gcode \<Longrightarrow> i < 2 \<and> rest = bytes (if i = 0 then ''N0='' else ''N1='') @ gcode"
  "classify_system rest = PbImport hex \<Longrightarrow> rest = bytes ''PBX='' @ hex"
  "classify_system rest = SetSetting body \<Longrightarrow> body = rest \<and> (\<exists>ds v. rest = ds @ of_char (CHR ''='') # v \<and>
    ds \<noteq> [] \<and> list_all ascii_digit ds)"
proof -
  have no_payload: "\<forall>c \<in> snd ` set exact_commands. c \<notin> range (case_prod StartupSet) \<union> range PbImport \<union> range SetSetting"
    by (auto simp: exact_commands_def)
  have exact: "c \<notin> range (case_prod StartupSet) \<union> range PbImport \<union> range SetSetting"
    if "map_of exact_commands rest = Some c" for c
    using no_payload map_of_SomeD [OF that] by force
  show "classify_system rest = StartupSet i gcode \<Longrightarrow> i < 2 \<and> rest = bytes (if i = 0 then ''N0='' else ''N1='') @ gcode"
    using exact [of "StartupSet i gcode"]
    by (auto simp: classify_system_def classify_with_payload_def strip_bytes_Some Let_def
        split: option.splits if_splits)
  show "classify_system rest = PbImport hex \<Longrightarrow> rest = bytes ''PBX='' @ hex"
    using exact [of "PbImport hex"]
    by (auto simp: classify_system_def classify_with_payload_def strip_bytes_Some Let_def
        split: option.splits if_splits)
  have split_eq: "x \<in> set xs \<Longrightarrow> \<exists>v. xs = takeWhile (\<lambda>b. b \<noteq> x) xs @ x # v" for x :: u8 and xs
    by (induction xs) auto
  show "classify_system rest = SetSetting body \<Longrightarrow> body = rest \<and> (\<exists>ds v. rest = ds @ of_char (CHR ''='') # v \<and>
    ds \<noteq> [] \<and> list_all ascii_digit ds)"
    using exact [of "SetSetting body"] split_eq [of "of_char (CHR ''='')" rest]
    by (auto simp: classify_system_def classify_with_payload_def Let_def split: option.splits if_splits)
qed

end
