(* ===== verification/Watchdog.thy ===== *)
theory Watchdog
  imports Prelude
begin

unbundle bit_operations_syntax

text \<open>
  What keeps the board from hanging in silence: the decisions of \<^verbatim>\<open>crates/firmware-core/src/diag.rs\<close>, the
  word of the breadcrumb in which \<^verbatim>\<open>crates/firmware/src/crash.rs\<close> records why a reset was forced, the ring of
  liveness snapshots, the task that feeds the watchdog (\<^verbatim>\<open>comms/watchdog.rs\<close>) and the timer
  interrupt that watches that task (\<^verbatim>\<open>stall_detector.rs\<close>), as the production build has them.  The feature
  builds that provoke or capture resets are left out.
\<close>

section \<open>Transmit stalls\<close>

text \<open>A saturating increment.\<close>

definition sat_inc :: "'a :: len word \<Rightarrow> 'a word"
  where "sat_inc w = (if w = - 1 then w else w + 1)"

definition USB_TX_STALL_ESCAPE_K :: u16 where "USB_TX_STALL_ESCAPE_K = 3"

record UsbTxStallCounter =
  consecutive_timeouts :: u16

definition UsbTxStallCounter_new :: UsbTxStallCounter
  where "UsbTxStallCounter_new = \<lparr>consecutive_timeouts = 0\<rparr>"

definition record_timeout :: "UsbTxStallCounter \<Rightarrow> bool \<Rightarrow> UsbTxStallCounter \<times> bool"
  where "record_timeout s timed_out =
    (let n = (if timed_out then sat_inc (consecutive_timeouts s) else 0)
     in (s\<lparr>consecutive_timeouts := n\<rparr>, USB_TX_STALL_ESCAPE_K \<le> n))"

datatype WriteOutcome = WriteCompleted | WriteStalled

definition is_stall :: "WriteOutcome \<Rightarrow> bool"
  where "is_stall o' \<longleftrightarrow> o' = WriteStalled"

datatype PollAction = PollAdvance | PollYield | PollStall

definition usb_tx_poll_action :: "bool \<Rightarrow> bool \<Rightarrow> PollAction"
  where "usb_tx_poll_action made_progress deadline_exceeded =
    (if made_progress then PollAdvance else if deadline_exceeded then PollStall else PollYield)"

record UsbTxStall =
  data_free :: bool
  serial_in_empty :: bool
  int_ena_armed :: bool
  motion_advancing :: bool
  stall_executor_running :: bool
  response_depth :: u8
  timeout_count :: u16

datatype UsbTxVerdict = HostNotReading | LostTxWake | Core1Wedged | Ambiguous

definition verdict :: "UsbTxStall \<Rightarrow> UsbTxVerdict"
  where "verdict s =
    (if \<not> data_free s then HostNotReading
     else if \<not> motion_advancing s \<and> stall_executor_running s then Core1Wedged
     else if data_free s \<and> 0 < response_depth s then LostTxWake
     else Ambiguous)"

definition USB_TX_STALL_TAG :: u32 where "USB_TX_STALL_TAG = 0x55540000"

definition DATA_FREE :: u32 where "DATA_FREE = push_bit 0 1"

definition SERIAL_IN_EMPTY :: u32 where "SERIAL_IN_EMPTY = push_bit 1 1"

definition MOTION_ADVANCING :: u32 where "MOTION_ADVANCING = push_bit 2 1"

definition EXECUTOR_RUNNING_BIT :: u32 where "EXECUTOR_RUNNING_BIT = push_bit 3 1"

definition INT_ENA_ARMED :: u32 where "INT_ENA_ARMED = push_bit 4 1"

definition RESPONSE_DEPTH_SHIFT :: nat where "RESPONSE_DEPTH_SHIFT = 6"

definition RESPONSE_DEPTH_MASK :: u32 where "RESPONSE_DEPTH_MASK = push_bit RESPONSE_DEPTH_SHIFT 0xF"

definition TIMEOUT_COUNT_SHIFT :: nat where "TIMEOUT_COUNT_SHIFT = 10"

definition TIMEOUT_COUNT_MASK :: u32 where "TIMEOUT_COUNT_MASK = push_bit TIMEOUT_COUNT_SHIFT 0x3F"

definition TIMEOUT_COUNT_CLAMP :: u16 where "TIMEOUT_COUNT_CLAMP = 0x3F"

definition pack_usb_tx_stall :: "UsbTxStall \<Rightarrow> u32"
  where "pack_usb_tx_stall s =
    (let word = USB_TX_STALL_TAG;
         word = (if data_free s then word OR DATA_FREE else word);
         word = (if serial_in_empty s then word OR SERIAL_IN_EMPTY else word);
         word = (if motion_advancing s then word OR MOTION_ADVANCING else word);
         word = (if stall_executor_running s then word OR EXECUTOR_RUNNING_BIT else word);
         word = (if int_ena_armed s then word OR INT_ENA_ARMED else word);
         word = word OR push_bit RESPONSE_DEPTH_SHIFT (ucast (min (response_depth s) 15));
         word = word OR push_bit TIMEOUT_COUNT_SHIFT (ucast (min (timeout_count s) TIMEOUT_COUNT_CLAMP))
     in word)"

definition decode_usb_tx_stall :: "u32 \<Rightarrow> UsbTxStall option"
  where "decode_usb_tx_stall word =
    (if word AND 0xFFFF0000 \<noteq> USB_TX_STALL_TAG then None
     else Some \<lparr>data_free = (word AND DATA_FREE \<noteq> 0), serial_in_empty = (word AND SERIAL_IN_EMPTY \<noteq> 0),
       int_ena_armed = (word AND INT_ENA_ARMED \<noteq> 0), motion_advancing = (word AND MOTION_ADVANCING \<noteq> 0),
       stall_executor_running = (word AND EXECUTOR_RUNNING_BIT \<noteq> 0),
       response_depth = ucast (drop_bit RESPONSE_DEPTH_SHIFT (word AND RESPONSE_DEPTH_MASK)),
       timeout_count = ucast (drop_bit TIMEOUT_COUNT_SHIFT (word AND TIMEOUT_COUNT_MASK))\<rparr>)"

fun usb_tx_verdict_label :: "UsbTxVerdict \<Rightarrow> string"
  where
    "usb_tx_verdict_label HostNotReading = ''host-not-reading''"
  | "usb_tx_verdict_label LostTxWake = ''lost-tx-wake''"
  | "usb_tx_verdict_label Core1Wedged = ''core1-wedged''"
  | "usb_tx_verdict_label Ambiguous = ''ambiguous''"

section \<open>Decisions over frozen beats\<close>

definition DEAD_ZONE_STALL_TICKS :: u32 where "DEAD_ZONE_STALL_TICKS = 16"

definition dead_zone_withhold :: "nat \<Rightarrow> u32 \<Rightarrow> bool"
  where "dead_zone_withhold depth tx_complete_frozen_ticks \<longleftrightarrow>
    0 < depth \<and> DEAD_ZONE_STALL_TICKS \<le> tx_complete_frozen_ticks"

definition EXECUTOR_STALL_TICKS :: u32 where "EXECUTOR_STALL_TICKS = 16"

datatype WithholdKind = WK_Core1Motion | WK_Core0ExecutorStall | WK_Core0Comms | WK_DeadZone

record WatchdogInputs =
  core1_frozen_ticks :: u32
  comms_frozen_ticks :: u32
  tx_complete_frozen_ticks :: u32
  executor_alive_frozen_ticks :: u32
  executor_stall_ticks :: u32
  input_response_depth :: nat
  input_block_in_flight :: bool
  input_host_active :: bool
  core1_stall_ticks :: u32
  comms_stall_ticks :: u32

record WatchdogDecision =
  feed_rwdt :: bool
  feed_swd :: bool
  withhold_reason :: "WithholdKind option"

definition watchdog_decision :: "WatchdogInputs \<Rightarrow> WatchdogDecision"
  where "watchdog_decision i =
    (let core1_wedged = core1_stall_ticks i \<le> core1_frozen_ticks i;
         executor_stalled = 0 < executor_stall_ticks i \<and> executor_stall_ticks i \<le> executor_alive_frozen_ticks i;
         comms_wedged = comms_stall_ticks i \<le> comms_frozen_ticks i;
         dead_zone = dead_zone_withhold (input_response_depth i) (tx_complete_frozen_ticks i);
         reason = (if core1_wedged then Some WK_Core1Motion
                   else if executor_stalled then Some WK_Core0ExecutorStall
                   else if comms_wedged then Some WK_Core0Comms
                   else if dead_zone then Some WK_DeadZone
                   else None);
         feed = (reason = None)
     in \<lparr>feed_rwdt = feed, feed_swd = feed, withhold_reason = reason\<rparr>)"

record ExecutorFreezeSample =
  sample_frozen :: bool
  sample_frozen_ticks :: u32
  sample_crossed :: bool

record ExecutorFreezeTracker =
  tracker_last :: u32
  tracker_frozen_ticks :: u32

definition ExecutorFreezeTracker_new :: ExecutorFreezeTracker
  where "ExecutorFreezeTracker_new = \<lparr>tracker_last = - 1, tracker_frozen_ticks = 0\<rparr>"

definition observe :: "ExecutorFreezeTracker \<Rightarrow> u32 \<Rightarrow> u32 \<Rightarrow> ExecutorFreezeTracker \<times> ExecutorFreezeSample"
  where "observe t alive stall_ticks =
    (let lst = (if tracker_last t = - 1 then alive else tracker_last t);
         frozen = (alive \<noteq> 0 \<and> alive = lst);
         ticks = (if frozen then sat_inc (tracker_frozen_ticks t) else 0);
         crossed = (0 < stall_ticks \<and> stall_ticks \<le> ticks)
     in (\<lparr>tracker_last = alive, tracker_frozen_ticks = ticks\<rparr>,
         \<lparr>sample_frozen = frozen, sample_frozen_ticks = ticks, sample_crossed = crossed\<rparr>))"

definition STALL_WINDOW_LEN :: nat where "STALL_WINDOW_LEN = 16"

record WindowedStallCounter =
  window :: u16

definition WINDOW_MASK :: u16
  where "WINDOW_MASK = (if 16 \<le> STALL_WINDOW_LEN then - 1 else push_bit STALL_WINDOW_LEN 1 - 1)"

definition WindowedStallCounter_new :: WindowedStallCounter
  where "WindowedStallCounter_new = \<lparr>window = 0\<rparr>"

definition count_ones :: "u16 \<Rightarrow> nat"
  where "count_ones w = length (filter (bit w) [0..<16])"

definition window_count :: "WindowedStallCounter \<Rightarrow> u16"
  where "window_count s = of_nat (count_ones (window s))"

definition record_window :: "WindowedStallCounter \<Rightarrow> bool \<Rightarrow> WindowedStallCounter \<times> u16"
  where "record_window s timed_out =
    (let s = s\<lparr>window := (push_bit 1 (window s) AND WINDOW_MASK) OR (if timed_out then 1 else 0)\<rparr>
     in (s, window_count s))"

section \<open>The breadcrumb\<close>

datatype WithholdReason = Core1Motion | Core0Comms | DeadZone | Core0ExecutorStall

fun reason_code :: "WithholdReason \<Rightarrow> u8"
  where
    "reason_code Core1Motion = 1"
  | "reason_code Core0Comms = 2"
  | "reason_code DeadZone = 3"
  | "reason_code Core0ExecutorStall = 4"

definition WithholdReason_from_u8 :: "u8 \<Rightarrow> WithholdReason option"
  where "WithholdReason_from_u8 v =
    (if v = 1 then Some Core1Motion else if v = 2 then Some Core0Comms
     else if v = 3 then Some DeadZone else if v = 4 then Some Core0ExecutorStall else None)"

definition WITHHOLD_TAG :: u32 where "WITHHOLD_TAG = 0x57480000"

definition withhold_word :: "WithholdReason \<Rightarrow> u32"
  where "withhold_word reason = WITHHOLD_TAG OR ucast (reason_code reason)"

definition withhold_tag_ok :: "u32 \<Rightarrow> bool"
  where "withhold_tag_ok packed \<longleftrightarrow> packed AND 0xFFFF0000 = WITHHOLD_TAG"

definition withhold_label :: "u32 \<Rightarrow> string option"
  where "withhold_label packed =
    (if \<not> withhold_tag_ok packed then None
     else map_option (\<lambda>r. case r of Core1Motion \<Rightarrow> ''core1-motion-wedge'' | Core0Comms \<Rightarrow> ''core0-comms-wedge''
            | DeadZone \<Rightarrow> ''dead-zone-silent-lock'' | Core0ExecutorStall \<Rightarrow> ''core0-executor-stall'')
          (WithholdReason_from_u8 (ucast (packed AND 0xFF))))"

definition withhold_was_executor_stall :: "u32 \<Rightarrow> bool"
  where "withhold_was_executor_stall packed \<longleftrightarrow>
    withhold_tag_ok packed \<and> (ucast (packed AND 0xFF) :: u8) = reason_code Core0ExecutorStall"

definition withhold_was_wedge :: "u32 \<Rightarrow> bool"
  where "withhold_was_wedge packed \<longleftrightarrow> withhold_tag_ok packed \<and> packed AND 0xFF \<noteq> 0"

definition position_suspect :: "u32 \<Rightarrow> bool"
  where "position_suspect packed = withhold_was_wedge packed"

record Snapshot =
  snap_seq :: u32
  core0_beat :: u32
  core1_beat :: u32

definition RING_LEN :: nat where "RING_LEN = 4"

text \<open>The words of the breadcrumb that these tasks write; \<^verbatim>\<open>bc_ring\<close> has \<^verbatim>\<open>RING_LEN\<close> slots.\<close>

record Breadcrumb =
  bc_withhold :: u32
  bc_heartbeat :: u32
  bc_seq :: u32
  bc_head :: u32
  bc_ring :: "Snapshot list"

definition record_withhold :: "WithholdReason \<Rightarrow> Breadcrumb \<Rightarrow> Breadcrumb"
  where "record_withhold reason b = b\<lparr>bc_withhold := withhold_word reason\<rparr>"

definition clear_withhold_if :: "WithholdReason \<Rightarrow> Breadcrumb \<Rightarrow> Breadcrumb"
  where "clear_withhold_if reason b =
    (if bc_withhold b = withhold_word reason then b\<lparr>bc_withhold := 0\<rparr> else b)"

definition bump_watchdog_heartbeat :: "Breadcrumb \<Rightarrow> Breadcrumb"
  where "bump_watchdog_heartbeat b = b\<lparr>bc_heartbeat := sat_inc (bc_heartbeat b)\<rparr>"

definition push_snapshot :: "u32 \<Rightarrow> u32 \<Rightarrow> Breadcrumb \<Rightarrow> Breadcrumb"
  where "push_snapshot c0 c1 b =
    (let s = bc_seq b + 1; head = unat (bc_head b) mod RING_LEN
     in b\<lparr>bc_seq := s, bc_ring := (bc_ring b)[head := \<lparr>snap_seq = s, core0_beat = c0, core1_beat = c1\<rparr>],
          bc_head := of_nat ((head + 1) mod RING_LEN)\<rparr>)"

text \<open>The ring as the next boot reads it, newest first, and what it says of the two sides.\<close>

definition newest_first :: "Breadcrumb \<Rightarrow> Snapshot list"
  where "newest_first b =
    (let head = unat (bc_head b) mod RING_LEN
     in map (\<lambda>i. bc_ring b ! ((head + RING_LEN - 1 - i) mod RING_LEN)) [0..<RING_LEN])"

definition froze_first :: "Snapshot list \<Rightarrow> string"
  where "froze_first snapshots =
    (let valid = filter (\<lambda>s. snap_seq s \<noteq> 0) snapshots
     in if length valid < 2 then ''insufficient-data''
        else
          let newest = hd valid;
              core0_run = 1 + length (takeWhile (\<lambda>s. core0_beat s = core0_beat newest) (tl valid));
              core1_run = 1 + length (takeWhile (\<lambda>s. core1_beat s = core1_beat newest) (tl valid));
              core0_stalled = (2 \<le> core0_run); core1_stalled = (2 \<le> core1_run)
          in if \<not> core0_stalled \<and> \<not> core1_stalled then ''no-stall''
             else if core0_stalled \<and> core1_stalled
             then (if core0_run < core1_run then ''motion-froze-first''
                   else if core1_run < core0_run then ''comms-froze-first'' else ''both-froze'')
             else if core1_stalled then ''motion-froze-first'' else ''comms-froze-first'')"

section \<open>The feeder\<close>

text \<open>One iteration of \<^verbatim>\<open>watchdog_feed\<close> reads these statics; the lines queued are a number.\<close>

record Beats =
  motion_liveness :: u32
  comms_beat :: u32
  rx_beat :: u32
  usb_tx_completed :: u32
  block_in_flight :: bool
  response_backlog :: nat

definition FEED_CORE1_STALL_TICKS :: u32 where "FEED_CORE1_STALL_TICKS = 8"

definition FEED_COMMS_STALL_TICKS :: u32 where "FEED_COMMS_STALL_TICKS = 6"

definition RX_ACTIVE_TICKS :: u32 where "RX_ACTIVE_TICKS = 12"

definition DEAD_ZONE_BACKSTOP_ARMED :: bool where "DEAD_ZONE_BACKSTOP_ARMED = False"

text \<open>Its locals.\<close>

record Feeder =
  last_core1 :: u32
  last_comms :: u32
  last_rx :: u32
  last_tx_completed :: u32
  core1_frozen :: u32
  comms_frozen :: u32
  tx_complete_frozen :: u32
  rx_idle :: u32
  withheld :: "WithholdReason option"

definition Feeder_new :: "Beats \<Rightarrow> Feeder"
  where "Feeder_new b =
    \<lparr>last_core1 = motion_liveness b, last_comms = comms_beat b, last_rx = rx_beat b,
     last_tx_completed = usb_tx_completed b, core1_frozen = 0, comms_frozen = 0, tx_complete_frozen = 0,
     rx_idle = RX_ACTIVE_TICKS, withheld = None\<rparr>"

text \<open>The statics of the stall detector, and all that the two write.\<close>

record Dog =
  feeder :: Feeder
  executor_alive :: u32
  crumb :: Breadcrumb
  fed :: nat
  last_executor_alive :: u32
  executor_alive_frozen :: u32
  stall_latched :: bool
  frozen_recovery_ticks :: u32

text \<open>The field \<^verbatim>\<open>fed\<close> counts the feeds of the watchdog.\<close>

definition Dog_new :: "Beats \<Rightarrow> Breadcrumb \<Rightarrow> Dog"
  where "Dog_new b bc =
    \<lparr>feeder = Feeder_new b, executor_alive = 0, crumb = bc, fed = 0, last_executor_alive = - 1,
     executor_alive_frozen = 0, stall_latched = False, frozen_recovery_ticks = 0\<rparr>"

text \<open>The four counters of one iteration.\<close>

definition count_beats :: "Beats \<Rightarrow> Feeder \<Rightarrow> Feeder"
  where "count_beats b f =
    (let f = f\<lparr>core1_frozen :=
               (if block_in_flight b \<and> motion_liveness b = last_core1 f then sat_inc (core1_frozen f) else 0)\<rparr>;
         f = f\<lparr>rx_idle := (if rx_beat b = last_rx f then sat_inc (rx_idle f) else 0)\<rparr>;
         host_active = (rx_idle f < RX_ACTIVE_TICKS);
         f = f\<lparr>comms_frozen :=
               (if host_active \<and> comms_beat b = last_comms f then sat_inc (comms_frozen f) else 0)\<rparr>;
         f = f\<lparr>tx_complete_frozen :=
               (if usb_tx_completed b = last_tx_completed f then sat_inc (tx_complete_frozen f) else 0)\<rparr>
     in f\<lparr>last_core1 := motion_liveness b, last_comms := comms_beat b, last_rx := rx_beat b,
          last_tx_completed := usb_tx_completed b\<rparr>)"

definition feeder_verdict :: "Beats \<Rightarrow> Feeder \<Rightarrow> WithholdReason option"
  where "feeder_verdict b f =
    (let core1_wedged = FEED_CORE1_STALL_TICKS \<le> core1_frozen f;
         comms_wedged = FEED_COMMS_STALL_TICKS \<le> comms_frozen f;
         dead_zone = (DEAD_ZONE_BACKSTOP_ARMED \<and> dead_zone_withhold (response_backlog b) (tx_complete_frozen f))
     in if core1_wedged \<or> comms_wedged \<or> dead_zone
        then Some (if core1_wedged then Core1Motion else if comms_wedged then Core0Comms else DeadZone)
        else None)"

definition watchdog_feed :: "Beats \<Rightarrow> Dog \<Rightarrow> Dog"
  where "watchdog_feed b d =
    (let d = d\<lparr>crumb := bump_watchdog_heartbeat (crumb d), executor_alive := executor_alive d + 1\<rparr>;
         d = d\<lparr>feeder := count_beats b (feeder d)\<rparr>;
         d = d\<lparr>crumb := push_snapshot (comms_beat b) (motion_liveness b) (crumb d)\<rparr>
     in case feeder_verdict b (feeder d) of
          Some reason \<Rightarrow>
            d\<lparr>crumb := record_withhold reason (crumb d), feeder := (feeder d)\<lparr>withheld := Some reason\<rparr>\<rparr>
        | None \<Rightarrow>
            let d = d\<lparr>fed := fed d + 1\<rparr>
            in (case withheld (feeder d) of
                  Some reason \<Rightarrow>
                    d\<lparr>feeder := (feeder d)\<lparr>withheld := None\<rparr>, crumb := clear_withhold_if reason (crumb d)\<rparr>
                | None \<Rightarrow> d))"

section \<open>The stall detector\<close>

definition FROZEN_RECOVERY_DEBOUNCE_TICKS :: u32
  where "FROZEN_RECOVERY_DEBOUNCE_TICKS = (let feed_ms = 500; sample_ms = 250 in (feed_ms + sample_ms - 1) div sample_ms)"

definition stall_detector_fire :: "Dog \<Rightarrow> Dog"
  where "stall_detector_fire d =
    (let alive = executor_alive d;
         prev = last_executor_alive d;
         d = d\<lparr>last_executor_alive := alive\<rparr>;
         lst = (if prev = - 1 then alive else prev);
         frozen = (alive \<noteq> 0 \<and> alive = lst);
         d = (if frozen then d\<lparr>frozen_recovery_ticks := 0\<rparr> else d);
         frozen_ticks = (if frozen then sat_inc (executor_alive_frozen d) else 0);
         d = d\<lparr>executor_alive_frozen := frozen_ticks\<rparr>
     in if EXECUTOR_STALL_TICKS \<le> frozen_ticks
        then (let was = stall_latched d; d = d\<lparr>stall_latched := True\<rparr>
              in if \<not> was then d\<lparr>crumb := record_withhold Core0ExecutorStall (crumb d)\<rparr> else d)
        else if \<not> frozen
        then (let d = d\<lparr>stall_latched := False\<rparr>; recovered = frozen_recovery_ticks d
              in if recovered < FROZEN_RECOVERY_DEBOUNCE_TICKS
                 then (let nxt = recovered + 1; d = d\<lparr>frozen_recovery_ticks := nxt\<rparr>
                       in if FROZEN_RECOVERY_DEBOUNCE_TICKS \<le> nxt
                          then d\<lparr>crumb := clear_withhold_if Core0ExecutorStall (crumb d)\<rparr> else d)
                 else d)
        else d)"

text \<open>Feeder iterations and timer interrupts in any order.\<close>

datatype DogEvent = Feed Beats | Fire

fun dog_step :: "Dog \<Rightarrow> DogEvent \<Rightarrow> Dog"
  where
    "dog_step d (Feed b) = watchdog_feed b d"
  | "dog_step d Fire = stall_detector_fire d"

definition dog_run :: "Dog \<Rightarrow> DogEvent list \<Rightarrow> Dog"
  where "dog_run d es = foldl dog_step d es"

end
