(* ===== verification/Reports.thy ===== *)
theory Reports
  imports Wire_Format Coords Tmc2209
begin

text \<open>
  The reports a \<^verbatim>\<open>$\<close> query is answered with: the modal words of
  \<^verbatim>\<open>crates/firmware-core/src/protocol/parser_state.rs\<close>, the parser-state, coordinate and driver
  lines of \<^verbatim>\<open>response.rs\<close>, the tokens of \<^verbatim>\<open>diag_types.rs\<close>, and the probe verdict of
  \<^verbatim>\<open>report.rs\<close>.  The \<^verbatim>\<open>{:.3}\<close> format of a float is a parameter.
\<close>

section \<open>The parser state\<close>

datatype ParserMotion = PM_Rapid | PM_Linear | PM_ArcCw | PM_ArcCcw

fun motion_word :: "ParserMotion \<Rightarrow> string"
  where
    "motion_word PM_Rapid = ''G0''"
  | "motion_word PM_Linear = ''G1''"
  | "motion_word PM_ArcCw = ''G2''"
  | "motion_word PM_ArcCcw = ''G3''"

datatype ParserSpindle = PS_Clockwise | PS_CounterClockwise | PS_Stop

fun spindle_word :: "ParserSpindle \<Rightarrow> string"
  where
    "spindle_word PS_Clockwise = ''M3''"
  | "spindle_word PS_CounterClockwise = ''M4''"
  | "spindle_word PS_Stop = ''M5''"

datatype ParserPlane = PP_XY | PP_ZX | PP_YZ

fun plane_word :: "ParserPlane \<Rightarrow> string"
  where
    "plane_word PP_XY = ''G17''"
  | "plane_word PP_ZX = ''G18''"
  | "plane_word PP_YZ = ''G19''"

datatype ParserUnits = PU_Inch | PU_Millimeter

fun units_word :: "ParserUnits \<Rightarrow> string"
  where
    "units_word PU_Inch = ''G20''"
  | "units_word PU_Millimeter = ''G21''"

datatype ParserDistance = PD_Absolute | PD_Incremental

fun distance_word :: "ParserDistance \<Rightarrow> string"
  where
    "distance_word PD_Absolute = ''G90''"
  | "distance_word PD_Incremental = ''G91''"

datatype ParserFeedMode = PF_InverseTime | PF_UnitsPerMin

fun feed_mode_word :: "ParserFeedMode \<Rightarrow> string"
  where
    "feed_mode_word PF_InverseTime = ''G93''"
  | "feed_mode_word PF_UnitsPerMin = ''G94''"

record ParserCoolant =
  pc_mist :: bool
  pc_flood :: bool

record ParserSnapshot =
  ps_motion :: ParserMotion
  ps_units :: ParserUnits
  ps_distance :: ParserDistance
  ps_feed_mode :: ParserFeedMode
  ps_wcs :: nat
  ps_tlo_active :: bool
  ps_feed :: f32
  ps_spindle :: ParserSpindle
  ps_spindle_rpm :: u16
  ps_plane :: ParserPlane
  ps_coolant :: ParserCoolant
  ps_tool :: u16

definition parser_snapshot :: "ModalState \<Rightarrow> ParserSnapshot"
  where "parser_snapshot m =
    \<lparr>ps_motion = (case m_motion m of
        MM_Rapid \<Rightarrow> PM_Rapid | MM_Linear \<Rightarrow> PM_Linear | MM_ArcCw \<Rightarrow> PM_ArcCw | MM_ArcCcw \<Rightarrow> PM_ArcCcw),
     ps_units = (case m_units m of Inch \<Rightarrow> PU_Inch | Millimeter \<Rightarrow> PU_Millimeter),
     ps_distance = (case m_distance m of Absolute \<Rightarrow> PD_Absolute | Incremental \<Rightarrow> PD_Incremental),
     ps_feed_mode = (case m_feed_mode m of InverseTime \<Rightarrow> PF_InverseTime | UnitsPerMin \<Rightarrow> PF_UnitsPerMin),
     ps_wcs = m_wcs m, ps_tlo_active = m_tlo_active m, ps_feed = m_feed m,
     ps_spindle = (case m_spindle m of
        Clockwise \<Rightarrow> PS_Clockwise | CounterClockwise \<Rightarrow> PS_CounterClockwise | SpindleStop \<Rightarrow> PS_Stop),
     ps_spindle_rpm = f32_to_u16 (fmax (m_spindle_speed m) f32_zero),
     ps_plane = (case m_plane m of PlaneXY \<Rightarrow> PP_XY | PlaneZX \<Rightarrow> PP_ZX | PlaneYZ \<Rightarrow> PP_YZ),
     ps_coolant = \<lparr>pc_mist = mist (m_coolant m), pc_flood = flood (m_coolant m)\<rparr>,
     ps_tool = m_current_tool m\<rparr>"

definition WCS_TAGS :: "string list"
  where "WCS_TAGS = [''G54'', ''G55'', ''G56'', ''G57'', ''G58'', ''G59'']"

text \<open>A scratch buffer of 24 bytes takes the three decimals, which are then trimmed.\<close>

definition write_minimal_f32 :: "(f32 \<Rightarrow> string) \<Rightarrow> nat \<Rightarrow> f32 \<Rightarrow> string \<Rightarrow> (string, FmtError, unit) outcome"
  where "write_minimal_f32 fmt3 n x out =
    (case write_str 24 (fmt3 x) [] of
       (_, Inl e) \<Rightarrow> (out, Inl e)
     | (s, Inr _) \<Rightarrow>
         write_str n (if CHR ''.'' \<in> set s then trim_end_matches ''.'' (trim_end_matches ''0'' s) else s) out)"

definition coolant_word :: "ParserCoolant \<Rightarrow> string"
  where "coolant_word c =
    (case (pc_mist c, pc_flood c) of
       (False, False) \<Rightarrow> ''M9'' | (True, False) \<Rightarrow> ''M7'' | (False, True) \<Rightarrow> ''M8'' | (True, True) \<Rightarrow> ''M7 M8'')"

definition parser_state :: "(f32 \<Rightarrow> string) \<Rightarrow> nat \<Rightarrow> ParserSnapshot \<Rightarrow> string \<Rightarrow> (string, FmtError, unit) outcome"
  where "parser_state fmt3 n p out =
    (let wcs_word = (if ps_wcs p < length WCS_TAGS then WCS_TAGS ! ps_wcs p else ''G54'');
         tlo_word = (if ps_tlo_active p then ''G43.1'' else ''G49'') in
     and_then (write_all n
       [''[GC:'', motion_word (ps_motion p), '' '', wcs_word, '' '', plane_word (ps_plane p), '' '',
        units_word (ps_units p), '' '', distance_word (ps_distance p), '' '', feed_mode_word (ps_feed_mode p), '' '',
        spindle_word (ps_spindle p), '' '', coolant_word (ps_coolant p), '' T'', dec (unat (ps_tool p)), '' '',
        tlo_word, '' F''] out) (\<lambda>_ out.
     and_then (write_minimal_f32 fmt3 n (ps_feed p) out) (\<lambda>_ out.
     write_all n ['' S'', dec (unat (ps_spindle_rpm p)), '']'' @ CRLF] out)))"

section \<open>Coordinates\<close>

definition NGC_PARAMETER_LINES :: nat
  where "NGC_PARAMETER_LINES = 11"

record CoordinateReport =
  cr_wcs :: "f32 list list"
  cr_predefined :: "f32 list list"
  cr_g92 :: "f32 list"
  cr_tlo :: f32
  cr_probe :: "f32 list"
  cr_probe_success :: bool

definition coord_line :: "(f32 \<Rightarrow> string) \<Rightarrow> nat \<Rightarrow> string \<Rightarrow> f32 list \<Rightarrow> string \<Rightarrow> (string, FmtError, unit) outcome"
  where "coord_line fmt3 n tag v = write_all n ([''['', tag, '':''] @ axes_csv fmt3 v @ ['']'' @ CRLF])"

definition ngc_parameter_line ::
    "(f32 \<Rightarrow> string) \<Rightarrow> nat \<Rightarrow> CoordinateReport \<Rightarrow> nat \<Rightarrow> string \<Rightarrow> (string, FmtError, unit) outcome"
  where "ngc_parameter_line fmt3 n r index out =
    (if index \<le> 5 then coord_line fmt3 n (WCS_TAGS ! index) (cr_wcs r ! index) out
     else if index = 6 then coord_line fmt3 n ''G28'' (cr_predefined r ! 0) out
     else if index = 7 then coord_line fmt3 n ''G30'' (cr_predefined r ! 1) out
     else if index = 8 then coord_line fmt3 n ''G92'' (cr_g92 r) out
     else if index = 9 then write_all n [''[TLO:'', fmt3 (cr_tlo r), '']'' @ CRLF] out
     else if index = 10 then probe_report fmt3 n (cr_probe r) (cr_probe_success r) out
     else (out, Inl FmtError))"

section \<open>The last probe\<close>

record LastProbe =
  lp_position_mm :: "f32 list"
  lp_success :: bool

definition LastProbe_none :: LastProbe
  where "LastProbe_none = \<lparr>lp_position_mm = replicate AXIS_COUNT f32_zero, lp_success = False\<rparr>"

datatype ProbeResponse = ProbeOk | ProbeAlarm AlarmCode

definition probe_response :: "bool \<Rightarrow> bool \<Rightarrow> bool \<Rightarrow> ProbeResponse"
  where "probe_response trig at_edge fail_alarms =
    (if trig \<or> \<not> fail_alarms then ProbeOk
     else if at_edge then ProbeAlarm ProbeFailInitial
     else ProbeAlarm ProbeFailContact)"

text \<open>\<^verbatim>\<open>steps_to_mm\<close> of \<^verbatim>\<open>cnc-kinematics/src/motion.rs\<close>.\<close>

definition steps_to_mm :: "i32 list \<Rightarrow> f32 list \<Rightarrow> f32 list"
  where "steps_to_mm pos per_mm =
    map (\<lambda>axis. if flt f32_zero (per_mm ! axis) then fdiv (f32_of_word (pos ! axis)) (per_mm ! axis) else f32_zero)
      [0..<AXES]"

section \<open>The drivers\<close>

record DriverStatus =
  ds_online :: "bool list"
  ds_initialized :: bool

datatype BusErrorKind = BK_Timeout | BK_Io | BK_Decode

fun bus_kind_from_error :: "TmcError \<Rightarrow> BusErrorKind"
  where
    "bus_kind_from_error T_Timeout = BK_Timeout"
  | "bus_kind_from_error T_Io = BK_Io"
  | "bus_kind_from_error _ = BK_Decode"

fun bus_kind_token :: "BusErrorKind \<Rightarrow> string"
  where
    "bus_kind_token BK_Timeout = ''to''"
  | "bus_kind_token BK_Io = ''io''"
  | "bus_kind_token BK_Decode = ''dec''"

fun bus_kind_code :: "BusErrorKind \<Rightarrow> u32"
  where
    "bus_kind_code BK_Timeout = 0"
  | "bus_kind_code BK_Io = 1"
  | "bus_kind_code BK_Decode = 2"

fun rx_token :: "RxErrorKind \<Rightarrow> string"
  where
    "rx_token Rx_Overflow = ''ovf''"
  | "rx_token Rx_Glitch = ''glt''"
  | "rx_token Rx_Framing = ''frm''"
  | "rx_token Rx_Parity = ''par''"

datatype IoStage = IoEcho | IoReply

fun io_stage_token :: "IoStage \<Rightarrow> string"
  where
    "io_stage_token IoEcho = ''e''"
  | "io_stage_token IoReply = ''r''"

record InitFailure =
  if_axis :: nat
  if_reg :: u8
  if_was_write :: bool
  if_kind :: "BusErrorKind option"
  if_io_detail :: "(IoStage \<times> RxErrorKind) option"

definition failure_to_bits :: "InitFailure \<Rightarrow> u32"
  where "failure_to_bits f =
    (let kind = (case if_kind f of Some k \<Rightarrow> bus_kind_code k | None \<Rightarrow> 3);
         bits = 1 OR push_bit 1 (ucast (if_reg f)) OR push_bit 9 (if if_was_write f then 1 else 0)
           OR push_bit 10 kind OR push_bit 12 (of_nat (if_axis f) AND 0x7) in
     case if_io_detail f of
       None \<Rightarrow> bits
     | Some (io, variant) \<Rightarrow>
         bits OR (push_bit 15 1 OR push_bit 16 (if io = IoReply then 1 else 0) OR push_bit 17 (rx_to_code variant)))"

definition failure_from_bits :: "u32 \<Rightarrow> InitFailure option"
  where "failure_from_bits bits =
    (if bits AND 1 = 0 then None
     else
      (let reg = ucast (drop_bit 1 bits AND 0xFF);
           was_write = (drop_bit 9 bits AND 1 \<noteq> 0);
           k = drop_bit 10 bits AND 0x3;
           kind = (if k = 0 then Some BK_Timeout else if k = 1 then Some BK_Io else if k = 2 then Some BK_Decode else None);
           axis = unat (drop_bit 12 bits AND 0x7);
           io_detail =
             (if drop_bit 15 bits AND 1 \<noteq> 0
              then Some (if drop_bit 16 bits AND 1 \<noteq> 0 then IoReply else IoEcho, rx_from_code (drop_bit 17 bits))
              else None)
       in Some \<lparr>if_axis = axis, if_reg = reg, if_was_write = was_write, if_kind = kind, if_io_detail = io_detail\<rparr>))"

text \<open>\<^verbatim>\<open>{:#04x}\<close>: two lower-case hexadecimal digits after \<^verbatim>\<open>0x\<close>.\<close>

definition hex_byte :: "u8 \<Rightarrow> string"
  where "hex_byte b =
    (let digit = (\<lambda>d. ''0123456789abcdef'' ! unat d) in ''0x'' @ [digit (drop_bit 4 b), digit (b AND 0x0F)])"

definition failure_token :: "InitFailure \<Rightarrow> string list"
  where "failure_token f =
    (let rw = (if if_was_write f then ''w'' else ''r'');
         kind = (case if_kind f of Some k \<Rightarrow> bus_kind_token k | None \<Rightarrow> ''cfg'') in
     [''err:'', rw, case register_name (if_reg f) of Some name \<Rightarrow> name | None \<Rightarrow> hex_byte (if_reg f), '':'', kind] @
     (case if_io_detail f of None \<Rightarrow> [] | Some (io, variant) \<Rightarrow> [''@'', io_stage_token io, rx_token variant]))"

fun stage_token :: "TmcProbeStage \<Rightarrow> string list"
  where
    "stage_token Responded = [''ok'']"
  | "stage_token EchoTimeout = [''no-echo'']"
  | "stage_token (ReplyTimeout fifo ready) =
      (if fifo = 0 then [if ready then ''no-reply(fifo:0,rdy)'' else ''no-reply(fifo:0)'']
       else [''no-reply(fifo:'', dec (unat fifo), '')''])"
  | "stage_token DecodeError = [''crc'']"
  | "stage_token (VersionMismatch v) = [''ver:'', hex_byte v]"
  | "stage_token (WriteVerify expected actual) = [''wrver:'', dec (unat actual), ''/'', dec (unat expected)]"
  | "stage_token InitError = [''err'']"
  | "stage_token (RespondedDespiteGlitch v) = [''ok('', rx_token v, '')'']"
  | "stage_token (DecodeErrorGlitched v) = [''crc('', rx_token v, '')'']"

record IoinRawCapture =
  ioin_axis :: nat
  ioin_bytes :: "u8 list"

record DriverProbe =
  dp_stages :: "TmcProbeStage list"
  dp_initialized :: bool
  dp_raw_ioin :: "IoinRawCapture option"
  dp_init_failure :: "InitFailure option"

definition should_report :: "DriverProbe \<Rightarrow> bool"
  where "should_report p \<longleftrightarrow> dp_initialized p \<and> list_ex (\<lambda>s. s \<noteq> Responded) (dp_stages p)"

record BusStats =
  bs_fail :: "u16 list"
  bs_total :: "u16 list"

definition any_attempted :: "BusStats \<Rightarrow> bool"
  where "any_attempted s = list_ex (\<lambda>t. 0 < t) (bs_total s)"

definition TMC_LOOPBACK_PATTERN :: "u8 list"
  where "TMC_LOOPBACK_PATTERN = [0x00, 0xFF, 0x55, 0xAA, 0x0F, 0xF0, 0x33, 0xCC]"

record LoopbackReport =
  lb_ran :: bool
  lb_got :: u8
  lb_matched :: u8
  lb_err :: "RxErrorKind option"

definition loopback_to_bits :: "LoopbackReport \<Rightarrow> u32"
  where "loopback_to_bits r =
    (let err = (case lb_err r of Some v \<Rightarrow> rx_to_code v + 1 | None \<Rightarrow> 0) in
     (if lb_ran r then 1 else 0) OR push_bit 1 (ucast (min (lb_got r) 0x0F))
       OR push_bit 5 (ucast (min (lb_matched r) 0x0F)) OR push_bit 9 err)"

definition loopback_from_bits :: "u32 \<Rightarrow> LoopbackReport"
  where "loopback_from_bits bits =
    (let code = drop_bit 9 bits AND 0x7 in
     \<lparr>lb_ran = (bits AND 1 \<noteq> 0), lb_got = ucast (drop_bit 1 bits AND 0x0F), lb_matched = ucast (drop_bit 5 bits AND 0x0F),
      lb_err = (if code = 0 then None else Some (rx_from_code (code - 1)))\<rparr>)"

text \<open>The per-axis tokens; an axis without an entry reads as its type's default.\<close>

definition axis_tokens :: "(nat \<Rightarrow> string list) \<Rightarrow> string list"
  where "axis_tokens tok =
    concat (map (\<lambda>axis. ['' '' @ [AXIS_LETTERS ! axis] @ '':''] @ tok axis) [0..<length AXIS_LETTERS])"

definition driver_info :: "nat \<Rightarrow> DriverStatus \<Rightarrow> string \<Rightarrow> (string, FmtError, unit) outcome"
  where "driver_info n s =
    write_all n ([''[DRIVER:TMC2209]'' @ CRLF] @
      (if \<not> ds_initialized s then [''[DRIVER:TMC2209 init pending]'' @ CRLF]
       else [''[DRIVER:TMC2209''] @
         axis_tokens (\<lambda>axis. [if axis < length (ds_online s) \<and> ds_online s ! axis then ''ok'' else ''--'']) @
         ['']'' @ CRLF]))"

definition driver_probe :: "nat \<Rightarrow> DriverProbe \<Rightarrow> string \<Rightarrow> (string, FmtError, unit) outcome"
  where "driver_probe n p =
    write_all n ([''[MSG:TMC-PROBE''] @
      axis_tokens (\<lambda>axis.
        let st = (if axis < length (dp_stages p) then dp_stages p ! axis else Responded) in
        case (st, dp_init_failure p) of
          (InitError, Some f) \<Rightarrow> if if_axis f = axis then failure_token f else stage_token st
        | _ \<Rightarrow> stage_token st) @
      ['']'' @ CRLF])"

definition driver_ioin_raw :: "nat \<Rightarrow> IoinRawCapture \<Rightarrow> string \<Rightarrow> (string, FmtError, unit) outcome"
  where "driver_ioin_raw n c =
    write_all n ([''[MSG:TMC-IOIN '',
        [if ioin_axis c < length AXIS_LETTERS then AXIS_LETTERS ! ioin_axis c else CHR ''?''], '':''] @
      concat (map (\<lambda>(i, b). (if 0 < i then ['' ''] else []) @ [hex_byte b]) (enumerate (0::nat) (ioin_bytes c))) @
      ['']'' @ CRLF])"

definition loopback :: "nat \<Rightarrow> LoopbackReport \<Rightarrow> string \<Rightarrow> (string, FmtError, unit) outcome"
  where "loopback n r =
    (let sent = dec (length TMC_LOOPBACK_PATTERN); err = (case lb_err r of Some v \<Rightarrow> rx_token v | None \<Rightarrow> ''none'') in
     write_all n [''[MSG:TMC-LOOPBACK sent:'', sent, '' got:'', dec (unat (lb_got r)), '' match:'',
       dec (unat (lb_matched r)), ''/'', sent, '' err:'', err, '']'' @ CRLF])"

definition tmc_bus_stats :: "nat \<Rightarrow> BusStats \<Rightarrow> string \<Rightarrow> (string, FmtError, unit) outcome"
  where "tmc_bus_stats n s =
    write_all n ([''[MSG:TMC-BUS''] @
      axis_tokens (\<lambda>axis. [dec (unat (bs_fail s ! axis)), ''/'', dec (unat (bs_total s ! axis))]) @
      ['']'' @ CRLF])"

end
