(* ===== verification/Firmware_State.thy ===== *)
theory Firmware_State
  imports Rx_Pipeline Rmt_Sink Spindle_Coolant Settings_Store Reports System_Command Planner
begin

text \<open>
  The state the firmware's tasks share, beyond the receive half of \<^verbatim>\<open>Rx_Pipeline\<close>: the statics of
  \<^verbatim>\<open>crates/firmware/src/comms/state.rs\<close> with their accessors, the consumer's own state of
  \<^verbatim>\<open>comms.rs\<close>, and the phase of the core-1 executor.  A \<^verbatim>\<open>Signal\<close> is a flag, or an option where
  it carries a value.  What the board supplies (the flash, the generated codec, the driver statics)
  is the record \<^verbatim>\<open>Board\<close>, an argument of every operation.

  The fields \<^verbatim>\<open>answers\<close> and \<^verbatim>\<open>taken\<close> are histories: the responses the consumer has queued and the
  lines it has received, in order.  The field \<^verbatim>\<open>script\<close> holds what the other tasks will do: each
  element is what happens until the waiting task is polled again.
\<close>

section \<open>What the board supplies\<close>

record 's Board =
  bd_lm :: libm
  bd_fmt3 :: "f32 \<Rightarrow> string"
  bd_tick_hz :: f32
  bd_pb :: pb_codec
  bd_pbc :: coords_codec
  bd_settings_store :: "'s record_store"
  bd_coords_store :: "'s record_store"
  bd_driver_status :: DriverStatus
  bd_driver_probe :: DriverProbe
  bd_loopback :: LoopbackReport
  bd_bus_stats :: BusStats
  bd_truncated :: "u32 list"

section \<open>The consumer's own state\<close>

record ConsumerState =
  error_hold :: bool
  pb :: PbReceiver
  startup_lines :: "u8 list option list"
  spin_up :: SpinUpGate
  last_spindle_dir :: SpindleState
  last_spindle_rpm :: u16
  last_coolant :: u8

definition ConsumerState_default :: ConsumerState
  where "ConsumerState_default =
    \<lparr>error_hold = False, pb = PbReceiver_new, startup_lines = [None, None], spin_up = SpinUpGate_new,
     last_spindle_dir = SpindleStop, last_spindle_rpm = 0, last_coolant = 0\<rparr>"

section \<open>Requests to the executor and its results\<close>

record ProbeRequest =
  pq_target :: "i32 list"
  pq_step_period_ticks :: u32
  pq_toward :: bool
  pq_invert :: bool

text \<open>
  Where the executor stands: at the top of its loop, parked on the hold level, waiting with an empty
  queue, or in the middle of a block, of a probe or of a homing cycle.
\<close>

datatype ExecPhase =
    X_Top | X_Parked | X_Idle | X_Block "f32 Block" f32 | X_Probe ProbeRequest | X_Home "f32 HomingConfig"

text \<open>What the hardware shows at the end of a piece of motion.\<close>

record MotionOutcome =
  mo_position :: "i32 list"
  mo_published :: "i32 list"
  mo_fault :: bool
  mo_levels :: "bool list"
  mo_triggered :: bool
  mo_at_edge :: bool
  mo_home :: "HomingError + i32 list"

text \<open>
  A step of another task: the reader or the assembler, the transmitter, the executor on the other
  core (which of its wakes it takes, and what its motion gave), or the expiry of the timer that is
  being waited for.
\<close>

datatype Turn = Rx PipeStep | Transmit | Motion nat MotionOutcome | Expire

section \<open>The shared state\<close>

record StatusCfg =
  sc_steps_per_mm :: "f32 list"
  sc_position_report :: PositionReport
  sc_min_axis_max_rate :: f32

record 's Firmware =
  comms :: Comms
  fw_parser :: Parser
  cst :: ConsumerState
  planner :: "Planner option"
  settings :: "Settings option"
  settings_dirty :: bool
  coordinates :: CoordinateSystems
  coordinates_dirty :: bool
  fw_homing_enabled :: bool
  fw_hard_limits_enabled :: bool
  fw_limit_invert :: bool
  fw_limit_debounce_ms :: u32
  fw_auto_report_ms :: u32
  homed :: bool
  homing_active :: bool
  spindle_direction :: u8
  spindle_estop :: bool
  programmed_spindle_rpm :: u32
  coolant_state :: u8
  coolant_update :: bool
  coolant_estop :: bool
  live_position :: "i32 list"
  counter :: "i32 list"
  live_feed :: f32
  live_rapid :: bool
  probe_payload :: ProbeRequest
  probe_result :: "ProbeResult option"
  home_request :: "f32 HomingConfig option"
  home_result :: "(HomingError + i32 list) option"
  last_probe :: LastProbe
  block_available :: bool
  slot_freed :: bool
  motion_parked :: bool
  hard_limit_tripped :: bool
  motion_fault :: bool
  limit_levels :: u8
  limit_armed :: "bool list"
  exec :: ExecPhase
  blocks_executed :: u32
  status_cfg :: StatusCfg
  wco_reporter :: "f32 list RefreshReporter"
  ov_reporter :: "Overrides RefreshReporter"
  machine :: "f32 MachineSnapshot"
  lines_consumed :: u32
  comms_progress :: u32
  pending_reset_report :: "string option"
  pending_crash_report :: "string list"
  flash :: 's
  timer :: bool
  timer_us :: nat
  answers :: "string list"
  taken :: "u8 list list"
  script :: "Turn list list"
  choices :: "nat list"

abbreviation on_comms :: "(Comms \<Rightarrow> Comms) \<Rightarrow> 's Firmware \<Rightarrow> 's Firmware"
  where "on_comms f m \<equiv> m\<lparr>comms := f (comms m)\<rparr>"

abbreviation on_cst :: "(ConsumerState \<Rightarrow> ConsumerState) \<Rightarrow> 's Firmware \<Rightarrow> 's Firmware"
  where "on_cst f m \<equiv> m\<lparr>cst := f (cst m)\<rparr>"

abbreviation on_planner :: "(Planner \<Rightarrow> Planner) \<Rightarrow> 's Firmware \<Rightarrow> 's Firmware"
  where "on_planner f m \<equiv> m\<lparr>planner := map_option f (planner m)\<rparr>"

abbreviation control_state :: "'s Firmware \<Rightarrow> ControlState"
  where "control_state m \<equiv> control (comms m)"

definition set_control_state :: "ControlState \<Rightarrow> 's Firmware \<Rightarrow> 's Firmware"
  where "set_control_state s m = on_comms (\<lambda>c. c\<lparr>control := s\<rparr>) m"

definition set_overrides :: "Overrides \<Rightarrow> 's Firmware \<Rightarrow> 's Firmware"
  where "set_overrides ov m = on_comms (\<lambda>c. c\<lparr>ovr := ov\<rparr>) m"

definition settings_snapshot :: "'s Board \<Rightarrow> 's Firmware \<Rightarrow> Settings"
  where "settings_snapshot bd m = (case settings m of Some s \<Rightarrow> s | None \<Rightarrow> Settings_default (bd_lm bd))"

definition mark_settings_dirty :: "'s Firmware \<Rightarrow> 's Firmware"
  where "mark_settings_dirty m = m\<lparr>settings_dirty := True\<rparr>"

definition mark_coordinates_dirty :: "'s Firmware \<Rightarrow> 's Firmware"
  where "mark_coordinates_dirty m = m\<lparr>coordinates_dirty := True\<rparr>"

definition min_axis_max_rate :: "f32 list \<Rightarrow> f32"
  where "min_axis_max_rate rates =
    fold (\<lambda>r a. fmin a r) (filter (\<lambda>r. is_finite r \<and> flt f32_zero r) rates) (FInf False)"

definition status_cfg_from :: "Settings \<Rightarrow> StatusCfg"
  where "status_cfg_from s =
    \<lparr>sc_steps_per_mm = Settings.Settings.steps_per_mm s,
     sc_position_report = from_status_mask (status_report_mask s),
     sc_min_axis_max_rate = min_axis_max_rate (Settings.Settings.max_rate_mm_min s)\<rparr>"

definition refresh_status_cfg :: "'s Board \<Rightarrow> 's Firmware \<Rightarrow> 's Firmware"
  where "refresh_status_cfg bd m = m\<lparr>status_cfg := status_cfg_from (settings_snapshot bd m)\<rparr>"

definition refresh_planner_config :: "'s Board \<Rightarrow> 's Firmware \<Rightarrow> 's Firmware"
  where "refresh_planner_config bd m = on_planner (set_config (planner_config (settings_snapshot bd m))) m"

definition push_wco_to_planner :: "'s Firmware \<Rightarrow> 's Firmware"
  where "push_wco_to_planner m = on_planner (set_work_offset (wco (coordinates m))) m"

definition init_auto_report :: "u32 \<Rightarrow> 's Firmware \<Rightarrow> 's Firmware"
  where "init_auto_report interval m =
    on_comms (\<lambda>c. c\<lparr>auto_report_suspended := False\<rparr>) (m\<lparr>fw_auto_report_ms := interval\<rparr>)"

definition store_homed_baseline :: "bool \<Rightarrow> 's Firmware \<Rightarrow> 's Firmware"
  where "store_homed_baseline enabled m = m\<lparr>homed := \<not> enabled\<rparr>"

definition reset_wco_reporter :: "'s Firmware \<Rightarrow> 's Firmware"
  where "reset_wco_reporter m = m\<lparr>wco_reporter := RefreshReporter_reset (wco_reporter m) zero_vec\<rparr>"

definition reset_ov_reporter :: "'s Firmware \<Rightarrow> 's Firmware"
  where "reset_ov_reporter m = m\<lparr>ov_reporter := RefreshReporter_reset (ov_reporter m) Overrides_new\<rparr>"

definition read_live_position :: "'s Firmware \<Rightarrow> i32 list"
  where "read_live_position m = live_position m"

definition planner_blocks_free :: "'s Firmware \<Rightarrow> u8"
  where "planner_blocks_free m =
    (case planner m of Some p \<Rightarrow> of_nat (BLOCK_QUEUE_LEN - queued_len p) | None \<Rightarrow> of_nat BLOCK_QUEUE_LEN)"

definition motion_idle :: "'s Firmware \<Rightarrow> bool"
  where "motion_idle m \<longleftrightarrow>
    \<not> executor_running (comms m) \<and> planner_blocks_free m = of_nat BLOCK_QUEUE_LEN"

definition program_running :: "'s Firmware \<Rightarrow> bool"
  where "program_running m \<longleftrightarrow>
    executor_running (comms m) \<or> (case planner m of Some p \<Rightarrow> pl_queue p \<noteq> [] | None \<Rightarrow> False)"

definition settings_write_blocked :: "'s Firmware \<Rightarrow> bool"
  where "settings_write_blocked m \<longleftrightarrow>
    \<not> settings_write_allowed (control_state m) \<or> (control_state m = CS_Normal \<and> \<not> motion_idle m)"

definition current_soft_limits :: "'s Board \<Rightarrow> 's Firmware \<Rightarrow> f32 list option"
  where "current_soft_limits bd m =
    (if \<not> homed m then None
     else let s = settings_snapshot bd m in if soft_limits_enable s then Some (max_travel_mm s) else None)"

section \<open>Spindle and coolant statics\<close>

definition SPINDLE_DIR_STOP :: u8 where "SPINDLE_DIR_STOP = 0"

definition SPINDLE_DIR_CW :: u8 where "SPINDLE_DIR_CW = 1"

definition SPINDLE_DIR_CCW :: u8 where "SPINDLE_DIR_CCW = 2"

definition force_spindle_off :: "'s Firmware \<Rightarrow> 's Firmware"
  where "force_spindle_off m = m\<lparr>spindle_direction := SPINDLE_DIR_STOP, spindle_estop := True\<rparr>"

definition force_coolant_off :: "'s Firmware \<Rightarrow> 's Firmware"
  where "force_coolant_off m = m\<lparr>coolant_state := 0, coolant_estop := True\<rparr>"

definition signal_spindle_update :: "'s Firmware \<Rightarrow> 's Firmware"
  where "signal_spindle_update m = on_comms (\<lambda>c. c\<lparr>spindle_update := True\<rparr>) m"

definition dispatch_spindle :: "SpindleState \<Rightarrow> 's Firmware \<Rightarrow> 's Firmware"
  where "dispatch_spindle sp m =
    (let d = (case sp of Clockwise \<Rightarrow> SPINDLE_DIR_CW | CounterClockwise \<Rightarrow> SPINDLE_DIR_CCW | SpindleStop \<Rightarrow> SPINDLE_DIR_STOP);
         m = on_cst (\<lambda>c. c\<lparr>spin_up := note_spindle sp (spin_up c)\<rparr>) (m\<lparr>spindle_direction := d\<rparr>)
     in signal_spindle_update m)"

definition modal_rpm :: "ModalState \<Rightarrow> u16"
  where "modal_rpm modal = f32_to_u16 (fmin (fmax (m_spindle_speed modal) f32_zero) (f32_of_int 65535))"

definition sync_spindle_from_modal :: "ModalState \<Rightarrow> 's Firmware \<Rightarrow> 's Firmware"
  where "sync_spindle_from_modal modal m =
    (let d = m_spindle modal; rpm = modal_rpm modal;
         m = (if d \<noteq> last_spindle_dir (cst m) then dispatch_spindle d m
              else if d \<noteq> SpindleStop \<and> rpm \<noteq> last_spindle_rpm (cst m) then signal_spindle_update m
              else m)
     in on_cst (\<lambda>c. c\<lparr>last_spindle_dir := d, last_spindle_rpm := rpm\<rparr>) m)"

definition sync_coolant_from_modal :: "ModalState \<Rightarrow> 's Firmware \<Rightarrow> 's Firmware"
  where "sync_coolant_from_modal modal m =
    (let bits = coolant_mask (m_coolant modal) in
     if bits \<noteq> last_coolant (cst m)
     then on_cst (\<lambda>c. c\<lparr>last_coolant := bits\<rparr>) (m\<lparr>coolant_state := bits, coolant_update := True\<rparr>)
     else m)"

section \<open>Times\<close>

text \<open>Durations are in microseconds.\<close>

definition MAX_DWELL_S :: f32
  where "MAX_DWELL_S = f32_of_int 3600"

definition dwell_duration :: "f32 \<Rightarrow> nat"
  where "dwell_duration secs =
    (let clamped = (if is_finite secs then fclamp secs f32_zero MAX_DWELL_S else f32_zero)
     in nat (f32_to_int 0 18446744073709551615 (fmul clamped (f32_of_int 1000000))))"

section \<open>Lines\<close>

definition blank_byte :: "u8 \<Rightarrow> bool"
  where "blank_byte b \<longleftrightarrow> b = 32 \<or> b = 9"

definition trim_ascii :: "u8 list \<Rightarrow> u8 list"
  where "trim_ascii line = rev (dropWhile blank_byte (rev (dropWhile blank_byte line)))"

definition strip_jog_prefix :: "u8 list \<Rightarrow> u8 list option"
  where "strip_jog_prefix line =
    (case strip_bytes (bytes ''$'') line of
       None \<Rightarrow> None
     | Some rest \<Rightarrow>
         (case rest of
            [] \<Rightarrow> None
          | c # tail \<Rightarrow> if c = 74 \<or> c = 106 then strip_bytes (bytes ''='') tail else None))"

end
