(* ===== verification/Executor.thy ===== *)
theory Executor
  imports Firmware_State Homing
begin

text \<open>
  The motion executor of \<^verbatim>\<open>crates/firmware/src/motion.rs\<close> (the loop of \<^verbatim>\<open>run\<close> and
  \<^verbatim>\<open>park_on_hold\<close>) as a step on its phase, and the suspension of the consumer: what the other
  tasks do while it waits, and which of the futures it waits for completes.
\<close>

section \<open>The executor's loop\<close>

definition publish_counter :: "'s Firmware \<Rightarrow> 's Firmware"
  where "publish_counter m = m\<lparr>live_position := counter m\<rparr>"

definition retain_live_position :: "'s Firmware \<Rightarrow> 's Firmware"
  where "retain_live_position m = publish_counter m"

definition live_limit_config :: "'s Firmware \<Rightarrow> LimitConfig"
  where "live_limit_config m = \<lparr>invert = fw_limit_invert m\<rparr>"

text \<open>The sampling of the limit inputs: here the pins are the levels the outcome shows.\<close>

definition sample_limits :: "MotionOutcome \<Rightarrow> 's Firmware \<Rightarrow> 's Firmware"
  where "sample_limits o' m = m\<lparr>limit_armed := sample_limit_triggered (mo_levels o') (live_limit_config m)\<rparr>"

definition exec_check_hard_limits :: "MotionOutcome \<Rightarrow> 's Firmware \<Rightarrow> 's Firmware"
  where "exec_check_hard_limits o' m =
    (case check_hard_limits (mo_levels o') (live_limit_config m) (fw_hard_limits_enabled m) (homing_active m) (limit_armed m) of
       (armed, levels, trip) \<Rightarrow>
         m\<lparr>limit_armed := armed, limit_levels := levels, hard_limit_tripped := hard_limit_tripped m \<or> trip\<rparr>)"

definition publish_limit_levels :: "MotionOutcome \<Rightarrow> 's Firmware \<Rightarrow> 's Firmware"
  where "publish_limit_levels o' m =
    m\<lparr>limit_levels := pack_limit_mask (map (\<lambda>axis. limit_triggered (mo_levels o' ! axis) (live_limit_config m)) [0..<AXES])\<rparr>"

definition set_running :: "bool \<Rightarrow> 's Firmware \<Rightarrow> 's Firmware"
  where "set_running r m = on_comms (\<lambda>c. c\<lparr>executor_running := r\<rparr>) m"

text \<open>One turn of the loop's top: the pending reset, the hold level, the next block.\<close>

definition service_reset :: "MotionOutcome \<Rightarrow> 's Firmware \<Rightarrow> 's Firmware"
  where "service_reset o' m =
    (if motion_reset_pending (comms m)
     then sample_limits o' (retain_live_position
       (on_comms (\<lambda>c. c\<lparr>motion_reset_pending := False, motion_reset := False\<rparr>) m))
     else m)"

definition start_block :: "'s Board \<Rightarrow> f32 Block \<Rightarrow> f32 \<Rightarrow> 's Firmware \<Rightarrow> 's Firmware"
  where "start_block bd b exit_sq m =
    set_running True (m\<lparr>slot_freed := True, exec := X_Block b exit_sq,
      live_feed := fmul (sqrtf (bd_lm bd) (nominal_speed_sq b)) (f32_of_int 60), live_rapid := rapid b\<rparr>)"

definition loop_top :: "'s Board \<Rightarrow> MotionOutcome \<Rightarrow> 's Firmware \<Rightarrow> 's Firmware"
  where "loop_top bd o' m =
    (let m = service_reset o' m in
     if hold_requested (comms m) then m\<lparr>motion_parked := True, exec := X_Parked\<rparr>
     else case planner m of
       None \<Rightarrow> m\<lparr>exec := X_Idle\<rparr>
     | Some p \<Rightarrow>
         (case take_block p of
            (p, None) \<Rightarrow> m\<lparr>planner := Some p, exec := X_Idle\<rparr>
          | (p, Some (b, exit_sq)) \<Rightarrow> start_block bd b exit_sq (m\<lparr>planner := Some p\<rparr>)))"

text \<open>A wake of the park: by the hold wake, after which the levels are read again, or by the reset.\<close>

definition park_wake :: "'s Firmware \<Rightarrow> 's Firmware"
  where "park_wake m =
    (if hold_wake (comms m)
     then let m = on_comms (\<lambda>c. c\<lparr>hold_wake := False\<rparr>) m in
       if motion_reset_pending (comms m) \<or> \<not> hold_requested (comms m) then m\<lparr>exec := X_Top\<rparr> else m
     else if motion_reset (comms m)
     then on_comms (\<lambda>c. c\<lparr>motion_reset := False\<rparr>) (m\<lparr>exec := X_Top\<rparr>)
     else m)"

text \<open>A wake of the idle wait; \<^verbatim>\<open>arm\<close> is the future that completed, if it could.\<close>

definition idle_wake :: "nat \<Rightarrow> MotionOutcome \<Rightarrow> 's Firmware \<Rightarrow> 's Firmware"
  where "idle_wake arm o' m =
    (if arm = 0 then if block_available m then m\<lparr>block_available := False, exec := X_Top\<rparr> else m
     else if arm = 1 then
       if motion_reset (comms m)
       then (sample_limits o' (retain_live_position
         (on_comms (\<lambda>c. c\<lparr>motion_reset := False, motion_reset_pending := False\<rparr>) m)))\<lparr>exec := X_Top\<rparr>
       else m
     else if arm = 2 then
       if hold_wake (comms m) then on_comms (\<lambda>c. c\<lparr>hold_wake := False\<rparr>) (m\<lparr>exec := X_Top\<rparr>) else m
     else if arm = 3 then
       if probe_request (comms m)
       then set_running True (on_comms (\<lambda>c. c\<lparr>probe_request := False\<rparr>) (m\<lparr>exec := X_Probe (probe_payload m)\<rparr>))
       else m
     else if arm = 4 then
       (case home_request m of
          Some config \<Rightarrow> set_running True (m\<lparr>home_request := None, exec := X_Home config\<rparr>)
        | None \<Rightarrow> m)
     else if arm = 5 then (exec_check_hard_limits o' m)\<lparr>exec := X_Top\<rparr>
     else (publish_limit_levels o' m)\<lparr>exec := X_Top\<rparr>)"

text \<open>A burst that went out in the middle of a block moves the published position.\<close>

definition publish_burst :: "MotionOutcome \<Rightarrow> 's Firmware \<Rightarrow> 's Firmware"
  where "publish_burst o' m = publish_counter (m\<lparr>counter := mo_position o'\<rparr>)"

definition finish_block :: "MotionOutcome \<Rightarrow> 's Firmware \<Rightarrow> 's Firmware"
  where "finish_block o' m =
    (let m = publish_counter (m\<lparr>counter := mo_position o', motion_fault := motion_fault m \<or> mo_fault o'\<rparr>);
         m = set_running False (m\<lparr>blocks_executed := blocks_executed m + 1, live_feed := f32_zero\<rparr>)
     in (exec_check_hard_limits o' m)\<lparr>exec := X_Top\<rparr>)"

definition finish_probe :: "MotionOutcome \<Rightarrow> 's Firmware \<Rightarrow> 's Firmware"
  where "finish_probe o' m =
    (let m = publish_counter (m\<lparr>counter := mo_position o'\<rparr>)
     in (set_running False m)\<lparr>exec := X_Top, probe_result :=
          Some \<lparr>pr_triggered = mo_triggered o', stop_steps = mo_position o', already_at_edge = mo_at_edge o'\<rparr>\<rparr>)"

definition finish_home :: "MotionOutcome \<Rightarrow> 's Firmware \<Rightarrow> 's Firmware"
  where "finish_home o' m =
    (let m = (case mo_home o' of
           Inr zeros \<Rightarrow> publish_counter (m\<lparr>counter := zeros\<rparr>)
         | Inl _ \<Rightarrow> m\<lparr>counter := mo_position o', live_position := mo_published o'\<rparr>);
         m = publish_limit_levels o' (set_running False m)
     in (sample_limits o' (m\<lparr>home_result := Some (mo_home o')\<rparr>))\<lparr>exec := X_Top\<rparr>)"

definition executor_step :: "'s Board \<Rightarrow> nat \<Rightarrow> MotionOutcome \<Rightarrow> 's Firmware \<Rightarrow> 's Firmware"
  where "executor_step bd arm o' m =
    (case exec m of
       X_Top \<Rightarrow> loop_top bd o' m
     | X_Parked \<Rightarrow> park_wake m
     | X_Idle \<Rightarrow> idle_wake arm o' m
     | X_Block _ _ \<Rightarrow> if arm = 0 then finish_block o' m else publish_burst o' m
     | X_Probe _ \<Rightarrow> if arm = 0 then finish_probe o' m else publish_burst o' m
     | X_Home _ \<Rightarrow> finish_home o' m)"

section \<open>What happens while the consumer waits\<close>

fun env_step :: "'s Board \<Rightarrow> Turn \<Rightarrow> 's Firmware \<Rightarrow> 's Firmware"
  where
    "env_step bd (Rx (Read chunk)) m = on_comms (usb_rx chunk) m"
  | "env_step bd (Rx (Assemble byte_first)) m = on_comms (line_assembler byte_first) m"
  | "env_step bd (Rx Take) m = m"
  | "env_step bd Transmit m = on_comms (\<lambda>c. c\<lparr>responses := tl (responses c)\<rparr>) m"
  | "env_step bd (Motion arm o') m = executor_step bd arm o' m"
  | "env_step bd Expire m = m\<lparr>timer := True\<rparr>"

text \<open>
  A future of a \<^verbatim>\<open>select\<close>: the value it completes with and the state after its completion, if it is
  ready.  When several are ready at once the next entry of \<^verbatim>\<open>choices\<close> says which one wins.
\<close>

type_synonym ('s, 'a) arm = "'s Firmware \<Rightarrow> ('a \<times> 's Firmware) option"

definition choose_ready :: "'s Firmware \<Rightarrow> ('a \<times> 's Firmware) list \<Rightarrow> 'a \<times> 's Firmware"
  where "choose_ready m rs =
    (case choices m of
       [] \<Rightarrow> hd rs
     | k # ks \<Rightarrow> (case rs ! (k mod length rs) of (v, m1) \<Rightarrow> (v, m1\<lparr>choices := ks\<rparr>)))"

fun await_turns :: "'s Board \<Rightarrow> ('s, 'a) arm list \<Rightarrow> Turn list list \<Rightarrow> 's Firmware \<Rightarrow> ('a \<times> 's Firmware) option"
  where
    "await_turns bd arms ts m =
      (case List.map_filter (\<lambda>a. a m) arms of
         r # rs \<Rightarrow> Some (if rs = [] then r else choose_ready m (r # rs))
       | [] \<Rightarrow>
           (case ts of
              [] \<Rightarrow> None
            | turns # ts' \<Rightarrow> await_turns bd arms ts' (fold (env_step bd) turns (m\<lparr>script := ts'\<rparr>))))"

declare await_turns.simps [simp del]

definition await :: "'s Board \<Rightarrow> ('s, 'a) arm list \<Rightarrow> 's Firmware \<Rightarrow> ('a \<times> 's Firmware) option"
  where "await bd arms m = await_turns bd arms (script m) m"

text \<open>\<^verbatim>\<open>Timer::after\<close>: a fresh timer of that many microseconds.\<close>

definition start_timer :: "nat \<Rightarrow> 's Firmware \<Rightarrow> 's Firmware"
  where "start_timer us m = m\<lparr>timer := False, timer_us := us\<rparr>"

definition on_timer :: "'a \<Rightarrow> ('s, 'a) arm"
  where "on_timer v m = (if timer m then Some (v, m\<lparr>timer := False\<rparr>) else None)"

definition on_soft_reset :: "'a \<Rightarrow> ('s, 'a) arm"
  where "on_soft_reset v m =
    (if soft_reset_signal (comms m) then Some (v, on_comms (\<lambda>c. c\<lparr>soft_reset_signal := False\<rparr>) m) else None)"

definition on_program_stop :: "'a \<Rightarrow> ('s, 'a) arm"
  where "on_program_stop v m =
    (if program_stop_signal (comms m) then Some (v, on_comms (\<lambda>c. c\<lparr>program_stop_signal := False\<rparr>) m) else None)"

definition on_jog_cancel :: "'a \<Rightarrow> ('s, 'a) arm"
  where "on_jog_cancel v m =
    (if jog_cancel (comms m) then Some (v, on_comms (\<lambda>c. c\<lparr>jog_cancel := False\<rparr>) m) else None)"

definition on_pause_resume :: "'a \<Rightarrow> ('s, 'a) arm"
  where "on_pause_resume v m =
    (if pause_resume (comms m) then Some (v, on_comms (\<lambda>c. c\<lparr>pause_resume := False\<rparr>) m) else None)"

definition on_motion_parked :: "'a \<Rightarrow> ('s, 'a) arm"
  where "on_motion_parked v m = (if motion_parked m then Some (v, m\<lparr>motion_parked := False\<rparr>) else None)"

definition on_slot_freed :: "'a \<Rightarrow> ('s, 'a) arm"
  where "on_slot_freed v m = (if slot_freed m then Some (v, m\<lparr>slot_freed := False\<rparr>) else None)"

definition on_hard_limit :: "'a \<Rightarrow> ('s, 'a) arm"
  where "on_hard_limit v m = (if hard_limit_tripped m then Some (v, m\<lparr>hard_limit_tripped := False\<rparr>) else None)"

definition on_motion_fault :: "'a \<Rightarrow> ('s, 'a) arm"
  where "on_motion_fault v m = (if motion_fault m then Some (v, m\<lparr>motion_fault := False\<rparr>) else None)"

definition on_home_result :: "(HomingError + i32 list \<Rightarrow> 'a) \<Rightarrow> ('s, 'a) arm"
  where "on_home_result f m = (case home_result m of Some r \<Rightarrow> Some (f r, m\<lparr>home_result := None\<rparr>) | None \<Rightarrow> None)"

definition on_probe_result :: "(ProbeResult \<Rightarrow> 'a) \<Rightarrow> ('s, 'a) arm"
  where "on_probe_result f m = (case probe_result m of Some r \<Rightarrow> Some (f r, m\<lparr>probe_result := None\<rparr>) | None \<Rightarrow> None)"

text \<open>Receiving a line records it.\<close>

definition on_line :: "(u8 list \<Rightarrow> 'a) \<Rightarrow> ('s, 'a) arm"
  where "on_line f m =
    (case line_queue (comms m) of
       [] \<Rightarrow> None
     | l # ls \<Rightarrow> Some (f l, on_comms (\<lambda>c. c\<lparr>line_queue := ls\<rparr>) (m\<lparr>taken := taken m @ [l]\<rparr>)))"

end
