(* ===== verification/Consumer_Base.thy ===== *)
theory Consumer_Base
  imports Executor "HOL-Library.Monad_Syntax"
begin

text \<open>
  What the consumer's handlers share: the response helpers of \<^verbatim>\<open>comms/tx.rs\<close> and \<^verbatim>\<open>comms.rs\<close>, the
  warm reset and the flushes of \<^verbatim>\<open>comms/consumer.rs\<close>, the boundary stop of \<^verbatim>\<open>comms/jog.rs\<close> and the
  graceful stop of \<^verbatim>\<open>comms/program_flow.rs\<close>.  An operation that waits returns an option: \<^verbatim>\<open>None\<close>
  is an operation still waiting when the script of the other tasks ends.
\<close>

type_synonym 's handler = "'s Board \<Rightarrow> 's Firmware \<Rightarrow> 's Firmware option"

section \<open>Responses\<close>

definition room_for :: "string \<Rightarrow> ('s, unit) arm"
  where "room_for s m =
    (if length (responses (comms m)) < RESPONSE_QUEUE_DEPTH
     then Some ((), on_comms (\<lambda>c. c\<lparr>responses := responses c @ [s]\<rparr>) (m\<lparr>answers := answers m @ [s]\<rparr>))
     else None)"

definition enqueue :: "string \<Rightarrow> 's handler"
  where "enqueue s bd m = map_option snd (await bd [room_for s] m)"

definition enqueue_formatted :: "(string, FmtError, unit) outcome \<Rightarrow> 's handler"
  where "enqueue_formatted r bd m = (case r of (s, Inr _) \<Rightarrow> enqueue s bd m | (_, Inl _) \<Rightarrow> Some m)"

fun enqueue_all :: "string list \<Rightarrow> 's handler"
  where
    "enqueue_all [] bd m = Some m"
  | "enqueue_all (s # ss) bd m = do { m \<leftarrow> enqueue s bd m; enqueue_all ss bd m }"

definition count_ack :: "'s Firmware \<Rightarrow> 's Firmware"
  where "count_ack m = on_comms (\<lambda>c. c\<lparr>acks_emitted := acks_emitted c + 1\<rparr>) m"

definition ack_line :: "'s handler"
  where "ack_line bd m =
    (case write_ok RESPONSE_CAPACITY [] of (s, Inr _) \<Rightarrow> enqueue s bd (count_ack m) | (_, Inl _) \<Rightarrow> Some m)"

definition reject_bare :: "u8 \<Rightarrow> 's handler"
  where "reject_bare code bd m =
    (case write_error RESPONSE_CAPACITY code [] of (s, Inr _) \<Rightarrow> enqueue s bd (count_ack m) | (_, Inl _) \<Rightarrow> Some m)"

definition reject_line :: "u8 \<Rightarrow> 's handler"
  where "reject_line code bd m = do {
    m \<leftarrow> (case error_context RESPONSE_CAPACITY code [] of
           (ctx, Inr _) \<Rightarrow> if ctx \<noteq> [] then enqueue ctx bd m else Some m
         | (_, Inl _) \<Rightarrow> Some m);
    reject_bare code bd m }"

definition send_message :: "string \<Rightarrow> 's handler"
  where "send_message txt = enqueue_formatted (message RESPONSE_CAPACITY txt [])"

definition send_banner :: "'s handler"
  where "send_banner = enqueue_formatted (write_banner RESPONSE_CAPACITY [])"

definition emit_alarm :: "AlarmCode \<Rightarrow> 's handler"
  where "emit_alarm code bd m = do {
    let m = force_coolant_off (force_spindle_off m);
    m \<leftarrow> enqueue_formatted (write_alarm RESPONSE_CAPACITY code []) bd m;
    m \<leftarrow> enqueue_formatted (alarm_context RESPONSE_CAPACITY code []) bd m;
    send_message (unlock_hint code) bd m }"

definition ERROR_HOLD_CODE :: u8 where "ERROR_HOLD_CODE = 1"

definition ERROR_UNSUPPORTED_COMMAND :: u8 where "ERROR_UNSUPPORTED_COMMAND = 3"

definition ERROR_HOMING_DISABLED :: u8 where "ERROR_HOMING_DISABLED = 5"

definition ERROR_NOT_IDLE :: u8 where "ERROR_NOT_IDLE = 8"

definition ERROR_LOCKED :: u8 where "ERROR_LOCKED = 9"

definition ERROR_PLANNER_UNINITIALIZED :: u8 where "ERROR_PLANNER_UNINITIALIZED = 3"

section \<open>Flushing to flash\<close>

definition flush_settings :: "'s Board \<Rightarrow> bool \<Rightarrow> 's Firmware \<Rightarrow> 's Firmware"
  where "flush_settings bd retry_on_failure m =
    (if \<not> settings_dirty m then m
     else
      (let m = m\<lparr>settings_dirty := False\<rparr>; snap = settings_snapshot bd m in
       case store_settings (bd_pb bd) (bd_settings_store bd) snap (flash m) of
         (w, Inr _) \<Rightarrow> m\<lparr>flash := w\<rparr>
       | (w, Inl _) \<Rightarrow> if retry_on_failure then m\<lparr>flash := w, settings_dirty := True\<rparr> else m\<lparr>flash := w\<rparr>))"

definition flush_coordinates :: "'s Board \<Rightarrow> bool \<Rightarrow> 's Firmware \<Rightarrow> 's Firmware"
  where "flush_coordinates bd retry_on_failure m =
    (if \<not> coordinates_dirty m then m
     else
      (let m = m\<lparr>coordinates_dirty := False\<rparr>; cp = persistent (coordinates m) in
       case store_coordinates (bd_pbc bd) (bd_coords_store bd) cp (flash m) of
         (w, Inr _) \<Rightarrow> m\<lparr>flash := w\<rparr>
       | (w, Inl _) \<Rightarrow> if retry_on_failure then m\<lparr>flash := w, coordinates_dirty := True\<rparr> else m\<lparr>flash := w\<rparr>))"

section \<open>Coordinates\<close>

definition sync_active_wcs :: "nat \<Rightarrow> 's Firmware \<Rightarrow> 's Firmware"
  where "sync_active_wcs parser_wcs m =
    (if c_active (coordinates m) = parser_wcs then m
     else mark_coordinates_dirty (push_wco_to_planner (m\<lparr>coordinates := select_wcs parser_wcs (coordinates m)\<rparr>)))"

definition apply_coordinate_op :: "'s Board \<Rightarrow> CoordinateOp \<Rightarrow> 's Firmware \<Rightarrow> 's Firmware"
  where "apply_coordinate_op bd op m =
    (let here = (case planner m of Some p \<Rightarrow> position_mm p | None \<Rightarrow> origin);
         rotary = rotary_mask (settings_snapshot bd m);
         c = coordinates m;
         (c, lasting) =
           (case op of
              SelectWcs index \<Rightarrow> (select_wcs index c, True)
            | SetWcsOffset index ax units \<Rightarrow>
                (case axis_values_mm ax units rotary of (values, given) \<Rightarrow> (set_wcs_offset index values given c, True))
            | SetWcsOffsetToPosition index ax units \<Rightarrow>
                (case axis_values_mm ax units rotary of
                   (values, given) \<Rightarrow> (set_wcs_offset_to_position index here values given c, True))
            | SetG92ToPosition ax units \<Rightarrow>
                (case axis_values_mm ax units rotary of (values, given) \<Rightarrow> (set_g92_to_position here values given c, False))
            | ClearG92 \<Rightarrow> (clear_g92 c, False)
            | StorePredefined index \<Rightarrow> (store_predefined index here c, True)
            | ApplyTlo z units \<Rightarrow> (apply_tlo (fmul z (coords_units_scale units)) c, False)
            | CancelTlo \<Rightarrow> (cancel_tlo c, False));
         m = push_wco_to_planner (m\<lparr>coordinates := c\<rparr>)
     in if lasting then mark_coordinates_dirty m else m)"

section \<open>The warm reset\<close>

text \<open>\<^verbatim>\<open>Parser::new\<close> with the current tool kept.\<close>

definition fresh_parser :: "'s Firmware \<Rightarrow> 's Firmware"
  where "fresh_parser m = m\<lparr>fw_parser := set_current_tool (m_current_tool (pstate (fw_parser m))) Parser_new\<rparr>"

definition forget_spindle :: "'s Firmware \<Rightarrow> 's Firmware"
  where "forget_spindle m =
    on_cst (\<lambda>c. c\<lparr>spin_up := SpinUpGate_new, last_spindle_dir := SpindleStop, last_spindle_rpm := 0\<rparr>) m"

definition rebuild_planner :: "'s Board \<Rightarrow> 's Firmware \<Rightarrow> 's Firmware"
  where "rebuild_planner bd m =
    m\<lparr>planner := Some (sync_position (read_live_position m) (Planner_new (planner_config (settings_snapshot bd m))))\<rparr>"

definition reset_outputs :: "'s Firmware \<Rightarrow> 's Firmware"
  where "reset_outputs m =
    (let m = (set_overrides Overrides_new m)\<lparr>live_feed := f32_zero, live_rapid := False, programmed_spindle_rpm := 0\<rparr>;
         m = force_coolant_off (force_spindle_off m);
         m = on_cst (\<lambda>c. c\<lparr>last_coolant := 0\<rparr>) m
     in reset_ov_reporter m)"

definition reset_state :: "'s Board \<Rightarrow> 's Firmware \<Rightarrow> 's Firmware"
  where "reset_state bd m =
    (let m = fresh_parser m;
         m = on_cst (\<lambda>c. c\<lparr>error_hold := False, pb := PbReceiver_reset (pb c)\<rparr>) m;
         m = rebuild_planner bd (forget_spindle m);
         m = push_wco_to_planner (m\<lparr>coordinates := clear_volatile (coordinates m)\<rparr>);
         m = reset_outputs (reset_wco_reporter m);
         m = init_auto_report (auto_report_interval (settings_snapshot bd m)) m;
         m = on_comms (\<lambda>c. c\<lparr>auto_report_wake := True\<rparr>) m
     in m\<lparr>last_probe := LastProbe_none, machine := MachineSnapshot_idle f32_zero\<rparr>)"

definition reset_pipeline :: "'s handler"
  where "reset_pipeline bd m = send_banner bd (reset_state bd m)"

definition apply_soft_reset :: "'s handler"
  where "apply_soft_reset bd m = do {
    let was_in_cycle = reset_was_running (comms m);
    let m = on_comms (\<lambda>c. c\<lparr>reset_was_running := False\<rparr>) m;
    let nxt = soft_reset (control_state m) was_in_cycle (fw_homing_enabled m);
    let m = store_homed_baseline (fw_homing_enabled m) (set_control_state nxt m);
    m \<leftarrow> reset_pipeline bd m;
    (case nxt of CS_Alarm code \<Rightarrow> emit_alarm code bd m | _ \<Rightarrow> Some m) }"

section \<open>The boundary stop\<close>

datatype QuiesceOutcome = Parked | ResetPreempted

definition quiesce_executor :: "'s Board \<Rightarrow> 's Firmware \<Rightarrow> (QuiesceOutcome \<times> 's Firmware) option"
  where "quiesce_executor bd m = do {
    let m = on_comms (\<lambda>c. c\<lparr>hold_requested := True, hold_wake := True\<rparr>) (m\<lparr>motion_parked := False\<rparr>);
    (r, m) \<leftarrow> await bd [on_motion_parked Parked, on_soft_reset ResetPreempted] m;
    (case r of
       Parked \<Rightarrow> Some (Parked, m)
     | ResetPreempted \<Rightarrow> Some (ResetPreempted, on_comms (\<lambda>c. c\<lparr>soft_reset_signal := True\<rparr>) m)) }"

definition release_hold :: "'s Firmware \<Rightarrow> 's Firmware"
  where "release_hold m = on_comms (\<lambda>c. c\<lparr>hold_requested := False, hold_wake := True\<rparr>) m"

definition sync_planner :: "i32 list \<Rightarrow> 's Firmware \<Rightarrow> 's Firmware"
  where "sync_planner pos m = on_planner (sync_position pos) m"

definition cancel_jog_cycle :: "'s handler"
  where "cancel_jog_cycle bd m =
    (if control_state m \<noteq> CS_Jog then Some m
     else do {
       (r, m) \<leftarrow> quiesce_executor bd (on_planner (\<lambda>p. fst (flush_jog_blocks p)) m);
       (case r of
          ResetPreempted \<Rightarrow> Some m
        | Parked \<Rightarrow>
            Some (set_control_state (cancel_jog CS_Jog) (release_hold (sync_planner (read_live_position m) m)))) })"

text \<open>What \<^verbatim>\<open>M30\<close> and the graceful stop both put back.\<close>

definition end_program :: "'s Firmware \<Rightarrow> 's Firmware"
  where "end_program m =
    (let m = force_coolant_off (force_spindle_off m);
         m = (on_cst (\<lambda>c. c\<lparr>last_coolant := 0\<rparr>) m)\<lparr>programmed_spindle_rpm := 0\<rparr>;
         m = sync_active_wcs 0 (forget_spindle (fresh_parser m))
     in reset_ov_reporter (set_overrides Overrides_new m))"

definition drop_inbound :: "'s Firmware \<Rightarrow> 's Firmware"
  where "drop_inbound m = on_comms (\<lambda>c. c\<lparr>rx_pipe := [], line_queue := [], line_reset := True\<rparr>) m"

definition program_stop_cycle :: "'s handler"
  where "program_stop_cycle bd m =
    (if \<not> program_stop_quiesces (control_state m) then Some m
     else do {
       (r, m) \<leftarrow> quiesce_executor bd (on_planner (\<lambda>p. abort_arc (fst (flush_queue p))) m);
       (case r of
          ResetPreempted \<Rightarrow> Some m
        | Parked \<Rightarrow>
           (let m = release_hold (sync_planner (read_live_position m) m);
                m = drop_inbound (end_program m)
            in Some (set_control_state (program_stop (control_state m)) m))) })"

section \<open>Waiting for motion\<close>

definition MOTION_IDLE_POLL :: nat where "MOTION_IDLE_POLL = 4000"

definition QUEUE_FULL_RETRY :: nat where "QUEUE_FULL_RETRY = 2000"

definition SETTINGS_FLUSH_SAFETY :: nat where "SETTINGS_FLUSH_SAFETY = 1000000"

text \<open>The result is \<^verbatim>\<open>False\<close> when a soft reset preempted the wait.\<close>

partial_function (option) wait_for_motion_idle :: "'s Board \<Rightarrow> 's Firmware \<Rightarrow> (bool \<times> 's Firmware) option"
  where "wait_for_motion_idle bd m =
    (if \<not> program_running m then Some (True, m)
     else do {
       (go, m) \<leftarrow> await bd [on_timer True, on_soft_reset False] (start_timer MOTION_IDLE_POLL m);
       (if go then wait_for_motion_idle bd m else Some (False, m)) })"

definition run_dwell :: "'s Board \<Rightarrow> f32 \<Rightarrow> 's Firmware \<Rightarrow> (bool \<times> 's Firmware) option"
  where "run_dwell bd seconds m = do {
    (idle, m) \<leftarrow> wait_for_motion_idle bd m;
    (if idle then await bd [on_timer True, on_soft_reset False] (start_timer (dwell_duration seconds) m)
     else Some (False, m)) }"

definition program_end :: "'s Board \<Rightarrow> 's Firmware \<Rightarrow> (bool \<times> 's Firmware) option"
  where "program_end bd m = do {
    (idle, m) \<leftarrow> wait_for_motion_idle bd m;
    Some (if idle then (True, end_program m) else (False, m)) }"

end
