(* ===== verification/Consumer_Commands.thy ===== *)
theory Consumer_Commands
  imports Consumer_Base
begin

text \<open>
  The \<^verbatim>\<open>$\<close> commands: \<^verbatim>\<open>crates/firmware/src/comms/syscmd.rs\<close>, the homing cycle of
  \<^verbatim>\<open>comms/homing.rs\<close> and their dispatch.  A query's lines are computed first, as lists of
  responses, and then queued one by one.
\<close>

section \<open>Queries\<close>

text \<open>One response: it is queued if its formatting succeeded.\<close>

definition single_line :: "(string \<Rightarrow> (string, FmtError, unit) outcome) \<Rightarrow> string list"
  where "single_line fmt = enqueue_lines (\<lambda>_. fmt) [()]"

definition if_written :: "string \<times> bool \<Rightarrow> string list"
  where "if_written r = (case r of (s, ok) \<Rightarrow> if ok then [s] else [])"

definition dump_settings :: "'s Board \<Rightarrow> 's Firmware \<Rightarrow> string list"
  where "dump_settings bd m =
    (let snap = settings_snapshot bd m in
     concat (map (\<lambda>n.
       case write_setting_line (bd_fmt3 bd) RESPONSE_CAPACITY snap n [] of
         (s, True) \<Rightarrow> single_line (\<lambda>_. write_str RESPONSE_CAPACITY CRLF s)
       | (_, False) \<Rightarrow> []) SETTING_NUMBERS))"

definition enumerate_settings :: "string list"
  where "enumerate_settings =
    concat (map (\<lambda>n. if_written (write_setting_enumeration RESPONSE_CAPACITY n [])) SETTING_NUMBERS)"

definition enumerate_setting_groups :: "string list"
  where "enumerate_setting_groups =
    concat (map (\<lambda>i. if_written (write_setting_group RESPONSE_CAPACITY i [])) [0..<SETTING_GROUP_COUNT])"

definition setting_description :: "u16 \<Rightarrow> string list"
  where "setting_description num = if_written (write_setting_description RESPONSE_CAPACITY num [])"

definition coordinate_report :: "'s Firmware \<Rightarrow> CoordinateReport"
  where "coordinate_report m =
    (let c = coordinates m; predefined = (\<lambda>i. case predefined_position c i of Some v \<Rightarrow> v | None \<Rightarrow> origin) in
     \<lparr>cr_wcs = map (\<lambda>i. case wcs_offset c i of Some v \<Rightarrow> v | None \<Rightarrow> origin) [0..<6],
      cr_predefined = [predefined 0, predefined 1], cr_g92 = c_g92 c, cr_tlo = c_tlo c,
      cr_probe = lp_position_mm (last_probe m), cr_probe_success = lp_success (last_probe m)\<rparr>)"

definition ngc_parameters :: "'s Board \<Rightarrow> 's Firmware \<Rightarrow> string list"
  where "ngc_parameters bd m =
    enqueue_lines (\<lambda>i. ngc_parameter_line (bd_fmt3 bd) RESPONSE_CAPACITY (coordinate_report m) i) [0..<NGC_PARAMETER_LINES]"

definition format_skip_probes :: "'s Board \<Rightarrow> 's Firmware \<Rightarrow> string list"
  where "format_skip_probes bd m =
    (case write_all 144
       [''SKIP drop='', dec (unat (rx_pipe_overflow (comms m))), '' lines='', dec (unat (lines_framed (comms m))),
        '' cons='', dec (unat (lines_consumed m)), '' acks='', dec (unat (acks_emitted (comms m))),
        '' exec='', dec (unat (blocks_executed m)), '' trunc='', dec (unat (bd_truncated bd ! 0)),
        '' twait='', dec (unat (bd_truncated bd ! 1)), '' ttx='', dec (unat (bd_truncated bd ! 2)),
        '' tlong='', dec (unat (bd_truncated bd ! 3)), '' taxis='', dec (unat (bd_truncated bd ! 4))] [] of
       (txt, Inr _) \<Rightarrow> single_line (message RESPONSE_CAPACITY txt)
     | (_, Inl _) \<Rightarrow> [])"

definition driver_lines :: "'s Board \<Rightarrow> string list"
  where "driver_lines bd =
    single_line (\<lambda>out. driver_info RESPONSE_CAPACITY (bd_driver_status bd) out) @
    (if should_report (bd_driver_probe bd) then single_line (driver_probe RESPONSE_CAPACITY (bd_driver_probe bd)) else []) @
    (case dp_raw_ioin (bd_driver_probe bd) of
       Some capture \<Rightarrow> single_line (driver_ioin_raw RESPONSE_CAPACITY capture) | None \<Rightarrow> []) @
    (if lb_ran (bd_loopback bd) then single_line (loopback RESPONSE_CAPACITY (bd_loopback bd)) else []) @
    (if any_attempted (bd_bus_stats bd) then single_line (tmc_bus_stats RESPONSE_CAPACITY (bd_bus_stats bd)) else [])"

text \<open>The stashed reset and crash reports are delivered once.\<close>

definition send_build_info :: "bool \<Rightarrow> 's handler"
  where "send_build_info extended bd m = do {
    m \<leftarrow> enqueue_all (single_line (build_info RESPONSE_CAPACITY extended)) bd m;
    m \<leftarrow> (if extended then enqueue_all (driver_lines bd) bd m else Some m);
    m \<leftarrow> enqueue_all (format_skip_probes bd m) bd m;
    m \<leftarrow> enqueue_all (case pending_reset_report m of Some t \<Rightarrow> single_line (message RESPONSE_CAPACITY t) | None \<Rightarrow> [])
           bd (m\<lparr>pending_reset_report := None\<rparr>);
    enqueue_all (enqueue_lines (message RESPONSE_CAPACITY) (pending_crash_report m)) bd (m\<lparr>pending_crash_report := []\<rparr>) }"

definition send_parser_state :: "'s handler"
  where "send_parser_state bd m =
    enqueue_formatted (parser_state (bd_fmt3 bd) RESPONSE_CAPACITY (parser_snapshot (pstate (fw_parser m))) []) bd m"

text \<open>Each byte of the stored line is pushed as the \<^verbatim>\<open>char\<close> of that code, in UTF-8.\<close>

definition latin1 :: "u8 \<Rightarrow> string"
  where "latin1 b =
    (if b < 0x80 then [char_of (unat b)] else [char_of (unat (0xC0 OR drop_bit 6 b)), char_of (unat (0x80 OR b AND 0x3F))])"

definition startup_echo :: "nat \<Rightarrow> u8 list \<Rightarrow> string list"
  where "startup_echo index gcode =
    single_line (write_all RESPONSE_CAPACITY ([''$N'', dec index, ''=''] @ map latin1 gcode @ [CRLF]))"

definition startup_report :: "'s Firmware \<Rightarrow> string list"
  where "startup_report m =
    concat (map (\<lambda>(i, slot). startup_echo i (case slot of Some g \<Rightarrow> g | None \<Rightarrow> []))
      (enumerate (0::nat) (startup_lines (cst m))))"

definition PB_CHUNK_BYTES :: nat where "PB_CHUNK_BYTES = 48"

fun byte_chunks :: "nat \<Rightarrow> 'a list \<Rightarrow> 'a list list"
  where
    "byte_chunks n [] = []"
  | "byte_chunks n (x # xs) = (x # take (n - 1) xs) # byte_chunks n (drop (n - 1) xs)"

definition pb_line :: "u8 list \<Rightarrow> string list"
  where "pb_line chunk =
    (case write_str RESPONSE_CAPACITY ''[PB:'' [] of
       (_, Inl _) \<Rightarrow> []
     | (s, Inr _) \<Rightarrow>
         (case write_hex RESPONSE_CAPACITY chunk s of
            (_, False) \<Rightarrow> []
          | (s, True) \<Rightarrow> single_line (\<lambda>_. write_str RESPONSE_CAPACITY ('']'' @ CRLF) s)))"

definition export_pb :: "'s Board \<Rightarrow> 's Firmware \<Rightarrow> string list"
  where "export_pb bd m =
    (case settings_encode (bd_pb bd) SETTINGS_FRAME_MAX_LEN (settings_snapshot bd m) [] of
       (_, Inl _) \<Rightarrow> []
     | (bs, Inr _) \<Rightarrow> concat (map pb_line (byte_chunks PB_CHUNK_BYTES bs)))"

section \<open>State commands\<close>

definition handle_unlock :: "'s handler"
  where "handle_unlock bd m =
    (case unlock (control_state m) of
       (nxt, outcome) \<Rightarrow>
         (let m = set_control_state nxt m in
          case outcome of
            Unlocked \<Rightarrow> do { m \<leftarrow> send_message ''Caution: Unlocked'' bd m; ack_line bd m }
          | NotAlarmed \<Rightarrow> ack_line bd m
          | Locked \<Rightarrow> reject_line ERROR_UNSUPPORTED_COMMAND bd m))"

definition handle_toggle_check :: "'s handler"
  where "handle_toggle_check bd m =
    (case toggle_check (control_state m) (fw_homing_enabled m) of
       (nxt, Enabled) \<Rightarrow> do {
         m \<leftarrow> send_message ''Enabled'' bd (set_control_state nxt m); ack_line bd m }
     | (nxt, Disabled) \<Rightarrow> do {
         m \<leftarrow> send_message ''Disabled'' bd m; reset_pipeline bd (set_control_state nxt m) }
     | (_, Rejected) \<Rightarrow> reject_line ERROR_UNSUPPORTED_COMMAND bd m)"

definition handle_sleep :: "'s handler"
  where "handle_sleep bd m =
    (case enter_sleep (control_state m) of
       (nxt, entered) \<Rightarrow>
         if entered
         then
           (let m = on_comms (\<lambda>c. c\<lparr>hold_requested := True, hold_wake := True\<rparr>) (set_control_state nxt m)
            in ack_line bd (force_coolant_off (force_spindle_off m)))
         else reject_line ERROR_UNSUPPORTED_COMMAND bd m)"

definition handle_startup_query :: "'s handler"
  where "handle_startup_query bd m = do { m \<leftarrow> enqueue_all (startup_report m) bd m; ack_line bd m }"

definition STARTUP_LINE_MAX :: nat where "STARTUP_LINE_MAX = RESPONSE_CAPACITY - 8"

definition handle_startup_set :: "nat \<Rightarrow> u8 list \<Rightarrow> 's handler"
  where "handle_startup_set index gcode bd m =
    (if settings_write_blocked m then reject_line ERROR_NOT_IDLE bd m
     else if length (startup_lines (cst m)) \<le> index then reject_line ERROR_UNSUPPORTED_COMMAND bd m
     else if gcode = [] then
       ack_line bd (on_cst (\<lambda>c. c\<lparr>startup_lines := (startup_lines c)[index := None]\<rparr>) m)
     else if STARTUP_LINE_MAX < length gcode then reject_line ERROR_UNSUPPORTED_COMMAND bd m
     else ack_line bd (on_cst (\<lambda>c. c\<lparr>startup_lines := (startup_lines c)[index := Some gcode]\<rparr>) m))"

text \<open>The live copies of the settings the other tasks read.\<close>

definition publish_limits :: "Settings \<Rightarrow> 's Firmware \<Rightarrow> 's Firmware"
  where "publish_limits s m =
    m\<lparr>fw_homing_enabled := homing_enabled s, fw_hard_limits_enabled := hard_limits_enabled s,
      fw_limit_invert := limit_invert s, fw_limit_debounce_ms := homing_debounce_ms s\<rparr>"

definition handle_restore_settings :: "'s handler"
  where "handle_restore_settings bd m =
    (if settings_write_blocked m then reject_line ERROR_NOT_IDLE bd m
     else
      (let defaults = Settings_default (bd_lm bd);
           m = m\<lparr>settings := Some defaults,
                 flash := fst (store_settings (bd_pb bd) (bd_settings_store bd) defaults (flash m)),
                 settings_dirty := False\<rparr>;
           m = on_cst (\<lambda>c. c\<lparr>startup_lines := [None, None]\<rparr>) (refresh_status_cfg bd m);
           m = publish_limits defaults m
       in reset_pipeline bd (set_control_state (boot (homing_enabled defaults)) m)))"

definition clear_and_persist_coordinates :: "'s Board \<Rightarrow> 's Firmware \<Rightarrow> 's Firmware"
  where "clear_and_persist_coordinates bd m =
    (let m = push_wco_to_planner (m\<lparr>coordinates := clear_all (coordinates m)\<rparr>);
         m = m\<lparr>flash := fst (store_coordinates (bd_pbc bd) (bd_coords_store bd) (persistent (coordinates m)) (flash m)),
               coordinates_dirty := False\<rparr>
     in reset_wco_reporter m)"

definition handle_restore_params :: "'s handler"
  where "handle_restore_params bd m =
    (if settings_write_blocked m then reject_line ERROR_NOT_IDLE bd m
     else ack_line bd (clear_and_persist_coordinates bd m))"

definition handle_restore_all :: "'s handler"
  where "handle_restore_all bd m =
    (if settings_write_blocked m then reject_line ERROR_NOT_IDLE bd m
     else handle_restore_settings bd (clear_and_persist_coordinates bd m))"

section \<open>Settings\<close>

definition parse_setting_write :: "u8 list \<Rightarrow> (u16 \<times> string) option"
  where "parse_setting_write body =
    (case from_utf8 body of
       None \<Rightarrow> None
     | Some txt \<Rightarrow>
         (case split_once (CHR ''='') txt of
            None \<Rightarrow> None
          | Some (number, v) \<Rightarrow>
              (case parse_unsigned 0xFFFF (trim number) of None \<Rightarrow> None | Some n \<Rightarrow> Some (of_nat n, trim v))))"

text \<open>The mirrors of the settings that take effect at once.\<close>

definition apply_live_setting :: "'s Board \<Rightarrow> u16 \<Rightarrow> 's Firmware \<Rightarrow> 's Firmware"
  where "apply_live_setting bd n m =
    (let s = settings_snapshot bd m;
         m = (if n = 22 then m\<lparr>fw_homing_enabled := homing_enabled s\<rparr> else m);
         m = (if n = 21 then m\<lparr>fw_hard_limits_enabled := hard_limits_enabled s\<rparr> else m);
         m = (if n = 5 then m\<lparr>fw_limit_invert := limit_invert s\<rparr> else m);
         m = (if n = 26 then m\<lparr>fw_limit_debounce_ms := homing_debounce_ms s\<rparr> else m)
     in if n = 481
        then on_comms (\<lambda>c. c\<lparr>auto_report_wake := True\<rparr>) (m\<lparr>fw_auto_report_ms := auto_report_interval s\<rparr>)
        else m)"

definition write_setting_command :: "u8 list \<Rightarrow> 's handler"
  where "write_setting_command body bd m =
    (if settings_write_blocked m then reject_line ERROR_NOT_IDLE bd m
     else case parse_setting_write body of
       None \<Rightarrow> reject_line (setting_error_code BadValue) bd m
     | Some (n, v) \<Rightarrow>
         (case (case settings m of
                  Some s \<Rightarrow> (case set_command n v s of (s, r) \<Rightarrow> (m\<lparr>settings := Some s\<rparr>, r))
                | None \<Rightarrow> (m, Inl UnknownSetting)) of
            (m, Inr _) \<Rightarrow>
              ack_line bd (mark_settings_dirty (refresh_planner_config bd (refresh_status_cfg bd (apply_live_setting bd n m))))
          | (m, Inl e) \<Rightarrow> reject_line (setting_error_code e) bd m))"

definition adopt_settings :: "'s Board \<Rightarrow> Settings \<Rightarrow> 's Firmware \<Rightarrow> 's Firmware"
  where "adopt_settings bd s m =
    (let m = publish_limits s (m\<lparr>settings := Some s\<rparr>);
         m = on_comms (\<lambda>c. c\<lparr>auto_report_wake := True\<rparr>) (m\<lparr>fw_auto_report_ms := auto_report_interval s\<rparr>)
     in mark_settings_dirty (refresh_planner_config bd (refresh_status_cfg bd m)))"

definition handle_pb_write :: "u8 list \<Rightarrow> 's handler"
  where "handle_pb_write hex bd m =
    (if settings_write_blocked m
     then reject_line ERROR_NOT_IDLE bd (on_cst (\<lambda>c. c\<lparr>pb := PbReceiver_reset (pb c)\<rparr>) m)
     else case from_utf8 hex of
       None \<Rightarrow> reject_line (setting_error_code BadValue) bd (on_cst (\<lambda>c. c\<lparr>pb := PbReceiver_reset (pb c)\<rparr>) m)
     | Some txt \<Rightarrow>
         (case accept_hex (bd_lm bd) (bd_pb bd) (trim txt) (pb (cst m)) of
            (r, result) \<Rightarrow>
              (let m = on_cst (\<lambda>c. c\<lparr>pb := r\<rparr>) m in
               case result of
                 ChunkNeedMore \<Rightarrow> ack_line bd m
               | Complete s \<Rightarrow> ack_line bd (adopt_settings bd s m)
               | ChunkError \<Rightarrow> reject_line (setting_error_code BadValue) bd m)))"

section \<open>Homing\<close>

datatype HomeWake = HomeFinished "HomingError + i32 list" | HomePreempted

definition run_homing_cycle :: "f32 HomingConfig \<Rightarrow> 's Board \<Rightarrow> 's Firmware \<Rightarrow> (HomeWake \<times> 's Firmware) option"
  where "run_homing_cycle config bd m = do {
    (r, m) \<leftarrow> await bd [on_home_result HomeFinished, on_soft_reset HomePreempted]
                 (m\<lparr>home_result := None, home_request := Some config\<rparr>);
    (case r of
       HomeFinished _ \<Rightarrow> Some (r, m)
     | HomePreempted \<Rightarrow> Some (r, m\<lparr>home_request := None\<rparr>)) }"

definition handle_home :: "'s handler"
  where "handle_home bd m =
    (if \<not> fw_homing_enabled m then reject_line ERROR_HOMING_DISABLED bd m
     else if \<not> homing_allowed (control_state m) then reject_line ERROR_LOCKED bd m
     else do {
       let config = homing_config (bd_lm bd) (bd_tick_hz bd) (settings_snapshot bd m);
       let m = on_comms (\<lambda>c. c\<lparr>status_request := True\<rparr>) (m\<lparr>homing_active := True\<rparr>);
       (r, m) \<leftarrow> run_homing_cycle config bd m;
       let m = m\<lparr>homing_active := False\<rparr>;
       (case r of
          HomeFinished (Inr zeros) \<Rightarrow>
            (let after = home_complete (control_state m) in
             if after = CS_Normal
             then ack_line bd ((set_control_state after (sync_planner zeros m))\<lparr>homed := True\<rparr>)
             else Some m)
        | HomeFinished (Inl _) \<Rightarrow> do {
            m \<leftarrow> emit_alarm HomingFail bd (set_control_state (CS_Alarm HomingFail) m);
            reset_pipeline bd m }
        | HomePreempted \<Rightarrow> apply_soft_reset bd m) })"

section \<open>Dispatch\<close>

definition then_ack :: "'s handler \<Rightarrow> 's handler"
  where "then_ack h bd m = do { m \<leftarrow> h bd m; ack_line bd m }"

definition run_system_command :: "SystemCommand \<Rightarrow> 's handler"
  where "run_system_command cmd bd m =
    (case cmd of
       Help \<Rightarrow> then_ack (enqueue_formatted (write_help RESPONSE_CAPACITY [])) bd m
     | SettingsDump \<Rightarrow> then_ack (enqueue_all (dump_settings bd m)) bd m
     | BuildInfo extended \<Rightarrow> then_ack (send_build_info extended) bd m
     | ParserState \<Rightarrow> then_ack send_parser_state bd m
     | NgcParams \<Rightarrow> then_ack (enqueue_all (ngc_parameters bd m)) bd m
     | Unlock \<Rightarrow> handle_unlock bd m
     | ToggleCheck \<Rightarrow> handle_toggle_check bd m
     | SleepCommand \<Rightarrow> handle_sleep bd m
     | HomeCommand \<Rightarrow> handle_home bd m
     | StartupQuery \<Rightarrow> handle_startup_query bd m
     | StartupSet index gcode \<Rightarrow> handle_startup_set index gcode bd m
     | RestoreSettings \<Rightarrow> handle_restore_settings bd m
     | RestoreParams \<Rightarrow> handle_restore_params bd m
     | RestoreAll \<Rightarrow> handle_restore_all bd m
     | EnumSettings \<Rightarrow> then_ack (enqueue_all enumerate_settings) bd m
     | EnumSettingGroups \<Rightarrow> then_ack (enqueue_all enumerate_setting_groups) bd m
     | EnumErrorCodes \<Rightarrow> then_ack (enqueue_all enumerate_error_codes) bd m
     | EnumAlarmCodes \<Rightarrow> then_ack (enqueue_all enumerate_alarm_codes) bd m
     | SettingDescription num \<Rightarrow> then_ack (enqueue_all (setting_description num)) bd m
     | SetSetting body \<Rightarrow> write_setting_command body bd m
     | PbExport \<Rightarrow> then_ack (enqueue_all (export_pb bd m)) bd m
     | PbImport hex \<Rightarrow> handle_pb_write hex bd m
     | Unknown \<Rightarrow> reject_line ERROR_UNSUPPORTED_COMMAND bd m)"

definition handle_system_command :: "u8 list \<Rightarrow> 's handler"
  where "handle_system_command rest = run_system_command (classify_system rest)"

end
