(* ===== verification/Consumer.thy ===== *)
theory Consumer
  imports Consumer_Commands
begin

text \<open>
  The consumer task: the planning of one G-code line with its back-pressure (\<^verbatim>\<open>comms/consumer.rs\<close>),
  the probe (\<^verbatim>\<open>comms/probe.rs\<close>), jogs (\<^verbatim>\<open>comms/jog.rs\<close>), the spin-up dwell
  (\<^verbatim>\<open>comms/spindle_coolant.rs\<close>), the pauses (\<^verbatim>\<open>comms/program_flow.rs\<close>), and the loop that
  receives a line or one of the task's other events.
\<close>

section \<open>Planning a command\<close>

datatype PlanResult =
    Res_Accepted
  | Res_Coordinate CoordinateOp
  | Res_Error u8
  | Res_SoftLimitAlarm
  | Res_Aborted
  | Res_Stopped
  | Res_Spindle SpindleState f32
  | Res_Dwell f32
  | Res_ProgramEnd
  | Res_ProgramPause bool bool
  | Res_Coolant CoolantState
  | Res_Probe ProbeRequest bool

datatype Retry = RetryNow | RetryAborted | RetryStopped

definition await_retry :: "nat \<Rightarrow> ('s, Retry) arm list \<Rightarrow> 's Board \<Rightarrow> 's Firmware \<Rightarrow> (Retry \<times> 's Firmware) option"
  where "await_retry us arms bd m =
    await bd (arms @ [on_timer RetryNow, on_soft_reset RetryAborted, on_program_stop RetryStopped]) (start_timer us m)"

definition wake_executor :: "nat \<Rightarrow> 's Firmware \<Rightarrow> 's Firmware"
  where "wake_executor blocks m = (if 0 < blocks then m\<lparr>block_available := True\<rparr> else m)"

text \<open>\<^verbatim>\<open>f32::MIN_POSITIVE\<close>.\<close>

definition F32_MIN_POSITIVE :: f32
  where "F32_MIN_POSITIVE = f32_ratio 1 (2 ^ 126)"

definition probe_step_period_ticks :: "'s Board \<Rightarrow> i32 list \<Rightarrow> f32 \<Rightarrow> Units \<Rightarrow> 's Firmware \<Rightarrow> u32"
  where "probe_step_period_ticks bd target rate units m =
    (let s = settings_snapshot bd m;
         per_mm = Settings.Settings.steps_per_mm s;
         start = (case planner m of Some p \<Rightarrow> pl_position p | None \<Rightarrow> replicate AXES 0);
         delta = (\<lambda>axis. target ! axis - start ! axis);
         (dom, dom_steps) = fold (\<lambda>axis (dom, most).
             let n = unsigned_abs (delta axis) in if most < n then (axis, n) else (dom, most)) [0..<AXES] (0, 0);
         sumsq_mm = fold (\<lambda>axis sum.
             if flt f32_zero (per_mm ! axis)
             then let mm = fdiv (f32_of_word (delta axis)) (per_mm ! axis) in fadd sum (fmul mm mm)
             else sum) [0..<AXES] f32_zero;
         length_mm = sqrtf (bd_lm bd) sumsq_mm;
         feed_mm_s = fmax (fdiv (fmul rate (coords_units_scale units)) (f32_of_int 60)) f32_zero
     in if dom_steps = 0 \<or> fle length_mm f32_zero \<or> fle feed_mm_s f32_zero \<or> fle (per_mm ! dom) f32_zero
        then 0xFFFFFFFF
        else
         (let mm_per_dom_step = fdiv length_mm (f32_of_int (uint dom_steps));
              dom_step_rate = fdiv feed_mm_s mm_per_dom_step;
              hz = tick_hz (motion_config (bd_lm bd) (bd_tick_hz bd) s);
              period = fdiv hz (fmax dom_step_rate F32_MIN_POSITIVE)
          in if is_finite period \<and> flt f32_zero period then f32_to_u32 (roundf (bd_lm bd) period) else 0xFFFFFFFF))"

text \<open>The outcome of an accepted command; an arc that is only partly queued is \<^verbatim>\<open>None\<close>.\<close>

definition accepted_result :: "'s Board \<Rightarrow> PlannerOutcome \<Rightarrow> 's Firmware \<Rightarrow> PlanResult option \<times> 's Firmware"
  where "accepted_result bd outcome m =
    (case outcome of
       Queued blocks \<Rightarrow> (Some Res_Accepted, wake_executor blocks m)
     | ArcPending enqueued \<Rightarrow> (None, wake_executor enqueued m)
     | Out_Coordinate op \<Rightarrow> (Some (Res_Coordinate op), m)
     | Out_Probe kind target rate units \<Rightarrow>
         (Some (Res_Probe \<lparr>pq_target = target, pq_step_period_ticks = probe_step_period_ticks bd target rate units m,
            pq_toward = toward kind, pq_invert = probe_invert (settings_snapshot bd m)\<rparr> (alarm_on_fail kind)), m)
     | Out_Spindle sp rpm \<Rightarrow> (Some (Res_Spindle sp rpm), m)
     | Out_Dwell seconds \<Rightarrow> (Some (Res_Dwell seconds), m)
     | Out_ProgramEnd \<Rightarrow> (Some Res_ProgramEnd, m)
     | Out_ProgramPause optional tool_changes \<Rightarrow> (Some (Res_ProgramPause optional tool_changes), m)
     | Out_Coolant co \<Rightarrow> (Some (Res_Coolant co), m)
     | Out_GoToPredefined _ \<Rightarrow> (Some Res_Accepted, m))"

text \<open>The remaining segments of an arc; the planner and what \<^verbatim>\<open>resume_arc\<close> said of it.\<close>

definition resume_arc_step :: "'s Board \<Rightarrow> 's Firmware \<Rightarrow> PlanResult option \<times> 's Firmware"
  where "resume_arc_step bd m =
    (case planner m of
       None \<Rightarrow> (Some (Res_Error ERROR_PLANNER_UNINITIALIZED), m)
     | Some p \<Rightarrow>
         (case resume_arc (bd_lm bd) p of
            (p, r) \<Rightarrow>
              (let m = m\<lparr>planner := Some p\<rparr> in
               case r of
                 Inr (Queued blocks) \<Rightarrow> (Some Res_Accepted, wake_executor blocks m)
               | Inr (ArcPending enqueued) \<Rightarrow> (None, wake_executor enqueued m)
               | Inr _ \<Rightarrow> (Some (Res_Error ERROR_PLANNER_UNINITIALIZED), m)
               | Inl e \<Rightarrow> (Some (Res_Error (planner_error_code e)), m))))"

partial_function (option) drive_pending_arc :: "'s Board \<Rightarrow> 's Firmware \<Rightarrow> (PlanResult \<times> 's Firmware) option"
  where "drive_pending_arc bd m = do {
    (w, m) \<leftarrow> await_retry QUEUE_FULL_RETRY [on_slot_freed RetryNow] bd m;
    (case w of
       RetryAborted \<Rightarrow> Some (Res_Aborted, m)
     | RetryStopped \<Rightarrow> Some (Res_Stopped, m)
     | RetryNow \<Rightarrow>
         (case resume_arc_step bd m of
            (Some r, m) \<Rightarrow> Some (r, m)
          | (None, m) \<Rightarrow> drive_pending_arc bd m)) }"

text \<open>One attempt of \<^verbatim>\<open>plan_command\<close>; \<^verbatim>\<open>Inl\<close> is a full queue.\<close>

definition plan_attempt :: "PlannerCommand \<Rightarrow> 's Board \<Rightarrow> 's Firmware \<Rightarrow> (unit + PlanResult option) \<times> 's Firmware"
  where "plan_attempt cmd bd m =
    (case planner m of
       None \<Rightarrow> (Inr (Some (Res_Error ERROR_PLANNER_UNINITIALIZED)), m)
     | Some p \<Rightarrow>
         (case plan_command_with_limits (bd_lm bd) cmd (current_soft_limits bd m) p of
            (p, r) \<Rightarrow>
              (let m = m\<lparr>planner := Some p\<rparr> in
               case r of
                 Inr outcome \<Rightarrow> (case accepted_result bd outcome m of (res, m) \<Rightarrow> (Inr res, m))
               | Inl QueueFull \<Rightarrow> (Inl (), m)
               | Inl MoveExceedsTravel \<Rightarrow> (Inr (Some Res_SoftLimitAlarm), m)
               | Inl e \<Rightarrow> (Inr (Some (Res_Error (planner_error_code e))), m))))"

partial_function (option) consumer_plan_command ::
    "PlannerCommand \<Rightarrow> 's Board \<Rightarrow> 's Firmware \<Rightarrow> (PlanResult \<times> 's Firmware) option"
  where "consumer_plan_command cmd bd m =
    (case plan_attempt cmd bd m of
       (Inr (Some r), m) \<Rightarrow> Some (r, m)
     | (Inr None, m) \<Rightarrow> drive_pending_arc bd m
     | (Inl _, m) \<Rightarrow> do {
         (w, m) \<leftarrow> await_retry QUEUE_FULL_RETRY [] bd m;
         (case w of
            RetryNow \<Rightarrow> consumer_plan_command cmd bd m
          | RetryAborted \<Rightarrow> Some (Res_Aborted, m)
          | RetryStopped \<Rightarrow> Some (Res_Stopped, m)) })"

definition go_attempt ::
    "AxisWords \<Rightarrow> Units \<Rightarrow> DistanceMode \<Rightarrow> f32 list \<Rightarrow> 's Board \<Rightarrow> 's Firmware \<Rightarrow> PlanResult option \<times> 's Firmware"
  where "go_attempt ax units distance predefined bd m =
    (case planner m of
       None \<Rightarrow> (Some (Res_Error ERROR_PLANNER_UNINITIALIZED), m)
     | Some p \<Rightarrow>
         (case plan_go_to_predefined (bd_lm bd) ax units distance predefined (current_soft_limits bd m) p of
            (p, r) \<Rightarrow>
              (let m = m\<lparr>planner := Some p\<rparr> in
               case r of
                 Inr blocks \<Rightarrow> (Some Res_Accepted, wake_executor blocks m)
               | Inl QueueFull \<Rightarrow> (None, m)
               | Inl MoveExceedsTravel \<Rightarrow> (Some Res_SoftLimitAlarm, m)
               | Inl e \<Rightarrow> (Some (Res_Error (planner_error_code e)), m))))"

partial_function (option) go_loop ::
    "AxisWords \<Rightarrow> Units \<Rightarrow> DistanceMode \<Rightarrow> f32 list \<Rightarrow> 's Board \<Rightarrow> 's Firmware \<Rightarrow> (PlanResult \<times> 's Firmware) option"
  where "go_loop ax units distance predefined bd m =
    (case go_attempt ax units distance predefined bd m of
       (Some r, m) \<Rightarrow> Some (r, m)
     | (None, m) \<Rightarrow> do {
         (w, m) \<leftarrow> await_retry QUEUE_FULL_RETRY [] bd m;
         (case w of
            RetryNow \<Rightarrow> go_loop ax units distance predefined bd m
          | RetryAborted \<Rightarrow> Some (Res_Aborted, m)
          | RetryStopped \<Rightarrow> Some (Res_Stopped, m)) })"

definition handle_go_to_predefined ::
    "bool \<Rightarrow> AxisWords \<Rightarrow> Units \<Rightarrow> DistanceMode \<Rightarrow> 's Board \<Rightarrow> 's Firmware \<Rightarrow> (PlanResult \<times> 's Firmware) option"
  where "handle_go_to_predefined is_g28 ax units distance bd m =
    (let predefined = (case predefined_position (coordinates m) (if is_g28 then 0 else 1) of
           Some v \<Rightarrow> v | None \<Rightarrow> origin)
     in go_loop ax units distance predefined bd m)"

section \<open>Probing\<close>

datatype ProbeWake = ProbeFinished ProbeResult | ProbePreempted

definition run_probe_cycle :: "ProbeRequest \<Rightarrow> 's Board \<Rightarrow> 's Firmware \<Rightarrow> (ProbeResult option \<times> 's Firmware) option"
  where "run_probe_cycle request bd m = do {
    let m = on_comms (\<lambda>c. c\<lparr>probe_request := True\<rparr>) (m\<lparr>probe_result := None, probe_payload := request\<rparr>);
    (r, m) \<leftarrow> await bd [on_probe_result ProbeFinished, on_soft_reset ProbePreempted] m;
    (case r of
       ProbePreempted \<Rightarrow> Some (None, on_comms (\<lambda>c. c\<lparr>probe_request := False\<rparr>) m)
     | ProbeFinished result \<Rightarrow> do {
         let m = sync_planner (stop_steps result) m;
         let pos = steps_to_mm (stop_steps result) (Settings.Settings.steps_per_mm (settings_snapshot bd m));
         let m = m\<lparr>last_probe := \<lparr>lp_position_mm = pos, lp_success = pr_triggered result\<rparr>\<rparr>;
         m \<leftarrow> enqueue_formatted (probe_report (bd_fmt3 bd) RESPONSE_CAPACITY pos (pr_triggered result) []) bd m;
         Some (Some result, m) }) }"

definition handle_probe :: "ProbeRequest \<Rightarrow> bool \<Rightarrow> 's handler"
  where "handle_probe request fail_alarms bd m = do {
    (r, m) \<leftarrow> run_probe_cycle request bd m;
    (case r of
       None \<Rightarrow> apply_soft_reset bd m
     | Some result \<Rightarrow>
         (case probe_response (pr_triggered result) (already_at_edge result) fail_alarms of
            ProbeOk \<Rightarrow> ack_line bd m
          | ProbeAlarm code \<Rightarrow> emit_alarm code bd (set_control_state (CS_Alarm code) m))) }"

section \<open>Pauses\<close>

datatype PauseOutcome = Resumed | Skipped | PauseAborted | PauseStopped

definition peeked_line_is_holdable_query :: "u8 list \<Rightarrow> bool"
  where "peeked_line_is_holdable_query line =
    (let trimmed = trim_ascii line in
     if strip_jog_prefix trimmed \<noteq> None then False
     else case strip_bytes (bytes ''$'') trimmed of
       Some rest \<Rightarrow> is_readonly_query (classify_system rest)
     | None \<Rightarrow> False)"

definition service_held_query :: "u8 list \<Rightarrow> 's handler"
  where "service_held_query line bd m =
    (case strip_bytes (bytes ''$'') (trim_ascii line) of
       Some rest \<Rightarrow>
         if is_readonly_query (classify_system rest)
         then handle_system_command rest bd (on_cst (\<lambda>c. c\<lparr>error_hold := False\<rparr>) m)
         else Some m
     | None \<Rightarrow> Some m)"

definition pause_signals :: "('s, PauseOutcome option) arm list"
  where "pause_signals =
    [on_pause_resume (Some Resumed), on_soft_reset (Some PauseAborted), on_program_stop (Some PauseStopped)]"

definition on_queue_ready :: "'a \<Rightarrow> ('s, 'a) arm"
  where "on_queue_ready v m = (if line_queue (comms m) = [] then None else Some (v, m))"

definition take_line :: "'s Firmware \<Rightarrow> (u8 list \<times> 's Firmware) option"
  where "take_line m = on_line (\<lambda>l. l) m"

partial_function (option) hold_until_resume :: "'s Board \<Rightarrow> 's Firmware \<Rightarrow> (PauseOutcome \<times> 's Firmware) option"
  where "hold_until_resume bd m =
    (let head_is_query = (case line_queue (comms m) of [] \<Rightarrow> False | line # _ \<Rightarrow> peeked_line_is_holdable_query line) in
     do {
       (r, m) \<leftarrow> await bd (if head_is_query then pause_signals @ [on_queue_ready None] else pause_signals) m;
       (case r of
          Some outcome \<Rightarrow> Some (outcome, m)
        | None \<Rightarrow>
            (case take_line m of
               None \<Rightarrow> hold_until_resume bd m
             | Some (line, m) \<Rightarrow> do {
                 m \<leftarrow> service_held_query line bd m;
                 hold_until_resume bd m })) })"

definition set_pause_active :: "bool \<Rightarrow> 's Firmware \<Rightarrow> 's Firmware"
  where "set_pause_active b m = on_comms (\<lambda>c. c\<lparr>pause_active := b\<rparr>) m"

definition run_program_pause :: "bool \<Rightarrow> bool \<Rightarrow> u16 \<Rightarrow> 's Board \<Rightarrow> 's Firmware \<Rightarrow> (PauseOutcome \<times> 's Firmware) option"
  where "run_program_pause optional tool_changes tool bd m =
    (if optional \<and> \<not> optional_stop_enabled (comms m) then Some (Skipped, m)
     else do {
       (idle, m) \<leftarrow> wait_for_motion_idle bd m;
       (if \<not> idle then Some (PauseAborted, m)
        else do {
          m \<leftarrow> (if tool_changes
                 then (case tool_change_message RESPONSE_CAPACITY tool [] of
                         (txt, Inr _) \<Rightarrow> send_message txt bd m
                       | (_, Inl _) \<Rightarrow> Some m)
                 else Some m);
          let paused = (if tool_changes then tool_change else feed_hold (control_state m));
          let m = set_pause_active True (set_control_state paused m);
          (outcome, m) \<leftarrow> hold_until_resume bd m;
          Some (outcome, set_pause_active False m) }) })"

section \<open>The spin-up dwell\<close>

datatype SpinUpInjection = SpinContinue | SpinAborted | SpinStopped

fun is_cutting_move :: "PlannerCommand \<Rightarrow> bool"
  where
    "is_cutting_move (Move rapid_move _ _ _ _ _ _) = (\<not> rapid_move)"
  | "is_cutting_move (Arc _ _ _ _ _ _ _ _ _ _ _) = True"
  | "is_cutting_move _ = False"

definition inject_spin_up_dwell :: "PlannerCommand \<Rightarrow> 's Board \<Rightarrow> 's Firmware \<Rightarrow> (SpinUpInjection \<times> 's Firmware) option"
  where "inject_spin_up_dwell cmd bd m =
    (if \<not> is_cutting_move cmd \<or> \<not> spin_pending (spin_up (cst m)) then Some (SpinContinue, m)
     else case take_dwell_before_move (spindle_on_delay_s (settings_snapshot bd m)) (spin_up (cst m)) of
       (g, None) \<Rightarrow> Some (SpinContinue, on_cst (\<lambda>c. c\<lparr>spin_up := g\<rparr>) m)
     | (g, Some dwell_s) \<Rightarrow> do {
         (r, m) \<leftarrow> consumer_plan_command (Dwell dwell_s) bd (on_cst (\<lambda>c. c\<lparr>spin_up := g\<rparr>) m);
         (case r of
            Res_Aborted \<Rightarrow> Some (SpinAborted, m)
          | Res_Stopped \<Rightarrow> Some (SpinStopped, m)
          | _ \<Rightarrow> do {
              (finished, m) \<leftarrow> run_dwell bd dwell_s m;
              Some (if finished then SpinContinue else SpinAborted, m) }) })"

section \<open>G-code lines\<close>

definition dispatch_plan_result :: "PlanResult \<Rightarrow> 's handler"
  where "dispatch_plan_result result bd m =
    (case result of
       Res_Accepted \<Rightarrow> ack_line bd m
     | Res_Coordinate op \<Rightarrow> ack_line bd (apply_coordinate_op bd op m)
     | Res_Error code \<Rightarrow> do {
         m \<leftarrow> reject_line code bd m;
         Some (on_cst (\<lambda>c. c\<lparr>error_hold := True\<rparr>) m) }
     | Res_SoftLimitAlarm \<Rightarrow> emit_alarm SoftLimit bd (set_control_state (CS_Alarm SoftLimit) m)
     | Res_Aborted \<Rightarrow> apply_soft_reset bd m
     | Res_Stopped \<Rightarrow> program_stop_cycle bd m
     | Res_Spindle _ _ \<Rightarrow> ack_line bd m
     | Res_Dwell seconds \<Rightarrow> do {
         (finished, m) \<leftarrow> run_dwell bd seconds m;
         (if finished then ack_line bd m else apply_soft_reset bd m) }
     | Res_ProgramEnd \<Rightarrow> do {
         (finished, m) \<leftarrow> program_end bd m;
         (if finished then ack_line bd m else apply_soft_reset bd m) }
     | Res_ProgramPause optional tool_changes \<Rightarrow> do {
         (outcome, m) \<leftarrow> run_program_pause optional tool_changes (m_current_tool (pstate (fw_parser m))) bd m;
         (case outcome of
            Resumed \<Rightarrow> ack_line bd m
          | Skipped \<Rightarrow> ack_line bd m
          | PauseAborted \<Rightarrow> apply_soft_reset bd m
          | PauseStopped \<Rightarrow> program_stop_cycle bd m) }
     | Res_Coolant _ \<Rightarrow> ack_line bd m
     | Res_Probe request fail_alarms \<Rightarrow> handle_probe request fail_alarms bd m)"

definition refresh_jog_state :: "'s Firmware \<Rightarrow> 's Firmware"
  where "refresh_jog_state m =
    (if control_state m \<noteq> CS_Jog \<or> program_running m then m else set_control_state (cancel_jog CS_Jog) m)"

text \<open>\<^verbatim>\<open>None\<close> in the first component: the line was answered and must not be parsed.\<close>

definition gate_line :: "'s Board \<Rightarrow> 's Firmware \<Rightarrow> (ControlState option \<times> 's Firmware) option"
  where "gate_line bd m =
    (if error_hold (cst m) then do { m \<leftarrow> reject_bare ERROR_HOLD_CODE bd m; Some (None, m) }
     else
      (let m = refresh_jog_state m in
       case control_state m of
         CS_Alarm _ \<Rightarrow> do { m \<leftarrow> reject_line ERROR_LOCKED bd m; Some (None, m) }
       | CS_Sleep \<Rightarrow> do { m \<leftarrow> reject_line ERROR_LOCKED bd m; Some (None, m) }
       | CS_Jog \<Rightarrow> do { m \<leftarrow> reject_line ERROR_LOCKED bd m; Some (None, m) }
       | other \<Rightarrow> Some (Some other, m)))"

definition drive_modal_outputs :: "(GcodeError + PlannerCommand option) \<Rightarrow> ControlState \<Rightarrow> 's Firmware \<Rightarrow> 's Firmware"
  where "drive_modal_outputs parsed ctl m =
    (let modal = pstate (fw_parser m);
         m = (case parsed of Inr (Some _) \<Rightarrow> sync_active_wcs (m_wcs modal) m | _ \<Rightarrow> m)
     in case parsed of
          Inl _ \<Rightarrow> m
        | Inr _ \<Rightarrow>
           (let rpm = f32_to_u32 (fmax (m_spindle_speed modal) f32_zero);
                m = m\<lparr>programmed_spindle_rpm := min rpm 0xFFFF\<rparr>
            in if ctl \<noteq> CS_Check then sync_coolant_from_modal modal (sync_spindle_from_modal modal m) else m))"

definition plan_gcode_line :: "u8 list \<Rightarrow> 's handler"
  where "plan_gcode_line line bd m = do {
    (gate, m) \<leftarrow> gate_line bd m;
    (case gate of
       None \<Rightarrow> Some m
     | Some ctl \<Rightarrow>
         (case parse_gcode_line (bd_lm bd) (fw_parser m) line of
            (p, parsed) \<Rightarrow>
              (let m = drive_modal_outputs parsed ctl (m\<lparr>fw_parser := p\<rparr>) in
               case parsed of
                 Inr None \<Rightarrow> ack_line bd m
               | Inl e \<Rightarrow> do {
                   m \<leftarrow> reject_line (gcode_error_code e) bd m;
                   Some (on_cst (\<lambda>c. c\<lparr>error_hold := True\<rparr>) m) }
               | Inr (Some cmd) \<Rightarrow>
                   if ctl = CS_Check then ack_line bd m
                   else do {
                     (spin, m) \<leftarrow> inject_spin_up_dwell cmd bd m;
                     (case spin of
                        SpinAborted \<Rightarrow> apply_soft_reset bd m
                      | SpinStopped \<Rightarrow> program_stop_cycle bd m
                      | SpinContinue \<Rightarrow> do {
                          (result, m) \<leftarrow>
                            (case cmd of
                               GoToPredefined is_g28 ax units distance \<Rightarrow> handle_go_to_predefined is_g28 ax units distance bd m
                             | _ \<Rightarrow> consumer_plan_command cmd bd m);
                          dispatch_plan_result result bd m }) }))) }"

section \<open>Jogs\<close>

definition plan_jog_line :: "JogCommand \<Rightarrow> 's Board \<Rightarrow> 's Firmware \<Rightarrow> (PlannerError + PlannerOutcome) \<times> 's Firmware"
  where "plan_jog_line jc bd m =
    (case planner m of
       None \<Rightarrow> (Inl JogExceedsTravel, m)
     | Some p \<Rightarrow> (case plan_jog (bd_lm bd) jc (current_soft_limits bd m) p of (p, r) \<Rightarrow> (r, m\<lparr>planner := Some p\<rparr>)))"

definition handle_jog :: "u8 list \<Rightarrow> 's handler"
  where "handle_jog line bd m =
    (let m = refresh_jog_state m in
     if error_hold (cst m) then reject_bare ERROR_HOLD_CODE bd m
     else
      (let ctl = control_state m in
       if \<not> jog_allowed ctl \<or> (ctl = CS_Normal \<and> program_running m) then reject_line ERROR_UNSUPPORTED_COMMAND bd m
       else case parse_jog (bd_lm bd) (fw_parser m) line of
         Inl e \<Rightarrow> reject_line (gcode_error_code e) bd m
       | Inr jc \<Rightarrow>
           (case plan_jog_line jc bd m of
              (Inr (Queued blocks), m) \<Rightarrow>
                ack_line bd (if 0 < blocks then wake_executor blocks (set_control_state (begin_jog ctl) m) else m)
            | (Inl e, m) \<Rightarrow> reject_line (planner_error_code e) bd m
            | (Inr _, m) \<Rightarrow> ack_line bd m)))"

section \<open>The task\<close>

definition handle_line :: "u8 list \<Rightarrow> 's handler"
  where "handle_line line bd m =
    (let trimmed = trim_ascii line in
     if trimmed = [] then ack_line bd (on_cst (\<lambda>c. c\<lparr>error_hold := False\<rparr>) m)
     else case strip_jog_prefix trimmed of
       Some rest \<Rightarrow> handle_jog rest bd m
     | None \<Rightarrow>
         (case strip_bytes (bytes ''$'') trimmed of
            Some rest \<Rightarrow> handle_system_command rest bd (on_cst (\<lambda>c. c\<lparr>error_hold := False\<rparr>) m)
          | None \<Rightarrow> plan_gcode_line trimmed bd m))"

datatype Event = Ev_Line "u8 list" | Ev_Reset | Ev_JogCancel | Ev_Safety | Ev_HardLimit | Ev_Stop | Ev_Fault

definition consumer_arms :: "('s, Event) arm list"
  where "consumer_arms =
    [on_line Ev_Line, on_soft_reset Ev_Reset, on_jog_cancel Ev_JogCancel, on_timer Ev_Safety,
     on_hard_limit Ev_HardLimit, on_program_stop Ev_Stop, on_motion_fault Ev_Fault]"

definition raise_alarm :: "AlarmCode \<Rightarrow> 's handler"
  where "raise_alarm code bd m =
    (if hard_limit_alarm_applies (control_state m)
     then do { m \<leftarrow> emit_alarm code bd (set_control_state (CS_Alarm code) m); reset_pipeline bd m }
     else Some m)"

definition flush_pending :: "'s Board \<Rightarrow> 's Firmware \<Rightarrow> 's Firmware"
  where "flush_pending bd m =
    (let m = (if settings_dirty m \<and> line_queue (comms m) = [] \<and> motion_idle m then flush_settings bd False m else m)
     in if coordinates_dirty m \<and> line_queue (comms m) = [] \<and> motion_idle m then flush_coordinates bd False m else m)"

definition handle_event :: "Event \<Rightarrow> 's handler"
  where "handle_event ev bd m =
    (case ev of
       Ev_Line line \<Rightarrow> do {
         m \<leftarrow> handle_line line bd (m\<lparr>lines_consumed := lines_consumed m + 1\<rparr>);
         Some (m\<lparr>comms_progress := comms_progress m + 1\<rparr>) }
     | Ev_Reset \<Rightarrow> apply_soft_reset bd (flush_coordinates bd True (flush_settings bd True m))
     | Ev_JogCancel \<Rightarrow> cancel_jog_cycle bd m
     | Ev_Safety \<Rightarrow>
         Some (if (settings_dirty m \<or> coordinates_dirty m) \<and> motion_idle m
               then flush_coordinates bd True (flush_settings bd True m) else m)
     | Ev_HardLimit \<Rightarrow> raise_alarm HardLimit bd m
     | Ev_Stop \<Rightarrow> program_stop_cycle bd m
     | Ev_Fault \<Rightarrow> raise_alarm MotorFault bd m)"

text \<open>One turn of the task's loop, and a number of them.\<close>

definition comms_consumer :: "'s handler"
  where "comms_consumer bd m = do {
    (ev, m) \<leftarrow> await bd consumer_arms (start_timer SETTINGS_FLUSH_SAFETY (flush_pending bd m));
    handle_event ev bd m }"

fun consumer_turns :: "nat \<Rightarrow> 's handler"
  where
    "consumer_turns 0 bd m = Some m"
  | "consumer_turns (Suc n) bd m = do { m \<leftarrow> comms_consumer bd m; consumer_turns n bd m }"

end
