(* ===== verification/Consumer_Facts.thy ===== *)
theory Consumer_Facts
  imports Consumer Wire_Props Settings_Store_Props
begin

text \<open>
  What the consumer's proofs share: the fields no other task writes, the rule for a suspension, and
  the accounting of answers against lines.
\<close>

section \<open>What the other tasks leave alone\<close>

text \<open>The consumer's fields, without the two histories.\<close>

definition kept :: "'s Firmware \<Rightarrow> (Parser \<times> ConsumerState \<times> Settings option \<times> bool) \<times>
    (CoordinateSystems \<times> bool \<times> bool \<times> bool) \<times> (u8 \<times> u8 \<times> u32) \<times> (u32 \<times> u32 \<times> 's)"
  where "kept m =
    ((fw_parser m, cst m, settings m, settings_dirty m),
     (coordinates m, coordinates_dirty m, homed m, fw_homing_enabled m),
     (spindle_direction m, coolant_state m, programmed_spindle_rpm m),
     (lines_consumed m, comms_progress m, flash m))"

definition history :: "'s Firmware \<Rightarrow> string list \<times> u8 list list"
  where "history m = (answers m, taken m)"

text \<open>
  A view of the state that no step of another task changes; an operation that waits sees it as it
  was, in the state where one of its futures completed.
\<close>

locale undisturbed =
  fixes bd :: "'s Board" and view :: "'s Firmware \<Rightarrow> 'v"
  assumes view_env: "view (env_step bd t m) = view m"
    and view_script: "view (m\<lparr>script := ts\<rparr>) = view m"
    and view_choices: "view (m\<lparr>choices := ks\<rparr>) = view m"
begin

lemma view_turns: "view (fold (env_step bd) turns m) = view m"
  by (induction turns arbitrary: m) (simp_all add: view_env)

lemma view_ready:
  assumes ready: "List.map_filter (\<lambda>a. a m) arms = r # rs"
    and got: "(if rs = [] then r else choose_ready m (r # rs)) = (v, m')"
  shows "\<exists>m0 m1. \<exists>a \<in> set arms. view m0 = view m \<and> a m0 = Some (v, m1) \<and> view m' = view m1"
proof -
  have "\<exists>r' \<in> set (r # rs). fst r' = v \<and> view m' = view (snd r')"
  proof (cases "rs = [] \<or> choices m = []")
    case True
    with got show ?thesis by (auto simp: choose_ready_def split: if_splits)
  next
    case False
    then obtain k ks where "choices m = k # ks" "rs \<noteq> []" by (cases "choices m") auto
    with got have pick: "(v, m') = (case (r # rs) ! (k mod length (r # rs)) of (v, m1) \<Rightarrow> (v, m1\<lparr>choices := ks\<rparr>))"
      by (simp add: choose_ready_def)
    have "(r # rs) ! (k mod length (r # rs)) \<in> set (r # rs)" by (intro nth_mem) simp
    then show ?thesis
    proof (rule rev_bexI)
      show "fst ((r # rs) ! (k mod length (r # rs))) = v \<and> view m' = view (snd ((r # rs) ! (k mod length (r # rs))))"
        using pick by (auto simp: view_choices split: prod.splits simp del: nth_Cons_Suc length_Cons)
    qed
  qed
  then obtain r' where r': "r' \<in> set (r # rs)" "fst r' = v" "view m' = view (snd r')" by blast
  from r'(1) have "\<exists>a \<in> set arms. a m = Some r'"
    by (simp only: ready [symmetric]) (auto simp: List.map_filter_def)
  then obtain a where "a \<in> set arms" "a m = Some (v, snd r')"
    using r'(2) by (metis prod.collapse)
  with r'(3) show ?thesis by blast
qed

lemma view_await_turns:
  "await_turns bd arms ts m = Some (v, m') \<Longrightarrow>
   \<exists>m0 m1. \<exists>a \<in> set arms. view m0 = view m \<and> a m0 = Some (v, m1) \<and> view m' = view m1"
proof (induction ts arbitrary: m)
  case (Nil m)
  then obtain r rs where ready: "List.map_filter (\<lambda>a. a m) arms = r # rs"
    and "(if rs = [] then r else choose_ready m (r # rs)) = (v, m')"
    by (subst (asm) await_turns.simps) (auto split: list.splits simp del: split_paired_All)
  then show ?case by (rule view_ready)
next
  case (Cons turns ts)
  show ?case
  proof (cases "List.map_filter (\<lambda>a. a m) arms")
    case Nil
    with Cons.prems show ?thesis
      using Cons.IH [of "fold (env_step bd) turns (m\<lparr>script := ts\<rparr>)"]
      by (subst (asm) await_turns.simps) (simp add: view_turns view_script)
  next
    case (Cons r rs)
    with Cons.prems have "(if rs = [] then r else choose_ready m (r # rs)) = (v, m')"
      by (subst (asm) await_turns.simps) simp
    then show ?thesis by (rule view_ready [OF Cons])
  qed
qed

lemma view_await:
  assumes "await bd arms m = Some (v, m')"
  obtains m0 m1 a where "a \<in> set arms" "view m0 = view m" "a m0 = Some (v, m1)" "view m' = view m1"
  using view_await_turns [OF assms [unfolded await_def]] by blast

end

text \<open>Both together, and the fields that are not among them.\<close>

definition own :: "'s Firmware \<Rightarrow> _"
  where "own m = (history m, kept m)"

lemma kept_updates [simp]:
    "kept (m\<lparr>comms := x0\<rparr>) = kept m"
    "kept (m\<lparr>planner := x1\<rparr>) = kept m"
    "kept (m\<lparr>fw_hard_limits_enabled := x2\<rparr>) = kept m"
    "kept (m\<lparr>fw_limit_invert := x3\<rparr>) = kept m"
    "kept (m\<lparr>fw_limit_debounce_ms := x4\<rparr>) = kept m"
    "kept (m\<lparr>fw_auto_report_ms := x5\<rparr>) = kept m"
    "kept (m\<lparr>homing_active := x6\<rparr>) = kept m"
    "kept (m\<lparr>spindle_estop := x7\<rparr>) = kept m"
    "kept (m\<lparr>coolant_update := x8\<rparr>) = kept m"
    "kept (m\<lparr>coolant_estop := x9\<rparr>) = kept m"
    "kept (m\<lparr>live_position := x10\<rparr>) = kept m"
    "kept (m\<lparr>counter := x11\<rparr>) = kept m"
    "kept (m\<lparr>live_feed := x12\<rparr>) = kept m"
    "kept (m\<lparr>live_rapid := x13\<rparr>) = kept m"
    "kept (m\<lparr>probe_payload := x14\<rparr>) = kept m"
    "kept (m\<lparr>probe_result := x15\<rparr>) = kept m"
    "kept (m\<lparr>home_request := x16\<rparr>) = kept m"
    "kept (m\<lparr>home_result := x17\<rparr>) = kept m"
    "kept (m\<lparr>last_probe := x18\<rparr>) = kept m"
    "kept (m\<lparr>block_available := x19\<rparr>) = kept m"
    "kept (m\<lparr>slot_freed := x20\<rparr>) = kept m"
    "kept (m\<lparr>motion_parked := x21\<rparr>) = kept m"
    "kept (m\<lparr>hard_limit_tripped := x22\<rparr>) = kept m"
    "kept (m\<lparr>motion_fault := x23\<rparr>) = kept m"
    "kept (m\<lparr>limit_levels := x24\<rparr>) = kept m"
    "kept (m\<lparr>limit_armed := x25\<rparr>) = kept m"
    "kept (m\<lparr>exec := x26\<rparr>) = kept m"
    "kept (m\<lparr>blocks_executed := x27\<rparr>) = kept m"
    "kept (m\<lparr>status_cfg := x28\<rparr>) = kept m"
    "kept (m\<lparr>wco_reporter := x29\<rparr>) = kept m"
    "kept (m\<lparr>ov_reporter := x30\<rparr>) = kept m"
    "kept (m\<lparr>machine := x31\<rparr>) = kept m"
    "kept (m\<lparr>pending_reset_report := x32\<rparr>) = kept m"
    "kept (m\<lparr>pending_crash_report := x33\<rparr>) = kept m"
    "kept (m\<lparr>timer := x34\<rparr>) = kept m"
    "kept (m\<lparr>timer_us := x35\<rparr>) = kept m"
    "kept (m\<lparr>answers := x36\<rparr>) = kept m"
    "kept (m\<lparr>taken := x37\<rparr>) = kept m"
    "kept (m\<lparr>script := x38\<rparr>) = kept m"
    "kept (m\<lparr>choices := x39\<rparr>) = kept m"
  by (simp_all add: kept_def)

lemma own_updates [simp]:
    "own (m\<lparr>comms := x0\<rparr>) = own m"
    "own (m\<lparr>planner := x1\<rparr>) = own m"
    "own (m\<lparr>fw_hard_limits_enabled := x2\<rparr>) = own m"
    "own (m\<lparr>fw_limit_invert := x3\<rparr>) = own m"
    "own (m\<lparr>fw_limit_debounce_ms := x4\<rparr>) = own m"
    "own (m\<lparr>fw_auto_report_ms := x5\<rparr>) = own m"
    "own (m\<lparr>homing_active := x6\<rparr>) = own m"
    "own (m\<lparr>spindle_estop := x7\<rparr>) = own m"
    "own (m\<lparr>coolant_update := x8\<rparr>) = own m"
    "own (m\<lparr>coolant_estop := x9\<rparr>) = own m"
    "own (m\<lparr>live_position := x10\<rparr>) = own m"
    "own (m\<lparr>counter := x11\<rparr>) = own m"
    "own (m\<lparr>live_feed := x12\<rparr>) = own m"
    "own (m\<lparr>live_rapid := x13\<rparr>) = own m"
    "own (m\<lparr>probe_payload := x14\<rparr>) = own m"
    "own (m\<lparr>probe_result := x15\<rparr>) = own m"
    "own (m\<lparr>home_request := x16\<rparr>) = own m"
    "own (m\<lparr>home_result := x17\<rparr>) = own m"
    "own (m\<lparr>last_probe := x18\<rparr>) = own m"
    "own (m\<lparr>block_available := x19\<rparr>) = own m"
    "own (m\<lparr>slot_freed := x20\<rparr>) = own m"
    "own (m\<lparr>motion_parked := x21\<rparr>) = own m"
    "own (m\<lparr>hard_limit_tripped := x22\<rparr>) = own m"
    "own (m\<lparr>motion_fault := x23\<rparr>) = own m"
    "own (m\<lparr>limit_levels := x24\<rparr>) = own m"
    "own (m\<lparr>limit_armed := x25\<rparr>) = own m"
    "own (m\<lparr>exec := x26\<rparr>) = own m"
    "own (m\<lparr>blocks_executed := x27\<rparr>) = own m"
    "own (m\<lparr>status_cfg := x28\<rparr>) = own m"
    "own (m\<lparr>wco_reporter := x29\<rparr>) = own m"
    "own (m\<lparr>ov_reporter := x30\<rparr>) = own m"
    "own (m\<lparr>machine := x31\<rparr>) = own m"
    "own (m\<lparr>pending_reset_report := x32\<rparr>) = own m"
    "own (m\<lparr>pending_crash_report := x33\<rparr>) = own m"
    "own (m\<lparr>timer := x34\<rparr>) = own m"
    "own (m\<lparr>timer_us := x35\<rparr>) = own m"
    "own (m\<lparr>script := x36\<rparr>) = own m"
    "own (m\<lparr>choices := x37\<rparr>) = own m"
  by (simp_all add: own_def history_def)

lemma executor_own [simp]:
    "own (publish_counter m) = own m" "own (sample_limits o' m) = own m"
    "own (set_running r m) = own m" "own (publish_limit_levels o' m) = own m"
    "own (exec_check_hard_limits o' m) = own m"
  by (simp_all add: publish_counter_def sample_limits_def set_running_def publish_limit_levels_def
      exec_check_hard_limits_def split: prod.split)

lemma executor_parts_own [simp]:
    "own (service_reset o' m) = own m" "own (start_block bd b e m) = own m" "own (park_wake m) = own m"
    "own (idle_wake arm o' m) = own m" "own (publish_burst o' m) = own m" "own (finish_block o' m) = own m"
    "own (finish_probe o' m) = own m" "own (finish_home o' m) = own m"
  by (simp_all add: service_reset_def retain_live_position_def start_block_def park_wake_def idle_wake_def
      publish_burst_def finish_block_def finish_probe_def finish_home_def Let_def split: option.split sum.split)

lemma loop_top_own [simp]: "own (loop_top bd o' m) = own m"
proof -
  have "own (loop_top bd o' m) = own (service_reset o' m)"
    by (simp only: loop_top_def Let_def split: option.split prod.split if_splits) simp
  then show ?thesis by simp
qed

lemma env_own: "own (env_step bd t m) = own m"
proof (cases t)
  case (Rx p)
  then show ?thesis by (cases p) simp_all
next
  case (Motion arm o')
  then show ?thesis by (simp add: executor_step_def split: ExecPhase.split)
qed simp_all

interpretation others: undisturbed bd own for bd :: "'s Board"
  by unfold_locales (simp_all only: env_own own_updates)

section \<open>Responses\<close>

lemma own_eq: "own m = own m' \<longleftrightarrow> answers m = answers m' \<and> taken m = taken m' \<and> kept m = kept m'"
  by (simp add: own_def history_def)

lemma enqueue_facts:
  assumes "enqueue s bd m = Some m'"
  shows "answers m' = answers m @ [s]" "taken m' = taken m" "kept m' = kept m"
proof -
  from assms have "await bd [room_for s] m = Some ((), m')"
    by (auto simp: enqueue_def)
  then have "answers m' = answers m @ [s] \<and> taken m' = taken m \<and> kept m' = kept m"
    by (rule others.view_await) (auto simp: room_for_def own_eq split: if_splits)
  then show "answers m' = answers m @ [s]" "taken m' = taken m" "kept m' = kept m" by simp_all
qed

section \<open>Answers\<close>

text \<open>The lines that end the host's wait for one of its lines.\<close>

definition terminal :: "string \<Rightarrow> bool"
  where "terminal s \<longleftrightarrow> take 2 s = ''ok'' \<or> take 6 s = ''error:''"

definition answered :: "'s Firmware \<Rightarrow> nat"
  where "answered m = length (filter terminal (answers m))"

definition silent :: "string list \<Rightarrow> bool"
  where "silent ss \<longleftrightarrow> list_all (\<lambda>s. \<not> terminal s) ss"

lemma terminal_Cons [simp]: "c \<noteq> CHR ''o'' \<Longrightarrow> c \<noteq> CHR ''e'' \<Longrightarrow> \<not> terminal (c # s)"
  by (simp add: terminal_def)

lemma write_all_Inr: "write_all n ss out = (s, Inr u) \<Longrightarrow> s = out @ concat ss"
  by (induction ss arbitrary: out) (fastforce simp: write_str_def split: if_splits)+

declare write_all.simps(2) [simp del]

lemma write_str_Inr: "write_str n t out = (s, Inr u) \<Longrightarrow> s = out @ t"
  by (auto simp: write_str_def split: if_splits)

lemma silent_simps [simp]:
  "silent []" "silent (s # ss) \<longleftrightarrow> \<not> terminal s \<and> silent ss" "silent (ss @ ts) \<longleftrightarrow> silent ss \<and> silent ts"
  by (auto simp: silent_def)

lemma silent_concat: "(\<And>ss. ss \<in> set sss \<Longrightarrow> silent ss) \<Longrightarrow> silent (concat sss)"
  by (induction sss) simp_all

lemma silent_lines: "(\<And>i s. fmt i [] = (s, Inr ()) \<Longrightarrow> \<not> terminal s) \<Longrightarrow> silent (enqueue_lines fmt items)"
  by (auto simp: enqueue_lines_def intro!: silent_concat split: prod.split sum.split unit.split)

lemma silent_one:
  assumes "\<And>s. fmt [] = (s, Inr ()) \<Longrightarrow> \<not> terminal s"
  shows "silent (single_line fmt)"
  unfolding single_line_def by (rule silent_lines [where fmt = "\<lambda>_. fmt"]) (erule assms)

lemma silent_if_written: "(\<And>s. r = (s, True) \<Longrightarrow> \<not> terminal s) \<Longrightarrow> silent (if_written r)"
  by (cases r) (auto simp: if_written_def)

lemma bracketed:
    "write_all n ((c # p) # ss) [] = (s, Inr u) \<Longrightarrow> c \<noteq> CHR ''o'' \<Longrightarrow> c \<noteq> CHR ''e'' \<Longrightarrow> \<not> terminal s"
    "write_str n (c # p) [] = (s, Inr u) \<Longrightarrow> c \<noteq> CHR ''o'' \<Longrightarrow> c \<noteq> CHR ''e'' \<Longrightarrow> \<not> terminal s"
    "write_fmt n ((c # p) # ss) [] = (s, True) \<Longrightarrow> c \<noteq> CHR ''o'' \<Longrightarrow> c \<noteq> CHR ''e'' \<Longrightarrow> \<not> terminal s"
  by (auto dest!: write_all_Inr write_str_Inr simp: write_fmt_def split: prod.splits sum.splits)

lemma silent_case_outcome: "(\<And>s. r = (s, Inr ()) \<Longrightarrow> silent (f s)) \<Longrightarrow> silent (case r of (s, Inr _) \<Rightarrow> f s | (_, Inl _) \<Rightarrow> [])"
  by (cases r; cases "snd r") auto

lemma silent_case_bool: "(\<And>s. r = (s, True) \<Longrightarrow> silent (f s)) \<Longrightarrow> silent (case r of (s, True) \<Rightarrow> f s | (_, False) \<Rightarrow> [])"
  by (cases r; cases "snd r") auto

lemma silent_case_failed:
  "(\<And>s. r = (s, Inr ()) \<Longrightarrow> silent (f s)) \<Longrightarrow> silent (case r of (_, Inl _) \<Rightarrow> [] | (s, Inr _) \<Rightarrow> f s)"
  "(\<And>s. q = (s, True) \<Longrightarrow> silent (f s)) \<Longrightarrow> silent (case q of (_, False) \<Rightarrow> [] | (s, True) \<Rightarrow> f s)"
  by (cases r; cases "snd r"; auto) (cases q; cases "snd q"; auto)

text \<open>Every report of a query is silent.\<close>

lemma message_silent: "message n t [] = (s, Inr u) \<Longrightarrow> \<not> terminal s"
  unfolding message_def by (erule bracketed) simp_all

lemma write_minimal_Inr: "write_minimal_f32 fmt n x out = (s, Inr u) \<Longrightarrow> \<exists>t. s = out @ t"
  by (auto simp: write_minimal_f32_def dest!: write_str_Inr split: prod.splits sum.splits)

lemma parser_state_silent:
  assumes "parser_state fmt n p [] = (s, Inr u)"
  shows "\<not> terminal s"
proof -
  from assms obtain ps s1 s2 qs where "write_all n (''[GC:'' # ps) [] = (s1, Inr ())"
      "write_minimal_f32 fmt n (ps_feed p) s1 = (s2, Inr ())" "write_all n qs s2 = (s, Inr ())"
    unfolding parser_state_def Let_def and_then_ok by auto
  then show ?thesis by (auto dest!: write_all_Inr write_minimal_Inr)
qed

lemma ngc_silent: "ngc_parameter_line fmt n r i [] = (s, Inr u) \<Longrightarrow> \<not> terminal s"
  by (auto simp: ngc_parameter_line_def coord_line_def probe_report_def dest!: write_all_Inr split: if_splits)

lemma setting_line_silent: "write_setting_line fmt n s k [] = (t, True) \<Longrightarrow> \<exists>v. t = CHR ''$'' # v"
  by (auto simp: write_setting_line_def format_field_def write_fmt_def dest!: write_all_Inr
      split: option.splits prod.splits sum.splits)

lemma dump_settings_silent: "silent (dump_settings bd m)"
  by (auto simp: dump_settings_def Let_def intro!: silent_concat silent_one dest!: setting_line_silent write_str_Inr
      split: prod.splits bool.splits)

lemma enumerate_settings_silent: "silent enumerate_settings"
  by (auto simp: enumerate_settings_def write_setting_enumeration_def Let_def
      intro!: silent_concat silent_if_written dest!: bracketed(3) split: option.splits)

lemma setting_groups_silent: "silent enumerate_setting_groups"
  by (auto simp: enumerate_setting_groups_def write_setting_group_def Let_def
      intro!: silent_concat silent_if_written dest!: bracketed(3) split: if_splits)

lemma description_silent: "silent (setting_description n)"
  by (auto simp: setting_description_def write_setting_description_def Let_def
      intro!: silent_if_written dest!: bracketed(3) split: option.splits if_splits)

lemma code_enumerations_silent: "silent enumerate_error_codes" "silent enumerate_alarm_codes"
  by (auto simp: enumerate_error_codes_def enumerate_alarm_codes_def error_code_line_def alarm_code_line_def
      intro!: silent_lines dest!: bracketed(1))

lemma ngc_parameters_silent: "silent (ngc_parameters bd m)"
  unfolding ngc_parameters_def by (rule silent_lines) (rule ngc_silent)

lemma driver_lines_silent: "silent (driver_lines bd)"
  by (auto simp: driver_lines_def driver_info_def driver_probe_def driver_ioin_raw_def loopback_def tmc_bus_stats_def
      Let_def intro!: silent_one dest!: write_all_Inr split: option.split)

lemma build_info_silent: "silent (single_line (build_info n extended))"
  by (rule silent_one) (auto simp: build_info_def dest!: write_all_Inr split: if_splits)

lemma skip_probes_silent: "silent (format_skip_probes bd m)"
  unfolding format_skip_probes_def by (intro silent_case_outcome silent_one) (rule message_silent)

lemma startup_silent: "silent (startup_report m)"
  by (auto simp: startup_report_def startup_echo_def intro!: silent_concat silent_one dest!: write_all_Inr split: option.splits)

lemma pb_line_silent: "silent (pb_line chunk)"
  unfolding pb_line_def
  by (rule silent_case_failed) (auto intro!: silent_case_failed(2) silent_one dest!: write_str_Inr write_hex_TrueD)

lemma export_silent: "silent (export_pb bd m)"
  unfolding export_pb_def by (rule silent_case_failed) (auto intro!: silent_concat pb_line_silent)

end
