(* ===== verification/Consumer_Answers.thy ===== *)
theory Consumer_Answers
  imports Consumer_Facts
begin

text \<open>
  The accounting of the consumer: every handler answers a line at most once, the handlers of a pause
  answer the lines they take, and so the task never queues more answers than it has taken lines.
\<close>

section \<open>Operations that only move the state\<close>

lemmas small_defs = set_control_state_def set_overrides_def mark_settings_dirty_def mark_coordinates_dirty_def
  refresh_status_cfg_def refresh_planner_config_def push_wco_to_planner_def init_auto_report_def
  store_homed_baseline_def reset_wco_reporter_def reset_ov_reporter_def force_spindle_off_def force_coolant_off_def
  signal_spindle_update_def count_ack_def start_timer_def release_hold_def sync_planner_def fresh_parser_def
  forget_spindle_def rebuild_planner_def wake_executor_def set_pause_active_def drop_inbound_def

lemma small_books [simp]:
    "answers (set_control_state s m) = answers m" "taken (set_control_state s m) = taken m"
    "answers (set_overrides ov m) = answers m" "taken (set_overrides ov m) = taken m"
    "answers (mark_settings_dirty m) = answers m" "taken (mark_settings_dirty m) = taken m"
    "answers (mark_coordinates_dirty m) = answers m" "taken (mark_coordinates_dirty m) = taken m"
    "answers (refresh_status_cfg bd m) = answers m" "taken (refresh_status_cfg bd m) = taken m"
    "answers (refresh_planner_config bd m) = answers m" "taken (refresh_planner_config bd m) = taken m"
    "answers (push_wco_to_planner m) = answers m" "taken (push_wco_to_planner m) = taken m"
    "answers (init_auto_report w m) = answers m" "taken (init_auto_report w m) = taken m"
    "answers (store_homed_baseline b m) = answers m" "taken (store_homed_baseline b m) = taken m"
    "answers (reset_wco_reporter m) = answers m" "taken (reset_wco_reporter m) = taken m"
    "answers (reset_ov_reporter m) = answers m" "taken (reset_ov_reporter m) = taken m"
    "answers (force_spindle_off m) = answers m" "taken (force_spindle_off m) = taken m"
    "answers (force_coolant_off m) = answers m" "taken (force_coolant_off m) = taken m"
    "answers (signal_spindle_update m) = answers m" "taken (signal_spindle_update m) = taken m"
    "answers (count_ack m) = answers m" "taken (count_ack m) = taken m"
    "answers (start_timer n m) = answers m" "taken (start_timer n m) = taken m"
    "answers (release_hold m) = answers m" "taken (release_hold m) = taken m"
    "answers (sync_planner pos m) = answers m" "taken (sync_planner pos m) = taken m"
    "answers (fresh_parser m) = answers m" "taken (fresh_parser m) = taken m"
    "answers (forget_spindle m) = answers m" "taken (forget_spindle m) = taken m"
    "answers (rebuild_planner bd m) = answers m" "taken (rebuild_planner bd m) = taken m"
    "answers (wake_executor n m) = answers m" "taken (wake_executor n m) = taken m"
    "answers (set_pause_active b m) = answers m" "taken (set_pause_active b m) = taken m"
    "answers (drop_inbound m) = answers m" "taken (drop_inbound m) = taken m"
  by (simp_all add: small_defs)

lemma dispatch_spindle_books [simp]: "answers (dispatch_spindle sp m) = answers m" "taken (dispatch_spindle sp m) = taken m"
  by (simp_all add: dispatch_spindle_def Let_def split: prod.split sum.split option.split CoordinateOp.split)

lemma sync_spindle_from_modal_books [simp]: "answers (sync_spindle_from_modal modal m) = answers m" "taken (sync_spindle_from_modal modal m) = taken m"
  by (simp_all add: sync_spindle_from_modal_def Let_def split: prod.split sum.split option.split CoordinateOp.split)

lemma sync_coolant_from_modal_books [simp]: "answers (sync_coolant_from_modal modal m) = answers m" "taken (sync_coolant_from_modal modal m) = taken m"
  by (simp_all add: sync_coolant_from_modal_def Let_def split: prod.split sum.split option.split CoordinateOp.split)

lemma flush_settings_books [simp]: "answers (flush_settings bd b m) = answers m" "taken (flush_settings bd b m) = taken m"
  by (simp_all add: flush_settings_def Let_def split: prod.split sum.split option.split CoordinateOp.split)

lemma flush_coordinates_books [simp]: "answers (flush_coordinates bd b m) = answers m" "taken (flush_coordinates bd b m) = taken m"
  by (simp_all add: flush_coordinates_def Let_def split: prod.split sum.split option.split CoordinateOp.split)

lemma sync_active_wcs_books [simp]: "answers (sync_active_wcs k m) = answers m" "taken (sync_active_wcs k m) = taken m"
  by (simp_all add: sync_active_wcs_def Let_def split: prod.split sum.split option.split CoordinateOp.split)

lemma apply_coordinate_op_books [simp]: "answers (apply_coordinate_op bd op m) = answers m" "taken (apply_coordinate_op bd op m) = taken m"
  by (simp_all add: apply_coordinate_op_def Let_def split: prod.split sum.split option.split CoordinateOp.split)

lemma reset_outputs_books [simp]: "answers (reset_outputs m) = answers m" "taken (reset_outputs m) = taken m"
  by (simp_all add: reset_outputs_def Let_def split: prod.split sum.split option.split CoordinateOp.split)

lemma reset_state_books [simp]: "answers (reset_state bd m) = answers m" "taken (reset_state bd m) = taken m"
  by (simp_all add: reset_state_def Let_def split: prod.split sum.split option.split CoordinateOp.split)

lemma end_program_books [simp]: "answers (end_program m) = answers m" "taken (end_program m) = taken m"
  by (simp_all add: end_program_def Let_def split: prod.split sum.split option.split CoordinateOp.split)

lemma publish_limits_books [simp]: "answers (publish_limits st m) = answers m" "taken (publish_limits st m) = taken m"
  by (simp_all add: publish_limits_def Let_def split: prod.split sum.split option.split CoordinateOp.split)

lemma clear_and_persist_coordinates_books [simp]: "answers (clear_and_persist_coordinates bd m) = answers m" "taken (clear_and_persist_coordinates bd m) = taken m"
  by (simp_all add: clear_and_persist_coordinates_def Let_def split: prod.split sum.split option.split CoordinateOp.split)

lemma apply_live_setting_books [simp]: "answers (apply_live_setting bd n16 m) = answers m" "taken (apply_live_setting bd n16 m) = taken m"
  by (simp_all add: apply_live_setting_def Let_def split: prod.split sum.split option.split CoordinateOp.split)

lemma adopt_settings_books [simp]: "answers (adopt_settings bd st m) = answers m" "taken (adopt_settings bd st m) = taken m"
  by (simp_all add: adopt_settings_def Let_def split: prod.split sum.split option.split CoordinateOp.split)

lemma refresh_jog_state_books [simp]: "answers (refresh_jog_state m) = answers m" "taken (refresh_jog_state m) = taken m"
  by (simp_all add: refresh_jog_state_def Let_def split: prod.split sum.split option.split CoordinateOp.split)

lemma drive_modal_outputs_books [simp]: "answers (drive_modal_outputs parsed ctl m) = answers m" "taken (drive_modal_outputs parsed ctl m) = taken m"
  by (simp_all add: drive_modal_outputs_def Let_def split: prod.split sum.split option.split CoordinateOp.split)

lemma flush_pending_books [simp]: "answers (flush_pending bd m) = answers m" "taken (flush_pending bd m) = taken m"
  by (simp_all add: flush_pending_def Let_def split: prod.split sum.split option.split CoordinateOp.split)

lemma answered_cong: "answers m' = answers m \<Longrightarrow> answered m' = answered m"
  by (simp add: answered_def)

lemma own_transformers [simp]:
    "own (start_timer n m) = own m" "own (wake_executor n m) = own m" "own (sync_planner pos m) = own m"
    "own (release_hold m) = own m" "own (set_control_state s m) = own m" "own (count_ack m) = own m"
    "own (set_pause_active b m) = own m" "own (refresh_jog_state m) = own m"
  by (simp_all add: small_defs refresh_jog_state_def)

section \<open>Waiting\<close>

text \<open>A future whose completion touches none of the consumer's fields.\<close>

definition plain_arm :: "('s, 'a) arm \<Rightarrow> bool"
  where "plain_arm a \<longleftrightarrow> (\<forall>m v m'. a m = Some (v, m') \<longrightarrow> own m' = own m)"

lemma plain_arms [simp]:
    "plain_arm (on_timer v)" "plain_arm (on_soft_reset v)" "plain_arm (on_program_stop v)" "plain_arm (on_jog_cancel v)"
    "plain_arm (on_pause_resume v)" "plain_arm (on_motion_parked v)" "plain_arm (on_slot_freed v)"
    "plain_arm (on_hard_limit v)" "plain_arm (on_motion_fault v)" "plain_arm (on_home_result f)"
    "plain_arm (on_probe_result g)" "plain_arm (on_queue_ready v)"
  by (auto simp: plain_arm_def on_timer_def on_soft_reset_def on_program_stop_def on_jog_cancel_def on_pause_resume_def
      on_motion_parked_def on_slot_freed_def on_hard_limit_def on_motion_fault_def on_home_result_def on_probe_result_def
      on_queue_ready_def split: if_splits option.splits)

lemma await_plain:
  assumes "await bd arms m = Some (v, m')" and "list_all plain_arm arms"
  shows "own m' = own m"
  using assms(1)
proof (rule others.view_await)
  fix m0 m1 a
  assume "a \<in> set arms" "own m0 = own m" "a m0 = Some (v, m1)" "own m' = own m1"
  with assms(2) show "own m' = own m" by (auto simp: list_all_iff plain_arm_def)
qed

lemma await_retry_own: "await_retry us arms bd m = Some (v, m') \<Longrightarrow> list_all plain_arm arms \<Longrightarrow> own m' = own m"
  by (auto simp: await_retry_def start_timer_def dest!: await_plain)

lemma wait_for_motion_idle_own: "wait_for_motion_idle bd m = Some r \<Longrightarrow> own (snd r) = own m"
proof (erule wait_for_motion_idle.raw_induct [where P = "\<lambda>bd m r. own (snd r) = own m", rotated])
  fix f and bd :: "'b Board" and m r
  assume 1: "\<And>bd m r. f bd m = Some r \<Longrightarrow> own (snd r) = own m"
    "(if \<not> program_running m then Some (True, m)
      else do { (go, m) \<leftarrow> await bd [on_timer True, on_soft_reset False] (start_timer MOTION_IDLE_POLL m);
                (if go then f bd m else Some (False, m)) }) = Some r"
  show "own (snd r) = own m"
  proof (cases "program_running m")
    case True
    with 1(2) obtain go m1 where
      step: "await bd [on_timer True, on_soft_reset False] (start_timer MOTION_IDLE_POLL m) = Some (go, m1)"
        "(if go then f bd m1 else Some (False, m1)) = Some r"
      by (auto simp: bind_eq_Some_conv)
    from await_plain [OF step(1)] have "own m1 = own m" by (simp add: start_timer_def)
    with step(2) 1(1) [of bd m1 r] show ?thesis by (auto split: if_splits)
  next
    case False
    with 1(2) show ?thesis by auto
  qed
qed

lemma run_dwell_own: "run_dwell bd seconds m = Some (b, m') \<Longrightarrow> own m' = own m"
  by (auto simp: run_dwell_def bind_eq_Some_conv start_timer_def split: if_splits
      dest!: wait_for_motion_idle_own dest: await_plain)

lemma quiesce_own: "quiesce_executor bd m = Some (r, m') \<Longrightarrow> own m' = own m"
  by (auto simp: quiesce_executor_def bind_eq_Some_conv dest!: await_plain split: QuiesceOutcome.splits)
    (metis QuiesceOutcome.exhaust)+

lemma program_end_books: "program_end bd m = Some (b, m') \<Longrightarrow> answers m' = answers m \<and> taken m' = taken m"
  by (auto simp: program_end_def bind_eq_Some_conv own_eq split: if_splits dest!: wait_for_motion_idle_own)

section \<open>Planning\<close>

lemma accepted_result_own: "own (snd (accepted_result bd outcome m)) = own m"
  by (simp add: accepted_result_def split: PlannerOutcome.split)

lemma resume_arc_own: "own (snd (resume_arc_step bd m)) = own m"
  by (simp add: resume_arc_step_def Let_def split: option.split prod.split sum.split PlannerOutcome.split)

lemma plan_attempt_own: "own (snd (plan_attempt cmd bd m)) = own m"
proof (cases "planner m")
  case (Some p)
  obtain p' r where r: "plan_command_with_limits (bd_lm bd) cmd (current_soft_limits bd m) p = (p', r)"
    by (cases "plan_command_with_limits (bd_lm bd) cmd (current_soft_limits bd m) p") auto
  show ?thesis
    using accepted_result_own [of bd _ "m\<lparr>planner := Some p'\<rparr>"]
    by (auto simp: plan_attempt_def Some r Let_def split: sum.split prod.split PlannerError.split)
      (metis own_updates(2) snd_conv)+
qed (simp add: plan_attempt_def)

lemma go_attempt_own: "own (snd (go_attempt ax u d pre bd m)) = own m"
  by (simp add: go_attempt_def Let_def split: option.split prod.split sum.split PlannerError.split)

lemma drive_pending_arc_own: "drive_pending_arc bd m = Some r \<Longrightarrow> own (snd r) = own m"
proof (erule drive_pending_arc.raw_induct [where P = "\<lambda>bd m r. own (snd r) = own m", rotated])
  fix f and bd :: "'b Board" and m r
  assume 1: "\<And>bd m r. f bd m = Some r \<Longrightarrow> own (snd r) = own m"
    "do { (w, m) \<leftarrow> await_retry QUEUE_FULL_RETRY [on_slot_freed RetryNow] bd m;
          (case w of RetryAborted \<Rightarrow> Some (Res_Aborted, m) | RetryStopped \<Rightarrow> Some (Res_Stopped, m)
           | RetryNow \<Rightarrow> (case resume_arc_step bd m of (Some r, m) \<Rightarrow> Some (r, m) | (None, m) \<Rightarrow> f bd m)) } = Some r"
  then obtain w m1 where w: "await_retry QUEUE_FULL_RETRY [on_slot_freed RetryNow] bd m = Some (w, m1)"
    and r: "(case w of RetryAborted \<Rightarrow> Some (Res_Aborted, m1) | RetryStopped \<Rightarrow> Some (Res_Stopped, m1)
       | RetryNow \<Rightarrow> (case resume_arc_step bd m1 of (Some r, m) \<Rightarrow> Some (r, m) | (None, m) \<Rightarrow> f bd m)) = Some r"
    by (auto simp: bind_eq_Some_conv)
  from await_retry_own [OF w] have m1: "own m1 = own m" by simp
  show "own (snd r) = own m"
    using r m1 resume_arc_own [of bd m1] 1(1)
    by (cases w; cases "resume_arc_step bd m1"; cases "fst (resume_arc_step bd m1)") auto
qed

lemma consumer_plan_command_own: "consumer_plan_command cmd bd m = Some r \<Longrightarrow> own (snd r) = own m"
proof (erule consumer_plan_command.raw_induct [where P = "\<lambda>cmd bd m r. own (snd r) = own m", rotated])
  fix f cmd and bd :: "'b Board" and m r
  assume 1: "\<And>cmd bd m r. f cmd bd m = Some r \<Longrightarrow> own (snd r) = own m"
    "(case plan_attempt cmd bd m of (Inr (Some r), m) \<Rightarrow> Some (r, m) | (Inr None, m) \<Rightarrow> drive_pending_arc bd m
      | (Inl _, m) \<Rightarrow> do { (w, m) \<leftarrow> await_retry QUEUE_FULL_RETRY [] bd m;
          (case w of RetryNow \<Rightarrow> f cmd bd m | RetryAborted \<Rightarrow> Some (Res_Aborted, m)
           | RetryStopped \<Rightarrow> Some (Res_Stopped, m)) }) = Some r"
  obtain x m1 where x: "plan_attempt cmd bd m = (x, m1)" by (cases "plan_attempt cmd bd m") auto
  with plan_attempt_own [of cmd bd m] have m1: "own m1 = own m" by simp
  show "own (snd r) = own m"
  proof (cases x)
    case (Inl u)
    with 1(2) x obtain w m2 where w: "await_retry QUEUE_FULL_RETRY [] bd m1 = Some (w, m2)"
      and r: "(case w of RetryNow \<Rightarrow> f cmd bd m2 | RetryAborted \<Rightarrow> Some (Res_Aborted, m2)
           | RetryStopped \<Rightarrow> Some (Res_Stopped, m2)) = Some r"
      by (auto simp: bind_eq_Some_conv)
    from await_retry_own [OF w] m1 r 1(1) show ?thesis by (cases w) auto
  next
    case (Inr res)
    with 1(2) x m1 show ?thesis by (cases res) (auto dest: drive_pending_arc_own)
  qed
qed

lemma go_loop_own: "go_loop ax u d pre bd m = Some r \<Longrightarrow> own (snd r) = own m"
proof (erule go_loop.raw_induct [where P = "\<lambda>ax u d pre bd m r. own (snd r) = own m", rotated])
  fix f ax u d pre and bd :: "'b Board" and m r
  assume 1: "\<And>ax u d pre bd m r. f ax u d pre bd m = Some r \<Longrightarrow> own (snd r) = own m"
    "(case go_attempt ax u d pre bd m of (Some r, m) \<Rightarrow> Some (r, m)
      | (None, m) \<Rightarrow> do { (w, m) \<leftarrow> await_retry QUEUE_FULL_RETRY [] bd m;
          (case w of RetryNow \<Rightarrow> f ax u d pre bd m | RetryAborted \<Rightarrow> Some (Res_Aborted, m)
           | RetryStopped \<Rightarrow> Some (Res_Stopped, m)) }) = Some r"
  obtain x m1 where x: "go_attempt ax u d pre bd m = (x, m1)" by (cases "go_attempt ax u d pre bd m") auto
  with go_attempt_own [of ax u d pre bd m] have m1: "own m1 = own m" by simp
  show "own (snd r) = own m"
  proof (cases x)
    case None
    with 1(2) x obtain w m2 where w: "await_retry QUEUE_FULL_RETRY [] bd m1 = Some (w, m2)"
      and r: "(case w of RetryNow \<Rightarrow> f ax u d pre bd m2 | RetryAborted \<Rightarrow> Some (Res_Aborted, m2)
           | RetryStopped \<Rightarrow> Some (Res_Stopped, m2)) = Some r"
      by (auto simp: bind_eq_Some_conv)
    from await_retry_own [OF w] m1 r 1(1) show ?thesis by (cases w) auto
  next
    case (Some res)
    with 1(2) x m1 show ?thesis by auto
  qed
qed

section \<open>Responses\<close>

text \<open>What a response leaves: that many answers more, the same lines taken, the consumer's fields kept.\<close>

definition responded :: "nat \<Rightarrow> 's Firmware \<Rightarrow> 's Firmware \<Rightarrow> bool"
  where "responded k m m' \<longleftrightarrow> answered m' = answered m + k \<and> taken m' = taken m \<and> kept m' = kept m"

lemma responded_refl [simp]: "responded 0 m m"
  by (simp add: responded_def)

lemma responded_trans: "responded j m m1 \<Longrightarrow> responded k m1 m2 \<Longrightarrow> responded (j + k) m m2"
  by (simp add: responded_def)

lemma responded_silent: "responded 0 m m1 \<Longrightarrow> responded k m1 m2 \<Longrightarrow> responded k m m2"
  using responded_trans [of 0] by simp

lemma enqueue_silent: "enqueue s bd m = Some m' \<Longrightarrow> \<not> terminal s \<Longrightarrow> responded 0 m m'"
  by (frule enqueue_facts) (simp_all add: responded_def answered_def enqueue_facts)

lemma enqueue_terminal: "enqueue s bd m = Some m' \<Longrightarrow> terminal s \<Longrightarrow> responded 1 m m'"
  by (frule enqueue_facts) (simp_all add: responded_def answered_def enqueue_facts)

lemma enqueue_all_silent: "enqueue_all ss bd m = Some m' \<Longrightarrow> silent ss \<Longrightarrow> responded 0 m m'"
proof (induction ss arbitrary: m)
  case (Cons s ss)
  then obtain m1 where "enqueue s bd m = Some m1" "enqueue_all ss bd m1 = Some m'"
    by (auto simp: bind_eq_Some_conv)
  with Cons show ?case by (auto intro: responded_silent enqueue_silent)
qed simp

lemma enqueue_formatted_silent:
  "enqueue_formatted r bd m = Some m' \<Longrightarrow> (\<And>s. r = (s, Inr ()) \<Longrightarrow> \<not> terminal s) \<Longrightarrow> responded 0 m m'"
  by (cases r; cases "snd r") (auto simp: enqueue_formatted_def intro: enqueue_silent)

lemma count_ack_responded [simp]: "responded k (count_ack m) m' = responded k m m'"
  by (simp add: responded_def count_ack_def answered_def)

lemma ack_line_once: "ack_line bd m = Some m' \<Longrightarrow> responded 1 m m'"
  by (auto simp: ack_line_def write_ok_def write_str_def RESPONSE_CAPACITY_def terminal_def dest!: enqueue_terminal)

lemma reject_bare_once:
  assumes "reject_bare code bd m = Some m'"
  shows "responded 1 m m'"
proof -
  have len: "length (dec (unat code)) \<le> 3" by (rule length_dec_u8)
  then have "write_error RESPONSE_CAPACITY code [] = (''error:'' @ dec (unat code) @ CRLF, Inr ())"
    by (simp add: write_error_def write_all_ok RESPONSE_CAPACITY_def)
  with assms have "enqueue (''error:'' @ dec (unat code) @ CRLF) bd (count_ack m) = Some m'"
    by (simp add: reject_bare_def)
  then have "responded 1 (count_ack m) m'" by (rule enqueue_terminal) (simp add: terminal_def)
  then show ?thesis by simp
qed

lemma error_context_silent: "error_context n code [] = (s, Inr u) \<Longrightarrow> \<not> terminal s"
  by (auto simp: error_context_def terminal_def dest!: write_all_Inr split: option.splits)

lemma reject_line_once:
  assumes "reject_line code bd m = Some m'"
  shows "responded 1 m m'"
proof -
  obtain ctx r where c: "error_context RESPONSE_CAPACITY code [] = (ctx, r)" by fastforce
  from assms obtain m1 where m1: "reject_bare code bd m1 = Some m'"
    and "(case r of Inr _ \<Rightarrow> if ctx \<noteq> [] then enqueue ctx bd m else Some m | Inl _ \<Rightarrow> Some m) = Some m1"
    by (auto simp: reject_line_def c bind_eq_Some_conv split: sum.splits)
  with c have "responded 0 m m1"
    by (auto intro: enqueue_silent dest: error_context_silent split: sum.splits if_splits)
  with reject_bare_once [OF m1] show ?thesis by (rule responded_silent [rotated])
qed

lemma send_message_silent: "send_message t bd m = Some m' \<Longrightarrow> responded 0 m m'"
  by (auto simp: send_message_def dest: message_silent elim!: enqueue_formatted_silent)

lemma send_banner_silent: "send_banner bd m = Some m' \<Longrightarrow> responded 0 m m'"
  unfolding send_banner_def write_banner_def by (erule enqueue_formatted_silent) (erule bracketed, simp_all)

lemma probe_report_silent: "probe_report fmt n pos b [] = (s, Inr u) \<Longrightarrow> \<not> terminal s"
  unfolding probe_report_def by (auto dest!: write_all_Inr)

section \<open>Handlers\<close>

text \<open>At most \<^verbatim>\<open>k\<close> answers more than lines taken on the way.\<close>

definition settles :: "nat \<Rightarrow> 's Firmware \<Rightarrow> 's Firmware \<Rightarrow> bool"
  where "settles k m m' \<longleftrightarrow> answered m' + length (taken m) \<le> answered m + length (taken m') + k"

lemma settles_refl [simp]: "settles k m m"
  by (simp add: settles_def)

lemma settles_mono: "settles j m m' \<Longrightarrow> j \<le> k \<Longrightarrow> settles k m m'"
  by (simp add: settles_def)

lemma settles_trans: "settles j m m1 \<Longrightarrow> settles k m1 m2 \<Longrightarrow> settles (j + k) m m2"
  by (simp add: settles_def)

lemma settles_silent: "settles 0 m m1 \<Longrightarrow> settles k m1 m2 \<Longrightarrow> settles k m m2"
  using settles_trans [of 0] by simp

lemma settles_last: "settles k m m1 \<Longrightarrow> settles 0 m1 m2 \<Longrightarrow> settles k m m2"
  using settles_trans [of k m m1 0] by simp

lemma settles_moved: "answers m1 = answers m \<Longrightarrow> taken m1 = taken m \<Longrightarrow> settles k m m1"
  by (simp add: settles_def answered_def)

lemma settles_from: "answers m1 = answers m \<Longrightarrow> taken m1 = taken m \<Longrightarrow> settles k m1 m2 \<Longrightarrow> settles k m m2"
  by (simp add: settles_def answered_def)

lemma settles_own: "own m1 = own m \<Longrightarrow> settles k m m1"
  by (simp add: own_eq settles_moved)

lemma responded_settles: "responded j m m' \<Longrightarrow> j \<le> k \<Longrightarrow> settles k m m'"
  by (simp add: responded_def settles_def)

lemma ack_line_settles: "ack_line bd m = Some m' \<Longrightarrow> settles 1 m m'"
  by (drule ack_line_once) (erule responded_settles, simp)

lemma reject_settles:
    "reject_line code bd m = Some m' \<Longrightarrow> settles 1 m m'" "reject_bare code bd m = Some m' \<Longrightarrow> settles 1 m m'"
  by (drule reject_line_once, erule responded_settles, simp) (drule reject_bare_once, erule responded_settles, simp)

text \<open>The same from a state that was moved first.\<close>

lemmas answer_from = settles_from [OF _ _ ack_line_settles] settles_from [OF _ _ reject_settles(1)]
  settles_from [OF _ _ reject_settles(2)]

lemma send_message_settles: "send_message t bd m = Some m' \<Longrightarrow> settles 0 m m'"
  by (drule send_message_silent) (erule responded_settles, simp)

lemma emit_alarm_settles:
  assumes "emit_alarm code bd m = Some m'"
  shows "settles 0 m m'"
proof -
  define m0 where "m0 = force_coolant_off (force_spindle_off m)"
  from assms obtain m1 m2 where
    m1: "enqueue_formatted (write_alarm RESPONSE_CAPACITY code []) bd m0 = Some m1" and
    m2: "enqueue_formatted (alarm_context RESPONSE_CAPACITY code []) bd m1 = Some m2" and
    m': "send_message (unlock_hint code) bd m2 = Some m'"
    by (auto simp: emit_alarm_def m0_def bind_eq_Some_conv)
  have "responded 0 m0 m1"
    using m1 by (rule enqueue_formatted_silent) (auto simp: write_alarm_def dest!: write_all_Inr)
  moreover have "responded 0 m1 m2"
    using m2 by (rule enqueue_formatted_silent) (auto simp: alarm_context_def dest!: write_all_Inr)
  ultimately have "settles 0 m0 m'"
    using send_message_settles [OF m'] by (simp add: responded_def settles_def)
  then show ?thesis by (rule settles_from [rotated 2]) (simp_all add: m0_def)
qed

lemma reset_pipeline_settles:
  assumes "reset_pipeline bd m = Some m'"
  shows "settles 0 m m'"
proof -
  from assms have "responded 0 (reset_state bd m) m'"
    unfolding reset_pipeline_def by (rule send_banner_silent)
  then have "settles 0 (reset_state bd m) m'" by (rule responded_settles) simp
  then show ?thesis by (rule settles_from [rotated 2]) simp_all
qed

lemma apply_soft_reset_settles:
  assumes "apply_soft_reset bd m = Some m'"
  shows "settles 0 m m'"
proof -
  define nxt where "nxt = soft_reset (control_state m) (reset_was_running (comms m)) (fw_homing_enabled m)"
  define m0 where "m0 = store_homed_baseline (fw_homing_enabled m)
    (set_control_state nxt (on_comms (\<lambda>c. c\<lparr>reset_was_running := False\<rparr>) m))"
  have m0: "answers m0 = answers m" "taken m0 = taken m" by (simp_all add: m0_def)
  have "control_state (on_comms (\<lambda>c. c\<lparr>reset_was_running := False\<rparr>) m) = control_state m" by simp
  with assms obtain m1 where m1: "reset_pipeline bd m0 = Some m1"
    and m': "(case nxt of CS_Alarm code \<Rightarrow> emit_alarm code bd m1 | _ \<Rightarrow> Some m1) = Some m'"
    by (auto simp: apply_soft_reset_def bind_eq_Some_conv Let_def m0_def nxt_def)
  have "settles 0 m1 m'"
    using m' by (cases nxt) (auto dest: emit_alarm_settles)
  with reset_pipeline_settles [OF m1] have "settles 0 m0 m'" by (rule settles_silent)
  with m0 show ?thesis by (rule settles_from)
qed

lemma cancel_jog_settles:
  assumes "cancel_jog_cycle bd m = Some m'"
  shows "settles 0 m m'"
proof (cases "control_state m = CS_Jog")
  case True
  with assms obtain r m1 where q: "quiesce_executor bd (on_planner (\<lambda>p. fst (flush_jog_blocks p)) m) = Some (r, m1)"
    and m': "(case r of ResetPreempted \<Rightarrow> Some m1 | Parked \<Rightarrow>
      Some (set_control_state (cancel_jog CS_Jog) (release_hold (sync_planner (read_live_position m1) m1)))) = Some m'"
    by (auto simp: cancel_jog_cycle_def bind_eq_Some_conv)
  from quiesce_own [OF q] have "own m1 = own m" by simp
  with m' show ?thesis by (cases r) (auto intro: settles_own)
next
  case False
  with assms show ?thesis by (simp add: cancel_jog_cycle_def)
qed

lemma program_stop_settles:
  assumes "program_stop_cycle bd m = Some m'"
  shows "settles 0 m m'"
proof (cases "program_stop_quiesces (control_state m)")
  case True
  with assms obtain r m1 where
    q: "quiesce_executor bd (on_planner (\<lambda>p. abort_arc (fst (flush_queue p))) m) = Some (r, m1)"
    by (auto simp: program_stop_cycle_def bind_eq_Some_conv)
  from quiesce_own [OF q] have "own m1 = own m" by simp
  with assms True q show ?thesis
    by (cases r) (auto simp: program_stop_cycle_def Let_def own_eq intro: settles_moved)
next
  case False
  with assms show ?thesis by (simp add: program_stop_cycle_def)
qed

end
