(* ===== verification/Consumer_Accounting.thy ===== *)
theory Consumer_Accounting
  imports Consumer_Answers
begin

text \<open>
  The accounting carried through the handlers, up to the task's loop: a line is answered at most
  once, by every handler and on every path.
\<close>

section \<open>The system commands\<close>

lemma enqueue_all_settles: "enqueue_all ss bd m = Some m' \<Longrightarrow> silent ss \<Longrightarrow> settles 0 m m'"
  by (drule (1) enqueue_all_silent) (erule responded_settles, simp)

lemma then_ack_settles:
  assumes "then_ack h bd m = Some m'" "\<And>m1. h bd m = Some m1 \<Longrightarrow> settles 0 m m1"
  shows "settles 1 m m'"
  using assms by (auto simp: then_ack_def bind_eq_Some_conv simp del: One_nat_def dest!: ack_line_settles intro: settles_silent)

lemma then_ack_lines_settles: "then_ack (enqueue_all ss) bd m = Some m' \<Longrightarrow> silent ss \<Longrightarrow> settles 1 m m'"
  by (erule then_ack_settles) (rule enqueue_all_settles)

lemma build_info_settles:
  assumes "send_build_info extended bd m = Some m'"
  shows "settles 0 m m'"
proof -
  define rep where "rep m2 = (case pending_reset_report m2 of
      Some t \<Rightarrow> single_line (message RESPONSE_CAPACITY t) | None \<Rightarrow> [])" for m2 :: "'a Firmware"
  from assms obtain m1 m2 m3 m4 where
    1: "enqueue_all (single_line (build_info RESPONSE_CAPACITY extended)) bd m = Some m1" and
    2: "(if extended then enqueue_all (driver_lines bd) bd m1 else Some m1) = Some m2" and
    3: "enqueue_all (format_skip_probes bd m2) bd m2 = Some m3" and
    4: "enqueue_all (rep m3) bd (m3\<lparr>pending_reset_report := None\<rparr>) = Some m4" and
    5: "enqueue_all (enqueue_lines (message RESPONSE_CAPACITY) (pending_crash_report m4)) bd
          (m4\<lparr>pending_crash_report := []\<rparr>) = Some m'"
    by (auto simp: send_build_info_def bind_eq_Some_conv rep_def)
  have "silent (rep m3)"
    by (auto simp: rep_def intro!: silent_one dest: message_silent split: option.split)
  from enqueue_all_settles [OF 4 this] have "settles 0 m3 m4"
    by (rule settles_from [rotated 2]) simp_all
  moreover from 5 have "settles 0 (m4\<lparr>pending_crash_report := []\<rparr>) m'"
    by (rule enqueue_all_settles) (auto intro!: silent_lines dest: message_silent)
  then have "settles 0 m4 m'" by (rule settles_from [rotated 2]) simp_all
  moreover from 2 have "settles 0 m1 m2"
    by (auto split: if_splits intro: enqueue_all_settles driver_lines_silent)
  ultimately show ?thesis
    using enqueue_all_settles [OF 1 build_info_silent] enqueue_all_settles [OF 3 skip_probes_silent]
    by (simp add: settles_def)
qed

lemma parser_state_settles: "send_parser_state bd m = Some m' \<Longrightarrow> settles 0 m m'"
  unfolding send_parser_state_def
  by (rule responded_settles [of 0]) (erule enqueue_formatted_silent, erule parser_state_silent, simp)

lemma help_settles: "enqueue_formatted (write_help RESPONSE_CAPACITY []) bd m = Some m' \<Longrightarrow> settles 0 m m'"
  by (rule responded_settles [of 0]) (erule enqueue_formatted_silent, auto simp: write_help_def dest!: write_str_Inr)

lemma unlock_settles: "handle_unlock bd m = Some m' \<Longrightarrow> settles 1 m m'"
  by (auto simp: handle_unlock_def Let_def bind_eq_Some_conv split: prod.splits UnlockOutcome.splits
      dest!: send_message_settles ack_line_settles reject_settles simp: settles_def answered_def)

lemma toggle_check_settles: "handle_toggle_check bd m = Some m' \<Longrightarrow> settles 1 m m'"
  by (auto simp: handle_toggle_check_def bind_eq_Some_conv split: prod.splits CheckToggle.splits
      dest!: send_message_settles ack_line_settles reject_settles reset_pipeline_settles simp: settles_def answered_def)

lemma sleep_settles: "handle_sleep bd m = Some m' \<Longrightarrow> settles 1 m m'"
  by (auto simp: handle_sleep_def Let_def split: prod.splits if_splits
      dest!: ack_line_settles reject_settles simp: settles_def answered_def)

lemma startup_settles:
    "handle_startup_query bd m = Some m' \<Longrightarrow> settles 1 m m'"
    "handle_startup_set index gcode bd m = Some m' \<Longrightarrow> settles 1 m m'"
  by (auto simp: handle_startup_query_def handle_startup_set_def bind_eq_Some_conv startup_silent split: if_splits
      dest!: enqueue_all_settles ack_line_settles reject_settles simp: settles_def answered_def)

lemma restore_settings_settles: "handle_restore_settings bd m = Some m' \<Longrightarrow> settles 1 m m'"
  by (auto simp: handle_restore_settings_def Let_def split: if_splits
      dest!: reset_pipeline_settles reject_settles simp: settles_def answered_def)

lemma restore_settles:
    "handle_restore_params bd m = Some m' \<Longrightarrow> settles 1 m m'"
    "handle_restore_all bd m = Some m' \<Longrightarrow> settles 1 m m'"
  by (auto simp: handle_restore_params_def handle_restore_all_def split: if_splits
      dest!: restore_settings_settles ack_line_settles reject_settles simp: settles_def answered_def)

lemma write_setting_settles: "write_setting_command body bd m = Some m' \<Longrightarrow> settles 1 m m'"
  by (auto simp: write_setting_command_def split: if_splits option.splits prod.splits sum.splits
      dest!: ack_line_settles reject_settles simp: settles_def answered_def)

lemma pb_write_settles: "handle_pb_write hex bd m = Some m' \<Longrightarrow> settles 1 m m'"
  by (auto simp: handle_pb_write_def Let_def split: if_splits option.splits prod.splits PbChunkResult.splits
      dest!: ack_line_settles reject_settles simp: settles_def answered_def)

text \<open>A cycle run by the executor touches nothing of the consumer's.\<close>

lemma run_homing_own:
  assumes "run_homing_cycle config bd m = Some (r, m')"
  shows "own m' = own m"
proof -
  from assms obtain w m1 where
    w: "await bd [on_home_result HomeFinished, on_soft_reset HomePreempted]
      (m\<lparr>home_result := None, home_request := Some config\<rparr>) = Some (w, m1)"
    by (auto simp: run_homing_cycle_def bind_eq_Some_conv)
  from await_plain [OF w] have "own m1 = own m" by simp
  with assms w show ?thesis by (cases w) (auto simp: run_homing_cycle_def)
qed

lemma home_settles:
  assumes "handle_home bd m = Some m'"
  shows "settles 1 m m'"
proof (cases "fw_homing_enabled m \<and> homing_allowed (control_state m)")
  case False
  with assms show ?thesis by (auto simp: handle_home_def dest: reject_settles split: if_splits)
next
  case True
  define m0 where "m0 = on_comms (\<lambda>c. c\<lparr>status_request := True\<rparr>) (m\<lparr>homing_active := True\<rparr>)"
  from True assms obtain r m1 where
    run: "run_homing_cycle (homing_config (bd_lm bd) (bd_tick_hz bd) (settings_snapshot bd m)) bd m0 = Some (r, m1)"
    and m': "(case r of
        HomeFinished (Inr zeros) \<Rightarrow>
          (let after = home_complete (control_state (m1\<lparr>homing_active := False\<rparr>)) in
           if after = CS_Normal
           then ack_line bd ((set_control_state after (sync_planner zeros (m1\<lparr>homing_active := False\<rparr>)))\<lparr>homed := True\<rparr>)
           else Some (m1\<lparr>homing_active := False\<rparr>))
      | HomeFinished (Inl _) \<Rightarrow> do {
          m \<leftarrow> emit_alarm HomingFail bd (set_control_state (CS_Alarm HomingFail) (m1\<lparr>homing_active := False\<rparr>));
          reset_pipeline bd m }
      | HomePreempted \<Rightarrow> apply_soft_reset bd (m1\<lparr>homing_active := False\<rparr>)) = Some m'"
    by (auto simp: handle_home_def Let_def bind_eq_Some_conv m0_def)
  from run_homing_own [OF run] have "answers m1 = answers m" "taken m1 = taken m" by (simp_all add: m0_def own_eq)
  with m' show ?thesis
    by (auto simp: Let_def bind_eq_Some_conv split: HomeWake.splits sum.splits if_splits
      dest!: ack_line_settles apply_soft_reset_settles emit_alarm_settles reset_pipeline_settles
      simp: settles_def answered_def)
qed

lemma system_command_settles:
  assumes "run_system_command cmd bd m = Some m'"
  shows "settles 1 m m'"
  using assms
  by (cases cmd)
    (auto simp: run_system_command_def simp del: One_nat_def
      intro: then_ack_settles then_ack_lines_settles dump_settings_silent ngc_parameters_silent enumerate_settings_silent
        setting_groups_silent code_enumerations_silent description_silent export_silent help_settles
        build_info_settles parser_state_settles unlock_settles toggle_check_settles sleep_settles home_settles
        startup_settles restore_settings_settles restore_settles write_setting_settles pb_write_settles reject_settles)

lemma handle_system_settles: "handle_system_command rest bd m = Some m' \<Longrightarrow> settles 1 m m'"
  unfolding handle_system_command_def by (rule system_command_settles)

section \<open>The probe and the pauses\<close>

lemma probe_cycle_settles:
  assumes "run_probe_cycle request bd m = Some (r, m')"
  shows "settles 0 m m'"
proof -
  from assms obtain w m1 where
    w: "await bd [on_probe_result ProbeFinished, on_soft_reset ProbePreempted]
      (on_comms (\<lambda>c. c\<lparr>probe_request := True\<rparr>) (m\<lparr>probe_result := None, probe_payload := request\<rparr>)) = Some (w, m1)"
    by (auto simp: run_probe_cycle_def bind_eq_Some_conv)
  from await_plain [OF w] have m1: "answers m1 = answers m" "taken m1 = taken m" by (simp_all add: own_eq)
  show ?thesis
  proof (cases w)
    case (ProbeFinished result)
    define m2 where "m2 = (sync_planner (stop_steps result) m1)\<lparr>last_probe := \<lparr>lp_position_mm =
        steps_to_mm (stop_steps result)
          (Settings.Settings.steps_per_mm (settings_snapshot bd (sync_planner (stop_steps result) m1))),
        lp_success = pr_triggered result\<rparr>\<rparr>"
    have "\<exists>pos. enqueue_formatted (probe_report (bd_fmt3 bd) RESPONSE_CAPACITY pos (pr_triggered result) []) bd m2 = Some m'"
      using assms w ProbeFinished by (auto simp: run_probe_cycle_def bind_eq_Some_conv Let_def m2_def)
    then obtain pos where
      "enqueue_formatted (probe_report (bd_fmt3 bd) RESPONSE_CAPACITY pos (pr_triggered result) []) bd m2 = Some m'" ..
    then have "responded 0 m2 m'"
      by (rule enqueue_formatted_silent) (erule probe_report_silent)
    then have "settles 0 m2 m'" by (rule responded_settles) simp
    then show ?thesis using m1 by (elim settles_from [rotated 2]) (simp_all add: m2_def)
  next
    case ProbePreempted
    with assms w m1 show ?thesis by (auto simp: run_probe_cycle_def intro: settles_moved)
  qed
qed

lemma probe_settles:
  assumes "handle_probe request fail_alarms bd m = Some m'"
  shows "settles 1 m m'"
proof -
  from assms obtain r m1 where run: "run_probe_cycle request bd m = Some (r, m1)"
    by (auto simp: handle_probe_def bind_eq_Some_conv)
  have "settles 1 m1 m'"
  proof (cases r)
    case None
    with assms run show ?thesis by (auto simp: handle_probe_def dest!: apply_soft_reset_settles elim: settles_mono)
  next
    case (Some result)
    with assms run show ?thesis
      by (cases "probe_response (pr_triggered result) (already_at_edge result) fail_alarms")
        (auto simp: handle_probe_def settles_def answered_def dest!: ack_line_settles emit_alarm_settles)
  qed
  with probe_cycle_settles [OF run] show ?thesis by (rule settles_silent)
qed

lemma held_query_settles: "service_held_query line bd m = Some m' \<Longrightarrow> settles 1 m m'"
  by (auto simp: service_held_query_def split: option.splits if_splits dest!: handle_system_settles
      simp: settles_def answered_def)

lemma pause_await_own:
  "await bd (if q then pause_signals @ [on_queue_ready None] else pause_signals) m = Some (r, m') \<Longrightarrow> own m' = own m"
  by (erule await_plain) (simp add: pause_signals_def)

text \<open>While the machine waits in a pause it answers only the lines it takes there.\<close>

lemma hold_until_resume_settles: "hold_until_resume bd m = Some r \<Longrightarrow> settles 0 m (snd r)"
proof (erule hold_until_resume.raw_induct [where P = "\<lambda>bd m r. settles 0 m (snd r)", rotated])
  fix f and bd :: "'b Board" and m r
  assume 1: "\<And>bd m r. f bd m = Some r \<Longrightarrow> settles 0 m (snd r)"
    "(let head_is_query = (case line_queue (comms m) of [] \<Rightarrow> False | line # _ \<Rightarrow> peeked_line_is_holdable_query line) in
     do {
       (r, m) \<leftarrow> await bd (if head_is_query then pause_signals @ [on_queue_ready None] else pause_signals) m;
       (case r of
          Some outcome \<Rightarrow> Some (outcome, m)
        | None \<Rightarrow>
            (case take_line m of
               None \<Rightarrow> f bd m
             | Some (line, m) \<Rightarrow> do { m \<leftarrow> service_held_query line bd m; f bd m })) }) = Some r"
  then obtain q w m1 where
    w: "await bd (if q then pause_signals @ [on_queue_ready None] else pause_signals) m = Some (w, m1)"
    and r: "(case w of
          Some outcome \<Rightarrow> Some (outcome, m1)
        | None \<Rightarrow>
            (case take_line m1 of
               None \<Rightarrow> f bd m1
             | Some (line, m) \<Rightarrow> do { m \<leftarrow> service_held_query line bd m; f bd m })) = Some r"
    by (auto simp: Let_def bind_eq_Some_conv)
  from pause_await_own [OF w] have m1: "settles 0 m m1" by (rule settles_own)
  show "settles 0 m (snd r)"
  proof (cases w)
    case (Some outcome)
    with r m1 show ?thesis by auto
  next
    case None
    show ?thesis
    proof (cases "take_line m1")
      case none: None
      with r None 1(1) have "settles 0 m1 (snd r)" by simp
      with m1 show ?thesis by (rule settles_silent)
    next
      case (Some lm)
      obtain line m2 where lm: "lm = (line, m2)" by (cases lm)
      with Some have "answers m2 = answers m1" "taken m2 = taken m1 @ [line]"
        by (auto simp: take_line_def on_line_def split: list.splits)
      moreover from r None Some lm obtain m3 where
        "service_held_query line bd m2 = Some m3" "f bd m3 = Some r"
        by (auto simp: bind_eq_Some_conv)
      ultimately have "settles 0 m1 (snd r)"
        using held_query_settles [of line bd m2 m3] 1(1) [of bd m3 r] by (simp add: settles_def answered_def)
      with m1 show ?thesis by (rule settles_silent)
    qed
  qed
qed

lemma program_pause_settles:
  assumes "run_program_pause optional tool_changes tool bd m = Some (b, m')"
  shows "settles 0 m m'"
proof (cases "optional \<and> \<not> optional_stop_enabled (comms m)")
  case True
  with assms show ?thesis by (simp add: run_program_pause_def)
next
  case False
  define msg where "msg m1 = (if tool_changes
      then (case tool_change_message RESPONSE_CAPACITY tool [] of (txt, Inr _) \<Rightarrow> send_message txt bd m1 | (_, Inl _) \<Rightarrow> Some m1)
      else Some m1)" for m1
  from False assms obtain idle m1 where idle: "wait_for_motion_idle bd m = Some (idle, m1)"
    by (auto simp: run_program_pause_def bind_eq_Some_conv)
  from wait_for_motion_idle_own [OF idle] have m1: "settles 0 m m1" by (simp add: settles_own)
  show ?thesis
  proof (cases idle)
    case True
    with False assms idle obtain m2 m3 where m2: "msg m1 = Some m2"
      and m3: "hold_until_resume bd (set_pause_active True
          (set_control_state (if tool_changes then tool_change else feed_hold (control_state m2)) m2)) = Some (b, m3)"
      and m': "m' = set_pause_active False m3"
      by (auto simp: run_program_pause_def bind_eq_Some_conv msg_def Let_def)
    have "settles 0 m1 m2"
      using m2 by (auto simp: msg_def dest!: send_message_settles split: if_splits prod.splits sum.splits)
    with m1 hold_until_resume_settles [OF m3] m' show ?thesis by (simp add: settles_def answered_def)
  next
    case not: False
    with False assms idle m1 show ?thesis by (auto simp: run_program_pause_def)
  qed
qed

section \<open>Lines\<close>

lemma spin_up_books:
  assumes "inject_spin_up_dwell cmd bd m = Some (r, m')"
  shows "answers m' = answers m \<and> taken m' = taken m"
proof (cases "is_cutting_move cmd \<and> spin_pending (spin_up (cst m))")
  case True
  obtain g d where take: "take_dwell_before_move (spindle_on_delay_s (settings_snapshot bd m)) (spin_up (cst m)) = (g, d)"
    by fastforce
  show ?thesis
  proof (cases d)
    case None
    with assms True take show ?thesis by (auto simp: inject_spin_up_dwell_def)
  next
    case (Some dwell_s)
    with assms True take obtain x m1 where
      plan: "consumer_plan_command (Dwell dwell_s) bd (on_cst (\<lambda>c. c\<lparr>spin_up := g\<rparr>) m) = Some (x, m1)"
      by (auto simp: inject_spin_up_dwell_def bind_eq_Some_conv)
    from consumer_plan_command_own [OF plan] have "answers m1 = answers m" "taken m1 = taken m"
      by (simp_all add: own_eq)
    with assms True take Some plan show ?thesis
      by (cases x) (auto simp: inject_spin_up_dwell_def bind_eq_Some_conv own_eq dest!: run_dwell_own)
  qed
next
  case False
  with assms show ?thesis by (auto simp: inject_spin_up_dwell_def)
qed

lemma dispatch_settles:
  assumes "dispatch_plan_result result bd m = Some m'"
  shows "settles 1 m m'"
proof (cases result)
  case (Res_ProgramPause optional tool_changes)
  with assms obtain out m1 where
    run: "run_program_pause optional tool_changes (m_current_tool (pstate (fw_parser m))) bd m = Some (out, m1)"
    by (auto simp: dispatch_plan_result_def bind_eq_Some_conv)
  have "settles 1 m1 m'"
    using assms Res_ProgramPause run
    by (cases out) (auto simp: dispatch_plan_result_def simp del: One_nat_def
        dest!: apply_soft_reset_settles program_stop_settles elim: settles_mono intro: ack_line_settles)
  with program_pause_settles [OF run] show ?thesis by (rule settles_silent)
next
  case (Res_Dwell x)
  with assms show ?thesis
    by (auto simp: dispatch_plan_result_def bind_eq_Some_conv own_eq settles_def answered_def split: if_splits
        dest!: run_dwell_own ack_line_settles apply_soft_reset_settles)
next
  case Res_ProgramEnd
  with assms show ?thesis
    by (auto simp: dispatch_plan_result_def bind_eq_Some_conv settles_def answered_def split: if_splits
        dest!: program_end_books ack_line_settles apply_soft_reset_settles)
qed (use assms in \<open>auto simp: dispatch_plan_result_def bind_eq_Some_conv settles_def answered_def
    dest!: ack_line_settles reject_settles emit_alarm_settles apply_soft_reset_settles program_stop_settles probe_settles\<close>)

lemma gate_settles:
  assumes "gate_line bd m = Some (g, m')"
  shows "settles (if g = None then 1 else 0) m m'"
  using assms
  by (auto simp: gate_line_def bind_eq_Some_conv settles_def answered_def Let_def split: if_splits ControlState.splits
      dest!: reject_settles)

lemma go_to_predefined_own: "handle_go_to_predefined is_g28 ax units d bd m = Some r \<Longrightarrow> own (snd r) = own m"
  unfolding handle_go_to_predefined_def Let_def by (rule go_loop_own)

lemma plan_gcode_settles:
  assumes "plan_gcode_line line bd m = Some m'"
  shows "settles 1 m m'"
proof -
  from assms obtain g m1 where gate: "gate_line bd m = Some (g, m1)"
    by (auto simp: plan_gcode_line_def bind_eq_Some_conv)
  show ?thesis
  proof (cases g)
    case None
    with assms gate gate_settles [OF gate] show ?thesis by (simp add: plan_gcode_line_def)
  next
    case (Some ctl)
    obtain p parsed where parse: "parse_gcode_line (bd_lm bd) (fw_parser m1) line = (p, parsed)" by fastforce
    define m2 where "m2 = drive_modal_outputs parsed ctl (m1\<lparr>fw_parser := p\<rparr>)"
    have m2: "answers m2 = answers m1" "taken m2 = taken m1" by (simp_all add: m2_def)
    have "settles 1 m2 m'"
    proof (cases parsed)
      case (Inl e)
      with assms gate Some parse show ?thesis
        by (auto simp: plan_gcode_line_def m2_def Let_def bind_eq_Some_conv settles_def answered_def dest!: reject_settles)
    next
      case (Inr c)
      show ?thesis
      proof (cases "c = None \<or> ctl = CS_Check")
        case True
        with assms gate Some parse Inr have "ack_line bd m2 = Some m'"
          by (auto simp: plan_gcode_line_def m2_def Let_def split: option.splits)
        then show ?thesis by (rule ack_line_settles)
      next
        case False
        then obtain cmd where c: "c = Some cmd" by auto
        from False assms gate Some parse Inr c obtain spin m3 where spin: "inject_spin_up_dwell cmd bd m2 = Some (spin, m3)"
          by (auto simp: plan_gcode_line_def m2_def Let_def bind_eq_Some_conv)
        have m3: "answers m3 = answers m2" "taken m3 = taken m2" using spin_up_books [OF spin] by simp_all
        note spin' = spin [unfolded m2_def Inr c]
        have "settles 1 m3 m'"
        proof (cases spin)
          case SpinContinue
          with False assms gate Some parse Inr c spin' obtain res m4 where
            "(case cmd of GoToPredefined is_g28 ax units distance \<Rightarrow> handle_go_to_predefined is_g28 ax units distance bd m3
               | _ \<Rightarrow> consumer_plan_command cmd bd m3) = Some (res, m4)" and
            fin: "dispatch_plan_result res bd m4 = Some m'"
            by (auto simp: plan_gcode_line_def Let_def bind_eq_Some_conv)
          then have "own m4 = own m3"
            by (auto dest: consumer_plan_command_own go_to_predefined_own split: PlannerCommand.splits)
          then have "settles 0 m3 m4" by (rule settles_own)
          then show ?thesis using dispatch_settles [OF fin] by (rule settles_silent)
        qed (use False assms gate Some parse Inr c spin' in \<open>auto simp: plan_gcode_line_def Let_def
            dest!: apply_soft_reset_settles program_stop_settles elim: settles_mono\<close>)
        with m3 show ?thesis by (rule settles_from)
      qed
    qed
    with m2 have "settles 1 m1 m'" by (rule settles_from)
    moreover have "settles 0 m m1" using gate_settles [OF gate] Some by simp
    ultimately show ?thesis by (rule settles_silent [rotated])
  qed
qed

lemma jog_settles:
  assumes "handle_jog line bd m = Some m'"
  shows "settles 1 m m'"
proof -
  have books: "answers (snd (plan_jog_line jc bd m)) = answers m \<and> taken (snd (plan_jog_line jc bd m)) = taken m"
    for jc and m :: "'a Firmware"
    by (simp add: plan_jog_line_def split: option.split prod.split)
  then have "plan_jog_line jc bd m1 = (r, m2) \<Longrightarrow> answers m2 = answers m1 \<and> taken m2 = taken m1"
    for jc r and m1 m2 :: "'a Firmware"
    by (metis snd_conv)
  with assms show ?thesis
    by (fastforce simp: handle_jog_def Let_def settles_def answered_def
        split: if_splits sum.splits prod.splits PlannerOutcome.splits
        dest!: ack_line_settles reject_settles)
qed

lemma line_settles: "handle_line line bd m = Some m' \<Longrightarrow> settles 1 m m'"
  by (auto simp: handle_line_def Let_def settles_def answered_def split: if_splits option.splits
      dest!: ack_line_settles jog_settles handle_system_settles plan_gcode_settles)

section \<open>The task\<close>

lemma raise_alarm_settles: "raise_alarm code bd m = Some m' \<Longrightarrow> settles 0 m m'"
  by (auto simp: raise_alarm_def bind_eq_Some_conv settles_def answered_def split: if_splits
      dest!: emit_alarm_settles reset_pipeline_settles)

lemma handle_event_settles:
  "handle_event ev bd m = Some m' \<Longrightarrow> settles (case ev of Ev_Line _ \<Rightarrow> 1 | _ \<Rightarrow> 0) m m'"
  by (cases ev)
    (auto simp: handle_event_def bind_eq_Some_conv settles_def answered_def
      dest!: line_settles apply_soft_reset_settles cancel_jog_settles raise_alarm_settles program_stop_settles)

text \<open>The task's select: a line is the only event that changes the books, and it is taken there.\<close>

lemma consumer_await:
  assumes "await bd consumer_arms m = Some (ev, m')"
  shows "answers m' = answers m \<and> taken m' = taken m @ (case ev of Ev_Line l \<Rightarrow> [l] | _ \<Rightarrow> []) \<and> kept m' = kept m"
  using assms
proof (rule others.view_await)
  fix m0 m1 a
  assume a: "a \<in> set consumer_arms" "own m0 = own m" "a m0 = Some (ev, m1)" "own m' = own m1"
  show ?thesis
  proof (cases "a = on_line Ev_Line")
    case True
    with a show ?thesis by (auto simp: on_line_def own_eq split: list.splits)
  next
    case False
    with a(1,3) have "own m1 = own m0 \<and> (\<forall>l. ev \<noteq> Ev_Line l)"
      by (auto simp: consumer_arms_def on_timer_def on_soft_reset_def on_program_stop_def on_jog_cancel_def
          on_hard_limit_def on_motion_fault_def split: if_splits)
    with a(2,4) show ?thesis by (auto simp: own_eq split: Event.splits)
  qed
qed

lemma comms_consumer_settles:
  assumes "comms_consumer bd m = Some m'"
  shows "settles 0 m m'"
proof -
  define m0 where "m0 = start_timer SETTINGS_FLUSH_SAFETY (flush_pending bd m)"
  from assms obtain ev m1 where ev: "await bd consumer_arms m0 = Some (ev, m1)" "handle_event ev bd m1 = Some m'"
    by (auto simp: comms_consumer_def bind_eq_Some_conv m0_def)
  from consumer_await [OF ev(1)] handle_event_settles [OF ev(2)]
  have "settles 0 m0 m'" by (auto simp: settles_def answered_def split: Event.splits)
  then show ?thesis by (rule settles_from [rotated 2]) (simp_all add: m0_def)
qed

lemma consumer_turns_settles: "consumer_turns n bd m = Some m' \<Longrightarrow> settles 0 m m'"
proof (induction n arbitrary: m)
  case (Suc n)
  then obtain m1 where "comms_consumer bd m = Some m1" "consumer_turns n bd m1 = Some m'"
    by (auto simp: bind_eq_Some_conv)
  with Suc.IH show ?case by (blast intro: settles_silent comms_consumer_settles)
qed simp

end
