(* ===== verification/Consumer_Queries.thy ===== *)
theory Consumer_Queries
  imports Consumer_Accounting
begin

text \<open>
  What the read-only queries do: each of their lines goes out while the transmitter drains the
  channel, the last one is the acknowledgement, and nothing else of the consumer's changes.
\<close>

section \<open>The planned position and the stashed reports\<close>

text \<open>No other task moves the planned position, and none takes a stashed boot report.\<close>

definition steady :: "'s Firmware \<Rightarrow> i32 list option \<times> string option \<times> string list"
  where "steady m = (map_option pl_position (planner m), pending_reset_report m, pending_crash_report m)"

lemma take_block_position: "take_block p = (p', r) \<Longrightarrow> pl_position p' = pl_position p"
  by (auto simp: take_block_def pop_block_def split: list.splits option.splits)

lemma executor_steady [simp]:
    "steady (publish_counter m) = steady m" "steady (sample_limits o' m) = steady m"
    "steady (set_running r m) = steady m" "steady (publish_limit_levels o' m) = steady m"
    "steady (exec_check_hard_limits o' m) = steady m"
  by (simp_all add: steady_def publish_counter_def sample_limits_def set_running_def publish_limit_levels_def
      exec_check_hard_limits_def split: prod.split)

lemma executor_parts_steady [simp]:
    "steady (service_reset o' m) = steady m" "steady (start_block bd b e m) = steady m" "steady (park_wake m) = steady m"
    "steady (idle_wake arm o' m) = steady m" "steady (publish_burst o' m) = steady m" "steady (finish_block o' m) = steady m"
    "steady (finish_probe o' m) = steady m" "steady (finish_home o' m) = steady m"
  by (simp_all add: steady_def service_reset_def retain_live_position_def start_block_def park_wake_def idle_wake_def
      publish_burst_def finish_block_def finish_probe_def finish_home_def Let_def publish_counter_def
      sample_limits_def set_running_def publish_limit_levels_def exec_check_hard_limits_def
      split: option.split sum.split prod.split)

lemma loop_top_steady [simp]: "steady (loop_top bd o' m) = steady m"
proof -
  define m0 where "m0 = service_reset o' m"
  have "steady (loop_top bd o' m) = steady m0"
    by (auto simp: loop_top_def m0_def [symmetric] Let_def steady_def start_block_def set_running_def
        dest: take_block_position split: option.split prod.split if_splits)
  then show ?thesis by (simp add: m0_def)
qed

lemma env_steady: "steady (env_step bd t m) = steady m"
proof (cases t)
  case (Rx p)
  then show ?thesis by (cases p) (simp_all add: steady_def)
next
  case (Motion arm o')
  then show ?thesis by (simp add: executor_step_def split: ExecPhase.split)
qed (simp_all add: steady_def)

interpretation rest: undisturbed bd steady for bd :: "'s Board"
  by unfold_locales (simp_all add: env_steady, simp_all add: steady_def)

lemma enqueue_steady: "enqueue s bd m = Some m' \<Longrightarrow> steady m' = steady m"
proof -
  assume "enqueue s bd m = Some m'"
  then have "await bd [room_for s] m = Some ((), m')" by (auto simp: enqueue_def)
  then show ?thesis
    by (rule rest.view_await) (auto simp: room_for_def steady_def split: if_splits)
qed

lemma enqueue_all_steady: "enqueue_all ss bd m = Some m' \<Longrightarrow> steady m' = steady m"
  by (induction ss arbitrary: m) (auto simp: bind_eq_Some_conv dest: enqueue_steady)

section \<open>Room in the channel\<close>

text \<open>A transmitter that will run often enough for \<^verbatim>\<open>k\<close> more responses.\<close>

definition drains :: "nat \<Rightarrow> 's Firmware \<Rightarrow> bool"
  where "drains k m \<longleftrightarrow>
    (\<exists>n. script m = replicate n [Transmit] \<and> length (responses (comms m)) + k \<le> n + RESPONSE_QUEUE_DEPTH)"

lemma await_room:
  "script m = replicate n [Transmit] \<Longrightarrow> length (responses (comms m)) < n + RESPONSE_QUEUE_DEPTH \<Longrightarrow>
   \<exists>m'. await_turns bd [room_for s] (replicate n [Transmit]) m = Some ((), m') \<and>
     (\<exists>n'. script m' = replicate n' [Transmit] \<and>
       length (responses (comms m')) + n = n' + Suc (length (responses (comms m))))"
proof (induction n arbitrary: m)
  case 0
  then show ?case
    by (subst await_turns.simps) (simp add: room_for_def List.map_filter_def)
next
  case (Suc n)
  show ?case
  proof (cases "length (responses (comms m)) < RESPONSE_QUEUE_DEPTH")
    case True
    then show ?thesis
      using Suc.prems
      by (subst await_turns.simps) (simp add: room_for_def List.map_filter_def)
  next
    case False
    define m1 where "m1 = env_step bd Transmit (m\<lparr>script := replicate n [Transmit]\<rparr>)"
    have len: "length (responses (comms m1)) = length (responses (comms m)) - 1"
      by (simp add: m1_def)
    with Suc.prems False have "script m1 = replicate n [Transmit]"
        "length (responses (comms m1)) < n + RESPONSE_QUEUE_DEPTH"
      by (simp_all add: m1_def RESPONSE_QUEUE_DEPTH_def)
    then obtain m' n' where m': "await_turns bd [room_for s] (replicate n [Transmit]) m1 = Some ((), m')"
      "script m' = replicate n' [Transmit]"
      "length (responses (comms m')) + n = n' + Suc (length (responses (comms m1)))"
      using Suc.IH by blast
    have "await_turns bd [room_for s] (replicate (Suc n) [Transmit]) m = Some ((), m')"
      using False m'(1) by (subst await_turns.simps) (simp add: room_for_def List.map_filter_def m1_def)
    moreover have "length (responses (comms m')) + Suc n = n' + Suc (length (responses (comms m)))"
      using m'(3) len False by (simp add: RESPONSE_QUEUE_DEPTH_def)
    ultimately show ?thesis using m'(2) by blast
  qed
qed

lemma enqueue_progress:
  assumes "drains (Suc k) m"
  shows "\<exists>m'. enqueue s bd m = Some m' \<and> drains k m'"
proof -
  from assms obtain n where n: "script m = replicate n [Transmit]"
      "length (responses (comms m)) + Suc k \<le> n + RESPONSE_QUEUE_DEPTH"
    by (auto simp: drains_def)
  then obtain m' n' where "await_turns bd [room_for s] (replicate n [Transmit]) m = Some ((), m')"
      "script m' = replicate n' [Transmit]" "length (responses (comms m')) + n = n' + Suc (length (responses (comms m)))"
    using await_room [of m n bd s] by auto
  with n show ?thesis by (auto simp: enqueue_def await_def drains_def)
qed

lemma drains_mono: "drains k m \<Longrightarrow> j \<le> k \<Longrightarrow> drains j m"
  by (auto simp: drains_def)

lemma drains_moved: "script m1 = script m \<Longrightarrow> responses (comms m1) = responses (comms m) \<Longrightarrow> drains k m1 = drains k m"
  by (simp add: drains_def)

lemma enqueue_all_progress: "drains (length ss + k) m \<Longrightarrow> \<exists>m'. enqueue_all ss bd m = Some m' \<and> drains k m'"
proof (induction ss arbitrary: m)
  case (Cons s ss)
  then obtain m1 where "enqueue s bd m = Some m1" "drains (length ss + k) m1"
    using enqueue_progress [of "length ss + k" m s bd] by auto
  with Cons.IH show ?case by (auto simp: bind_eq_Some_conv)
qed simp

lemma enqueue_all_within:
  assumes "drains (j + k) m" "length ss \<le> j"
  shows "\<exists>m'. enqueue_all ss bd m = Some m' \<and> drains k m'"
  using enqueue_all_progress [of ss k m bd] drains_mono [OF assms(1), of "length ss + k"] assms(2) by simp

lemma ack_progress: "drains (Suc 0) m \<Longrightarrow> \<exists>m'. ack_line bd m = Some m'"
  using enqueue_progress [of 0 "count_ack m" "''ok'' @ CRLF" bd]
  by (auto simp: ack_line_def write_ok_def write_str_def RESPONSE_CAPACITY_def count_ack_def drains_def)

section \<open>The lines of a query\<close>

text \<open>The specification: what each query prints before its acknowledgement.\<close>

definition formatted_line :: "(string, FmtError, unit) outcome \<Rightarrow> string list"
  where "formatted_line r = (case r of (s, Inr _) \<Rightarrow> [s] | (_, Inl _) \<Rightarrow> [])"

fun query_lines :: "SystemCommand \<Rightarrow> 's Board \<Rightarrow> 's Firmware \<Rightarrow> string list"
  where
    "query_lines Help bd m = formatted_line (write_help RESPONSE_CAPACITY [])"
  | "query_lines SettingsDump bd m = dump_settings bd m"
  | "query_lines ParserState bd m =
       formatted_line (parser_state (bd_fmt3 bd) RESPONSE_CAPACITY (parser_snapshot (pstate (fw_parser m))) [])"
  | "query_lines NgcParams bd m = ngc_parameters bd m"
  | "query_lines StartupQuery bd m = startup_report m"
  | "query_lines EnumSettings bd m = enumerate_settings"
  | "query_lines EnumSettingGroups bd m = enumerate_setting_groups"
  | "query_lines EnumErrorCodes bd m = enumerate_error_codes"
  | "query_lines EnumAlarmCodes bd m = enumerate_alarm_codes"
  | "query_lines (SettingDescription n) bd m = setting_description n"
  | "query_lines PbExport bd m = export_pb bd m"
  | "query_lines _ bd m = []"

lemma enqueue_all_single: "enqueue_all [s] bd m = enqueue s bd m"
  by (cases "enqueue s bd m") simp_all

lemma enqueue_formatted_all: "enqueue_formatted r bd m = enqueue_all (formatted_line r) bd m"
  by (simp add: enqueue_formatted_def formatted_line_def enqueue_all_single del: enqueue_all.simps(2) split: prod.split sum.split)

lemma query_is_lines:
  assumes "is_readonly_query cmd" "\<And>e. cmd \<noteq> BuildInfo e"
  shows "run_system_command cmd bd m = then_ack (enqueue_all (query_lines cmd bd m)) bd m"
  using assms
  by (cases cmd) (auto simp: run_system_command_def then_ack_def enqueue_formatted_all send_parser_state_def
      handle_startup_query_def)

lemma silent_formatted: "(\<And>s. r = (s, Inr ()) \<Longrightarrow> \<not> terminal s) \<Longrightarrow> silent (formatted_line r)"
  by (cases r; cases "snd r") (auto simp: formatted_line_def)

lemma query_lines_silent: "silent (query_lines cmd bd m)"
proof -
  have "silent (formatted_line (parser_state fmt n p []))" for fmt n p
    by (rule silent_formatted) (rule parser_state_silent)
  moreover have "silent (formatted_line (write_help RESPONSE_CAPACITY []))"
    by (rule silent_formatted) (auto simp: write_help_def dest!: write_str_Inr)
  ultimately show ?thesis
    by (cases cmd) (simp_all add: dump_settings_silent ngc_parameters_silent startup_silent enumerate_settings_silent
        setting_groups_silent code_enumerations_silent description_silent export_silent)
qed

text \<open>How many responses a query needs room for, with its acknowledgement.\<close>

definition query_length :: "SystemCommand \<Rightarrow> 's Board \<Rightarrow> 's Firmware \<Rightarrow> nat"
  where "query_length cmd bd m =
    (case cmd of BuildInfo _ \<Rightarrow> 9 + length (pending_crash_report m) | _ \<Rightarrow> Suc (length (query_lines cmd bd m)))"

lemma length_lines: "length (enqueue_lines f xs) \<le> length xs"
  by (induction xs) (auto simp: enqueue_lines_def split: prod.split sum.split unit.split)

lemma length_single [simp]: "length (single_line fmt) \<le> Suc 0"
  unfolding single_line_def using length_lines [of "\<lambda>_. fmt" "[()]"] by simp

lemma length_driver_lines: "length (driver_lines bd) \<le> 5"
proof -
  have "length (if P then single_line fmt else []) \<le> 1" for P fmt by simp
  moreover have "length (case c of Some v \<Rightarrow> single_line (g v) | None \<Rightarrow> []) \<le> 1"
    for c :: "IoinRawCapture option" and g by (simp split: option.split)
  ultimately have "length (driver_lines bd) \<le> 1 + (1 + (1 + (1 + 1)))"
    unfolding driver_lines_def length_append by (intro add_mono) simp_all
  then show ?thesis by simp
qed

lemma length_skip: "length (format_skip_probes bd m) \<le> 1"
  unfolding format_skip_probes_def by (simp only: split: prod.split sum.split) simp

lemma build_info_progress:
  assumes "drains (9 + length (pending_crash_report m)) m"
  shows "\<exists>m'. send_build_info extended bd m = Some m' \<and> drains 1 m'"
proof -
  let ?k = "length (pending_crash_report m)"
  from assms have "drains (1 + (8 + ?k)) m" by simp
  then obtain m1 where 1: "enqueue_all (single_line (build_info RESPONSE_CAPACITY extended)) bd m = Some m1" "drains (8 + ?k) m1"
    using enqueue_all_within [of 1 "8 + ?k" m "single_line (build_info RESPONSE_CAPACITY extended)" bd] by auto
  from 1(2) have "drains (5 + (3 + ?k)) m1" by simp
  from enqueue_all_within [OF this length_driver_lines]
  obtain m2 where 2: "(if extended then enqueue_all (driver_lines bd) bd m1 else Some m1) = Some m2" "drains (3 + ?k) m2"
    using drains_mono [OF 1(2), of "3 + ?k"] by (cases extended) auto
  from 2(2) have "drains (1 + (2 + ?k)) m2" by (simp add: eval_nat_numeral)
  from enqueue_all_within [OF this length_skip]
  obtain m3 where 3: "enqueue_all (format_skip_probes bd m2) bd m2 = Some m3" "drains (2 + ?k) m3" by blast
  define rep where "rep = (case pending_reset_report m3 of
      Some t \<Rightarrow> single_line (message RESPONSE_CAPACITY t) | None \<Rightarrow> [])"
  have "length rep \<le> 1" by (simp add: rep_def split: option.split)
  moreover from 3(2) have "drains (1 + (1 + ?k)) (m3\<lparr>pending_reset_report := None\<rparr>)" by (simp add: drains_def)
  ultimately obtain m4 where 4: "enqueue_all rep bd (m3\<lparr>pending_reset_report := None\<rparr>) = Some m4" "drains (1 + ?k) m4"
    using enqueue_all_within by blast
  have "steady m2 = steady m"
    using 1(1) 2(1) by (auto dest!: enqueue_all_steady split: if_splits)
  then have "pending_crash_report m4 = pending_crash_report m"
    using enqueue_all_steady [OF 3(1)] enqueue_all_steady [OF 4(1)] by (simp add: steady_def)
  then have "length (enqueue_lines (message RESPONSE_CAPACITY) (pending_crash_report m4)) \<le> ?k"
    using length_lines [of "message RESPONSE_CAPACITY" "pending_crash_report m4"] by simp
  moreover from 4(2) have "drains (?k + 1) (m4\<lparr>pending_crash_report := []\<rparr>)" by (simp add: drains_def add.commute)
  ultimately obtain m5 where "enqueue_all (enqueue_lines (message RESPONSE_CAPACITY) (pending_crash_report m4)) bd
      (m4\<lparr>pending_crash_report := []\<rparr>) = Some m5" "drains 1 m5"
    using enqueue_all_within by blast
  with 1(1) 2(1) 3(1) 4(1) show ?thesis
    by (auto simp: send_build_info_def bind_eq_Some_conv rep_def)
qed

lemma then_ack_responded:
  "then_ack h bd m = Some m' \<Longrightarrow> (\<And>m1. h bd m = Some m1 \<Longrightarrow> responded 0 m m1) \<Longrightarrow> responded 1 m m'"
  by (auto simp: then_ack_def bind_eq_Some_conv dest: ack_line_once intro: responded_silent simp del: One_nat_def)

lemma build_info_silent_lines:
  assumes "send_build_info extended bd m = Some m'"
  shows "responded 0 m m'"
proof -
  from assms obtain m1 m2 m3 m4 where
    1: "enqueue_all (single_line (build_info RESPONSE_CAPACITY extended)) bd m = Some m1" and
    2: "(if extended then enqueue_all (driver_lines bd) bd m1 else Some m1) = Some m2" and
    3: "enqueue_all (format_skip_probes bd m2) bd m2 = Some m3" and
    4: "enqueue_all (case pending_reset_report m3 of Some t \<Rightarrow> single_line (message RESPONSE_CAPACITY t) | None \<Rightarrow> [])
          bd (m3\<lparr>pending_reset_report := None\<rparr>) = Some m4" and
    5: "enqueue_all (enqueue_lines (message RESPONSE_CAPACITY) (pending_crash_report m4)) bd
          (m4\<lparr>pending_crash_report := []\<rparr>) = Some m'"
    by (auto simp: send_build_info_def bind_eq_Some_conv)
  have "responded 0 (m3\<lparr>pending_reset_report := None\<rparr>) m4"
    using 4 by (rule enqueue_all_silent) (auto intro!: silent_one dest: message_silent split: option.split)
  moreover have "responded 0 (m4\<lparr>pending_crash_report := []\<rparr>) m'"
    using 5 by (rule enqueue_all_silent) (auto intro!: silent_lines dest: message_silent)
  moreover have "responded 0 m1 m2"
    using 2 by (auto split: if_splits intro: enqueue_all_silent driver_lines_silent)
  ultimately show ?thesis
    using enqueue_all_silent [OF 1 build_info_silent] enqueue_all_silent [OF 3 skip_probes_silent]
    by (simp add: responded_def answered_def)
qed

text \<open>A query answers its line once, changes nothing, and returns when the transmitter drains the channel.\<close>

lemma query_once:
  assumes "is_readonly_query cmd" "run_system_command cmd bd m = Some m'"
  shows "responded 1 m m'"
proof (cases "\<exists>e. cmd = BuildInfo e")
  case True
  with assms(2) show ?thesis
    by (auto simp: run_system_command_def simp del: One_nat_def intro: then_ack_responded build_info_silent_lines)
next
  case False
  with query_is_lines [OF assms(1), of bd m] assms(2) have "then_ack (enqueue_all (query_lines cmd bd m)) bd m = Some m'" by simp
  then show ?thesis
    by (rule then_ack_responded) (erule enqueue_all_silent, rule query_lines_silent)
qed

lemma query_returns:
  assumes "is_readonly_query cmd" "drains (query_length cmd bd m) m"
  shows "\<exists>m'. run_system_command cmd bd m = Some m'"
proof (cases "\<exists>e. cmd = BuildInfo e")
  case True
  then obtain e where cmd: "cmd = BuildInfo e" ..
  with assms(2) have "drains (9 + length (pending_crash_report m)) m" by (simp add: query_length_def)
  from build_info_progress [OF this, of e bd] obtain m1 where "send_build_info e bd m = Some m1" "drains 1 m1" by blast
  with ack_progress [of m1 bd] show ?thesis by (auto simp: cmd run_system_command_def then_ack_def)
next
  case False
  then have "query_length cmd bd m = length (query_lines cmd bd m) + 1"
    by (auto simp: query_length_def split: SystemCommand.split)
  with assms(2) have "drains (length (query_lines cmd bd m) + 1) m" by simp
  from enqueue_all_progress [OF this, of bd] obtain m1 where
    "enqueue_all (query_lines cmd bd m) bd m = Some m1" "drains 1 m1" by blast
  with ack_progress [of m1 bd] query_is_lines [OF assms(1), of bd m] False show ?thesis by (auto simp: then_ack_def)
qed

end
