(* ===== verification/Consumer_Stops.thy ===== *)
theory Consumer_Stops
  imports Consumer_Queries
begin

text \<open>
  The stops: what the graceful stop leaves behind, and the stop asked for while the executor is
  already parked on a feed hold.  A claim that no other task's step breaks lasts through a wait.
\<close>

section \<open>A parked executor\<close>

fun host_silent :: "Turn \<Rightarrow> bool"
  where
    "host_silent (Rx (Read _)) = False"
  | "host_silent _ = True"

text \<open>The executor rests on the hold level and its acknowledgement of the park has been taken.\<close>

definition parked_quietly :: "'s Firmware \<Rightarrow> bool"
  where "parked_quietly m \<longleftrightarrow>
    exec m = X_Parked \<and> hold_requested (comms m) \<and> \<not> motion_parked m \<and> \<not> soft_reset_signal (comms m) \<and>
    \<not> motion_reset_pending (comms m) \<and> \<not> motion_reset (comms m)"

definition levels :: "Comms \<Rightarrow> bool \<times> bool \<times> bool \<times> bool"
  where "levels c = (hold_requested c, soft_reset_signal c, motion_reset_pending c, motion_reset c)"

lemma error_levels: "levels (error_bare code c) = levels c" "levels (error_start code c) = levels c"
proof -
  have bare: "levels (error_bare code c) = levels c" for c
    by (auto simp: levels_def error_bare_def split: prod.split sum.split unit.split)
  then show "levels (error_bare code c) = levels c" .
  show "levels (error_start code c) = levels c"
    using bare by (auto simp: levels_def error_start_def split: prod.split sum.split unit.split)
qed

lemma resume_send_levels: "levels (resume_send b c) = levels c"
  by (cases b) (simp_all add: error_levels, simp_all add: levels_def)

lemma frame_byte_levels: "levels (frame_byte b c) = levels c"
  by (auto simp: frame_byte_def error_levels Let_def split: prod.split EngineEvent.split) (simp_all add: levels_def)

lemma assembler_levels: "levels (line_assembler byte_first c) = levels c"
proof -
  have "levels (c\<lparr>rx_pipe := p\<rparr>) = levels c" for p by (simp add: levels_def)
  moreover have "levels (take_line_reset c) = levels c" by (simp add: levels_def take_line_reset_def)
  ultimately show ?thesis
    by (simp add: line_assembler_def resume_send_levels frame_byte_levels split: option.split)
qed

lemma parked_stays:
  assumes "parked_quietly m" "host_silent t"
  shows "parked_quietly (env_step bd t m)"
proof (cases t)
  case (Rx p)
  show ?thesis
  proof (cases p)
    case (Assemble byte_first)
    have "levels (line_assembler byte_first (comms m)) = levels (comms m)" by (rule assembler_levels)
    with assms(1) Rx Assemble show ?thesis by (simp add: parked_quietly_def levels_def)
  qed (use assms Rx in simp_all)
next
  case (Motion arm o')
  with assms(1) show ?thesis by (auto simp: executor_step_def park_wake_def parked_quietly_def)
qed (use assms in \<open>simp_all add: parked_quietly_def\<close>)

lemma parked_through: "parked_quietly m \<Longrightarrow> list_all host_silent turns \<Longrightarrow> parked_quietly (fold (env_step bd) turns m)"
  by (induction turns arbitrary: m) (simp_all add: parked_stays)

lemma no_second_park:
  "parked_quietly m \<Longrightarrow> list_all (list_all host_silent) ts \<Longrightarrow>
   await_turns bd [on_motion_parked Parked, on_soft_reset ResetPreempted] ts m = None"
proof (induction ts arbitrary: m)
  case Nil
  then have "on_motion_parked Parked m = None" "on_soft_reset ResetPreempted m = None"
    by (simp_all add: on_motion_parked_def on_soft_reset_def parked_quietly_def)
  then show ?case by (subst await_turns.simps) (simp add: List.map_filter_def)
next
  case (Cons turns ts)
  have "parked_quietly (m\<lparr>script := ts\<rparr>)" using Cons.prems(1) by (simp add: parked_quietly_def)
  then have "parked_quietly (fold (env_step bd) turns (m\<lparr>script := ts\<rparr>))"
    using Cons.prems(2) by (intro parked_through) simp_all
  moreover have "on_motion_parked Parked m = None" "on_soft_reset ResetPreempted m = None"
    using Cons.prems(1) by (simp_all add: on_motion_parked_def on_soft_reset_def parked_quietly_def)
  ultimately show ?case
    using Cons.IH Cons.prems(2) by (subst await_turns.simps) (simp add: List.map_filter_def)
qed

lemma quiesce_of_parked_never_ends:
  assumes "parked_quietly m" "list_all (list_all host_silent) (script m)"
  shows "quiesce_executor bd m = None"
proof -
  define m0 where "m0 = on_comms (\<lambda>c. c\<lparr>hold_requested := True, hold_wake := True\<rparr>) (m\<lparr>motion_parked := False\<rparr>)"
  have "parked_quietly m0" using assms(1) by (simp add: m0_def parked_quietly_def)
  moreover have "script m0 = script m" by (simp add: m0_def)
  ultimately have "await bd [on_motion_parked Parked, on_soft_reset ResetPreempted] m0 = None"
    unfolding await_def using no_second_park assms(2) by metis
  then show ?thesis by (simp add: quiesce_executor_def m0_def)
qed

section \<open>What lasts through a wait\<close>

text \<open>A claim on the state that no step of another task can break.\<close>

locale lasting =
  fixes bd :: "'s Board" and holds :: "'s Firmware \<Rightarrow> bool"
  assumes holds_env: "holds m \<Longrightarrow> holds (env_step bd t m)"
    and holds_script: "holds m \<Longrightarrow> holds (m\<lparr>script := ts\<rparr>)"
    and holds_choices: "holds m \<Longrightarrow> holds (m\<lparr>choices := ks\<rparr>)"
begin

lemma holds_turns: "holds m \<Longrightarrow> holds (fold (env_step bd) turns m)"
  by (induction turns arbitrary: m) (simp_all add: holds_env)

lemma holds_await_turns:
  assumes arms: "\<And>a m v m'. a \<in> set arms \<Longrightarrow> holds m \<Longrightarrow> a m = Some (v, m') \<Longrightarrow> holds m'"
  shows "holds m \<Longrightarrow> await_turns bd arms ts m = Some (v, m') \<Longrightarrow> holds m'"
proof (induction ts arbitrary: m)
  have ready: "holds m'"
    if "holds m" "List.map_filter (\<lambda>a. a m) arms = r # rs" "(if rs = [] then r else choose_ready m (r # rs)) = (v, m')"
    for m r rs
  proof -
    have all: "holds (snd r')" if "r' \<in> set (r # rs)" for r'
    proof -
      from that \<open>List.map_filter (\<lambda>a. a m) arms = r # rs\<close> have "r' \<in> set (List.map_filter (\<lambda>a. a m) arms)" by simp
      then obtain a where "a \<in> set arms" "a m = Some r'" by (auto simp: List.map_filter_def)
      with arms [of a m "fst r'" "snd r'"] \<open>holds m\<close> show ?thesis by simp
    qed
    show ?thesis
    proof (cases "rs = [] \<or> choices m = []")
      case True
      with that(3) all [of r] show ?thesis by (auto simp: choose_ready_def split: if_splits)
    next
      case False
      then obtain k ks where ks: "choices m = k # ks" "rs \<noteq> []" by (cases "choices m") auto
      let ?r = "(r # rs) ! (k mod length (r # rs))"
      have "?r \<in> set (r # rs)" by (intro nth_mem) simp
      then have "holds (snd ?r)" by (rule all)
      moreover have "m' = (snd ?r)\<lparr>choices := ks\<rparr>"
        using that(3) ks by (simp add: choose_ready_def split: prod.splits del: nth_Cons_Suc)
      ultimately show ?thesis by (simp add: holds_choices)
    qed
  qed
  { case (Nil m)
    then show ?case
      by (subst (asm) await_turns.simps) (auto split: list.splits intro: ready simp del: split_paired_All)
  next
    case (Cons turns ts m)
    show ?case
    proof (cases "List.map_filter (\<lambda>a. a m) arms")
      case Nil
      with Cons.prems show ?thesis
        using Cons.IH [of "fold (env_step bd) turns (m\<lparr>script := ts\<rparr>)"]
        by (subst (asm) await_turns.simps) (simp add: holds_turns holds_script)
    next
      case (Cons r rs)
      with Cons.prems show ?thesis
        by (subst (asm) await_turns.simps) (simp, rule ready, assumption+)
    qed
  }
qed

lemma holds_await:
  "await bd arms m = Some (v, m') \<Longrightarrow> holds m \<Longrightarrow>
   (\<And>a m v m'. a \<in> set arms \<Longrightarrow> holds m \<Longrightarrow> a m = Some (v, m') \<Longrightarrow> holds m') \<Longrightarrow> holds m'"
  unfolding await_def by (rule holds_await_turns)

end

text \<open>A planner with nothing queued and no arc pending stays so: only the consumer plans.\<close>

definition emptied :: "'s Firmware \<Rightarrow> bool"
  where "emptied m \<longleftrightarrow> (case planner m of Some p \<Rightarrow> pl_queue p = [] \<and> pl_arc p = None | None \<Rightarrow> True)"

lemma emptied_moved: "planner m1 = planner m \<Longrightarrow> emptied m1 = emptied m"
  by (simp add: emptied_def)

lemma take_block_empty: "pl_queue p = [] \<Longrightarrow> take_block p = (p, None)"
  by (simp add: take_block_def pop_block_def)

lemma loop_top_emptied: "emptied m \<Longrightarrow> emptied (loop_top bd o' m)"
proof -
  define m0 where "m0 = service_reset o' m"
  assume "emptied m"
  then have "emptied m0"
    by (simp add: m0_def service_reset_def sample_limits_def retain_live_position_def publish_counter_def emptied_def)
  then show ?thesis
    by (auto simp: loop_top_def m0_def [symmetric] Let_def emptied_def take_block_empty split: option.split)
qed

lemma env_emptied: "emptied m \<Longrightarrow> emptied (env_step bd t m)"
proof (cases t)
  case (Rx p)
  assume "emptied m"
  with Rx show ?thesis by (cases p) (simp_all add: emptied_def)
next
  case (Motion arm o')
  assume "emptied m"
  moreover have "planner (park_wake m) = planner m" "planner (idle_wake arm o' m) = planner m"
      "planner (publish_burst o' m) = planner m" "planner (finish_block o' m) = planner m"
      "planner (finish_probe o' m) = planner m" "planner (finish_home o' m) = planner m"
    by (simp_all add: park_wake_def idle_wake_def publish_burst_def finish_block_def finish_probe_def finish_home_def
        Let_def publish_counter_def sample_limits_def set_running_def publish_limit_levels_def
        retain_live_position_def exec_check_hard_limits_def split: option.split sum.split prod.split)
  ultimately show ?thesis
    using Motion loop_top_emptied by (auto simp: executor_step_def emptied_def split: ExecPhase.split)
qed (simp_all add: emptied_def)

interpretation idle_plan: lasting bd emptied for bd :: "'s Board"
  by unfold_locales (rule env_emptied, assumption, simp_all add: emptied_def)

section \<open>What the graceful stop leaves\<close>

lemma quiesce_cases:
  assumes "quiesce_executor bd m = Some (r, m')"
  shows "own m' = own m" "steady m' = steady m" "r = ResetPreempted \<Longrightarrow> soft_reset_signal (comms m')"
proof -
  show "own m' = own m" using assms by (rule quiesce_own)
  define m0 where "m0 = on_comms (\<lambda>c. c\<lparr>hold_requested := True, hold_wake := True\<rparr>) (m\<lparr>motion_parked := False\<rparr>)"
  from assms obtain w m1 where w: "await bd [on_motion_parked Parked, on_soft_reset ResetPreempted] m0 = Some (w, m1)"
    by (auto simp: quiesce_executor_def bind_eq_Some_conv m0_def)
  have "steady m1 = steady m0"
    using w by (rule rest.view_await) (auto simp: on_motion_parked_def on_soft_reset_def steady_def split: if_splits)
  then have "steady m1 = steady m" by (simp add: m0_def steady_def)
  with assms w show "steady m' = steady m" "r = ResetPreempted \<Longrightarrow> soft_reset_signal (comms m')"
    by (cases w; auto simp: quiesce_executor_def m0_def steady_def)+
qed

lemma quiesce_emptied: "quiesce_executor bd m = Some (r, m') \<Longrightarrow> emptied m \<Longrightarrow> emptied m'"
proof -
  assume q: "quiesce_executor bd m = Some (r, m')" and e: "emptied m"
  define m0 where "m0 = on_comms (\<lambda>c. c\<lparr>hold_requested := True, hold_wake := True\<rparr>) (m\<lparr>motion_parked := False\<rparr>)"
  from q obtain w m1 where w: "await bd [on_motion_parked Parked, on_soft_reset ResetPreempted] m0 = Some (w, m1)"
    by (auto simp: quiesce_executor_def bind_eq_Some_conv m0_def)
  have "emptied m0" using e by (simp add: m0_def emptied_def)
  with w have "emptied m1"
    by (rule idle_plan.holds_await) (auto simp: on_motion_parked_def on_soft_reset_def emptied_def split: if_splits)
  with q w show "emptied m'" by (cases w) (auto simp: quiesce_executor_def m0_def emptied_def)
qed

lemma enqueue_emptied: "enqueue s bd m = Some m' \<Longrightarrow> emptied m \<Longrightarrow> emptied m'"
proof -
  assume e: "enqueue s bd m = Some m'" and m: "emptied m"
  from e have "await bd [room_for s] m = Some ((), m')" by (auto simp: enqueue_def)
  then show ?thesis
    using m by (rule idle_plan.holds_await) (auto simp: room_for_def emptied_def split: if_splits)
qed

end
