(* ===== verification/Boot_Status.thy ===== *)
theory Boot_Status
  imports Consumer_Commands
begin

text \<open>
  The state \<^verbatim>\<open>main\<close> leaves to the tasks (\<^verbatim>\<open>crates/firmware/src/main.rs\<close>: the initial values of
  the statics and the \<^verbatim>\<open>init\<close> calls, then the lines sent at boot), and the two tasks behind the
  status report (\<^verbatim>\<open>comms/status.rs\<close>).
\<close>

section \<open>Boot\<close>

text \<open>
  The statics before \<^verbatim>\<open>main\<close> runs, with the pin levels the executor samples first, and what the
  script of the other tasks will be.
\<close>

definition statics :: "'s Board \<Rightarrow> 's \<Rightarrow> bool list \<Rightarrow> Turn list list \<Rightarrow> nat list \<Rightarrow> 's Firmware"
  where "statics bd w levels turns ks =
    \<lparr>comms = Comms_new CS_Normal, fw_parser = Parser_new, cst = ConsumerState_default, planner = None,
     settings = None, settings_dirty = False, coordinates = CoordinateSystems_new, coordinates_dirty = False,
     fw_homing_enabled = False, fw_hard_limits_enabled = False, fw_limit_invert = False, fw_limit_debounce_ms = 0,
     fw_auto_report_ms = 0, homed = False, homing_active = False, spindle_direction = SPINDLE_DIR_STOP,
     spindle_estop = False, programmed_spindle_rpm = 0, coolant_state = 0, coolant_update = False,
     coolant_estop = False, live_position = replicate AXES 0, counter = replicate AXES 0, live_feed = f32_zero,
     live_rapid = False,
     probe_payload = \<lparr>pq_target = replicate AXES 0, pq_step_period_ticks = 0, pq_toward = False, pq_invert = False\<rparr>,
     probe_result = None, home_request = None, home_result = None, last_probe = LastProbe_none,
     block_available = False, slot_freed = False, motion_parked = False, hard_limit_tripped = False,
     motion_fault = False, limit_levels = 0, limit_armed = sample_limit_triggered levels \<lparr>invert = False\<rparr>,
     exec = X_Top, blocks_executed = 0,
     status_cfg = \<lparr>sc_steps_per_mm = replicate AXES f32_zero, sc_position_report = PR_Machine,
       sc_min_axis_max_rate = FInf False\<rparr>,
     wco_reporter = RefreshReporter_new zero_vec, ov_reporter = RefreshReporter_new Overrides_new,
     machine = MachineSnapshot_idle f32_zero, lines_consumed = 0, comms_progress = 0, pending_reset_report = None,
     pending_crash_report = [], flash = w, timer = False, timer_us = 0, answers = [], taken = [],
     script = turns, choices = ks\<rparr>"

definition init_settings :: "Settings \<Rightarrow> 's Firmware \<Rightarrow> 's Firmware"
  where "init_settings s m = m\<lparr>settings := Some s\<rparr>"

definition init_status_cfg :: "Settings \<Rightarrow> 's Firmware \<Rightarrow> 's Firmware"
  where "init_status_cfg s m = m\<lparr>status_cfg := status_cfg_from s\<rparr>"

definition init_control_state :: "bool \<Rightarrow> 's Firmware \<Rightarrow> 's Firmware"
  where "init_control_state enabled m =
    store_homed_baseline enabled (set_control_state (boot enabled) (m\<lparr>fw_homing_enabled := enabled\<rparr>))"

definition force_wedge_alarm :: "bool \<Rightarrow> 's Firmware \<Rightarrow> 's Firmware"
  where "force_wedge_alarm enabled m = (set_control_state (CS_Alarm (wedge_reset_alarm enabled)) m)\<lparr>homed := False\<rparr>"

definition init_limit_settings :: "bool \<Rightarrow> bool \<Rightarrow> u32 \<Rightarrow> 's Firmware \<Rightarrow> 's Firmware"
  where "init_limit_settings hard inverted debounce_ms m =
    m\<lparr>fw_hard_limits_enabled := hard, fw_limit_invert := inverted, fw_limit_debounce_ms := debounce_ms\<rparr>"

definition init_planner :: "PlannerConfig \<Rightarrow> 's Firmware \<Rightarrow> 's Firmware"
  where "init_planner cfg m = m\<lparr>planner := Some (Planner_new cfg)\<rparr>"

definition init_coordinates :: "CoordinatePersistent \<Rightarrow> 's Firmware \<Rightarrow> 's Firmware"
  where "init_coordinates cp m = m\<lparr>coordinates := load_persistent cp CoordinateSystems_new\<rparr>"

text \<open>\<^verbatim>\<open>suspect\<close> is what the breadcrumb of the previous run says of the position.\<close>

definition main_init :: "'s Board \<Rightarrow> bool \<Rightarrow> 's Firmware \<Rightarrow> 's Firmware"
  where "main_init bd suspect m =
    (case load_reporting (bd_lm bd) (bd_pb bd) (bd_settings_store bd) (flash m) of
       (w, s, _) \<Rightarrow>
        (let enabled = homing_enabled s;
             m = init_status_cfg s (init_settings s (m\<lparr>flash := w\<rparr>));
             m = init_control_state enabled m;
             m = (if suspect then force_wedge_alarm enabled m else m);
             m = init_limit_settings (hard_limits_enabled s) (limit_invert s) (homing_debounce_ms s) m;
             m = init_planner (planner_config s) (init_auto_report (auto_report_interval s) m)
         in case coords_load_or_default (bd_pbc bd) (bd_coords_store bd) (flash m) of
              (w, cp) \<Rightarrow> push_wco_to_planner (init_coordinates cp (m\<lparr>flash := w\<rparr>))))"

text \<open>The banner, the reset reason, the texts of the crash report's lines (which are also stashed), and the alarm the machine booted into.\<close>

definition send_reset_reason :: "string \<Rightarrow> 's handler"
  where "send_reset_reason reason =
    (case write_all 64 [''RESET '', reason] [] of
       (txt, Inr _) \<Rightarrow> enqueue_formatted (message RESPONSE_CAPACITY txt [])
     | (_, Inl _) \<Rightarrow> (\<lambda>_. Some))"

definition send_boot_alarm :: "'s handler"
  where "send_boot_alarm bd m = (case control_state m of CS_Alarm code \<Rightarrow> emit_alarm code bd m | _ \<Rightarrow> Some m)"

definition maybe_emit_crash_report :: "string list \<Rightarrow> 's handler"
  where "maybe_emit_crash_report crash bd m =
    enqueue_all (enqueue_lines (message RESPONSE_CAPACITY) crash) bd (m\<lparr>pending_crash_report := crash\<rparr>)"

definition boot_lines :: "string \<Rightarrow> string list \<Rightarrow> 's handler"
  where "boot_lines reason crash bd m = do {
    m \<leftarrow> send_banner bd m;
    m \<leftarrow> send_reset_reason reason bd m;
    m \<leftarrow> maybe_emit_crash_report crash bd m;
    send_boot_alarm bd m }"

section \<open>Realized overrides\<close>

definition scaled_feed :: "Overrides \<Rightarrow> f32 \<Rightarrow> f32 \<Rightarrow> f32"
  where "scaled_feed ov programmed max_rate =
    fclamp (fmul programmed (fdiv (f32_of_int (uint (Overrides.feed ov))) (f32_of_int 100))) f32_zero
      (fmax max_rate f32_zero)"

definition scaled_rapid :: "Overrides \<Rightarrow> f32 \<Rightarrow> f32"
  where "scaled_rapid ov rate =
    fmax (fmul rate (fdiv (f32_of_int (uint (Overrides.rapid ov))) (f32_of_int 100))) f32_zero"

definition scaled_rpm :: "libm \<Rightarrow> Overrides \<Rightarrow> u16 \<Rightarrow> u16"
  where "scaled_rpm lm ov rpm =
    (if spindle_stop ov then 0
     else f32_to_u16 (roundf lm (fmax (fmul (f32_of_int (uint rpm))
       (fdiv (f32_of_int (uint (Overrides.spindle ov))) (f32_of_int 100))) f32_zero)))"

section \<open>The status report\<close>

text \<open>\<^verbatim>\<open>limit_levels\<close>: the published mask as the report's array.\<close>

definition unpack_limit_mask :: "u8 \<Rightarrow> bool list"
  where "unpack_limit_mask m = map (\<lambda>axis. m AND push_bit axis 1 \<noteq> 0) [0..<AXES]"

definition vec_differs :: "f32 list \<Rightarrow> f32 list \<Rightarrow> bool"
  where "vec_differs a b \<longleftrightarrow> \<not> list_all2 feq a b"

definition report_state :: "'s Firmware \<Rightarrow> MachineState"
  where "report_state m =
    (let queued = planner_blocks_free m < of_nat BLOCK_QUEUE_LEN;
         running = executor_running (comms m) \<or> queued
     in if homing_active m then MS_Home else machine_state (control_state m) running)"

text \<open>\<^verbatim>\<open>asserted\<close> is the probe level the last probe cycle published.\<close>

definition build_snapshot :: "'s Board \<Rightarrow> bool \<Rightarrow> 's Firmware \<Rightarrow> f32 MachineSnapshot \<times> 's Firmware"
  where "build_snapshot bd asserted m =
    (let cfg = status_cfg m; offset = wco (coordinates m);
         (wr, include_wco_now) = should_include vec_differs (wco_reporter m) offset;
         ov = ovr (comms m);
         (or', include_ov_now) = should_include (\<noteq>) (ov_reporter m) ov;
         rpm = ucast (min (programmed_spindle_rpm m) 0xFFFF)
     in ((machine m)\<lparr>mpos_mm := steps_to_mm (read_live_position m) (sc_steps_per_mm cfg), wco_mm := offset,
           position_report := sc_position_report cfg, include_wco := include_wco_now,
           planner_blocks_free := Firmware_State.planner_blocks_free m, snap_overrides := ov,
           include_ov := include_ov_now,
           MachineSnapshot.feed_mm_min := (if live_rapid m then scaled_rapid ov (live_feed m)
                           else scaled_feed ov (live_feed m) (sc_min_axis_max_rate cfg)),
           spindle_rpm := scaled_rpm (bd_lm bd) ov rpm,
           snap_pins := PinReport_new_idle\<lparr>pr_probe := asserted, pr_limits := unpack_limit_mask (limit_levels m)\<rparr>,
           snap_state := report_state m\<rparr>,
         m\<lparr>wco_reporter := wr, ov_reporter := or'\<rparr>))"

text \<open>
  One turn of the reporter once \<^verbatim>\<open>STATUS_REQUEST\<close> fired; \<^verbatim>\<open>fmt0\<close> prints the feed and the
  stashed boot reports follow the first report.
\<close>

definition status_responder :: "(f32 \<Rightarrow> string) \<Rightarrow> bool \<Rightarrow> 's handler"
  where "status_responder fmt0 asserted bd m = do {
    let m = (on_comms (\<lambda>c. c\<lparr>status_request := False\<rparr>) m)\<lparr>comms_progress := comms_progress m + 1\<rparr>;
    (case build_snapshot bd asserted m of
       (snap, m) \<Rightarrow> do {
         m \<leftarrow> enqueue_formatted (status_report (bd_fmt3 bd) fmt0 fsub RESPONSE_CAPACITY snap []) bd m;
         m \<leftarrow> enqueue_all (case pending_reset_report m of Some t \<Rightarrow> single_line (message RESPONSE_CAPACITY t) | None \<Rightarrow> [])
                bd (m\<lparr>pending_reset_report := None\<rparr>);
         enqueue_all (enqueue_lines (message RESPONSE_CAPACITY) (pending_crash_report m)) bd
           (m\<lparr>pending_crash_report := []\<rparr>) }) }"

section \<open>The automatic report\<close>

definition AUTO_REPORT_FLOOR_MS :: u32
  where "AUTO_REPORT_FLOOR_MS = 50"

text \<open>In milliseconds.\<close>

definition effective_auto_report_interval :: "'s Firmware \<Rightarrow> u64 option"
  where "effective_auto_report_interval m =
    (if auto_report_suspended (comms m) then None
     else let interval = fw_auto_report_ms m in
       if interval = 0 then None else Some (ucast (max interval AUTO_REPORT_FLOOR_MS)))"

datatype AutoReportTurn = AR_Parked | AR_Due | AR_Woken

text \<open>
  One turn of the task: whether the wait was for the enable alone, or ended by the interval or by a
  wake; \<^verbatim>\<open>expired\<close> says whether the interval passed first.
\<close>

definition auto_report_turn :: "bool \<Rightarrow> 's Firmware \<Rightarrow> (AutoReportTurn \<times> 's Firmware) option"
  where "auto_report_turn expired m =
    (let woken = on_comms (\<lambda>c. c\<lparr>auto_report_wake := False\<rparr>) m in
     case effective_auto_report_interval m of
       None \<Rightarrow> if auto_report_wake (comms m) then Some (AR_Parked, woken) else None
     | Some period \<Rightarrow>
         if expired then Some (AR_Due, on_comms (\<lambda>c. c\<lparr>status_request := True\<rparr>) m)
         else if auto_report_wake (comms m) then Some (AR_Woken, woken) else None)"

end
