(* ===== verification/Consumer_Props.thy ===== *)
theory Consumer_Props
  imports Consumer_Stops Boot_Status
begin

text \<open>
  The properties of the consumer task and of the boot, with the small board and the states their
  witnesses run on.
\<close>

section \<open>A board for the witnesses\<close>

definition empty_codec :: coords_codec
  where "empty_codec = \<lparr>coordinates_size = (\<lambda>_. 0), encode_coordinates = (\<lambda>_. []), decode_coordinates = (\<lambda>_. None)\<rparr>"

text \<open>Its flash is empty and every write to it fails.\<close>

definition bare_store :: "unit record_store"
  where "bare_store = \<lparr>store_load = (\<lambda>n w. (w, Inl NotFound)), store_save = (\<lambda>bs w. (w, Inl StoreIo))\<rparr>"

definition bare_board :: "unit Board"
  where "bare_board =
    \<lparr>bd_lm = exact_libm, bd_fmt3 = (\<lambda>_. ''0.000''), bd_tick_hz = f32_of_int 1000000, bd_pb = no_codec,
     bd_pbc = empty_codec, bd_settings_store = bare_store, bd_coords_store = bare_store,
     bd_driver_status = \<lparr>ds_online = [], ds_initialized = False\<rparr>,
     bd_driver_probe = \<lparr>dp_stages = [], dp_initialized = False, dp_raw_ioin = None, dp_init_failure = None\<rparr>,
     bd_loopback = \<lparr>lb_ran = False, lb_got = 0, lb_matched = 0, lb_err = None\<rparr>,
     bd_bus_stats = \<lparr>bs_fail = [], bs_total = []\<rparr>, bd_truncated = [0, 0, 0, 0, 0]\<rparr>"

text \<open>A machine at rest in a mode, with lines received and a script for the other tasks.\<close>

definition rested :: "ControlState \<Rightarrow> u8 list list \<Rightarrow> Turn list list \<Rightarrow> unit Firmware"
  where "rested s lines turns =
    (let m = statics bare_board () [] turns [] in m\<lparr>comms := (Comms_new s)\<lparr>line_queue := lines\<rparr>\<rparr>)"

lemma rested_simps [simp]:
    "comms (rested s ls ts) = (Comms_new s)\<lparr>line_queue := ls\<rparr>" "script (rested s ls ts) = ts" "choices (rested s ls ts) = []"
    "answers (rested s ls ts) = []" "taken (rested s ls ts) = []" "settings_dirty (rested s ls ts) = False"
    "coordinates_dirty (rested s ls ts) = False" "planner (rested s ls ts) = None" "exec (rested s ls ts) = X_Top"
    "hard_limit_tripped (rested s ls ts) = False" "motion_fault (rested s ls ts) = False"
    "motion_parked (rested s ls ts) = False" "cst (rested s ls ts) = ConsumerState_default"
    "settings (rested s ls ts) = None" "fw_parser (rested s ls ts) = Parser_new"
    "spindle_direction (rested s ls ts) = SPINDLE_DIR_STOP" "live_position (rested s ls ts) = replicate AXES 0"
  by (simp_all add: rested_def statics_def)

lemma fresh_comms [simp]:
    "responses (Comms_new s) = []" "line_queue (Comms_new s) = []" "soft_reset_signal (Comms_new s) = False"
    "jog_cancel (Comms_new s) = False" "program_stop_signal (Comms_new s) = False" "control (Comms_new s) = s"
    "executor_running (Comms_new s) = False" "hold_requested (Comms_new s) = False"
    "motion_reset_pending (Comms_new s) = False" "motion_reset (Comms_new s) = False"
  by (simp_all add: Comms_new_def)

lemma enqueue_now:
  "length (responses (comms m)) < RESPONSE_QUEUE_DEPTH \<Longrightarrow>
   enqueue s bd m = Some (on_comms (\<lambda>c. c\<lparr>responses := responses c @ [s]\<rparr>) (m\<lparr>answers := answers m @ [s]\<rparr>))"
  by (simp add: enqueue_def await_def, subst await_turns.simps) (simp add: room_for_def List.map_filter_def)

section \<open>One answer per line\<close>

text \<open>
  C2: In every run of the consumer, over any number of turns of its loop and whatever the reader, the assembler,
  the transmitter, the executor and the timers do, the answers (ok and error lines) the consumer has queued
  never outnumber the lines it has taken, so a host that counts its lines can never be told of more room than
  there is by this task.
\<close>
theorem answers_never_exceed_lines:
  assumes "consumer_turns n bd m = Some m'" "answered m \<le> length (taken m)"
  shows "answered m' \<le> length (taken m')"
  using consumer_turns_settles [OF assms(1)] assms(2) by (simp add: settles_def)


text \<open>A machine with one line waiting takes it at once.\<close>

lemma takes_line:
  assumes "line_queue (comms m) = l # ls" "soft_reset_signal (comms m) = False" "jog_cancel (comms m) = False"
    "program_stop_signal (comms m) = False" "hard_limit_tripped m = False" "motion_fault m = False"
    "settings_dirty m = False" "coordinates_dirty m = False"
  shows "comms_consumer bd m = handle_event (Ev_Line l) bd
    (on_comms (\<lambda>c. c\<lparr>line_queue := ls\<rparr>) ((start_timer SETTINGS_FLUSH_SAFETY m)\<lparr>taken := taken m @ [l]\<rparr>))"
proof -
  have "await bd consumer_arms (start_timer SETTINGS_FLUSH_SAFETY m) = Some (Ev_Line l,
      on_comms (\<lambda>c. c\<lparr>line_queue := ls\<rparr>) ((start_timer SETTINGS_FLUSH_SAFETY m)\<lparr>taken := taken m @ [l]\<rparr>))"
    unfolding await_def using assms
    by (subst await_turns.simps) (simp add: consumer_arms_def on_line_def on_soft_reset_def on_jog_cancel_def on_timer_def
      on_hard_limit_def on_program_stop_def on_motion_fault_def List.map_filter_def start_timer_def)
  moreover have "flush_pending bd m = m" using assms(7,8) by (simp add: flush_pending_def)
  ultimately show ?thesis by (simp add: comms_consumer_def)
qed

lemma ack_now:
  "length (responses (comms m)) < RESPONSE_QUEUE_DEPTH \<Longrightarrow>
   ack_line bd m = Some (on_comms (\<lambda>c. c\<lparr>responses := responses c @ [''ok'' @ CRLF]\<rparr>)
     ((count_ack m)\<lparr>answers := answers m @ [''ok'' @ CRLF]\<rparr>))"
  by (simp add: ack_line_def write_ok_def write_str_def RESPONSE_CAPACITY_def enqueue_now count_ack_def)

theorem answers_never_exceed_lines_witness:
  "\<exists>m'. consumer_turns 1 bare_board (rested CS_Normal [[]] []) = Some m' \<and>
     answered m' = 1 \<and> length (taken m') = 1 \<and> answered m' \<le> length (taken m')"
proof -
  obtain m' where m': "consumer_turns 1 bare_board (rested CS_Normal [[]] []) = Some m'" "answered m' = 1" "taken m' = [[]]"
    by (simp add: takes_line handle_event_def handle_line_def trim_ascii_def ack_now RESPONSE_QUEUE_DEPTH_def
        answered_def terminal_def start_timer_def)
  from answers_never_exceed_lines [OF m'(1)] m' show ?thesis by (auto simp: answered_def)
qed

section \<open>Gates\<close>

text \<open>A rejection sends its error line last, after lines that answer nothing.\<close>

lemma reject_bare_answers:
  assumes "reject_bare code bd m = Some m'"
  shows "answers m' = answers m @ [''error:'' @ dec (unat code) @ CRLF]"
proof -
  have "length (dec (unat code)) \<le> 3" by (rule length_dec_u8)
  then have "write_error RESPONSE_CAPACITY code [] = (''error:'' @ dec (unat code) @ CRLF, Inr ())"
    by (simp add: write_error_def write_all_ok RESPONSE_CAPACITY_def del: write_all.simps(2))
  with assms have "enqueue (''error:'' @ dec (unat code) @ CRLF) bd (count_ack m) = Some m'"
    by (simp add: reject_bare_def)
  from enqueue_facts(1) [OF this] show ?thesis by (simp add: count_ack_def)
qed

lemma reject_line_answers:
  assumes "reject_line code bd m = Some m'"
  shows "\<exists>ctx. silent ctx \<and> answers m' = answers m @ ctx @ [''error:'' @ dec (unat code) @ CRLF]"
proof -
  obtain ctx r where c: "error_context RESPONSE_CAPACITY code [] = (ctx, r)" by fastforce
  from assms obtain m1 where m1: "reject_bare code bd m1 = Some m'"
    and before: "(case r of Inr _ \<Rightarrow> if ctx \<noteq> [] then enqueue ctx bd m else Some m | Inl _ \<Rightarrow> Some m) = Some m1"
    by (auto simp: reject_line_def c bind_eq_Some_conv split: sum.splits)
  have "\<exists>pre. silent pre \<and> answers m1 = answers m @ pre"
  proof (cases "enqueue ctx bd m = Some m1 \<and> r \<in> range Inr")
    case True
    then have "\<not> terminal ctx" using c error_context_silent by auto
    moreover have "answers m1 = answers m @ [ctx]" using True enqueue_facts(1) by blast
    ultimately show ?thesis by (intro exI [of _ "[ctx]"]) (simp add: silent_def)
  next
    case False
    then have "m1 = m" using before by (auto split: sum.splits if_splits)
    then show ?thesis by (intro exI [of _ "[]"]) (simp add: silent_def)
  qed
  with reject_bare_answers [OF m1] show ?thesis by auto
qed

lemma error_lines: "dec (unat ERROR_HOLD_CODE) = ''1''" "dec (unat ERROR_NOT_IDLE) = ''8''" "dec (unat ERROR_LOCKED) = ''9''"
  by code_simp+

lemma reject_bare_now: "reject_bare ERROR_HOLD_CODE bd m = enqueue (''error:1'' @ CRLF) bd (count_ack m)"
proof -
  have "dec 1 = ''1''" by code_simp
  then have "write_error RESPONSE_CAPACITY ERROR_HOLD_CODE [] = (''error:1'' @ CRLF, Inr ())"
    by (simp add: write_error_def write_all.simps(2) write_str_def RESPONSE_CAPACITY_def ERROR_HOLD_CODE_def)
  then show ?thesis by (simp add: reject_bare_def)
qed

lemma reject_now:
  assumes "length (responses (comms m)) + 1 < RESPONSE_QUEUE_DEPTH"
  shows "\<exists>m'. reject_line code bd m = Some m'"
proof -
  have bare: "\<exists>m'. reject_bare code bd m1 = Some m'" if "length (responses (comms m1)) < RESPONSE_QUEUE_DEPTH" for m1
    using that by (simp add: reject_bare_def enqueue_now count_ack_def split: prod.split sum.split)
  show ?thesis
    using assms bare [of m]
      bare [of "on_comms (\<lambda>c. c\<lparr>responses := responses c @ [ctx]\<rparr>) (m\<lparr>answers := answers m @ [ctx]\<rparr>)" for ctx]
    by (auto simp: reject_line_def enqueue_now split: prod.split sum.split)
qed

lemma reject_steady:
    "reject_bare code bd m = Some m' \<Longrightarrow> steady m' = steady m"
    "reject_line code bd m = Some m' \<Longrightarrow> steady m' = steady m"
proof -
  have bare: "steady m' = steady m" if "reject_bare code bd m = Some m'" for m m' :: "'a Firmware"
    using that by (auto simp: reject_bare_def count_ack_def steady_def dest!: enqueue_steady split: prod.splits sum.splits)
  then show "reject_bare code bd m = Some m' \<Longrightarrow> steady m' = steady m" .
  show "reject_line code bd m = Some m' \<Longrightarrow> steady m' = steady m"
    by (auto simp: reject_line_def bind_eq_Some_conv dest!: bare enqueue_steady split: prod.splits sum.splits if_splits)
qed

lemma refresh_jog_steady [simp]: "steady (refresh_jog_state m) = steady m"
  by (simp add: refresh_jog_state_def set_control_state_def steady_def)

text \<open>
  C15: While the error hold is set, or the machine is in an alarm or asleep, a G-code line is answered by exactly
  one error, after lines that answer nothing, and changes nothing: not the parser, the settings, the coordinates,
  the outputs or the planned position. The error is error:9; in the error hold it is error:1, with nothing before it.
\<close>
theorem gated_line_changes_nothing:
  assumes "error_hold (cst m) \<or> (\<exists>code. control_state m = CS_Alarm code) \<or> control_state m = CS_Sleep"
    and "plan_gcode_line line bd m = Some m'"
  shows "kept m' = kept m \<and> steady m' = steady m \<and> taken m' = taken m \<and> answered m' = answered m + 1 \<and>
    (\<exists>ctx. silent ctx \<and> (error_hold (cst m) \<longrightarrow> ctx = []) \<and>
       answers m' = answers m @ ctx @ [(if error_hold (cst m) then ''error:1'' else ''error:9'') @ CRLF])"
proof (cases "error_hold (cst m)")
  case True
  then have "reject_bare ERROR_HOLD_CODE bd m = Some m'"
    using assms(2) by (auto simp: plan_gcode_line_def gate_line_def bind_eq_Some_conv)
  moreover from this have "answers m' = answers m @ [''error:1'' @ CRLF]"
    using reject_bare_answers by (fastforce simp: error_lines)
  ultimately show ?thesis
    using True reject_bare_once reject_steady(1) by (fastforce simp: responded_def silent_def)
next
  case False
  have "control_state (refresh_jog_state m) = control_state m"
    using False assms(1) by (auto simp: refresh_jog_state_def)
  then have "reject_line ERROR_LOCKED bd (refresh_jog_state m) = Some m'"
    using False assms by (auto simp: plan_gcode_line_def gate_line_def bind_eq_Some_conv Let_def)
  then have "responded 1 (refresh_jog_state m) m'" "steady m' = steady m"
      "\<exists>ctx. silent ctx \<and> answers m' = answers (refresh_jog_state m) @ ctx @ [''error:9'' @ CRLF]"
    using reject_line_once reject_steady(2) reject_line_answers by (fastforce simp: error_lines)+
  moreover have "kept (refresh_jog_state m) = kept m" "answers (refresh_jog_state m) = answers m"
    by (simp_all add: refresh_jog_state_def set_control_state_def)
  ultimately show ?thesis using False by (simp add: responded_def answered_def)
qed

theorem gated_line_changes_nothing_witness:
  "\<exists>m'. plan_gcode_line (bytes ''G0X1'') bare_board (rested (CS_Alarm HomingRequired) [] []) = Some m' \<and>
     answered m' = 1 \<and> fw_parser m' = Parser_new"
proof -
  let ?m = "rested (CS_Alarm HomingRequired) [] []"
  have "\<exists>m'. plan_gcode_line (bytes ''G0X1'') bare_board ?m = Some m'"
    using reject_now [of ?m ERROR_LOCKED bare_board]
    by (auto simp: plan_gcode_line_def gate_line_def refresh_jog_state_def ConsumerState_default_def RESPONSE_QUEUE_DEPTH_def)
  then obtain m' where m': "plan_gcode_line (bytes ''G0X1'') bare_board ?m = Some m'" ..
  from gated_line_changes_nothing [OF _ m'] show ?thesis
    using m' by (auto simp: kept_def answered_def)
qed

lemma ack_facts:
  assumes "ack_line bd m = Some m'"
  shows "responded 1 m m' \<and> steady m' = steady m"
proof -
  from assms have "enqueue (''ok'' @ CRLF) bd (count_ack m) = Some m'"
    by (simp add: ack_line_def write_ok_def write_str_def RESPONSE_CAPACITY_def)
  from enqueue_steady [OF this] have "steady m' = steady m" by (simp add: steady_def count_ack_def)
  with ack_line_once [OF assms] show ?thesis by simp
qed

text \<open>What a checked line may still change of the modal bookkeeping: the active work system.\<close>

lemma checked_outputs:
  fixes m :: "'s Firmware" and parsed :: "GcodeError + PlannerCommand option"
  defines "m' \<equiv> drive_modal_outputs parsed CS_Check m"
  shows "steady m' = steady m" "spindle_direction m' = spindle_direction m" "coolant_state m' = coolant_state m"
    "cst m' = cst m" "settings m' = settings m" "flash m' = flash m" "comms m' = comms m"
  by (auto simp: m'_def drive_modal_outputs_def sync_active_wcs_def mark_coordinates_dirty_def push_wco_to_planner_def
      set_work_offset_def steady_def option.map_comp o_def Let_def split: option.split sum.split)



section \<open>Resets and stops\<close>

lemma reset_state_facts:
  fixes m :: "'s Firmware" and bd :: "'s Board"
  defines "m' \<equiv> reset_state bd m"
  shows "map_option pl_position (planner m') = Some (live_position m)" "emptied m'"
    "error_hold (cst m') = False" "pb (cst m') = PbReceiver_reset (pb (cst m))"
    "m_current_tool (pstate (fw_parser m')) = m_current_tool (pstate (fw_parser m))"
    "spindle_direction m' = SPINDLE_DIR_STOP" "coolant_state m' = 0" "settings m' = settings m" "flash m' = flash m"
    "c_offsets (coordinates m') = c_offsets (coordinates m)" "last_spindle_dir (cst m') = SpindleStop"
  by (simp_all add: m'_def reset_state_def small_defs reset_outputs_def Let_def emptied_def Planner_new_def
      sync_position_def set_work_offset_def read_live_position_def clear_volatile_def cancel_tlo_def clear_g92_def set_current_tool_def)

text \<open>
  C14: A warm reset puts the planner at the live position with nothing queued and no arc pending, so the next
  move starts where the machine stands; it clears the error hold and a half-received import, keeps the loaded
  tool, the work offsets, the settings and the flash, commands the outputs off, and sends the banner alone.
\<close>
theorem reset_keeps_position:
  assumes "reset_pipeline bd m = Some m'"
  shows "map_option pl_position (planner m') = Some (live_position m) \<and> emptied m' \<and> error_hold (cst m') = False \<and>
    pb (cst m') = PbReceiver_reset (pb (cst m)) \<and>
    m_current_tool (pstate (fw_parser m')) = m_current_tool (pstate (fw_parser m)) \<and>
    c_offsets (coordinates m') = c_offsets (coordinates m) \<and> settings m' = settings m \<and> flash m' = flash m \<and>
    spindle_direction m' = SPINDLE_DIR_STOP \<and> coolant_state m' = 0 \<and>
    answers m' = answers m @ [fst (write_banner RESPONSE_CAPACITY [])]"
proof -
  obtain s where s: "write_banner RESPONSE_CAPACITY [] = (s, Inr ())"
    by (simp add: write_banner_def write_all.simps(2) write_str_def VERSION_def RESPONSE_CAPACITY_def)
  with assms have e: "enqueue s bd (reset_state bd m) = Some m'"
    by (simp add: reset_pipeline_def send_banner_def enqueue_formatted_def)
  from enqueue_emptied [OF e] enqueue_steady [OF e] enqueue_facts [OF e] s show ?thesis
    using reset_state_facts [of bd m] by (simp add: kept_def steady_def)
qed

theorem reset_keeps_position_witness:
  "\<exists>m'. reset_pipeline bare_board (rested CS_Normal [] []) = Some m' \<and>
     map_option pl_position (planner m') = Some (replicate AXES 0)"
proof -
  have "\<exists>m'. reset_pipeline bare_board (rested CS_Normal [] []) = Some m'"
    by (simp add: reset_pipeline_def send_banner_def enqueue_formatted_def enqueue_now reset_state_def small_defs
        reset_outputs_def Let_def RESPONSE_QUEUE_DEPTH_def split: prod.split sum.split)
  then obtain m' where m': "reset_pipeline bare_board (rested CS_Normal [] []) = Some m'" ..
  from reset_keeps_position [OF m'] show ?thesis using m' by auto
qed

text \<open>
  C11: A graceful stop that runs to its end leaves the planner empty and at the position the machine stands at,
  the hold released, nothing buffered of the program, the modal state and the overrides at their defaults with
  the tool kept, the outputs commanded off, and answers nothing; otherwise a soft reset cut it short, its signal is
  still raised, and nothing the consumer owns has changed.
\<close>
theorem stop_leaves_nothing_running:
  assumes "program_stop_cycle bd m = Some m'" "program_stop_quiesces (control_state m)"
  shows "answers m' = answers m \<and> taken m' = taken m \<and>
    (soft_reset_signal (comms m') \<and> kept m' = kept m \<or>
     map_option pl_position (planner m') = map_option (\<lambda>_. live_position m') (planner m) \<and> emptied m' \<and>
     \<not> hold_requested (comms m') \<and> hold_wake (comms m') \<and>
     rx_pipe (comms m') = [] \<and> line_queue (comms m') = [] \<and> line_reset (comms m') \<and>
     ovr (comms m') = Overrides_new \<and> spindle_direction m' = SPINDLE_DIR_STOP \<and> coolant_state m' = 0 \<and>
     fw_parser m' = set_current_tool (m_current_tool (pstate (fw_parser m))) Parser_new \<and>
     c_active (coordinates m') = 0 \<and> settings m' = settings m \<and> flash m' = flash m)"
proof -
  define m0 where "m0 = on_planner (\<lambda>p. abort_arc (fst (flush_queue p))) m"
  from assms obtain r m1 where q: "quiesce_executor bd m0 = Some (r, m1)"
    by (auto simp: program_stop_cycle_def bind_eq_Some_conv m0_def)
  have own1: "answers m1 = answers m" "taken m1 = taken m" "kept m1 = kept m"
    using quiesce_own [OF q] by (simp_all add: m0_def own_eq)
  have "emptied m0"
    by (simp add: m0_def emptied_def flush_queue_def abort_arc_def flush_lookahead_def option.map_comp o_def split: option.split)
  with quiesce_emptied [OF q] have e1: "emptied m1" by simp
  have st: "map_option (\<lambda>_. x) (planner m1) = map_option (\<lambda>_. x) (planner m)" for x :: "i32 list"
    using quiesce_cases(2) [OF q] by (cases "planner m"; cases "planner m1") (auto simp: steady_def m0_def)
  show ?thesis
  proof (cases r)
    case ResetPreempted
    with assms q quiesce_cases(3) [OF q] own1 show ?thesis by (simp add: program_stop_cycle_def m0_def [symmetric])
  next
    case Parked
    define m2 where "m2 = drop_inbound (end_program (release_hold (sync_planner (read_live_position m1) m1)))"
    from assms q Parked have m': "m' = set_control_state (program_stop (control_state m2)) m2"
      by (simp add: program_stop_cycle_def m0_def [symmetric] m2_def Let_def)
    have kept1: "fw_parser m1 = fw_parser m" "settings m1 = settings m" "flash m1 = flash m"
      using own1(3) by (simp_all add: kept_def)
    have "emptied m2 \<and> map_option pl_position (planner m2) = map_option (\<lambda>_. live_position m1) (planner m1) \<and>
        live_position m2 = live_position m1"
      using e1 by (auto simp: m2_def emptied_def end_program_def sync_active_wcs_def small_defs Let_def sync_position_def
          set_work_offset_def read_live_position_def split: option.split)
    then show ?thesis
      using own1 kept1 st
      by (simp add: m' m2_def emptied_moved small_defs end_program_def sync_active_wcs_def select_wcs_def WCS_COUNT_def Let_def emptied_def)
  qed
qed

text \<open>An outcome of motion that moved nothing.\<close>

definition still :: MotionOutcome
  where "still = \<lparr>mo_position = replicate AXES 0, mo_published = replicate AXES 0, mo_fault = False, mo_levels = [],
    mo_triggered = False, mo_at_edge = False, mo_home = Inl HomingSink\<rparr>"

lemma top_parks:
  assumes "exec m = X_Top" "hold_requested (comms m)" "\<not> motion_reset_pending (comms m)"
  shows "executor_step bd arm o' m = m\<lparr>motion_parked := True, exec := X_Parked\<rparr>"
  using assms by (simp add: executor_step_def loop_top_def service_reset_def)

lemma stop_of_running_parks:
  assumes "exec m = X_Top" "\<not> motion_reset_pending (comms m)" "\<not> soft_reset_signal (comms m)" "script m = [[Motion 0 still]]"
  shows "\<exists>m'. quiesce_executor bd m = Some (Parked, m')"
proof -
  define m0 where "m0 = on_comms (\<lambda>c. c\<lparr>hold_requested := True, hold_wake := True\<rparr>) (m\<lparr>motion_parked := False\<rparr>)"
  define m1 where "m1 = executor_step bd 0 still (m0\<lparr>script := []\<rparr>)"
  have "m1 = m0\<lparr>script := [], motion_parked := True, exec := X_Parked\<rparr>"
    using assms by (simp add: m1_def top_parks m0_def)
  then have "on_motion_parked Parked m1 = Some (Parked, m1\<lparr>motion_parked := False\<rparr>)" "on_soft_reset ResetPreempted m1 = None"
    using assms by (simp_all add: on_motion_parked_def on_soft_reset_def m0_def)
  then have "await_turns bd [on_motion_parked Parked, on_soft_reset ResetPreempted] [] m1 =
      Some (Parked, m1\<lparr>motion_parked := False\<rparr>)"
    by (subst await_turns.simps) (simp add: List.map_filter_def)
  moreover have "on_motion_parked Parked m0 = None" "on_soft_reset ResetPreempted m0 = None"
    using assms by (simp_all add: on_motion_parked_def on_soft_reset_def m0_def)
  ultimately have "await bd [on_motion_parked Parked, on_soft_reset ResetPreempted] m0 = Some (Parked, m1\<lparr>motion_parked := False\<rparr>)"
    using assms unfolding await_def
    by (subst await_turns.simps) (simp add: List.map_filter_def m0_def [symmetric], simp add: m1_def m0_def)
  then show ?thesis by (simp add: quiesce_executor_def m0_def)
qed

theorem stop_leaves_nothing_running_witness:
  "\<exists>m'. program_stop_cycle bare_board (rested CS_Normal [bytes ''G1X9''] [[Motion 0 still]]) = Some m' \<and>
     answers m' = [] \<and> line_queue (comms m') = []"
proof -
  let ?m = "rested CS_Normal [bytes ''G1X9''] [[Motion 0 still]]"
  have ok: "program_stop_quiesces (control_state ?m)" by (simp add: program_stop_quiesces_def)
  obtain m1 where q: "quiesce_executor bare_board (on_planner (\<lambda>p. abort_arc (fst (flush_queue p))) ?m) = Some (Parked, m1)"
    using stop_of_running_parks [of "on_planner (\<lambda>p. abort_arc (fst (flush_queue p))) ?m" bare_board] by auto
  then obtain m' where m': "program_stop_cycle bare_board ?m = Some m'" and "line_queue (comms m') = []"
    using ok by (auto simp: program_stop_cycle_def drop_inbound_def set_control_state_def Let_def)
  with stop_leaves_nothing_running [OF m' ok] show ?thesis by auto
qed

text \<open>
  C12: A graceful stop asked for while the executor is already parked on a feed hold never completes: whatever
  the executor, the assembler, the transmitter and the timers do, as long as no real-time byte arrives, the
  consumer waits for a second acknowledgement of a park that is announced once.
\<close>
theorem stop_during_hold_never_returns:
  assumes "exec m = X_Parked" "hold_requested (comms m)" "\<not> soft_reset_signal (comms m)"
    and "\<not> motion_reset_pending (comms m)" "\<not> motion_reset (comms m)"
    and "program_stop_quiesces (control_state m)" "list_all (list_all host_silent) (script m)"
  shows "program_stop_cycle bd m = None"
proof -
  define m0 where "m0 = on_planner (\<lambda>p. abort_arc (fst (flush_queue p))) m"
  have "quiesce_executor bd m0 = quiesce_executor bd (m0\<lparr>motion_parked := False\<rparr>)"
    by (simp add: quiesce_executor_def)
  moreover have "parked_quietly (m0\<lparr>motion_parked := False\<rparr>)" using assms by (simp add: m0_def parked_quietly_def)
  moreover have "script (m0\<lparr>motion_parked := False\<rparr>) = script m" by (simp add: m0_def)
  ultimately have "quiesce_executor bd m0 = None"
    using quiesce_of_parked_never_ends [of "m0\<lparr>motion_parked := False\<rparr>" bd] assms(7) by simp
  with assms(6) show ?thesis by (simp add: program_stop_cycle_def m0_def)
qed

text \<open>The hold byte arrives, the executor parks, and then the stop is asked for.\<close>

definition held_machine :: "unit Firmware"
  where "held_machine =
    fold (env_step bare_board) [Rx (Read [0x21]), Motion 0 still] (rested CS_Normal [] [[Motion 0 still, Transmit], [Expire]])"

lemma held_machine_simps:
  "exec held_machine = X_Parked" "hold_requested (comms held_machine)" "control_state held_machine = CS_Hold False"
  "\<not> soft_reset_signal (comms held_machine)" "\<not> motion_reset_pending (comms held_machine)"
  "\<not> motion_reset (comms held_machine)" "script held_machine = [[Motion 0 still, Transmit], [Expire]]"
proof -
  define c where "c = usb_rx [0x21] ((Comms_new CS_Normal)\<lparr>line_queue := []\<rparr>)"
  have c: "hold_requested c" "control c = CS_Hold False" "\<not> soft_reset_signal c" "\<not> motion_reset_pending c" "\<not> motion_reset c"
    by (simp_all add: c_def usb_rx_def rx_byte_def classify_realtime_def feed_hold_def)
  show "exec held_machine = X_Parked" "hold_requested (comms held_machine)" "control_state held_machine = CS_Hold False"
    "\<not> soft_reset_signal (comms held_machine)" "\<not> motion_reset_pending (comms held_machine)"
    "\<not> motion_reset (comms held_machine)" "script held_machine = [[Motion 0 still, Transmit], [Expire]]"
    using c by (simp_all add: held_machine_def top_parks c_def [symmetric])
qed

theorem stop_during_hold_never_returns_witness:
  "program_stop_cycle bare_board held_machine = None"
  by (rule stop_during_hold_never_returns) (simp_all add: held_machine_simps program_stop_quiesces_def)

section \<open>Settings while moving\<close>

fun writes_settings :: "SystemCommand \<Rightarrow> bool"
  where
    "writes_settings (SetSetting _) = True"
  | "writes_settings (PbImport _) = True"
  | "writes_settings (StartupSet _ _) = True"
  | "writes_settings RestoreSettings = True"
  | "writes_settings RestoreParams = True"
  | "writes_settings RestoreAll = True"
  | "writes_settings _ = False"



text \<open>
  A direction the consumer has already dispatched is not dispatched again: after an alarm has forced the
  spindle off, the same start command with the same speed leaves it off.
\<close>

lemma recommanded_spindle_stays_off:
  assumes "last_spindle_dir (cst m) = m_spindle modal" and "last_spindle_rpm (cst m) = modal_rpm modal"
  shows "spindle_direction (sync_spindle_from_modal modal (force_spindle_off m)) = SPINDLE_DIR_STOP"
  using assms by (simp add: sync_spindle_from_modal_def force_spindle_off_def)

text \<open>
  A write that fails at the end of a burst is forgotten: the change is no longer marked as pending, so the safety
  timer will not try it again.
\<close>

lemma burst_flush_failure_is_forgotten:
  assumes "settings_dirty m" "line_queue (comms m) = []" "motion_idle m"
    and "\<And>s w. \<exists>e. snd (store_settings (bd_pb bd) (bd_settings_store bd) s w) = Inl e"
  shows "\<not> settings_dirty (flush_pending bd m)"
proof -
  obtain w e where "store_settings (bd_pb bd) (bd_settings_store bd) (settings_snapshot bd (m\<lparr>settings_dirty := False\<rparr>)) (flash m) = (w, Inl e)"
    using assms(4) by (metis prod.collapse)
  then have "\<not> settings_dirty (flush_settings bd False m)"
    using assms(1) by (simp add: flush_settings_def Let_def)
  then show ?thesis
    using assms(1-3) by (simp add: flush_pending_def Let_def flush_coordinates_def split: prod.split sum.split)
qed

section \<open>Queries\<close>

text \<open>
  C17: A read-only query is answered once, changes nothing the consumer owns and moves nothing; and it returns,
  whatever it prints, as soon as the transmitter runs as often as the channel needs: once for every response
  the query sends.
\<close>
theorem query_is_answered:
  assumes "is_readonly_query cmd"
  shows "(\<forall>m'. run_system_command cmd bd m = Some m' \<longrightarrow>
      answered m' = answered m + 1 \<and> taken m' = taken m \<and> kept m' = kept m) \<and>
    (drains (query_length cmd bd m) m \<longrightarrow> (\<exists>m'. run_system_command cmd bd m = Some m'))"
  using query_once [OF assms] query_returns [OF assms] by (auto simp: responded_def)

theorem query_is_answered_witness:
  "\<exists>m'. run_system_command EnumSettingGroups bare_board (rested CS_Normal [] (replicate 20 [Transmit])) = Some m' \<and>
     answered m' = 1"
proof -
  let ?m = "rested CS_Normal [] (replicate 20 [Transmit])"
  have "query_length EnumSettingGroups bare_board ?m \<le> 20"
    by (simp add: query_length_def enumerate_setting_groups_def, code_simp)
  then have "drains (query_length EnumSettingGroups bare_board ?m) ?m"
    by (auto simp: drains_def RESPONSE_QUEUE_DEPTH_def intro!: exI [of _ 20])
  with query_is_answered [of EnumSettingGroups bare_board ?m] show ?thesis by (auto simp: answered_def)
qed

section \<open>Boot\<close>

text \<open>What \<^verbatim>\<open>main\<close> leaves.\<close>

lemma boot_state:
  "let m = main_init bd suspect (statics bd w pins turns ks);
       enabled = homing_enabled (settings_snapshot bd m)
   in control_state m =
        (if suspect then CS_Alarm (wedge_reset_alarm enabled) else if enabled then CS_Alarm HomingRequired else CS_Normal) \<and>
      homed m = (\<not> suspect \<and> \<not> enabled) \<and> planner m \<noteq> None \<and> emptied m \<and>
      map_option pl_position (planner m) = Some (live_position m) \<and> answers m = []"
proof -
  obtain w1 s out where l: "load_reporting (bd_lm bd) (bd_pb bd) (bd_settings_store bd) w = (w1, s, out)"
    by (cases "load_reporting (bd_lm bd) (bd_pb bd) (bd_settings_store bd) w") auto
  obtain w2 cp where c: "coords_load_or_default (bd_pbc bd) (bd_coords_store bd) w1 = (w2, cp)" by fastforce
  show ?thesis
    by (simp add: main_init_def statics_def l c Let_def init_settings_def init_status_cfg_def init_control_state_def
        force_wedge_alarm_def init_limit_settings_def init_planner_def init_coordinates_def init_auto_report_def
        push_wco_to_planner_def store_homed_baseline_def set_control_state_def settings_snapshot_def boot_def
        emptied_def Planner_new_def set_work_offset_def)
qed

text \<open>
  C22: Whatever the flash holds, a machine with homing enabled, or whose last run left its position suspect, boots
  into an alarm, unhomed, and with a planner that has nothing queued; without either it boots idle and homed.
\<close>
theorem boot_is_locked:
  "let m = main_init bd suspect (statics bd w pins turns ks);
       enabled = homing_enabled (settings_snapshot bd m)
   in control_state m =
        (if suspect then CS_Alarm (wedge_reset_alarm enabled) else if enabled then CS_Alarm HomingRequired else CS_Normal) \<and>
      homed m = (\<not> suspect \<and> \<not> enabled) \<and> planner m \<noteq> None \<and> emptied m \<and>
      map_option pl_position (planner m) = Some (live_position m) \<and> answers m = []"
  by (rule boot_state)

end
