(* ===== verification/Watchdog_Props.thy ===== *)
theory Watchdog_Props
  imports Watchdog Consumer_Props
begin

unbundle bit_operations_syntax

text \<open>
  The watchdog: exactly when the feeder starves it, that a starved watchdog always leaves a marker on
  which the next boot locks the machine, that the marker of a stall which passed is not taken back, and the
  words in which the diagnostics are packed.
\<close>

section \<open>Packed words\<close>

lemma reason_words:
    "withhold_word Core1Motion = 0x57480001" "withhold_word Core0Comms = 0x57480002"
    "withhold_word DeadZone = 0x57480003" "withhold_word Core0ExecutorStall = 0x57480004"
  by (simp_all add: withhold_word_def WITHHOLD_TAG_def)

lemma reason_suspect: "position_suspect (withhold_word r)"
  by (cases r) (simp_all add: reason_words position_suspect_def withhold_was_wedge_def withhold_tag_ok_def WITHHOLD_TAG_def)

lemma reason_label: "withhold_label (withhold_word r) \<noteq> None"
  by (cases r) (simp_all add: reason_words withhold_label_def withhold_tag_ok_def WITHHOLD_TAG_def WithholdReason_from_u8_def)

lemma withhold_word_inj: "withhold_word r = withhold_word r' \<longleftrightarrow> r = r'"
  by (cases r; cases r') (simp_all add: reason_words)

lemma withhold_word_nonzero [simp]: "withhold_word r \<noteq> 0"
  by (cases r) (simp_all add: reason_words)

lemma verdict_depends: "verdict (s\<lparr>response_depth := min (response_depth s) 15, timeout_count := n\<rparr>) = verdict s"
  by (simp add: verdict_def min_def word_gt_0)

text \<open>A number of at most \<^verbatim>\<open>n\<close> bits has no others.\<close>

lemma small_bits:
  assumes "unat (w :: 'a :: len word) < 2 ^ n" "n \<le> i"
  shows "\<not> bit w i"
proof -
  have "take_bit n w = w"
    using assms(1) by (metis unsigned_take_bit_eq take_bit_nat_eq_self unsigned_word_eqI)
  then show ?thesis by (metis assms(2) bit_take_bit_iff not_less)
qed

lemma masked_field:
  fixes dp :: "'a :: len word"
  assumes dp: "\<And>i. k \<le> i \<Longrightarrow> \<not> bit dp i" and w: "\<And>i. n \<le> i \<Longrightarrow> i < n + k \<Longrightarrow> bit w i \<longleftrightarrow> bit (push_bit n dp) i"
    and k: "n + k \<le> LENGTH('a)"
  shows "drop_bit n (w AND push_bit n (mask k)) = dp"
proof (rule bit_word_eqI)
  fix i assume "i < LENGTH('a)"
  show "bit (drop_bit n (w AND push_bit n (mask k))) i = bit dp i"
  proof (cases "i < k")
    case True
    then show ?thesis
      using w [of "n + i"] k by (simp add: bit_drop_bit_eq bit_and_iff bit_push_bit_iff bit_mask_iff)
  next
    case False
    then show ?thesis
      using dp [of i] by (simp add: bit_drop_bit_eq bit_and_iff bit_push_bit_iff bit_mask_iff)
  qed
qed

lemma masked_tag:
  fixes t low :: "'a :: len word"
  assumes "\<And>i. n \<le> i \<Longrightarrow> \<not> bit low i" "\<And>i. bit t i \<Longrightarrow> n \<le> i"
  shows "(t OR low) AND push_bit n (- 1) = t"
  using assms by (intro bit_word_eqI) (auto simp: bit_or_iff bit_and_iff bit_push_bit_iff bit_not_iff bit_mask_iff not_less)

lemma tag_low:
  assumes "i < 16"
  shows "\<not> bit USB_TX_STALL_TAG i"
proof -
  have "USB_TX_STALL_TAG = push_bit 16 0x5554" by (simp add: USB_TX_STALL_TAG_def)
  then show ?thesis using assms by (metis bit_push_bit_iff not_le)
qed

text \<open>The low half of a packed stall.\<close>

definition stall_bits :: "UsbTxStall \<Rightarrow> u32"
  where "stall_bits s =
    (if data_free s then push_bit 0 1 else 0) OR (if serial_in_empty s then push_bit 1 1 else 0) OR
    (if motion_advancing s then push_bit 2 1 else 0) OR (if stall_executor_running s then push_bit 3 1 else 0) OR
    (if int_ena_armed s then push_bit 4 1 else 0) OR push_bit 6 (ucast (min (response_depth s) 15)) OR
    push_bit 10 (ucast (min (timeout_count s) 63))"

lemma pack_stall: "pack_usb_tx_stall s = USB_TX_STALL_TAG OR stall_bits s"
  by (simp only: pack_usb_tx_stall_def stall_bits_def Let_def DATA_FREE_def SERIAL_IN_EMPTY_def MOTION_ADVANCING_def
      EXECUTOR_RUNNING_BIT_def INT_ENA_ARMED_def RESPONSE_DEPTH_SHIFT_def TIMEOUT_COUNT_SHIFT_def TIMEOUT_COUNT_CLAMP_def
      if_distrib [of "\<lambda>x. _ OR x"] or.right_neutral or.assoc [symmetric])

lemma depth_bits: "4 \<le> i \<Longrightarrow> \<not> bit (ucast (min (d :: u8) 15) :: u32) i"
proof (rule small_bits)
  show "unat (ucast (min d 15) :: u32) < 2 ^ 4"
    using unsigned_less [of d] by (auto simp: unsigned_ucast_eq take_bit_nat_eq_self min_def word_le_nat_alt)
qed

lemma count_bits: "6 \<le> i \<Longrightarrow> \<not> bit (ucast (min (n :: u16) 63) :: u32) i"
proof (rule small_bits)
  show "unat (ucast (min n 63) :: u32) < 2 ^ 6"
    using unsigned_less [of n] by (auto simp: unsigned_ucast_eq take_bit_nat_eq_self min_def word_le_nat_alt)
qed

lemma stall_bits_iff:
  "bit (stall_bits s) i \<longleftrightarrow>
    (i = 0 \<and> data_free s) \<or> (i = 1 \<and> serial_in_empty s) \<or> (i = 2 \<and> motion_advancing s) \<or>
    (i = 3 \<and> stall_executor_running s) \<or> (i = 4 \<and> int_ena_armed s) \<or>
    (6 \<le> i \<and> i < 10 \<and> bit (ucast (min (response_depth s) 15) :: u32) (i - 6)) \<or>
    (10 \<le> i \<and> i < 16 \<and> bit (ucast (min (timeout_count s) 63) :: u32) (i - 10))"
proof -
  let ?d = "ucast (min (response_depth s) 15) :: u32" and ?n = "ucast (min (timeout_count s) 63) :: u32"
  have d: "bit (push_bit 6 ?d) i \<longleftrightarrow> 6 \<le> i \<and> i < 10 \<and> bit ?d (i - 6)"
    using depth_bits [of "i - 6" "response_depth s"] by (cases "i < 10") (simp_all add: bit_push_bit_iff)
  have n: "bit (push_bit 10 ?n) i \<longleftrightarrow> 10 \<le> i \<and> i < 16 \<and> bit ?n (i - 10)"
    using count_bits [of "i - 10" "timeout_count s"] by (cases "i < 16") (simp_all add: bit_push_bit_iff)
  have f: "bit (if b then push_bit k (1 :: u32) else 0) i \<longleftrightarrow> b \<and> i = k" if "k < 32" for b k
    using that by (auto simp del: push_bit_of_1 simp: bit_push_bit_iff bit_1_iff)
  show ?thesis
    unfolding stall_bits_def bit_or_iff d n by (auto simp only: f)
qed

lemma flag_bit:
  assumes "n < 16" "n < 5"
  shows "(USB_TX_STALL_TAG OR stall_bits s) AND push_bit n 1 \<noteq> 0 \<longleftrightarrow> bit (stall_bits s) n"
  using assms tag_low [of n] by (simp add: and_exp_eq_0_iff_not_bit push_bit_of_1 bit_or_iff)

text \<open>A packed stall decodes to what was packed, the depth and the count clamped to their fields.\<close>

lemma stall_decodes:
  "decode_usb_tx_stall (pack_usb_tx_stall s) =
    Some (s\<lparr>response_depth := min (response_depth s) 15, timeout_count := min (timeout_count s) 63\<rparr>)"
proof -
  let ?w = "USB_TX_STALL_TAG OR stall_bits s"
  let ?d = "ucast (min (response_depth s) 15) :: u32" and ?n = "ucast (min (timeout_count s) 63) :: u32"
  have ones: "0xFFFF0000 = push_bit 16 (- 1 :: u32)" by (simp add: mask_numeral)
  have tag: "?w AND 0xFFFF0000 = USB_TX_STALL_TAG"
    unfolding ones by (rule masked_tag) (simp add: stall_bits_iff, meson tag_low not_le)
  have d: "drop_bit 6 (?w AND push_bit 6 (mask 4)) = ?d"
    by (rule masked_field) (auto simp: depth_bits bit_or_iff tag_low stall_bits_iff bit_push_bit_iff)
  have n: "drop_bit 10 (?w AND push_bit 10 (mask 6)) = ?n"
    by (rule masked_field) (auto simp: count_bits bit_or_iff tag_low stall_bits_iff bit_push_bit_iff)
  have "ucast ?d = min (response_depth s) 15" "ucast ?n = min (timeout_count s) 63"
    by (auto intro!: bit_word_eqI simp: bit_ucast_iff)
  moreover have "(?w AND DATA_FREE \<noteq> 0) = data_free s" "(?w AND SERIAL_IN_EMPTY \<noteq> 0) = serial_in_empty s"
      "(?w AND MOTION_ADVANCING \<noteq> 0) = motion_advancing s" "(?w AND EXECUTOR_RUNNING_BIT \<noteq> 0) = stall_executor_running s"
      "(?w AND INT_ENA_ARMED \<noteq> 0) = int_ena_armed s"
    unfolding DATA_FREE_def SERIAL_IN_EMPTY_def MOTION_ADVANCING_def EXECUTOR_RUNNING_BIT_def INT_ENA_ARMED_def
    by (subst flag_bit; simp add: stall_bits_iff)+
  moreover have "drop_bit RESPONSE_DEPTH_SHIFT (?w AND RESPONSE_DEPTH_MASK) = ?d"
      "drop_bit TIMEOUT_COUNT_SHIFT (?w AND TIMEOUT_COUNT_MASK) = ?n"
    using d n by (simp_all add: RESPONSE_DEPTH_SHIFT_def TIMEOUT_COUNT_SHIFT_def RESPONSE_DEPTH_MASK_def
        TIMEOUT_COUNT_MASK_def mask_numeral del: push_bit_numeral)
  ultimately show ?thesis
    unfolding pack_stall decode_usb_tx_stall_def by (simp only: tag) simp
qed

section \<open>Counters of frozen beats\<close>

text \<open>The last \<^verbatim>\<open>k\<close> of \<^verbatim>\<open>n\<close> iterations, numbered from 1, all satisfy a condition.\<close>

definition last_all :: "nat \<Rightarrow> nat \<Rightarrow> (nat \<Rightarrow> bool) \<Rightarrow> bool"
  where "last_all k n P \<longleftrightarrow> k \<le> n \<and> (\<forall>i. n - k < i \<and> i \<le> n \<longrightarrow> P i)"

lemma last_all_0 [simp]: "last_all 0 n P" "last_all k 0 P \<longleftrightarrow> k = 0"
  by (auto simp: last_all_def)

lemma last_all_Suc [simp]: "last_all (Suc k) (Suc n) P \<longleftrightarrow> P (Suc n) \<and> last_all k n P"
  by (auto simp: last_all_def le_Suc_eq)

lemma last_all_cong: "(\<And>i. i \<le> n \<Longrightarrow> P i = Q i) \<Longrightarrow> last_all k n P = last_all k n Q"
  by (auto simp: last_all_def)

lemma unat_sat_inc: "unat (sat_inc (w :: 'a :: len word)) = (if w = - 1 then unat w else Suc (unat w))"
  using unatSuc [of w] by (auto simp: sat_inc_def add.commute eq_neg_iff_add_eq_0)

lemma last_all_last: "last_all (Suc k) n P \<Longrightarrow> P n"
  by (cases n) simp_all

text \<open>A saturating counter that a condition increments and its failure clears measures the run of the condition.\<close>

lemma counts_run:
  assumes "\<And>k. k \<le> M \<Longrightarrow> k \<le> unat c \<longleftrightarrow> last_all k n P" "M < unat (- 1 :: 'a word)"
    and "c' = (if P (Suc n) then sat_inc c else 0)" and "k \<le> M"
  shows "k \<le> unat (c' :: 'a :: len word) \<longleftrightarrow> last_all k (Suc n) P"
proof (cases k)
  case (Suc j)
  then have j: "j \<le> unat c \<longleftrightarrow> last_all j n P" using assms(1) [of j] assms(4) by simp
  show ?thesis
    using assms(2-4) j Suc by (auto simp: unat_sat_inc)
qed simp

section \<open>When the feeder withholds\<close>

text \<open>
  The statics an iteration reads are compared with those of the iteration before: \<^verbatim>\<open>h ! 0\<close> is what the task reads
  when it starts, \<^verbatim>\<open>h ! i\<close> what its \<^verbatim>\<open>i\<close>-th iteration reads.
\<close>

definition core1_still :: "Beats list \<Rightarrow> nat \<Rightarrow> bool"
  where "core1_still h i \<longleftrightarrow> block_in_flight (h ! i) \<and> motion_liveness (h ! i) = motion_liveness (h ! (i - 1))"

definition host_heard :: "Beats list \<Rightarrow> nat \<Rightarrow> bool"
  where "host_heard h i \<longleftrightarrow> (\<exists>j. i < j + 12 \<and> 1 \<le> j \<and> j \<le> i \<and> rx_beat (h ! j) \<noteq> rx_beat (h ! (j - 1)))"

text \<open>\<^verbatim>\<open>COMMS_PROGRESS\<close> stands still: no line taken, no status reply, no response transmitted.\<close>

definition comms_still :: "Beats list \<Rightarrow> nat \<Rightarrow> bool"
  where "comms_still h i \<longleftrightarrow> host_heard h i \<and> comms_beat (h ! i) = comms_beat (h ! (i - 1))"

definition withheld_for :: "Beats list \<Rightarrow> WithholdReason option"
  where "withheld_for h =
    (if last_all 8 (length h - 1) (core1_still h) then Some Core1Motion
     else if last_all 6 (length h - 1) (comms_still h) then Some Core0Comms
     else None)"

definition counted :: "Beats list \<Rightarrow> Feeder \<Rightarrow> bool"
  where "counted h f \<longleftrightarrow>
    last_core1 f = motion_liveness (last h) \<and> last_comms f = comms_beat (last h) \<and> last_rx f = rx_beat (last h) \<and>
    (\<forall>k \<le> 16. k \<le> unat (core1_frozen f) \<longleftrightarrow> last_all k (length h - 1) (core1_still h)) \<and>
    (\<forall>k \<le> 12. k \<le> unat (rx_idle f) \<longleftrightarrow>
      (\<forall>j. length h - 1 < j + k \<and> 1 \<le> j \<and> j \<le> length h - 1 \<longrightarrow> rx_beat (h ! j) = rx_beat (h ! (j - 1)))) \<and>
    (\<forall>k \<le> 16. k \<le> unat (comms_frozen f) \<longleftrightarrow> last_all k (length h - 1) (comms_still h))"

lemma counted_new: "counted [b] (Feeder_new b)"
  by (auto simp: counted_def Feeder_new_def RX_ACTIVE_TICKS_def)

lemma heard_append: "i < length h \<Longrightarrow> host_heard (h @ [b]) i = host_heard h i"
  unfolding host_heard_def by (intro ex_cong1 conj_cong refl) (simp add: nth_append less_imp_diff_less)

lemma still_append:
    "i < length h \<Longrightarrow> core1_still (h @ [b]) i = core1_still h i"
    "i < length h \<Longrightarrow> comms_still (h @ [b]) i = comms_still h i"
  by (simp_all add: core1_still_def comms_still_def heard_append nth_append less_imp_diff_less)

lemma recent_Suc:
  "(\<forall>j. Suc n < j + Suc m \<and> 1 \<le> j \<and> j \<le> Suc n \<longrightarrow> E j) \<longleftrightarrow> E (Suc n) \<and> (\<forall>j. n < j + m \<and> 1 \<le> j \<and> j \<le> n \<longrightarrow> E j)"
    (is "?L \<longleftrightarrow> ?R")
proof
  assume L: ?L
  have "E (Suc n)" using L [rule_format, of "Suc n"] by simp
  moreover have "E j" if "n < j + m \<and> 1 \<le> j \<and> j \<le> n" for j using L [rule_format, of j] that by simp
  ultimately show ?R by blast
qed (auto simp: le_Suc_eq)

lemma idle_run:
  fixes c :: "'a :: len word"
  assumes "m \<le> unat c \<longleftrightarrow> (\<forall>j. n < j + m \<and> 1 \<le> j \<and> j \<le> n \<longrightarrow> E j)" "m < unat (- 1 :: 'a word)"
    and "c' = (if E (Suc n) then sat_inc c else 0)"
  shows "Suc m \<le> unat c' \<longleftrightarrow> (\<forall>j. Suc n < j + Suc m \<and> 1 \<le> j \<and> j \<le> Suc n \<longrightarrow> E j)"
  unfolding recent_Suc assms(3) using assms(1,2) by (auto simp: unat_sat_inc)

lemma counted_step:
  assumes "counted h f" "h \<noteq> []"
  shows "counted (h @ [b]) (count_beats b f)"
proof -
  obtain n where n: "length h = Suc n" using assms(2) by (cases h) auto
  let ?h = "h @ [b]" and ?g = "count_beats b f"
  have lst: "last_core1 f = motion_liveness (h ! n)" "last_comms f = comms_beat (h ! n)" "last_rx f = rx_beat (h ! n)"
    and c1: "j \<le> 16 \<Longrightarrow> j \<le> unat (core1_frozen f) \<longleftrightarrow> last_all j n (core1_still h)"
    and c0: "j \<le> 16 \<Longrightarrow> j \<le> unat (comms_frozen f) \<longleftrightarrow> last_all j n (comms_still h)"
    and rx: "j \<le> 12 \<Longrightarrow> j \<le> unat (rx_idle f) \<longleftrightarrow>
      (\<forall>i. n < i + j \<and> 1 \<le> i \<and> i \<le> n \<longrightarrow> rx_beat (h ! i) = rx_beat (h ! (i - 1)))" for j
    using assms by (simp_all add: counted_def last_conv_nth n)
  have at: "?h ! Suc n = b" "?h ! n = h ! n" "Suc n - 1 = n" by (simp_all add: nth_append n)
  have big: "16 < unat (- 1 :: u32)" by (simp add: unsigned_minus_1_eq_mask mask_eq_exp_minus_1)
  have same: "last_all j n (core1_still ?h) = last_all j n (core1_still h)"
      "last_all j n (comms_still ?h) = last_all j n (comms_still h)" for j
    by (rule last_all_cong, simp add: still_append n)+
  have g1: "core1_frozen ?g = (if core1_still ?h (Suc n) then sat_inc (core1_frozen f) else 0)"
    by (simp only: core1_still_def at) (simp add: count_beats_def Let_def lst)
  have C1: "k \<le> unat (core1_frozen ?g) \<longleftrightarrow> last_all k (Suc n) (core1_still ?h)" if "k \<le> 16" for k
    by (rule counts_run [where M = 16 and c = "core1_frozen f" and P = "core1_still ?h" and n = n, OF _ big g1 that])
       (simp only: c1 same)
  have RX: "k \<le> unat (rx_idle ?g) \<longleftrightarrow>
      (\<forall>j. Suc n < j + k \<and> 1 \<le> j \<and> j \<le> Suc n \<longrightarrow> rx_beat (?h ! j) = rx_beat (?h ! (j - 1)))" if "k \<le> 12" for k
  proof (cases k)
    case (Suc m)
    have "m \<le> 12" using that Suc by simp
    note rx [OF this]
    also have "(\<forall>j. n < j + m \<and> 1 \<le> j \<and> j \<le> n \<longrightarrow> rx_beat (h ! j) = rx_beat (h ! (j - 1))) \<longleftrightarrow>
        (\<forall>j. n < j + m \<and> 1 \<le> j \<and> j \<le> n \<longrightarrow> rx_beat (?h ! j) = rx_beat (?h ! (j - 1)))"
      by (intro all_cong1 imp_cong refl) (simp add: nth_append n less_imp_diff_less)
    finally have "m \<le> unat (rx_idle f) \<longleftrightarrow>
        (\<forall>j. n < j + m \<and> 1 \<le> j \<and> j \<le> n \<longrightarrow> rx_beat (?h ! j) = rx_beat (?h ! (j - 1)))" .
    moreover have "rx_idle ?g = (if rx_beat (?h ! Suc n) = rx_beat (?h ! (Suc n - 1)) then sat_inc (rx_idle f) else 0)"
      by (simp only: at) (simp add: count_beats_def Let_def lst)
    moreover have "m < unat (- 1 :: u32)" using that Suc big by simp
    ultimately show ?thesis
      unfolding Suc by (intro idle_run [where E = "\<lambda>j. rx_beat (?h ! j) = rx_beat (?h ! (j - 1))"])
  qed auto
  have host: "(rx_idle ?g < RX_ACTIVE_TICKS) = host_heard ?h (Suc n)"
  proof -
    have "rx_idle ?g < RX_ACTIVE_TICKS \<longleftrightarrow> \<not> 12 \<le> unat (rx_idle ?g)"
      by (simp add: word_less_nat_alt RX_ACTIVE_TICKS_def not_le)
    also have "\<dots> \<longleftrightarrow> host_heard ?h (Suc n)"
      unfolding RX [of 12, OF order_refl] host_heard_def by blast
    finally show ?thesis .
  qed
  have "comms_frozen ?g =
      (if rx_idle ?g < RX_ACTIVE_TICKS \<and> comms_beat b = last_comms f then sat_inc (comms_frozen f) else 0)"
    by (simp add: count_beats_def Let_def)
  then have g0: "comms_frozen ?g = (if comms_still ?h (Suc n) then sat_inc (comms_frozen f) else 0)"
    by (simp only: host comms_still_def at lst)
  have C0: "k \<le> unat (comms_frozen ?g) \<longleftrightarrow> last_all k (Suc n) (comms_still ?h)" if "k \<le> 16" for k
    by (rule counts_run [where M = 16 and c = "comms_frozen f" and P = "comms_still ?h" and n = n, OF _ big g0 that])
       (simp only: c0 same)
  have L: "length ?h - 1 = Suc n" "last ?h = b" by (simp_all add: n)
  show ?thesis
    unfolding counted_def L using C1 RX C0 by (simp add: count_beats_def Let_def)
qed

lemma verdict_counted: "counted h f \<Longrightarrow> feeder_verdict b f = withheld_for h"
  by (auto simp: counted_def feeder_verdict_def withheld_for_def Let_def DEAD_ZONE_BACKSTOP_ARMED_def
      FEED_CORE1_STALL_TICKS_def FEED_COMMS_STALL_TICKS_def word_le_nat_alt)

lemma counted_withheld [simp]: "counted h (f\<lparr>withheld := x\<rparr>) = counted h f"
  by (simp add: counted_def)

lemma fire_feeder [simp]:
    "feeder (stall_detector_fire d) = feeder d" "executor_alive (stall_detector_fire d) = executor_alive d"
    "last_executor_alive (stall_detector_fire d) = executor_alive d" "fed (stall_detector_fire d) = fed d"
  by (simp_all add: stall_detector_fire_def Let_def)

lemma feed_feeder:
    "feeder (watchdog_feed b d) = (count_beats b (feeder d))\<lparr>withheld := feeder_verdict b (count_beats b (feeder d))\<rparr>"
    "executor_alive (watchdog_feed b d) = executor_alive d + 1" "last_executor_alive (watchdog_feed b d) = last_executor_alive d"
    "fed (watchdog_feed b d) = fed d + (if feeder_verdict b (count_beats b (feeder d)) = None then 1 else 0)"
    "frozen_recovery_ticks (watchdog_feed b d) = frozen_recovery_ticks d"
  by (auto simp: watchdog_feed_def Let_def split: option.split)

fun feeds :: "DogEvent list \<Rightarrow> Beats list"
  where
    "feeds [] = []"
  | "feeds (Feed b # es) = b # feeds es"
  | "feeds (Fire # es) = feeds es"

lemma feeds_append [simp]: "feeds (es @ es') = feeds es @ feeds es'"
  by (induction es rule: feeds.induct) simp_all

lemma dog_run_snoc [simp]: "dog_run d (es @ [e]) = dog_step (dog_run d es) e" "dog_run d [] = d"
  by (simp_all add: dog_run_def)

lemma dog_run_Cons: "dog_run d (e # es) = dog_run (dog_step d e) es"
  by (simp add: dog_run_def)

lemma dog_counted:
  "counted (b0 # feeds es) (feeder (dog_run (Dog_new b0 bc) es)) \<and>
   withheld (feeder (dog_run (Dog_new b0 bc) es)) = withheld_for (b0 # feeds es)"
proof (induction es rule: rev_induct)
  case Nil
  then show ?case by (simp add: Dog_new_def counted_new withheld_for_def) (simp add: Feeder_new_def)
next
  case (snoc e es)
  then show ?case
    using counted_step [of "b0 # feeds es"] by (cases e) (simp_all add: feed_feeder verdict_counted)
qed

section \<open>What a starved watchdog leaves behind\<close>

text \<open>While the feeder withholds, the breadcrumb names its reason, or a stall of the executor that has not passed.\<close>

definition marked :: "Dog \<Rightarrow> bool"
  where "marked d \<longleftrightarrow> withheld (feeder d) \<noteq> Some Core0ExecutorStall \<and>
    (\<forall>r. withheld (feeder d) = Some r \<longrightarrow>
      bc_withhold (crumb d) = withhold_word r \<or>
      (bc_withhold (crumb d) = withhold_word Core0ExecutorStall \<and> last_executor_alive d = executor_alive d \<and> executor_alive d \<noteq> 0))"

lemma fire_word:
  "bc_withhold (crumb (stall_detector_fire d)) = bc_withhold (crumb d) \<or>
   bc_withhold (crumb (stall_detector_fire d)) = withhold_word Core0ExecutorStall \<and> executor_alive d \<noteq> 0 \<or>
   bc_withhold (crumb d) = withhold_word Core0ExecutorStall \<and>
     (executor_alive d = 0 \<or> executor_alive d \<noteq> last_executor_alive d)"
  by (auto simp: stall_detector_fire_def Let_def record_withhold_def clear_withhold_if_def EXECUTOR_STALL_TICKS_def)

lemma feeder_verdict_own: "feeder_verdict b f \<noteq> Some Core0ExecutorStall"
  by (simp add: feeder_verdict_def Let_def)

lemma marked_step: "marked d \<Longrightarrow> marked (dog_step d e)"
proof (cases e)
  case (Feed b)
  have "bc_withhold (crumb (watchdog_feed b d)) = withhold_word r"
    if "feeder_verdict b (count_beats b (feeder d)) = Some r" for r
    using that by (simp add: watchdog_feed_def Let_def record_withhold_def)
  with Feed show ?thesis by (simp add: marked_def feed_feeder feeder_verdict_own)
next
  case Fire
  assume "marked d"
  with Fire fire_word [of d] show ?thesis
    by (auto simp: marked_def withhold_word_inj)
qed

lemma marked_run: "marked d \<Longrightarrow> marked (dog_run d es)"
  by (induction es rule: rev_induct) (simp_all add: marked_step)

lemma marked_new: "marked (Dog_new b0 bc)"
  by (simp add: marked_def Dog_new_def Feeder_new_def)

lemma starved_is_suspect:
  "withheld (feeder (dog_run (Dog_new b0 bc) es)) \<noteq> None \<Longrightarrow>
   position_suspect (bc_withhold (crumb (dog_run (Dog_new b0 bc) es)))"
  using marked_run [OF marked_new, of b0 bc es] by (auto simp: marked_def reason_suspect)

section \<open>A stall that has passed\<close>

text \<open>
  The feeder's iterations are 500 ms apart and the interrupts 250 ms: at least two interrupts fall between any two
  iterations; \<^verbatim>\<open>k\<close> is the number of interrupts since the last one.
\<close>

fun paced :: "nat \<Rightarrow> DogEvent list \<Rightarrow> bool"
  where
    "paced k [] = True"
  | "paced k (Fire # es) = paced (Suc k) es"
  | "paced k (Feed b # es) = (2 \<le> k \<and> paced 0 es)"

definition stall_marked :: "nat \<Rightarrow> Dog \<Rightarrow> bool"
  where "stall_marked k d \<longleftrightarrow>
    bc_withhold (crumb d) = withhold_word Core0ExecutorStall \<and> executor_alive d \<noteq> 0 \<and>
    (k = 0 \<longrightarrow> last_executor_alive d \<noteq> executor_alive d \<and> last_executor_alive d \<noteq> - 1 \<and> frozen_recovery_ticks d = 0) \<and>
    (1 \<le> k \<longrightarrow> last_executor_alive d = executor_alive d) \<and> (2 \<le> k \<longrightarrow> frozen_recovery_ticks d = 0)"

lemma fire_frozen:
  assumes "executor_alive d \<noteq> 0" "last_executor_alive d = executor_alive d"
  shows "frozen_recovery_ticks (stall_detector_fire d) = 0"
    and "bc_withhold (crumb d) = withhold_word Core0ExecutorStall \<Longrightarrow>
      bc_withhold (crumb (stall_detector_fire d)) = withhold_word Core0ExecutorStall"
  using assms by (simp_all add: stall_detector_fire_def Let_def record_withhold_def)

lemma fire_advanced:
  assumes "executor_alive d \<noteq> last_executor_alive d" "last_executor_alive d \<noteq> - 1" "frozen_recovery_ticks d = 0"
  shows "bc_withhold (crumb (stall_detector_fire d)) = bc_withhold (crumb d)"
  using assms by (simp add: stall_detector_fire_def Let_def EXECUTOR_STALL_TICKS_def FROZEN_RECOVERY_DEBOUNCE_TICKS_def
      word_le_nat_alt)

lemma stall_marked_fire:
  assumes "stall_marked k d"
  shows "stall_marked (Suc k) (stall_detector_fire d)"
proof (cases "k = 0")
  case True
  then show ?thesis using assms fire_advanced [of d] by (auto simp: stall_marked_def)
next
  case False
  then show ?thesis using assms fire_frozen [of d] by (simp add: stall_marked_def)
qed

lemma stall_marked_feed:
  assumes "stall_marked k d" "2 \<le> k" "withheld (feeder d) = None" "withheld (feeder (watchdog_feed b d)) = None"
    and "executor_alive d \<noteq> - 1"
  shows "stall_marked 0 (watchdog_feed b d)"
proof -
  have "executor_alive d + 1 \<noteq> 0" "executor_alive d + 1 \<noteq> executor_alive d"
    using assms(5) by (auto simp: eq_neg_iff_add_eq_0)
  moreover have "feeder_verdict b (count_beats b (feeder d)) = None"
    using assms(4) by (simp add: feed_feeder)
  moreover have "withheld (count_beats b (feeder d)) = None"
    using assms(3) by (simp add: count_beats_def Let_def)
  ultimately have "bc_withhold (crumb (watchdog_feed b d)) = bc_withhold (crumb d)"
    by (simp add: watchdog_feed_def Let_def bump_watchdog_heartbeat_def push_snapshot_def)
  with assms \<open>executor_alive d + 1 \<noteq> 0\<close> \<open>executor_alive d + 1 \<noteq> executor_alive d\<close> show ?thesis
    by (auto simp: stall_marked_def feed_feeder)
qed

text \<open>No iteration of a run withholds.\<close>

fun never_starved :: "Dog \<Rightarrow> DogEvent list \<Rightarrow> bool"
  where
    "never_starved d [] = (withheld (feeder d) = None)"
  | "never_starved d (e # es) = (withheld (feeder d) = None \<and> never_starved (dog_step d e) es)"

lemma never_starved_now: "never_starved d es \<Longrightarrow> withheld (feeder d) = None"
  by (cases es) simp_all

lemma stall_marked_run:
  assumes "stall_marked k d" "paced k es" "never_starved d es" "unat (executor_alive d) + length (feeds es) < 2 ^ 32 - 1"
  shows "bc_withhold (crumb (dog_run d es)) = withhold_word Core0ExecutorStall"
  using assms
proof (induction k es arbitrary: d rule: paced.induct)
  case (1 k)
  then show ?case by (simp add: stall_marked_def)
next
  case (2 k es)
  then show ?case by (simp add: dog_run_Cons stall_marked_fire)
next
  case (3 k b es)
  then have ne: "executor_alive d \<noteq> - 1" by (auto simp: unsigned_minus_1_eq_mask mask_eq_exp_minus_1)
  then have "unat (executor_alive d + 1) = Suc (unat (executor_alive d))"
    using unatSuc [of "executor_alive d"] by (simp add: add.commute eq_neg_iff_add_eq_0)
  with 3 ne show ?case
    by (auto simp: dog_run_Cons feed_feeder(2) intro!: "3.IH" stall_marked_feed never_starved_now)
qed

text \<open>The stall that precedes it: sixteen frozen samples record it.\<close>

definition stalling :: "nat \<Rightarrow> Dog \<Rightarrow> bool"
  where "stalling n d \<longleftrightarrow> executor_alive d \<noteq> 0 \<and> last_executor_alive d = executor_alive d \<and>
    (1 \<le> n \<longrightarrow> frozen_recovery_ticks d = 0) \<and>
    (bc_withhold (crumb d) = withhold_word Core0ExecutorStall \<or>
     \<not> stall_latched d \<and> n \<le> unat (executor_alive_frozen d) \<and> unat (executor_alive_frozen d) < 16)"

lemma stalling_fire:
  assumes "stalling n d"
  shows "stalling (Suc n) (stall_detector_fire d)"
proof -
  have frozen: "executor_alive d \<noteq> 0" "last_executor_alive d = executor_alive d"
    using assms by (simp_all add: stalling_def)
  show ?thesis
  proof (cases "bc_withhold (crumb d) = withhold_word Core0ExecutorStall")
    case True
    then show ?thesis using fire_frozen [OF frozen] frozen by (simp add: stalling_def)
  next
    case False
    then have d: "\<not> stall_latched d" "n \<le> unat (executor_alive_frozen d)" "unat (executor_alive_frozen d) < 16"
      using assms by (simp_all add: stalling_def)
    then have c: "unat (sat_inc (executor_alive_frozen d)) = Suc (unat (executor_alive_frozen d))"
      by (auto simp: unat_sat_inc unsigned_minus_1_eq_mask mask_eq_exp_minus_1)
    show ?thesis
      using fire_frozen(1) [OF frozen] frozen d c
      by (auto simp: stalling_def stall_detector_fire_def Let_def record_withhold_def EXECUTOR_STALL_TICKS_def word_le_nat_alt)
  qed
qed

lemma stalling_fires: "stalling n d \<Longrightarrow> stalling (n + k) (dog_run d (replicate k Fire))"
proof (induction k arbitrary: n d)
  case (Suc k)
  from Suc.IH [OF stalling_fire [OF Suc.prems]] show ?case by (simp add: dog_run_Cons)
qed simp

lemma stalled_is_marked:
  assumes "stalling 16 d"
  shows "stall_marked 2 d"
proof -
  have "bc_withhold (crumb d) = withhold_word Core0ExecutorStall" using assms by (auto simp: stalling_def)
  with assms show ?thesis by (simp add: stalling_def stall_marked_def)
qed

lemma beats_counted:
  assumes "length (feeds es) < 2 ^ 32 - 1"
  shows "unat (executor_alive (dog_run (Dog_new b0 bc) es)) = length (feeds es) \<and>
    (if last_executor_alive (dog_run (Dog_new b0 bc) es) = - 1
     then executor_alive_frozen (dog_run (Dog_new b0 bc) es) = 0 \<and> \<not> stall_latched (dog_run (Dog_new b0 bc) es)
     else unat (last_executor_alive (dog_run (Dog_new b0 bc) es)) \<le> length (feeds es))"
  using assms
proof (induction es rule: rev_induct)
  case Nil
  then show ?case by (simp add: Dog_new_def)
next
  case (snoc e es)
  let ?d = "dog_run (Dog_new b0 bc) es"
  have top: "unat (- 1 :: u32) = 2 ^ 32 - 1" by (simp add: unsigned_minus_1_eq_mask mask_eq_exp_minus_1)
  have alive: "unat (executor_alive ?d) = length (feeds es)" and le: "length (feeds es) < 2 ^ 32 - 1"
    using snoc by (cases e; simp)+
  then have ne: "executor_alive ?d \<noteq> - 1" using top by auto
  show ?case
  proof (cases e)
    case (Feed b)
    have "unat (executor_alive ?d + 1) = Suc (length (feeds es))"
      using unatSuc [of "executor_alive ?d"] ne alive by (simp add: add.commute eq_neg_iff_add_eq_0)
    moreover have "executor_alive_frozen (watchdog_feed b ?d) = executor_alive_frozen ?d"
        "stall_latched (watchdog_feed b ?d) = stall_latched ?d"
      by (auto simp: watchdog_feed_def Let_def split: option.split)
    ultimately show ?thesis using snoc Feed by (auto simp: feed_feeder)
  next
    case Fire
    then show ?thesis using ne alive by simp
  qed
qed

lemma stall_recorded:
  assumes "length (feeds es) + 1 < 2 ^ 32 - 1"
  shows "stall_marked 2 (dog_run (Dog_new b0 bc) (es @ Feed b # replicate 17 Fire))"
proof -
  let ?d = "dog_run (Dog_new b0 bc) (es @ [Feed b])"
  have n: "length (feeds (es @ [Feed b])) < 2 ^ 32 - 1" using assms by simp
  note counts = beats_counted [OF n, of b0 bc]
  have pos: "executor_alive ?d \<noteq> 0" using counts by auto
  have "stalling 0 (stall_detector_fire ?d)"
  proof (cases "last_executor_alive ?d = - 1")
    case True
    then have "executor_alive_frozen ?d = 0" "\<not> stall_latched ?d" using counts by simp_all
    with True pos show ?thesis
      by (simp add: stalling_def stall_detector_fire_def Let_def sat_inc_def EXECUTOR_STALL_TICKS_def word_le_nat_alt)
  next
    case False
    have "unat (last_executor_alive (dog_run (Dog_new b0 bc) es)) \<le> length (feeds es)"
      using beats_counted [of es b0 bc] False assms by (simp add: feed_feeder)
    then have "last_executor_alive ?d \<noteq> executor_alive ?d"
      using counts by (auto simp: feed_feeder)
    with False pos show ?thesis
      by (auto simp: stalling_def stall_detector_fire_def Let_def EXECUTOR_STALL_TICKS_def word_le_nat_alt)
  qed
  then have "stalling 16 (dog_run (stall_detector_fire ?d) (replicate 16 Fire))"
    using stalling_fires [of 0 _ 16] by simp
  moreover have "dog_run (stall_detector_fire ?d) (replicate 16 Fire) =
      dog_run (Dog_new b0 bc) (es @ Feed b # replicate 17 Fire)"
    by (simp add: dog_run_def eval_nat_numeral)
  ultimately show ?thesis by (simp add: stalled_is_marked)
qed

section \<open>The diagnostic counters\<close>

text \<open>The interrupt keeps the counter that the tracker of the library defines.\<close>

lemma fire_follows_tracker:
  assumes "tracker_last t = last_executor_alive d" "tracker_frozen_ticks t = executor_alive_frozen d"
  shows "tracker_last (fst (observe t (executor_alive d) n)) = last_executor_alive (stall_detector_fire d) \<and>
    tracker_frozen_ticks (fst (observe t (executor_alive d) n)) = executor_alive_frozen (stall_detector_fire d)"
  using assms by (simp add: observe_def stall_detector_fire_def Let_def)

text \<open>The windowed counter counts the time-outs among the last sixteen samples.\<close>

definition windowed :: "bool list \<Rightarrow> WindowedStallCounter"
  where "windowed ts = foldl (\<lambda>s t. fst (record_window s t)) WindowedStallCounter_new ts"

lemma windowed_bits:
  "bit (window (windowed ts)) i \<longleftrightarrow> i < 16 \<and> i < length ts \<and> ts ! (length ts - 1 - i)"
proof (induction ts arbitrary: i rule: rev_induct)
  case Nil
  then show ?case by (simp add: windowed_def WindowedStallCounter_new_def)
next
  case (snoc t ts)
  have w: "window (windowed (ts @ [t])) = push_bit 1 (window (windowed ts)) OR (if t then 1 else 0)"
    by (simp add: windowed_def record_window_def WINDOW_MASK_def STALL_WINDOW_LEN_def Let_def)
  have "bit (window (windowed (ts @ [t]))) i \<longleftrightarrow> 1 \<le> i \<and> i < 16 \<and> bit (window (windowed ts)) (i - 1) \<or> i = 0 \<and> t"
    unfolding w bit_or_iff bit_push_bit_iff by (auto simp: bit_1_iff)
  then show ?case
    unfolding snoc.IH by (cases i) (auto simp: nth_append not_less)
qed

text \<open>A run of write time-outs reaches the escape at its third.\<close>

lemma stall_escape:
  "snd (record_timeout c timed_out) \<longleftrightarrow> timed_out \<and> 2 \<le> unat (consecutive_timeouts c)"
  by (auto simp: record_timeout_def Let_def USB_TX_STALL_ESCAPE_K_def word_le_nat_alt unat_sat_inc
      unsigned_minus_1_eq_mask mask_eq_exp_minus_1)

section \<open>An idle board\<close>

lemma idle_not_withheld:
  assumes "set h \<subseteq> {b0}" "\<not> block_in_flight b0"
  shows "withheld_for h = None"
proof (cases h)
  case (Cons b t)
  have at: "h ! i = b0" if "i < length h" for i using subsetD [OF assms(1) nth_mem [OF that]] by simp
  have "\<not> core1_still h (length h - 1)" "\<not> host_heard h (length h - 1)"
    using at assms(2) Cons by (auto simp: core1_still_def host_heard_def)
  with last_all_last [of 7 "length h - 1" "core1_still h"] last_all_last [of 5 "length h - 1" "comms_still h"]
  show ?thesis by (auto simp: withheld_for_def comms_still_def)
qed (simp add: withheld_for_def)

lemma idle_never_starved:
  assumes "set (feeds (es @ es')) \<subseteq> {b0}" "\<not> block_in_flight b0"
  shows "never_starved (dog_run (Dog_new b0 bc) es) es'"
  using assms(1)
proof (induction es' arbitrary: es)
  case Nil
  then show ?case using dog_counted [of b0 es bc] idle_not_withheld [of "b0 # feeds es" b0] assms(2) by simp
next
  case (Cons e es')
  then have "never_starved (dog_run (Dog_new b0 bc) (es @ [e])) es'" by (intro Cons.IH) simp
  moreover have "withheld (feeder (dog_run (Dog_new b0 bc) es)) = None"
    using dog_counted [of b0 es bc] idle_not_withheld [of "b0 # feeds es" b0] assms(2) Cons.prems by simp
  ultimately show ?case by simp
qed

section \<open>Properties\<close>

text \<open>
  C37: However feeder iterations and timer interrupts interleave, the feeder withholds exactly when each of its last 8
  iterations saw a block in flight and the motion beat where it was before, or, failing that, each of the last 6
  saw the comms progress counter where it was before within 12 iterations of received bytes; so a board without
  a host and without motion is fed for ever.  The consumer, the status responder and the transmitter all bump that
  counter, so a host that only polls the status keeps the board fed.
\<close>
theorem feeder_withholds_exactly:
  "withheld (feeder (dog_run (Dog_new b0 bc) es)) = withheld_for (b0 # feeds es) \<and>
   fed (dog_run (Dog_new b0 bc) (es @ [Feed b])) =
     fed (dog_run (Dog_new b0 bc) es) + (if withheld_for (b0 # feeds es @ [b]) = None then 1 else 0)"
proof
  show "withheld (feeder (dog_run (Dog_new b0 bc) es)) = withheld_for (b0 # feeds es)"
    by (simp add: dog_counted)
  have "counted ((b0 # feeds es) @ [b]) (count_beats b (feeder (dog_run (Dog_new b0 bc) es)))"
    by (rule counted_step) (simp_all add: dog_counted)
  then show "fed (dog_run (Dog_new b0 bc) (es @ [Feed b])) =
     fed (dog_run (Dog_new b0 bc) es) + (if withheld_for (b0 # feeds es @ [b]) = None then 1 else 0)"
    by (simp add: feed_feeder verdict_counted)
qed

text \<open>
  C38: If the watchdog resets the board while the feeder withholds, the breadcrumb makes the position suspect and
  the next boot comes up in the wedge alarm, unhomed, whatever the flash holds.
\<close>
theorem starved_board_boots_locked:
  assumes "withheld (feeder (dog_run (Dog_new b0 bc) es)) \<noteq> None"
  shows "let word = bc_withhold (crumb (dog_run (Dog_new b0 bc) es));
             m = main_init bd (position_suspect word) (statics bd w pins turns ks)
         in withhold_label word \<noteq> None \<and> control_state m = CS_Alarm (wedge_reset_alarm (homing_enabled (settings_snapshot bd m))) \<and>
            \<not> homed m"
proof -
  have "position_suspect (bc_withhold (crumb (dog_run (Dog_new b0 bc) es)))"
    by (rule starved_is_suspect [OF assms])
  moreover have "withhold_label (bc_withhold (crumb (dog_run (Dog_new b0 bc) es))) \<noteq> None"
    using marked_run [OF marked_new, of b0 bc es] assms reason_label unfolding marked_def by fastforce
  ultimately show ?thesis
    using boot_state [of bd True w pins turns ks] by (simp add: Let_def)
qed

text \<open>
  C39: A stall of the executor that has passed locks the next boot all the same: after a full stall has been recorded,
  no run of feeder iterations that are at least two interrupts apart clears the breadcrumb, however long
  and however healthy it is, because two consecutive interrupts never both see the beat advance.
\<close>
theorem passed_stall_locks_next_boot:
  assumes "length (feeds es) + length (feeds es') < 2 ^ 32 - 2" "paced 2 es'"
    and "never_starved (dog_run (Dog_new b0 bc) (es @ Feed b # replicate 17 Fire)) es'"
  shows "let word = bc_withhold (crumb (dog_run (Dog_new b0 bc) (es @ Feed b # replicate 17 Fire @ es')));
             m = main_init bd (position_suspect word) (statics bd w pins turns ks)
         in word = withhold_word Core0ExecutorStall \<and>
            control_state m = CS_Alarm (wedge_reset_alarm (homing_enabled (settings_snapshot bd m)))"
proof -
  let ?s = "es @ Feed b # replicate 17 Fire"
  have f: "feeds (replicate n Fire) = []" for n by (induction n) simp_all
  have "unat (executor_alive (dog_run (Dog_new b0 bc) ?s)) = length (feeds es) + 1"
    using beats_counted [of ?s b0 bc] assms(1) f by simp
  then have "bc_withhold (crumb (dog_run (dog_run (Dog_new b0 bc) ?s) es')) = withhold_word Core0ExecutorStall"
    using assms by (intro stall_marked_run [OF stall_recorded]) auto
  moreover have "dog_run (dog_run (Dog_new b0 bc) ?s) es' = dog_run (Dog_new b0 bc) (?s @ es')"
    by (simp add: dog_run_def)
  ultimately show ?thesis
    using boot_state [of bd True w pins turns ks] reason_suspect [of Core0ExecutorStall] by (simp add: Let_def)
qed

section \<open>Instances\<close>

definition quiet_beats :: Beats
  where "quiet_beats = \<lparr>motion_liveness = 0, comms_beat = 0, rx_beat = 0, usb_tx_completed = 0, block_in_flight = False, response_backlog = 0\<rparr>"

definition no_crumb :: Breadcrumb
  where "no_crumb = \<lparr>bc_withhold = 0, bc_heartbeat = 0, bc_seq = 0, bc_head = 0, bc_ring = replicate RING_LEN \<lparr>snap_seq = 0, core0_beat = 0, core1_beat = 0\<rparr>\<rparr>"

lemma starved_board_boots_locked_witness:
  "let d = dog_run (Dog_new (quiet_beats\<lparr>block_in_flight := True\<rparr>) no_crumb) (replicate 8 (Feed (quiet_beats\<lparr>block_in_flight := True\<rparr>)));
       m = main_init bare_board (position_suspect (bc_withhold (crumb d))) (statics bare_board () [] [] [])
   in withheld (feeder d) = Some Core1Motion \<and> \<not> homed m"
proof -
  let ?b = "quiet_beats\<lparr>block_in_flight := True\<rparr>"
  have f: "feeds (replicate n (Feed ?b)) = replicate n ?b" for n by (induction n) simp_all
  have "withheld_for (?b # replicate 8 ?b) = Some Core1Motion"
    by (simp add: withheld_for_def last_all_def core1_still_def nth_Cons' eval_nat_numeral quiet_beats_def)
  then have w: "withheld (feeder (dog_run (Dog_new ?b no_crumb) (replicate 8 (Feed ?b)))) = Some Core1Motion"
    using dog_counted [of ?b "replicate 8 (Feed ?b)" no_crumb] by (simp only: f)
  then show ?thesis
    using starved_board_boots_locked [of ?b no_crumb "replicate 8 (Feed ?b)" bare_board "()" "[]" "[]" "[]"]
    by (simp add: Let_def)
qed

lemma passed_stall_locks_next_boot_witness:
  "let d = dog_run (Dog_new quiet_beats no_crumb) ([] @ Feed quiet_beats # replicate 17 Fire @ [Feed quiet_beats, Fire, Fire, Feed quiet_beats, Fire, Fire])
   in bc_withhold (crumb d) = withhold_word Core0ExecutorStall"
proof -
  have "never_starved (dog_run (Dog_new quiet_beats no_crumb) ([] @ Feed quiet_beats # replicate 17 Fire)) [Feed quiet_beats, Fire, Fire, Feed quiet_beats, Fire, Fire]"
    by (rule idle_never_starved) (simp_all add: eval_nat_numeral quiet_beats_def)
  from passed_stall_locks_next_boot [OF _ _ this, of bare_board "()" "[]" "[]" "[]"] show ?thesis
    by (simp add: Let_def)
qed

end
