(* ===== verification/Host_Engine.thy ===== *)
theory Host_Engine
  imports Core_Correct Line_Stream
begin

text \<open>
  The driver of the host's streaming core, \<^verbatim>\<open>crates/skirnir/src/engine.rs\<close>: the task that owns the
  transport, writes what the core grants, feeds it what arrives and polls the machine's status; and the back-off
  of \<^verbatim>\<open>reconnect.rs\<close>.

  The task is a step on the phase it waits in: the select of \<^verbatim>\<open>flush_realtime\<close>, that of
  \<^verbatim>\<open>write_pending_line\<close>, the one of the loop itself, or the flush at its end.  The input of a step is the arm that
  wins, with the time in milliseconds; whether a timer has fired is the environment's choice.  A write that
  resolves has put the count it returns on the wire; one that another arm cancels has written nothing, which is
  what the transport trait asks of its implementations.  Commands and events are the two
  channels of the handle.  The fields \<^verbatim>\<open>wire\<close>, \<^verbatim>\<open>granted\<close>, \<^verbatim>\<open>issued\<close> and \<^verbatim>\<open>aborts\<close> are histories.
\<close>

section \<open>Poll rate and time-outs\<close>

definition READ_CHUNK :: nat where "READ_CHUNK = 256"

definition STATUS_POLL_IDLE :: nat where "STATUS_POLL_IDLE = 200"

definition STATUS_POLL_RUN :: nat where "STATUS_POLL_RUN = 100"

definition poll_interval_for :: "HostRunState option \<Rightarrow> nat \<Rightarrow> nat"
  where "poll_interval_for s idle = (case s of Some HRS_Run \<Rightarrow> min STATUS_POLL_RUN idle | _ \<Rightarrow> idle)"

definition next_tick_delay :: "nat \<Rightarrow> nat \<Rightarrow> nat"
  where "next_tick_delay old new = min old new"

definition RESPONSE_STALL_TIMEOUT :: nat where "RESPONSE_STALL_TIMEOUT = 5000"

section \<open>Commands, events, state\<close>

datatype TransportError = TE_Closed | TE_Unresponsive | TE_Io string | TE_Open string

datatype Command =
    Cmd_StreamProgram "string list" | Cmd_SendLine string | Cmd_Realtime HostRealtime | Cmd_Disconnect

datatype 'f HostEvent =
    Ev_StateChanged ConnectionState | Ev_Response "'f Response" | Ev_Progress nat nat nat | Ev_Fault EngineError
  | Ev_Disconnected "TransportError option"

record EngineConfig =
  cfg_idle_poll :: nat
  cfg_rx_window :: "nat option"

definition EngineConfig_default :: EngineConfig
  where "EngineConfig_default = \<lparr>cfg_idle_poll = STATUS_POLL_IDLE, cfg_rx_window = None\<rparr>"

text \<open>A byte on the wire, of a program line or out of band.\<close>

datatype WireByte = W_Line u8 | W_Realtime u8

record 'f Driver =
  core :: ProtocolCore
  reassembler :: LineReassembler
  realtime_out :: "u8 list"
  lines_out :: "u8 list list"
  realtime_in_flight :: "(u8 list \<times> nat) option"
  line_in_flight :: "(u8 list \<times> nat) option"
  run_state :: "HostRunState option"
  idle_poll :: nat
  poll_interval :: nat
  next_poll :: nat
  last_inbound :: nat
  events :: "'f HostEvent list"
  wire :: "WireByte list"
  granted :: "u8 list list"
  issued :: "u8 list"
  aborts :: nat

definition emit :: "'f HostEvent \<Rightarrow> 'f Driver \<Rightarrow> 'f Driver"
  where "emit ev d = d\<lparr>events := events d @ [ev]\<rparr>"

fun apply_effect :: "'f Effect \<Rightarrow> 'f Driver \<Rightarrow> 'f Driver"
  where
    "apply_effect (WriteRealtime bs) d = d\<lparr>realtime_out := realtime_out d @ bs, issued := issued d @ bs\<rparr>"
  | "apply_effect (WriteLine l) d = d\<lparr>lines_out := lines_out d @ [l], granted := granted d @ [l]\<rparr>"
  | "apply_effect AbortQueued d = d\<lparr>lines_out := [], line_in_flight := None, aborts := aborts d + 1\<rparr>"
  | "apply_effect (StateChanged s) d = emit (Ev_StateChanged s) d"
  | "apply_effect (ResponseEff r) d = emit (Ev_Response r) d"
  | "apply_effect (Progress s a t) d = emit (Ev_Progress s a t) d"
  | "apply_effect (Fault e) d = emit (Ev_Fault e) d"

definition apply_effects :: "'f Effect list \<Rightarrow> 'f Driver \<Rightarrow> 'f Driver"
  where "apply_effects effects d = fold apply_effect effects d"

text \<open>An operation of the core and its effects.\<close>

definition with_core :: "(ProtocolCore \<Rightarrow> ProtocolCore \<times> 'f Effect list) \<Rightarrow> 'f Driver \<Rightarrow> 'f Driver"
  where "with_core f d = (case f (core d) of (c, effects) \<Rightarrow> apply_effects effects (d\<lparr>core := c\<rparr>))"

definition handle_command :: "Command \<Rightarrow> 'f Driver \<Rightarrow> 'f Driver"
  where "handle_command cmd d =
    (case cmd of
       Cmd_StreamProgram lines \<Rightarrow> with_core (\<lambda>c. on_stream_program c lines) d
     | Cmd_SendLine line \<Rightarrow> with_core (\<lambda>c. on_send_line c line) d
     | Cmd_Realtime rt \<Rightarrow> with_core (\<lambda>c. on_realtime c rt) d
     | Cmd_Disconnect \<Rightarrow> d)"

definition poll_status :: "'f Driver \<Rightarrow> 'f Driver"
  where "poll_status = with_core (\<lambda>c. on_realtime c H_StatusReport)"

definition handle_host_line :: "(string \<Rightarrow> ('f \<times> bool) option) \<Rightarrow> string \<Rightarrow> 'f Driver \<Rightarrow> 'f Driver"
  where "handle_host_line parse_f64 line d =
    (case parse_line parse_f64 line of
       None \<Rightarrow> d
     | Some response \<Rightarrow>
         let d = (case response of Status body \<Rightarrow> d\<lparr>run_state := Some (peek_run_state body)\<rparr> | _ \<Rightarrow> d)
         in with_core (\<lambda>c. on_response c response) d)"

definition handle_inbound ::
    "(string \<Rightarrow> ('f \<times> bool) option) \<Rightarrow> (u8 list \<Rightarrow> string) \<Rightarrow> u8 list \<Rightarrow> 'f Driver \<Rightarrow> 'f Driver"
  where "handle_inbound parse_f64 lossy bytes d =
    (case push_chunk lossy (reassembler d) bytes of
       (r, lines) \<Rightarrow> fold (handle_host_line parse_f64) lines (d\<lparr>reassembler := r\<rparr>))"

definition refresh_poll_interval :: "nat \<Rightarrow> 'f Driver \<Rightarrow> 'f Driver"
  where "refresh_poll_interval now d =
    (let desired = poll_interval_for (run_state d) (idle_poll d) in
     if desired = poll_interval d then d
     else d\<lparr>next_poll := now + next_tick_delay (poll_interval d) desired, poll_interval := desired\<rparr>)"

section \<open>The task\<close>

datatype Phase = At_Realtime | At_Line | At_Wait | At_Teardown "TransportError option" | Ended

record 'f Engine =
  driver :: "'f Driver"
  phase :: Phase

text \<open>The end of the loop: what is pending of the out-of-band bytes is flushed, best effort.\<close>

definition pending_realtime :: "'f Driver \<Rightarrow> u8 list"
  where "pending_realtime d =
    (case realtime_in_flight d of None \<Rightarrow> [] | Some (bytes, cursor) \<Rightarrow> drop cursor bytes) @ realtime_out d"

definition end_task :: "TransportError option \<Rightarrow> 'f Driver \<Rightarrow> 'f Engine"
  where "end_task reason d =
    \<lparr>driver = emit (Ev_Disconnected reason) (with_core on_disconnected d), phase = Ended\<rparr>"

definition tear_down :: "TransportError option \<Rightarrow> 'f Driver \<Rightarrow> 'f Engine"
  where "tear_down reason d =
    (if pending_realtime d \<noteq> [] then \<lparr>driver = d, phase = At_Teardown reason\<rparr> else end_task reason d)"

text \<open>The head of \<^verbatim>\<open>write_pending_line\<close>, or the third select when there is no line to write.\<close>

definition to_line :: "'f Driver \<Rightarrow> 'f Engine"
  where "to_line d =
    (if line_in_flight d \<noteq> None \<or> lines_out d \<noteq> []
     then \<lparr>driver = (if line_in_flight d = None
                     then d\<lparr>line_in_flight := Some (hd (lines_out d), 0), lines_out := tl (lines_out d)\<rparr> else d),
           phase = At_Line\<rparr>
     else \<lparr>driver = d, phase = At_Wait\<rparr>)"

text \<open>One turn of the loop of \<^verbatim>\<open>flush_realtime\<close>, up to its select or its end.\<close>

definition to_realtime :: "'f Driver \<Rightarrow> 'f Engine"
  where "to_realtime d =
    (let d = (if realtime_in_flight d = None \<and> realtime_out d \<noteq> []
              then d\<lparr>realtime_in_flight := Some (realtime_out d, 0), realtime_out := []\<rparr> else d)
     in if realtime_in_flight d = None then to_line d else \<lparr>driver = d, phase = At_Realtime\<rparr>)"

text \<open>The head of the loop.\<close>

definition to_top :: "nat \<Rightarrow> 'f Driver \<Rightarrow> 'f Engine"
  where "to_top now d =
    (let d = refresh_poll_interval now d in
     if RESPONSE_STALL_TIMEOUT \<le> now - last_inbound d then tear_down (Some TE_Unresponsive) d
     else to_realtime d)"

text \<open>Bytes that the transport has accepted.\<close>

definition put_realtime :: "nat \<Rightarrow> 'f Driver \<Rightarrow> 'f Driver"
  where "put_realtime n d =
    (case realtime_in_flight d of
       None \<Rightarrow> d
     | Some (bytes, cursor) \<Rightarrow>
         d\<lparr>wire := wire d @ map W_Realtime (take n (drop cursor bytes)),
           realtime_in_flight := (if length bytes \<le> cursor + n then None else Some (bytes, cursor + n))\<rparr>)"

definition put_line :: "nat \<Rightarrow> 'f Driver \<Rightarrow> 'f Driver"
  where "put_line n d =
    (case line_in_flight d of
       None \<Rightarrow> d
     | Some (bytes, cursor) \<Rightarrow>
         d\<lparr>wire := wire d @ map W_Line (take n (drop cursor bytes)),
           line_in_flight := (if length bytes \<le> cursor + n then None else Some (bytes, cursor + n))\<rparr>)"

text \<open>The arm of a select that wins.\<close>

datatype Arm =
    Arm_Command "Command option"
  | Arm_Tick
  | Arm_Written nat
  | Arm_WriteFailed TransportError
  | Arm_WriteStalled
  | Arm_Read "u8 list"
  | Arm_ReadFailed TransportError
  | Arm_Flushed nat

text \<open>How a write that resolved ends the loop, if it does.\<close>

definition write_failure :: "Arm \<Rightarrow> TransportError option"
  where "write_failure a =
    (case a of
       Arm_WriteFailed e \<Rightarrow> Some e
     | Arm_WriteStalled \<Rightarrow> Some TE_Unresponsive
     | Arm_Written n \<Rightarrow> if n = 0 then Some TE_Closed else None
     | _ \<Rightarrow> None)"

definition command_arm :: "('f Driver \<Rightarrow> 'f Engine) \<Rightarrow> Command option \<Rightarrow> 'f Driver \<Rightarrow> 'f Engine"
  where "command_arm again cmd d =
    (case cmd of
       None \<Rightarrow> tear_down None d
     | Some Cmd_Disconnect \<Rightarrow> tear_down None d
     | Some c \<Rightarrow> again (handle_command c d))"

definition flush_realtime :: "Arm \<Rightarrow> 'f Driver \<Rightarrow> 'f Engine"
  where "flush_realtime a d =
    (case a of
       Arm_Command cmd \<Rightarrow> command_arm to_realtime cmd d
     | _ \<Rightarrow>
         (case write_failure a of
            Some e \<Rightarrow> tear_down (Some e) d
          | None \<Rightarrow> (case a of Arm_Written n \<Rightarrow> to_realtime (put_realtime n d) | _ \<Rightarrow> \<lparr>driver = d, phase = At_Realtime\<rparr>)))"

definition write_pending_line :: "nat \<Rightarrow> Arm \<Rightarrow> 'f Driver \<Rightarrow> 'f Engine"
  where "write_pending_line now a d =
    (case a of
       Arm_Command cmd \<Rightarrow> command_arm (to_top now) cmd d
     | Arm_Tick \<Rightarrow> to_top now (poll_status d)
     | _ \<Rightarrow>
         (case write_failure a of
            Some e \<Rightarrow> tear_down (Some e) d
          | None \<Rightarrow> (case a of Arm_Written n \<Rightarrow> to_top now (put_line n d) | _ \<Rightarrow> \<lparr>driver = d, phase = At_Line\<rparr>)))"

definition wait_turn ::
    "(string \<Rightarrow> ('f \<times> bool) option) \<Rightarrow> (u8 list \<Rightarrow> string) \<Rightarrow> nat \<Rightarrow> Arm \<Rightarrow> 'f Driver \<Rightarrow> 'f Engine"
  where "wait_turn parse_f64 lossy now a d =
    (case a of
       Arm_Command cmd \<Rightarrow> command_arm (to_top now) cmd d
     | Arm_Tick \<Rightarrow> to_top now (poll_status d)
     | Arm_Read bytes \<Rightarrow>
         if bytes = [] then tear_down None d
         else to_top now (handle_inbound parse_f64 lossy (take READ_CHUNK bytes) (d\<lparr>last_inbound := now\<rparr>))
     | Arm_ReadFailed e \<Rightarrow> tear_down (Some e) d
     | _ \<Rightarrow> \<lparr>driver = d, phase = At_Wait\<rparr>)"

text \<open>The flush at the end writes a prefix of what is pending, all of it unless it fails or times out.\<close>

definition flush_turn :: "TransportError option \<Rightarrow> Arm \<Rightarrow> 'f Driver \<Rightarrow> 'f Engine"
  where "flush_turn reason a d =
    (case a of
       Arm_Flushed n \<Rightarrow>
         end_task reason (d\<lparr>wire := wire d @ map W_Realtime (take n (pending_realtime d)),
           realtime_in_flight := None, realtime_out := []\<rparr>)
     | _ \<Rightarrow> \<lparr>driver = d, phase = At_Teardown reason\<rparr>)"

definition engine_step ::
    "(string \<Rightarrow> ('f \<times> bool) option) \<Rightarrow> (u8 list \<Rightarrow> string) \<Rightarrow> 'f Engine \<Rightarrow> nat \<times> Arm \<Rightarrow> 'f Engine"
  where "engine_step parse_f64 lossy e i =
    (case i of (now, a) \<Rightarrow>
      (case phase e of
         At_Realtime \<Rightarrow> flush_realtime a (driver e)
       | At_Line \<Rightarrow> write_pending_line now a (driver e)
       | At_Wait \<Rightarrow> wait_turn parse_f64 lossy now a (driver e)
       | At_Teardown reason \<Rightarrow> flush_turn reason a (driver e)
       | Ended \<Rightarrow> e))"

text \<open>The driver that \<^verbatim>\<open>connect_with\<close> spawns, and the task up to its first select.\<close>

definition connect_with :: "EngineConfig \<Rightarrow> 'f Driver"
  where "connect_with cfg =
    (let idle = max 20 (min 200 (cfg_idle_poll cfg));
         c = (case cfg_rx_window cfg of Some w \<Rightarrow> pin_rx_window ProtocolCore_new w | None \<Rightarrow> ProtocolCore_new)
     in \<lparr>core = c, reassembler = LineReassembler_new, realtime_out = [], lines_out = [], realtime_in_flight = None,
         line_in_flight = None, run_state = None, idle_poll = idle, poll_interval = idle, next_poll = 0,
         last_inbound = 0, events = [], wire = [], granted = [], issued = [], aborts = 0\<rparr>)"

definition start_task :: "nat \<Rightarrow> 'f Driver \<Rightarrow> 'f Engine"
  where "start_task now d =
    (let d = with_core begin_handshake (with_core on_connected d)
     in to_top now (d\<lparr>next_poll := now + poll_interval d, last_inbound := now\<rparr>))"

definition engine_run ::
    "(string \<Rightarrow> ('f \<times> bool) option) \<Rightarrow> (u8 list \<Rightarrow> string) \<Rightarrow> EngineConfig \<Rightarrow> nat \<Rightarrow> (nat \<times> Arm) list \<Rightarrow> 'f Engine"
  where "engine_run parse_f64 lossy cfg now is = foldl (engine_step parse_f64 lossy) (start_task now (connect_with cfg)) is"

section \<open>Reconnecting\<close>

text \<open>Durations are in nanoseconds; the product saturates at the width of u128 and the result is cast to u64.\<close>

record ReconnectConfig =
  rc_base :: nat
  rc_factor :: u32
  rc_max_delay :: nat
  rc_max_attempts :: u32

definition ReconnectConfig_default :: ReconnectConfig
  where "ReconnectConfig_default =
    \<lparr>rc_base = 300000000, rc_factor = 2, rc_max_delay = 5000000000, rc_max_attempts = 6\<rparr>"

record ReconnectPolicy =
  rc_config :: ReconnectConfig
  rc_attempts :: u32

definition ReconnectPolicy_new :: "ReconnectConfig \<Rightarrow> ReconnectPolicy"
  where "ReconnectPolicy_new cfg = \<lparr>rc_config = cfg, rc_attempts = 0\<rparr>"

definition reconnect_enabled :: "ReconnectPolicy \<Rightarrow> bool"
  where "reconnect_enabled p \<longleftrightarrow> 0 < rc_max_attempts (rc_config p)"

definition reconnect_connected :: "ReconnectPolicy \<Rightarrow> ReconnectPolicy"
  where "reconnect_connected p = p\<lparr>rc_attempts := 0\<rparr>"

fun backoff_loop :: "nat \<Rightarrow> nat \<Rightarrow> u32 \<Rightarrow> nat \<Rightarrow> nat"
  where
    "backoff_loop 0 nanos factor max_nanos = (if max_nanos \<le> nanos then max_nanos else nanos mod 2 ^ 64)"
  | "backoff_loop (Suc k) nanos factor max_nanos =
      (let nanos = min (2 ^ 128 - 1) (nanos * unat factor) in
       if max_nanos \<le> nanos then max_nanos else backoff_loop k nanos factor max_nanos)"

definition backoff_delay :: "nat \<Rightarrow> u32 \<Rightarrow> u32 \<Rightarrow> nat \<Rightarrow> nat"
  where "backoff_delay base factor attempt max_delay = backoff_loop (unat attempt) base factor max_delay"

definition next_delay :: "ReconnectPolicy \<Rightarrow> ReconnectPolicy \<times> nat option"
  where "next_delay p =
    (let c = rc_config p in
     if rc_max_attempts c \<le> rc_attempts p then (p, None)
     else (p\<lparr>rc_attempts := rc_attempts p + 1\<rparr>,
           Some (backoff_delay (rc_base c) (rc_factor c) (rc_attempts p) (rc_max_delay c))))"

end
