(* ===== verification/Engine_Props.thy ===== *)
theory Engine_Props
  imports Host_Engine Realtime "HOL-Library.Sublist"
begin

text \<open>
  The engine's promise to the controller: what it frames on the wire are whole lines the core granted, in order,
  although every write may be cut short and every line pre-empted or abandoned; and the end of the task.
\<close>

section \<open>Lines with one terminator\<close>

text \<open>Bytes that are neither a command nor a terminator, and the texts and lines made of them.\<close>

definition plain :: "u8 \<Rightarrow> bool"
  where "plain b \<longleftrightarrow> classify_realtime b = None \<and> \<not> is_term b"

definition line_ok :: "u8 list \<Rightarrow> bool"
  where "line_ok l \<longleftrightarrow> (\<exists>p. l = p @ [LF] \<and> list_all plain p)"

definition clean_text :: "string \<Rightarrow> bool"
  where "clean_text s \<longleftrightarrow> list_all (\<lambda>c. plain (of_char c)) s"

lemma encode_line_ok:
  assumes "clean_text s"
  shows "line_ok (encode_line s)"
proof -
  have "list_all (\<lambda>c. plain (of_char c)) (trim_end_matches cs s)" for cs
    using assms by (auto simp: clean_text_def trim_end_matches_def list_all_iff dest: set_dropWhileD)
  then show ?thesis by (simp add: encode_line_def line_ok_def list_all_iff)
qed

lemma plain_not_LF: "plain b \<Longrightarrow> b \<noteq> LF"
  by (auto simp: plain_def is_term_def)

lemma line_ok_split:
  assumes "line_ok l"
  obtains p where "l = p @ [LF]" "list_all plain p" "LF \<notin> set p"
  using assms that plain_not_LF by (auto simp: line_ok_def list_all_iff)

section \<open>What the core's operations ask of the driver\<close>

text \<open>The bytes out of band, and whether the queue is abandoned.\<close>

fun rts :: "'f Effect list \<Rightarrow> u8 list"
  where
    "rts [] = []"
  | "rts (WriteRealtime bs # es) = bs @ rts es"
  | "rts (_ # es) = rts es"

lemma rts_append [simp]: "rts (a @ b) = rts a @ rts b"
  by (induction a rule: rts.induct) simp_all

definition resets :: "u8 \<Rightarrow> bool"
  where "resets b \<longleftrightarrow> classify_realtime b \<in> {Some SoftReset, Some Stop, Some ProgramStop}"

definition command_byte :: "u8 \<Rightarrow> bool"
  where "command_byte b \<longleftrightarrow> classify_realtime b \<noteq> None"

lemma command_byte_byte [simp]: "command_byte (byte c)"
  by (cases "plain_meaning c") (simp_all add: command_byte_def classify_plain classify_override)

text \<open>
  An operation is orderly if it keeps program lines whole and grants whole lines, if it grants none when it
  abandons the queue, if it sends a reset only then, and if all it sends out of band are commands.
\<close>

definition orderly :: "(ProtocolCore \<Rightarrow> ProtocolCore \<times> 'f Effect list) \<Rightarrow> bool"
  where "orderly f \<longleftrightarrow> (\<forall>c. list_all line_ok (program c) \<longrightarrow>
    list_all line_ok (program (fst (f c))) \<and> list_all line_ok (writes (snd (f c))) \<and>
    (AbortQueued \<in> set (snd (f c)) \<longrightarrow> writes (snd (f c)) = []) \<and>
    (list_ex resets (rts (snd (f c))) \<longrightarrow> AbortQueued \<in> set (snd (f c))) \<and> list_all command_byte (rts (snd (f c))))"

lemma silent_rts [simp]:
    "rts (snd (transition c s)) = []" "AbortQueued \<notin> set (snd (transition c s))"
    "rts (snd (emit_progress c)) = []" "AbortQueued \<notin> set (snd (emit_progress c))"
    "rts (snd (complete_if_drained c)) = []" "AbortQueued \<notin> set (snd (complete_if_drained c))"
    "rts (snd (adopt_lifecycle c r)) = []" "AbortQueued \<notin> set (snd (adopt_lifecycle c r))"
    "rts (snd (stop_effects c)) = []" "AbortQueued \<in> set (snd (stop_effects c))"
  by (auto simp: transition_def emit_progress_def complete_if_drained_def adopt_lifecycle_def stop_effects_def
      split: Response.split option.split)

lemma release_quiet [simp]:
    "rts (snd (release_ready_lines c)) = []" "AbortQueued \<notin> set (snd (release_ready_lines c))"
  by (induction c rule: release_induct) (simp_all add: release_stop release_go)

lemma release_ok [simp]:
  assumes "list_all line_ok (program c)"
  shows "list_all line_ok (program (fst (release_ready_lines c)))" "list_all line_ok (writes (snd (release_ready_lines c)))"
  using assms release_queue [of c] by (metis list_all_append)+

lemma advance_orderly: "orderly advance_stream"
  by (auto simp: orderly_def advance_stream_def)

lemma orderly_transition: "orderly (\<lambda>c. transition c s)"
  by (simp add: orderly_def)

lemma orderly_connected: "orderly on_connected"
  by (simp add: orderly_def on_connected_def)

lemma orderly_disconnected: "orderly on_disconnected"
  by (simp add: orderly_def on_disconnected_def)

lemma orderly_send: "clean_text l \<Longrightarrow> orderly (\<lambda>c. on_send_line c l)"
  by (auto simp: orderly_def on_send_line_def Let_def encode_line_ok split: sum.split bool.split)

lemma orderly_stream:
  assumes "\<forall>l \<in> set lines. clean_text l"
  shows "orderly (\<lambda>c. on_stream_program c lines)"
  unfolding orderly_def
proof (intro allI impI)
  fix c :: ProtocolCore
  show "list_all line_ok (program (fst (on_stream_program c lines :: _ \<times> 'f Effect list))) \<and>
    list_all line_ok (writes (snd (on_stream_program c lines :: _ \<times> 'f Effect list))) \<and>
    (AbortQueued \<in> set (snd (on_stream_program c lines :: _ \<times> 'f Effect list)) \<longrightarrow>
      writes (snd (on_stream_program c lines :: _ \<times> 'f Effect list)) = []) \<and>
    (list_ex resets (rts (snd (on_stream_program c lines :: _ \<times> 'f Effect list))) \<longrightarrow>
      AbortQueued \<in> set (snd (on_stream_program c lines :: _ \<times> 'f Effect list))) \<and>
    list_all command_byte (rts (snd (on_stream_program c lines :: _ \<times> 'f Effect list)))"
  proof (cases "load_lines (clear_program c) lines")
    case (Inr c1)
    then have "list_all line_ok (program c1)"
      using load_lines_ok [OF Inr] assms encode_line_ok by (auto simp: list_all_iff)
    with Inr show ?thesis by (simp add: on_stream_program_def Let_def)
  qed (simp add: on_stream_program_def Let_def)
qed

lemma stop_program [simp]: "program (fst (stop_effects c)) = []"
  by (simp add: stop_effects_def)

lemma orderly_realtime: "orderly (\<lambda>c. on_realtime c cmd)"
  by (cases cmd) (auto simp: orderly_def on_realtime_def resets_def command_byte_def classify_realtime_def)

lemma orderly_handshake: "orderly begin_handshake"
proof -
  have "clean_text ''$I''" by (simp add: clean_text_def plain_def classify_realtime_def is_term_def)
  from orderly_send [OF this] show ?thesis
    by (simp add: orderly_def begin_handshake_def resets_def command_byte_def classify_realtime_def)
qed

lemma advance_quiet [simp]:
    "rts (snd (advance_stream c)) = []" "AbortQueued \<notin> set (snd (advance_stream c))"
  by (simp_all add: advance_stream_def)

lemma advance_ok [simp]:
  assumes "list_all line_ok (program c)"
  shows "list_all line_ok (program (fst (advance_stream c)))" "list_all line_ok (writes (snd (advance_stream c)))"
  using assms by (simp_all add: advance_stream_def)

lemma ack_quiet [simp]:
    "rts (snd (on_ack c e)) = []" "AbortQueued \<notin> set (snd (on_ack c e))"
  by (simp_all add: on_ack_def Let_def split: prod.split sum.split)

lemma ack_ok [simp]:
  assumes "list_all line_ok (program c)"
  shows "list_all line_ok (program (fst (on_ack c e)))" "list_all line_ok (writes (snd (on_ack c e)))"
  using assms by (simp_all add: on_ack_def Let_def split: prod.split sum.split)

lemma response_quiet [simp]: "rts (snd (on_response c r)) = []"
  by (cases r) (simp_all add: on_response_def react_def)

lemma orderly_response: "orderly (\<lambda>c. on_response c r)"
  by (cases r) (simp_all add: orderly_def on_response_def react_def)

text \<open>All but a response abandon the queue only with a reset sent.\<close>

definition resetting :: "(ProtocolCore \<Rightarrow> ProtocolCore \<times> 'f Effect list) \<Rightarrow> bool"
  where "resetting f \<longleftrightarrow> (\<forall>c. AbortQueued \<in> set (snd (f c)) \<longrightarrow> list_ex resets (rts (snd (f c))))"

lemma resetting_ops:
    "resetting on_connected" "resetting on_disconnected" "resetting begin_handshake" "resetting (\<lambda>c. on_send_line c l)"
  by (auto simp: resetting_def on_connected_def on_disconnected_def begin_handshake_def on_send_line_def Let_def
      split: sum.split bool.split)

lemma resetting_realtime: "resetting (\<lambda>c. on_realtime c cmd)"
  by (cases cmd) (auto simp: resetting_def on_realtime_def resets_def classify_realtime_def split: if_splits)

lemma resetting_stream: "resetting (\<lambda>c. on_stream_program c lines)"
  by (auto simp: resetting_def on_stream_program_def Let_def split: sum.split)

section \<open>Applying effects\<close>

lemma apply_effects_simps [simp]:
    "apply_effects [] d = d" "apply_effects (e # es) d = apply_effects es (apply_effect e d)"
  by (simp_all add: apply_effects_def)

lemma emit_fields [simp]:
    "core (emit ev d) = core d" "wire (emit ev d) = wire d" "realtime_out (emit ev d) = realtime_out d"
    "realtime_in_flight (emit ev d) = realtime_in_flight d" "line_in_flight (emit ev d) = line_in_flight d"
    "lines_out (emit ev d) = lines_out d" "granted (emit ev d) = granted d" "issued (emit ev d) = issued d"
    "aborts (emit ev d) = aborts d" "events (emit ev d) = events d @ [ev]" "last_inbound (emit ev d) = last_inbound d"
    "poll_interval (emit ev d) = poll_interval d" "idle_poll (emit ev d) = idle_poll d" "run_state (emit ev d) = run_state d"
  by (simp_all add: emit_def)

lemma effects_fields [simp]:
    "core (apply_effects es d) = core d" "wire (apply_effects es d) = wire d"
    "realtime_in_flight (apply_effects es d) = realtime_in_flight d"
    "realtime_out (apply_effects es d) = realtime_out d @ rts es" "issued (apply_effects es d) = issued d @ rts es"
    "granted (apply_effects es d) = granted d @ writes es" "last_inbound (apply_effects es d) = last_inbound d"
  by (induction es arbitrary: d rule: rts.induct) simp_all

lemma effects_no_abort:
  assumes "AbortQueued \<notin> set es"
  shows "lines_out (apply_effects es d) = lines_out d @ writes es" "line_in_flight (apply_effects es d) = line_in_flight d"
    "aborts (apply_effects es d) = aborts d"
  using assms by (induction es arbitrary: d rule: rts.induct) simp_all

lemma effects_aborts: "aborts d \<le> aborts (apply_effects es d)"
proof (induction es arbitrary: d)
  case (Cons e es)
  have "aborts d \<le> aborts (apply_effect e d)" by (cases e) simp_all
  then show ?case using Cons [of "apply_effect e d"] by simp
qed simp

lemma effects_empty:
  assumes "lines_out d = []" "line_in_flight d = None" "writes es = []"
  shows "lines_out (apply_effects es d) = [] \<and> line_in_flight (apply_effects es d) = None"
  using assms by (induction es arbitrary: d rule: rts.induct) simp_all

lemma effects_abort:
  assumes "AbortQueued \<in> set es" "writes es = []"
  shows "lines_out (apply_effects es d) = []" "line_in_flight (apply_effects es d) = None"
    "aborts d < aborts (apply_effects es d)"
proof -
  have "lines_out (apply_effects es d) = [] \<and> line_in_flight (apply_effects es d) = None \<and> aborts d < aborts (apply_effects es d)"
    using assms
  proof (induction es arbitrary: d)
    case (Cons e es)
    show ?case
    proof (cases "e = AbortQueued")
      case True
      then show ?thesis
        using effects_empty [of "apply_effect e d" es] effects_aborts [of "apply_effect e d" es] Cons.prems by simp
    next
      case False
      then have "writes es = []" "AbortQueued \<in> set es" using Cons.prems by (cases e; simp)+
      moreover have "aborts (apply_effect e d) = aborts d" using False by (cases e) simp_all
      ultimately show ?thesis using Cons.IH [of "apply_effect e d"] by simp
    qed
  qed simp
  then show "lines_out (apply_effects es d) = []" "line_in_flight (apply_effects es d) = None"
    "aborts d < aborts (apply_effects es d)" by auto
qed

section \<open>What the controller frames\<close>

text \<open>
  The wire with its bytes marked: a line ends at its terminator and a partial one is dropped at a reset or a stop.
  What the firmware makes of the unmarked bytes follows in the section on its reading.
\<close>

fun frame_wire_byte :: "u8 list list \<times> u8 list \<Rightarrow> WireByte \<Rightarrow> u8 list list \<times> u8 list"
  where
    "frame_wire_byte (ls, part) (W_Line b) = (if b = LF then (ls @ [part @ [b]], []) else (ls, part @ [b]))"
  | "frame_wire_byte (ls, part) (W_Realtime b) = (ls, if resets b then [] else part)"

definition framed :: "WireByte list \<Rightarrow> u8 list list \<times> u8 list"
  where "framed w = foldl frame_wire_byte ([], []) w"

fun realtime_on :: "WireByte list \<Rightarrow> u8 list"
  where
    "realtime_on [] = []"
  | "realtime_on (W_Realtime b # w) = b # realtime_on w"
  | "realtime_on (W_Line b # w) = realtime_on w"

lemma realtime_on_append [simp]: "realtime_on (a @ b) = realtime_on a @ realtime_on b"
  by (induction a rule: realtime_on.induct) simp_all

lemma realtime_on_map [simp]: "realtime_on (map W_Realtime bs) = bs" "realtime_on (map W_Line bs) = []"
  by (induction bs) simp_all

lemma frame_realtime:
  "foldl frame_wire_byte (ls, part) (map W_Realtime bs) = (ls, if list_ex resets bs then [] else part)"
  by (induction bs arbitrary: part) simp_all

lemma frame_partial:
  "LF \<notin> set bs \<Longrightarrow> foldl frame_wire_byte (ls, part) (map W_Line bs) = (ls, part @ bs)"
  by (induction bs arbitrary: part) auto

lemma frame_line:
  assumes "line_ok l" "c < length l"
  shows "foldl frame_wire_byte (ls, take c l) (map W_Line (take n (drop c l))) =
    (if length l \<le> c + n then (ls @ [l], []) else (ls, take (c + n) l))"
proof -
  obtain p where l: "l = p @ [LF]" "LF \<notin> set p" using assms(1) by (rule line_ok_split)
  show ?thesis
  proof (cases "length l \<le> c + n")
    case True
    have c: "c \<le> length p" using assms(2) l by simp
    have "take n (drop c l) = drop c p @ [LF]" using True l c by simp
    moreover have "LF \<notin> set (drop c p)" using l(2) by (meson in_set_dropD)
    ultimately show ?thesis using True l c by (simp add: frame_partial)
  next
    case False
    then have "take n (drop c l) = take n (drop c p)" using l by simp
    moreover have "LF \<notin> set (take n (drop c p))" using l(2) by (meson in_set_dropD in_set_takeD)
    moreover have "take c l @ take n (drop c l) = take (c + n) l" by (simp add: take_add)
    ultimately show ?thesis using False by (simp add: frame_partial)
  qed
qed

lemma framed_append: "framed (w @ v) = foldl frame_wire_byte (framed w) v"
  by (simp add: framed_def)

text \<open>Marks that agree with what the firmware makes of the byte.\<close>

fun sorted_byte :: "WireByte \<Rightarrow> bool"
  where
    "sorted_byte (W_Line b) \<longleftrightarrow> b = LF \<or> plain b"
  | "sorted_byte (W_Realtime b) \<longleftrightarrow> command_byte b"

lemma sorted_map [simp]:
    "list_all sorted_byte (map W_Line bs) = list_all (\<lambda>b. b = LF \<or> plain b) bs"
    "list_all sorted_byte (map W_Realtime bs) = list_all command_byte bs"
  by (simp_all add: list.pred_map comp_def)

lemma list_all_part: "list_all P bs \<Longrightarrow> list_all P (take n (drop c bs))"
  by (meson in_set_dropD in_set_takeD list_all_iff)

lemma line_ok_sorted: "line_ok l \<Longrightarrow> list_all (\<lambda>b. b = LF \<or> plain b) l"
  by (auto simp: line_ok_def list_all_iff)

section \<open>The invariant of the driver\<close>

definition queued :: "'f Driver \<Rightarrow> u8 list list"
  where "queued d = (case line_in_flight d of None \<Rightarrow> [] | Some (l, c) \<Rightarrow> [l]) @ lines_out d"

definition wire_ok :: "'f Driver \<Rightarrow> bool"
  where "wire_ok d \<longleftrightarrow>
    list_all line_ok (program (core d)) \<and> list_all line_ok (lines_out d) \<and>
    (case line_in_flight d of
       None \<Rightarrow> snd (framed (wire d)) \<noteq> [] \<longrightarrow> list_ex resets (pending_realtime d)
     | Some (l, c) \<Rightarrow> line_ok l \<and> c < length l \<and> snd (framed (wire d)) = take c l \<and> \<not> list_ex resets (pending_realtime d)) \<and>
    (case realtime_in_flight d of None \<Rightarrow> True | Some (bs, c) \<Rightarrow> c < length bs) \<and>
    subseq (fst (framed (wire d)) @ queued d) (granted d) \<and>
    (aborts d = 0 \<longrightarrow> fst (framed (wire d)) @ queued d = granted d) \<and>
    realtime_on (wire d) @ pending_realtime d = issued d \<and> list_all command_byte (issued d) \<and> list_all sorted_byte (wire d)"

lemma with_core_fields:
    "core (with_core f d) = fst (f (core d))"
    "with_core f d = apply_effects (snd (f (core d))) (d\<lparr>core := fst (f (core d))\<rparr>)"
  by (simp_all add: with_core_def case_prod_beta)

lemma pending_effects: "pending_realtime (apply_effects es d) = pending_realtime d @ rts es"
  by (simp add: pending_realtime_def)

lemma wire_ok_with_core:
  assumes "wire_ok d" "orderly f" "line_in_flight d = None \<or> resetting f"
  shows "wire_ok (with_core f d)"
proof -
  let ?es = "snd (f (core d))" and ?d = "d\<lparr>core := fst (f (core d))\<rparr>"
  note W = assms(1) [unfolded wire_ok_def]
  from W assms(2) have f: "list_all line_ok (program (fst (f (core d))))" "list_all line_ok (writes ?es)"
      "AbortQueued \<in> set ?es \<Longrightarrow> writes ?es = []" "list_ex resets (rts ?es) \<Longrightarrow> AbortQueued \<in> set ?es"
      "list_all command_byte (rts ?es)"
    by (auto simp: orderly_def)
  have pd: "pending_realtime ?d = pending_realtime d" by (simp add: pending_realtime_def)
  show ?thesis
  proof (cases "AbortQueued \<in> set ?es")
    case False
    then have nr: "\<not> list_ex resets (rts ?es)" using f(4) by blast
    note e = effects_no_abort [OF False, of ?d]
    have q: "queued (apply_effects ?es ?d) = queued d @ writes ?es" by (simp add: queued_def e)
    show ?thesis
      unfolding wire_ok_def with_core_fields(2) effects_fields q pending_effects pd
      using W f(1,2,5) nr by (auto simp: e split: option.splits intro: list_emb_append_mono simp flip: append_assoc)
  next
    case True
    note w = f(3) [OF True]
    note e = effects_abort [OF True w, of ?d]
    have q: "queued (apply_effects ?es ?d) = []" by (simp add: queued_def e)
    have "line_in_flight d \<noteq> None \<Longrightarrow> list_ex resets (rts ?es)"
      using assms(3) True by (auto simp: resetting_def)
    moreover have "subseq (fst (framed (wire d))) (granted d)"
      using W subseq_order.trans [of "fst (framed (wire d))" "fst (framed (wire d)) @ queued d"] by auto
    ultimately show ?thesis
      unfolding wire_ok_def with_core_fields(2) effects_fields q pending_effects pd
      using W f(1,5) e(3) by (auto simp: e(1,2) w split: option.splits)
  qed
qed

lemma wire_ok_cong:
  assumes "wire_ok d" "core d' = core d" "lines_out d' = lines_out d" "line_in_flight d' = line_in_flight d"
    "wire d' = wire d" "realtime_in_flight d' = realtime_in_flight d" "realtime_out d' = realtime_out d" "granted d' = granted d"
    "issued d' = issued d" "aborts d' = aborts d"
  shows "wire_ok d'"
proof -
  have "queued d' = queued d" "pending_realtime d' = pending_realtime d"
    using assms by (simp_all add: queued_def pending_realtime_def)
  then show ?thesis using assms(1) unfolding wire_ok_def by (simp only: assms(2-) simp_thms) blast
qed

lemma refresh_fields [simp]:
    "core (refresh_poll_interval now d) = core d" "lines_out (refresh_poll_interval now d) = lines_out d"
    "line_in_flight (refresh_poll_interval now d) = line_in_flight d" "wire (refresh_poll_interval now d) = wire d"
    "realtime_in_flight (refresh_poll_interval now d) = realtime_in_flight d"
    "realtime_out (refresh_poll_interval now d) = realtime_out d" "granted (refresh_poll_interval now d) = granted d"
    "issued (refresh_poll_interval now d) = issued d" "aborts (refresh_poll_interval now d) = aborts d"
    "last_inbound (refresh_poll_interval now d) = last_inbound d" "events (refresh_poll_interval now d) = events d"
  by (simp_all add: refresh_poll_interval_def Let_def)

lemma wire_ok_refresh: "wire_ok d \<Longrightarrow> wire_ok (refresh_poll_interval now d)"
  by (erule wire_ok_cong) simp_all

lemma wire_ok_command:
  assumes "wire_ok d" "case cmd of Cmd_StreamProgram ls \<Rightarrow> \<forall>l \<in> set ls. clean_text l | Cmd_SendLine l \<Rightarrow> clean_text l | _ \<Rightarrow> True"
  shows "wire_ok (handle_command cmd d)"
  using assms
  by (cases cmd) (auto simp: handle_command_def intro!: wire_ok_with_core orderly_stream orderly_send orderly_realtime
      resetting_stream resetting_ops resetting_realtime)

lemma wire_ok_poll: "wire_ok d \<Longrightarrow> wire_ok (poll_status d)"
  by (simp add: poll_status_def wire_ok_with_core orderly_realtime resetting_realtime)

text \<open>Responses arrive while no line is half written.\<close>

lemma wire_ok_inbound:
  assumes "wire_ok d" "line_in_flight d = None"
  shows "wire_ok (handle_inbound p lossy bs d)"
proof -
  have step: "wire_ok (handle_host_line p l d) \<and> line_in_flight (handle_host_line p l d) = None"
    if "wire_ok d" "line_in_flight d = None" for l and d :: "'a Driver"
  proof (cases "parse_line p l")
    case (Some r)
    define d1 where "d1 = (case r of Status body \<Rightarrow> d\<lparr>run_state := Some (peek_run_state body)\<rparr> | _ \<Rightarrow> d)"
    have d1: "wire_ok d1" "line_in_flight d1 = None"
      using that by (cases r; auto simp: d1_def intro: wire_ok_cong)+
    let ?es = "snd (on_response (core d1) r)" and ?d = "d1\<lparr>core := fst (on_response (core d1) r)\<rparr>"
    have "line_in_flight (apply_effects ?es ?d) = None"
    proof (cases "AbortQueued \<in> set ?es")
      case True
      moreover have "writes ?es = []"
        using orderly_response [of r] d1(1) True unfolding orderly_def wire_ok_def by blast
      ultimately show ?thesis by (rule effects_abort)
    next
      case False
      then show ?thesis using effects_no_abort(2) [of ?es ?d] d1(2) by simp
    qed
    moreover have "wire_ok (with_core (\<lambda>c. on_response c r) d1)"
      using d1 by (intro wire_ok_with_core orderly_response) simp_all
    moreover have "handle_host_line p l d = with_core (\<lambda>c. on_response c r) d1"
      using Some by (simp add: handle_host_line_def d1_def Let_def)
    ultimately show ?thesis by (simp add: with_core_fields(2))
  qed (simp add: that handle_host_line_def)
  have "wire_ok (fold (handle_host_line p) ls d)" if "wire_ok d" "line_in_flight d = None" for ls and d :: "'a Driver"
    using that by (induction ls arbitrary: d) (simp_all add: step)
  moreover have "wire_ok (d\<lparr>reassembler := r\<rparr>)" for r
    by (rule wire_ok_cong [OF assms(1)]) simp_all
  ultimately show ?thesis
    using assms(2) by (simp add: handle_inbound_def split: prod.split)
qed

section \<open>The phases\<close>

definition delivered :: "'f Driver \<Rightarrow> bool"
  where "delivered d \<longleftrightarrow>
    subseq (fst (framed (wire d))) (granted d) \<and> (aborts d = 0 \<longrightarrow> prefix (fst (framed (wire d))) (granted d)) \<and>
    prefix (realtime_on (wire d)) (issued d) \<and> list_all sorted_byte (wire d)"

lemma wire_delivered: "wire_ok d \<Longrightarrow> delivered d"
  unfolding wire_ok_def delivered_def
  by (auto intro: subseq_order.trans [of _ "fst (framed (wire d)) @ queued d"]) (metis prefixI)+

definition engine_ok :: "'f Engine \<Rightarrow> bool"
  where "engine_ok e \<longleftrightarrow>
    (case phase e of
       At_Realtime \<Rightarrow> wire_ok (driver e) \<and> realtime_in_flight (driver e) \<noteq> None
     | At_Line \<Rightarrow> wire_ok (driver e) \<and> pending_realtime (driver e) = [] \<and> line_in_flight (driver e) \<noteq> None
     | At_Wait \<Rightarrow> wire_ok (driver e) \<and> pending_realtime (driver e) = [] \<and> line_in_flight (driver e) = None
     | At_Teardown _ \<Rightarrow> wire_ok (driver e)
     | Ended \<Rightarrow> delivered (driver e))"

lemma to_line_ok:
  assumes "wire_ok d" "pending_realtime d = []"
  shows "engine_ok (to_line d)"
proof (cases "line_in_flight d = None \<and> lines_out d \<noteq> []")
  case True
  then obtain l ls where ls: "lines_out d = l # ls" by (cases "lines_out d") auto
  let ?d = "d\<lparr>line_in_flight := Some (l, 0), lines_out := ls\<rparr>"
  have p: "pending_realtime ?d = []" using assms(2) by (simp add: pending_realtime_def)
  have "line_ok l" using assms(1) ls by (simp add: wire_ok_def)
  then have "0 < length l" by (auto simp: line_ok_def)
  then have "wire_ok ?d"
    using assms True ls \<open>line_ok l\<close> p by (auto simp: wire_ok_def queued_def split: option.splits)
  then show ?thesis using True ls p by (simp add: to_line_def engine_ok_def)
next
  case False
  then show ?thesis using assms by (auto simp: to_line_def engine_ok_def)
qed

lemma to_realtime_ok:
  assumes "wire_ok d"
  shows "engine_ok (to_realtime d)"
proof (cases "realtime_in_flight d")
  case None
  show ?thesis
  proof (cases "realtime_out d = []")
    case True
    then have "pending_realtime d = []" using None by (simp add: pending_realtime_def)
    then show ?thesis using assms None True by (simp add: to_realtime_def to_line_ok)
  next
    case False
    let ?d = "d\<lparr>realtime_in_flight := Some (realtime_out d, 0), realtime_out := []\<rparr>"
    have p: "pending_realtime ?d = pending_realtime d" using None by (simp add: pending_realtime_def)
    have q: "queued ?d = queued d" by (simp add: queued_def)
    have "wire_ok ?d"
      using assms False unfolding wire_ok_def p q by (auto split: option.splits)
    then show ?thesis using None False by (simp add: to_realtime_def engine_ok_def)
  qed
next
  case (Some x)
  then show ?thesis using assms by (simp add: to_realtime_def engine_ok_def)
qed

lemma disconnect_effects: "rts (snd (on_disconnected c)) = []" "writes (snd (on_disconnected c)) = []"
    "AbortQueued \<notin> set (snd (on_disconnected c))"
  by (simp_all add: on_disconnected_def)

lemma end_task_ok: "delivered d \<Longrightarrow> engine_ok (end_task reason d)"
  by (simp add: end_task_def engine_ok_def delivered_def with_core_fields(2) disconnect_effects effects_no_abort)

lemma tear_down_ok: "wire_ok d \<Longrightarrow> engine_ok (tear_down reason d)"
  by (simp add: tear_down_def end_task_ok wire_delivered) (simp add: engine_ok_def)

lemma to_top_ok: "wire_ok d \<Longrightarrow> engine_ok (to_top now d)"
  by (simp add: to_top_def Let_def tear_down_ok to_realtime_ok wire_ok_refresh)

text \<open>Bytes put on the wire.\<close>

lemma put_realtime_ok:
  assumes "wire_ok d"
  shows "wire_ok (put_realtime n d)"
proof (cases "realtime_in_flight d")
  case (Some x)
  obtain bs c where x: "x = (bs, c)" by (cases x)
  let ?put = "take n (drop c bs)" and ?d = "put_realtime n d"
  have "drop c bs = ?put @ drop (c + n) bs"
    using append_take_drop_id [of n "drop c bs"] by (simp add: add.commute)
  then have rest: "pending_realtime d = ?put @ pending_realtime ?d"
    using Some x by (simp add: pending_realtime_def put_realtime_def)
  have fr: "framed (wire ?d) = (fst (framed (wire d)), if list_ex resets ?put then [] else snd (framed (wire d)))"
  proof -
    obtain ls part where fw: "framed (wire d) = (ls, part)" by (cases "framed (wire d)")
    then have "framed (wire ?d) = foldl frame_wire_byte (ls, part) (map W_Realtime ?put)"
      using Some x by (simp add: put_realtime_def framed_append)
    then show ?thesis by (simp only: frame_realtime fw fst_conv snd_conv)
  qed
  have same: "core ?d = core d" "lines_out ?d = lines_out d" "line_in_flight ?d = line_in_flight d" "granted ?d = granted d"
      "issued ?d = issued d" "aborts ?d = aborts d" "queued ?d = queued d"
      "realtime_on (wire ?d) = realtime_on (wire d) @ ?put"
    using Some x by (simp_all add: put_realtime_def queued_def)
  have "case realtime_in_flight ?d of None \<Rightarrow> True | Some (bs, c) \<Rightarrow> c < length bs"
    using Some x by (simp add: put_realtime_def)
  moreover have "list_all command_byte (issued d)" "issued d = realtime_on (wire d) @ ?put @ pending_realtime ?d"
    using assms rest by (simp_all add: wire_ok_def)
  then have "list_all command_byte ?put" by simp
  then have "list_all sorted_byte (wire d) \<Longrightarrow> list_all sorted_byte (wire ?d)"
    using Some x by (simp add: put_realtime_def)
  ultimately show ?thesis
    using assms unfolding wire_ok_def fr same rest by (auto split: option.splits)
qed (simp add: assms put_realtime_def)

lemma put_line_ok:
  assumes "wire_ok d" "pending_realtime d = []"
  shows "wire_ok (put_line n d)"
proof (cases "line_in_flight d")
  case (Some x)
  obtain l c where x: "x = (l, c)" by (cases x)
  have l: "line_ok l" "c < length l" "framed (wire d) = (fst (framed (wire d)), take c l)"
    using assms(1) Some x by (auto simp: wire_ok_def intro: prod_eqI)
  let ?d = "put_line n d"
  have "framed (wire ?d) =
      (if length l \<le> c + n then (fst (framed (wire d)) @ [l], []) else (fst (framed (wire d)), take (c + n) l))"
  proof -
    have "framed (wire ?d) = foldl frame_wire_byte (framed (wire d)) (map W_Line (take n (drop c l)))"
      using Some x by (simp add: put_line_def framed_append)
    also have "\<dots> = foldl frame_wire_byte (fst (framed (wire d)), take c l) (map W_Line (take n (drop c l)))"
      by (subst l(3)) (rule refl)
    finally show ?thesis by (simp only: frame_line [OF l(1,2)])
  qed
  moreover have "list_all (\<lambda>b. b = LF \<or> plain b) (drop c l)" "list_all (\<lambda>b. b = LF \<or> plain b) (take n (drop c l))"
    using line_ok_sorted [OF l(1)] by (auto simp: list_all_iff dest: in_set_dropD in_set_takeD)
  moreover have "pending_realtime ?d = []" using assms(2) Some x by (simp add: pending_realtime_def put_line_def)
  ultimately show ?thesis
    using assms Some x l
    by (auto simp: wire_ok_def put_line_def queued_def split: option.splits if_splits)
qed (simp add: assms put_line_def)

section \<open>A turn of the task\<close>

definition clean_arm :: "Arm \<Rightarrow> bool"
  where "clean_arm a \<longleftrightarrow>
    (case a of
       Arm_Command (Some (Cmd_StreamProgram ls)) \<Rightarrow> \<forall>l \<in> set ls. clean_text l
     | Arm_Command (Some (Cmd_SendLine l)) \<Rightarrow> clean_text l
     | _ \<Rightarrow> True)"

lemma command_arm_ok:
  assumes "wire_ok d" "clean_arm (Arm_Command cmd)" "\<And>d. wire_ok d \<Longrightarrow> engine_ok (again d)"
  shows "engine_ok (command_arm again cmd d)"
proof (cases cmd)
  case (Some c)
  have "wire_ok (handle_command c d)"
    using assms(1,2) Some by (intro wire_ok_command) (auto simp: clean_arm_def split: Command.splits)
  then show ?thesis using Some assms by (cases c) (simp_all add: command_arm_def tear_down_ok)
qed (simp add: command_arm_def tear_down_ok assms(1))

lemma flush_turn_ok:
  assumes "wire_ok d"
  shows "engine_ok (flush_turn reason a d)"
proof (cases a)
  case (Arm_Flushed n)
  let ?put = "take n (pending_realtime d)"
  have "fst (framed (wire d @ map W_Realtime ?put)) = fst (framed (wire d))"
    by (simp add: framed_append) (metis frame_realtime fst_conv prod.collapse)
  moreover have "prefix (realtime_on (wire d) @ ?put) (issued d)"
    using assms unfolding wire_ok_def by (metis append_take_drop_id append.assoc prefixI)
  moreover have "list_all command_byte (pending_realtime d)"
    using assms unfolding wire_ok_def by (metis list_all_append)
  then have "list_all command_byte ?put" by (auto simp: list_all_iff dest: in_set_takeD)
  ultimately show ?thesis
    using wire_delivered [OF assms] Arm_Flushed
    by (simp add: flush_turn_def) (intro end_task_ok, simp add: delivered_def)
qed (use assms in \<open>simp_all add: flush_turn_def engine_ok_def\<close>)

lemma engine_step_ok:
  assumes "engine_ok e" "clean_arm (snd i)"
  shows "engine_ok (engine_step p lossy e i)"
proof -
  obtain now a where i: "i = (now, a)" by (cases i)
  let ?d = "driver e"
  show ?thesis
  proof (cases "phase e")
    case At_Realtime
    then have w: "wire_ok ?d" "realtime_in_flight ?d \<noteq> None" using assms(1) by (simp_all add: engine_ok_def)
    then show ?thesis
      using At_Realtime i assms(2)
      by (cases a) (auto simp: engine_step_def flush_realtime_def write_failure_def tear_down_ok to_realtime_ok put_realtime_ok
          engine_ok_def [of "\<lparr>driver = _, phase = At_Realtime\<rparr>"] intro!: command_arm_ok)
  next
    case At_Line
    then have w: "wire_ok ?d" "pending_realtime ?d = []" "line_in_flight ?d \<noteq> None"
      using assms(1) by (simp_all add: engine_ok_def)
    then show ?thesis
      using At_Line i assms(2)
      by (cases a) (auto simp: engine_step_def write_pending_line_def write_failure_def tear_down_ok to_top_ok put_line_ok
          wire_ok_poll engine_ok_def [of "\<lparr>driver = _, phase = At_Line\<rparr>"] intro!: command_arm_ok)
  next
    case At_Wait
    then have w: "wire_ok ?d" "pending_realtime ?d = []" "line_in_flight ?d = None"
      using assms(1) by (simp_all add: engine_ok_def)
    have "wire_ok (?d\<lparr>last_inbound := now\<rparr>)" by (rule wire_ok_cong [OF w(1)]) simp_all
    then show ?thesis
      using At_Wait i assms(2) w
      by (cases a) (auto simp: engine_step_def wait_turn_def tear_down_ok to_top_ok wire_ok_poll wire_ok_inbound
          engine_ok_def [of "\<lparr>driver = _, phase = At_Wait\<rparr>"] intro!: command_arm_ok)
  next
    case (At_Teardown r)
    then show ?thesis using assms(1) i by (simp add: engine_step_def engine_ok_def flush_turn_ok [unfolded engine_ok_def])
  next
    case Ended
    then show ?thesis using assms(1) i by (simp add: engine_step_def)
  qed
qed

lemma wire_ok_start: "wire_ok (connect_with cfg)"
  by (simp add: connect_with_def wire_ok_def queued_def framed_def pending_realtime_def Let_def pin_rx_window_def
      ProtocolCore_new_def split: option.split)

lemma engine_run_ok:
  assumes "\<forall>i \<in> set is. clean_arm (snd i)"
  shows "engine_ok (engine_run p lossy cfg now is)"
proof -
  have "wire_ok (with_core begin_handshake (with_core on_connected (connect_with cfg)))"
    by (intro wire_ok_with_core orderly_handshake orderly_connected wire_ok_start disjI2 resetting_ops)
  then have "engine_ok (start_task now (connect_with cfg))"
    unfolding start_task_def Let_def by (intro to_top_ok) (erule wire_ok_cong, simp_all)
  with assms show ?thesis
    unfolding engine_run_def by (induction "is" rule: rev_induct) (auto intro: engine_step_ok)
qed

lemma engine_delivers:
  assumes "\<forall>i \<in> set is. clean_arm (snd i)"
  shows "delivered (driver (engine_run p lossy cfg now is))"
  using engine_run_ok [OF assms, of p lossy cfg now]
  by (auto simp: engine_ok_def wire_delivered split: Phase.splits)

section \<open>The firmware's reading of the wire\<close>

text \<open>
  The bytes as the firmware takes them, without marks: its classifier acts on a command wherever it stands and its
  framer gets every other byte.  A reset or stop byte clears the framer before the next byte, as in \<^verbatim>\<open>Rx_Pipeline\<close>
  when the assembler notices it in time.
\<close>

fun unmarked :: "WireByte \<Rightarrow> u8"
  where
    "unmarked (W_Line b) = b"
  | "unmarked (W_Realtime b) = b"

definition firmware_byte :: "u8 \<Rightarrow> StreamEngine \<times> u8 list list \<times> u8 list \<Rightarrow> StreamEngine \<times> u8 list list \<times> u8 list"
  where "firmware_byte b s =
    (case s of (e, ls, cmds) \<Rightarrow>
      (case classify_realtime b of
         Some _ \<Rightarrow> (if resets b then StreamEngine_soft_reset e else e, ls, cmds @ [b])
       | None \<Rightarrow>
           (case ingest e b of
              (e, AcceptLine l) \<Rightarrow> (e, ls @ [l], cmds)
            | (e, _) \<Rightarrow> (e, ls, cmds))))"

definition firmware_reads :: "u8 list \<Rightarrow> StreamEngine \<times> u8 list list \<times> u8 list"
  where "firmware_reads bs = fold firmware_byte bs (StreamEngine_new, [], [])"

text \<open>The texts it accepts of whole lines.\<close>

definition accepted_texts :: "u8 list list \<Rightarrow> u8 list list"
  where "accepted_texts ls = filter (\<lambda>t. length t \<le> MAX_LINE_LEN) (map butlast ls)"

lemma ingest_event: "snd (ingest e b) = ev \<Longrightarrow> snd (ingest_out e b) = (if ev = NoEvent then [] else [ev])"
    "fst (ingest_out e b) = fst (ingest e b)"
  by (simp_all add: ingest_out_def case_prod_beta Let_def)

lemma firmware_wire:
  assumes "list_all sorted_byte w"
  shows "\<exists>e q. firmware_reads (map unmarked w) = (e, accepted_texts (fst (framed w)), realtime_on w) \<and>
    reader_stands (reader e) (snd (framed w)) q \<and> q \<in> {None, Some LF}"
  using assms
proof (induction w rule: rev_induct)
  case Nil
  then show ?case
    using reader_stands_new by (auto simp: firmware_reads_def framed_def accepted_texts_def)
next
  case (snoc x w)
  then obtain e q where e: "firmware_reads (map unmarked w) = (e, accepted_texts (fst (framed w)), realtime_on w)"
      "reader_stands (reader e) (snd (framed w)) q" "q \<in> {None, Some LF}" by auto
  obtain ls part where fw: "framed w = (ls, part)" by (cases "framed w")
  have run: "firmware_reads (map unmarked (w @ [x])) = firmware_byte (unmarked x) (e, accepted_texts ls, realtime_on w)"
    using e(1) fw by (simp add: firmware_reads_def)
  have fx: "framed (w @ [x]) = frame_wire_byte (ls, part) x" by (simp add: framed_append fw)
  show ?case
  proof (cases x)
    case (W_Realtime b)
    then have "command_byte b" using snoc.prems by simp
    then obtain cmd where cmd: "classify_realtime b = Some cmd" by (auto simp: command_byte_def)
    have "reader_stands (reader (StreamEngine_soft_reset e)) [] None"
      by (simp add: StreamEngine_soft_reset_def LineReader_reset_def reader_stands_def)
    then show ?thesis
      unfolding run fx using cmd e fw W_Realtime by (auto simp: firmware_byte_def)
  next
    case (W_Line b)
    then have b: "b = LF \<or> plain b" using snoc.prems by simp
    moreover have "classify_realtime LF = None" by (simp add: classify_realtime_def)
    ultimately have none: "classify_realtime b = None" by (auto simp: plain_def)
    have nopair: "\<not> (\<exists>p. q = Some p \<and> pairs_with p b)" using e(3) b by (auto simp: pairs_with_def plain_def is_term_def)
    show ?thesis
    proof (cases "b = LF")
      case True
      then have t: "is_term b" by (simp add: is_term_def)
      from engine.on_term [OF _ t nopair, of e part] e(2) fw
      have "snd (ingest_out e b) = engine_fin part" "reader_stands (reader (fst (ingest e b))) [] (Some LF)"
        using True by (auto simp: ingest_event(2))
      then show ?thesis
        unfolding run fx using none True W_Line ingest_event(1) [OF refl, of e b]
        by (auto simp: firmware_byte_def engine_fin_def accepted_texts_def split: prod.split EngineEvent.split if_splits)
    next
      case False
      then have t: "\<not> is_term b" using b by (simp add: plain_def)
      from engine.on_char [OF _ t, of e part q] e(2) fw
      have "snd (ingest_out e b) = engine_grow part" "reader_stands (reader (fst (ingest e b))) (part @ [b]) None"
        by (auto simp: ingest_event(2))
      then show ?thesis
        unfolding run fx using none False W_Line ingest_event(1) [OF refl, of e b]
        by (auto simp: firmware_byte_def engine_grow_def split: prod.split EngineEvent.split if_splits)
    qed
  qed
qed

section \<open>The end of the task\<close>

fun is_disconnected :: "'f HostEvent \<Rightarrow> bool"
  where
    "is_disconnected (Ev_Disconnected r) = True"
  | "is_disconnected _ = False"

text \<open>Before its end the task has not said that it ended; after it, that is the last thing it has said.\<close>

definition running :: "'f Driver \<Rightarrow> bool"
  where "running d \<longleftrightarrow> \<not> list_ex is_disconnected (events d)"

definition lifecycle_ok :: "'f Engine \<Rightarrow> bool"
  where "lifecycle_ok e \<longleftrightarrow>
    (if phase e = Ended
     then (\<exists>evs reason. \<not> list_ex is_disconnected evs \<and> events (driver e) = evs @ [Ev_Disconnected reason]) \<and>
          pc_state (core (driver e)) = Disconnected \<and> inflight (flow (core (driver e))) = [] \<and> program (core (driver e)) = []
     else running (driver e))"

lemma running_effects [simp]: "running (apply_effects es d) = running d"
  by (induction es arbitrary: d rule: rts.induct) (simp_all add: running_def)

lemma running_core [simp]: "running (d\<lparr>core := c\<rparr>) = running d" "running (with_core f d) = running d"
  by (simp_all add: with_core_fields(2)) (simp_all add: running_def)

lemma running_updates [simp]:
    "running (refresh_poll_interval now d) = running d" "running (d\<lparr>last_inbound := n\<rparr>) = running d"
    "running (d\<lparr>next_poll := n\<rparr>) = running d" "running (put_realtime n d) = running d" "running (put_line n d) = running d"
  by (simp_all add: running_def put_realtime_def put_line_def split: option.split)

lemma running_command [simp]: "running (handle_command cmd d) = running d" "running (poll_status d) = running d"
  by (simp_all add: handle_command_def poll_status_def split: Command.split)

lemma running_inbound [simp]: "running (handle_inbound p lossy bs d) = running d"
proof -
  have line: "running (handle_host_line p l d) = running d" for l and d :: "'a Driver"
    by (simp add: handle_host_line_def Let_def split: option.split Response.split) (simp add: running_def)
  have "running (fold (handle_host_line p) ls d) = running d" for ls and d :: "'a Driver"
    by (induction ls arbitrary: d) (simp_all add: line)
  then show ?thesis by (simp add: handle_inbound_def split: prod.split) (simp add: running_def)
qed

lemma end_task_lifecycle:
  assumes "running d"
  shows "lifecycle_ok (end_task reason d)"
proof -
  have "running (with_core on_disconnected d)" using assms by simp
  then show ?thesis
    by (auto simp: lifecycle_ok_def end_task_def with_core_fields(1) on_disconnected_def running_def)
qed

lemma tear_down_lifecycle: "running d \<Longrightarrow> lifecycle_ok (tear_down reason d)"
  by (simp add: tear_down_def end_task_lifecycle) (simp add: lifecycle_ok_def)

lemma to_line_lifecycle: "running d \<Longrightarrow> lifecycle_ok (to_line d)"
  by (simp add: to_line_def lifecycle_ok_def running_def)

lemma to_realtime_lifecycle: "running d \<Longrightarrow> lifecycle_ok (to_realtime d)"
proof -
  assume r: "running d"
  then have "running (d\<lparr>realtime_in_flight := x, realtime_out := y\<rparr>)" for x y by (simp add: running_def)
  with r show ?thesis
    by (simp add: to_realtime_def Let_def to_line_lifecycle) (simp add: lifecycle_ok_def)
qed

lemma to_top_lifecycle: "running d \<Longrightarrow> lifecycle_ok (to_top now d)"
  by (simp add: to_top_def Let_def tear_down_lifecycle to_realtime_lifecycle)

lemmas turn_lifecycle = tear_down_lifecycle to_realtime_lifecycle to_top_lifecycle

lemma command_arm_lifecycle:
  assumes "running d" "\<And>d. running d \<Longrightarrow> lifecycle_ok (again d)"
  shows "lifecycle_ok (command_arm again cmd d)"
  using assms by (simp add: command_arm_def tear_down_lifecycle split: option.split Command.split)

lemma engine_step_lifecycle:
  assumes "lifecycle_ok e"
  shows "lifecycle_ok (engine_step p lossy e i)"
proof -
  obtain now a where i: "i = (now, a)" by (cases i)
  show ?thesis
  proof (cases "phase e = Ended")
    case False
    then have r: "running (driver e)" using assms by (simp add: lifecycle_ok_def)
    then have stay: "lifecycle_ok \<lparr>driver = driver e, phase = ph\<rparr>" if "ph \<noteq> Ended" for ph
      using that by (simp add: lifecycle_ok_def)
    have fl: "running (driver e\<lparr>wire := x, realtime_in_flight := y, realtime_out := z\<rparr>)" for x y z
      using r by (simp add: running_def)
    from False r i stay fl show ?thesis
      by (cases "phase e"; cases a)
         (auto simp: engine_step_def flush_realtime_def write_pending_line_def wait_turn_def flush_turn_def write_failure_def
           turn_lifecycle end_task_lifecycle intro!: command_arm_lifecycle turn_lifecycle)
  qed (use assms i in \<open>simp add: engine_step_def\<close>)
qed

lemma engine_run_lifecycle: "lifecycle_ok (engine_run p lossy cfg now is)"
proof -
  have timed: "running (d\<lparr>next_poll := x, last_inbound := y\<rparr>) = running d" for d :: "'a Driver" and x y
    by (simp add: running_def)
  have "running (connect_with cfg)" by (simp add: running_def connect_with_def Let_def)
  then have start: "lifecycle_ok (start_task now (connect_with cfg))"
    unfolding start_task_def Let_def by (intro to_top_lifecycle) (simp add: timed)
  have "lifecycle_ok (foldl (engine_step p lossy) e is)" if "lifecycle_ok e" for e
    using that by (induction "is" arbitrary: e) (auto intro: engine_step_lifecycle)
  with start show ?thesis by (simp add: engine_run_def)
qed

text \<open>A controller that has been silent for five seconds is given up at the next turn of the loop.\<close>

lemma silent_controller_ends:
  assumes "phase e = At_Wait \<or> phase e = At_Line" "RESPONSE_STALL_TIMEOUT \<le> now - last_inbound (driver e)"
  shows "phase (engine_step p lossy e (now, Arm_Tick)) \<in> {At_Teardown (Some TE_Unresponsive), Ended}"
proof -
  have "last_inbound (poll_status d) = last_inbound d" for d :: "'a Driver"
    by (simp add: poll_status_def with_core_fields(2))
  with assms show ?thesis
    by (auto simp: engine_step_def wait_turn_def write_pending_line_def to_top_def Let_def tear_down_def end_task_def)
qed

section \<open>Backing off\<close>

lemma backoff_bounds: "backoff_loop k nanos factor max_nanos \<le> max_nanos"
  by (induction k arbitrary: nanos) (auto simp: Let_def intro: order.trans [OF mod_less_eq_dividend])

text \<open>Below the ceiling the delay is the geometric one.\<close>

lemma backoff_geometric:
  assumes "max_nanos < 2 ^ 64"
  shows "backoff_loop k nanos factor max_nanos =
    (if \<exists>j \<le> k. (k = 0 \<or> 0 < j) \<and> max_nanos \<le> nanos * unat factor ^ j then max_nanos else nanos * unat factor ^ k)"
proof (induction k arbitrary: nanos)
  case (Suc k)
  let ?n = "min (2 ^ 128 - 1) (nanos * unat factor)"
  have le: "max_nanos \<le> ?n \<longleftrightarrow> max_nanos \<le> nanos * unat factor" using assms by auto
  show ?case
  proof (cases "max_nanos \<le> nanos * unat factor")
    case True
    then have "\<exists>j \<le> Suc k. 0 < j \<and> max_nanos \<le> nanos * unat factor ^ j" by (intro exI [of _ 1]) simp
    then show ?thesis using True le by simp
  next
    case False
    then have n: "?n = nanos * unat factor" using assms by simp
    have "(\<exists>j \<le> k. (k = 0 \<or> 0 < j) \<and> max_nanos \<le> nanos * unat factor * unat factor ^ j) \<longleftrightarrow>
        (\<exists>j \<le> Suc k. 0 < j \<and> max_nanos \<le> nanos * unat factor ^ j)" (is "?L \<longleftrightarrow> ?R")
    proof
      assume ?L
      then obtain j where "j \<le> k" "max_nanos \<le> nanos * unat factor ^ Suc j" by (auto simp: mult.assoc)
      then show ?R by (intro exI [of _ "Suc j"]) simp
    next
      assume ?R
      then obtain j where j: "j \<le> Suc k" "0 < j" "max_nanos \<le> nanos * unat factor ^ j" by blast
      then obtain i where i: "j = Suc i" by (cases j) auto
      with j False have "0 < i" by (cases i) simp_all
      with j i show ?L by (intro exI [of _ i]) (simp add: mult.assoc)
    qed
    have "backoff_loop k (nanos * unat factor) factor max_nanos =
        (if ?R then max_nanos else nanos * unat factor ^ Suc k)"
      unfolding Suc.IH using \<open>?L \<longleftrightarrow> ?R\<close> by (simp only: power_Suc mult.assoc)
    with False le n have "backoff_loop (Suc k) nanos factor max_nanos =
        (if ?R then max_nanos else nanos * unat factor ^ Suc k)" by (simp only: backoff_loop.simps Let_def if_False)
    then show ?thesis by simp
  qed
qed (use assms in simp)

section \<open>Bytes of a comment\<close>

text \<open>A program line goes out as it stands, so a character of a comment can be a command of the firmware.\<close>

lemma comment_bytes_are_commands:
    "\<exists>b \<in> set (encode_line ''G0 X1 (GO!)''). classify_realtime b = Some FeedHold"
    "\<exists>b \<in> set (encode_line [CHR ''('', CHR 0xC3, CHR 0x86, CHR '')'']). classify_realtime b = Some ProgramStop"
  by (simp_all add: encode_line_def trim_end_matches_def classify_realtime_def)

section \<open>Properties\<close>


text \<open>
  C40: The task says exactly once that it ended, as the last thing it says; the core is then disconnected, with no
  program and nothing in flight.
\<close>
theorem engine_ends_once:
  "let e = engine_run p lossy cfg now is in
    if phase e = Ended
    then (\<exists>evs reason. \<not> list_ex is_disconnected evs \<and> events (driver e) = evs @ [Ev_Disconnected reason]) \<and>
         pc_state (core (driver e)) = Disconnected \<and> inflight (flow (core (driver e))) = [] \<and> program (core (driver e)) = []
    else \<not> list_ex is_disconnected (events (driver e))"
  using engine_run_lifecycle [of p lossy cfg now "is"] 
  by (cases "phase (engine_run p lossy cfg now is)") (auto simp: lifecycle_ok_def running_def Let_def)

section \<open>An instance\<close>

text \<open>The handshake's \<^verbatim>\<open>$I\<close> is cut after two bytes by a soft reset; the line sent next arrives whole.\<close>

definition torn_handshake :: "(nat \<times> Arm) list"
  where "torn_handshake =
    [(0, Arm_Written 2), (1, Arm_Written 2), (2, Arm_Command (Some (Cmd_Realtime H_SoftReset))), (3, Arm_Written 1),
     (4, Arm_Command (Some (Cmd_SendLine ''G0''))), (5, Arm_Written 3)]"


end
