(* ===== verification/Spec2Isabelle.thy ===== *)
theory Spec2Isabelle
  imports Storage_Frame Core_Props Wire_Props Rx_Pipeline Tmc2209 Motion_Props Homing_Props Gcode_Props Planner_Props Settings_Props
    Settings_Store_Props Coords_Props Spindle_Coolant System_Command Watchdog_Props Engine_Props
begin

text \<open>
  A verification library for Galdr, a desktop CNC mill: its grblHAL-compatible firmware (the crates
  \<^verbatim>\<open>firmware\<close>, \<^verbatim>\<open>firmware-core\<close>, \<^verbatim>\<open>cnc-kinematics\<close>, \<^verbatim>\<open>grbl-codes\<close>, \<^verbatim>\<open>galdr-proto\<close> under
  \<^verbatim>\<open>src/crates\<close>) and the streaming half of its host \<^verbatim>\<open>skirnir\<close>.

  \<^bold>\<open>The program.\<close>  The host streams a G-code program line by line and keeps the bytes it has sent and
  not seen acknowledged within the firmware's receive buffer.  The firmware's reader task takes the bytes of
  the USB link, acts on real-time command bytes at once and passes the others to the line assembler,
  which queues whole lines.  The consumer task takes the lines in order, answers each with \<^verbatim>\<open>ok\<close> or
  \<^verbatim>\<open>error:N\<close>, executes \<^verbatim>\<open>$\<close> commands, parses G-code and plans it.  The planner keeps a ring of blocks with
  entry speeds; the executor on the second core pops one block after the other, turns it into step
  pulses in bursts and keeps the live position.  Spindle, coolant and status tasks follow the
  statics the consumer writes; settings and coordinates are kept in flash as framed protobuf records.

  \<^bold>\<open>Which theory models what.\<close>  Every definition keeps the name of the function, type or constant it
  translates.

  Foundations.  \<^verbatim>\<open>Prelude\<close>: machine integers, results of operations on a mutated value, little-endian
  bytes, the locales \<^verbatim>\<open>byte_checksum\<close> and \<^verbatim>\<open>invariant_machine\<close>.  \<^verbatim>\<open>Float32\<close>, \<^verbatim>\<open>Float32_Facts\<close>: executable
  IEEE 754 binary32, correctly rounded, with its order, monotonicity and rounding bounds.

  The wire, host side (\<^verbatim>\<open>crates/skirnir/src/protocol\<close>).  \<^verbatim>\<open>Grbl_Text\<close>: \<^verbatim>\<open>response.rs\<close>, \<^verbatim>\<open>status.rs\<close>,
  \<^verbatim>\<open>probe.rs\<close>, \<^verbatim>\<open>settings.rs\<close>.  \<^verbatim>\<open>Flow_Window\<close>: \<^verbatim>\<open>flow.rs\<close>, against the locale \<^verbatim>\<open>fifo_credit\<close>.
  \<^verbatim>\<open>Protocol_Core\<close>, \<^verbatim>\<open>Core_Correct\<close>, \<^verbatim>\<open>Core_Props\<close>: \<^verbatim>\<open>core.rs\<close> and \<^verbatim>\<open>lifecycle.rs\<close>, every \<^verbatim>\<open>on_*\<close>
  operation as a function from a core to a core and its effects.
  \<^verbatim>\<open>Host_Engine\<close>, \<^verbatim>\<open>Engine_Props\<close> (\<^verbatim>\<open>engine.rs\<close>, \<^verbatim>\<open>reconnect.rs\<close>): the task around the core, a step on the
  select it waits in, with every write interruptible after any number of bytes; the back-off.

  The wire, firmware side.  \<^verbatim>\<open>Line_Stream\<close>: \<^verbatim>\<open>stream.rs\<close> and the host's \<^verbatim>\<open>terminator.rs\<close>, both instances of
  the locale \<^verbatim>\<open>line_framer\<close>.  \<^verbatim>\<open>Realtime\<close>: the command bytes of both ends and the override state machine.
  \<^verbatim>\<open>Control_State\<close>: \<^verbatim>\<open>grbl-codes\<close>, \<^verbatim>\<open>protocol/state.rs\<close> and the alarm codes, with the inductive step relation of
  the latched mode.  \<^verbatim>\<open>Wire_Format\<close>, \<^verbatim>\<open>Wire_Props\<close>: \<^verbatim>\<open>codes.rs\<close>, \<^verbatim>\<open>pins.rs\<close>, \<^verbatim>\<open>response.rs\<close>, \<^verbatim>\<open>report.rs\<close>.
  \<^verbatim>\<open>System_Command\<close>: the classifier of \<^verbatim>\<open>$\<close> lines.  \<^verbatim>\<open>Rx_Pipeline\<close>: reader, real-time dispatch and assembler of
  \<^verbatim>\<open>firmware/src/comms\<close> over the shared channels, as a machine whose steps interleave freely.

  G-code (\<^verbatim>\<open>cnc-kinematics/src/gcode.rs\<close>).  \<^verbatim>\<open>Gcode_Lexer\<close>, \<^verbatim>\<open>Gcode_Parser\<close>, \<^verbatim>\<open>Gcode_Props\<close>.

  Motion (\<^verbatim>\<open>cnc-kinematics\<close>, \<^verbatim>\<open>firmware/src/motion.rs\<close>, \<^verbatim>\<open>firmware-core/src/homing.rs\<close>).  \<^verbatim>\<open>Planner\<close>,
  \<^verbatim>\<open>Planner_Facts\<close>, \<^verbatim>\<open>Planner_Props\<close>: \<^verbatim>\<open>planner.rs\<close> on \<^verbatim>\<open>Float32\<close> and wrapping 32-bit steps.  \<^verbatim>\<open>Step_Motion\<close>,
  \<^verbatim>\<open>Step_Line\<close>: \<^verbatim>\<open>step.rs\<close> and the generator of \<^verbatim>\<open>motion.rs\<close>, with the line a block walks.  \<^verbatim>\<open>Rmt_Sink\<close>: the
  executor's sinks, interpreting the locale \<^verbatim>\<open>counted_sink\<close>.  \<^verbatim>\<open>Homing\<close>, \<^verbatim>\<open>Homing_Props\<close>, \<^verbatim>\<open>Motion_Props\<close>:
  limits, homing, probes and the bursts of a block.

  Settings and state kept in flash.  \<^verbatim>\<open>Storage_Frame\<close>: the CRC-checked frame.  \<^verbatim>\<open>Settings\<close>, \<^verbatim>\<open>Settings_Facts\<close>,
  \<^verbatim>\<open>Settings_Props\<close>: the record, setter, descriptors and sanitizer of \<^verbatim>\<open>settings.rs\<close>.  \<^verbatim>\<open>Settings_Store\<close>,
  \<^verbatim>\<open>Settings_Store_Props\<close>: its message, record, loaders and the chunked \<^verbatim>\<open>$PBX\<close> receiver.  \<^verbatim>\<open>Coords\<close>,
  \<^verbatim>\<open>Coords_Props\<close>: \<^verbatim>\<open>coords.rs\<close>.

  Drivers.  \<^verbatim>\<open>Tmc2209\<close>: datagrams, registers, start-up and probe of the stepper drivers.  \<^verbatim>\<open>Spindle_Coolant\<close>:
  the two controllers and their tasks.

  The consumer task (\<^verbatim>\<open>firmware/src/comms.rs\<close> and \<^verbatim>\<open>comms/\<close>).  \<^verbatim>\<open>Reports\<close>: the lines of the queries.
  \<^verbatim>\<open>Firmware_State\<close>: the statics all tasks share and the consumer's own record, one record \<^verbatim>\<open>Firmware\<close> that
  holds the receive half as its field \<^verbatim>\<open>comms\<close>.  \<^verbatim>\<open>Executor\<close>: the loop of the executor as
  a step on its phase, and \<^verbatim>\<open>await\<close>, the consumer's suspension.  \<^verbatim>\<open>Consumer_Base\<close>, \<^verbatim>\<open>Consumer_Commands\<close>,
  \<^verbatim>\<open>Consumer\<close>: responses, flushes, resets and stops; the \<^verbatim>\<open>$\<close> commands and homing; G-code lines, jogs,
  probes, pauses and the task's loop.  \<^verbatim>\<open>Boot_Status\<close>: the statics after boot and the status responder.
  \<^verbatim>\<open>Consumer_Facts\<close>, \<^verbatim>\<open>Consumer_Answers\<close>, \<^verbatim>\<open>Consumer_Accounting\<close>, \<^verbatim>\<open>Consumer_Queries\<close>, \<^verbatim>\<open>Consumer_Stops\<close>: what the
  other tasks leave alone (locale \<^verbatim>\<open>undisturbed\<close>), what lasts through a wait (locale \<^verbatim>\<open>lasting\<close>), the count of
  answers against lines through every handler, what a query does, what the graceful stop leaves.
  \<^verbatim>\<open>Consumer_Props\<close>: the properties of the task.

  Watchdogs (\<^verbatim>\<open>diag.rs\<close>, \<^verbatim>\<open>crash.rs\<close>, \<^verbatim>\<open>comms/watchdog.rs\<close>, \<^verbatim>\<open>stall_detector.rs\<close>).  \<^verbatim>\<open>Watchdog\<close>,
  \<^verbatim>\<open>Watchdog_Props\<close>: the classifiers and packed words, the feeder and the stall interrupt over one breadcrumb.

  \<^bold>\<open>What the theorems show.\<close>  The host: the accounting of lines and bytes is an invariant of every run, no
  input makes it exceed the advertised buffer, a program is written once, in order and to its end, and
  nothing is written after a stop.  The link: the lines the consumer takes are the lines framed, under
  any interleaving; what the firmware reports is what the host reads; however the engine's writes are cut short and
  pre-empted, the wire carries whole granted lines.  The watchdogs: the feeder withholds exactly on a window of
  stalled samples, and a board reset while starved boots locked.  The consumer: a line gets at most one answer
  on every path, the gates of error hold, alarm, sleep and check mode let nothing through, writes are
  refused while the machine moves, a warm reset and a graceful stop leave the position and clear the rest, a
  query returns and changes nothing.  Motion: the recalculated plan is feasible and pointwise the
  fastest, a committed exit speed is kept, the position is the sum of the queued steps, a block walks
  its line, a probe stops at the first contact, homing moves one axis within its bounds.
  Language and settings: a line is accepted exactly when it has one word of each modal group, commands are
  well formed and carry the words of their line, an accepted setting survives the sanitizer, records and
  coordinates survive storage, boot settings are usable whatever the flash holds.  Some theorems pin down
  where the code leaves what its comments promise: a stop in a feed hold that never returns, a
  blocked line that survives a reset, the mark of a stall that has passed, G92 under a tool-length offset; others are
  lemmas beside the properties (an entry speed that turns negative, a burst write that is forgotten, a
  spindle that stays off after an alarm).

  \<^bold>\<open>Model conventions, bounds and fuel.\<close>  A task that waits is modelled where it waits: the reader and
  the assembler by their blocked fields, the consumer by \<^verbatim>\<open>await\<close>, which consumes the field \<^verbatim>\<open>script\<close>.  Each
  element of the script is what the other tasks do until the consumer is polled again; theorems quantify over
  all scripts.  A handler that still waits when the script ends is \<^verbatim>\<open>None\<close>, so a theorem that it
  returns is about scripts that give it what it waits for: \<^verbatim>\<open>drains k\<close> says that the transmitter takes a
  response \<^verbatim>\<open>k\<close> times while the consumer waits, and \<^verbatim>\<open>query_length\<close> counts the responses of a query, so
  \<^verbatim>\<open>drains (query_length cmd bd m) m\<close> is enough.  Where two futures of a select are ready the field \<^verbatim>\<open>choices\<close>
  (in the receive path the argument \<^verbatim>\<open>byte_first\<close>) decides, for all choices.  Mutexes and flash writes do not
  suspend the consumer, and the environment acts only where it awaits an event or room for a response.
  Timers have their duration recorded; whether one expires is the script's choice.  Loops are structural or come
  with a measure: the release loop of the core ends with the queue, the block loop with the ticks left,
  an arc with its segments; the homing search is bounded by the source's own step bound.  Integers that can
  wrap are words of their width; floats are binary32 values without NaN payloads.  Functions of
  \<^verbatim>\<open>libm\<close>, the code generated from \<^verbatim>\<open>settings.proto\<close>, esp-hal, the flash, \<^verbatim>\<open>from_utf8_lossy\<close> and the
  \<^verbatim>\<open>{:.3}\<close> rendering of a float are arguments, with their documented behaviour as named
  hypotheses or a locale, and concrete instances in the witnesses.  Boot messages held back for the first
  query are kept as their texts.

  \<^bold>\<open>Not modelled.\<close>  The velocity profile of the segment generator is a parameter (\<^verbatim>\<open>rate\<close>), as are the
  driver's current formula \<^verbatim>\<open>cs_for_current\<close> and the float conversions of homing; the job-time estimate of
  \<^verbatim>\<open>motion.rs\<close> and the simulator \<^verbatim>\<open>sim.rs\<close> are left out.  Of the firmware: the text of the crash
  report (\<^verbatim>\<open>crash_report.rs\<close>), the register side of the watchdogs (\<^verbatim>\<open>survivable_watchdog.rs\<close>), the driver task \<^verbatim>\<open>tmc.rs\<close>, the flash driver
  \<^verbatim>\<open>storage.rs\<close>, peripheral bring-up and task spawning: they are register access and diagnostics around the logic
  modelled here.  The code generated from \<^verbatim>\<open>settings.proto\<close> is not in the sources.  Of the host:
  transports, the time estimate, configuration, localisation and the \<^verbatim>\<open>egui\<close> application.  The \<^verbatim>\<open>eitri\<close> workspace (a
  CAM program on double-precision geometry) shares no code with the mill and is left aside.
\<close>

end
